(* ===== verification/Prelude.thy ===== *)
theory Prelude
  imports Main "HOL-Library.Word" "HOL-Library.Monad_Syntax"
begin

unbundle bit_operations_syntax

text \<open>
  What every component of the development shares: the C integer types as words, pointers
  and function pointers, array accesses that fail outside the array, the facts on powers of
  two and on free-running 16-bit ring indices that the rings of
  \<^verbatim>\<open>lib/virtio/virtqueue.c\<close> rest on, and the contract of a bounded FIFO queue as a locale,
  with the consequences of that contract for every interleaving of producer and consumer.

  Every operation that can leave defined behaviour returns an option: \<open>None\<close> is an execution
  that dereferences NULL, indexes an array outside its bounds, or hangs in \<open>RL_HANG\<close> or in
  a \<open>VQASSERT\<close>. The pointers are those of the 32-bit ports (\<open>uintptr_t\<close> is 32 bits wide
  and \<open>env_map_patova\<close> takes a \<open>uint32_t\<close>).
\<close>

section \<open>Machine types\<close>

type_synonym u8 = "8 word"
type_synonym u16 = "16 word"
type_synonym u32 = "32 word"
type_synonym u64 = "64 word"

text \<open>A pointer is a 32-bit address; NULL is 0.\<close>

type_synonym ptr = u32

abbreviation (input) NULL :: ptr where
  "NULL \<equiv> 0"

text \<open>
  Function pointers: the functions of the library that are stored in virtqueues and
  endpoints, and the callbacks of the application, which are not part of the library.
\<close>

datatype fn_ptr =
    Fn_NULL
  | Fn_rpmsg_lite_rx_callback
  | Fn_rpmsg_lite_tx_callback
  | Fn_virtqueue_notify
  | Fn_rpmsg_queue_rx_cb
  | Fn_rpmsg_ns_rx_cb
  | Fn_app nat

named_theorems rl_defs \<open>definitions the component proofs unfold\<close>
named_theorems ring_simps \<open>facts on free-running ring indices\<close>

section \<open>Array accesses\<close>

text \<open>Reading and writing an array element; outside the array there is no defined result.\<close>

definition rd :: "'a list \<Rightarrow> nat \<Rightarrow> 'a option" where
  "rd xs i = (if i < length xs then Some (xs ! i) else None)"

definition wr :: "'a list \<Rightarrow> nat \<Rightarrow> 'a \<Rightarrow> 'a list option" where
  "wr xs i v = (if i < length xs then Some (xs[i := v]) else None)"

lemma rd_in [simp]: "i < length xs \<Longrightarrow> rd xs i = Some (xs ! i)"
  by (simp add: rd_def)

lemma wr_in [simp]: "i < length xs \<Longrightarrow> wr xs i v = Some (xs[i := v])"
  by (simp add: wr_def)

lemma rd_eq_Some [simp]: "rd xs i = Some v \<longleftrightarrow> i < length xs \<and> v = xs ! i"
  by (auto simp: rd_def)

lemma wr_eq_Some [simp]: "wr xs i v = Some ys \<longleftrightarrow> i < length xs \<and> ys = xs[i := v]"
  by (auto simp: wr_def)

lemma rd_eq_None [simp]: "rd xs i = None \<longleftrightarrow> length xs \<le> i"
  by (auto simp: rd_def)

lemma wr_eq_None [simp]: "wr xs i v = None \<longleftrightarrow> length xs \<le> i"
  by (auto simp: wr_def)

text \<open>An assertion of the code: \<open>RL_ASSERT\<close> hangs when its condition fails.\<close>

definition rl_assert :: "bool \<Rightarrow> unit option" where
  "rl_assert b = (if b then Some () else None)"

lemma rl_assert_simps [simp]:
  "rl_assert True = Some ()" "rl_assert False = None"
  "rl_assert b = Some u \<longleftrightarrow> b" "rl_assert b = None \<longleftrightarrow> \<not> b"
  by (auto simp: rl_assert_def)

lemma map_remove1_distinct:
  "distinct (map f xs) \<Longrightarrow> x \<in> set xs \<Longrightarrow> map f (remove1 x xs) = remove1 (f x) (map f xs)"
proof (induction xs)
  case (Cons a xs)
  then have "f a \<noteq> f x" if "x \<in> set xs" using that imageI [of x "set xs" f] by auto
  with Cons show ?case by auto
qed simp

section \<open>Powers of two and masks\<close>

text \<open>The test the code uses for a power of two: \<open>n \<noteq> 0 \<and> (n & (n - 1)) == 0\<close>.\<close>

definition is_pow2 :: "'a::len word \<Rightarrow> bool" where
  "is_pow2 n \<longleftrightarrow> n \<noteq> 0 \<and> n AND (n - 1) = 0"

lemma nat_and_pred:
  "0 < (m::nat) \<Longrightarrow> m AND (m - 1) = 0 \<Longrightarrow> \<exists>k. m = 2 ^ k"
proof (induction m rule: less_induct)
  case (less m)
  show ?case
  proof (cases "even m")
    case True
    then obtain q where q: "m = 2 * q" by blast
    with less.prems have q0: "0 < q" by simp
    have "m - 1 = 2 * (q - 1) + 1" using q q0 by simp
    then have "m AND (m - 1) = 2 * (q AND (q - 1))"
      using q by (simp add: and_nat_rec [of "2 * q"])
    with less.prems have "q AND (q - 1) = 0" by simp
    with less.IH [of q] q q0 obtain k where "q = 2 ^ k" by auto
    with q have "m = 2 ^ Suc k" by simp
    then show ?thesis by blast
  next
    case False
    then obtain q where q: "m = 2 * q + 1" using oddE by blast
    then have "m AND (m - 1) = 2 * q" by (simp add: and_nat_rec [of "Suc (2 * q)"])
    with less.prems q have "m = 2 ^ 0" by simp
    then show ?thesis by blast
  qed
qed

lemma is_pow2_ex:
  fixes n :: "'a::len word"
  assumes "is_pow2 n"
  shows "\<exists>k. unat n = 2 ^ k"
proof (rule nat_and_pred)
  have n0: "n \<noteq> 0" and a: "n AND (n - 1) = 0"
    using assms by (auto simp: is_pow2_def)
  show "0 < unat n" using n0 by (simp add: unat_gt_0)
  have "unat n AND (unat n - 1) = unat (n AND (n - 1))"
    using n0 by (simp add: unsigned_and_eq unat_minus_one)
  then show "unat n AND (unat n - 1) = 0" using a by simp
qed

lemma unat_and_pred:
  fixes n x :: "'a::len word"
  assumes "is_pow2 n"
  shows "unat (x AND (n - 1)) = unat x mod unat n"
proof -
  obtain k where k: "unat n = 2 ^ k" using is_pow2_ex [OF assms] by blast
  have "n \<noteq> 0" using assms by (simp add: is_pow2_def)
  then have "unat (n - 1) = 2 ^ k - 1" using k by (simp add: unat_minus_one)
  then show ?thesis
    using k
    by (simp add: unsigned_and_eq take_bit_eq_mask mask_eq_exp_minus_1 flip: take_bit_eq_mod)
qed

lemma word_and_not_mask:
  fixes n x :: "'a::len word"
  assumes "is_pow2 n"
  shows "unat (x AND NOT (n - 1)) = unat x - unat x mod unat n"
proof -
  have "x AND NOT (n - 1) = x AND NOT (x AND (n - 1))"
    by (rule bit_word_eqI) (auto simp: bit_simps)
  also have "\<dots> = x - (x AND (n - 1))"
    by (rule disjunctive_diff_eq_and_not [symmetric]) (auto intro!: bit_word_eqI simp: bit_simps)
  finally have "x AND NOT (n - 1) = x - (x AND (n - 1))" .
  moreover have "unat (x AND (n - 1)) \<le> unat x"
    by (simp add: unat_and_pred [OF assms])
  ultimately show ?thesis
    by (simp add: unat_sub word_le_nat_alt unat_and_pred [OF assms])
qed

text \<open>Rounding up to a multiple of a power of two, the way the code aligns addresses.\<close>

definition align_up :: "nat \<Rightarrow> nat \<Rightarrow> nat" where
  "align_up a x = (x + (a - 1)) div a * a"

lemma align_up_eq: "align_up a x = x + (a - 1) - (x + (a - 1)) mod a"
  by (simp add: align_up_def minus_mod_eq_div_mult)

lemma align_up_ge:
  assumes "0 < a" shows "x \<le> align_up a x"
proof -
  have "(x + (a - 1)) mod a < a" using assms by simp
  then show ?thesis unfolding align_up_eq by linarith
qed

lemma align_up_less:
  assumes "0 < a" shows "align_up a x < x + a"
  using assms unfolding align_up_eq by linarith

lemma align_up_mod [simp]: "align_up a x mod a = 0"
  by (simp add: align_up_def)

lemma align_up_mono: "x \<le> y \<Longrightarrow> align_up a x \<le> align_up a y"
  by (simp add: align_up_def div_le_mono)

lemma align_up_add_mult:
  assumes "p mod a = 0" "0 < a"
  shows "align_up a (p + x) = p + align_up a x"
proof -
  obtain q where p: "p = q * a" using assms(1) by (metis div_mult_mod_eq add.right_neutral)
  have "(q * a + (x + (a - 1))) div a = q + (x + (a - 1)) div a"
    using assms(2) by (intro div_mult_self3) simp
  then show ?thesis
    unfolding align_up_def p by (metis add.assoc distrib_right)
qed

lemma mult_gap:
  fixes m M a :: nat
  assumes "m mod a = 0" "M mod a = 0" "m < M"
  shows "m + a \<le> M"
proof -
  have "a dvd M - m" using assms by (simp add: dvd_diff_nat mod_0_imp_dvd)
  then have "a \<le> M - m" using assms(3) by (intro dvd_imp_le) simp_all
  then show ?thesis using assms(3) by linarith
qed

lemma unat_align_up:
  fixes n x :: "'a::len word"
  assumes n: "is_pow2 n" and top: "align_up (unat n) (unat x) < 2 ^ LENGTH('a)"
  shows "unat ((x + n - 1) AND NOT (n - 1)) = align_up (unat n) (unat x)"
proof -
  obtain k where k: "unat n = 2 ^ k" using is_pow2_ex [OF n] by blast
  have "unat n < 2 ^ LENGTH('a)" by (rule unsigned_less)
  then have "(2::nat) ^ k < 2 ^ LENGTH('a)" using k by simp
  then have "k < LENGTH('a)" by (rule power_less_imp_less_exp [rotated]) simp
  then have "(2::nat) ^ LENGTH('a) mod unat n = 0"
    unfolding k by (intro dvd_imp_mod_0 le_imp_power_dvd) simp
  then have gap: "align_up (unat n) (unat x) + unat n \<le> 2 ^ LENGTH('a)"
    using top by (intro mult_gap) simp_all
  have "(unat x + (unat n - 1)) mod unat n < unat n" using k by simp
  then have lt: "unat x + (unat n - 1) < 2 ^ LENGTH('a)"
    using gap unfolding align_up_eq by linarith
  have "unat (n - 1) = unat n - 1"
    using n by (simp add: is_pow2_def unat_minus_one)
  then have "unat (x + n - 1) = unat x + (unat n - 1)"
    using lt by (simp add: add_diff_eq [symmetric] unat_word_ariths(1))
  then show ?thesis
    using n by (simp add: word_and_not_mask align_up_eq)
qed

lemma is_pow2_pos: "is_pow2 n \<Longrightarrow> 0 < unat n"
  by (simp add: is_pow2_def unat_gt_0)

lemma is_pow2_u16_dvd:
  fixes n :: u16
  assumes "is_pow2 n"
  shows "unat n dvd 65536" and "unat n \<le> 32768"
proof -
  obtain k where k: "unat n = 2 ^ k" using is_pow2_ex [OF assms] by blast
  have "unat n < 2 ^ LENGTH(16)" by (rule unsigned_less)
  then have lt: "(2::nat) ^ k < 2 ^ 16" using k by simp
  then have "k < 16" by (rule power_less_imp_less_exp [rotated]) simp
  then have k15: "k \<le> 15" by simp
  have "(2::nat) ^ k dvd 2 ^ 16" using k15 by (intro le_imp_power_dvd) simp
  then show "unat n dvd 65536" using k by simp
  have "(2::nat) ^ k \<le> 2 ^ 15" using k15 by (intro power_increasing) simp_all
  then show "unat n \<le> 32768" using k by simp
qed

lemma unat_u16_less: "unat (x :: u16) < 65536"
proof -
  have "unat x < 2 ^ LENGTH(16)" by (rule unsigned_less)
  then show ?thesis by simp
qed

lemma unat_u32_less: "unat (x :: u32) < 4294967296"
proof -
  have "unat x < 2 ^ LENGTH(32)" by (rule unsigned_less)
  then show ?thesis by simp
qed

lemma unat_u16_u32 [simp]: "unat (ucast (x :: u16) :: u32) = unat x"
proof -
  have "unat x < 2 ^ 32" using unat_u16_less [of x] by simp
  then show ?thesis by (simp add: unsigned_ucast_eq take_bit_nat_eq_self)
qed

lemma ucast_u16_u32 [simp]: "(ucast (ucast (x :: u16) :: u32) :: u16) = x"
  by (rule bit_word_eqI) (simp add: bit_simps)

lemma bit_less_exp:
  fixes w :: "'a::len word"
  assumes "unat w < 2 ^ k" "bit w n" shows "n < k"
proof -
  have "bit (unat w) n" using assms(2) bit_imp_le_length [OF assms(2)] by (simp add: bit_unsigned_iff)
  moreover have "take_bit k (unat w) = unat w" using assms(1) by (rule take_bit_nat_eq_self)
  ultimately show ?thesis by (metis bit_take_bit_iff)
qed

section \<open>Free-running ring indices\<close>

text \<open>
  A ring of \<open>N\<close> slots is addressed by two free-running 16-bit indices, the producer's
  \<open>p\<close> and the consumer's \<open>c\<close>; the entries in flight are those at \<open>c, c + 1, \<dots>, p - 1\<close>,
  each taken modulo \<open>N\<close>. The indices wrap at \<open>2^16\<close>, which \<open>N\<close> divides.
\<close>

definition ring_list :: "nat \<Rightarrow> 'a list \<Rightarrow> u16 \<Rightarrow> u16 \<Rightarrow> 'a list" where
  "ring_list N r c p = map (\<lambda>i. r ! ((unat c + i) mod N)) [0..<unat (p - c)]"

lemma length_ring_list [simp]: "length (ring_list N r c p) = unat (p - c)"
  by (simp add: ring_list_def)

lemma ring_list_empty [simp]: "ring_list N r c c = []"
  by (simp add: ring_list_def)

lemma ring_list_eq_Nil [simp]: "ring_list N r c p = [] \<longleftrightarrow> c = p"
  by (auto simp: ring_list_def unat_eq_0)

lemma unat_succ_mod [ring_simps]:
  fixes c :: u16
  assumes "N dvd 65536"
  shows "unat (c + 1) mod N = (unat c + 1) mod N"
  using assms by (simp add: unat_word_ariths mod_mod_cancel)

lemma unat_diff_mod [ring_simps]:
  fixes c p :: u16
  assumes "N dvd 65536"
  shows "(unat c + unat (p - c)) mod N = unat p mod N"
proof -
  have "unat p = (unat c + unat (p - c)) mod 65536"
    using unat_word_ariths(1) [of c "p - c"] by simp
  then show ?thesis using assms by (simp add: mod_mod_cancel)
qed

lemma unat_diff_succ:
  fixes c p :: u16
  assumes "unat (p - c) < 65535"
  shows "unat (p + 1 - c) = Suc (unat (p - c))"
proof -
  have "p + 1 - c = 1 + (p - c)" by simp
  moreover have "1 + (p - c) \<noteq> 0"
  proof
    assume "1 + (p - c) = 0"
    then have "p - c = - 1" by (metis add_eq_0_iff)
    with assms show False
      by (simp add: unsigned_minus_1_eq_mask mask_eq_exp_minus_1)
  qed
  ultimately show ?thesis using unatSuc by metis
qed

lemma unat_diff_pred:
  fixes c p :: u16
  assumes "c \<noteq> p"
  shows "unat (p - c) = Suc (unat (p - (c + 1)))"
proof -
  have "p - c \<noteq> 0" using assms by simp
  then have "unat (p - c - 1) = unat (p - c) - 1" by (rule unat_minus_one)
  moreover have "0 < unat (p - c)" using assms by (simp add: unat_gt_0)
  ultimately show ?thesis by (simp add: diff_diff_eq)
qed

lemma mod_add_inj:
  fixes a i j N :: nat
  assumes "i < N" "j < N" "(a + i) mod N = (a + j) mod N"
  shows "i = j"
proof -
  have *: "i = j" if "i \<le> j" "j < N" "(a + j) mod N = (a + i) mod N" for i j
  proof -
    have "N dvd j - i"
      using that mod_eq_dvd_iff_nat [of "a + i" "a + j" N] by simp
    then show ?thesis
      using that by (metis dvd_imp_le diff_is_0_eq less_imp_diff_less
        linorder_not_less neq0_conv le_antisym)
  qed
  show ?thesis
    using assms * [of i j] * [of j i] by (metis nat_le_linear)
qed

lemma ring_list_enq:
  assumes N: "N dvd 65536" "0 < N" "N \<le> 32768" "N \<le> length r"
    and room: "unat (p - c) < N"
  shows "ring_list N (r[unat p mod N := x]) c (p + 1) = ring_list N r c p @ [x]"
proof -
  have "unat (p + 1 - c) = Suc (unat (p - c))"
    using N(3) room by (intro unat_diff_succ) simp
  moreover have "(unat c + unat (p - c)) mod N = unat p mod N"
    by (rule unat_diff_mod [OF N(1)])
  moreover have "unat p mod N < length r"
    using N by (meson mod_less_divisor order_less_le_trans)
  moreover have "unat p mod N \<noteq> (unat c + i) mod N" if "i < unat (p - c)" for i
    using that mod_add_inj [of i N "unat (p - c)" "unat c"] room calculation(2) by auto
  ultimately show ?thesis
    by (simp add: ring_list_def)
qed

lemma ring_list_deq:
  assumes N: "N dvd 65536" and ne: "c \<noteq> p"
  shows "ring_list N r c p = r ! (unat c mod N) # ring_list N r (c + 1) p"
proof -
  have "[0..<unat (p - c)] = 0 # map Suc [0..<unat (p - (c + 1))]"
    using unat_diff_pred [OF ne] by (simp add: map_Suc_upt upt_conv_Cons)
  moreover have "(unat (c + 1) + i) mod N = (unat c + Suc i) mod N" for i
    using unat_succ_mod [OF N, of c]
    by (metis add_Suc_right add_Suc_shift Suc_eq_plus1 mod_add_left_eq)
  ultimately show ?thesis
    by (simp add: ring_list_def)
qed

lemma ring_list_slot_other:
  assumes N: "N dvd 65536" and room: "unat (p - c) < N"
  shows "ring_list N (r[unat p mod N := x]) c p = ring_list N r c p"
proof -
  have "unat p mod N \<noteq> (unat c + i) mod N" if "i < unat (p - c)" for i
    using that mod_add_inj [of i N "unat (p - c)" "unat c"] room unat_diff_mod [OF N, of c p]
    by auto
  then show ?thesis
    by (simp add: ring_list_def)
qed

section \<open>The contract of a bounded FIFO queue\<close>

text \<open>
  A queue with one producer and one consumer: \<open>enq\<close> and \<open>deq\<close> are the operations a
  client calls (\<open>None\<close> is a failed execution; \<open>deq\<close> returns no element on an empty
  queue), \<open>items\<close> its contents, oldest first, \<open>cap\<close> how many elements it takes, \<open>ok\<close> which
  elements a queue of a capacity takes. The rings of a virtqueue are interpretations of this contract.
\<close>

fun somes :: "'a option list \<Rightarrow> 'a list" where
  "somes [] = []"
| "somes (None # es) = somes es"
| "somes (Some x # es) = x # somes es"

text \<open>
  A schedule interleaves the two sides: \<open>Some x\<close> lets the producer enqueue \<open>x\<close>,
  \<open>None\<close> lets the consumer poll. The result pairs what the consumer got with the queue.
\<close>

fun fifo_run ::
  "('a \<Rightarrow> 'q \<Rightarrow> 'q option) \<Rightarrow> ('q \<Rightarrow> ('a option \<times> 'q) option) \<Rightarrow> 'a option list \<Rightarrow> 'q
    \<Rightarrow> ('a list \<times> 'q) option" where
  "fifo_run enq deq [] q = Some ([], q)"
| "fifo_run enq deq (Some x # es) q =
     (case enq x q of None \<Rightarrow> None | Some q' \<Rightarrow> fifo_run enq deq es q')"
| "fifo_run enq deq (None # es) q =
     (case deq q of
        None \<Rightarrow> None
      | Some (r, q') \<Rightarrow>
          (case fifo_run enq deq es q' of
             None \<Rightarrow> None
           | Some (out, q'') \<Rightarrow> Some ((case r of None \<Rightarrow> out | Some x \<Rightarrow> x # out), q'')))"

text \<open>
  A schedule is admissible for a queue of capacity \<open>n\<close> that holds \<open>k\<close> elements when the
  producer only enqueues elements the queue takes, and only while there is room.
\<close>

fun admissible :: "(nat \<Rightarrow> 'a \<Rightarrow> bool) \<Rightarrow> 'a option list \<Rightarrow> nat \<Rightarrow> nat \<Rightarrow> bool" where
  "admissible ok [] n k = True"
| "admissible ok (Some x # es) n k = (k < n \<and> ok n x \<and> admissible ok es n (Suc k))"
| "admissible ok (None # es) n k = admissible ok es n (k - 1)"

locale bounded_fifo =
  fixes enq :: "'a \<Rightarrow> 'q \<Rightarrow> 'q option"
    and deq :: "'q \<Rightarrow> ('a option \<times> 'q) option"
    and items :: "'q \<Rightarrow> 'a list"
    and cap :: "'q \<Rightarrow> nat"
    and ok :: "nat \<Rightarrow> 'a \<Rightarrow> bool"
    and invar :: "'q \<Rightarrow> bool"
  assumes enq_spec: "invar q \<Longrightarrow> length (items q) < cap q \<Longrightarrow> ok (cap q) x \<Longrightarrow>
      \<exists>q'. enq x q = Some q' \<and> invar q' \<and> items q' = items q @ [x] \<and> cap q' = cap q"
    and deq_empty: "invar q \<Longrightarrow> items q = [] \<Longrightarrow> deq q = Some (None, q)"
    and deq_Cons: "invar q \<Longrightarrow> items q = x # xs \<Longrightarrow>
      \<exists>q'. deq q = Some (Some x, q') \<and> invar q' \<and> items q' = xs \<and> cap q' = cap q"
begin

text \<open>
  Whatever the interleaving, nothing faults, and what the consumer got followed by what is
  still queued is what was queued followed by what the producer put in: no element is lost,
  duplicated or reordered.
\<close>

lemma run_fifo:
  assumes "invar q" and "admissible ok es (cap q) (length (items q))"
  shows "\<exists>out q'. fifo_run enq deq es q = Some (out, q') \<and> invar q' \<and> cap q' = cap q \<and>
           out @ items q' = items q @ somes es"
  using assms
proof (induction es arbitrary: q)
  case Nil
  then show ?case by simp
next
  case (Cons e es)
  show ?case
  proof (cases e)
    case (Some x)
    with Cons.prems obtain q1 where
      q1: "enq x q = Some q1" "invar q1" "items q1 = items q @ [x]" "cap q1 = cap q"
      using enq_spec [of q x] by auto
    moreover have "admissible ok es (cap q1) (length (items q1))"
      using Cons.prems(2) Some q1 by simp
    ultimately show ?thesis using Cons.IH [OF q1(2)] Some by simp
  next
    case None
    show ?thesis
    proof (cases "items q")
      case Nil
      with Cons.prems(1) have d: "deq q = Some (None, q)" by (rule deq_empty)
      have "admissible ok es (cap q) (length (items q))" using Cons.prems(2) None Nil by simp
      with Cons.IH [OF Cons.prems(1)] obtain out q2 where
        "fifo_run enq deq es q = Some (out, q2)" "invar q2" "cap q2 = cap q"
        "out @ items q2 = items q @ somes es" by auto
      with d None show ?thesis by simp
    next
      case (Cons x xs)
      with Cons.prems(1) deq_Cons [of q x xs] obtain q1 where
        q1: "deq q = Some (Some x, q1)" "invar q1" "items q1 = xs" "cap q1 = cap q"
        by auto
      have "admissible ok es (cap q1) (length (items q1))"
        using Cons.prems(2) None Cons q1 by simp
      with Cons.IH [OF q1(2)] obtain out q2 where
        "fifo_run enq deq es q1 = Some (out, q2)" "invar q2" "cap q2 = cap q1"
        "out @ items q2 = items q1 @ somes es" by auto
      with q1 Cons None show ?thesis by simp
    qed
  qed
qed

end

end
