(* ===== verification/Vring.thy ===== *)
theory Vring
  imports Prelude
begin

text \<open>
  The vring of \<^verbatim>\<open>lib/include/virtio_ring.h\<close>: the descriptor table, the available ring and the
  used ring that two cores share, the size and the layout of the chunk of memory that holds
  them, and the event-index test. Memory is seen through the C types: a \<open>vring_mem\<close> is the
  chunk a \<open>struct vring\<close> points into. The arrays of the rings have one element more than
  the ring has entries, as the chunk \<open>vring_size\<close> reserves does: the element after the ring
  holds the event index of the other side.
\<close>

section \<open>The shared structures\<close>

record vring_desc =
  d_addr :: u64
  d_len :: u32
  d_flags :: u16
  d_next :: u16

record vring_avail =
  av_flags :: u16
  av_idx :: u16
  av_ring :: "u16 list"

record vring_used_elem =
  ue_id :: u32
  ue_len :: u32

record vring_used =
  us_flags :: u16
  us_idx :: u16
  us_ring :: "vring_used_elem list"

text \<open>\<open>struct vring\<close>: the number of entries and the pointers to the three parts.\<close>

record vring =
  vr_num :: u32
  vr_desc :: ptr
  vr_avail :: ptr
  vr_used :: ptr

text \<open>The chunk of shared memory that the three pointers of a \<open>struct vring\<close> point into.\<close>

record vring_mem =
  vm_desc :: "vring_desc list"
  vm_avail :: vring_avail
  vm_used :: vring_used

abbreviation (input) VRING_DESC_F_WRITE :: u16 where
  "VRING_DESC_F_WRITE \<equiv> 2"

abbreviation (input) VRING_USED_F_NO_NOTIFY :: u16 where
  "VRING_USED_F_NO_NOTIFY \<equiv> 1"

abbreviation (input) VRING_AVAIL_F_NO_INTERRUPT :: u16 where
  "VRING_AVAIL_F_NO_INTERRUPT \<equiv> 1"

text \<open>What \<open>env_memset(phy_addr, 0, vring_size(num, align))\<close> leaves in the chunk.\<close>

definition vring_mem_zero :: "nat \<Rightarrow> vring_mem" where
  "vring_mem_zero n =
     \<lparr>vm_desc = replicate n \<lparr>d_addr = 0, d_len = 0, d_flags = 0, d_next = 0\<rparr>,
      vm_avail = \<lparr>av_flags = 0, av_idx = 0, av_ring = replicate (Suc n) 0\<rparr>,
      vm_used = \<lparr>us_flags = 0, us_idx = 0,
        us_ring = replicate (Suc n) \<lparr>ue_id = 0, ue_len = 0\<rparr>\<rparr>\<rparr>"

definition vring_mem_wf :: "nat \<Rightarrow> vring_mem \<Rightarrow> bool" where
  "vring_mem_wf n vm \<longleftrightarrow>
     length (vm_desc vm) = n \<and> length (av_ring (vm_avail vm)) = Suc n \<and>
     length (us_ring (vm_used vm)) = Suc n"

lemma vring_mem_zero_wf [simp]: "vring_mem_wf n (vring_mem_zero n)"
  by (simp add: vring_mem_wf_def vring_mem_zero_def)

lemma vring_mem_zero_simps [simp]:
  "av_idx (vm_avail (vring_mem_zero n)) = 0" "us_idx (vm_used (vring_mem_zero n)) = 0"
  "av_flags (vm_avail (vring_mem_zero n)) = 0" "us_flags (vm_used (vring_mem_zero n)) = 0"
  by (simp_all add: vring_mem_zero_def)

section \<open>Event indices\<close>

text \<open>
  The macros \<open>vring_used_event\<close> and \<open>vring_avail_event\<close> name the array element after the
  ring; an access outside the array has no defined result.
\<close>

definition set_vring_used_event :: "vring \<Rightarrow> vring_mem \<Rightarrow> u16 \<Rightarrow> vring_mem option" where
  "set_vring_used_event vr vm v =
     do { r \<leftarrow> wr (av_ring (vm_avail vm)) (unat (vr_num vr)) v;
          Some (vm\<lparr>vm_avail := (vm_avail vm)\<lparr>av_ring := r\<rparr>\<rparr>) }"

definition vring_avail_event :: "vring \<Rightarrow> vring_mem \<Rightarrow> u32 option" where
  "vring_avail_event vr vm =
     do { e \<leftarrow> rd (us_ring (vm_used vm)) (unat (vr_num vr)); Some (ue_id e) }"

text \<open>
  The comparison is on \<open>int\<close>: the operands are 16-bit, but C promotes them before it
  subtracts and nothing narrows the differences back to 16 bits.
\<close>

definition vring_need_event :: "u16 \<Rightarrow> u16 \<Rightarrow> u16 \<Rightarrow> int" where
  "vring_need_event event_idx new_idx old =
     (if uint new_idx - uint event_idx - 1 < uint new_idx - uint old then 1 else 0)"

text \<open>The event test of the VirtIO specification: the differences are taken modulo \<open>2^16\<close>.\<close>

definition need_event_spec :: "u16 \<Rightarrow> u16 \<Rightarrow> u16 \<Rightarrow> bool" where
  "need_event_spec event_idx new_idx old \<longleftrightarrow> new_idx - event_idx - 1 < new_idx - old"

section \<open>Size and layout\<close>

text \<open>\<open>sizeof\<close>: 16 for a descriptor, 6 for \<open>vring_avail\<close>, 12 for \<open>vring_used\<close>, 8 for
  \<open>vring_used_elem\<close>.\<close>

definition vring_size :: "u32 \<Rightarrow> u32 \<Rightarrow> int" where
  "vring_size num align =
     (let size = num * 16;
          size = size + (6 + num * 2 + 2);
          size = (size + align - 1) AND NOT (align - 1);
          size = size + (12 + num * 8 + 2)
      in sint size)"

definition vring_init :: "u32 \<Rightarrow> ptr \<Rightarrow> u32 \<Rightarrow> vring" where
  "vring_init num p align =
     \<lparr>vr_num = num,
      vr_desc = p,
      vr_avail = p + num * 16,
      vr_used = ((p + num * 16 + 4 + num * 2) + align - 1) AND NOT (align - 1)\<rparr>"

lemma sint_eq_unat:
  fixes w :: u32
  assumes "unat w < 2 ^ 31"
  shows "sint w = int (unat w)"
proof -
  have w: "int (unat w) < 2 ^ 31" using assms by (metis of_nat_less_iff of_nat_numeral of_nat_power)
  have "sint w = signed_take_bit 31 (int (unat w))" by (simp add: sint_uint)
  also have "\<dots> = int (unat w)"
    by (rule signed_take_bit_int_eq_self) (use w in linarith)+
  finally show ?thesis .
qed

lemma vring_size_eq:
  fixes num align :: u32
  assumes a: "is_pow2 align" "unat align \<le> 65536" and n: "unat num \<le> 32768"
  shows "vring_size num align =
    int (align_up (unat align) (18 * unat num + 8) + (8 * unat num + 14))"
proof -
  define x where "x = num * 16 + (6 + num * 2 + 2)"
  define s where "s = (x + align - 1) AND NOT (align - 1)"
  define t where "t = align_up (unat align) (18 * unat num + 8)"
  have x: "unat x = 18 * unat num + 8"
    using n by (simp add: x_def unat_word_ariths)
  have t: "t < 18 * unat num + 8 + unat align"
    unfolding t_def using a(1) by (intro align_up_less is_pow2_pos)
  have s: "unat s = t"
    unfolding s_def using a(1) t a n by (subst unat_align_up) (simp_all add: x t_def)
  have u: "unat (s + (12 + num * 8 + 2)) = t + (8 * unat num + 14)"
    using n a t s by (simp add: unat_word_ariths)
  have "unat (s + (12 + num * 8 + 2)) < 2 ^ 31" using u t n a by simp
  then have "sint (s + (12 + num * 8 + 2)) = int (unat (s + (12 + num * 8 + 2)))"
    by (rule sint_eq_unat)
  then show ?thesis
    unfolding vring_size_def Let_def x_def [symmetric] s_def [symmetric] u t_def .
qed

lemma nat_vring_size:
  fixes num align :: u32
  assumes "is_pow2 align" "unat align \<le> 65536" "unat num \<le> 32768"
  shows "nat (vring_size num align) =
    align_up (unat align) (18 * unat num + 8) + (8 * unat num + 14)"
  unfolding vring_size_eq [OF assms] nat_int ..

text \<open>
  The three parts lie one after the other inside the chunk of \<open>vring_size\<close> bytes: the
  descriptors, then the flags, index and entries of the available ring, then the used ring
  at an aligned address, all of it before the end.
\<close>

lemma vring_init_layout:
  fixes num align :: u32 and p :: ptr
  assumes a: "is_pow2 align" "unat align \<le> 65536" and n: "unat num \<le> 32768"
    and p: "unat p mod unat align = 0" and top: "unat p + nat (vring_size num align) < 2 ^ 32"
  defines "vr \<equiv> vring_init num p align"
  shows "vr_desc vr = p" and "unat (vr_avail vr) = unat p + 16 * unat num"
    and "unat (vr_used vr) = unat p + align_up (unat align) (18 * unat num + 4)"
proof -
  have pos: "0 < unat align" using a(1) by (rule is_pow2_pos)
  then have "18 * unat num + 8 \<le> align_up (unat align) (18 * unat num + 8)"
    by (rule align_up_ge)
  with top have fits: "unat p + (26 * unat num + 22) < 2 ^ 32"
    by (simp add: nat_vring_size [OF a n])
  show "vr_desc vr = p" by (simp add: vr_def vring_init_def)
  show "unat (vr_avail vr) = unat p + 16 * unat num"
    using fits n by (simp add: vr_def vring_init_def unat_word_ariths)
  show "unat (vr_used vr) = unat p + align_up (unat align) (18 * unat num + 4)"
  proof -
    define x where "x = p + num * 16 + 4 + num * 2"
    have x: "unat x = unat p + (18 * unat num + 4)"
      using fits n by (simp add: x_def unat_word_ariths)
    have eq: "align_up (unat align) (unat x) =
        unat p + align_up (unat align) (18 * unat num + 4)"
      unfolding x using p pos by (rule align_up_add_mult)
    also have "\<dots> \<le> unat p + align_up (unat align) (18 * unat num + 8)"
      by (simp add: align_up_mono)
    also have "\<dots> < 2 ^ 32"
      using top by (simp add: nat_vring_size [OF a n])
    finally have "align_up (unat align) (unat x) < 2 ^ LENGTH(32)" by simp
    then have "unat ((x + align - 1) AND NOT (align - 1)) = align_up (unat align) (unat x)"
      using a(1) by (intro unat_align_up)
    then show ?thesis by (simp add: vr_def vring_init_def x_def [symmetric] eq)
  qed
qed

text \<open>
  The chunk of \<open>vring_size(num, align)\<close> bytes at an aligned address holds the whole vring
  that \<open>vring_init\<close> lays out in it. The descriptor table starts the chunk, the flags, index
  and entries of the available ring follow it, the used ring starts at an aligned address
  behind them, and its last entry ends inside the chunk: no part overlaps another and no
  access to an entry leaves the chunk.
\<close>

theorem vring_init_fits:
  assumes "is_pow2 align" "unat align \<le> 65536" "unat num \<le> 32768"
    and "unat p mod unat align = 0" "unat p + nat (vring_size num align) < 2 ^ 32"
  shows "vr_desc (vring_init num p align) = p
    \<and> unat p + 16 * unat num = unat (vr_avail (vring_init num p align))
    \<and> unat (vr_avail (vring_init num p align)) + (4 + 2 * unat num)
        \<le> unat (vr_used (vring_init num p align))
    \<and> unat (vr_used (vring_init num p align)) mod unat align = 0
    \<and> unat (vr_used (vring_init num p align)) + (4 + 8 * unat num)
        \<le> unat p + nat (vring_size num align)"
proof -
  note lay = vring_init_layout [OF assms]
  have pos: "0 < unat align" using assms(1) by (rule is_pow2_pos)
  have "18 * unat num + 4 \<le> align_up (unat align) (18 * unat num + 4)"
    using pos by (rule align_up_ge)
  moreover have "align_up (unat align) (18 * unat num + 4) \<le>
      align_up (unat align) (18 * unat num + 8)"
    by (rule align_up_mono) simp
  moreover have "unat (vr_used (vring_init num p align)) mod unat align = 0"
    using assms(4) by (metis lay(3) align_up_mod add_0 mod_add_eq mod_0)
  ultimately show ?thesis
    using lay nat_vring_size [OF assms(1-3)] by auto
qed

theorem vring_init_fits_witness:
  "is_pow2 (16 :: u32) \<and>
   unat (vr_used (vring_init 4 4096 16)) + (4 + 8 * 4) \<le> 4096 + nat (vring_size 4 16)"
proof -
  have a: "is_pow2 (16 :: u32)" by (simp add: is_pow2_def)
  have s: "vring_size 4 16 = 126" by (simp add: vring_size_def)
  from vring_init_fits [OF a, of 4 4096] show ?thesis
    using a by (simp add: s)
qed

text \<open>
  At an address that is not a multiple of the alignment the used ring still starts at the next multiple, which may push it
  out of the chunk. It stays inside for every alignment up to 16 if the address is even, at an aligned address, and
  when the chunk has room to spare. The end is that of the last entry.
\<close>

definition vring_end :: "u32 \<Rightarrow> ptr \<Rightarrow> u32 \<Rightarrow> nat" where
  "vring_end num p align = unat (vr_used (vring_init num p align)) + (4 + 8 * unat num)"

lemma vring_init_parts:
  fixes num align :: u32 and p :: ptr
  assumes a: "is_pow2 align" and n: "unat num \<le> 32768" and top: "unat p + (18 * unat num + 4) + unat align < 2 ^ 32"
  shows "unat (vr_avail (vring_init num p align)) = unat p + 16 * unat num"
    and "unat (vr_used (vring_init num p align)) = align_up (unat align) (unat p + (18 * unat num + 4))"
proof -
  have pos: "0 < unat align" using a by (rule is_pow2_pos)
  show "unat (vr_avail (vring_init num p align)) = unat p + 16 * unat num"
    using top n by (simp add: vring_init_def unat_word_ariths)
  define x where "x = p + num * 16 + 4 + num * 2"
  have x: "unat x = unat p + (18 * unat num + 4)"
    using top n by (simp add: x_def unat_word_ariths)
  have "align_up (unat align) (unat x) < unat x + unat align" using pos by (rule align_up_less)
  then have "align_up (unat align) (unat x) < 2 ^ LENGTH(32)" using top x by simp
  then have "unat ((x + align - 1) AND NOT (align - 1)) = align_up (unat align) (unat x)"
    using a by (intro unat_align_up)
  then show "unat (vr_used (vring_init num p align)) = align_up (unat align) (unat p + (18 * unat num + 4))"
    by (simp add: vring_init_def x_def [symmetric] x)
qed

lemma align_up_even:
  assumes "is_pow2 (w :: u32)" "unat w \<le> 16" "x mod 2 = 0"
  shows "align_up (unat w) x \<le> x + 14"
proof -
  have w: "0 < unat w" using assms(1) by (rule is_pow2_pos)
  obtain k where k: "unat w = 2 ^ k" using is_pow2_ex [OF assms(1)] by blast
  have l: "align_up (unat w) x < x + unat w" using w by (rule align_up_less)
  show ?thesis
  proof (cases k)
    case 0
    then show ?thesis using k l by simp
  next
    case (Suc j)
    have "align_up (unat w) x mod unat w = 0" using w by (simp add: align_up_mod)
    then have "align_up (unat w) x mod 2 = 0" unfolding k Suc by (metis dvd_eq_mod_eq_0 dvd_trans dvd_triv_left power_Suc)
    then show ?thesis using l assms(2,3) by presburger
  qed
qed

lemma vring_end_le:
  fixes num align :: u32 and p :: ptr
  assumes a: "is_pow2 align" "unat align \<le> 65536" and n: "unat num \<le> 32768"
    and top: "unat p + (18 * unat num + 4) + unat align < 2 ^ 32"
    and v: "nat (vring_size num align) \<le> v"
    and fit: "unat align \<le> 16 \<and> unat p mod 2 = 0 \<or> unat p mod unat align = 0 \<or> 26 * unat num + 7 + unat align \<le> v"
  shows "vring_end num p align \<le> unat p + v"
proof -
  note u = vring_init_parts [OF a(1) n top]
  have pos: "0 < unat align" using a(1) by (rule is_pow2_pos)
  have v: "align_up (unat align) (18 * unat num + 8) + (8 * unat num + 14) \<le> v" using v nat_vring_size [OF a n] by simp
  have ge: "18 * unat num + 8 \<le> align_up (unat align) (18 * unat num + 8)" using pos by (rule align_up_ge)
  have mono: "align_up (unat align) (18 * unat num + 4) \<le> align_up (unat align) (18 * unat num + 8)"
    by (rule align_up_mono) simp
  have up: "align_up (unat align) (unat p + (18 * unat num + 4)) < unat p + (18 * unat num + 4) + unat align"
    using pos by (rule align_up_less)
  consider "unat align \<le> 16" "unat p mod 2 = 0" | "unat p mod unat align = 0" | "26 * unat num + 7 + unat align \<le> v"
    using fit by argo
  then show ?thesis
  proof cases
    case 1
    then have "(unat p + (18 * unat num + 4)) mod 2 = 0" by presburger
    from align_up_even [OF a(1) 1(1) this] show ?thesis using v ge by (simp add: vring_end_def u)
  next
    case 2
    then have "align_up (unat align) (unat p + (18 * unat num + 4)) = unat p + align_up (unat align) (18 * unat num + 4)"
      using pos by (rule align_up_add_mult)
    then show ?thesis using v mono by (simp add: vring_end_def u)
  next
    case 3
    then show ?thesis using up by (simp add: vring_end_def u)
  qed
qed

lemma vring_need_event_nat:
  "vring_need_event e n old =
     (if int (unat n) - int (unat e) - 1 < int (unat n) - int (unat old) then 1 else 0)"
  by (simp add: vring_need_event_def)

lemma int_diff_less:
  fixes a b c :: nat
  assumes "b < a" "c \<le> a"
  shows "int a - int b - 1 < int a - int c \<longleftrightarrow> a - b - 1 < a - c"
  using assms by linarith

text \<open>
  The event test of \<open>vring_need_event\<close> takes its differences on \<open>int\<close>, where C promotes
  them, and not modulo \<open>2^16\<close>. While the index has not wrapped between \<open>old\<close> and
  \<open>new_idx\<close> it decides as the VirtIO specification does; after a wrap it answers 0 for every
  event index below the new index, where the specification demands the event.
\<close>

theorem vring_need_event_vs_spec:
  assumes e: "event_idx < new_idx"
  shows "(old \<le> new_idx \<longrightarrow>
      (vring_need_event event_idx new_idx old = 1 \<longleftrightarrow> need_event_spec event_idx new_idx old))
    \<and> (new_idx < old \<longrightarrow>
      vring_need_event event_idx new_idx old = 0 \<and> need_event_spec event_idx new_idx old)"
proof (intro conjI impI)
  have en: "unat event_idx < unat new_idx" using e by (simp add: word_less_nat_alt)
  have "unat (new_idx - event_idx) = unat new_idx - unat event_idx"
    using e by (simp add: unat_sub order_less_imp_le)
  moreover have "new_idx - event_idx \<noteq> 0" using e by auto
  ultimately have d: "unat (new_idx - event_idx - 1) = unat new_idx - unat event_idx - 1"
    by (simp add: unat_minus_one)
  show "vring_need_event event_idx new_idx old = 1 \<longleftrightarrow> need_event_spec event_idx new_idx old"
    if "old \<le> new_idx"
  proof -
    have on: "unat old \<le> unat new_idx" using that by (simp add: word_le_nat_alt)
    have "unat (new_idx - old) = unat new_idx - unat old" using that by (simp add: unat_sub)
    then show ?thesis
      unfolding vring_need_event_nat need_event_spec_def word_less_nat_alt d
        int_diff_less [OF en on] by simp
  qed
  assume wrap: "new_idx < old"
  then have on: "unat new_idx < unat old" by (simp add: word_less_nat_alt)
  have "unat (new_idx - old) = unat new_idx + 65536 - unat old"
    using on by (simp add: unat_sub_if' word_le_nat_alt)
  moreover have "unat old < 65536" by (rule unat_u16_less)
  ultimately show "need_event_spec event_idx new_idx old"
    unfolding need_event_spec_def word_less_nat_alt d using en on by linarith
  have "\<not> int (unat new_idx) - int (unat event_idx) - 1 < int (unat new_idx) - int (unat old)"
    using en on by linarith
  then show "vring_need_event event_idx new_idx old = 0"
    unfolding vring_need_event_nat by (rule if_not_P)
qed

theorem vring_need_event_vs_spec_witness:
  "vring_need_event 0 2 65530 = 0 \<and> need_event_spec 0 2 65530
   \<and> (vring_need_event 5 7 6 = 1 \<longleftrightarrow> need_event_spec 5 7 6)"
  using vring_need_event_vs_spec [of 0 2 65530] vring_need_event_vs_spec [of 5 7 6] by simp

end
