(* ===== verification/Env_Base.thy ===== *)
theory Env_Base
  imports Prelude
begin

text \<open>
  The part of the environment layer that needs nothing of the platform
  (\<^verbatim>\<open>lib/rpmsg_lite/porting/environment/rpmsg_env_bm.c\<close>): the memory and string functions,
  the allocator and the table of interrupt handlers. Memory is byte-addressed and
  little-endian; the address space has \<open>2^32\<close> bytes and addresses wrap.
\<close>

section \<open>Byte-addressed memory\<close>

type_synonym memory = "ptr \<Rightarrow> u8"

fun mem_write :: "memory \<Rightarrow> ptr \<Rightarrow> u8 list \<Rightarrow> memory" where
  "mem_write m a [] = m"
| "mem_write m a (b # bs) = mem_write (m(a := b)) (a + 1) bs"

definition mem_read :: "memory \<Rightarrow> ptr \<Rightarrow> nat \<Rightarrow> u8 list" where
  "mem_read m a n = map (\<lambda>i. m (a + of_nat i)) [0..<n]"

definition u16_bytes :: "u16 \<Rightarrow> u8 list" where
  "u16_bytes v = [ucast v, ucast (drop_bit 8 v)]"

definition u32_bytes :: "u32 \<Rightarrow> u8 list" where
  "u32_bytes v = [ucast v, ucast (drop_bit 8 v), ucast (drop_bit 16 v), ucast (drop_bit 24 v)]"

definition load_u16 :: "memory \<Rightarrow> ptr \<Rightarrow> u16" where
  "load_u16 m a = ucast (m a) OR push_bit 8 (ucast (m (a + 1)))"

definition load_u32 :: "memory \<Rightarrow> ptr \<Rightarrow> u32" where
  "load_u32 m a =
     ucast (m a) OR push_bit 8 (ucast (m (a + 1))) OR
     push_bit 16 (ucast (m (a + 2))) OR push_bit 24 (ucast (m (a + 3)))"

definition store_u16 :: "memory \<Rightarrow> ptr \<Rightarrow> u16 \<Rightarrow> memory" where
  "store_u16 m a v = mem_write m a (u16_bytes v)"

definition store_u32 :: "memory \<Rightarrow> ptr \<Rightarrow> u32 \<Rightarrow> memory" where
  "store_u32 m a v = mem_write m a (u32_bytes v)"

section \<open>Memory and string functions\<close>

definition env_memset :: "ptr \<Rightarrow> int \<Rightarrow> u32 \<Rightarrow> memory \<Rightarrow> memory" where
  "env_memset p value sz m =
     (let masked = (word_of_int value :: u32) AND 0xFF
      in mem_write m p (replicate (unat sz) (ucast masked)))"

definition env_memcpy :: "ptr \<Rightarrow> ptr \<Rightarrow> u32 \<Rightarrow> memory \<Rightarrow> memory" where
  "env_memcpy dst src len m = mem_write m dst (mem_read m src (unat len))"

text \<open>
  Strings are character lists up to the terminating NUL. \<open>strncpy\<close> copies at most \<open>n\<close>
  characters and pads with NUL; \<open>strcmp\<close> and \<open>strncmp\<close> compare the characters as unsigned
  values and return the sign of the difference.
\<close>

definition env_strncpy :: "string \<Rightarrow> nat \<Rightarrow> string" where
  "env_strncpy src n =
     (let s = take n (takeWhile (\<lambda>c. c \<noteq> CHR 0x00) src)
      in s @ replicate (n - length s) (CHR 0x00))"

fun env_strcmp :: "string \<Rightarrow> string \<Rightarrow> int" where
  "env_strcmp [] [] = 0"
| "env_strcmp [] (d # ds) = (if d = CHR 0x00 then 0 else -1)"
| "env_strcmp (c # cs) [] = (if c = CHR 0x00 then 0 else 1)"
| "env_strcmp (c # cs) (d # ds) =
     (if c = d then if c = CHR 0x00 then 0 else env_strcmp cs ds
      else if (of_char c :: nat) < of_char d then -1 else 1)"

definition env_strncmp :: "string \<Rightarrow> string \<Rightarrow> nat \<Rightarrow> int" where
  "env_strncmp d s n = env_strcmp (take n d) (take n s)"

section \<open>The allocator\<close>

text \<open>
  \<open>malloc\<close> and \<open>free\<close> of the C library: \<open>hp_next\<close> is what the coming calls of \<open>malloc\<close>
  return (NULL, or nothing left, is a failed call; it never returns a block that is still
  live), \<open>hp_live\<close> the blocks that are allocated. Freeing a block that is not live has no
  defined result.
\<close>

record heap =
  hp_next :: "ptr list"
  hp_live :: "ptr list"

definition env_allocate_memory :: "heap \<Rightarrow> ptr \<times> heap" where
  "env_allocate_memory h =
     (case hp_next h of
        [] \<Rightarrow> (NULL, h)
      | p # ps \<Rightarrow>
          if p = NULL \<or> p \<in> set (hp_live h) then (NULL, h\<lparr>hp_next := ps\<rparr>)
          else (p, h\<lparr>hp_next := ps, hp_live := p # hp_live h\<rparr>))"

definition env_free_memory :: "ptr \<Rightarrow> heap \<Rightarrow> heap option" where
  "env_free_memory p h =
     (if p = NULL then Some h
      else if p \<in> set (hp_live h) then Some (h\<lparr>hp_live := remove1 p (hp_live h)\<rparr>)
      else None)"

section \<open>Interrupt handlers\<close>

text \<open>
  \<open>isr_table\<close> holds the virtqueue registered for each vector; \<open>ISR_COUNT\<close> is its length.
  A vector outside the table fails the assertion after the guarded write.
\<close>

definition env_register_isr :: "u32 \<Rightarrow> ptr \<Rightarrow> ptr list \<Rightarrow> ptr list option" where
  "env_register_isr vector_id data isr_table =
     do { let t = (if unat vector_id < length isr_table
                   then isr_table[unat vector_id := data] else isr_table);
          rl_assert (unat vector_id < length isr_table);
          Some t }"

definition env_unregister_isr :: "u32 \<Rightarrow> ptr list \<Rightarrow> ptr list option" where
  "env_unregister_isr vector_id isr_table =
     do { let t = (if unat vector_id < length isr_table
                   then isr_table[unat vector_id := NULL] else isr_table);
          rl_assert (unat vector_id < length isr_table);
          Some t }"

text \<open>\<open>env_isr\<close> hands the registered virtqueue (or NULL) to \<open>virtqueue_notification\<close>.\<close>

definition env_isr :: "(ptr \<Rightarrow> 's \<Rightarrow> 's option) \<Rightarrow> u32 \<Rightarrow> ptr list \<Rightarrow> 's \<Rightarrow> 's option" where
  "env_isr virtqueue_notification vector isr_table s =
     do { s' \<leftarrow> (if unat vector < length isr_table
                  then virtqueue_notification (isr_table ! unat vector) s else Some s);
          rl_assert (unat vector < length isr_table);
          Some s' }"

section \<open>Facts\<close>

lemma mem_read_Nil [simp]: "mem_read m a 0 = []"
  by (simp add: mem_read_def)

lemma length_mem_read [simp]: "length (mem_read m a n) = n"
  by (simp add: mem_read_def)

lemma nth_mem_read [simp]: "i < n \<Longrightarrow> mem_read m a n ! i = m (a + of_nat i)"
  by (simp add: mem_read_def)

text \<open>What a write changes: the addresses \<open>a, \<dots>, a + length bs - 1\<close>.\<close>

lemma mem_write_apply:
  assumes "length bs \<le> 2 ^ 32"
  shows "mem_write m a bs x =
    (if unat (x - a) < length bs then bs ! unat (x - a) else m x)"
  using assms
proof (induction bs arbitrary: m a)
  case Nil
  then show ?case by simp
next
  case (Cons b bs)
  have IH: "mem_write (m(a := b)) (a + 1) bs x =
      (if unat (x - (a + 1)) < length bs then bs ! unat (x - (a + 1)) else (m(a := b)) x)"
    using Cons by simp
  show ?case
  proof (cases "x = a")
    case True
    have "unat (- 1 :: u32) = 4294967295"
      by (simp add: unsigned_minus_1_eq_mask mask_eq_exp_minus_1)
    then have "\<not> unat (x - (a + 1)) < length bs" using True Cons.prems by simp
    then show ?thesis using True IH by simp
  next
    case False
    then have "x - a \<noteq> 0" by simp
    then have "unat (x - a - 1) = unat (x - a) - 1" and "0 < unat (x - a)"
      by (simp_all add: unat_minus_one unat_gt_0)
    then have "unat (x - a) = Suc (unat (x - (a + 1)))" by (simp add: diff_diff_eq)
    then show ?thesis using False IH by simp
  qed
qed

lemma mem_write_outside:
  assumes "length bs \<le> 2 ^ 32" and "length bs \<le> unat (x - a)"
  shows "mem_write m a bs x = m x"
  using assms by (simp add: mem_write_apply)

lemma mem_read_write_same:
  assumes "length bs < 2 ^ 32"
  shows "mem_read (mem_write m a bs) a (length bs) = bs"
proof (rule nth_equalityI)
  fix i assume "i < length (mem_read (mem_write m a bs) a (length bs))"
  then have i: "i < length bs" by simp
  then have "unat (of_nat i :: u32) = i"
    using assms by (simp add: unat_of_nat)
  then show "mem_read (mem_write m a bs) a (length bs) ! i = bs ! i"
    using i assms by (simp add: mem_write_apply)
qed simp

lemma mem_read_write_disjoint:
  assumes "length bs \<le> 2 ^ 32" and "\<And>i. i < n \<Longrightarrow> length bs \<le> unat (c + of_nat i - a)"
  shows "mem_read (mem_write m a bs) c n = mem_read m c n"
  using assms by (intro nth_equalityI) (simp_all add: mem_write_outside)

lemma bytes_lengths [simp]: "length (u16_bytes v) = 2" "length (u32_bytes w) = 4"
  by (simp_all add: u16_bytes_def u32_bytes_def)

lemma load_u16_read: "load_u16 m a = (let bs = mem_read m a 2 in
    ucast (bs ! 0) OR push_bit 8 (ucast (bs ! 1)))"
  by (simp add: load_u16_def)

lemma load_u16_bytes:
  assumes "mem_read m a 2 = u16_bytes v"
  shows "load_u16 m a = v"
proof -
  have "m a = u16_bytes v ! 0" "m (a + 1) = u16_bytes v ! 1"
    using assms [symmetric] by simp_all
  then show ?thesis
    by (auto simp: load_u16_def u16_bytes_def bit_simps intro!: bit_word_eqI)
qed

lemma u32_split:
  fixes v :: u32
  shows "ucast (ucast v :: u8) OR push_bit 8 (ucast (ucast (drop_bit 8 v) :: u8)) OR
    push_bit 16 (ucast (ucast (drop_bit 16 v) :: u8)) OR
    push_bit 24 (ucast (ucast (drop_bit 24 v) :: u8)) = v" (is "?w = v")
proof (rule bit_word_eqI)
  fix n assume n: "n < LENGTH(32)"
  then consider "n < 8" | "8 \<le> n" "n < 16" | "16 \<le> n" "n < 24" | "24 \<le> n" "n < 32"
    by fastforce
  then show "bit ?w n = bit v n"
    by cases (auto simp: bit_simps)
qed

lemma load_u32_bytes:
  assumes "mem_read m a 4 = u32_bytes v"
  shows "load_u32 m a = v"
proof -
  have "m a = u32_bytes v ! 0" "m (a + 1) = u32_bytes v ! 1" "m (a + 2) = u32_bytes v ! 2"
    "m (a + 3) = u32_bytes v ! 3"
    using assms [symmetric] by simp_all
  then show ?thesis
    using u32_split [of v] by (simp add: load_u32_def u32_bytes_def)
qed

end
