(* ===== verification/Virtqueue.thy ===== *)
theory Virtqueue
  imports Vring Env_Base
begin

text \<open>
  The virtqueues of \<^verbatim>\<open>lib/virtio/virtqueue.c\<close> and \<^verbatim>\<open>lib/include/virtqueue.h\<close>. A
  \<open>virtqueue\<close> is the local control block of one core; the vring it points to is shared with
  the other core and is passed beside it as a \<open>vring_mem\<close>. Every operation returns the
  control block, the shared memory and its results; \<open>None\<close> is an execution that hangs in a
  \<open>VQASSERT\<close>, dereferences NULL or indexes one of the arrays outside its bounds.

  The argument \<open>dbg\<close> is \<open>VQUEUE_DEBUG\<close>: without it the checks and the busy flags are
  compiled away. Cache maintenance (\<open>VQUEUE_FLUSH\<close>, \<open>VQUEUE_INVALIDATE\<close>) and memory
  barriers do not change the values of a coherent memory and are left out here; the order of
  the writes they protect is the subject of the theory \<open>Ring_Protocol\<close>.
\<close>

section \<open>Control block\<close>

record virtqueue =
  vq_name :: string
  vq_flags :: u32
  vq_alignment :: int
  vq_ring_size :: int
  vq_ring_mem :: ptr
  callback_fc :: fn_ptr
  notify_fc :: fn_ptr
  vq_max_indirect_size :: int
  vq_indirect_mem_size :: int
  vq_ring :: vring
  vq_queue_index :: u16
  vq_nentries :: u16
  vq_free_cnt :: u16
  vq_queued_cnt :: u16
  vq_desc_head_idx :: u16
  vq_used_cons_idx :: u16
  vq_available_idx :: u16
  avail_read :: bool
  avail_write :: bool
  used_read :: bool
  used_write :: bool
  vq_priv :: ptr

record vring_alloc_info =
  phy_addr :: ptr
  ring_align :: u32
  num_descs :: u16

abbreviation (input) VQUEUE_SUCCESS :: int where "VQUEUE_SUCCESS \<equiv> 0"
abbreviation (input) ERROR_NO_MEM :: int where "ERROR_NO_MEM \<equiv> -3004"
abbreviation (input) ERROR_VRING_ALIGN :: int where "ERROR_VRING_ALIGN \<equiv> -3006"
abbreviation (input) ERROR_VRING_NO_BUFF :: int where "ERROR_VRING_NO_BUFF \<equiv> -3007"
abbreviation (input) ERROR_VQUEUE_INVLD_PARAM :: int where "ERROR_VQUEUE_INVLD_PARAM \<equiv> -3008"
abbreviation (input) VQ_RING_DESC_CHAIN_END :: u16 where "VQ_RING_DESC_CHAIN_END \<equiv> 32768"
abbreviation (input) VIRTQUEUE_FLAG_EVENT_IDX :: u32 where "VIRTQUEUE_FLAG_EVENT_IDX \<equiv> 2"
abbreviation (input) VIRTQUEUE_MAX_NAME_SZ :: nat where "VIRTQUEUE_MAX_NAME_SZ \<equiv> 32"
abbreviation (input) VRING_INT32_MAX :: u32 where "VRING_INT32_MAX \<equiv> 2147483647"

text \<open>The control block \<open>env_memset(vq, 0, sizeof(struct virtqueue))\<close> leaves.\<close>

definition virtqueue_zero :: virtqueue where
  "virtqueue_zero =
     \<lparr>vq_name = replicate VIRTQUEUE_MAX_NAME_SZ (CHR 0x00), vq_flags = 0, vq_alignment = 0,
      vq_ring_size = 0, vq_ring_mem = NULL, callback_fc = Fn_NULL, notify_fc = Fn_NULL,
      vq_max_indirect_size = 0, vq_indirect_mem_size = 0,
      vq_ring = \<lparr>vr_num = 0, vr_desc = NULL, vr_avail = NULL, vr_used = NULL\<rparr>,
      vq_queue_index = 0, vq_nentries = 0, vq_free_cnt = 0, vq_queued_cnt = 0,
      vq_desc_head_idx = 0, vq_used_cons_idx = 0, vq_available_idx = 0,
      avail_read = False, avail_write = False, used_read = False, used_write = False,
      vq_priv = NULL\<rparr>"

section \<open>Busy flags and parameter checks\<close>

datatype vq_dir = Avail_read | Avail_write | Used_read | Used_write

fun vq_dir_flag :: "vq_dir \<Rightarrow> virtqueue \<Rightarrow> bool" where
  "vq_dir_flag Avail_read vq = avail_read vq"
| "vq_dir_flag Avail_write vq = avail_write vq"
| "vq_dir_flag Used_read vq = used_read vq"
| "vq_dir_flag Used_write vq = used_write vq"

fun set_vq_dir_flag :: "vq_dir \<Rightarrow> bool \<Rightarrow> virtqueue \<Rightarrow> virtqueue" where
  "set_vq_dir_flag Avail_read b vq = vq\<lparr>avail_read := b\<rparr>"
| "set_vq_dir_flag Avail_write b vq = vq\<lparr>avail_write := b\<rparr>"
| "set_vq_dir_flag Used_read b vq = vq\<lparr>used_read := b\<rparr>"
| "set_vq_dir_flag Used_write b vq = vq\<lparr>used_write := b\<rparr>"

definition VQUEUE_BUSY :: "bool \<Rightarrow> vq_dir \<Rightarrow> virtqueue \<Rightarrow> virtqueue option" where
  "VQUEUE_BUSY dbg dir vq =
     (if dbg
      then if vq_dir_flag dir vq then None else Some (set_vq_dir_flag dir True vq)
      else Some vq)"

definition VQUEUE_IDLE :: "bool \<Rightarrow> vq_dir \<Rightarrow> virtqueue \<Rightarrow> virtqueue" where
  "VQUEUE_IDLE dbg dir vq = (if dbg then set_vq_dir_flag dir False vq else vq)"

definition VQASSERT :: "bool \<Rightarrow> bool \<Rightarrow> unit option" where
  "VQASSERT dbg b = rl_assert (dbg \<longrightarrow> b)"

definition VQ_PARAM_CHK :: "bool \<Rightarrow> bool \<Rightarrow> int \<Rightarrow> int \<Rightarrow> int" where
  "VQ_PARAM_CHK dbg cond err status = (if dbg \<and> status = 0 \<and> cond then err else status)"

section \<open>Creation\<close>

text \<open>
  The checks of \<open>virtqueue_create\<close> and \<open>virtqueue_create_static\<close> on the ring. The checks of
  the pointers come first in the code; with them, a NULL ring is dereferenced by the next check
  unless an earlier check has set the status.
\<close>

definition virtqueue_create_status :: "bool \<Rightarrow> vring_alloc_info \<Rightarrow> int" where
  "virtqueue_create_status dbg ring =
     (let status = VQUEUE_SUCCESS;
          status = VQ_PARAM_CHK dbg (num_descs ring = 0) ERROR_VQUEUE_INVLD_PARAM status;
          status = VQ_PARAM_CHK dbg (num_descs ring AND (num_descs ring - 1) \<noteq> 0)
                     ERROR_VRING_ALIGN status;
          status = VQ_PARAM_CHK dbg (ring_align ring > VRING_INT32_MAX)
                     ERROR_VQUEUE_INVLD_PARAM status
      in if status = VQUEUE_SUCCESS \<and> ring_align ring > VRING_INT32_MAX
         then ERROR_VQUEUE_INVLD_PARAM else status)"

text \<open>The control block both creation functions fill in once the checks have passed.\<close>

definition virtqueue_setup ::
  "u16 \<Rightarrow> string \<Rightarrow> vring_alloc_info \<Rightarrow> fn_ptr \<Rightarrow> fn_ptr \<Rightarrow> virtqueue" where
  "virtqueue_setup qid name ring callback notify =
     virtqueue_zero
       \<lparr>vq_name := env_strncpy name VIRTQUEUE_MAX_NAME_SZ,
        vq_queue_index := qid,
        vq_alignment := sint (ring_align ring),
        vq_nentries := num_descs ring,
        callback_fc := callback,
        notify_fc := notify,
        vq_ring_size := vring_size (ucast (num_descs ring)) (ring_align ring),
        vq_ring_mem := phy_addr ring,
        vq_ring := vring_init (ucast (num_descs ring)) (phy_addr ring) (ring_align ring)\<rparr>"

text \<open>
  \<open>virtqueue_create\<close>: the block comes from \<open>env_allocate_memory\<close>, whose result \<open>mem\<close> is
  NULL when there is none. The result is the status and, on success, the created block.
  A NULL \<open>ring\<close> is the argument \<open>None\<close>: with the checks compiled in, the code sets the
  status and skips the rest; without them it reads through the pointer.
\<close>

definition virtqueue_create ::
  "bool \<Rightarrow> u16 \<Rightarrow> string \<Rightarrow> vring_alloc_info option \<Rightarrow> fn_ptr \<Rightarrow> fn_ptr \<Rightarrow> ptr
    \<Rightarrow> (int \<times> virtqueue option) option" where
  "virtqueue_create dbg qid name ring callback notify mem =
     (case ring of
        None \<Rightarrow> if dbg then Some (ERROR_VQUEUE_INVLD_PARAM, None) else None
      | Some ri \<Rightarrow>
          (let status = virtqueue_create_status dbg ri
           in if status = VQUEUE_SUCCESS
              then if mem = NULL then Some (ERROR_NO_MEM, None)
                   else Some (status, Some (virtqueue_setup qid name ri callback notify))
              else Some (status, None)))"

definition virtqueue_create_static ::
  "bool \<Rightarrow> u16 \<Rightarrow> string \<Rightarrow> vring_alloc_info option \<Rightarrow> fn_ptr \<Rightarrow> fn_ptr \<Rightarrow> ptr
    \<Rightarrow> (int \<times> virtqueue option) option" where
  "virtqueue_create_static dbg qid name ring callback notify vq_ctxt =
     (if dbg \<and> vq_ctxt = NULL then Some (ERROR_VQUEUE_INVLD_PARAM, None)
      else
        case ring of
          None \<Rightarrow> if dbg then Some (ERROR_VQUEUE_INVLD_PARAM, None) else None
        | Some ri \<Rightarrow>
            (let status = virtqueue_create_status dbg ri
             in if status = VQUEUE_SUCCESS
                then if vq_ctxt = NULL then None
                     else Some (status, Some (virtqueue_setup qid name ri callback notify))
                else Some (status, None)))"

text \<open>
  Freeing. Both variants reset the ring memory of the block; \<open>virtqueue_free\<close> then gives the
  block, which lies at \<open>p\<close>, back to the allocator. A NULL pointer is left alone.
\<close>

definition virtqueue_free_static :: "virtqueue option \<Rightarrow> virtqueue option" where
  "virtqueue_free_static vq =
     (case vq of
        None \<Rightarrow> None
      | Some q \<Rightarrow> if vq_ring_mem q \<noteq> NULL
                  then Some (q\<lparr>vq_ring_size := 0, vq_ring_mem := NULL\<rparr>) else Some q)"

definition virtqueue_free ::
  "ptr \<Rightarrow> virtqueue option \<Rightarrow> heap \<Rightarrow> (virtqueue option \<times> heap) option" where
  "virtqueue_free p vq h =
     (if p \<noteq> NULL
      then do {
        q \<leftarrow> vq;
        let q = (if vq_ring_mem q \<noteq> NULL
                 then q\<lparr>vq_ring_size := 0, vq_ring_mem := NULL\<rparr> else q);
        h \<leftarrow> env_free_memory p h;
        Some (Some q, h) }
      else Some (vq, h))"

section \<open>Ring updates\<close>

definition vq_ring_update_avail ::
  "virtqueue \<Rightarrow> vring_mem \<Rightarrow> u16 \<Rightarrow> (virtqueue \<times> vring_mem) option" where
  "vq_ring_update_avail vq vm desc_idx =
     do { let av = vm_avail vm;
          let avail_idx = av_idx av AND (vq_nentries vq - 1);
          r \<leftarrow> wr (av_ring av) (unat avail_idx) desc_idx;
          Some (vq\<lparr>vq_queued_cnt := vq_queued_cnt vq + 1\<rparr>,
                vm\<lparr>vm_avail := av\<lparr>av_ring := r, av_idx := av_idx av + 1\<rparr>\<rparr>) }"

definition vq_ring_update_used ::
  "virtqueue \<Rightarrow> vring_mem \<Rightarrow> u16 \<Rightarrow> u32 \<Rightarrow> (virtqueue \<times> vring_mem) option" where
  "vq_ring_update_used vq vm head_idx len =
     do { let us = vm_used vm;
          let used_idx = us_idx us AND (vq_nentries vq - 1);
          r \<leftarrow> wr (us_ring us) (unat used_idx) \<lparr>ue_id = ucast head_idx, ue_len = len\<rparr>;
          Some (vq, vm\<lparr>vm_used := us\<lparr>us_ring := r, us_idx := us_idx us + 1\<rparr>\<rparr>) }"

text \<open>
  \<open>vq_ring_add_buffer\<close> writes the descriptor at \<open>head_idx\<close> and returns the next index; a
  NULL buffer leaves everything alone.
\<close>

definition vq_ring_add_buffer ::
  "(ptr \<Rightarrow> u32) \<Rightarrow> bool \<Rightarrow> vring_mem \<Rightarrow> u16 \<Rightarrow> ptr \<Rightarrow> u32 \<Rightarrow> (u16 \<times> vring_mem) option" where
  "vq_ring_add_buffer vatopa dbg vm head_idx buffer len =
     (if buffer = NULL then Some (head_idx, vm)
      else do {
        VQASSERT dbg (head_idx \<noteq> VQ_RING_DESC_CHAIN_END);
        d \<leftarrow> rd (vm_desc vm) (unat head_idx);
        ds \<leftarrow> wr (vm_desc vm) (unat head_idx)
               (d\<lparr>d_addr := ucast (vatopa buffer), d_len := len,
                  d_flags := VRING_DESC_F_WRITE\<rparr>);
        Some (head_idx + 1, vm\<lparr>vm_desc := ds\<rparr>) })"

text \<open>
  \<open>vq_ring_init\<close> chains the descriptors: \<open>next\<close> of descriptor \<open>i\<close> is \<open>i + 1\<close>, of the last
  one the end marker. The loop runs over \<open>i < size - 1\<close>, computed on 32 bits.
\<close>

fun vq_ring_init_loop :: "nat \<Rightarrow> nat \<Rightarrow> vring_desc list \<Rightarrow> vring_desc list option" where
  "vq_ring_init_loop i 0 ds =
     do { d \<leftarrow> rd ds i; wr ds i (d\<lparr>d_next := VQ_RING_DESC_CHAIN_END\<rparr>) }"
| "vq_ring_init_loop i (Suc k) ds =
     do { d \<leftarrow> rd ds i;
          ds' \<leftarrow> wr ds i (d\<lparr>d_next := of_nat (i + 1)\<rparr>);
          vq_ring_init_loop (Suc i) k ds' }"

definition vq_ring_init :: "virtqueue \<Rightarrow> vring_mem \<Rightarrow> vring_mem option" where
  "vq_ring_init vq vm =
     do { ds \<leftarrow> vq_ring_init_loop 0 (unat (ucast (vq_nentries vq) - 1 :: u32)) (vm_desc vm);
          Some (vm\<lparr>vm_desc := ds\<rparr>) }"

section \<open>Buffers\<close>

definition virtqueue_add_buffer ::
  "bool \<Rightarrow> virtqueue option \<Rightarrow> vring_mem \<Rightarrow> u16 \<Rightarrow> (int \<times> virtqueue \<times> vring_mem) option" where
  "virtqueue_add_buffer dbg vqp vm head_idx =
     do { vq \<leftarrow> vqp;
          vq \<leftarrow> VQUEUE_BUSY dbg Avail_write vq;
          VQASSERT dbg (head_idx < vq_nentries vq);
          (vq, vm) \<leftarrow> vq_ring_update_avail vq vm head_idx;
          Some (VQUEUE_SUCCESS, VQUEUE_IDLE dbg Avail_write vq, vm) }"

definition virtqueue_fill_avail_buffers ::
  "(ptr \<Rightarrow> u32) \<Rightarrow> bool \<Rightarrow> virtqueue option \<Rightarrow> vring_mem \<Rightarrow> ptr \<Rightarrow> u32
    \<Rightarrow> (int \<times> virtqueue \<times> vring_mem) option" where
  "virtqueue_fill_avail_buffers vatopa dbg vqp vm buffer len =
     do { vq \<leftarrow> vqp;
          vq \<leftarrow> VQUEUE_BUSY dbg Avail_write vq;
          let head_idx = vq_desc_head_idx vq;
          d \<leftarrow> rd (vm_desc vm) (unat head_idx);
          ds \<leftarrow> wr (vm_desc vm) (unat head_idx)
                 (d\<lparr>d_addr := ucast (vatopa buffer), d_len := len,
                    d_flags := VRING_DESC_F_WRITE\<rparr>);
          let vq = vq\<lparr>vq_desc_head_idx := vq_desc_head_idx vq + 1\<rparr>;
          (vq, vm) \<leftarrow> vq_ring_update_avail vq (vm\<lparr>vm_desc := ds\<rparr>) head_idx;
          Some (VQUEUE_SUCCESS, VQUEUE_IDLE dbg Avail_write vq, vm) }"

definition virtqueue_fill_used_buffers ::
  "(ptr \<Rightarrow> u32) \<Rightarrow> bool \<Rightarrow> virtqueue \<Rightarrow> vring_mem \<Rightarrow> ptr \<Rightarrow> u32
    \<Rightarrow> (int \<times> virtqueue \<times> vring_mem) option" where
  "virtqueue_fill_used_buffers vatopa dbg vq vm buffer len =
     do { vq \<leftarrow> VQUEUE_BUSY dbg Used_write vq;
          let head_idx = vq_desc_head_idx vq;
          VQASSERT dbg (head_idx < vq_nentries vq);
          (idx, vm) \<leftarrow> vq_ring_add_buffer vatopa dbg vm head_idx buffer len;
          let vq = vq\<lparr>vq_desc_head_idx := idx\<rparr>;
          (vq, vm) \<leftarrow> vq_ring_update_used vq vm head_idx len;
          Some (VQUEUE_SUCCESS, VQUEUE_IDLE dbg Used_write vq, vm) }"

text \<open>
  The two receiving operations return the buffer's address (NULL when the ring is empty) and,
  where the code writes through its \<open>len\<close> and \<open>idx\<close> arguments, their new values.
\<close>

definition virtqueue_get_buffer ::
  "(u32 \<Rightarrow> ptr) \<Rightarrow> bool \<Rightarrow> virtqueue option \<Rightarrow> vring_mem
    \<Rightarrow> ((ptr \<times> (u32 \<times> u16) option) \<times> virtqueue option) option" where
  "virtqueue_get_buffer patova dbg vqp vm =
     (case vqp of
        None \<Rightarrow> Some ((NULL, None), None)
      | Some vq \<Rightarrow>
          if vq_used_cons_idx vq = us_idx (vm_used vm) then Some ((NULL, None), Some vq)
          else do {
            vq \<leftarrow> VQUEUE_BUSY dbg Used_read vq;
            let used_idx = vq_used_cons_idx vq AND (vq_nentries vq - 1);
            uep \<leftarrow> rd (us_ring (vm_used vm)) (unat used_idx);
            let desc_idx = (ucast (ue_id uep) :: u16);
            let vq = VQUEUE_IDLE dbg Used_read
                       (vq\<lparr>vq_used_cons_idx := vq_used_cons_idx vq + 1\<rparr>);
            d \<leftarrow> rd (vm_desc vm) (unat desc_idx);
            Some ((patova (ucast (d_addr d)), Some (ue_len uep, desc_idx)), Some vq) })"

definition virtqueue_get_available_buffer ::
  "(u32 \<Rightarrow> ptr) \<Rightarrow> bool \<Rightarrow> virtqueue \<Rightarrow> vring_mem
    \<Rightarrow> ((ptr \<times> (u32 \<times> u16) option) \<times> virtqueue) option" where
  "virtqueue_get_available_buffer patova dbg vq vm =
     (if vq_available_idx vq = av_idx (vm_avail vm) then Some ((NULL, None), vq)
      else do {
        vq \<leftarrow> VQUEUE_BUSY dbg Avail_read vq;
        let head_idx = vq_available_idx vq AND (vq_nentries vq - 1);
        let vq = vq\<lparr>vq_available_idx := vq_available_idx vq + 1\<rparr>;
        avail_idx \<leftarrow> rd (av_ring (vm_avail vm)) (unat head_idx);
        d \<leftarrow> rd (vm_desc vm) (unat avail_idx);
        let vq = VQUEUE_IDLE dbg Avail_read vq;
        Some ((patova (ucast (d_addr d)), Some (d_len d, avail_idx)), vq) })"

definition virtqueue_get_buffer_length :: "vring_mem \<Rightarrow> u16 \<Rightarrow> u32 option" where
  "virtqueue_get_buffer_length vm idx =
     do { d \<leftarrow> rd (vm_desc vm) (unat idx); Some (d_len d) }"

definition virtqueue_add_consumed_buffer ::
  "bool \<Rightarrow> virtqueue \<Rightarrow> vring_mem \<Rightarrow> u16 \<Rightarrow> u32 \<Rightarrow> (int \<times> virtqueue \<times> vring_mem) option" where
  "virtqueue_add_consumed_buffer dbg vq vm head_idx len =
     (if head_idx > vq_nentries vq then Some (ERROR_VRING_NO_BUFF, vq, vm)
      else do {
        vq \<leftarrow> VQUEUE_BUSY dbg Used_write vq;
        (vq, vm) \<leftarrow> vq_ring_update_used vq vm head_idx len;
        Some (VQUEUE_SUCCESS, VQUEUE_IDLE dbg Used_write vq, vm) })"

definition virtqueue_get_desc_size :: "virtqueue \<Rightarrow> vring_mem \<Rightarrow> u32 option" where
  "virtqueue_get_desc_size vq vm =
     (if vq_available_idx vq = av_idx (vm_avail vm) then Some 0
      else do {
        let head_idx = vq_available_idx vq AND (vq_nentries vq - 1);
        avail_idx \<leftarrow> rd (av_ring (vm_avail vm)) (unat head_idx);
        d \<leftarrow> rd (vm_desc vm) (unat avail_idx);
        Some (d_len d) })"

section \<open>Notification\<close>

definition virtqueue_nused :: "bool \<Rightarrow> virtqueue \<Rightarrow> vring_mem \<Rightarrow> u16 option" where
  "virtqueue_nused dbg vq vm =
     do { let nused = us_idx (vm_used vm) - vq_used_cons_idx vq;
          VQASSERT dbg (nused \<le> vq_nentries vq);
          Some nused }"

definition vq_ring_enable_interrupt ::
  "bool \<Rightarrow> virtqueue \<Rightarrow> vring_mem \<Rightarrow> u16 \<Rightarrow> (int \<times> vring_mem) option" where
  "vq_ring_enable_interrupt dbg vq vm ndesc =
     do { vm \<leftarrow> (if vq_flags vq AND VIRTQUEUE_FLAG_EVENT_IDX \<noteq> 0
                 then set_vring_used_event (vq_ring vq) vm (vq_used_cons_idx vq + ndesc)
                 else Some (vm\<lparr>vm_avail := (vm_avail vm)
                        \<lparr>av_flags := av_flags (vm_avail vm) AND NOT VRING_AVAIL_F_NO_INTERRUPT\<rparr>\<rparr>));
          n \<leftarrow> virtqueue_nused dbg vq vm;
          Some (if n > ndesc then 1 else 0, vm) }"

definition virtqueue_enable_cb ::
  "bool \<Rightarrow> virtqueue \<Rightarrow> vring_mem \<Rightarrow> (int \<times> vring_mem) option" where
  "virtqueue_enable_cb dbg vq vm = vq_ring_enable_interrupt dbg vq vm 0"

definition virtqueue_disable_cb ::
  "bool \<Rightarrow> virtqueue \<Rightarrow> vring_mem \<Rightarrow> (virtqueue \<times> vring_mem) option" where
  "virtqueue_disable_cb dbg vq vm =
     do { vq \<leftarrow> VQUEUE_BUSY dbg Avail_write vq;
          vm \<leftarrow> (if vq_flags vq AND VIRTQUEUE_FLAG_EVENT_IDX \<noteq> 0
                 then set_vring_used_event (vq_ring vq) vm
                        (vq_used_cons_idx vq - vq_nentries vq - 1)
                 else Some (vm\<lparr>vm_avail := (vm_avail vm)
                        \<lparr>av_flags := av_flags (vm_avail vm) OR VRING_AVAIL_F_NO_INTERRUPT\<rparr>\<rparr>));
          Some (VQUEUE_IDLE dbg Avail_write vq, vm) }"

definition vq_ring_must_notify_host :: "virtqueue \<Rightarrow> vring_mem \<Rightarrow> int option" where
  "vq_ring_must_notify_host vq vm =
     (if vq_flags vq AND VIRTQUEUE_FLAG_EVENT_IDX \<noteq> 0
      then do {
        let new_idx = av_idx (vm_avail vm);
        let prev_idx = new_idx - vq_queued_cnt vq;
        e \<leftarrow> vring_avail_event (vq_ring vq) vm;
        Some (if vring_need_event (ucast e) new_idx prev_idx \<noteq> 0 then 1 else 0) }
      else Some (if us_flags (vm_used vm) AND VRING_USED_F_NO_NOTIFY = 0 then 1 else 0))"

text \<open>
  \<open>virtqueue_kick\<close> reports whether it calls \<open>notify_fc\<close> (through
  \<open>vq_ring_notify_host\<close>, which calls it unless it is NULL).
\<close>

definition vq_ring_notify_host :: "virtqueue \<Rightarrow> fn_ptr option" where
  "vq_ring_notify_host vq = (if notify_fc vq \<noteq> Fn_NULL then Some (notify_fc vq) else None)"

definition virtqueue_kick ::
  "bool \<Rightarrow> virtqueue \<Rightarrow> vring_mem \<Rightarrow> (fn_ptr option \<times> virtqueue) option" where
  "virtqueue_kick dbg vq vm =
     do { vq \<leftarrow> VQUEUE_BUSY dbg Avail_write vq;
          must \<leftarrow> vq_ring_must_notify_host vq vm;
          let call = (if must \<noteq> 0 then vq_ring_notify_host vq else None);
          Some (call, VQUEUE_IDLE dbg Avail_write (vq\<lparr>vq_queued_cnt := 0\<rparr>)) }"

text \<open>\<open>virtqueue_notification\<close>: the callback it invokes, if there is one.\<close>

definition virtqueue_notification :: "virtqueue option \<Rightarrow> fn_ptr option" where
  "virtqueue_notification vqp =
     (case vqp of
        None \<Rightarrow> None
      | Some vq \<Rightarrow> if callback_fc vq \<noteq> Fn_NULL then Some (callback_fc vq) else None)"

end
