(* ===== verification/Virtqueue_Props.thy ===== *)
theory Virtqueue_Props
  imports Virtqueue
begin

text \<open>
  What the virtqueue operations guarantee: a well-formedness invariant that every operation
  keeps, the exact effect of each operation on a well-formed queue (in particular that none of
  them faults), and the two rings as interpretations of the bounded FIFO contract.
\<close>

section \<open>Well-formed queues\<close>

text \<open>
  The queue has a power of two of entries, the vring it points to has as many, and the arrays
  of the shared memory have the sizes \<open>vring_size\<close> reserves. \<open>vq_idle\<close> says that no operation
  is in progress on the queue.
\<close>

definition vq_wf :: "virtqueue \<Rightarrow> vring_mem \<Rightarrow> bool" where
  "vq_wf vq vm \<longleftrightarrow> is_pow2 (vq_nentries vq) \<and> vring_mem_wf (unat (vq_nentries vq)) vm
     \<and> vr_num (vq_ring vq) = ucast (vq_nentries vq)"

definition vq_idle :: "virtqueue \<Rightarrow> bool" where
  "vq_idle vq \<longleftrightarrow> \<not> avail_read vq \<and> \<not> avail_write vq \<and> \<not> used_read vq \<and> \<not> used_write vq"

lemma vq_wf_lengths:
  assumes "vq_wf vq vm"
  shows "length (vm_desc vm) = unat (vq_nentries vq)"
    and "length (av_ring (vm_avail vm)) = Suc (unat (vq_nentries vq))"
    and "length (us_ring (vm_used vm)) = Suc (unat (vq_nentries vq))"
    and "0 < unat (vq_nentries vq)"
    and "unat (vr_num (vq_ring vq)) = unat (vq_nentries vq)"
  using assms by (auto simp: vq_wf_def vring_mem_wf_def is_pow2_pos unat_u16_u32)

lemma vq_slot:
  assumes "vq_wf vq vm"
  shows "unat (i AND (vq_nentries vq - 1)) = unat i mod unat (vq_nentries vq)"
  using assms by (simp add: vq_wf_def unat_and_pred)

lemma vq_slot_less:
  assumes "vq_wf vq vm"
  shows "unat i mod unat (vq_nentries vq) < unat (vq_nentries vq)"
  using vq_wf_lengths(4) [OF assms] by simp

text \<open>A completed operation leaves the busy flags of an idle queue as they were.\<close>

lemma VQUEUE_BUSY_idle:
  "vq_idle vq \<Longrightarrow> VQUEUE_BUSY dbg dir vq = Some (if dbg then set_vq_dir_flag dir True vq else vq)"
  by (cases dir) (simp_all add: VQUEUE_BUSY_def vq_idle_def)

lemma set_vq_dir_flag_simps [simp]:
  "vq_nentries (set_vq_dir_flag dir b vq) = vq_nentries vq"
  "vq_available_idx (set_vq_dir_flag dir b vq) = vq_available_idx vq"
  "vq_used_cons_idx (set_vq_dir_flag dir b vq) = vq_used_cons_idx vq"
  "vq_desc_head_idx (set_vq_dir_flag dir b vq) = vq_desc_head_idx vq"
  "vq_queued_cnt (set_vq_dir_flag dir b vq) = vq_queued_cnt vq"
  "vq_flags (set_vq_dir_flag dir b vq) = vq_flags vq"
  "vq_ring (set_vq_dir_flag dir b vq) = vq_ring vq"
  "notify_fc (set_vq_dir_flag dir b vq) = notify_fc vq"
  "callback_fc (set_vq_dir_flag dir b vq) = callback_fc vq"
  by (cases dir; simp)+

lemma set_vq_dir_flag_idle [simp]:
  "vq_idle vq \<Longrightarrow> set_vq_dir_flag dir False (set_vq_dir_flag dir True vq) = vq"
  "vq_idle vq \<Longrightarrow> set_vq_dir_flag dir False vq = vq"
  by (cases vq; cases dir; simp add: vq_idle_def)+

lemma set_vq_dir_flag_commute [simp]:
  "(set_vq_dir_flag dir b vq)\<lparr>vq_queued_cnt := x\<rparr> = set_vq_dir_flag dir b (vq\<lparr>vq_queued_cnt := x\<rparr>)"
  "(set_vq_dir_flag dir b vq)\<lparr>vq_used_cons_idx := x\<rparr> =
     set_vq_dir_flag dir b (vq\<lparr>vq_used_cons_idx := x\<rparr>)"
  "(set_vq_dir_flag dir b vq)\<lparr>vq_available_idx := x\<rparr> =
     set_vq_dir_flag dir b (vq\<lparr>vq_available_idx := x\<rparr>)"
  "(set_vq_dir_flag dir b vq)\<lparr>vq_desc_head_idx := x\<rparr> =
     set_vq_dir_flag dir b (vq\<lparr>vq_desc_head_idx := x\<rparr>)"
  by (cases vq; cases dir; simp)+

declare set_vq_dir_flag.simps [simp del]

lemma vq_idle_updates [simp]:
  "vq_idle (vq\<lparr>vq_queued_cnt := x\<rparr>) = vq_idle vq"
  "vq_idle (vq\<lparr>vq_used_cons_idx := x\<rparr>) = vq_idle vq"
  "vq_idle (vq\<lparr>vq_available_idx := x\<rparr>) = vq_idle vq"
  "vq_idle (vq\<lparr>vq_desc_head_idx := x\<rparr>) = vq_idle vq"
  by (simp_all add: vq_idle_def)

lemma vq_wf_updates [simp]:
  "vq_wf (vq\<lparr>vq_queued_cnt := x\<rparr>) vm = vq_wf vq vm"
  "vq_wf (vq\<lparr>vq_used_cons_idx := x\<rparr>) vm = vq_wf vq vm"
  "vq_wf (vq\<lparr>vq_available_idx := x\<rparr>) vm = vq_wf vq vm"
  "vq_wf (vq\<lparr>vq_desc_head_idx := x\<rparr>) vm = vq_wf vq vm"
  by (simp_all add: vq_wf_def)

section \<open>The effect of the operations\<close>

text \<open>The writes to the shared rings, as functions on the shared memory.\<close>

definition avail_push :: "nat \<Rightarrow> u16 \<Rightarrow> vring_mem \<Rightarrow> vring_mem" where
  "avail_push n i vm = vm\<lparr>vm_avail := (vm_avail vm)
     \<lparr>av_ring := (av_ring (vm_avail vm))[unat (av_idx (vm_avail vm)) mod n := i],
      av_idx := av_idx (vm_avail vm) + 1\<rparr>\<rparr>"

definition used_push :: "nat \<Rightarrow> vring_used_elem \<Rightarrow> vring_mem \<Rightarrow> vring_mem" where
  "used_push n e vm = vm\<lparr>vm_used := (vm_used vm)
     \<lparr>us_ring := (us_ring (vm_used vm))[unat (us_idx (vm_used vm)) mod n := e],
      us_idx := us_idx (vm_used vm) + 1\<rparr>\<rparr>"

definition desc_set :: "nat \<Rightarrow> u32 \<Rightarrow> u32 \<Rightarrow> vring_mem \<Rightarrow> vring_mem" where
  "desc_set i a l vm = vm\<lparr>vm_desc := (vm_desc vm)[i := (vm_desc vm ! i)
     \<lparr>d_addr := ucast a, d_len := l, d_flags := VRING_DESC_F_WRITE\<rparr>]\<rparr>"

lemma push_wf [simp]:
  "vring_mem_wf m (avail_push n i vm) = vring_mem_wf m vm"
  "vring_mem_wf m (used_push n e vm) = vring_mem_wf m vm"
  "vring_mem_wf m (desc_set j a l vm) = vring_mem_wf m vm"
  by (simp_all add: avail_push_def used_push_def desc_set_def vring_mem_wf_def)

lemma push_vq_wf [simp]:
  "vq_wf vq (avail_push n i vm) = vq_wf vq vm"
  "vq_wf vq (used_push n e vm) = vq_wf vq vm"
  "vq_wf vq (desc_set j a l vm) = vq_wf vq vm"
  by (simp_all add: vq_wf_def)

lemma push_frame [simp]:
  "vm_desc (avail_push n i vm) = vm_desc vm" "vm_used (avail_push n i vm) = vm_used vm"
  "vm_desc (used_push n e vm) = vm_desc vm" "vm_avail (used_push n e vm) = vm_avail vm"
  "vm_avail (desc_set j a l vm) = vm_avail vm" "vm_used (desc_set j a l vm) = vm_used vm"
  by (simp_all add: avail_push_def used_push_def desc_set_def)

lemma vq_ring_update_avail_eq:
  assumes "vq_wf vq vm"
  shows "vq_ring_update_avail vq vm i =
    Some (vq\<lparr>vq_queued_cnt := vq_queued_cnt vq + 1\<rparr>, avail_push (unat (vq_nentries vq)) i vm)"
  using vq_slot_less [OF assms, of "av_idx (vm_avail vm)"] vq_wf_lengths(2) [OF assms]
  by (simp add: vq_ring_update_avail_def vq_slot [OF assms] avail_push_def Let_def)

lemma vq_ring_update_used_eq:
  assumes "vq_wf vq vm"
  shows "vq_ring_update_used vq vm i len =
    Some (vq, used_push (unat (vq_nentries vq)) \<lparr>ue_id = ucast i, ue_len = len\<rparr> vm)"
  using vq_slot_less [OF assms, of "us_idx (vm_used vm)"] vq_wf_lengths(3) [OF assms]
  by (simp add: vq_ring_update_used_def vq_slot [OF assms] used_push_def Let_def)

lemma vq_wf_flag [simp]: "vq_wf (set_vq_dir_flag dir b vq) vm = vq_wf vq vm"
  by (simp add: vq_wf_def)

lemma virtqueue_add_buffer_eq:
  assumes "vq_wf vq vm" "vq_idle vq" "dbg \<longrightarrow> i < vq_nentries vq"
  shows "virtqueue_add_buffer dbg (Some vq) vm i =
    Some (VQUEUE_SUCCESS, vq\<lparr>vq_queued_cnt := vq_queued_cnt vq + 1\<rparr>,
          avail_push (unat (vq_nentries vq)) i vm)"
  using assms
  by (simp add: virtqueue_add_buffer_def VQUEUE_BUSY_idle VQUEUE_IDLE_def VQASSERT_def
      vq_ring_update_avail_eq)

lemma virtqueue_add_consumed_buffer_eq:
  assumes "vq_wf vq vm" "vq_idle vq"
  shows "virtqueue_add_consumed_buffer dbg vq vm i len =
    Some (if i > vq_nentries vq then (ERROR_VRING_NO_BUFF, vq, vm)
          else (VQUEUE_SUCCESS, vq,
                used_push (unat (vq_nentries vq)) \<lparr>ue_id = ucast i, ue_len = len\<rparr> vm))"
  using assms
  by (simp add: virtqueue_add_consumed_buffer_def VQUEUE_BUSY_idle VQUEUE_IDLE_def
      vq_ring_update_used_eq)

lemma virtqueue_fill_avail_buffers_eq:
  assumes "vq_wf vq vm" "vq_idle vq" "vq_desc_head_idx vq < vq_nentries vq"
  shows "virtqueue_fill_avail_buffers vatopa dbg (Some vq) vm buffer len =
    Some (VQUEUE_SUCCESS,
      vq\<lparr>vq_desc_head_idx := vq_desc_head_idx vq + 1, vq_queued_cnt := vq_queued_cnt vq + 1\<rparr>,
      avail_push (unat (vq_nentries vq)) (vq_desc_head_idx vq)
        (desc_set (unat (vq_desc_head_idx vq)) (vatopa buffer) len vm))"
proof -
  have "unat (vq_desc_head_idx vq) < length (vm_desc vm)"
    using assms vq_wf_lengths(1) by (simp add: word_less_nat_alt)
  moreover have "vq_wf vq (desc_set (unat (vq_desc_head_idx vq)) (vatopa buffer) len vm)"
    using assms by simp
  ultimately show ?thesis
    using assms
    by (simp add: virtqueue_fill_avail_buffers_def VQUEUE_BUSY_idle VQUEUE_IDLE_def
        vq_ring_update_avail_eq Let_def flip: desc_set_def)
qed

lemma virtqueue_fill_used_buffers_eq:
  assumes "vq_wf vq vm" "vq_idle vq" "vq_desc_head_idx vq < vq_nentries vq" "buffer \<noteq> NULL"
  shows "virtqueue_fill_used_buffers vatopa dbg vq vm buffer len =
    Some (VQUEUE_SUCCESS, vq\<lparr>vq_desc_head_idx := vq_desc_head_idx vq + 1\<rparr>,
      used_push (unat (vq_nentries vq)) \<lparr>ue_id = ucast (vq_desc_head_idx vq), ue_len = len\<rparr>
        (desc_set (unat (vq_desc_head_idx vq)) (vatopa buffer) len vm))"
proof -
  have "unat (vq_desc_head_idx vq) < length (vm_desc vm)"
    using assms vq_wf_lengths(1) by (simp add: word_less_nat_alt)
  moreover have "vq_desc_head_idx vq \<noteq> VQ_RING_DESC_CHAIN_END"
    using assms(1,3) is_pow2_u16_dvd(2) [of "vq_nentries vq"]
    by (auto simp: vq_wf_def word_less_nat_alt)
  moreover have "vq_wf vq (desc_set (unat (vq_desc_head_idx vq)) (vatopa buffer) len vm)"
    using assms by simp
  ultimately show ?thesis
    using assms
    by (simp add: virtqueue_fill_used_buffers_def VQUEUE_BUSY_idle VQUEUE_IDLE_def VQASSERT_def
        vq_ring_add_buffer_def vq_ring_update_used_eq Let_def flip: desc_set_def)
qed

text \<open>The descriptor that the next entry of a ring names, as the receiving operations return it.\<close>

lemma virtqueue_get_available_buffer_eq:
  assumes "vq_wf vq vm" "vq_idle vq"
    and i: "i = av_ring (vm_avail vm) ! (unat (vq_available_idx vq) mod unat (vq_nentries vq))"
    and lt: "vq_available_idx vq \<noteq> av_idx (vm_avail vm) \<Longrightarrow> i < vq_nentries vq"
  shows "virtqueue_get_available_buffer patova dbg vq vm =
    (if vq_available_idx vq = av_idx (vm_avail vm) then Some ((NULL, None), vq)
     else Some ((patova (ucast (d_addr (vm_desc vm ! unat i))),
                 Some (d_len (vm_desc vm ! unat i), i)),
                vq\<lparr>vq_available_idx := vq_available_idx vq + 1\<rparr>))"
proof (cases "vq_available_idx vq = av_idx (vm_avail vm)")
  case True
  then show ?thesis by (simp add: virtqueue_get_available_buffer_def)
next
  case False
  have slot: "unat (vq_available_idx vq) mod unat (vq_nentries vq) < Suc (unat (vq_nentries vq))"
    using vq_slot_less [OF assms(1), of "vq_available_idx vq"] by simp
  have "unat i < length (vm_desc vm)"
    using False lt vq_wf_lengths(1) [OF assms(1)] by (simp add: word_less_nat_alt)
  then show ?thesis
    using False assms(1,2) slot
    by (simp add: virtqueue_get_available_buffer_def VQUEUE_BUSY_idle VQUEUE_IDLE_def Let_def
        vq_slot [OF assms(1)] vq_wf_lengths(2) [OF assms(1)] flip: i)
qed

lemma virtqueue_get_buffer_eq:
  assumes "vq_wf vq vm" "vq_idle vq"
    and e: "e = us_ring (vm_used vm) ! (unat (vq_used_cons_idx vq) mod unat (vq_nentries vq))"
    and i: "i = ucast (ue_id e)"
    and lt: "vq_used_cons_idx vq \<noteq> us_idx (vm_used vm) \<Longrightarrow> i < vq_nentries vq"
  shows "virtqueue_get_buffer patova dbg (Some vq) vm =
    (if vq_used_cons_idx vq = us_idx (vm_used vm) then Some ((NULL, None), Some vq)
     else Some ((patova (ucast (d_addr (vm_desc vm ! unat i))), Some (ue_len e, i)),
                Some (vq\<lparr>vq_used_cons_idx := vq_used_cons_idx vq + 1\<rparr>)))"
proof (cases "vq_used_cons_idx vq = us_idx (vm_used vm)")
  case True
  then show ?thesis by (simp add: virtqueue_get_buffer_def)
next
  case False
  have slot: "unat (vq_used_cons_idx vq) mod unat (vq_nentries vq) < Suc (unat (vq_nentries vq))"
    using vq_slot_less [OF assms(1), of "vq_used_cons_idx vq"] by simp
  have "unat i < length (vm_desc vm)"
    using False lt vq_wf_lengths(1) [OF assms(1)] by (simp add: word_less_nat_alt)
  then show ?thesis
    using False assms(1,2) slot
    by (simp add: virtqueue_get_buffer_def VQUEUE_BUSY_idle VQUEUE_IDLE_def Let_def
        vq_slot [OF assms(1)] vq_wf_lengths(3) [OF assms(1)] flip: e i)
qed

section \<open>The rings as bounded FIFO queues\<close>

text \<open>
  A vring as two cores use it: the driver's control block, the device's control block and the
  shared memory. The driver is the master for both of its virtqueues: it adds buffers to the
  available ring (\<open>virtqueue_add_buffer\<close>) and takes them from the used ring
  (\<open>virtqueue_get_buffer\<close>); the device is the remote, which takes from the available ring
  (\<open>virtqueue_get_available_buffer\<close>) and gives back on the used ring
  (\<open>virtqueue_add_consumed_buffer\<close>).
\<close>

record vlink =
  vl_drv :: virtqueue
  vl_dev :: virtqueue
  vl_shm :: vring_mem

definition vl_entries :: "vlink \<Rightarrow> nat" where
  "vl_entries q = unat (vq_nentries (vl_drv q))"

definition vlink_wf :: "vlink \<Rightarrow> bool" where
  "vlink_wf q \<longleftrightarrow> vq_wf (vl_drv q) (vl_shm q) \<and> vq_wf (vl_dev q) (vl_shm q)
     \<and> vq_nentries (vl_dev q) = vq_nentries (vl_drv q) \<and> vq_idle (vl_drv q) \<and> vq_idle (vl_dev q)"

definition avail_items :: "vlink \<Rightarrow> u16 list" where
  "avail_items q = ring_list (vl_entries q) (av_ring (vm_avail (vl_shm q)))
     (vq_available_idx (vl_dev q)) (av_idx (vm_avail (vl_shm q)))"

definition used_items :: "vlink \<Rightarrow> (u16 \<times> u32) list" where
  "used_items q = map (\<lambda>e. (ucast (ue_id e), ue_len e))
     (ring_list (vl_entries q) (us_ring (vm_used (vl_shm q)))
       (vq_used_cons_idx (vl_drv q)) (us_idx (vm_used (vl_shm q))))"

definition avail_inv :: "vlink \<Rightarrow> bool" where
  "avail_inv q \<longleftrightarrow> vlink_wf q \<and> length (avail_items q) \<le> vl_entries q
     \<and> (\<forall>i \<in> set (avail_items q). unat i < vl_entries q)"

definition used_inv :: "vlink \<Rightarrow> bool" where
  "used_inv q \<longleftrightarrow> vlink_wf q \<and> length (used_items q) \<le> vl_entries q
     \<and> (\<forall>(i, l) \<in> set (used_items q). unat i < vl_entries q)"

definition avail_enq :: "bool \<Rightarrow> u16 \<Rightarrow> vlink \<Rightarrow> vlink option" where
  "avail_enq dbg i q =
     do { (st, vq, vm) \<leftarrow> virtqueue_add_buffer dbg (Some (vl_drv q)) (vl_shm q) i;
          Some (q\<lparr>vl_drv := vq, vl_shm := vm\<rparr>) }"

definition avail_deq :: "(u32 \<Rightarrow> ptr) \<Rightarrow> bool \<Rightarrow> vlink \<Rightarrow> (u16 option \<times> vlink) option" where
  "avail_deq patova dbg q =
     do { ((b, r), vq) \<leftarrow> virtqueue_get_available_buffer patova dbg (vl_dev q) (vl_shm q);
          Some (map_option snd r, q\<lparr>vl_dev := vq\<rparr>) }"

definition used_enq :: "bool \<Rightarrow> u16 \<times> u32 \<Rightarrow> vlink \<Rightarrow> vlink option" where
  "used_enq dbg e q =
     do { (st, vq, vm) \<leftarrow> virtqueue_add_consumed_buffer dbg (vl_dev q) (vl_shm q) (fst e) (snd e);
          Some (q\<lparr>vl_dev := vq, vl_shm := vm\<rparr>) }"

definition used_deq :: "(u32 \<Rightarrow> ptr) \<Rightarrow> bool \<Rightarrow> vlink \<Rightarrow> ((u16 \<times> u32) option \<times> vlink) option" where
  "used_deq patova dbg q =
     do { ((b, r), vqo) \<leftarrow> virtqueue_get_buffer patova dbg (Some (vl_drv q)) (vl_shm q);
          vq \<leftarrow> vqo;
          Some (map_option (\<lambda>(l, i). (i, l)) r, q\<lparr>vl_drv := vq\<rparr>) }"

lemma vlink_wf_entries:
  assumes "vlink_wf q"
  shows "vl_entries q dvd 65536" "0 < vl_entries q" "vl_entries q \<le> 32768"
    and "vl_entries q \<le> length (av_ring (vm_avail (vl_shm q)))"
    and "vl_entries q \<le> length (us_ring (vm_used (vl_shm q)))"
    and "unat (vq_nentries (vl_dev q)) = vl_entries q"
    and "unat (vq_nentries (vl_drv q)) = vl_entries q"
proof -
  have w: "vq_wf (vl_drv q) (vl_shm q)" "vq_nentries (vl_dev q) = vq_nentries (vl_drv q)"
    using assms by (auto simp: vlink_wf_def)
  then have p: "is_pow2 (vq_nentries (vl_drv q))" by (simp add: vq_wf_def)
  show "vl_entries q dvd 65536" "vl_entries q \<le> 32768"
    using is_pow2_u16_dvd [OF p] by (simp_all add: vl_entries_def)
  show "0 < vl_entries q" "vl_entries q \<le> length (av_ring (vm_avail (vl_shm q)))"
    "vl_entries q \<le> length (us_ring (vm_used (vl_shm q)))"
    "unat (vq_nentries (vl_dev q)) = vl_entries q" "unat (vq_nentries (vl_drv q)) = vl_entries q"
    using vq_wf_lengths [OF w(1)] w(2) by (simp_all add: vl_entries_def)
qed

lemma avail_enq_eq:
  assumes "avail_inv q" "unat i < vl_entries q"
  shows "avail_enq dbg i q = Some (q
    \<lparr>vl_drv := (vl_drv q)\<lparr>vq_queued_cnt := vq_queued_cnt (vl_drv q) + 1\<rparr>,
     vl_shm := avail_push (vl_entries q) i (vl_shm q)\<rparr>)"
  using assms
  by (simp add: avail_enq_def avail_inv_def vlink_wf_def virtqueue_add_buffer_eq vl_entries_def
      word_less_nat_alt)

lemma avail_items_enq:
  assumes "avail_inv q" "length (avail_items q) < vl_entries q"
  shows "ring_list (vl_entries q) (av_ring (vm_avail (avail_push (vl_entries q) i (vl_shm q))))
      (vq_available_idx (vl_dev q)) (av_idx (vm_avail (avail_push (vl_entries q) i (vl_shm q))))
    = avail_items q @ [i]"
proof -
  have w: "vlink_wf q" using assms(1) by (simp add: avail_inv_def)
  show ?thesis
    using assms(2) vlink_wf_entries(1-4) [OF w]
    by (simp add: avail_push_def avail_items_def ring_list_enq)
qed

lemma avail_deq_Cons:
  assumes "avail_inv q" "avail_items q = i # is"
  shows "avail_deq patova dbg q = Some (Some i,
      q\<lparr>vl_dev := (vl_dev q)\<lparr>vq_available_idx := vq_available_idx (vl_dev q) + 1\<rparr>\<rparr>)"
    and "ring_list (vl_entries q) (av_ring (vm_avail (vl_shm q)))
      (vq_available_idx (vl_dev q) + 1) (av_idx (vm_avail (vl_shm q))) = is"
proof -
  have w: "vlink_wf q" using assms(1) by (simp add: avail_inv_def)
  have ne: "vq_available_idx (vl_dev q) \<noteq> av_idx (vm_avail (vl_shm q))"
    using assms(2) by (auto simp: avail_items_def)
  note d = ring_list_deq [OF vlink_wf_entries(1) [OF w] ne, of "av_ring (vm_avail (vl_shm q))"]
  show tl: "ring_list (vl_entries q) (av_ring (vm_avail (vl_shm q)))
      (vq_available_idx (vl_dev q) + 1) (av_idx (vm_avail (vl_shm q))) = is"
    using assms(2) d by (simp add: avail_items_def)
  have i: "i = av_ring (vm_avail (vl_shm q)) ! (unat (vq_available_idx (vl_dev q)) mod vl_entries q)"
    using assms(2) d by (simp add: avail_items_def)
  have "unat i < vl_entries q" using assms by (simp add: avail_inv_def)
  then have "i < vq_nentries (vl_dev q)"
    using vlink_wf_entries(6) [OF w] by (simp add: word_less_nat_alt)
  moreover have "vq_wf (vl_dev q) (vl_shm q)" "vq_idle (vl_dev q)" using w by (simp_all add: vlink_wf_def)
  ultimately show "avail_deq patova dbg q = Some (Some i,
      q\<lparr>vl_dev := (vl_dev q)\<lparr>vq_available_idx := vq_available_idx (vl_dev q) + 1\<rparr>\<rparr>)"
    using i ne vlink_wf_entries(6) [OF w]
    by (subst avail_deq_def, subst virtqueue_get_available_buffer_eq [where i = i]) simp_all
qed

interpretation avail_ring: bounded_fifo "avail_enq dbg" "avail_deq patova dbg" avail_items
  vl_entries "\<lambda>n i. unat i < n" avail_inv for dbg patova
proof unfold_locales
  fix q :: vlink and i :: u16
  assume q: "avail_inv q" "length (avail_items q) < vl_entries q" "unat i < vl_entries q"
  let ?q = "q\<lparr>vl_drv := (vl_drv q)\<lparr>vq_queued_cnt := vq_queued_cnt (vl_drv q) + 1\<rparr>,
     vl_shm := avail_push (vl_entries q) i (vl_shm q)\<rparr>"
  have it: "avail_items ?q = avail_items q @ [i]"
    using avail_items_enq [OF q(1,2)] by (simp add: avail_items_def vl_entries_def)
  moreover have "avail_inv ?q"
    using q it by (auto simp: avail_inv_def vlink_wf_def vl_entries_def)
  ultimately show "\<exists>q'. avail_enq dbg i q = Some q' \<and> avail_inv q' \<and>
      avail_items q' = avail_items q @ [i] \<and> vl_entries q' = vl_entries q"
    using avail_enq_eq [OF q(1,3)] by (simp add: vl_entries_def)
next
  fix q :: vlink
  assume q: "avail_inv q" "avail_items q = []"
  then show "avail_deq patova dbg q = Some (None, q)"
    by (simp add: avail_deq_def avail_items_def virtqueue_get_available_buffer_def)
next
  fix q :: vlink and i "is"
  assume q: "avail_inv q" "avail_items q = i # is"
  let ?q = "q\<lparr>vl_dev := (vl_dev q)\<lparr>vq_available_idx := vq_available_idx (vl_dev q) + 1\<rparr>\<rparr>"
  have it: "avail_items ?q = is"
    using avail_deq_Cons(2) [OF q] by (simp add: avail_items_def vl_entries_def)
  moreover have "avail_inv ?q"
    using q it by (auto simp: avail_inv_def vlink_wf_def vl_entries_def)
  ultimately show "\<exists>q'. avail_deq patova dbg q = Some (Some i, q') \<and> avail_inv q' \<and>
      avail_items q' = is \<and> vl_entries q' = vl_entries q"
    using avail_deq_Cons(1) [OF q] by (simp add: vl_entries_def)
qed

lemma ring_list_map: "N \<le> length r \<Longrightarrow> 0 < N \<Longrightarrow> map f (ring_list N r c p) = ring_list N (map f r) c p"
  by (simp add: ring_list_def order_less_le_trans [OF mod_less_divisor])

definition used_elem :: "vring_used_elem \<Rightarrow> u16 \<times> u32" where
  "used_elem e = (ucast (ue_id e), ue_len e)"

lemma used_elem_mk [simp]: "used_elem \<lparr>ue_id = ucast i, ue_len = l\<rparr> = (i, l)"
  by (simp add: used_elem_def)

lemma used_items_ring:
  assumes "vlink_wf q"
  shows "used_items q = ring_list (vl_entries q) (map used_elem (us_ring (vm_used (vl_shm q))))
     (vq_used_cons_idx (vl_drv q)) (us_idx (vm_used (vl_shm q)))"
  using ring_list_map [OF vlink_wf_entries(5,2) [OF assms]]
  by (simp add: used_items_def flip: used_elem_def)

lemma used_enq_eq:
  assumes "used_inv q" "unat i < vl_entries q"
  shows "used_enq dbg (i, l) q =
    Some (q\<lparr>vl_shm := used_push (vl_entries q) \<lparr>ue_id = ucast i, ue_len = l\<rparr> (vl_shm q)\<rparr>)"
proof -
  have w: "vlink_wf q" using assms(1) by (simp add: used_inv_def)
  then have "\<not> vq_nentries (vl_dev q) < i"
    using assms(2) vlink_wf_entries(6) [OF w] by (simp add: word_less_nat_alt)
  then show ?thesis
    using w vlink_wf_entries(6) [OF w]
    by (simp add: used_enq_def vlink_wf_def virtqueue_add_consumed_buffer_eq)
qed

lemma used_items_enq:
  assumes "used_inv q" "length (used_items q) < vl_entries q"
  shows "used_items (q\<lparr>vl_shm := used_push (vl_entries q) \<lparr>ue_id = ucast i, ue_len = l\<rparr> (vl_shm q)\<rparr>)
    = used_items q @ [(i, l)]"
proof -
  let ?q = "q\<lparr>vl_shm := used_push (vl_entries q) \<lparr>ue_id = ucast i, ue_len = l\<rparr> (vl_shm q)\<rparr>"
  have w: "vlink_wf q" using assms(1) by (simp add: used_inv_def)
  then have "vlink_wf ?q" by (simp add: vlink_wf_def)
  moreover have "unat (us_idx (vm_used (vl_shm q)) - vq_used_cons_idx (vl_drv q)) < vl_entries q"
    using assms(2) by (simp add: used_items_ring [OF w])
  moreover have "vl_entries ?q = vl_entries q" by (simp add: vl_entries_def)
  ultimately show ?thesis
    using vlink_wf_entries(1-3,5) [OF w] w
    by (simp add: used_items_ring used_push_def map_update ring_list_enq)
qed

lemma used_deq_Cons:
  assumes "used_inv q" "used_items q = (i, l) # es"
  shows "used_deq patova dbg q = Some (Some (i, l),
      q\<lparr>vl_drv := (vl_drv q)\<lparr>vq_used_cons_idx := vq_used_cons_idx (vl_drv q) + 1\<rparr>\<rparr>)"
    and "used_items (q\<lparr>vl_drv := (vl_drv q)\<lparr>vq_used_cons_idx := vq_used_cons_idx (vl_drv q) + 1\<rparr>\<rparr>) = es"
proof -
  let ?q = "q\<lparr>vl_drv := (vl_drv q)\<lparr>vq_used_cons_idx := vq_used_cons_idx (vl_drv q) + 1\<rparr>\<rparr>"
  let ?e = "us_ring (vm_used (vl_shm q)) ! (unat (vq_used_cons_idx (vl_drv q)) mod vl_entries q)"
  have w: "vlink_wf q" using assms(1) by (simp add: used_inv_def)
  then have w': "vlink_wf ?q" by (simp add: vlink_wf_def)
  have ne: "vq_used_cons_idx (vl_drv q) \<noteq> us_idx (vm_used (vl_shm q))"
    using assms(2) by (auto simp: used_items_def)
  have "unat (vq_used_cons_idx (vl_drv q)) mod vl_entries q < vl_entries q"
    using vlink_wf_entries(2) [OF w] by (rule mod_less_divisor)
  then have lt: "unat (vq_used_cons_idx (vl_drv q)) mod vl_entries q < length (us_ring (vm_used (vl_shm q)))"
    using vlink_wf_entries(5) [OF w] by linarith
  have d: "used_items q = used_elem ?e # ring_list (vl_entries q)
      (map used_elem (us_ring (vm_used (vl_shm q)))) (vq_used_cons_idx (vl_drv q) + 1)
      (us_idx (vm_used (vl_shm q)))"
    unfolding used_items_ring [OF w] using lt
    by (subst ring_list_deq [OF vlink_wf_entries(1) [OF w] ne]) simp
  then show "used_items ?q = es"
    using assms(2) by (simp add: used_items_ring [OF w'] vl_entries_def)
  have i: "i = ucast (ue_id ?e)" "l = ue_len ?e"
    using d assms(2) by (simp_all add: used_elem_def)
  have "unat i < vl_entries q" using assms by (simp add: used_inv_def)
  then have "i < vq_nentries (vl_drv q)"
    using vlink_wf_entries(7) [OF w] by (simp add: word_less_nat_alt)
  moreover have "vq_wf (vl_drv q) (vl_shm q)" "vq_idle (vl_drv q)" using w by (simp_all add: vlink_wf_def)
  ultimately show "used_deq patova dbg q = Some (Some (i, l), ?q)"
    using i ne vlink_wf_entries(7) [OF w]
    by (subst used_deq_def, subst virtqueue_get_buffer_eq [where i = i and e = ?e]) simp_all
qed

interpretation used_ring: bounded_fifo "used_enq dbg" "used_deq patova dbg" used_items
  vl_entries "\<lambda>n e. unat (fst e) < n" used_inv for dbg patova
proof unfold_locales
  fix q :: vlink and e :: "u16 \<times> u32"
  assume q: "used_inv q" "length (used_items q) < vl_entries q" "unat (fst e) < vl_entries q"
  obtain i l where e: "e = (i, l)" by (cases e)
  let ?q = "q\<lparr>vl_shm := used_push (vl_entries q) \<lparr>ue_id = ucast i, ue_len = l\<rparr> (vl_shm q)\<rparr>"
  have it: "used_items ?q = used_items q @ [e]"
    unfolding e by (rule used_items_enq [OF q(1,2)])
  moreover have "used_inv ?q"
    using q e it by (auto simp: used_inv_def vlink_wf_def vl_entries_def)
  ultimately show "\<exists>q'. used_enq dbg e q = Some q' \<and> used_inv q' \<and>
      used_items q' = used_items q @ [e] \<and> vl_entries q' = vl_entries q"
    using used_enq_eq [OF q(1), of i dbg l] q(3) e by (simp add: vl_entries_def)
next
  fix q :: vlink
  assume q: "used_inv q" "used_items q = []"
  then show "used_deq patova dbg q = Some (None, q)"
    by (simp add: used_deq_def used_items_def virtqueue_get_buffer_def)
next
  fix q :: vlink and e es
  assume q: "used_inv q" "used_items q = e # es"
  obtain i l where e: "e = (i, l)" by (cases e)
  let ?q = "q\<lparr>vl_drv := (vl_drv q)\<lparr>vq_used_cons_idx := vq_used_cons_idx (vl_drv q) + 1\<rparr>\<rparr>"
  note d = used_deq_Cons [OF q(1) q(2) [unfolded e]]
  moreover have "used_inv ?q"
    using q d(2) by (auto simp: used_inv_def vlink_wf_def vl_entries_def)
  ultimately show "\<exists>q'. used_deq patova dbg q = Some (Some e, q') \<and> used_inv q' \<and>
      used_items q' = es \<and> vl_entries q' = vl_entries q"
    using e by (simp add: vl_entries_def)
qed

section \<open>Creation\<close>

text \<open>
  The two ends of a link as the two cores create them over the same zeroed ring memory.
\<close>

definition vlink_fresh :: "vring_alloc_info \<Rightarrow> vlink" where
  "vlink_fresh ri =
     \<lparr>vl_drv = virtqueue_setup 0 ''tx_vq'' ri Fn_rpmsg_lite_tx_callback Fn_virtqueue_notify,
      vl_dev = virtqueue_setup 0 ''rx_vq'' ri Fn_rpmsg_lite_rx_callback Fn_virtqueue_notify,
      vl_shm = vring_mem_zero (unat (num_descs ri))\<rparr>"

lemma virtqueue_setup_wf:
  assumes "is_pow2 (num_descs ri)" "vring_mem_wf (unat (num_descs ri)) vm"
  shows "vq_wf (virtqueue_setup qid name ri cb nf) vm"
  using assms
  by (simp add: vq_wf_def virtqueue_setup_def virtqueue_zero_def vring_init_def)

lemma virtqueue_setup_simps [simp]:
  "vq_idle (virtqueue_setup qid name ri cb nf)"
  "vq_nentries (virtqueue_setup qid name ri cb nf) = num_descs ri"
  "vq_available_idx (virtqueue_setup qid name ri cb nf) = 0"
  "vq_used_cons_idx (virtqueue_setup qid name ri cb nf) = 0"
  "vq_desc_head_idx (virtqueue_setup qid name ri cb nf) = 0"
  "vq_queued_cnt (virtqueue_setup qid name ri cb nf) = 0"
  "vq_flags (virtqueue_setup qid name ri cb nf) = 0"
  "callback_fc (virtqueue_setup qid name ri cb nf) = cb"
  "notify_fc (virtqueue_setup qid name ri cb nf) = nf"
  "vq_queue_index (virtqueue_setup qid name ri cb nf) = qid"
  by (simp_all add: vq_idle_def virtqueue_setup_def virtqueue_zero_def)

lemma vlink_fresh_inv:
  assumes "is_pow2 (num_descs ri)"
  shows "avail_inv (vlink_fresh ri)" "used_inv (vlink_fresh ri)"
    and "avail_items (vlink_fresh ri) = []" "used_items (vlink_fresh ri) = []"
    and "vl_entries (vlink_fresh ri) = unat (num_descs ri)"
proof -
  have w: "vlink_wf (vlink_fresh ri)"
    using assms virtqueue_setup_wf
    by (simp add: vlink_wf_def vlink_fresh_def)
  show "avail_items (vlink_fresh ri) = []" "used_items (vlink_fresh ri) = []"
    "vl_entries (vlink_fresh ri) = unat (num_descs ri)"
    by (simp_all add: avail_items_def used_items_def vl_entries_def vlink_fresh_def)
  then show "avail_inv (vlink_fresh ri)" "used_inv (vlink_fresh ri)"
    using w by (simp_all add: avail_inv_def used_inv_def)
qed

text \<open>
  What \<open>virtqueue_create\<close> returns, on every path, in a build with \<open>VQUEUE_DEBUG\<close>: an empty
  ring and an alignment above \<open>INT32_MAX\<close> are invalid parameters, a number of descriptors that
  is not a power of two is an alignment error, a failed allocation is \<open>ERROR_NO_MEM\<close>; otherwise
  the new queue is well formed over its zeroed ring, idle, and has nothing to consume on
  either ring.
\<close>

theorem virtqueue_create_correct:
  "virtqueue_create True qid name (Some ri) cb nf mem =
     (if num_descs ri = 0 then Some (ERROR_VQUEUE_INVLD_PARAM, None)
      else if \<not> is_pow2 (num_descs ri) then Some (ERROR_VRING_ALIGN, None)
      else if ring_align ri > VRING_INT32_MAX then Some (ERROR_VQUEUE_INVLD_PARAM, None)
      else if mem = NULL then Some (ERROR_NO_MEM, None)
      else Some (VQUEUE_SUCCESS, Some (virtqueue_setup qid name ri cb nf)))
   \<and> (is_pow2 (num_descs ri) \<longrightarrow>
       vq_wf (virtqueue_setup qid name ri cb nf) (vring_mem_zero (unat (num_descs ri)))
       \<and> vq_idle (virtqueue_setup qid name ri cb nf)
       \<and> virtqueue_get_buffer patova dbg (Some (virtqueue_setup qid name ri cb nf))
           (vring_mem_zero (unat (num_descs ri)))
         = Some ((NULL, None), Some (virtqueue_setup qid name ri cb nf))
       \<and> virtqueue_get_available_buffer patova dbg (virtqueue_setup qid name ri cb nf)
           (vring_mem_zero (unat (num_descs ri)))
         = Some ((NULL, None), virtqueue_setup qid name ri cb nf))"
proof (intro conjI impI)
  show "virtqueue_create True qid name (Some ri) cb nf mem =
     (if num_descs ri = 0 then Some (ERROR_VQUEUE_INVLD_PARAM, None)
      else if \<not> is_pow2 (num_descs ri) then Some (ERROR_VRING_ALIGN, None)
      else if ring_align ri > VRING_INT32_MAX then Some (ERROR_VQUEUE_INVLD_PARAM, None)
      else if mem = NULL then Some (ERROR_NO_MEM, None)
      else Some (VQUEUE_SUCCESS, Some (virtqueue_setup qid name ri cb nf)))"
    by (simp add: virtqueue_create_def virtqueue_create_status_def VQ_PARAM_CHK_def is_pow2_def
        Let_def)
qed (simp_all add: virtqueue_setup_wf virtqueue_get_buffer_def
      virtqueue_get_available_buffer_def)

theorem virtqueue_create_correct_witness:
  "is_pow2 (4 :: u16) \<and>
   vq_wf (virtqueue_setup 1 ''rx_vq'' \<lparr>phy_addr = 4096, ring_align = 16, num_descs = 4\<rparr> Fn_NULL Fn_NULL)
     (vring_mem_zero 4)"
  using virtqueue_create_correct
    [of 1 "''rx_vq''" "\<lparr>phy_addr = 4096, ring_align = 16, num_descs = 4\<rparr>" Fn_NULL Fn_NULL 8 id False]
  by (simp add: is_pow2_def)

section \<open>No entry is lost, duplicated or reordered\<close>

text \<open>
  C8: The available ring is a FIFO queue between the driver's \<open>virtqueue_add_buffer\<close> and the
  device's \<open>virtqueue_get_available_buffer\<close>: under every interleaving of the two in which
  the driver adds valid descriptor indices while there is room, no call faults, and the
  indices the device has received followed by those still in the ring are those that were in
  the ring followed by those added, in order. The 16-bit indices may wrap any number of times.
\<close>

theorem avail_ring_fifo:
  assumes "avail_inv q"
    and "admissible (\<lambda>n i. unat i < n) es (vl_entries q) (length (avail_items q))"
  shows "\<exists>out q'. fifo_run (avail_enq dbg) (avail_deq patova dbg) es q = Some (out, q')
    \<and> avail_inv q' \<and> out @ avail_items q' = avail_items q @ somes es"
  using avail_ring.run_fifo [OF assms] by blast

theorem avail_ring_fifo_witness:
  "\<exists>out q'. fifo_run (avail_enq True) (avail_deq (\<lambda>a. a) True)
      [None, Some 1, Some 0, None, Some 1, None]
      (vlink_fresh \<lparr>phy_addr = 4096, ring_align = 16, num_descs = 2\<rparr>) = Some (out, q')
    \<and> out @ avail_items q' = [1, 0, 1]"
proof -
  let ?ri = "\<lparr>phy_addr = 4096, ring_align = 16, num_descs = 2\<rparr> :: vring_alloc_info"
  have p: "is_pow2 (num_descs ?ri)" by (simp add: is_pow2_def)
  show ?thesis
    using avail_ring_fifo [OF vlink_fresh_inv(1) [OF p],
        of "[None, Some 1, Some 0, None, Some 1, None]" True "\<lambda>a. a"]
    by (simp add: vlink_fresh_inv(3,5) [OF p] del: fifo_run.simps) blast
qed

text \<open>
  C9: The used ring is a FIFO queue between the device's \<open>virtqueue_add_consumed_buffer\<close> and
  the driver's \<open>virtqueue_get_buffer\<close>, and it carries the length the device reports together
  with the descriptor index.
\<close>

theorem used_ring_fifo:
  assumes "used_inv q"
    and "admissible (\<lambda>n e. unat (fst e) < n) es (vl_entries q) (length (used_items q))"
  shows "\<exists>out q'. fifo_run (used_enq dbg) (used_deq patova dbg) es q = Some (out, q')
    \<and> used_inv q' \<and> out @ used_items q' = used_items q @ somes es"
  using used_ring.run_fifo [OF assms] by blast

theorem used_ring_fifo_witness:
  "\<exists>out q'. fifo_run (used_enq True) (used_deq (\<lambda>a. a) True)
      [Some (1, 20), None, Some (0, 496), Some (1, 32), None]
      (vlink_fresh \<lparr>phy_addr = 4096, ring_align = 16, num_descs = 2\<rparr>) = Some (out, q')
    \<and> out @ used_items q' = [(1, 20), (0, 496), (1, 32)]"
proof -
  let ?ri = "\<lparr>phy_addr = 4096, ring_align = 16, num_descs = 2\<rparr> :: vring_alloc_info"
  have p: "is_pow2 (num_descs ?ri)" by (simp add: is_pow2_def)
  show ?thesis
    using used_ring_fifo [OF vlink_fresh_inv(2) [OF p],
        of "[Some (1, 20), None, Some (0, 496), Some (1, 32), None]" True "\<lambda>a. a"]
    by (simp add: vlink_fresh_inv(4,5) [OF p] del: fifo_run.simps) blast
qed

section \<open>Every operation keeps the queue well formed\<close>

text \<open>
  One core's view of a virtqueue: it calls the operations in any order and with any
  arguments, and between its calls the other core changes the shared memory in any way that
  stays inside the arrays.
\<close>

inductive vq_op ::
  "(ptr \<Rightarrow> u32) \<Rightarrow> (u32 \<Rightarrow> ptr) \<Rightarrow> bool \<Rightarrow> virtqueue \<times> vring_mem \<Rightarrow> virtqueue \<times> vring_mem \<Rightarrow> bool"
  for vatopa patova dbg where
  op_add_buffer: "virtqueue_add_buffer dbg (Some vq) vm i = Some (st, vq', vm')
     \<Longrightarrow> vq_op vatopa patova dbg (vq, vm) (vq', vm')"
| op_fill_avail: "virtqueue_fill_avail_buffers vatopa dbg (Some vq) vm b len = Some (st, vq', vm')
     \<Longrightarrow> vq_op vatopa patova dbg (vq, vm) (vq', vm')"
| op_fill_used: "virtqueue_fill_used_buffers vatopa dbg vq vm b len = Some (st, vq', vm')
     \<Longrightarrow> vq_op vatopa patova dbg (vq, vm) (vq', vm')"
| op_get_buffer: "virtqueue_get_buffer patova dbg (Some vq) vm = Some (r, Some vq')
     \<Longrightarrow> vq_op vatopa patova dbg (vq, vm) (vq', vm)"
| op_get_available: "virtqueue_get_available_buffer patova dbg vq vm = Some (r, vq')
     \<Longrightarrow> vq_op vatopa patova dbg (vq, vm) (vq', vm)"
| op_add_consumed: "virtqueue_add_consumed_buffer dbg vq vm i len = Some (st, vq', vm')
     \<Longrightarrow> vq_op vatopa patova dbg (vq, vm) (vq', vm')"
| op_ring_init: "vq_ring_init vq vm = Some vm' \<Longrightarrow> vq_op vatopa patova dbg (vq, vm) (vq, vm')"
| op_disable_cb: "virtqueue_disable_cb dbg vq vm = Some (vq', vm')
     \<Longrightarrow> vq_op vatopa patova dbg (vq, vm) (vq', vm')"
| op_enable_cb: "virtqueue_enable_cb dbg vq vm = Some (st, vm')
     \<Longrightarrow> vq_op vatopa patova dbg (vq, vm) (vq, vm')"
| op_kick: "virtqueue_kick dbg vq vm = Some (call, vq')
     \<Longrightarrow> vq_op vatopa patova dbg (vq, vm) (vq', vm)"
| op_peer: "vring_mem_wf (unat (vq_nentries vq)) vm'
     \<Longrightarrow> vq_op vatopa patova dbg (vq, vm) (vq, vm')"

lemma VQUEUE_BUSY_Some:
  "VQUEUE_BUSY dbg dir vq = Some vq' \<Longrightarrow> vq_idle vq
    \<Longrightarrow> vq' = (if dbg then set_vq_dir_flag dir True vq else vq)"
  by (simp add: VQUEUE_BUSY_idle)

lemma vq_ring_init_loop_length:
  "vq_ring_init_loop i k ds = Some ds' \<Longrightarrow> length ds' = length ds"
  by (induction i k ds arbitrary: ds' rule: vq_ring_init_loop.induct)
    (auto split: bind_splits)

lemma set_vring_used_event_wf:
  "set_vring_used_event vr vm v = Some vm' \<Longrightarrow> vq_wf vq vm' = vq_wf vq vm"
  by (auto simp: set_vring_used_event_def vq_wf_def vring_mem_wf_def split: bind_splits)

lemma vm_avail_flags_wf [simp]:
  "vq_wf vq (vm\<lparr>vm_avail := (vm_avail vm)\<lparr>av_flags := x\<rparr>\<rparr>) = vq_wf vq vm"
  by (simp add: vq_wf_def vring_mem_wf_def)

lemma vm_desc_wf:
  "length ds = length (vm_desc vm) \<Longrightarrow> vq_wf vq (vm\<lparr>vm_desc := ds\<rparr>) = vq_wf vq vm"
  by (simp add: vq_wf_def vring_mem_wf_def)

lemmas vq_op_defs = virtqueue_add_buffer_def virtqueue_fill_avail_buffers_def
  virtqueue_fill_used_buffers_def vq_ring_add_buffer_def virtqueue_get_buffer_def
  virtqueue_get_available_buffer_def virtqueue_add_consumed_buffer_def vq_ring_init_def
  virtqueue_disable_cb_def virtqueue_enable_cb_def vq_ring_enable_interrupt_def
  virtqueue_kick_def VQUEUE_IDLE_def Let_def

lemma vq_op_wf:
  assumes "vq_op vatopa patova dbg x y" "vq_wf (fst x) (snd x)" "vq_idle (fst x)"
  shows "vq_wf (fst y) (snd y) \<and> vq_idle (fst y) \<and> vq_nentries (fst y) = vq_nentries (fst x)"
  using assms
proof (induction rule: vq_op.induct)
  case (op_peer vq vm' vm)
  then show ?case by (simp add: vq_wf_def)
qed (auto simp: vq_op_defs VQUEUE_BUSY_idle vq_ring_update_avail_eq vq_ring_update_used_eq
      vm_desc_wf set_vring_used_event_wf vq_ring_init_loop_length
      split: bind_splits if_splits)

text \<open>
  C23: Well-formedness is an invariant of the whole interface: after any sequence of calls of the
  virtqueue operations, with any arguments, interleaved with any writes of the other core that
  stay inside the shared arrays, the queue still has the power of two of entries it was created
  with, its shared arrays have their sizes, and no busy flag is left set.
\<close>

theorem virtqueue_ops_keep_wf:
  assumes "(vq_op vatopa patova dbg)\<^sup>*\<^sup>* (vq, vm) (vq', vm')" "vq_wf vq vm" "vq_idle vq"
  shows "vq_wf vq' vm' \<and> vq_idle vq' \<and> vq_nentries vq' = vq_nentries vq"
proof -
  have "vq_wf (fst y) (snd y) \<and> vq_idle (fst y) \<and> vq_nentries (fst y) = vq_nentries vq"
    if "(vq_op vatopa patova dbg)\<^sup>*\<^sup>* (vq, vm) y" for y
    using that assms(2,3) by (induction rule: rtranclp_induct) (auto dest: vq_op_wf)
  from this [OF assms(1)] show ?thesis by simp
qed

theorem virtqueue_ops_keep_wf_witness:
  "\<exists>vq' vm'. vq_op (\<lambda>a. a) (\<lambda>a. a) True
      (virtqueue_setup 0 ''vq'' \<lparr>phy_addr = 4096, ring_align = 16, num_descs = 2\<rparr> Fn_NULL Fn_NULL,
       vring_mem_zero 2) (vq', vm') \<and> vq_wf vq' vm' \<and> av_idx (vm_avail vm') = 1"
proof -
  let ?vq = "virtqueue_setup 0 ''vq'' \<lparr>phy_addr = 4096, ring_align = 16, num_descs = 2\<rparr>
    Fn_NULL Fn_NULL"
  have w: "vq_wf ?vq (vring_mem_zero 2)" by (rule virtqueue_setup_wf) (simp_all add: is_pow2_def)
  have "virtqueue_add_buffer True (Some ?vq) (vring_mem_zero 2) 1 =
      Some (VQUEUE_SUCCESS, ?vq\<lparr>vq_queued_cnt := 1\<rparr>, avail_push 2 1 (vring_mem_zero 2))"
    using virtqueue_add_buffer_eq [OF w, of True 1] by simp
  then have o: "vq_op (\<lambda>a. a) (\<lambda>a. a) True (?vq, vring_mem_zero 2)
      (?vq\<lparr>vq_queued_cnt := 1\<rparr>, avail_push 2 1 (vring_mem_zero 2))"
    by (rule vq_op.op_add_buffer)
  from virtqueue_ops_keep_wf [OF r_into_rtranclp [of "vq_op (\<lambda>a. a) (\<lambda>a. a) True", OF o] w]
  have "vq_wf (?vq\<lparr>vq_queued_cnt := 1\<rparr>) (avail_push 2 1 (vring_mem_zero 2))"
    by (simp only: virtqueue_setup_simps)
  moreover have "av_idx (vm_avail (avail_push 2 1 (vring_mem_zero 2))) = 1"
    by (simp add: avail_push_def)
  ultimately show ?thesis using o by blast
qed

section \<open>Parameters at the edge of the ring\<close>

text \<open>
  C39: \<open>virtqueue_add_consumed_buffer\<close> refuses, and changes nothing, for an index above the
  number of entries; but it accepts the index equal to the number of entries, for which
  there is no descriptor, and the driver that then takes this entry reads outside the
  descriptor table.
\<close>

theorem add_consumed_buffer_limit:
  assumes "used_inv q" "used_items q = []"
  shows "(i > vq_nentries (vl_dev q) \<longrightarrow>
      virtqueue_add_consumed_buffer dbg (vl_dev q) (vl_shm q) i len =
        Some (ERROR_VRING_NO_BUFF, vl_dev q, vl_shm q))
    \<and> (\<exists>vm'. virtqueue_add_consumed_buffer dbg (vl_dev q) (vl_shm q) (vq_nentries (vl_dev q)) len =
        Some (VQUEUE_SUCCESS, vl_dev q, vm')
        \<and> virtqueue_get_buffer patova dbg (Some (vl_drv q)) vm' = None)"
proof (intro conjI impI)
  have w: "vlink_wf q" using assms(1) by (simp add: used_inv_def)
  then have d: "vq_wf (vl_dev q) (vl_shm q)" "vq_idle (vl_dev q)" "vq_wf (vl_drv q) (vl_shm q)" "vq_idle (vl_drv q)"
    by (simp_all add: vlink_wf_def)
  show "virtqueue_add_consumed_buffer dbg (vl_dev q) (vl_shm q) i len =
        Some (ERROR_VRING_NO_BUFF, vl_dev q, vl_shm q)" if "i > vq_nentries (vl_dev q)"
    using that by (simp add: virtqueue_add_consumed_buffer_def)
  let ?n = "vq_nentries (vl_dev q)"
  let ?vm = "used_push (vl_entries q) \<lparr>ue_id = ucast ?n, ue_len = len\<rparr> (vl_shm q)"
  have e: "vq_used_cons_idx (vl_drv q) = us_idx (vm_used (vl_shm q))"
    using assms(2) by (simp add: used_items_def)
  have "unat (us_idx (vm_used (vl_shm q))) mod vl_entries q < Suc (vl_entries q)"
    using vlink_wf_entries(2) [OF w] by (simp add: less_SucI)
  then have "virtqueue_get_buffer patova dbg (Some (vl_drv q)) ?vm = None"
    using d e vq_wf_lengths(1,3) [OF d(3)] vlink_wf_entries(6,7) [OF w]
    by (simp add: virtqueue_get_buffer_def VQUEUE_BUSY_idle vq_slot [OF d(3)] used_push_def Let_def
        rd_def)
  then show "\<exists>vm'. virtqueue_add_consumed_buffer dbg (vl_dev q) (vl_shm q) ?n len =
        Some (VQUEUE_SUCCESS, vl_dev q, vm')
        \<and> virtqueue_get_buffer patova dbg (Some (vl_drv q)) vm' = None"
    using virtqueue_add_consumed_buffer_eq [OF d(1,2)] vlink_wf_entries(6) [OF w] by simp
qed

theorem add_consumed_buffer_limit_witness:
  "\<exists>vm'. virtqueue_add_consumed_buffer False (vl_dev (vlink_fresh \<lparr>phy_addr = 4096, ring_align = 16, num_descs = 2\<rparr>))
      (vl_shm (vlink_fresh \<lparr>phy_addr = 4096, ring_align = 16, num_descs = 2\<rparr>)) 2 16 =
      Some (VQUEUE_SUCCESS, vl_dev (vlink_fresh \<lparr>phy_addr = 4096, ring_align = 16, num_descs = 2\<rparr>), vm')"
proof -
  let ?ri = "\<lparr>phy_addr = 4096, ring_align = 16, num_descs = 2\<rparr> :: vring_alloc_info"
  have p: "is_pow2 (num_descs ?ri)" by (simp add: is_pow2_def)
  have "vq_nentries (vl_dev (vlink_fresh ?ri)) = 2" by (simp add: vlink_fresh_def)
  then show ?thesis
    using add_consumed_buffer_limit [OF vlink_fresh_inv(2,4) [OF p], of 3 False 16 "\<lambda>a. a"] by auto
qed

text \<open>
  \<open>virtqueue_get_desc_size\<close> looks at the next available buffer without taking it: it
  returns the length that \<open>virtqueue_get_available_buffer\<close> would report, 0 when the ring is
  empty, and faults exactly when that operation does.
\<close>

lemma get_desc_size_peeks:
  "virtqueue_get_desc_size vq vm =
     map_option (\<lambda>((b, r), vq'). case r of None \<Rightarrow> 0 | Some (len, i) \<Rightarrow> len)
       (virtqueue_get_available_buffer patova False vq vm)"
  by (auto simp: virtqueue_get_desc_size_def virtqueue_get_available_buffer_def VQUEUE_BUSY_def
      VQUEUE_IDLE_def Let_def split: bind_splits)

section \<open>The free chain\<close>

lemma vq_ring_init_loop_spec:
  assumes "i + k < length ds"
  shows "\<exists>ds'. vq_ring_init_loop i k ds = Some ds' \<and> length ds' = length ds
    \<and> (\<forall>j < length ds. ds' ! j =
        (if j < i \<or> i + k < j then ds ! j
         else (ds ! j)\<lparr>d_next := if j = i + k then VQ_RING_DESC_CHAIN_END else of_nat (j + 1)\<rparr>))"
  using assms
proof (induction k arbitrary: i ds)
  case 0
  then show ?case by (auto simp: nth_list_update)
next
  case (Suc k)
  let ?ds = "ds[i := (ds ! i)\<lparr>d_next := of_nat (i + 1)\<rparr>]"
  from Suc.IH [of "Suc i" ?ds] Suc.prems obtain ds' where
    "vq_ring_init_loop (Suc i) k ?ds = Some ds'" "length ds' = length ds"
    and e: "\<And>j. j < length ds \<Longrightarrow> ds' ! j =
        (if j < Suc i \<or> Suc i + k < j then ?ds ! j
         else (?ds ! j)\<lparr>d_next := if j = Suc i + k then VQ_RING_DESC_CHAIN_END else of_nat (j + 1)\<rparr>)"
    by auto
  moreover have "ds' ! j =
        (if j < i \<or> i + Suc k < j then ds ! j
         else (ds ! j)\<lparr>d_next := if j = i + Suc k then VQ_RING_DESC_CHAIN_END else of_nat (j + 1)\<rparr>)"
    if "j < length ds" for j
    using e [OF that] that by (auto simp: nth_list_update less_Suc_eq)
  ultimately show ?case using Suc.prems by (simp del: of_nat_Suc of_nat_add)
qed

text \<open>
  \<open>vq_ring_init\<close> links the descriptors of a ring of \<open>n\<close> entries into one chain
  \<open>0, 1, \<dots>, n - 1\<close> that ends with \<open>VQ_RING_DESC_CHAIN_END\<close>, touches nothing but the
  \<open>next\<close> fields and never writes outside the table.
\<close>

lemma vq_ring_init_chain:
  assumes "vq_wf vq vm"
  shows "\<exists>ds. vq_ring_init vq vm = Some (vm\<lparr>vm_desc := ds\<rparr>) \<and> length ds = unat (vq_nentries vq)
    \<and> (\<forall>j < unat (vq_nentries vq). ds ! j = (vm_desc vm ! j)
        \<lparr>d_next := if j = unat (vq_nentries vq) - 1 then VQ_RING_DESC_CHAIN_END else of_nat (j + 1)\<rparr>)"
proof -
  let ?n = "unat (vq_nentries vq)"
  have n: "0 < ?n" "length (vm_desc vm) = ?n" using vq_wf_lengths [OF assms] by simp_all
  then have "(ucast (vq_nentries vq) :: u32) \<noteq> 0"
    by (metis unat_0 unat_u16_u32 less_irrefl)
  then have k: "unat (ucast (vq_nentries vq) - 1 :: u32) = ?n - 1" by (simp add: unat_minus_one)
  have lt: "0 + (?n - 1) < length (vm_desc vm)" using n by simp
  from vq_ring_init_loop_spec [OF lt] n show ?thesis
    by (auto simp: vq_ring_init_def k simp del: of_nat_Suc of_nat_add)
qed

section \<open>Notification\<close>

lemma virtqueue_kick_spec:
  assumes "vq_idle vq" "vq_flags vq = 0" "vq_idle peer" "vq_flags peer = 0"
  shows "virtqueue_kick dbg vq vm = Some
      (if us_flags (vm_used vm) AND VRING_USED_F_NO_NOTIFY = 0 \<and> notify_fc vq \<noteq> Fn_NULL
       then Some (notify_fc vq) else None, vq\<lparr>vq_queued_cnt := 0\<rparr>)
    \<and> (\<exists>vm'. virtqueue_disable_cb dbg peer vm = Some (peer, vm')
        \<and> av_flags (vm_avail vm') AND VRING_AVAIL_F_NO_INTERRUPT = VRING_AVAIL_F_NO_INTERRUPT
        \<and> virtqueue_kick dbg vq vm' = virtqueue_kick dbg vq vm)"
proof (intro conjI)
  show "virtqueue_kick dbg vq vm = Some
      (if us_flags (vm_used vm) AND VRING_USED_F_NO_NOTIFY = 0 \<and> notify_fc vq \<noteq> Fn_NULL
       then Some (notify_fc vq) else None, vq\<lparr>vq_queued_cnt := 0\<rparr>)"
    using assms
    by (simp add: virtqueue_kick_def VQUEUE_BUSY_idle VQUEUE_IDLE_def vq_ring_must_notify_host_def
        vq_ring_notify_host_def)
  have m: "(x OR 1) AND (1 :: u16) = 1" for x
    by (rule bit_word_eqI) (auto simp: bit_simps)
  show "\<exists>vm'. virtqueue_disable_cb dbg peer vm = Some (peer, vm')
        \<and> av_flags (vm_avail vm') AND VRING_AVAIL_F_NO_INTERRUPT = VRING_AVAIL_F_NO_INTERRUPT
        \<and> virtqueue_kick dbg vq vm' = virtqueue_kick dbg vq vm"
    using assms m
    by (simp add: virtqueue_kick_def virtqueue_disable_cb_def VQUEUE_BUSY_idle VQUEUE_IDLE_def
        vq_ring_must_notify_host_def vq_ring_notify_host_def)
qed

text \<open>
  \<open>virtqueue_kick\<close> on a queue without the event index asks the peer exactly once, and
  exactly when a notification function is installed and the peer has not set
  \<open>VRING_USED_F_NO_NOTIFY\<close> in the used ring; it resets the count of queued entries. The flag
  that \<open>virtqueue_disable_cb\<close> sets, \<open>VRING_AVAIL_F_NO_INTERRUPT\<close> in the available ring, is
  read by no operation: the call of the peer's \<open>virtqueue_kick\<close> is the same with and without it.
\<close>

theorem virtqueue_kick_correct:
  assumes "vq_idle vq" "vq_flags vq = 0" "vq_idle peer" "vq_flags peer = 0"
  shows "virtqueue_kick dbg vq vm = Some
      (if us_flags (vm_used vm) AND VRING_USED_F_NO_NOTIFY = 0 \<and> notify_fc vq \<noteq> Fn_NULL
       then Some (notify_fc vq) else None, vq\<lparr>vq_queued_cnt := 0\<rparr>)
    \<and> (\<exists>vm'. virtqueue_disable_cb dbg peer vm = Some (peer, vm')
        \<and> av_flags (vm_avail vm') AND VRING_AVAIL_F_NO_INTERRUPT = VRING_AVAIL_F_NO_INTERRUPT
        \<and> virtqueue_kick dbg vq vm' = virtqueue_kick dbg vq vm)"
  by (rule virtqueue_kick_spec [OF assms])

theorem virtqueue_kick_correct_witness:
  "virtqueue_kick True (virtqueue_setup 0 ''vq'' \<lparr>phy_addr = 4096, ring_align = 16, num_descs = 2\<rparr>
      Fn_NULL Fn_virtqueue_notify) (vring_mem_zero 2) = Some (Some Fn_virtqueue_notify,
      virtqueue_setup 0 ''vq'' \<lparr>phy_addr = 4096, ring_align = 16, num_descs = 2\<rparr>
        Fn_NULL Fn_virtqueue_notify\<lparr>vq_queued_cnt := 0\<rparr>)"
proof -
  let ?vq = "virtqueue_setup 0 ''vq'' \<lparr>phy_addr = 4096, ring_align = 16, num_descs = 2\<rparr>
    Fn_NULL Fn_virtqueue_notify"
  show ?thesis using virtqueue_kick_correct [of ?vq ?vq True "vring_mem_zero 2"] by simp
qed

text \<open>
  \<open>virtqueue_enable_cb\<close> clears the flag \<open>VRING_AVAIL_F_NO_INTERRUPT\<close>, leaves both rings as
  they are, and returns 1 exactly when used entries are pending, so that a driver that
  enables the callback after it has drained the ring can tell whether it missed one.
\<close>

lemma virtqueue_enable_cb_correct:
  assumes "used_inv q" "vq_flags (vl_drv q) = 0"
  shows "\<exists>vm'. virtqueue_enable_cb dbg (vl_drv q) (vl_shm q) =
      Some (if used_items q \<noteq> [] then 1 else 0, vm')
    \<and> av_flags (vm_avail vm') AND VRING_AVAIL_F_NO_INTERRUPT = 0
    \<and> used_items (q\<lparr>vl_shm := vm'\<rparr>) = used_items q \<and> avail_items (q\<lparr>vl_shm := vm'\<rparr>) = avail_items q"
proof -
  have m: "(x AND - 2) AND (1 :: u16) = 0" for x
    by (simp add: and.assoc)
  have "length (used_items q) \<le> vl_entries q" using assms(1) by (simp add: used_inv_def)
  then have "us_idx (vm_used (vl_shm q)) - vq_used_cons_idx (vl_drv q) \<le> vq_nentries (vl_drv q)"
    by (simp add: used_items_def vl_entries_def word_le_nat_alt)
  moreover have "(0 < us_idx (vm_used (vl_shm q)) - vq_used_cons_idx (vl_drv q)) = (used_items q \<noteq> [])"
    by (auto simp: used_items_def word_greater_zero_iff)
  ultimately show ?thesis
    using assms(2) m
    by (simp add: virtqueue_enable_cb_def vq_ring_enable_interrupt_def virtqueue_nused_def
        VQASSERT_def Let_def used_items_def [of "q\<lparr>vl_shm := x\<rparr>" for x]
        avail_items_def vl_entries_def)
      (simp add: used_items_def vl_entries_def)
qed

end
