(* ===== verification/Ring_Protocol.thy ===== *)
theory Ring_Protocol
  imports Virtqueue_Props "HOL-Library.Multiset"
begin

text \<open>
  Two cores on one vring, interleaved between the single accesses to the shared memory: the
  write of a ring entry and the publication of the index that follows the write barrier
  (\<open>vq_ring_update_avail\<close>, \<open>vq_ring_update_used\<close>), the test of the published index and the
  read of the entry that follows it (\<open>virtqueue_get_available_buffer\<close>,
  \<open>virtqueue_get_buffer\<close>). The micro-steps are shown to compose to the operations of the
  code; a step relation interleaves them; the invariant of its reachable states is that every
  descriptor is owned by exactly one party at any moment.
\<close>

section \<open>The accesses to the shared memory\<close>

definition avail_write_slot :: "virtqueue \<Rightarrow> vring_mem \<Rightarrow> u16 \<Rightarrow> vring_mem option" where
  "avail_write_slot vq vm desc_idx =
     do { let av = vm_avail vm;
          let avail_idx = av_idx av AND (vq_nentries vq - 1);
          r \<leftarrow> wr (av_ring av) (unat avail_idx) desc_idx;
          Some (vm\<lparr>vm_avail := av\<lparr>av_ring := r\<rparr>\<rparr>) }"

definition avail_publish :: "vring_mem \<Rightarrow> vring_mem" where
  "avail_publish vm = vm\<lparr>vm_avail := (vm_avail vm)\<lparr>av_idx := av_idx (vm_avail vm) + 1\<rparr>\<rparr>"

definition used_write_slot :: "virtqueue \<Rightarrow> vring_mem \<Rightarrow> u16 \<Rightarrow> u32 \<Rightarrow> vring_mem option" where
  "used_write_slot vq vm head_idx len =
     do { let us = vm_used vm;
          let used_idx = us_idx us AND (vq_nentries vq - 1);
          r \<leftarrow> wr (us_ring us) (unat used_idx) \<lparr>ue_id = ucast head_idx, ue_len = len\<rparr>;
          Some (vm\<lparr>vm_used := us\<lparr>us_ring := r\<rparr>\<rparr>) }"

definition used_publish :: "vring_mem \<Rightarrow> vring_mem" where
  "used_publish vm = vm\<lparr>vm_used := (vm_used vm)\<lparr>us_idx := us_idx (vm_used vm) + 1\<rparr>\<rparr>"

definition avail_pending :: "virtqueue \<Rightarrow> vring_mem \<Rightarrow> bool" where
  "avail_pending vq vm \<longleftrightarrow> vq_available_idx vq \<noteq> av_idx (vm_avail vm)"

definition avail_read_slot :: "virtqueue \<Rightarrow> vring_mem \<Rightarrow> u16 option" where
  "avail_read_slot vq vm =
     rd (av_ring (vm_avail vm)) (unat (vq_available_idx vq AND (vq_nentries vq - 1)))"

definition used_pending :: "virtqueue \<Rightarrow> vring_mem \<Rightarrow> bool" where
  "used_pending vq vm \<longleftrightarrow> vq_used_cons_idx vq \<noteq> us_idx (vm_used vm)"

definition used_read_slot :: "virtqueue \<Rightarrow> vring_mem \<Rightarrow> vring_used_elem option" where
  "used_read_slot vq vm =
     rd (us_ring (vm_used vm)) (unat (vq_used_cons_idx vq AND (vq_nentries vq - 1)))"

text \<open>
  The operations of the code are the compositions of the micro-steps the interleaving is
  defined on, with nothing in between: adding to a ring is the write of the entry followed by
  the publication of the index, taking from a ring is the test of the published index
  followed by the read of the entry and of its descriptor.
\<close>

theorem micro_steps_compose:
  "virtqueue_add_buffer False (Some vq) vm i =
     do { vm1 \<leftarrow> avail_write_slot vq vm i;
          Some (VQUEUE_SUCCESS, vq\<lparr>vq_queued_cnt := vq_queued_cnt vq + 1\<rparr>, avail_publish vm1) }
   \<and> virtqueue_add_consumed_buffer False vq vm i len =
     (if i > vq_nentries vq then Some (ERROR_VRING_NO_BUFF, vq, vm)
      else do { vm1 \<leftarrow> used_write_slot vq vm i len;
                Some (VQUEUE_SUCCESS, vq, used_publish vm1) })
   \<and> virtqueue_get_available_buffer patova False vq vm =
     (if \<not> avail_pending vq vm then Some ((NULL, None), vq)
      else do { j \<leftarrow> avail_read_slot vq vm; d \<leftarrow> rd (vm_desc vm) (unat j);
                Some ((patova (ucast (d_addr d)), Some (d_len d, j)),
                      vq\<lparr>vq_available_idx := vq_available_idx vq + 1\<rparr>) })
   \<and> virtqueue_get_buffer patova False (Some vq) vm =
     (if \<not> used_pending vq vm then Some ((NULL, None), Some vq)
      else do { e \<leftarrow> used_read_slot vq vm;
                d \<leftarrow> rd (vm_desc vm) (unat (ucast (ue_id e) :: u16));
                Some ((patova (ucast (d_addr d)), Some (ue_len e, ucast (ue_id e))),
                      Some (vq\<lparr>vq_used_cons_idx := vq_used_cons_idx vq + 1\<rparr>)) })"
proof (intro conjI)
  show "virtqueue_add_buffer False (Some vq) vm i =
     do { vm1 \<leftarrow> avail_write_slot vq vm i;
          Some (VQUEUE_SUCCESS, vq\<lparr>vq_queued_cnt := vq_queued_cnt vq + 1\<rparr>, avail_publish vm1) }"
    by (cases "wr (av_ring (vm_avail vm)) (unat (av_idx (vm_avail vm) AND (vq_nentries vq - 1))) i")
      (simp_all add: virtqueue_add_buffer_def VQUEUE_BUSY_def VQUEUE_IDLE_def VQASSERT_def
        vq_ring_update_avail_def avail_write_slot_def avail_publish_def Let_def del: wr_eq_Some wr_eq_None)
  show "virtqueue_add_consumed_buffer False vq vm i len =
     (if i > vq_nentries vq then Some (ERROR_VRING_NO_BUFF, vq, vm)
      else do { vm1 \<leftarrow> used_write_slot vq vm i len;
                Some (VQUEUE_SUCCESS, vq, used_publish vm1) })"
    by (cases "wr (us_ring (vm_used vm)) (unat (us_idx (vm_used vm) AND (vq_nentries vq - 1)))
          \<lparr>ue_id = ucast i, ue_len = len\<rparr>")
      (simp_all add: virtqueue_add_consumed_buffer_def VQUEUE_BUSY_def VQUEUE_IDLE_def
        vq_ring_update_used_def used_write_slot_def used_publish_def Let_def
        del: wr_eq_Some wr_eq_None)
qed (simp_all add: virtqueue_get_available_buffer_def virtqueue_get_buffer_def VQUEUE_BUSY_def
      VQUEUE_IDLE_def avail_pending_def avail_read_slot_def used_pending_def used_read_slot_def
      Let_def)

section \<open>The interleaving\<close>

text \<open>
  Where a core stands inside an operation: between two operations, after it has written
  the entry for descriptor \<open>i\<close> but not yet published it, or after it has seen a published
  entry but not yet read it. \<open>drv_own\<close> and \<open>dev_own\<close> are the descriptors each core holds.
\<close>

datatype pc = Between | Written u16 | Seen

fun pc_owned :: "pc \<Rightarrow> u16 list" where
  "pc_owned (Written i) = [i]"
| "pc_owned pc = []"

record proto =
  lk :: vlink
  drv_pc :: pc
  dev_pc :: pc
  drv_own :: "u16 list"
  dev_own :: "u16 list"

inductive pstep :: "proto \<Rightarrow> proto \<Rightarrow> bool" where
  drv_write:
    "\<lbrakk> drv_pc s = Between; i \<in> set (drv_own s);
       avail_write_slot (vl_drv (lk s)) (vl_shm (lk s)) i = Some vm \<rbrakk>
     \<Longrightarrow> pstep s (s\<lparr>lk := (lk s)\<lparr>vl_shm := vm\<rparr>, drv_pc := Written i, drv_own := remove1 i (drv_own s)\<rparr>)"
| drv_publish:
    "drv_pc s = Written i
     \<Longrightarrow> pstep s (s\<lparr>lk := (lk s)\<lparr>vl_drv := (vl_drv (lk s))\<lparr>vq_queued_cnt := vq_queued_cnt (vl_drv (lk s)) + 1\<rparr>,
            vl_shm := avail_publish (vl_shm (lk s))\<rparr>, drv_pc := Between\<rparr>)"
| drv_see:
    "\<lbrakk> drv_pc s = Between; used_pending (vl_drv (lk s)) (vl_shm (lk s)) \<rbrakk> \<Longrightarrow> pstep s (s\<lparr>drv_pc := Seen\<rparr>)"
| drv_take:
    "\<lbrakk> drv_pc s = Seen; used_read_slot (vl_drv (lk s)) (vl_shm (lk s)) = Some e \<rbrakk>
     \<Longrightarrow> pstep s (s\<lparr>lk := (lk s)\<lparr>vl_drv := (vl_drv (lk s))
            \<lparr>vq_used_cons_idx := vq_used_cons_idx (vl_drv (lk s)) + 1\<rparr>\<rparr>,
            drv_pc := Between, drv_own := ucast (ue_id e) # drv_own s\<rparr>)"
| dev_write:
    "\<lbrakk> dev_pc s = Between; i \<in> set (dev_own s);
       used_write_slot (vl_dev (lk s)) (vl_shm (lk s)) i len = Some vm \<rbrakk>
     \<Longrightarrow> pstep s (s\<lparr>lk := (lk s)\<lparr>vl_shm := vm\<rparr>, dev_pc := Written i, dev_own := remove1 i (dev_own s)\<rparr>)"
| dev_publish:
    "dev_pc s = Written i
     \<Longrightarrow> pstep s (s\<lparr>lk := (lk s)\<lparr>vl_shm := used_publish (vl_shm (lk s))\<rparr>, dev_pc := Between\<rparr>)"
| dev_see:
    "\<lbrakk> dev_pc s = Between; avail_pending (vl_dev (lk s)) (vl_shm (lk s)) \<rbrakk> \<Longrightarrow> pstep s (s\<lparr>dev_pc := Seen\<rparr>)"
| dev_take:
    "\<lbrakk> dev_pc s = Seen; avail_read_slot (vl_dev (lk s)) (vl_shm (lk s)) = Some i \<rbrakk>
     \<Longrightarrow> pstep s (s\<lparr>lk := (lk s)\<lparr>vl_dev := (vl_dev (lk s))
            \<lparr>vq_available_idx := vq_available_idx (vl_dev (lk s)) + 1\<rparr>\<rparr>,
            dev_pc := Between, dev_own := i # dev_own s\<rparr>)"

text \<open>A link starts with fresh queues and the driver holding every descriptor.\<close>

definition proto_init :: "vring_alloc_info \<Rightarrow> proto" where
  "proto_init ri = \<lparr>lk = vlink_fresh ri, drv_pc = Between, dev_pc = Between,
     drv_own = map of_nat [0..<unat (num_descs ri)], dev_own = []\<rparr>"

section \<open>What each access does to the two queues\<close>

abbreviation (input) av_slot :: "vlink \<Rightarrow> u16" where
  "av_slot q \<equiv> av_ring (vm_avail (vl_shm q)) ! (unat (av_idx (vm_avail (vl_shm q))) mod vl_entries q)"

abbreviation (input) us_slot :: "vlink \<Rightarrow> u16" where
  "us_slot q \<equiv> fst (used_elem
     (us_ring (vm_used (vl_shm q)) ! (unat (us_idx (vm_used (vl_shm q))) mod vl_entries q)))"

lemma vl_entries_updates [simp]:
  "vl_entries (q\<lparr>vl_shm := x\<rparr>) = vl_entries q" "vl_entries (q\<lparr>vl_dev := y\<rparr>) = vl_entries q"
  "vl_entries (q\<lparr>vl_drv := (vl_drv q)\<lparr>vq_queued_cnt := n\<rparr>\<rparr>) = vl_entries q"
  "vl_entries (q\<lparr>vl_drv := (vl_drv q)\<lparr>vq_queued_cnt := n\<rparr>, vl_shm := x\<rparr>) = vl_entries q"
  "vl_entries (q\<lparr>vl_drv := (vl_drv q)\<lparr>vq_used_cons_idx := n\<rparr>\<rparr>) = vl_entries q"
  by (simp_all add: vl_entries_def)

lemma slot_in_bounds:
  assumes "vlink_wf q"
  shows "unat x mod vl_entries q < length (av_ring (vm_avail (vl_shm q)))"
    and "unat x mod vl_entries q < length (us_ring (vm_used (vl_shm q)))"
  using vlink_wf_entries [OF assms] mod_less_divisor [of "vl_entries q" "unat x"] by linarith+

lemma vlink_slot:
  assumes "vlink_wf q"
  shows "unat (x AND (vq_nentries (vl_drv q) - 1)) = unat x mod vl_entries q"
    and "unat (x AND (vq_nentries (vl_dev q) - 1)) = unat x mod vl_entries q"
  using assms by (simp_all add: vlink_wf_def vq_wf_def unat_and_pred vl_entries_def)

lemma avail_write_slot_ok:
  assumes w: "vlink_wf q" and room: "length (avail_items q) < vl_entries q"
    and vm: "avail_write_slot (vl_drv q) (vl_shm q) i = Some vm"
  shows "vlink_wf (q\<lparr>vl_shm := vm\<rparr>)" "vl_entries (q\<lparr>vl_shm := vm\<rparr>) = vl_entries q"
    and "avail_items (q\<lparr>vl_shm := vm\<rparr>) = avail_items q" "used_items (q\<lparr>vl_shm := vm\<rparr>) = used_items q"
    and "av_slot (q\<lparr>vl_shm := vm\<rparr>) = i" "us_slot (q\<lparr>vl_shm := vm\<rparr>) = us_slot q"
proof -
  have vm': "vm = (vl_shm q)\<lparr>vm_avail := (vm_avail (vl_shm q))\<lparr>av_ring :=
      (av_ring (vm_avail (vl_shm q)))[unat (av_idx (vm_avail (vl_shm q))) mod vl_entries q := i]\<rparr>\<rparr>"
    using vm by (auto simp: avail_write_slot_def vlink_slot [OF w] Let_def split: bind_splits)
  show n: "vl_entries (q\<lparr>vl_shm := vm\<rparr>) = vl_entries q" by (simp add:)
  show "vlink_wf (q\<lparr>vl_shm := vm\<rparr>)"
    using w by (simp add: vm' vlink_wf_def vq_wf_def vring_mem_wf_def)
  show "avail_items (q\<lparr>vl_shm := vm\<rparr>) = avail_items q"
    using room by (simp add: avail_items_def vm' ring_list_slot_other [OF vlink_wf_entries(1) [OF w]])
  show "used_items (q\<lparr>vl_shm := vm\<rparr>) = used_items q" "us_slot (q\<lparr>vl_shm := vm\<rparr>) = us_slot q"
    by (simp_all add: used_items_def vm')
  show "av_slot (q\<lparr>vl_shm := vm\<rparr>) = i"
    by (simp add: vm' slot_in_bounds(1) [OF w])
qed

lemma avail_publish_ok:
  fixes q :: vlink and n :: u16
  assumes w: "vlink_wf q" and room: "length (avail_items q) < vl_entries q"
  defines "q' \<equiv> q\<lparr>vl_drv := (vl_drv q)\<lparr>vq_queued_cnt := n\<rparr>, vl_shm := avail_publish (vl_shm q)\<rparr>"
  shows "vlink_wf q'" "vl_entries q' = vl_entries q"
    and "avail_items q' = avail_items q @ [av_slot q]" "used_items q' = used_items q"
    and "us_slot q' = us_slot q"
proof -
  show "vlink_wf q'" using w by (simp add: q'_def vlink_wf_def vq_wf_def vring_mem_wf_def avail_publish_def)
  show n: "vl_entries q' = vl_entries q" by (simp add: q'_def)
  have "ring_list (vl_entries q) ((av_ring (vm_avail (vl_shm q)))
        [unat (av_idx (vm_avail (vl_shm q))) mod vl_entries q := av_slot q])
      (vq_available_idx (vl_dev q)) (av_idx (vm_avail (vl_shm q)) + 1) = avail_items q @ [av_slot q]"
    using room vlink_wf_entries(1-4) [OF w]
    unfolding avail_items_def by (intro ring_list_enq) simp_all
  then show "avail_items q' = avail_items q @ [av_slot q]"
    by (simp add: q'_def avail_items_def avail_publish_def)
  show "used_items q' = used_items q" "us_slot q' = us_slot q"
    by (simp_all add: q'_def used_items_def avail_publish_def)
qed

lemma used_write_slot_ok:
  assumes w: "vlink_wf q" and room: "length (used_items q) < vl_entries q"
    and vm: "used_write_slot (vl_dev q) (vl_shm q) i len = Some vm"
  shows "vlink_wf (q\<lparr>vl_shm := vm\<rparr>)" "vl_entries (q\<lparr>vl_shm := vm\<rparr>) = vl_entries q"
    and "used_items (q\<lparr>vl_shm := vm\<rparr>) = used_items q" "avail_items (q\<lparr>vl_shm := vm\<rparr>) = avail_items q"
    and "us_slot (q\<lparr>vl_shm := vm\<rparr>) = i" "av_slot (q\<lparr>vl_shm := vm\<rparr>) = av_slot q"
proof -
  have vm': "vm = (vl_shm q)\<lparr>vm_used := (vm_used (vl_shm q))\<lparr>us_ring :=
      (us_ring (vm_used (vl_shm q)))[unat (us_idx (vm_used (vl_shm q))) mod vl_entries q :=
        \<lparr>ue_id = ucast i, ue_len = len\<rparr>]\<rparr>\<rparr>"
    using vm by (auto simp: used_write_slot_def vlink_slot [OF w] Let_def split: bind_splits)
  show n: "vl_entries (q\<lparr>vl_shm := vm\<rparr>) = vl_entries q" by (simp add:)
  show "vlink_wf (q\<lparr>vl_shm := vm\<rparr>)"
    using w by (simp add: vm' vlink_wf_def vq_wf_def vring_mem_wf_def)
  show "used_items (q\<lparr>vl_shm := vm\<rparr>) = used_items q"
    using room by (simp add: used_items_def vm' ring_list_slot_other [OF vlink_wf_entries(1) [OF w]])
  show "avail_items (q\<lparr>vl_shm := vm\<rparr>) = avail_items q" "av_slot (q\<lparr>vl_shm := vm\<rparr>) = av_slot q"
    by (simp_all add: avail_items_def vm')
  show "us_slot (q\<lparr>vl_shm := vm\<rparr>) = i"
    by (simp add: vm' slot_in_bounds(2) [OF w])
qed

lemma used_publish_ok:
  assumes w: "vlink_wf q" and room: "length (used_items q) < vl_entries q"
  defines "q' \<equiv> q\<lparr>vl_shm := used_publish (vl_shm q)\<rparr>"
  shows "vlink_wf q'" "vl_entries q' = vl_entries q"
    and "map fst (used_items q') = map fst (used_items q) @ [us_slot q]"
    and "avail_items q' = avail_items q" "av_slot q' = av_slot q"
proof -
  show "vlink_wf q'" using w by (simp add: q'_def vlink_wf_def vq_wf_def vring_mem_wf_def used_publish_def)
  show n: "vl_entries q' = vl_entries q" by (simp add: q'_def)
  let ?e = "us_ring (vm_used (vl_shm q)) ! (unat (us_idx (vm_used (vl_shm q))) mod vl_entries q)"
  have "ring_list (vl_entries q) ((us_ring (vm_used (vl_shm q)))
        [unat (us_idx (vm_used (vl_shm q))) mod vl_entries q := ?e])
      (vq_used_cons_idx (vl_drv q)) (us_idx (vm_used (vl_shm q)) + 1) =
      ring_list (vl_entries q) (us_ring (vm_used (vl_shm q)))
        (vq_used_cons_idx (vl_drv q)) (us_idx (vm_used (vl_shm q))) @ [?e]"
    using room vlink_wf_entries(1-3,5) [OF w]
    unfolding used_items_def by (intro ring_list_enq) simp_all
  then show "map fst (used_items q') = map fst (used_items q) @ [us_slot q]"
    by (simp add: q'_def used_items_def used_publish_def used_elem_def)
  show "avail_items q' = avail_items q" "av_slot q' = av_slot q"
    by (simp_all add: q'_def avail_items_def used_publish_def)
qed

lemma avail_take_ok:
  assumes w: "vlink_wf q" and ne: "avail_items q \<noteq> []"
    and i: "avail_read_slot (vl_dev q) (vl_shm q) = Some i"
  defines "q' \<equiv> q\<lparr>vl_dev := (vl_dev q)\<lparr>vq_available_idx := vq_available_idx (vl_dev q) + 1\<rparr>\<rparr>"
  shows "vlink_wf q'" "vl_entries q' = vl_entries q" "avail_items q = i # avail_items q'"
    and "used_items q' = used_items q" "av_slot q' = av_slot q" "us_slot q' = us_slot q"
proof -
  show "vlink_wf q'" using w by (simp add: q'_def vlink_wf_def)
  show "vl_entries q' = vl_entries q" "used_items q' = used_items q" "av_slot q' = av_slot q"
    "us_slot q' = us_slot q"
    by (simp_all add: q'_def used_items_def)
  have "vq_available_idx (vl_dev q) \<noteq> av_idx (vm_avail (vl_shm q))"
    using ne by (auto simp: avail_items_def)
  from ring_list_deq [OF vlink_wf_entries(1) [OF w] this, of "av_ring (vm_avail (vl_shm q))"] show "avail_items q = i # avail_items q'"
    using i by (simp add: avail_items_def q'_def avail_read_slot_def
        vlink_slot(2) [OF w])
qed

lemma used_take_ok:
  assumes w: "vlink_wf q" and ne: "used_items q \<noteq> []"
    and e: "used_read_slot (vl_drv q) (vl_shm q) = Some e"
  defines "q' \<equiv> q\<lparr>vl_drv := (vl_drv q)\<lparr>vq_used_cons_idx := vq_used_cons_idx (vl_drv q) + 1\<rparr>\<rparr>"
  shows "vlink_wf q'" "vl_entries q' = vl_entries q" "used_items q = used_elem e # used_items q'"
    and "avail_items q' = avail_items q" "av_slot q' = av_slot q" "us_slot q' = us_slot q"
proof -
  show "vlink_wf q'" using w by (simp add: q'_def vlink_wf_def)
  show "vl_entries q' = vl_entries q" "avail_items q' = avail_items q" "av_slot q' = av_slot q"
    "us_slot q' = us_slot q"
    by (simp_all add: q'_def avail_items_def)
  have "vq_used_cons_idx (vl_drv q) \<noteq> us_idx (vm_used (vl_shm q))"
    using ne by (auto simp: used_items_def)
  from ring_list_deq [OF vlink_wf_entries(1) [OF w] this, of "us_ring (vm_used (vl_shm q))"]
  show "used_items q = used_elem e # used_items q'"
    using e by (simp add: used_items_def q'_def used_read_slot_def used_elem_def
        vlink_slot(1) [OF w])
qed

section \<open>Every descriptor has exactly one owner\<close>

definition owners :: "proto \<Rightarrow> u16 list" where
  "owners s = drv_own s @ pc_owned (drv_pc s) @ avail_items (lk s) @
     dev_own s @ pc_owned (dev_pc s) @ map fst (used_items (lk s))"

definition proto_inv :: "proto \<Rightarrow> bool" where
  "proto_inv s \<longleftrightarrow> vlink_wf (lk s)
     \<and> mset (map unat (owners s)) = mset [0..<vl_entries (lk s)]
     \<and> (\<forall>i. drv_pc s = Written i \<longrightarrow> av_slot (lk s) = i)
     \<and> (\<forall>i. dev_pc s = Written i \<longrightarrow> us_slot (lk s) = i)
     \<and> (drv_pc s = Seen \<longrightarrow> used_items (lk s) \<noteq> [])
     \<and> (dev_pc s = Seen \<longrightarrow> avail_items (lk s) \<noteq> [])"

lemma proto_inv_length:
  assumes "proto_inv s" shows "length (owners s) = vl_entries (lk s)"
proof -
  have "size (mset (map unat (owners s))) = size (mset [0..<vl_entries (lk s)])"
    using assms by (simp only: proto_inv_def)
  then show ?thesis by simp
qed

text \<open>Whoever is about to add an entry finds room: the entry's descriptor is not in the ring.\<close>

lemma proto_inv_room:
  assumes "proto_inv s"
  shows "i \<in> set (drv_own s) \<or> drv_pc s = Written i \<Longrightarrow> length (avail_items (lk s)) < vl_entries (lk s)"
    and "i \<in> set (dev_own s) \<or> dev_pc s = Written i \<Longrightarrow> length (used_items (lk s)) < vl_entries (lk s)"
  using proto_inv_length [OF assms] by (auto simp: owners_def in_set_conv_decomp)

lemma mset_remove1_map:
  "i \<in> set xs \<Longrightarrow> mset (map f xs) = add_mset (f i) (mset (map f (remove1 i xs)))"
  by (metis image_mset_add_mset insert_DiffM mset_map mset_remove1 set_mset_mset)

lemma proto_inv_wf: "proto_inv s \<Longrightarrow> vlink_wf (lk s)"
  by (simp add: proto_inv_def)

lemma mset_owners:
  "mset (map unat (owners s)) = mset (map unat (drv_own s)) + mset (map unat (pc_owned (drv_pc s)))
     + mset (map unat (avail_items (lk s))) + mset (map unat (dev_own s))
     + mset (map unat (pc_owned (dev_pc s))) + mset (map unat (map fst (used_items (lk s))))"
  by (simp add: owners_def)

lemma pstep_inv:
  assumes "pstep s s'" "proto_inv s"
  shows "proto_inv s'"
  using assms
proof (cases rule: pstep.cases)
  case (drv_write i vm)
  note ok = avail_write_slot_ok [OF proto_inv_wf proto_inv_room(1) drv_write(4), OF assms(2) assms(2)]
  show ?thesis
    using assms(2) drv_write(1-3) ok mset_remove1_map [of i "drv_own s" unat]
    unfolding proto_inv_def mset_owners by simp
next
  case (drv_publish i)
  note ok = avail_publish_ok [OF proto_inv_wf proto_inv_room(1), OF assms(2) assms(2),
      of i "vq_queued_cnt (vl_drv (lk s)) + 1"]
  show ?thesis
    using assms(2) drv_publish ok unfolding proto_inv_def mset_owners by simp
next
  case drv_see
  then show ?thesis
    using assms(2) unfolding proto_inv_def mset_owners
    by (simp add: used_pending_def used_items_def)
next
  case (drv_take e)
  have ne: "used_items (lk s) \<noteq> []" using assms(2) drv_take by (simp add: proto_inv_def)
  note ok = used_take_ok [OF proto_inv_wf [OF assms(2)] ne drv_take(3)]
  show ?thesis
    using assms(2) drv_take(1,2) ok unfolding proto_inv_def mset_owners by (simp add: used_elem_def)
next
  case (dev_write i len vm)
  note ok = used_write_slot_ok [OF proto_inv_wf proto_inv_room(2) dev_write(4), OF assms(2) assms(2)]
  show ?thesis
    using assms(2) dev_write(1-3) ok mset_remove1_map [of i "dev_own s" unat]
    unfolding proto_inv_def mset_owners by simp
next
  case (dev_publish i)
  note ok = used_publish_ok [OF proto_inv_wf proto_inv_room(2), OF assms(2) assms(2), of i]
  show ?thesis
    using assms(2) dev_publish ok unfolding proto_inv_def mset_owners by auto
next
  case dev_see
  then show ?thesis
    using assms(2) unfolding proto_inv_def mset_owners
    by (simp add: avail_pending_def avail_items_def)
next
  case (dev_take i)
  have ne: "avail_items (lk s) \<noteq> []" using assms(2) dev_take by (simp add: proto_inv_def)
  note ok = avail_take_ok [OF proto_inv_wf [OF assms(2)] ne dev_take(3)]
  show ?thesis
    using assms(2) dev_take(1,2) ok unfolding proto_inv_def mset_owners by simp
qed

lemma unat_of_nat_list:
  assumes "n \<le> 65536" shows "map (\<lambda>i. unat (of_nat i :: u16)) [0..<n] = [0..<n]"
  using assms by (intro map_idI) (simp add: unat_of_nat)

lemma proto_init_inv:
  assumes "is_pow2 (num_descs ri)" shows "proto_inv (proto_init ri)"
proof -
  note f = vlink_fresh_inv [OF assms]
  have "unat (num_descs ri) \<le> 65536" using unat_u16_less [of "num_descs ri"] by simp
  then show ?thesis
    using f unat_of_nat_list
    by (simp add: proto_inv_def proto_init_def owners_def avail_inv_def comp_def flip: mset_map)
qed

lemma reachable_inv:
  assumes "pstep\<^sup>*\<^sup>* s0 s" "proto_inv s0" shows "proto_inv s"
  using assms by (induction rule: rtranclp_induct) (auto intro: pstep_inv)

lemma pstep_entries: "pstep s s' \<Longrightarrow> vl_entries (lk s') = vl_entries (lk s)"
  by (induction rule: pstep.induct) simp_all

lemma reachable_entries:
  assumes "pstep\<^sup>*\<^sup>* s0 s" shows "vl_entries (lk s) = vl_entries (lk s0)"
  using assms by (induction rule: rtranclp_induct) (auto simp: pstep_entries)

lemma proto_inv_distinct:
  assumes "proto_inv s"
  shows "distinct (owners s)" "set (map unat (owners s)) = {0..<vl_entries (lk s)}"
proof -
  have m: "mset (map unat (owners s)) = mset [0..<vl_entries (lk s)]"
    using assms by (simp only: proto_inv_def)
  then have "distinct (map unat (owners s))" using mset_eq_imp_distinct_iff by fastforce
  then show "distinct (owners s)" by (simp add: distinct_map)
  show "set (map unat (owners s)) = {0..<vl_entries (lk s)}"
    using mset_eq_setD [OF m] by simp
qed

text \<open>
  C3: Descriptor ownership. Whatever the interleaving of the two cores at the granularity of
  single shared-memory accesses, every descriptor of the vring is at every moment in exactly
  one place: held by the driver, being published by it, in the available ring, held by the
  device, being published by it, or in the used ring. So no buffer is ever in the hands of both
  cores, and none is lost.
\<close>

theorem descriptor_ownership:
  assumes "is_pow2 (num_descs ri)" "pstep\<^sup>*\<^sup>* (proto_init ri) s"
  shows "distinct (drv_own s @ pc_owned (drv_pc s) @ avail_items (lk s) @
      dev_own s @ pc_owned (dev_pc s) @ map fst (used_items (lk s)))
    \<and> set (map unat (drv_own s @ pc_owned (drv_pc s) @ avail_items (lk s) @
      dev_own s @ pc_owned (dev_pc s) @ map fst (used_items (lk s)))) = {0..<unat (num_descs ri)}"
proof -
  have "vl_entries (lk (proto_init ri)) = unat (num_descs ri)"
    using vlink_fresh_inv(5) [OF assms(1)] by (simp add: proto_init_def)
  then show ?thesis
    using proto_inv_distinct [OF reachable_inv [OF assms(2) proto_init_inv [OF assms(1)]]]
      reachable_entries [OF assms(2)]
    by (simp add: owners_def del: distinct_append set_map set_append)
qed

text \<open>
  C21: Publication is safe. In every reachable state a core that has seen a pending entry reads
  the oldest published entry, undisturbed by what the other core is writing; its index is that
  of a descriptor of the table; and a core about to write an entry has a free slot, so no
  published entry is ever overwritten before it is consumed.
\<close>

theorem ring_access_safe:
  assumes "is_pow2 (num_descs ri)" "pstep\<^sup>*\<^sup>* (proto_init ri) s"
  shows "(dev_pc s = Seen \<longrightarrow> (\<exists>i is. avail_read_slot (vl_dev (lk s)) (vl_shm (lk s)) = Some i
        \<and> avail_items (lk s) = i # is \<and> unat i < length (vm_desc (vl_shm (lk s)))))
    \<and> (drv_pc s = Seen \<longrightarrow> (\<exists>e es. used_read_slot (vl_drv (lk s)) (vl_shm (lk s)) = Some e
        \<and> used_items (lk s) = (ucast (ue_id e), ue_len e) # es
        \<and> unat (ucast (ue_id e) :: u16) < length (vm_desc (vl_shm (lk s)))))
    \<and> (i \<in> set (drv_own s) \<longrightarrow> length (avail_items (lk s)) < unat (num_descs ri)
        \<and> avail_write_slot (vl_drv (lk s)) (vl_shm (lk s)) i \<noteq> None)
    \<and> (i \<in> set (dev_own s) \<longrightarrow> length (used_items (lk s)) < unat (num_descs ri)
        \<and> used_write_slot (vl_dev (lk s)) (vl_shm (lk s)) i len \<noteq> None)"
proof -
  have inv: "proto_inv s" using reachable_inv assms proto_init_inv by blast
  then have w: "vlink_wf (lk s)" by (rule proto_inv_wf)
  have n: "vl_entries (lk s) = unat (num_descs ri)"
    using vlink_fresh_inv(5) [OF assms(1)] reachable_entries [OF assms(2)]
    by (simp add: proto_init_def)
  have d: "length (vm_desc (vl_shm (lk s))) = vl_entries (lk s)"
    using w vq_wf_lengths(1) by (simp add: vlink_wf_def vl_entries_def)
  have bound: "unat j < vl_entries (lk s)" if "j \<in> set (owners s)" for j
    using proto_inv_distinct(2) [OF inv] that by auto
  obtain ai where ai: "avail_read_slot (vl_dev (lk s)) (vl_shm (lk s)) = Some ai"
    by (simp add: avail_read_slot_def vlink_slot [OF w] slot_in_bounds(1) [OF w])
  obtain ue where ue: "used_read_slot (vl_drv (lk s)) (vl_shm (lk s)) = Some ue"
    by (simp add: used_read_slot_def vlink_slot [OF w] slot_in_bounds(2) [OF w])
  have "\<exists>is. avail_items (lk s) = ai # is" if "dev_pc s = Seen"
    using that inv avail_take_ok(3) [OF w _ ai] by (auto simp: proto_inv_def)
  moreover have "\<exists>es. used_items (lk s) = used_elem ue # es" if "drv_pc s = Seen"
    using that inv used_take_ok(3) [OF w _ ue] by (auto simp: proto_inv_def)
  moreover have "avail_write_slot (vl_drv (lk s)) (vl_shm (lk s)) i \<noteq> None"
      "used_write_slot (vl_dev (lk s)) (vl_shm (lk s)) i len \<noteq> None"
    by (simp_all add: avail_write_slot_def used_write_slot_def vlink_slot [OF w] Let_def
        slot_in_bounds [OF w])
  ultimately show ?thesis
    using ai ue bound proto_inv_room [OF inv, of i] n
    by (auto simp: d owners_def used_elem_def)
qed

lemma pstep_exists:
  assumes inv: "proto_inv s" shows "\<exists>s'. pstep s s'"
proof -
  have w: "vlink_wf (lk s)" using inv by (rule proto_inv_wf)
  have wr_ok: "\<exists>vm. avail_write_slot (vl_drv (lk s)) (vl_shm (lk s)) i = Some vm"
      "\<exists>vm. used_write_slot (vl_dev (lk s)) (vl_shm (lk s)) i len = Some vm" for i len
    by (simp_all add: avail_write_slot_def used_write_slot_def vlink_slot [OF w] Let_def
        slot_in_bounds [OF w])
  have rd_ok: "\<exists>i. avail_read_slot (vl_dev (lk s)) (vl_shm (lk s)) = Some i"
      "\<exists>e. used_read_slot (vl_drv (lk s)) (vl_shm (lk s)) = Some e"
    by (simp_all add: avail_read_slot_def used_read_slot_def vlink_slot [OF w]
        slot_in_bounds [OF w])
  have "owners s \<noteq> []"
    using proto_inv_length [OF inv] vlink_wf_entries(2) [OF w] by auto
  then consider "drv_pc s \<noteq> Between" | "dev_pc s \<noteq> Between"
    | "drv_pc s = Between" "drv_own s \<noteq> []" | "dev_pc s = Between" "dev_own s \<noteq> []"
    | "dev_pc s = Between" "avail_items (lk s) \<noteq> []"
    | "drv_pc s = Between" "used_items (lk s) \<noteq> []"
    by (cases "drv_pc s"; cases "dev_pc s") (auto simp: owners_def)
  then show ?thesis
  proof cases
    case 1
    then show ?thesis
      using rd_ok(2) by (cases "drv_pc s") (auto intro: pstep.drv_publish pstep.drv_take)
  next
    case 2
    then show ?thesis
      using rd_ok(1) by (cases "dev_pc s") (auto intro: pstep.dev_publish pstep.dev_take)
  next
    case 3
    then show ?thesis using wr_ok(1) pstep.drv_write [of s "hd (drv_own s)"] by fastforce
  next
    case 4
    then show ?thesis using wr_ok(2) pstep.dev_write [of s "hd (dev_own s)"] by fastforce
  next
    case 5
    then show ?thesis
      using pstep.dev_see [of s] by (auto simp: avail_pending_def avail_items_def)
  next
    case 6
    then show ?thesis
      using pstep.drv_see [of s] by (auto simp: used_pending_def used_items_def)
  qed
qed

abbreviation (input) ri2 :: vring_alloc_info where
  "ri2 \<equiv> \<lparr>phy_addr = 4096, ring_align = 16, num_descs = 2\<rparr>"

lemma ri2_pow2: "is_pow2 (num_descs ri2)"
  by (simp add: is_pow2_def)

lemma ri2_step: "\<exists>s. pstep (proto_init ri2) s \<and> pstep\<^sup>*\<^sup>* (proto_init ri2) s"
  using pstep_exists [OF proto_init_inv [OF ri2_pow2]] by blast

theorem descriptor_ownership_witness:
  "\<exists>s. pstep (proto_init ri2) s
     \<and> distinct (drv_own s @ pc_owned (drv_pc s) @ avail_items (lk s) @
         dev_own s @ pc_owned (dev_pc s) @ map fst (used_items (lk s)))"
  using ri2_step descriptor_ownership [OF ri2_pow2] by blast

theorem ring_access_safe_witness:
  "0 \<in> set (drv_own (proto_init ri2)) \<and>
   avail_write_slot (vl_drv (lk (proto_init ri2))) (vl_shm (lk (proto_init ri2))) 0 \<noteq> None"
proof -
  have "0 \<in> set (drv_own (proto_init ri2))" by (simp add: proto_init_def upt_rec)
  then show ?thesis
    using ring_access_safe [OF ri2_pow2 rtranclp.rtrancl_refl, of 0] by blast
qed

text \<open>
  C24: The protocol never deadlocks: in every reachable state some core can make a step.
\<close>

theorem protocol_progress:
  assumes "is_pow2 (num_descs ri)" "pstep\<^sup>*\<^sup>* (proto_init ri) s"
  shows "\<exists>s'. pstep s s'"
  using pstep_exists reachable_inv [OF assms(2) proto_init_inv [OF assms(1)]] by blast

theorem protocol_progress_witness: "\<exists>s s'. pstep (proto_init ri2) s \<and> pstep s s'"
  using ri2_step protocol_progress [OF ri2_pow2] by blast

section \<open>The abstract exchange\<close>

text \<open>
  What a vring promises its users: two sets of descriptors, one held by each core, and two
  queues between them. Adding appends to a queue, taking removes its oldest element.
\<close>

record exchange =
  x_drv :: "u16 set"
  x_avail :: "u16 list"
  x_dev :: "u16 set"
  x_used :: "u16 list"

inductive xstep :: "exchange \<Rightarrow> exchange \<Rightarrow> bool" where
  x_add: "i \<in> x_drv a \<Longrightarrow> xstep a (a\<lparr>x_drv := x_drv a - {i}, x_avail := x_avail a @ [i]\<rparr>)"
| x_get: "x_avail a = i # is \<Longrightarrow> xstep a (a\<lparr>x_avail := is, x_dev := insert i (x_dev a)\<rparr>)"
| x_consume: "i \<in> x_dev a \<Longrightarrow> xstep a (a\<lparr>x_dev := x_dev a - {i}, x_used := x_used a @ [i]\<rparr>)"
| x_reclaim: "x_used a = i # is \<Longrightarrow> xstep a (a\<lparr>x_used := is, x_drv := insert i (x_drv a)\<rparr>)"

definition proto_abs :: "proto \<Rightarrow> exchange" where
  "proto_abs s = \<lparr>x_drv = set (drv_own s) \<union> set (pc_owned (drv_pc s)),
     x_avail = avail_items (lk s),
     x_dev = set (dev_own s) \<union> set (pc_owned (dev_pc s)),
     x_used = map fst (used_items (lk s))\<rparr>"

lemma pstep_refines:
  assumes "pstep s s'" "proto_inv s"
  shows "proto_abs s' = proto_abs s \<or> xstep (proto_abs s) (proto_abs s')"
  using assms
proof (cases rule: pstep.cases)
  case (drv_write i vm)
  have "distinct (drv_own s)"
    using proto_inv_distinct(1) [OF assms(2)] by (simp add: owners_def)
  then show ?thesis
    using drv_write avail_write_slot_ok [OF proto_inv_wf proto_inv_room(1) drv_write(4), OF assms(2) assms(2)]
    by (auto simp: proto_abs_def)
next
  case (drv_publish i)
  have "i \<notin> set (drv_own s)"
    using proto_inv_distinct(1) [OF assms(2)] drv_publish(2) by (auto simp: owners_def)
  moreover have "av_slot (lk s) = i" using assms(2) drv_publish(2) by (simp add: proto_inv_def)
  ultimately show ?thesis
    using drv_publish avail_publish_ok [OF proto_inv_wf proto_inv_room(1), OF assms(2) assms(2),
        of i "vq_queued_cnt (vl_drv (lk s)) + 1"] xstep.x_add [of i "proto_abs s"]
    by (simp add: proto_abs_def)
next
  case drv_see
  then show ?thesis by (simp add: proto_abs_def)
next
  case (drv_take e)
  have ne: "used_items (lk s) \<noteq> []" using assms(2) drv_take by (simp add: proto_inv_def)
  show ?thesis
    using drv_take used_take_ok [OF proto_inv_wf [OF assms(2)] ne drv_take(3)]
      xstep.x_reclaim [of "proto_abs s" "ucast (ue_id e)"]
    by (simp add: proto_abs_def used_elem_def)
next
  case (dev_write i len vm)
  have "distinct (dev_own s)"
    using proto_inv_distinct(1) [OF assms(2)] by (simp add: owners_def)
  then show ?thesis
    using dev_write used_write_slot_ok [OF proto_inv_wf proto_inv_room(2) dev_write(4), OF assms(2) assms(2)]
    by (auto simp: proto_abs_def)
next
  case (dev_publish i)
  have "i \<notin> set (dev_own s)"
    using proto_inv_distinct(1) [OF assms(2)] dev_publish(2) by (auto simp: owners_def)
  moreover have "us_slot (lk s) = i" using assms(2) dev_publish(2) by (simp add: proto_inv_def)
  ultimately show ?thesis
    using dev_publish used_publish_ok [OF proto_inv_wf proto_inv_room(2), OF assms(2) assms(2), of i]
      xstep.x_consume [of i "proto_abs s"]
    by (simp add: proto_abs_def)
next
  case dev_see
  then show ?thesis by (simp add: proto_abs_def)
next
  case (dev_take i)
  have ne: "avail_items (lk s) \<noteq> []" using assms(2) dev_take by (simp add: proto_inv_def)
  show ?thesis
    using dev_take avail_take_ok [OF proto_inv_wf [OF assms(2)] ne dev_take(3)]
      xstep.x_get [of "proto_abs s" i]
    by (simp add: proto_abs_def)
qed

text \<open>
  C4: The interleaved micro-steps of the code refine the abstract exchange: every step of a
  reachable state is a step of the exchange or leaves it unchanged, with the publication of
  an index and the read of an entry as the points where an operation takes effect. So every
  execution of the two cores is an execution of two FIFO queues.
\<close>

theorem protocol_refines_exchange:
  assumes "is_pow2 (num_descs ri)" "pstep\<^sup>*\<^sup>* (proto_init ri) s"
  shows "xstep\<^sup>*\<^sup>* (proto_abs (proto_init ri)) (proto_abs s)"
  using assms(2)
proof (induction rule: rtranclp_induct)
  case base
  then show ?case by simp
next
  case (step s1 s2)
  have "proto_inv s1" using step(1) proto_init_inv [OF assms(1)] by (rule reachable_inv)
  with pstep_refines [OF step(2)] step.IH show ?case by (auto intro: rtranclp.rtrancl_into_rtrancl)
qed

theorem protocol_refines_exchange_witness:
  "\<exists>s. pstep (proto_init ri2) s \<and> xstep\<^sup>*\<^sup>* (proto_abs (proto_init ri2)) (proto_abs s)"
  using ri2_step protocol_refines_exchange [OF ri2_pow2] by blast

end
