(* ===== verification/Llist.thy ===== *)
theory Llist
  imports Prelude
begin

text \<open>
  The doubly linked list of \<^verbatim>\<open>lib/common/llist.c\<close> that holds the endpoints of a device. The nodes
  live in a store from addresses to nodes; following a pointer to no node has no defined
  result. The list the nodes represent is the path of \<open>next\<close> pointers; the \<open>prev\<close> pointers are
  right for every node but the first one, whose \<open>prev\<close> is left as it was when the node in front
  of it was removed (and is never read).
\<close>

section \<open>Nodes\<close>

record llist =
  l_data :: ptr
  l_attr :: u32
  l_next :: ptr
  l_prev :: ptr

type_synonym nodes = "ptr \<rightharpoonup> llist"

definition set_next :: "ptr \<Rightarrow> ptr \<Rightarrow> nodes \<Rightarrow> nodes option" where
  "set_next p v m = do { n \<leftarrow> m p; Some (m(p \<mapsto> n\<lparr>l_next := v\<rparr>)) }"

definition set_prev :: "ptr \<Rightarrow> ptr \<Rightarrow> nodes \<Rightarrow> nodes option" where
  "set_prev p v m = do { n \<leftarrow> m p; Some (m(p \<mapsto> n\<lparr>l_prev := v\<rparr>)) }"

section \<open>Operations\<close>

text \<open>The list head is a variable of the caller: both operations return its new value.\<close>

definition add_to_list :: "ptr \<Rightarrow> ptr \<Rightarrow> nodes \<Rightarrow> (ptr \<times> nodes) option" where
  "add_to_list head node m =
     (if node = NULL then Some (head, m)
      else if head \<noteq> NULL
      then do {
        m \<leftarrow> set_next node head m;
        m \<leftarrow> set_prev node NULL m;
        m \<leftarrow> set_prev head node m;
        Some (node, m) }
      else do {
        m \<leftarrow> set_next node NULL m;
        m \<leftarrow> set_prev node NULL m;
        Some (node, m) })"

definition remove_from_list :: "ptr \<Rightarrow> ptr \<Rightarrow> nodes \<Rightarrow> (ptr \<times> nodes) option" where
  "remove_from_list head node m =
     (if head = NULL \<or> node = NULL then Some (head, m)
      else if node = head
      then do { h \<leftarrow> m head; Some (l_next h, m) }
      else do {
        n \<leftarrow> m node;
        if l_next n = NULL
        then do { m \<leftarrow> set_next (l_prev n) (l_next n) m; Some (head, m) }
        else do {
          m \<leftarrow> set_next (l_prev n) (l_next n) m;
          n \<leftarrow> m node;
          m \<leftarrow> set_prev (l_next n) (l_prev n) m;
          Some (head, m) } })"

section \<open>The represented list\<close>

fun path :: "nodes \<Rightarrow> ptr \<Rightarrow> ptr list \<Rightarrow> bool" where
  "path m p [] \<longleftrightarrow> p = NULL"
| "path m p (x # xs) \<longleftrightarrow> p = x \<and> x \<noteq> NULL \<and>
     (case m x of None \<Rightarrow> False | Some n \<Rightarrow> path m (l_next n) xs)"

fun prev_ok :: "nodes \<Rightarrow> ptr list \<Rightarrow> bool" where
  "prev_ok m (x # y # zs) \<longleftrightarrow> map_option l_prev (m y) = Some x \<and> prev_ok m (y # zs)"
| "prev_ok m xs \<longleftrightarrow> True"

definition list_rep :: "ptr \<times> nodes \<Rightarrow> ptr list \<Rightarrow> bool" where
  "list_rep s xs \<longleftrightarrow> path (snd s) (fst s) xs \<and> prev_ok (snd s) xs \<and> distinct xs"

text \<open>The payload of the nodes, which the list operations must not touch.\<close>

definition payload :: "nodes \<Rightarrow> ptr \<Rightarrow> (ptr \<times> u32) option" where
  "payload m p = map_option (\<lambda>n. (l_data n, l_attr n)) (m p)"

lemma path_cong:
  "(\<And>x. x \<in> set xs \<Longrightarrow> map_option l_next (m x) = map_option l_next (m' x)) \<Longrightarrow>
   path m p xs = path m' p xs"
proof (induction xs arbitrary: p)
  case (Cons x xs)
  have "map_option l_next (m x) = map_option l_next (m' x)" using Cons.prems by simp
  then show ?case using Cons by (cases "m x"; cases "m' x") auto
qed simp

lemma prev_ok_cong:
  "(\<And>x. x \<in> set (tl xs) \<Longrightarrow> map_option l_prev (m x) = map_option l_prev (m' x)) \<Longrightarrow>
   prev_ok m xs = prev_ok m' xs"
  by (induction m xs rule: prev_ok.induct) auto

lemma path_split:
  "path m p (xs @ y # ys) \<Longrightarrow> \<exists>n. m y = Some n \<and> y \<noteq> NULL \<and> path m (l_next n) ys"
  by (induction xs arbitrary: p) (auto split: option.splits)

lemma path_last_next:
  "path m p (xs @ x # y # ys) \<Longrightarrow> map_option l_next (m x) = Some y"
  by (induction xs arbitrary: p) (auto split: option.splits)

lemma prev_ok_split: "prev_ok m (xs @ x # y # ys) \<Longrightarrow> map_option l_prev (m y) = Some x"
proof (induction xs)
  case (Cons a xs)
  then show ?case by (cases xs) auto
qed simp

lemma prev_ok_append: "prev_ok m (xs @ x # ys) \<longleftrightarrow> prev_ok m (xs @ [x]) \<and> prev_ok m (x # ys)"
proof (induction xs)
  case (Cons a xs)
  then show ?case by (cases xs) auto
qed simp

lemma path_relink:
  assumes "path m p (xs @ w # ys)" "path m q zs" "distinct (xs @ w # zs)" "m w = Some n"
  shows "path (m(w \<mapsto> n\<lparr>l_next := q\<rparr>)) p (xs @ w # zs)"
  using assms
proof (induction xs arbitrary: p)
  case Nil
  have "path (m(w \<mapsto> n\<lparr>l_next := q\<rparr>)) q zs = path m q zs"
    using Nil.prems(3) by (intro path_cong) auto
  then show ?case using Nil by (auto simp: fun_upd_def)
next
  case (Cons x xs)
  then show ?case by (auto split: option.splits)
qed

lemma in_set_tlD: "x \<in> set (tl xs) \<Longrightarrow> x \<in> set xs"
  by (cases xs) simp_all

lemma path_unique: "path m p xs \<Longrightarrow> path m p ys \<Longrightarrow> xs = ys"
proof (induction xs arbitrary: p ys)
  case Nil
  then show ?case by (cases ys) auto
next
  case (Cons x xs)
  then show ?case by (cases ys) (auto split: option.splits)
qed

section \<open>What the operations do to the list\<close>

lemma add_to_list_rep:
  assumes r: "list_rep (h, m) xs" and x: "x \<noteq> NULL" "m x \<noteq> None" "x \<notin> set xs"
  shows "\<exists>m'. add_to_list h x m = Some (x, m') \<and> list_rep (x, m') (x # xs)
    \<and> payload m' = payload m"
proof -
  obtain n where n: "m x = Some n" using x by auto
  show ?thesis
  proof (cases xs)
    case Nil
    then have "h = NULL" using r by (simp add: list_rep_def)
    then show ?thesis
      using Nil x n
      by (auto simp: add_to_list_def set_next_def set_prev_def list_rep_def payload_def)
  next
    case (Cons y ys)
    then obtain k where k: "h = y" "y \<noteq> NULL" "m y = Some k" "path m (l_next k) ys"
      using r by (auto simp: list_rep_def split: option.splits)
    have xy: "y \<noteq> x" using x Cons by auto
    let ?m = "m(x \<mapsto> n\<lparr>l_next := y, l_prev := NULL\<rparr>, y \<mapsto> k\<lparr>l_prev := x\<rparr>)"
    have "path ?m y xs = path m y xs"
      using Cons x k xy by (intro path_cong) auto
    moreover have "prev_ok ?m xs = prev_ok m xs"
      using Cons x k xy r by (intro prev_ok_cong) (auto simp: list_rep_def)
    ultimately have "list_rep (x, ?m) (x # xs)"
      using r x Cons k xy by (auto simp: list_rep_def)
    moreover have "add_to_list h x m = Some (x, ?m)"
      using x n k xy by (simp add: add_to_list_def set_next_def set_prev_def)
    moreover have "payload ?m = payload m"
      using n k xy by (auto simp: payload_def)
    ultimately show ?thesis by blast
  qed
qed

lemma remove_from_list_rep:
  assumes r: "list_rep (h, m) xs" and x: "x \<in> set xs"
  shows "\<exists>h' m'. remove_from_list h x m = Some (h', m') \<and> list_rep (h', m') (remove1 x xs)
    \<and> payload m' = payload m"
proof -
  have p: "path m h xs" "prev_ok m xs" "distinct xs" using r by (simp_all add: list_rep_def)
  obtain us vs where xs: "xs = us @ x # vs" using x by (meson split_list)
  obtain n where n: "m x = Some n" "x \<noteq> NULL" "path m (l_next n) vs"
    using path_split p(1) xs by blast
  have rm: "remove1 x xs = us @ vs" using p(3) xs by (simp add: remove1_append)
  have h0: "h \<noteq> NULL" using p(1) xs by (cases us) auto
  show ?thesis
  proof (cases us rule: rev_cases)
    case Nil
    have "prev_ok m vs" using p(2) xs Nil by (cases vs) auto
    then show ?thesis
      using Nil xs n p rm by (auto simp: remove_from_list_def list_rep_def)
  next
    case (snoc us' w)
    have w: "map_option l_prev (m x) = Some w" "map_option l_next (m w) = Some x"
      using prev_ok_split [of m us' w x vs] path_last_next [of m h us' w x vs] p xs snoc by simp_all
    then obtain k where k: "m w = Some k" "l_prev n = w" using n by auto
    have hx: "h \<noteq> x" using p(1,3) xs snoc by (cases us') auto
    have wx: "w \<noteq> x" using p(3) xs snoc by auto
    let ?m = "m(w \<mapsto> k\<lparr>l_next := l_next n\<rparr>)"
    have pth: "path ?m h (us' @ w # vs)"
      using p xs snoc n k by (intro path_relink [where ys = "x # vs"]) auto
    show ?thesis
    proof (cases vs)
      case Nil
      have "prev_ok ?m (us' @ [w]) = prev_ok m (us' @ [w])"
        using k by (intro prev_ok_cong) auto
      moreover have "prev_ok m (us' @ [w])"
        using p(2) xs snoc prev_ok_append [of m us' w "x # vs"] by simp
      ultimately have "list_rep (h, ?m) (us' @ [w])"
        using pth p(3) xs snoc Nil by (simp add: list_rep_def)
      moreover have "l_next n = NULL" using n Nil by simp
      moreover have "payload ?m = payload m" using k by (auto simp: payload_def)
      ultimately show ?thesis
        using n k hx h0 rm snoc Nil
        by (auto simp: remove_from_list_def set_next_def)
    next
      case (Cons y ys)
      obtain j where j: "m y = Some j" "y \<noteq> NULL" "l_next n = y"
        using n Cons by (auto split: option.splits)
      have ne: "y \<noteq> w" "y \<noteq> x" "y \<notin> set us'" "y \<notin> set ys" using p(3) xs snoc Cons by auto
      let ?m2 = "?m(y \<mapsto> j\<lparr>l_prev := w\<rparr>)"
      have "path ?m2 h (us' @ w # vs) = path ?m h (us' @ w # vs)"
        using j ne by (intro path_cong) auto
      moreover have "prev_ok ?m2 (us' @ w # y # ys)"
      proof -
        have "prev_ok ?m2 (us' @ [w]) = prev_ok m (us' @ [w])"
          using k j ne by (intro prev_ok_cong) (auto dest: in_set_tlD)
        moreover have "prev_ok ?m2 (y # ys) = prev_ok m (y # ys)"
          using k j ne p(3) xs snoc Cons by (intro prev_ok_cong) auto
        moreover have "prev_ok m (us' @ [w])" "prev_ok m (y # ys)"
          using p(2) xs snoc Cons prev_ok_append [of m us' w "x # y # ys"] by simp_all
        ultimately show ?thesis
          using prev_ok_append [of ?m2 us' w "y # ys"] by simp
      qed
      ultimately have "list_rep (h, ?m2) (us' @ w # vs)"
        using pth p(3) xs snoc Cons by (simp add: list_rep_def)
      moreover have "payload ?m2 = payload m" using k j ne by (auto simp: payload_def)
      moreover have "remove_from_list h x m = Some (h, ?m2)"
        using n k j ne hx h0 wx by (simp add: remove_from_list_def set_next_def set_prev_def)
      ultimately show ?thesis using rm snoc by simp
    qed
  qed
qed

section \<open>The contract of a list of nodes\<close>

text \<open>
  What the owner of an intrusive list relies on: adding puts a node in front, removing takes
  exactly that node out, and neither changes the payload or the rest. The representation is a
  relation between the store and the list it stands for.
\<close>

datatype node_cmd = Add_node ptr | Del_node ptr

fun cmd_list :: "node_cmd \<Rightarrow> ptr list \<Rightarrow> ptr list" where
  "cmd_list (Add_node x) xs = x # xs"
| "cmd_list (Del_node x) xs = remove1 x xs"

fun cmds_ok :: "(ptr \<Rightarrow> bool) \<Rightarrow> node_cmd list \<Rightarrow> ptr list \<Rightarrow> bool" where
  "cmds_ok node [] xs \<longleftrightarrow> True"
| "cmds_ok node (Add_node x # cs) xs \<longleftrightarrow> node x \<and> x \<notin> set xs \<and> cmds_ok node cs (x # xs)"
| "cmds_ok node (Del_node x # cs) xs \<longleftrightarrow> x \<in> set xs \<and> cmds_ok node cs (remove1 x xs)"

fun run_cmds ::
  "(ptr \<Rightarrow> 's \<Rightarrow> 's option) \<Rightarrow> (ptr \<Rightarrow> 's \<Rightarrow> 's option) \<Rightarrow> node_cmd list \<Rightarrow> 's \<Rightarrow> 's option" where
  "run_cmds add del [] s = Some s"
| "run_cmds add del (Add_node x # cs) s = do { s \<leftarrow> add x s; run_cmds add del cs s }"
| "run_cmds add del (Del_node x # cs) s = do { s \<leftarrow> del x s; run_cmds add del cs s }"

locale node_list =
  fixes add :: "ptr \<Rightarrow> 's \<Rightarrow> 's option"
    and del :: "ptr \<Rightarrow> 's \<Rightarrow> 's option"
    and rep :: "'s \<Rightarrow> ptr list \<Rightarrow> bool"
    and data :: "'s \<Rightarrow> ptr \<Rightarrow> 'd option"
  assumes add_rep: "rep s xs \<Longrightarrow> x \<noteq> NULL \<Longrightarrow> data s x \<noteq> None \<Longrightarrow> x \<notin> set xs
      \<Longrightarrow> \<exists>s'. add x s = Some s' \<and> rep s' (x # xs) \<and> data s' = data s"
    and del_rep: "rep s xs \<Longrightarrow> x \<in> set xs
      \<Longrightarrow> \<exists>s'. del x s = Some s' \<and> rep s' (remove1 x xs) \<and> data s' = data s"
    and rep_unique: "rep s xs \<Longrightarrow> rep s ys \<Longrightarrow> xs = ys"
    and rep_nodes: "rep s xs \<Longrightarrow> distinct xs \<and> (\<forall>x \<in> set xs. x \<noteq> NULL \<and> data s x \<noteq> None)"
begin

lemma run_cmds_rep:
  assumes "rep s xs" "cmds_ok (\<lambda>x. x \<noteq> NULL \<and> data s x \<noteq> None) cs xs"
  shows "\<exists>s'. run_cmds add del cs s = Some s' \<and> rep s' (fold cmd_list cs xs) \<and> data s' = data s"
  using assms
proof (induction cs arbitrary: s xs)
  case Nil
  then show ?case by simp
next
  case (Cons c cs)
  show ?case
  proof (cases c)
    case (Add_node x)
    with Cons.prems add_rep [of s xs x] obtain s1 where
      "add x s = Some s1" "rep s1 (x # xs)" "data s1 = data s" by auto
    with Cons.IH [of s1 "x # xs"] Cons.prems Add_node show ?thesis by auto
  next
    case (Del_node x)
    with Cons.prems del_rep [of s xs x] obtain s1 where
      "del x s = Some s1" "rep s1 (remove1 x xs)" "data s1 = data s" by auto
    with Cons.IH [of s1 "remove1 x xs"] Cons.prems Del_node show ?thesis by auto
  qed
qed

end

definition list_add :: "ptr \<Rightarrow> ptr \<times> nodes \<Rightarrow> (ptr \<times> nodes) option" where
  "list_add x s = add_to_list (fst s) x (snd s)"

definition list_del :: "ptr \<Rightarrow> ptr \<times> nodes \<Rightarrow> (ptr \<times> nodes) option" where
  "list_del x s = remove_from_list (fst s) x (snd s)"

lemma path_nodes: "path m p xs \<Longrightarrow> x \<in> set xs \<Longrightarrow> x \<noteq> NULL \<and> m x \<noteq> None"
  by (induction xs arbitrary: p) (auto split: option.splits)

interpretation ll: node_list list_add list_del list_rep "\<lambda>s. payload (snd s)"
proof unfold_locales
  fix s :: "ptr \<times> nodes" and xs and x :: ptr
  obtain h m where s: "s = (h, m)" by (cases s)
  show "\<exists>s'. list_add x s = Some s' \<and> list_rep s' (x # xs) \<and> payload (snd s') = payload (snd s)"
    if "list_rep s xs" "x \<noteq> NULL" "payload (snd s) x \<noteq> None" "x \<notin> set xs"
    using that add_to_list_rep [of h m xs x] by (auto simp: list_add_def s payload_def)
  show "\<exists>s'. list_del x s = Some s' \<and> list_rep s' (remove1 x xs) \<and> payload (snd s') = payload (snd s)"
    if "list_rep s xs" "x \<in> set xs"
    using that remove_from_list_rep [of h m xs x] by (auto simp: list_del_def s)
  show "xs = ys" if "list_rep s xs" "list_rep s ys" for ys
    using that path_unique by (auto simp: list_rep_def)
  show "distinct xs \<and> (\<forall>x \<in> set xs. x \<noteq> NULL \<and> payload (snd s) x \<noteq> None)" if "list_rep s xs"
    using that path_nodes by (auto simp: list_rep_def payload_def)
qed

text \<open>
  C37: The linked list behaves as a list under any sequence of \<open>add_to_list\<close> and
  \<open>remove_from_list\<close> calls that adds nodes that are not in it and removes nodes that are: no
  call follows a bad pointer, the result represents the list that the same commands compute on
  the abstract list (new nodes in front), and the payload of every node is unchanged. The
  stale \<open>prev\<close> that removing the first node leaves behind does no harm.
\<close>

theorem llist_refines_list:
  assumes "list_rep (head, m) xs" "cmds_ok (\<lambda>x. x \<noteq> NULL \<and> payload m x \<noteq> None) cs xs"
  shows "\<exists>head' m'. run_cmds (\<lambda>x (h, m). add_to_list h x m) (\<lambda>x (h, m). remove_from_list h x m)
      cs (head, m) = Some (head', m')
    \<and> list_rep (head', m') (fold cmd_list cs xs) \<and> payload m' = payload m"
proof -
  have "list_add = (\<lambda>x (h, m). add_to_list h x m)" "list_del = (\<lambda>x (h, m). remove_from_list h x m)"
    by (auto simp: list_add_def list_del_def fun_eq_iff)
  then show ?thesis
    using ll.run_cmds_rep [of "(head, m)" xs cs] assms by auto
qed

theorem llist_refines_list_witness:
  "\<exists>head' m'. run_cmds (\<lambda>x (h, m). add_to_list h x m) (\<lambda>x (h, m). remove_from_list h x m)
      [Add_node 8, Add_node 16, Del_node 16, Add_node 24, Del_node 8]
      (NULL, \<lambda>p. Some \<lparr>l_data = p, l_attr = 0, l_next = 4, l_prev = 4\<rparr>) = Some (head', m')
    \<and> list_rep (head', m') [24]"
  using llist_refines_list [of NULL "\<lambda>p. Some \<lparr>l_data = p, l_attr = 0, l_next = 4, l_prev = 4\<rparr>" "[]"
      "[Add_node 8, Add_node 16, Del_node 16, Add_node 24, Del_node 8]"]
  by (simp add: list_rep_def payload_def) blast

end
