(* ===== verification/Env_Port.thy ===== *)
theory Env_Port
  imports Env_Base
begin

text \<open>
  The interface between the library and its environment (\<^verbatim>\<open>lib/include/rpmsg_env.h\<close> and
  \<^verbatim>\<open>rpmsg_platform.h\<close>), as the operations of a port on the port's state, and the contracts the
  library relies on. The ports interpret the contracts: \<open>Env_Bm\<close> for bare metal,
  \<open>Env_Freertos\<close>, \<open>Env_Threadx\<close>, \<open>Env_Zephyr\<close> and \<open>Env_Xos\<close> for the real-time kernels.
\<close>

section \<open>The operations of a port\<close>

text \<open>
  Mutexes: \<open>ep_create_mutex\<close> gets the address of the lock variable and the initial count and
  returns the status and the value it stores there. A call that suspends its caller for ever
  or fails an assertion has the result \<open>None\<close>.
\<close>

record 'e env_port =
  ep_env_init :: "'e \<Rightarrow> (int \<times> 'e) option"
  ep_env_deinit :: "'e \<Rightarrow> (int \<times> 'e) option"
  ep_create_mutex :: "ptr \<Rightarrow> int \<Rightarrow> 'e \<Rightarrow> int \<times> ptr \<times> 'e"
  ep_delete_mutex :: "ptr \<Rightarrow> 'e \<Rightarrow> 'e"
  ep_lock_mutex :: "ptr \<Rightarrow> 'e \<Rightarrow> 'e option"
  ep_unlock_mutex :: "ptr \<Rightarrow> 'e \<Rightarrow> 'e option"
  ep_init_interrupt :: "u32 \<Rightarrow> ptr \<Rightarrow> 'e \<Rightarrow> (int \<times> 'e) option"
  ep_deinit_interrupt :: "u32 \<Rightarrow> 'e \<Rightarrow> (int \<times> 'e) option"
  ep_enable_interrupt :: "u32 \<Rightarrow> 'e \<Rightarrow> 'e option"
  ep_disable_interrupt :: "u32 \<Rightarrow> 'e \<Rightarrow> 'e option"
  ep_notify :: "u32 \<Rightarrow> 'e \<Rightarrow> 'e option"
  ep_tx_callback :: "u32 \<Rightarrow> 'e \<Rightarrow> 'e option"
  ep_isr_data :: "u32 \<Rightarrow> 'e \<Rightarrow> ptr option"
  ep_map_vatopa :: "ptr \<Rightarrow> u32"
  ep_map_patova :: "u32 \<Rightarrow> ptr"

section \<open>Contracts\<close>

text \<open>Address translation: the receiver of a physical address gets the address that was sent.\<close>

locale addr_map =
  fixes vatopa :: "ptr \<Rightarrow> u32" and patova :: "u32 \<Rightarrow> ptr"
  assumes patova_vatopa: "patova (vatopa a) = a"
begin

lemma vatopa_inj: "vatopa a = vatopa b \<Longrightarrow> a = b"
  using patova_vatopa by metis

text \<open>The 64-bit descriptor field carries the physical address without loss.\<close>

lemma patova_desc: "patova (ucast (ucast (vatopa a) :: u64)) = a"
proof -
  have "(ucast (ucast (vatopa a) :: u64) :: u32) = vatopa a"
    by (rule bit_word_eqI) (simp add: bit_simps)
  then show ?thesis by (simp add: patova_vatopa)
qed

end

text \<open>
  What the library needs of locks and notifications: a free lock can be taken, a held one can
  be released and is then free again, and a notification, which the library sends with its lock
  held, returns and leaves the lock held.
\<close>

locale env_locks = addr_map "ep_map_vatopa P" "ep_map_patova P"
  for P :: "'e env_port" +
  fixes free :: "ptr \<Rightarrow> 'e \<Rightarrow> bool" and held :: "ptr \<Rightarrow> 'e \<Rightarrow> bool"
  assumes lock_free: "free l e \<Longrightarrow> \<exists>e'. ep_lock_mutex P l e = Some e' \<and> held l e'"
    and unlock_held: "held l e \<Longrightarrow> \<exists>e'. ep_unlock_mutex P l e = Some e' \<and> free l e'"
    and notify_held: "held l e \<Longrightarrow> \<exists>e'. ep_notify P v e = Some e' \<and> held l e'"
    and notify_free: "free l e \<Longrightarrow> \<exists>e'. ep_notify P v e = Some e' \<and> free l e'"
begin

lemma lock_unlock: "free l e \<Longrightarrow> \<exists>e' e''. ep_lock_mutex P l e = Some e'
    \<and> ep_unlock_mutex P l e' = Some e'' \<and> free l e''"
  using lock_free unlock_held by blast

end

end
