(* ===== verification/Irq_Nesting.thy ===== *)
theory Irq_Nesting
  imports Prelude
begin

text \<open>
  What the platform layers share: interrupts are switched off and on by calls that count. \<open>switched\<close>
  reads from a list of recorded calls whether something is on; the locale \<open>irq_nesting\<close> is the contract of
  \<^verbatim>\<open>platform_interrupt_disable\<close> and \<^verbatim>\<open>platform_interrupt_enable\<close>, with one counter for each
  interrupt source, and says what any sequence of the two does.
\<close>

fun switched :: "'c \<Rightarrow> 'c \<Rightarrow> bool \<Rightarrow> 'c list \<Rightarrow> bool" where
  "switched on off b [] = b"
| "switched on off b (c # cs) = switched on off (if c = on then True else if c = off then False else b) cs"

lemma switched_append [simp]: "switched on off b (cs @ ds) = switched on off (switched on off b cs) ds"
  by (induction cs arbitrary: b) simp_all

lemma switched_other: "on \<notin> set cs \<Longrightarrow> off \<notin> set cs \<Longrightarrow> switched on off b cs = b"
  by (induction cs arbitrary: b) auto

lemma switched_on: "off \<notin> set cs \<Longrightarrow> switched on off True cs"
  by (induction cs) auto

text \<open>A sequence of disable (True) and enable (False) calls for arbitrary vectors.\<close>

fun irq_calls ::
  "('v \<Rightarrow> 'p \<Rightarrow> (int \<times> 'p) option) \<Rightarrow> ('v \<Rightarrow> 'p \<Rightarrow> (int \<times> 'p) option) \<Rightarrow> (bool \<times> 'v) list \<Rightarrow> 'p \<Rightarrow> 'p option" where
  "irq_calls dis en [] pl = Some pl"
| "irq_calls dis en ((True, v) # cs) pl = do { (r, pl) \<leftarrow> dis v pl; irq_calls dis en cs pl }"
| "irq_calls dis en ((False, v) # cs) pl = do { (r, pl) \<leftarrow> en v pl; irq_calls dis en cs pl }"

text \<open>The disables for a source less the enables for it.\<close>

fun irq_depth :: "('v \<Rightarrow> 'c) \<Rightarrow> 'c \<Rightarrow> (bool \<times> 'v) list \<Rightarrow> int" where
  "irq_depth src c [] = 0"
| "irq_depth src c ((d, v) # cs) = (if src v = c then if d then 1 else - 1 else 0) + irq_depth src c cs"

locale irq_nesting =
  fixes dis :: "'v \<Rightarrow> 'p \<Rightarrow> (int \<times> 'p) option"
    and en :: "'v \<Rightarrow> 'p \<Rightarrow> (int \<times> 'p) option"
    and src :: "'v \<Rightarrow> 'c"
    and known :: "'c \<Rightarrow> bool"
    and inv :: "'p \<Rightarrow> bool"
    and count :: "'p \<Rightarrow> 'c \<Rightarrow> int"
  assumes disable: "inv pl \<Longrightarrow> dis v pl = Some (r, pl') \<Longrightarrow> inv pl' \<and> (\<forall>c. known c \<longrightarrow>
      count pl' c = count pl c + (if src v = c then 1 else 0))"
    and enable: "inv pl \<Longrightarrow> en v pl = Some (r, pl') \<Longrightarrow> inv pl' \<and> (\<forall>c. known c \<longrightarrow>
      count pl' c = count pl c - (if src v = c then 1 else 0))"
begin

lemma calls_count:
  assumes "inv pl" "irq_calls dis en cs pl = Some pl'"
  shows "inv pl' \<and> (known c \<longrightarrow> count pl' c = count pl c + irq_depth src c cs)"
  using assms
proof (induction cs arbitrary: pl)
  case (Cons a cs)
  obtain d v where a: "a = (d, v)" by (cases a)
  then obtain r p where p: "(if d then dis v pl else en v pl) = Some (r, p)" "irq_calls dis en cs p = Some pl'"
    using Cons.prems(2) by (cases d) (auto split: bind_splits)
  have "inv p \<and> (known c \<longrightarrow> count p c = count pl c + (if src v = c then if d then 1 else - 1 else 0))"
    using p(1) disable [OF Cons.prems(1), of v r p] enable [OF Cons.prems(1), of v r p] by (auto split: if_splits)
  then show ?case using Cons.IH [OF _ p(2)] by (simp add: a)
qed simp

end

end
