(* ===== verification/Platform_Imxrt1170.thy ===== *)
theory Platform_Imxrt1170
  imports Vring Env_Base Irq_Nesting
begin

text \<open>
  The platform layer of the i.MX RT1170 port
  (\<^verbatim>\<open>lib/rpmsg_lite/porting/platform/imxrt1170/rpmsg_platform.c\<close> and
  \<^verbatim>\<open>lib/include/platform/imxrt1170/rpmsg_platform.h\<close>). The messaging unit and the interrupt
  controller are driven through functions of the vendor's SDK, which are not part of the
  repository: the model records the calls, with their arguments and in their order. The layer
  calls back into the environment layer (\<open>env_register_isr\<close>, \<open>env_lock_mutex\<close>, \<dots>), whose
  functions are arguments here.
\<close>

section \<open>Configuration of the port\<close>

abbreviation (input) VRING_ALIGN :: u32 where "VRING_ALIGN \<equiv> 16"
abbreviation (input) RL_PLATFORM_MAX_ISR_COUNT :: nat where "RL_PLATFORM_MAX_ISR_COUNT \<equiv> 32"
abbreviation (input) RL_PLATFORM_HIGHEST_LINK_ID :: u32 where "RL_PLATFORM_HIGHEST_LINK_ID \<equiv> 0"

definition VRING_DESC_SIZE :: "u32 \<Rightarrow> u32 \<Rightarrow> u32" where
  "VRING_DESC_SIZE count align = (count * 16 + align - 1) AND NOT (align - 1)"

definition VRING_AVAIL_SIZE :: "u32 \<Rightarrow> u32 \<Rightarrow> u32" where
  "VRING_AVAIL_SIZE count align = ((6 + count * 2 + 2) + align - 1) AND NOT (align - 1)"

definition VRING_USED_SIZE :: "u32 \<Rightarrow> u32 \<Rightarrow> u32" where
  "VRING_USED_SIZE count align = ((12 + count * 8 + 2) + align - 1) AND NOT (align - 1)"

definition VRING_SIZE :: "u32 \<Rightarrow> u32 \<Rightarrow> u32" where
  "VRING_SIZE count align =
     VRING_DESC_SIZE count align + VRING_AVAIL_SIZE count align + VRING_USED_SIZE count align"

definition RL_GET_VQ_ID :: "u32 \<Rightarrow> u32 \<Rightarrow> u32" where
  "RL_GET_VQ_ID link_id queue_id = (queue_id AND 1) OR ((push_bit 1 link_id) AND 0xFFFFFFFE)"

definition RL_GET_LINK_ID :: "u32 \<Rightarrow> u32" where
  "RL_GET_LINK_ID i = drop_bit 1 (i AND 0xFFFFFFFE)"

definition RL_GET_Q_ID :: "u32 \<Rightarrow> u32" where
  "RL_GET_Q_ID i = i AND 1"

lemma q_id_cases: "RL_GET_Q_ID v = 0 \<or> RL_GET_Q_ID v = 1"
proof -
  have "unat (v AND 1) < 2" by (simp add: and_one_eq unat_mod)
  then have "unat (v AND 1) = 0 \<or> unat (v AND 1) = 1" by linarith
  then show ?thesis
    unfolding RL_GET_Q_ID_def by (metis unat_0 unat_1 unsigned_word_eqI)
qed

section \<open>State\<close>

text \<open>
  The calls of the SDK, with their masks (those from \<open>Gi_MU_Init\<close> on are made by other ports only, see \<open>Platform_Gi\<close>);
  \<open>primask\<close> is the global interrupt mask.
\<close>

datatype mu_call =
    MU_EnableInterrupts u32
  | MU_DisableInterrupts u32
  | MU_TriggerInterrupts u32
  | MU_ClearStatusFlags u32
  | NVIC_EnableIRQ
  | NVIC_DisableIRQ
  | NVIC_SetPriority nat
  | Gi_MU_Init
  | Gi_MU_Deinit
  | Gi_RegisterEvent
  | Gi_TriggerEvent u32
  | Xt_EnableIRQ
  | Xt_DisableIRQ
  | Xt_SetHandler bool

text \<open>\<open>lock_var\<close> is the address of the variable \<open>platform_lock\<close>.\<close>

record plat =
  isr_counter :: int
  disable_counter :: int
  platform_lock :: ptr
  lock_var :: ptr
  primask :: bool
  mu_log :: "mu_call list"

definition mu_do :: "mu_call \<Rightarrow> plat \<Rightarrow> plat" where
  "mu_do c pl = pl\<lparr>mu_log := mu_log pl @ [c]\<rparr>"

text \<open>\<open>1UL << n\<close>: a shift by the width or more has no defined result.\<close>

definition shl1 :: "u32 \<Rightarrow> u32 option" where
  "shl1 n = (if n < 32 then Some (push_bit (unat n) 1) else None)"

section \<open>Interrupts\<close>

definition platform_global_isr_disable :: "plat \<Rightarrow> plat" where
  "platform_global_isr_disable pl = pl\<lparr>primask := True\<rparr>"

definition platform_global_isr_enable :: "plat \<Rightarrow> plat" where
  "platform_global_isr_enable pl = pl\<lparr>primask := False\<rparr>"

text \<open>
  \<open>mu_isr\<close>: \<open>flags\<close> is what \<open>MU_GetStatusFlags\<close> returns, \<open>gen0\<close> and \<open>gen1\<close> are the SDK's
  flag masks, \<open>isr\<close> is the environment's \<open>env_isr\<close> on the rest of the state.
\<close>

definition mu_isr ::
  "u32 \<Rightarrow> u32 \<Rightarrow> (u32 \<Rightarrow> plat \<times> 's \<Rightarrow> (plat \<times> 's) option) \<Rightarrow> u32 \<Rightarrow> plat \<times> 's \<Rightarrow> (plat \<times> 's) option" where
  "mu_isr gen0 gen1 isr flags s =
     do { s \<leftarrow> (if gen0 AND flags \<noteq> 0
                then isr 0 (mu_do (MU_ClearStatusFlags gen0) (fst s), snd s) else Some s);
          (if gen1 AND flags \<noteq> 0
           then isr 1 (mu_do (MU_ClearStatusFlags gen1) (fst s), snd s) else Some s) }"

definition platform_init_interrupt ::
  "(u32 \<Rightarrow> ptr \<Rightarrow> 'e \<Rightarrow> 'e option) \<Rightarrow> (ptr \<Rightarrow> 'e \<Rightarrow> 'e option) \<Rightarrow> (ptr \<Rightarrow> 'e \<Rightarrow> 'e option)
    \<Rightarrow> u32 \<Rightarrow> ptr \<Rightarrow> plat \<times> 'e \<Rightarrow> (int \<times> plat \<times> 'e) option" where
  "platform_init_interrupt register_isr lock unlock vector_id isr_data s =
     (let (pl, e) = s
      in if platform_lock pl \<noteq> NULL
         then do {
           e \<leftarrow> register_isr vector_id isr_data e;
           e \<leftarrow> lock (platform_lock pl) e;
           rl_assert (0 \<le> isr_counter pl);
           pl \<leftarrow> (if isr_counter pl < 2
                  then do { m \<leftarrow> shl1 (31 - vector_id); Some (mu_do (MU_EnableInterrupts m) pl) }
                  else Some pl);
           let pl = pl\<lparr>isr_counter := isr_counter pl + 1\<rparr>;
           e \<leftarrow> unlock (platform_lock pl) e;
           Some (0, pl, e) }
         else Some (-1, pl, e))"

definition platform_deinit_interrupt ::
  "(u32 \<Rightarrow> 'e \<Rightarrow> 'e option) \<Rightarrow> (ptr \<Rightarrow> 'e \<Rightarrow> 'e option) \<Rightarrow> (ptr \<Rightarrow> 'e \<Rightarrow> 'e option)
    \<Rightarrow> u32 \<Rightarrow> plat \<times> 'e \<Rightarrow> (int \<times> plat \<times> 'e) option" where
  "platform_deinit_interrupt unregister_isr lock unlock vector_id s =
     (let (pl, e) = s
      in if platform_lock pl \<noteq> NULL
         then do {
           e \<leftarrow> lock (platform_lock pl) e;
           rl_assert (0 < isr_counter pl);
           let pl = pl\<lparr>isr_counter := isr_counter pl - 1\<rparr>;
           pl \<leftarrow> (if isr_counter pl < 2
                  then do { m \<leftarrow> shl1 (31 - vector_id); Some (mu_do (MU_DisableInterrupts m) pl) }
                  else Some pl);
           e \<leftarrow> unregister_isr vector_id e;
           e \<leftarrow> unlock (platform_lock pl) e;
           Some (0, pl, e) }
         else Some (-1, pl, e))"

definition platform_notify ::
  "(ptr \<Rightarrow> 'e \<Rightarrow> 'e option) \<Rightarrow> (ptr \<Rightarrow> 'e \<Rightarrow> 'e option) \<Rightarrow> u32 \<Rightarrow> plat \<times> 'e \<Rightarrow> (plat \<times> 'e) option" where
  "platform_notify lock unlock vector_id s =
     (let (pl, e) = s
      in do {
        e \<leftarrow> lock (platform_lock pl) e;
        m \<leftarrow> shl1 (19 - RL_GET_Q_ID vector_id);
        let pl = mu_do (MU_TriggerInterrupts m) pl;
        e \<leftarrow> unlock (platform_lock pl) e;
        Some (pl, e) })"

text \<open>\<open>side_a\<close> is \<open>FSL_FEATURE_MU_SIDE_A\<close>: only the A side sets the priority.\<close>

definition platform_interrupt_enable :: "u32 \<Rightarrow> plat \<Rightarrow> (int \<times> plat) option" where
  "platform_interrupt_enable vector_id pl =
     do { rl_assert (0 < disable_counter pl);
          let pl = platform_global_isr_disable pl;
          let pl = pl\<lparr>disable_counter := disable_counter pl - 1\<rparr>;
          let pl = (if disable_counter pl = 0 then mu_do NVIC_EnableIRQ pl else pl);
          Some (0, platform_global_isr_enable pl) }"

definition platform_interrupt_disable :: "bool \<Rightarrow> u32 \<Rightarrow> plat \<Rightarrow> (int \<times> plat) option" where
  "platform_interrupt_disable side_a vector_id pl =
     do { rl_assert (0 \<le> disable_counter pl);
          let pl = platform_global_isr_disable pl;
          let pl = (if disable_counter pl = 0
                    then if side_a then mu_do (NVIC_SetPriority 2) (mu_do NVIC_DisableIRQ pl)
                         else mu_do NVIC_DisableIRQ pl
                    else pl);
          let pl = pl\<lparr>disable_counter := disable_counter pl + 1\<rparr>;
          Some (0, platform_global_isr_enable pl) }"

definition platform_in_isr :: "u32 \<Rightarrow> u32 \<Rightarrow> int" where
  "platform_in_isr vectactive_msk icsr = (if icsr AND vectactive_msk \<noteq> 0 then 1 else 0)"

section \<open>Delay and address translation\<close>

text \<open>The busy loop; the result is the number of \<open>__NOP\<close> instructions it executes.\<close>

function delay_loop :: "u32 \<Rightarrow> nat" where
  "delay_loop loop = (if loop > 0 then Suc (delay_loop (loop - 1)) else 0)"
  by pat_completeness auto
termination
  by (relation "measure unat") (auto simp: unat_minus_one word_gt_0 unat_gt_0)

declare delay_loop.simps [simp del]

definition platform_time_delay :: "u32 \<Rightarrow> u32 \<Rightarrow> nat" where
  "platform_time_delay SystemCoreClock num_msec =
     delay_loop (SystemCoreClock div 3 div 1000 * num_msec)"

definition platform_vatopa :: "ptr \<Rightarrow> u32" where
  "platform_vatopa a = a"

definition platform_patova :: "u32 \<Rightarrow> ptr" where
  "platform_patova a = a"

section \<open>Initialisation\<close>

text \<open>\<open>create_mutex\<close> takes the address of the lock variable and the initial count and returns
  the status and the value it stores in the variable.\<close>

definition platform_init ::
  "(ptr \<Rightarrow> int \<Rightarrow> 'e \<Rightarrow> int \<times> ptr \<times> 'e) \<Rightarrow> plat \<times> 'e \<Rightarrow> int \<times> plat \<times> 'e" where
  "platform_init create_mutex s =
     (let (pl, e) = s; (st, l, e) = create_mutex (lock_var pl) 1 e; pl = pl\<lparr>platform_lock := l\<rparr>
      in if st \<noteq> 0 then (-1, pl, e) else (0, pl, e))"

definition platform_deinit :: "(ptr \<Rightarrow> 'e \<Rightarrow> 'e) \<Rightarrow> plat \<times> 'e \<Rightarrow> int \<times> plat \<times> 'e" where
  "platform_deinit delete_mutex s =
     (let (pl, e) = s; e = delete_mutex (platform_lock pl) e
      in (0, pl\<lparr>platform_lock := NULL\<rparr>, e))"

section \<open>Virtqueue identifiers and the size of the vrings\<close>

text \<open>
  A virtqueue identifier carries its link and its queue: for every link identifier up to
  \<open>0x7FFF\<close>, the limit the code checks at compile time, both can be read back from it, also
  after the identifier has been narrowed to the 16 bits of \<open>vq_queue_index\<close>.
\<close>

theorem vq_id_roundtrip:
  assumes "link_id \<le> 0x7FFF" "queue_id \<le> 1"
  shows "RL_GET_LINK_ID (ucast (ucast (RL_GET_VQ_ID link_id queue_id) :: u16)) = link_id
    \<and> RL_GET_Q_ID (ucast (ucast (RL_GET_VQ_ID link_id queue_id) :: u16)) = queue_id"
proof -
  have l: "bit link_id n \<longrightarrow> n < 15" for n
    using assms(1) bit_less_exp [of link_id 15 n] by (simp add: word_le_nat_alt)
  have q: "bit queue_id n \<longrightarrow> n = 0" for n
    using assms(2) bit_less_exp [of queue_id 1 n] by (simp add: word_le_nat_alt)
  let ?vq = "RL_GET_VQ_ID link_id queue_id"
  have m: "(0xFFFFFFFE :: u32) = NOT 1" by simp
  have v: "bit ?vq n \<longleftrightarrow> n = 0 \<and> bit queue_id 0 \<or> 0 < n \<and> n < 32 \<and> bit link_id (n - 1)" for n
    unfolding RL_GET_VQ_ID_def m bit_or_iff bit_and_iff bit_push_bit_iff bit_not_iff bit_1_iff
    using q [of n] by (cases n) auto
  have "bit link_id (n - Suc 0) \<Longrightarrow> n < 16" for n using l [of "n - Suc 0"] by auto
  then have "(ucast (ucast ?vq :: u16) :: u32) = ?vq"
    by (intro bit_word_eqI) (auto simp: bit_simps v)
  moreover have "RL_GET_LINK_ID ?vq = link_id"
  proof (rule bit_word_eqI)
    fix n assume "n < LENGTH(32)"
    show "bit (RL_GET_LINK_ID ?vq) n = bit link_id n"
      unfolding RL_GET_LINK_ID_def m bit_drop_bit_eq o_apply bit_and_iff bit_not_iff bit_1_iff v
      using l [of n] by auto
  qed
  moreover have "RL_GET_Q_ID ?vq = queue_id"
    unfolding RL_GET_Q_ID_def
    by (rule bit_word_eqI) (use q in \<open>auto simp: bit_and_iff bit_1_iff v\<close>)
  ultimately show ?thesis by simp
qed

theorem vq_id_roundtrip_witness:
  "RL_GET_LINK_ID (ucast (ucast (RL_GET_VQ_ID 0x7FFF 1) :: u16)) = 0x7FFF"
  using vq_id_roundtrip [of "0x7FFF" 1] by (simp add: word_le_nat_alt)

lemma align_up_add_le:
  assumes "0 < a" shows "align_up a (x + y) \<le> align_up a x + align_up a y"
proof -
  have "x + y \<le> align_up a x + align_up a y"
    using align_up_ge [OF assms] by (simp add: add_mono)
  then have "align_up a (x + y) \<le> align_up a (align_up a x + align_up a y)" by (rule align_up_mono)
  also have "\<dots> = align_up a x + align_up a (align_up a y)"
    by (rule align_up_add_mult [OF align_up_mod assms])
  also have "align_up a (align_up a y) = align_up a y"
    using align_up_add_mult [OF align_up_mod assms, of y 0] assms by (simp add: align_up_def)
  finally show ?thesis .
qed

text \<open>
  The area \<open>VRING_SIZE\<close> that the port reserves for a vring is large enough: for every number
  of buffers and every alignment the code accepts, it is at least \<open>vring_size\<close>, so the second
  vring and the buffers that follow never overlap the first vring.
\<close>

theorem VRING_SIZE_sufficient:
  assumes "is_pow2 align" "unat align \<le> 65536" "unat count \<le> 32768"
  shows "vring_size count align \<le> int (unat (VRING_SIZE count align))
    \<and> unat (VRING_SIZE count align) \<le> 26 * unat count + 22 + 3 * unat align"
proof -
  let ?n = "unat count" and ?a = "unat align"
  have pos: "0 < ?a" using assms(1) by (rule is_pow2_pos)
  have al: "unat ((x + align - 1) AND NOT (align - 1)) = align_up ?a (unat x)"
    if "unat x < 2000000" for x
  proof -
    have "align_up ?a (unat x) < unat x + ?a" using pos by (rule align_up_less)
    then show ?thesis using that assms(1,2) by (intro unat_align_up) simp_all
  qed
  have x: "unat (count * 16) = 16 * ?n" "unat (6 + count * 2 + 2) = 2 * ?n + 8"
    "unat (12 + count * 8 + 2) = 8 * ?n + 14"
    using assms(3) by (simp_all add: unat_word_ariths)
  have sz: "unat (VRING_DESC_SIZE count align) = align_up ?a (16 * ?n)"
    "unat (VRING_AVAIL_SIZE count align) = align_up ?a (2 * ?n + 8)"
    "unat (VRING_USED_SIZE count align) = align_up ?a (8 * ?n + 14)"
    unfolding VRING_DESC_SIZE_def VRING_AVAIL_SIZE_def VRING_USED_SIZE_def
    using al [of "count * 16"] al [of "6 + count * 2 + 2"] al [of "12 + count * 8 + 2"] assms(3)
    unfolding x by auto
  have le: "align_up ?a (16 * ?n) < 16 * ?n + ?a" "align_up ?a (2 * ?n + 8) < 2 * ?n + 8 + ?a"
    "align_up ?a (8 * ?n + 14) < 8 * ?n + 14 + ?a"
    using pos by (simp_all add: align_up_less)
  then have v: "unat (VRING_SIZE count align) =
      align_up ?a (16 * ?n) + align_up ?a (2 * ?n + 8) + align_up ?a (8 * ?n + 14)"
    using sz assms(2,3) by (simp add: VRING_SIZE_def unat_word_ariths)
  have "align_up ?a (18 * ?n + 8) \<le> align_up ?a (16 * ?n) + align_up ?a (2 * ?n + 8)"
    using align_up_add_le [OF pos, of "16 * ?n" "2 * ?n + 8"] by simp
  moreover have "8 * ?n + 14 \<le> align_up ?a (8 * ?n + 14)" using pos by (rule align_up_ge)
  ultimately show ?thesis
    unfolding vring_size_eq [OF assms] v of_nat_le_iff using le by (intro conjI) linarith+
qed

theorem VRING_SIZE_sufficient_witness:
  "vring_size 256 16 \<le> int (unat (VRING_SIZE 256 16))"
  using VRING_SIZE_sufficient [of 16 256] by (simp add: is_pow2_def)

section \<open>The busy delay\<close>

lemma delay_loop_eq: "delay_loop n = unat n"
proof (induction n rule: delay_loop.induct)
  case (1 n)
  show ?case
  proof (cases "n = 0")
    case True
    then show ?thesis by (simp add: delay_loop.simps)
  next
    case False
    then have "0 < n" by (simp add: word_gt_0)
    then have "delay_loop n = Suc (unat (n - 1))" using 1 by (subst delay_loop.simps) simp
    also have "\<dots> = unat n" using False by (simp add: unat_minus_one unat_gt_0)
    finally show ?thesis .
  qed
qed

text \<open>
  The busy loop of \<open>platform_time_delay\<close> always ends. It runs \<open>clock / 3000 * msec\<close> times
  as long as that fits 32 bits, and otherwise only that many times modulo \<open>2^32\<close>: the delay is
  then shorter than the one asked for.
\<close>

lemma platform_time_delay_loops:
  "platform_time_delay clk ms = unat clk div 3000 * unat ms mod 2 ^ 32
   \<and> (unat clk div 3000 * unat ms < 2 ^ 32 \<longrightarrow>
        platform_time_delay clk ms = unat clk div 3000 * unat ms)
   \<and> (2 ^ 32 \<le> unat clk div 3000 * unat ms \<longrightarrow>
        platform_time_delay clk ms < unat clk div 3000 * unat ms)"
proof -
  have "unat (clk div 3 div 1000) = unat clk div 3000"
    by (simp add: unat_div div_mult2_eq [symmetric])
  then have e: "platform_time_delay clk ms = unat clk div 3000 * unat ms mod 2 ^ 32"
    by (simp add: platform_time_delay_def delay_loop_eq unat_word_ariths)
  moreover have "x mod 2 ^ 32 < x" if "2 ^ 32 \<le> x" for x :: nat
    using that by (meson mod_less_divisor order_less_le_trans zero_less_numeral zero_less_power)
  ultimately show ?thesis by simp
qed

section \<open>Interrupt nesting\<close>

text \<open>
  Disabling nests: the line of the messaging unit is enabled exactly while every disable is
  matched by an enable.
\<close>

definition irq_inv :: "bool \<Rightarrow> plat \<Rightarrow> bool" where
  "irq_inv b pl \<longleftrightarrow> 0 \<le> disable_counter pl
     \<and> switched NVIC_EnableIRQ NVIC_DisableIRQ b (mu_log pl) = (disable_counter pl = 0)"

interpretation rt1170: irq_nesting "platform_interrupt_disable side_a" platform_interrupt_enable
  "\<lambda>v. ()" "\<lambda>c. True" "irq_inv b" "\<lambda>pl c. disable_counter pl" for side_a b
  by unfold_locales
    (auto simp: irq_inv_def platform_interrupt_disable_def platform_interrupt_enable_def
      platform_global_isr_disable_def platform_global_isr_enable_def mu_do_def Let_def split: bind_splits if_splits)

lemma interrupt_nesting:
  assumes "irq_inv b pl" "irq_calls (platform_interrupt_disable side_a) platform_interrupt_enable cs pl = Some pl'"
  shows "switched NVIC_EnableIRQ NVIC_DisableIRQ b (mu_log pl')
    = (disable_counter pl + irq_depth (\<lambda>v. ()) () cs = 0)"
  using rt1170.calls_count [OF assms, of "()"] by (simp add: irq_inv_def)

end
