(* ===== verification/Rpmsg_Lite.thy ===== *)
theory Rpmsg_Lite
  imports Virtqueue Llist Env_Port Platform_Imxrt1170
begin

text \<open>
  The messaging layer of \<^verbatim>\<open>lib/rpmsg_lite/rpmsg_lite.c\<close> and \<^verbatim>\<open>lib/include/rpmsg_lite.h\<close>: instances,
  endpoints, sending, receiving, the zero-copy interface, initialisation of the two roles and
  deinitialisation, in the configuration \<open>RL_USE_STATIC_API = 0\<close> and
  \<open>RL_USE_ENVIRONMENT_CONTEXT = 0\<close>; the other options are fields of \<open>rl_config\<close>.

  The state of one core holds its C objects in stores indexed by their addresses, the memory of
  the message buffers as bytes, the vrings (indexed by the address of the descriptor table),
  the allocator and the state of the environment layer, on which the operations of a port act.
  Three things are arguments: the port \<open>P\<close>; \<open>world\<close>, what the rest of the system does to the state
  while this core sleeps; and \<open>call_rx\<close>, the call of an endpoint's callback through its function
  pointer.
\<close>

section \<open>Constants and configuration\<close>

abbreviation (input) RL_SUCCESS :: int where "RL_SUCCESS \<equiv> 0"
abbreviation (input) RL_TRUE :: u32 where "RL_TRUE \<equiv> 1"
abbreviation (input) RL_FALSE :: u32 where "RL_FALSE \<equiv> 0"
abbreviation (input) RL_ADDR_ANY :: u32 where "RL_ADDR_ANY \<equiv> 0xFFFFFFFF"
abbreviation (input) RL_RELEASE :: int where "RL_RELEASE \<equiv> 0"
abbreviation (input) RL_HOLD :: int where "RL_HOLD \<equiv> 1"
abbreviation (input) RL_ERR_NO_MEM :: int where "RL_ERR_NO_MEM \<equiv> -5001"
abbreviation (input) RL_ERR_BUFF_SIZE :: int where "RL_ERR_BUFF_SIZE \<equiv> -5002"
abbreviation (input) RL_ERR_PARAM :: int where "RL_ERR_PARAM \<equiv> -5003"
abbreviation (input) RL_ERR_NO_BUFF :: int where "RL_ERR_NO_BUFF \<equiv> -5006"
abbreviation (input) RL_NOT_READY :: int where "RL_NOT_READY \<equiv> -5007"
abbreviation (input) RL_MAX_BUFFER_COUNT :: u16 where "RL_MAX_BUFFER_COUNT \<equiv> 32768"
abbreviation (input) RL_MAX_VRING_ALIGN :: u32 where "RL_MAX_VRING_ALIGN \<equiv> 65536"

definition RL_WORD_ALIGN_UP :: "u32 \<Rightarrow> u32" where
  "RL_WORD_ALIGN_UP a = (a + (4 - 1)) AND NOT (4 - 1)"

definition RL_WORD_ALIGN_DOWN :: "u32 \<Rightarrow> u32" where
  "RL_WORD_ALIGN_DOWN a = a AND NOT (4 - 1)"

record shmem_config =
  buffer_payload_size :: u32
  buffer_count :: u16
  cfg_vring_size :: u32
  cfg_vring_align :: u32

text \<open>
  \<open>cfg_shmem\<close> holds \<open>RL_BUFFER_PAYLOAD_SIZE\<close>, \<open>RL_BUFFER_COUNT\<close>, \<open>VRING_SIZE\<close> and
  \<open>VRING_ALIGN\<close>; \<open>cfg_custom\<close> is \<open>platform_get_custom_shmem_config\<close> in builds with
  \<open>RL_ALLOW_CUSTOM_SHMEM_CONFIG\<close>, \<open>cfg_interval\<close> is \<open>RL_MS_PER_INTERVAL\<close>.
\<close>

record rl_config =
  cfg_vq_debug :: bool
  cfg_clear_used :: bool
  cfg_consumed_notification :: bool
  cfg_debug_check :: bool
  cfg_shmem :: shmem_config
  cfg_custom :: "(u32 \<Rightarrow> int \<times> shmem_config) option"
  cfg_highest_link :: u32
  cfg_interval :: u32

text \<open>The checks the preprocessor makes (\<open>#error\<close>) in builds without the custom configuration.\<close>

definition rl_config_ok :: "rl_config \<Rightarrow> bool" where
  "rl_config_ok cfg \<longleftrightarrow>
     (cfg_custom cfg = None \<longrightarrow>
        is_pow2 (buffer_count (cfg_shmem cfg)) \<and> buffer_count (cfg_shmem cfg) \<le> RL_MAX_BUFFER_COUNT
        \<and> cfg_vring_align (cfg_shmem cfg) \<le> RL_MAX_VRING_ALIGN
        \<and> 16 < buffer_payload_size (cfg_shmem cfg) + 16)
     \<and> cfg_highest_link cfg \<le> 0x7FFF"

definition link_shmem :: "rl_config \<Rightarrow> u32 \<Rightarrow> shmem_config" where
  "link_shmem cfg link_id =
     (case cfg_custom cfg of None \<Rightarrow> cfg_shmem cfg | Some f \<Rightarrow> snd (f link_id))"

text \<open>The size of a buffer: header and payload, rounded up to the word size.\<close>

definition RL_BUFFER_SIZE :: "shmem_config \<Rightarrow> u32" where
  "RL_BUFFER_SIZE sc = RL_WORD_ALIGN_UP (buffer_payload_size sc + 16)"

text \<open>A division by zero has no defined result.\<close>

definition RL_CALCULATE_BUFFER_COUNT_DOWN_SAFE :: "u32 \<Rightarrow> u32 \<Rightarrow> u32 \<Rightarrow> u32 option" where
  "RL_CALCULATE_BUFFER_COUNT_DOWN_SAFE len overhead buff_size =
     (if len < overhead then Some 0
      else if buff_size = 0 then None
      else Some (RL_WORD_ALIGN_DOWN (len - overhead) div buff_size))"

section \<open>State\<close>

datatype vq_ops = Ops_NULL | Master_ops | Remote_ops

record rpmsg_lite_endpoint =
  ept_addr :: u32
  rx_cb :: fn_ptr
  rx_cb_data :: ptr
  ept_rfu :: ptr

record rpmsg_lite_instance =
  rvq :: ptr
  tvq :: ptr
  rl_endpoints :: ptr
  dev_lock :: ptr
  link_state :: u32
  sh_mem_base :: ptr
  sh_mem_remaining :: u32
  sh_mem_total :: u32
  dev_ops :: vq_ops
  link_id :: u32

definition instance_zero :: rpmsg_lite_instance where
  "instance_zero = \<lparr>rvq = NULL, tvq = NULL, rl_endpoints = NULL, dev_lock = NULL, link_state = 0,
     sh_mem_base = NULL, sh_mem_remaining = 0, sh_mem_total = 0, dev_ops = Ops_NULL, link_id = 0\<rparr>"

text \<open>The address of the member \<open>lock\<close> of an instance (\<open>&rpmsg_lite_dev->lock\<close>).\<close>

definition lock_addr :: "ptr \<Rightarrow> ptr" where
  "lock_addr dev = dev + 12"

record 'e rl_state =
  insts :: "ptr \<rightharpoonup> rpmsg_lite_instance"
  vqs :: "ptr \<rightharpoonup> virtqueue"
  vrings :: "ptr \<rightharpoonup> vring_mem"
  llnodes :: nodes
  epts :: "ptr \<rightharpoonup> rpmsg_lite_endpoint"
  mem :: memory
  hp :: heap
  env :: 'e

definition set_inst :: "ptr \<Rightarrow> (rpmsg_lite_instance \<Rightarrow> rpmsg_lite_instance) \<Rightarrow> 'e rl_state \<Rightarrow> 'e rl_state option" where
  "set_inst dev f s = do { i \<leftarrow> insts s dev; Some (s\<lparr>insts := (insts s)(dev \<mapsto> f i)\<rparr>) }"

text \<open>A virtqueue and the vring it points to.\<close>

definition get_vq :: "ptr \<Rightarrow> 'e rl_state \<Rightarrow> (virtqueue \<times> vring_mem) option" where
  "get_vq p s = do { vq \<leftarrow> vqs s p; vm \<leftarrow> vrings s (vr_desc (vq_ring vq)); Some (vq, vm) }"

definition put_vq :: "ptr \<Rightarrow> virtqueue \<Rightarrow> vring_mem \<Rightarrow> 'e rl_state \<Rightarrow> 'e rl_state" where
  "put_vq p vq vm s =
     s\<lparr>vqs := (vqs s)(p \<mapsto> vq), vrings := (vrings s)(vr_desc (vq_ring vq) \<mapsto> vm)\<rparr>"

text \<open>Lifting the operations of the port to the state.\<close>

definition lock_mutex :: "'e env_port \<Rightarrow> ptr \<Rightarrow> 'e rl_state \<Rightarrow> 'e rl_state option" where
  "lock_mutex P l s = do { e \<leftarrow> ep_lock_mutex P l (env s); Some (s\<lparr>env := e\<rparr>) }"

definition unlock_mutex :: "'e env_port \<Rightarrow> ptr \<Rightarrow> 'e rl_state \<Rightarrow> 'e rl_state option" where
  "unlock_mutex P l s = do { e \<leftarrow> ep_unlock_mutex P l (env s); Some (s\<lparr>env := e\<rparr>) }"

definition mem_free :: "ptr \<Rightarrow> 'e rl_state \<Rightarrow> 'e rl_state option" where
  "mem_free p s = do { h \<leftarrow> env_free_memory p (hp s); Some (s\<lparr>hp := h\<rparr>) }"

section \<open>Message headers\<close>

text \<open>
  \<open>struct rpmsg_std_msg\<close>: source and destination address at 0 and 4, the reserved fields at 8 and
  10, length and flags at 12 and 14, payload from 16.
\<close>

abbreviation (input) hdr_src :: "ptr \<Rightarrow> ptr" where "hdr_src m \<equiv> m"
abbreviation (input) hdr_dst :: "ptr \<Rightarrow> ptr" where "hdr_dst m \<equiv> m + 4"
abbreviation (input) hdr_idx :: "ptr \<Rightarrow> ptr" where "hdr_idx m \<equiv> m + 10"
abbreviation (input) hdr_len :: "ptr \<Rightarrow> ptr" where "hdr_len m \<equiv> m + 12"
abbreviation (input) hdr_flags :: "ptr \<Rightarrow> ptr" where "hdr_flags m \<equiv> m + 14"
abbreviation (input) msg_data :: "ptr \<Rightarrow> ptr" where "msg_data m \<equiv> m + 16"

definition RPMSG_STD_MSG_FROM_BUF :: "ptr \<Rightarrow> ptr" where
  "RPMSG_STD_MSG_FROM_BUF buf = buf - 16"

definition write_hdr :: "ptr \<Rightarrow> u32 \<Rightarrow> u32 \<Rightarrow> u32 \<Rightarrow> u32 \<Rightarrow> memory \<Rightarrow> memory" where
  "write_hdr msg dst src len flags m =
     store_u16 (store_u16 (store_u32 (store_u32 m (hdr_dst msg) dst) (hdr_src msg) src)
       (hdr_len msg) (ucast (len AND 0xFFFF))) (hdr_flags msg) (ucast (flags AND 0xFFFF))"

section \<open>The two interfaces to the virtqueues\<close>

text \<open>
  The operations of the remote and of the master role. The two that obtain a buffer return its
  address and, when there is one, its length and index. Cache maintenance is left out.
\<close>

definition vq_tx_remote ::
  "rl_config \<Rightarrow> ptr \<Rightarrow> ptr \<Rightarrow> u32 \<Rightarrow> u16 \<Rightarrow> 'e rl_state \<Rightarrow> 'e rl_state option" where
  "vq_tx_remote cfg tvqp buffer len idx s =
     do { (vq, vm) \<leftarrow> get_vq tvqp s;
          (status, vq, vm) \<leftarrow> virtqueue_add_consumed_buffer (cfg_vq_debug cfg) vq vm idx len;
          rl_assert (status = VQUEUE_SUCCESS);
          Some (put_vq tvqp vq vm s) }"

definition vq_tx_alloc_remote ::
  "'e env_port \<Rightarrow> rl_config \<Rightarrow> ptr \<Rightarrow> 'e rl_state \<Rightarrow> ((ptr \<times> (u32 \<times> u16) option) \<times> 'e rl_state) option" where
  "vq_tx_alloc_remote P cfg tvqp s =
     do { (vq, vm) \<leftarrow> get_vq tvqp s;
          (data, vq) \<leftarrow> virtqueue_get_available_buffer (ep_map_patova P) (cfg_vq_debug cfg) vq vm;
          Some (data, put_vq tvqp vq vm s) }"

definition vq_rx_remote ::
  "'e env_port \<Rightarrow> rl_config \<Rightarrow> ptr \<Rightarrow> 'e rl_state \<Rightarrow> ((ptr \<times> (u32 \<times> u16) option) \<times> 'e rl_state) option" where
  "vq_rx_remote P cfg rvqp s =
     do { (vq, vm) \<leftarrow> get_vq rvqp s;
          (data, vq) \<leftarrow> virtqueue_get_available_buffer (ep_map_patova P) (cfg_vq_debug cfg) vq vm;
          Some (data, put_vq rvqp vq vm s) }"

definition vq_rx_free_remote ::
  "rl_config \<Rightarrow> ptr \<Rightarrow> ptr \<Rightarrow> u32 \<Rightarrow> u16 \<Rightarrow> 'e rl_state \<Rightarrow> 'e rl_state option" where
  "vq_rx_free_remote cfg rvqp buffer len idx s =
     do { let s = (if cfg_clear_used cfg then s\<lparr>mem := env_memset buffer 0 len (mem s)\<rparr> else s);
          (vq, vm) \<leftarrow> get_vq rvqp s;
          (status, vq, vm) \<leftarrow> virtqueue_add_consumed_buffer (cfg_vq_debug cfg) vq vm idx len;
          rl_assert (status = VQUEUE_SUCCESS);
          Some (put_vq rvqp vq vm s) }"

definition vq_tx_master ::
  "rl_config \<Rightarrow> ptr \<Rightarrow> ptr \<Rightarrow> u32 \<Rightarrow> u16 \<Rightarrow> 'e rl_state \<Rightarrow> 'e rl_state option" where
  "vq_tx_master cfg tvqp buffer len idx s =
     do { (vq, vm) \<leftarrow> get_vq tvqp s;
          (status, vq, vm) \<leftarrow> virtqueue_add_buffer (cfg_vq_debug cfg) (Some vq) vm idx;
          rl_assert (status = VQUEUE_SUCCESS);
          Some (put_vq tvqp vq vm s) }"

definition vq_tx_alloc_master ::
  "'e env_port \<Rightarrow> rl_config \<Rightarrow> ptr \<Rightarrow> 'e rl_state \<Rightarrow> ((ptr \<times> (u32 \<times> u16) option) \<times> 'e rl_state) option" where
  "vq_tx_alloc_master P cfg tvqp s =
     (if tvqp = NULL then Some ((NULL, None), s)
      else do {
        (vq, vm) \<leftarrow> get_vq tvqp s;
        (data, vqo) \<leftarrow> virtqueue_get_buffer (ep_map_patova P) (cfg_vq_debug cfg) (Some vq) vm;
        vq \<leftarrow> vqo;
        Some (data, put_vq tvqp vq vm s) })"

definition vq_rx_master ::
  "'e env_port \<Rightarrow> rl_config \<Rightarrow> ptr \<Rightarrow> 'e rl_state \<Rightarrow> ((ptr \<times> (u32 \<times> u16) option) \<times> 'e rl_state) option" where
  "vq_rx_master P cfg rvqp s =
     (if rvqp = NULL then Some ((NULL, None), s)
      else do {
        (vq, vm) \<leftarrow> get_vq rvqp s;
        (data, vqo) \<leftarrow> virtqueue_get_buffer (ep_map_patova P) (cfg_vq_debug cfg) (Some vq) vm;
        vq \<leftarrow> vqo;
        Some (data, put_vq rvqp vq vm s) })"

definition vq_rx_free_master ::
  "rl_config \<Rightarrow> ptr \<Rightarrow> ptr \<Rightarrow> u32 \<Rightarrow> u16 \<Rightarrow> 'e rl_state \<Rightarrow> 'e rl_state option" where
  "vq_rx_free_master cfg rvqp buffer len idx s =
     do { let s = (if cfg_clear_used cfg then s\<lparr>mem := env_memset buffer 0 len (mem s)\<rparr> else s);
          (vq, vm) \<leftarrow> get_vq rvqp s;
          (status, vq, vm) \<leftarrow> virtqueue_add_buffer (cfg_vq_debug cfg) (Some vq) vm idx;
          rl_assert (status = VQUEUE_SUCCESS);
          Some (put_vq rvqp vq vm s) }"

text \<open>The calls through \<open>vq_ops\<close>; an unset table has no function to call.\<close>

fun vq_tx :: "vq_ops \<Rightarrow> rl_config \<Rightarrow> ptr \<Rightarrow> ptr \<Rightarrow> u32 \<Rightarrow> u16 \<Rightarrow> 'e rl_state \<Rightarrow> 'e rl_state option" where
  "vq_tx Ops_NULL cfg v b len idx s = None"
| "vq_tx Master_ops cfg v b len idx s = vq_tx_master cfg v b len idx s"
| "vq_tx Remote_ops cfg v b len idx s = vq_tx_remote cfg v b len idx s"

fun vq_tx_alloc ::
  "vq_ops \<Rightarrow> 'e env_port \<Rightarrow> rl_config \<Rightarrow> ptr \<Rightarrow> 'e rl_state \<Rightarrow> ((ptr \<times> (u32 \<times> u16) option) \<times> 'e rl_state) option" where
  "vq_tx_alloc Ops_NULL P cfg v s = None"
| "vq_tx_alloc Master_ops P cfg v s = vq_tx_alloc_master P cfg v s"
| "vq_tx_alloc Remote_ops P cfg v s = vq_tx_alloc_remote P cfg v s"

fun vq_rx ::
  "vq_ops \<Rightarrow> 'e env_port \<Rightarrow> rl_config \<Rightarrow> ptr \<Rightarrow> 'e rl_state \<Rightarrow> ((ptr \<times> (u32 \<times> u16) option) \<times> 'e rl_state) option" where
  "vq_rx Ops_NULL P cfg v s = None"
| "vq_rx Master_ops P cfg v s = vq_rx_master P cfg v s"
| "vq_rx Remote_ops P cfg v s = vq_rx_remote P cfg v s"

fun vq_rx_free :: "vq_ops \<Rightarrow> rl_config \<Rightarrow> ptr \<Rightarrow> ptr \<Rightarrow> u32 \<Rightarrow> u16 \<Rightarrow> 'e rl_state \<Rightarrow> 'e rl_state option" where
  "vq_rx_free Ops_NULL cfg v b len idx s = None"
| "vq_rx_free Master_ops cfg v b len idx s = vq_rx_free_master cfg v b len idx s"
| "vq_rx_free Remote_ops cfg v b len idx s = vq_rx_free_remote cfg v b len idx s"

text \<open>
  \<open>virtqueue_kick\<close> with the call of the notification function; the library installs
  \<open>virtqueue_notify\<close>, which hands the queue's index to \<open>platform_notify\<close>.
\<close>

definition virtqueue_notify :: "'e env_port \<Rightarrow> virtqueue \<Rightarrow> 'e rl_state \<Rightarrow> 'e rl_state option" where
  "virtqueue_notify P vq s =
     do { e \<leftarrow> ep_notify P (ucast (vq_queue_index vq)) (env s); Some (s\<lparr>env := e\<rparr>) }"

definition vq_kick :: "'e env_port \<Rightarrow> rl_config \<Rightarrow> ptr \<Rightarrow> 'e rl_state \<Rightarrow> 'e rl_state option" where
  "vq_kick P cfg v s =
     do { (vq, vm) \<leftarrow> get_vq v s;
          (call, vq') \<leftarrow> virtqueue_kick (cfg_vq_debug cfg) vq vm;
          s \<leftarrow> (case call of
                 None \<Rightarrow> Some s
               | Some Fn_virtqueue_notify \<Rightarrow> virtqueue_notify P vq s
               | Some f \<Rightarrow> None);
          Some (put_vq v vq' vm s) }"

section \<open>Endpoints\<close>

text \<open>The search loop follows the list from a node; a cyclic list would never end.\<close>

partial_function (option) find_ept_loop ::
  "nodes \<Rightarrow> (ptr \<rightharpoonup> rpmsg_lite_endpoint) \<Rightarrow> u32 \<Rightarrow> ptr \<Rightarrow> ptr option" where
  "find_ept_loop m es addr p =
     (if p = NULL then Some NULL
      else do {
        n \<leftarrow> m p;
        e \<leftarrow> es (l_data n);
        if ept_addr e = addr then Some p else find_ept_loop m es addr (l_next n) })"

definition rpmsg_lite_get_endpoint_from_addr :: "ptr \<Rightarrow> u32 \<Rightarrow> 'e rl_state \<Rightarrow> ptr option" where
  "rpmsg_lite_get_endpoint_from_addr dev addr s =
     do { i \<leftarrow> insts s dev; find_ept_loop (llnodes s) (epts s) addr (rl_endpoints i) }"

text \<open>The search for the lowest free address: \<open>RL_ADDR_ANY\<close> when there is none.\<close>

partial_function (option) find_free_addr :: "ptr \<Rightarrow> 'e rl_state \<Rightarrow> u32 \<Rightarrow> u32 option" where
  "find_free_addr dev s i =
     (if i < 0xFFFFFFFF
      then do {
        n \<leftarrow> rpmsg_lite_get_endpoint_from_addr dev i s;
        if n = NULL then Some i else find_free_addr dev s (i + 1) }
      else Some RL_ADDR_ANY)"

definition alloc :: "'e rl_state \<Rightarrow> ptr \<times> 'e rl_state" where
  "alloc s = (let (p, h) = env_allocate_memory (hp s) in (p, s\<lparr>hp := h\<rparr>))"

text \<open>A fresh list node: its members have whatever value the allocator left there.\<close>

definition rpmsg_lite_create_ept ::
  "'e env_port \<Rightarrow> llist \<Rightarrow> ptr \<Rightarrow> u32 \<Rightarrow> fn_ptr \<Rightarrow> ptr \<Rightarrow> 'e rl_state \<Rightarrow> (ptr \<times> 'e rl_state) option" where
  "rpmsg_lite_create_ept P junk dev addr cb cb_data s =
     (if dev = NULL then Some (NULL, s)
      else do {
        i \<leftarrow> insts s dev;
        s \<leftarrow> lock_mutex P (dev_lock i) s;
        found \<leftarrow> (if addr = RL_ADDR_ANY
                   then do { a \<leftarrow> find_free_addr dev s 1;
                             Some (if a = RL_ADDR_ANY then None else Some a) }
                   else do { n \<leftarrow> rpmsg_lite_get_endpoint_from_addr dev addr s;
                             Some (if n \<noteq> NULL then None else Some addr) });
        case found of
          None \<Rightarrow> do { s \<leftarrow> unlock_mutex P (dev_lock i) s; Some (NULL, s) }
        | Some addr \<Rightarrow>
            (let (rl_ept, s) = alloc s
             in if rl_ept = NULL
                then do { s \<leftarrow> unlock_mutex P (dev_lock i) s; Some (NULL, s) }
                else
                  (let (node, s) = alloc s
                   in if node = NULL
                      then do { s \<leftarrow> mem_free rl_ept s;
                                s \<leftarrow> unlock_mutex P (dev_lock i) s; Some (NULL, s) }
                      else do {
                        let s = s\<lparr>epts := (epts s)(rl_ept \<mapsto>
                          \<lparr>ept_addr = addr, rx_cb = cb, rx_cb_data = cb_data, ept_rfu = NULL\<rparr>),
                          llnodes := (llnodes s)(node \<mapsto> junk\<lparr>l_data := rl_ept\<rparr>)\<rparr>;
                        i \<leftarrow> insts s dev;
                        (h, m) \<leftarrow> add_to_list (rl_endpoints i) node (llnodes s);
                        s \<leftarrow> set_inst dev (\<lambda>i. i\<lparr>rl_endpoints := h\<rparr>) (s\<lparr>llnodes := m\<rparr>);
                        s \<leftarrow> unlock_mutex P (dev_lock i) s;
                        Some (rl_ept, s) })) })"

text \<open>Freed objects leave the stores, so that a later access to them has no defined result.\<close>

definition rpmsg_lite_destroy_ept ::
  "'e env_port \<Rightarrow> ptr \<Rightarrow> ptr \<Rightarrow> 'e rl_state \<Rightarrow> (int \<times> 'e rl_state) option" where
  "rpmsg_lite_destroy_ept P dev rl_ept s =
     (if dev = NULL then Some (RL_ERR_PARAM, s)
      else if rl_ept = NULL then Some (RL_ERR_PARAM, s)
      else do {
        i \<leftarrow> insts s dev;
        s \<leftarrow> lock_mutex P (dev_lock i) s;
        e \<leftarrow> epts s rl_ept;
        node \<leftarrow> rpmsg_lite_get_endpoint_from_addr dev (ept_addr e) s;
        if node \<noteq> NULL
        then do {
          (h, m) \<leftarrow> remove_from_list (rl_endpoints i) node (llnodes s);
          s \<leftarrow> set_inst dev (\<lambda>i. i\<lparr>rl_endpoints := h\<rparr>) (s\<lparr>llnodes := m\<rparr>);
          s \<leftarrow> unlock_mutex P (dev_lock i) s;
          s \<leftarrow> mem_free node s;
          s \<leftarrow> mem_free rl_ept s;
          Some (RL_SUCCESS, s\<lparr>llnodes := (llnodes s)(node := None), epts := (epts s)(rl_ept := None)\<rparr>) }
        else do { s \<leftarrow> unlock_mutex P (dev_lock i) s; Some (RL_ERR_PARAM, s) } })"

section \<open>Receiving\<close>

text \<open>
  The loop of \<open>rpmsg_lite_rx_callback\<close>: \<open>msg\<close> is the buffer just taken from the receive queue,
  with its length and index. \<open>call_rx\<close> calls the endpoint's callback with payload, length, source
  and private data; the callback may change the state.
\<close>

type_synonym 'e rx_call = "fn_ptr \<Rightarrow> ptr \<Rightarrow> u32 \<Rightarrow> u32 \<Rightarrow> ptr \<Rightarrow> 'e rl_state \<Rightarrow> (int \<times> 'e rl_state) option"

definition rx_one ::
  "'e env_port \<Rightarrow> rl_config \<Rightarrow> 'e rx_call \<Rightarrow> ptr \<Rightarrow> ptr \<Rightarrow> u32 \<Rightarrow> u16 \<Rightarrow> 'e rl_state
    \<Rightarrow> (bool \<times> 'e rl_state) option" where
  "rx_one P cfg call_rx dev msg len idx s =
     do { node \<leftarrow> rpmsg_lite_get_endpoint_from_addr dev (load_u32 (mem s) (hdr_dst msg)) s;
          (cb_ret, s) \<leftarrow> (if node \<noteq> NULL
             then do { n \<leftarrow> llnodes s node; ept \<leftarrow> epts s (l_data n);
                       call_rx (rx_cb ept) (msg_data msg) (ucast (load_u16 (mem s) (hdr_len msg)))
                         (load_u32 (mem s) (hdr_src msg)) (rx_cb_data ept) s }
             else Some (RL_RELEASE, s));
          if cb_ret = RL_HOLD
          then Some (False, s\<lparr>mem := store_u16 (mem s) (hdr_idx msg) idx\<rparr>)
          else do { i \<leftarrow> insts s dev;
                    s \<leftarrow> vq_rx_free (dev_ops i) cfg (rvq i) msg len idx s;
                    Some (True, s) } }"

partial_function (option) rx_loop ::
  "'e env_port \<Rightarrow> rl_config \<Rightarrow> 'e rx_call \<Rightarrow> ptr \<Rightarrow> ptr \<times> (u32 \<times> u16) option \<Rightarrow> bool \<Rightarrow> 'e rl_state
    \<Rightarrow> 'e rl_state option" where
  "rx_loop P cfg call_rx dev msg rx_freed s =
     (if fst msg = NULL then Some s
      else do {
        (len, idx) \<leftarrow> snd msg;
        (freed, s) \<leftarrow> rx_one P cfg call_rx dev (fst msg) len idx s;
        let rx_freed = (rx_freed \<or> freed);
        i \<leftarrow> insts s dev;
        (msg, s) \<leftarrow> vq_rx (dev_ops i) P cfg (rvq i) s;
        s \<leftarrow> (if cfg_consumed_notification cfg \<and> fst msg = NULL \<and> rx_freed
               then vq_kick P cfg (rvq i) s else Some s);
        rx_loop P cfg call_rx dev msg rx_freed s })"

definition rpmsg_lite_rx_callback ::
  "'e env_port \<Rightarrow> rl_config \<Rightarrow> 'e rx_call \<Rightarrow> ptr \<Rightarrow> 'e rl_state \<Rightarrow> 'e rl_state option" where
  "rpmsg_lite_rx_callback P cfg call_rx vqp s =
     do { vq \<leftarrow> vqs s vqp;
          let dev = vq_priv vq;
          rl_assert (dev \<noteq> NULL);
          i \<leftarrow> insts s dev;
          (msg, s) \<leftarrow> vq_rx (dev_ops i) P cfg (rvq i) s;
          rx_loop P cfg call_rx dev msg False s }"

definition rpmsg_lite_tx_callback :: "'e env_port \<Rightarrow> ptr \<Rightarrow> 'e rl_state \<Rightarrow> 'e rl_state option" where
  "rpmsg_lite_tx_callback P vqp s =
     do { vq \<leftarrow> vqs s vqp;
          let dev = vq_priv vq;
          rl_assert (dev \<noteq> NULL);
          s \<leftarrow> set_inst dev (\<lambda>i. i\<lparr>link_state := 1\<rparr>) s;
          i \<leftarrow> insts s dev;
          e \<leftarrow> ep_tx_callback P (link_id i) (env s);
          Some (s\<lparr>env := e\<rparr>) }"

text \<open>
  An interrupt: \<open>env_isr\<close> finds the virtqueue registered for the vector and
  \<open>virtqueue_notification\<close> invokes its callback.
\<close>

definition rl_isr ::
  "'e env_port \<Rightarrow> rl_config \<Rightarrow> 'e rx_call \<Rightarrow> u32 \<Rightarrow> 'e rl_state \<Rightarrow> 'e rl_state option" where
  "rl_isr P cfg call_rx vector s =
     do { p \<leftarrow> ep_isr_data P vector (env s);
          vq \<leftarrow> (if p = NULL then Some None else do { vq \<leftarrow> vqs s p; Some (Some vq) });
          case virtqueue_notification vq of
            None \<Rightarrow> Some s
          | Some Fn_rpmsg_lite_rx_callback \<Rightarrow> rpmsg_lite_rx_callback P cfg call_rx p s
          | Some Fn_rpmsg_lite_tx_callback \<Rightarrow> rpmsg_lite_tx_callback P p s
          | Some f \<Rightarrow> None }"

section \<open>Sending\<close>

definition rpmsg_lite_is_link_up :: "ptr \<Rightarrow> 'e rl_state \<Rightarrow> u32 option" where
  "rpmsg_lite_is_link_up dev s =
     (if dev = NULL then Some 0
      else do { i \<leftarrow> insts s dev; Some (if link_state i = RL_TRUE then RL_TRUE else RL_FALSE) })"

text \<open>\<open>wait\<close> is the port's \<open>env_wait_for_link_up\<close>.\<close>

definition rpmsg_lite_wait_for_link_up ::
  "(('e rl_state \<Rightarrow> u32 option) \<Rightarrow> u32 \<Rightarrow> u32 \<Rightarrow> 'e rl_state \<Rightarrow> (u32 \<times> 'e rl_state) option)
    \<Rightarrow> ptr \<Rightarrow> u32 \<Rightarrow> 'e rl_state \<Rightarrow> (u32 \<times> 'e rl_state) option" where
  "rpmsg_lite_wait_for_link_up wait dev timeout s =
     (if dev = NULL then Some (0, s)
      else do {
        i \<leftarrow> insts s dev;
        wait (\<lambda>s. map_option link_state (insts s dev)) (link_id i) timeout s })"

text \<open>One attempt to get a transmit buffer, with the instance locked.\<close>

definition tx_alloc_locked ::
  "'e env_port \<Rightarrow> rl_config \<Rightarrow> ptr \<Rightarrow> 'e rl_state \<Rightarrow> ((ptr \<times> (u32 \<times> u16) option) \<times> 'e rl_state) option" where
  "tx_alloc_locked P cfg dev s =
     do { i \<leftarrow> insts s dev;
          s \<leftarrow> lock_mutex P (dev_lock i) s;
          (b, s) \<leftarrow> vq_tx_alloc (dev_ops i) P cfg (tvq i) s;
          s \<leftarrow> unlock_mutex P (dev_lock i) s;
          Some (b, s) }"

text \<open>The polling loop: it gives up, with no buffer, once the ticks reach the timeout.\<close>

partial_function (option) tx_poll_loop ::
  "'e env_port \<Rightarrow> rl_config \<Rightarrow> ('e rl_state \<Rightarrow> 'e rl_state) \<Rightarrow> ptr \<Rightarrow> u32 \<Rightarrow> u32 \<Rightarrow> 'e rl_state
    \<Rightarrow> ((ptr \<times> (u32 \<times> u16) option) \<times> 'e rl_state) option" where
  "tx_poll_loop P cfg world dev timeout tick_count s =
     do { let s = world s;
          (b, s) \<leftarrow> tx_alloc_locked P cfg dev s;
          let tick_count = tick_count + cfg_interval cfg;
          if fst b \<noteq> NULL then Some (b, s)
          else if tick_count \<ge> timeout then Some ((NULL, None), s)
          else tx_poll_loop P cfg world dev timeout tick_count s }"

definition tx_alloc_timeout ::
  "'e env_port \<Rightarrow> rl_config \<Rightarrow> ('e rl_state \<Rightarrow> 'e rl_state) \<Rightarrow> ptr \<Rightarrow> u32 \<Rightarrow> 'e rl_state
    \<Rightarrow> ((ptr \<times> (u32 \<times> u16) option) \<times> 'e rl_state) option" where
  "tx_alloc_timeout P cfg world dev timeout s =
     do { (b, s) \<leftarrow> tx_alloc_locked P cfg dev s;
          if fst b \<noteq> NULL then Some (b, s)
          else if timeout = RL_FALSE then Some ((NULL, None), s)
          else tx_poll_loop P cfg world dev timeout 0 s }"

text \<open>Handing a filled buffer to the other side, with the instance locked.\<close>

definition tx_submit_locked ::
  "'e env_port \<Rightarrow> rl_config \<Rightarrow> ptr \<Rightarrow> ptr \<Rightarrow> u32 \<Rightarrow> u16 \<Rightarrow> 'e rl_state \<Rightarrow> 'e rl_state option" where
  "tx_submit_locked P cfg dev buffer len idx s =
     do { i \<leftarrow> insts s dev;
          s \<leftarrow> lock_mutex P (dev_lock i) s;
          s \<leftarrow> vq_tx (dev_ops i) cfg (tvq i) buffer len idx s;
          s \<leftarrow> vq_kick P cfg (tvq i) s;
          unlock_mutex P (dev_lock i) s }"

definition rpmsg_lite_format_message ::
  "'e env_port \<Rightarrow> rl_config \<Rightarrow> ('e rl_state \<Rightarrow> 'e rl_state) \<Rightarrow> ptr \<Rightarrow> u32 \<Rightarrow> u32 \<Rightarrow> ptr \<Rightarrow> u32 \<Rightarrow> u32 \<Rightarrow> u32
    \<Rightarrow> 'e rl_state \<Rightarrow> (int \<times> 'e rl_state) option" where
  "rpmsg_lite_format_message P cfg world dev src dst data len flags timeout s =
     (if data = NULL then Some (RL_ERR_PARAM, s)
      else do {
        i \<leftarrow> insts s dev;
        if link_state i \<noteq> RL_TRUE then Some (RL_NOT_READY, s)
        else do {
          ((buffer, li), s) \<leftarrow> tx_alloc_timeout P cfg world dev timeout s;
          if buffer = NULL then Some (RL_ERR_NO_MEM, s)
          else do {
            (buff_len, idx) \<leftarrow> li;
            let m = write_hdr buffer dst src len flags (mem s);
            let m = env_memcpy (msg_data buffer) data len m;
            s \<leftarrow> tx_submit_locked P cfg dev buffer buff_len idx (s\<lparr>mem := m\<rparr>);
            Some (RL_SUCCESS, s) } } })"

definition rpmsg_lite_send ::
  "'e env_port \<Rightarrow> rl_config \<Rightarrow> ('e rl_state \<Rightarrow> 'e rl_state) \<Rightarrow> ptr \<Rightarrow> ptr \<Rightarrow> u32 \<Rightarrow> ptr \<Rightarrow> u32 \<Rightarrow> u32
    \<Rightarrow> 'e rl_state \<Rightarrow> (int \<times> 'e rl_state) option" where
  "rpmsg_lite_send P cfg world dev ept dst data len timeout s =
     (if ept = NULL then Some (RL_ERR_PARAM, s)
      else if dev = NULL then Some (RL_ERR_PARAM, s)
      else do {
        i \<leftarrow> insts s dev;
        if len > buffer_payload_size (link_shmem cfg (link_id i)) then Some (RL_ERR_BUFF_SIZE, s)
        else do {
          e \<leftarrow> epts s ept;
          rpmsg_lite_format_message P cfg world dev (ept_addr e) dst data len 0 timeout s } })"

section \<open>The zero-copy interface\<close>

text \<open>\<open>rpmsg_lite_alloc_tx_buffer\<close> returns the payload address and the new value of \<open>*size\<close>;
  \<open>has_size\<close> says whether the pointer \<open>size\<close> is not NULL.\<close>

definition rpmsg_lite_alloc_tx_buffer ::
  "'e env_port \<Rightarrow> rl_config \<Rightarrow> ('e rl_state \<Rightarrow> 'e rl_state) \<Rightarrow> ptr \<Rightarrow> bool \<Rightarrow> u32 \<Rightarrow> 'e rl_state
    \<Rightarrow> (ptr \<times> u32 option \<times> 'e rl_state) option" where
  "rpmsg_lite_alloc_tx_buffer P cfg world dev has_size timeout s =
     (if \<not> has_size then Some (NULL, None, s)
      else do {
        i \<leftarrow> insts s dev;
        if link_state i \<noteq> RL_TRUE then Some (NULL, Some 0, s)
        else do {
          ((buffer, li), s) \<leftarrow> tx_alloc_timeout P cfg world dev timeout s;
          if buffer = NULL then Some (NULL, Some 0, s)
          else do {
            (len, idx) \<leftarrow> li;
            let s = s\<lparr>mem := store_u16 (mem s) (hdr_idx buffer) idx\<rparr>;
            Some (msg_data buffer, Some (if len \<ge> 16 then len - 16 else 0), s) } } })"

text \<open>The check of \<open>RL_DEBUG_CHECK_BUFFERS\<close>: some descriptor of the table has the address.\<close>

definition debug_check_buffer :: "rl_config \<Rightarrow> ptr \<Rightarrow> ptr \<Rightarrow> 'e rl_state \<Rightarrow> unit option" where
  "debug_check_buffer cfg v msg s =
     (if cfg_debug_check cfg
      then do { (vq, vm) \<leftarrow> get_vq v s;
                rl_assert (ucast msg \<in> set (map d_addr (take (unat (vq_nentries vq)) (vm_desc vm)))) }
      else Some ())"

definition rpmsg_lite_send_nocopy ::
  "'e env_port \<Rightarrow> rl_config \<Rightarrow> ptr \<Rightarrow> ptr \<Rightarrow> u32 \<Rightarrow> ptr \<Rightarrow> u32 \<Rightarrow> 'e rl_state \<Rightarrow> (int \<times> 'e rl_state) option" where
  "rpmsg_lite_send_nocopy P cfg dev ept dst data len s =
     (if ept = NULL \<or> data = NULL then Some (RL_ERR_PARAM, s)
      else do {
        i \<leftarrow> insts s dev;
        if len > buffer_payload_size (link_shmem cfg (link_id i)) then Some (RL_ERR_BUFF_SIZE, s)
        else if link_state i \<noteq> RL_TRUE then Some (RL_NOT_READY, s)
        else do {
          e \<leftarrow> epts s ept;
          let msg = RPMSG_STD_MSG_FROM_BUF data;
          debug_check_buffer cfg (tvq i) msg s;
          let s = s\<lparr>mem := write_hdr msg dst (ept_addr e) len 0 (mem s)\<rparr>;
          s \<leftarrow> lock_mutex P (dev_lock i) s;
          (vq, vm) \<leftarrow> get_vq (tvq i) s;
          buff_len \<leftarrow> virtqueue_get_buffer_length vm (load_u16 (mem s) (hdr_idx msg));
          s \<leftarrow> vq_tx (dev_ops i) cfg (tvq i) msg buff_len (load_u16 (mem s) (hdr_idx msg)) s;
          s \<leftarrow> vq_kick P cfg (tvq i) s;
          s \<leftarrow> unlock_mutex P (dev_lock i) s;
          Some (RL_SUCCESS, s) } })"

definition rpmsg_lite_release_rx_buffer ::
  "'e env_port \<Rightarrow> rl_config \<Rightarrow> ptr \<Rightarrow> ptr \<Rightarrow> 'e rl_state \<Rightarrow> (int \<times> 'e rl_state) option" where
  "rpmsg_lite_release_rx_buffer P cfg dev rxbuf s =
     (if dev = NULL then Some (RL_ERR_PARAM, s)
      else if rxbuf = NULL then Some (RL_ERR_PARAM, s)
      else do {
        i \<leftarrow> insts s dev;
        let msg = RPMSG_STD_MSG_FROM_BUF rxbuf;
        debug_check_buffer cfg (rvq i) msg s;
        s \<leftarrow> lock_mutex P (dev_lock i) s;
        (vq, vm) \<leftarrow> get_vq (rvq i) s;
        buff_len \<leftarrow> virtqueue_get_buffer_length vm (load_u16 (mem s) (hdr_idx msg));
        s \<leftarrow> vq_rx_free (dev_ops i) cfg (rvq i) msg buff_len (load_u16 (mem s) (hdr_idx msg)) s;
        s \<leftarrow> (if cfg_consumed_notification cfg then vq_kick P cfg (rvq i) s else Some s);
        s \<leftarrow> unlock_mutex P (dev_lock i) s;
        Some (RL_SUCCESS, s) })"

section \<open>Initialisation\<close>

text \<open>
  The checks at the start of \<open>rpmsg_lite_master_init\<close>: \<open>Some None\<close> is the early return of
  \<open>RL_NULL\<close>, \<open>Some (Some sc)\<close> the configuration the rest works with.
\<close>

definition master_init_checks ::
  "rl_config \<Rightarrow> ptr \<Rightarrow> u32 \<Rightarrow> u32 \<Rightarrow> shmem_config option option" where
  "master_init_checks cfg shmem_addr shmem_length link =
     (if link > cfg_highest_link cfg then Some None
      else if shmem_addr = NULL then Some None
      else
        case cfg_custom cfg of
          Some f \<Rightarrow>
            (let (st, sc) = f link
             in if st \<noteq> RL_SUCCESS then Some None
                else if buffer_count sc > RL_MAX_BUFFER_COUNT then Some None
                else
                  (let sc = (if cfg_vring_align sc > RL_MAX_VRING_ALIGN
                             then sc\<lparr>cfg_vring_align := RL_MAX_VRING_ALIGN\<rparr> else sc)
                   in if buffer_count sc AND (buffer_count sc - 1) \<noteq> 0 then Some None
                      else if buffer_payload_size sc \<le> 0 then Some None
                      else do {
                        n \<leftarrow> RL_CALCULATE_BUFFER_COUNT_DOWN_SAFE shmem_length
                               (2 * cfg_vring_size sc) (RL_BUFFER_SIZE sc);
                        Some (if 2 * ucast (buffer_count sc) > n then None else Some sc) }))
        | None \<Rightarrow>
            do { let sc = cfg_shmem cfg;
                 n \<leftarrow> RL_CALCULATE_BUFFER_COUNT_DOWN_SAFE shmem_length
                        (2 * cfg_vring_size sc) (RL_BUFFER_SIZE sc);
                 Some (if 2 * ucast (buffer_count sc) > n then None else Some sc) })"

definition remote_init_checks :: "rl_config \<Rightarrow> ptr \<Rightarrow> u32 \<Rightarrow> shmem_config option" where
  "remote_init_checks cfg shmem_addr link =
     (if link > cfg_highest_link cfg then None
      else if shmem_addr = NULL then None
      else
        case cfg_custom cfg of
          Some f \<Rightarrow>
            (let (st, sc) = f link
             in if st \<noteq> RL_SUCCESS then None
                else if buffer_count sc AND (buffer_count sc - 1) \<noteq> 0 then None
                else if buffer_payload_size sc \<le> 0 then None
                else Some sc)
        | None \<Rightarrow> Some (cfg_shmem cfg))"

text \<open>
  Allocation of the instance and \<open>env_init\<close>, common to both roles: the instance, or \<open>NULL\<close> after
  which initialisation returns \<open>RL_NULL\<close>.
\<close>

definition init_alloc_env :: "'e env_port \<Rightarrow> 'e rl_state \<Rightarrow> (ptr \<times> 'e rl_state) option" where
  "init_alloc_env P s =
     (let (dev, s) = alloc s
      in if dev = NULL then Some (NULL, s)
         else do {
           let s = s\<lparr>insts := (insts s)(dev \<mapsto> instance_zero)\<rparr>;
           (status, e) \<leftarrow> ep_env_init P (env s);
           let s = s\<lparr>env := e\<rparr>;
           if status \<noteq> RL_SUCCESS
           then do { s \<leftarrow> mem_free dev s; Some (NULL, s\<lparr>insts := (insts s)(dev := None)\<rparr>) }
           else Some (dev, s) })"

text \<open>The vring of queue \<open>idx\<close> in the shared memory.\<close>

definition ring_info :: "shmem_config \<Rightarrow> ptr \<Rightarrow> u32 \<Rightarrow> vring_alloc_info" where
  "ring_info sc shmem_addr idx =
     \<lparr>phy_addr = RL_WORD_ALIGN_UP shmem_addr + (if idx = 0 then 0 else cfg_vring_size sc),
      ring_align = cfg_vring_align sc, num_descs = buffer_count sc\<rparr>"

text \<open>Freeing a virtqueue (NULL is left alone); the block leaves the store.\<close>

definition vq_free :: "ptr \<Rightarrow> 'e rl_state \<Rightarrow> 'e rl_state option" where
  "vq_free p s =
     do { (q, h) \<leftarrow> virtqueue_free p (vqs s p) (hp s);
          Some (s\<lparr>hp := h, vqs := (if p = NULL then vqs s else (vqs s)(p := None))\<rparr>) }"

text \<open>The clean-up of a failed initialisation: the queues that exist and the instance are freed.\<close>

definition init_cleanup :: "ptr \<Rightarrow> ptr \<Rightarrow> ptr \<Rightarrow> 'e rl_state \<Rightarrow> 'e rl_state option" where
  "init_cleanup dev vq0 vq1 s =
     do { s \<leftarrow> vq_free vq0 s;
          s \<leftarrow> vq_free vq1 s;
          s \<leftarrow> mem_free dev s;
          Some (s\<lparr>insts := (insts s)(dev := None)\<rparr>) }"

text \<open>
  One round of the creation loop: the new queue, or NULL when \<open>virtqueue_create\<close> fails. The
  master also zeroes the ring, builds the free chain and disables the callback.
\<close>

definition create_vq ::
  "bool \<Rightarrow> rl_config \<Rightarrow> vring_alloc_info \<Rightarrow> u16 \<Rightarrow> string \<Rightarrow> fn_ptr \<Rightarrow> ptr \<Rightarrow> 'e rl_state
    \<Rightarrow> (ptr \<times> 'e rl_state) option" where
  "create_vq master cfg ri qid name callback dev s =
     do { let s = (if master
                   then s\<lparr>vrings := (vrings s)(phy_addr ri \<mapsto> vring_mem_zero (unat (num_descs ri)))\<rparr>
                   else s);
          let (p, s) = (if virtqueue_create_status (cfg_vq_debug cfg) ri = VQUEUE_SUCCESS
                        then alloc s else (NULL, s));
          (status, vqo) \<leftarrow> virtqueue_create (cfg_vq_debug cfg) qid name (Some ri) callback
                             Fn_virtqueue_notify p;
          if status \<noteq> RL_SUCCESS then Some (NULL, s)
          else do {
            vq \<leftarrow> vqo;
            if master
            then do {
              vm \<leftarrow> vrings s (vr_desc (vq_ring vq));
              vm \<leftarrow> vq_ring_init vq vm;
              (vq, vm) \<leftarrow> virtqueue_disable_cb (cfg_vq_debug cfg) vq vm;
              Some (p, put_vq p (vq\<lparr>vq_priv := dev\<rparr>) vm s) }
            else Some (p, s\<lparr>vqs := (vqs s)(p \<mapsto> vq\<lparr>vq_priv := dev\<rparr>)\<rparr>) } }"

text \<open>
  The loop of the master that fills a queue with buffers: \<open>k\<close> rounds are left. A round takes the
  next buffer of the shared memory, clears it and enqueues it, on the available ring of
  the receive queue and on the used ring of the transmit queue. The status of the enqueue is
  returned; the loop ends early when it is not \<open>RL_SUCCESS\<close>.
\<close>

definition fill_one ::
  "'e env_port \<Rightarrow> rl_config \<Rightarrow> shmem_config \<Rightarrow> ptr \<Rightarrow> ptr \<Rightarrow> 'e rl_state \<Rightarrow> (int \<times> 'e rl_state) option" where
  "fill_one P cfg sc dev v s =
     do { i \<leftarrow> insts s dev;
          let buffer = (if sh_mem_remaining i > 0
                        then sh_mem_base i + RL_BUFFER_SIZE sc * (sh_mem_total i - sh_mem_remaining i)
                        else NULL);
          s \<leftarrow> (if sh_mem_remaining i > 0
                 then set_inst dev (\<lambda>i. i\<lparr>sh_mem_remaining := sh_mem_remaining i - 1\<rparr>) s else Some s);
          rl_assert (buffer \<noteq> NULL);
          let s = s\<lparr>mem := env_memset buffer 0 (RL_BUFFER_SIZE sc) (mem s)\<rparr>;
          (vq, vm) \<leftarrow> get_vq v s;
          (if v = rvq i
           then do { (st, vq, vm) \<leftarrow> virtqueue_fill_avail_buffers (ep_map_vatopa P) (cfg_vq_debug cfg)
                       (Some vq) vm buffer (RL_BUFFER_SIZE sc);
                     Some (st, put_vq v vq vm s) }
           else if v = tvq i
           then do { (st, vq, vm) \<leftarrow> virtqueue_fill_used_buffers (ep_map_vatopa P) (cfg_vq_debug cfg)
                       vq vm buffer (RL_BUFFER_SIZE sc);
                     Some (st, put_vq v vq vm s) }
           else Some (RL_SUCCESS, s)) }"

fun fill_loop ::
  "'e env_port \<Rightarrow> rl_config \<Rightarrow> shmem_config \<Rightarrow> ptr \<Rightarrow> ptr \<Rightarrow> nat \<Rightarrow> 'e rl_state \<Rightarrow> (int \<times> 'e rl_state) option" where
  "fill_loop P cfg sc dev v 0 s = Some (RL_SUCCESS, s)"
| "fill_loop P cfg sc dev v (Suc k) s =
     do { (st, s) \<leftarrow> fill_one P cfg sc dev v s;
          if st \<noteq> RL_SUCCESS then Some (st, s) else fill_loop P cfg sc dev v k s }"

text \<open>The number of rounds: \<open>idx < vq_nentries\<close> and \<open>idx < sh_mem_total\<close>.\<close>

definition fill_vq ::
  "'e env_port \<Rightarrow> rl_config \<Rightarrow> shmem_config \<Rightarrow> ptr \<Rightarrow> ptr \<Rightarrow> 'e rl_state \<Rightarrow> (int \<times> 'e rl_state) option" where
  "fill_vq P cfg sc dev v s =
     do { i \<leftarrow> insts s dev;
          vq \<leftarrow> vqs s v;
          fill_loop P cfg sc dev v (min (unat (vq_nentries vq)) (unat (sh_mem_total i))) s }"

text \<open>Lifting of the port's interrupt operations.\<close>

definition env_do :: "('e \<Rightarrow> 'e option) \<Rightarrow> 'e rl_state \<Rightarrow> 'e rl_state option" where
  "env_do f s = do { e \<leftarrow> f (env s); Some (s\<lparr>env := e\<rparr>) }"

definition env_do_status :: "('e \<Rightarrow> (int \<times> 'e) option) \<Rightarrow> 'e rl_state \<Rightarrow> 'e rl_state option" where
  "env_do_status f s = do { (r, e) \<leftarrow> f (env s); Some (s\<lparr>env := e\<rparr>) }"

definition vq_index :: "ptr \<Rightarrow> 'e rl_state \<Rightarrow> u32 option" where
  "vq_index p s = do { vq \<leftarrow> vqs s p; Some (ucast (vq_queue_index vq)) }"

definition init_mutex :: "'e env_port \<Rightarrow> ptr \<Rightarrow> 'e rl_state \<Rightarrow> (int \<times> 'e rl_state) option" where
  "init_mutex P dev s =
     do { let (status, l, e) = ep_create_mutex P (lock_addr dev) 1 (env s);
          s \<leftarrow> set_inst dev (\<lambda>i. i\<lparr>dev_lock := l\<rparr>) (s\<lparr>env := e\<rparr>);
          Some (status, s) }"

definition master_init_finish ::
  "'e env_port \<Rightarrow> rl_config \<Rightarrow> ptr \<Rightarrow> 'e rl_state \<Rightarrow> (ptr \<times> 'e rl_state) option" where
  "master_init_finish P cfg dev s =
     do { i \<leftarrow> insts s dev;
          r \<leftarrow> vq_index (rvq i) s;
          t \<leftarrow> vq_index (tvq i) s;
          s \<leftarrow> env_do_status (ep_init_interrupt P r (rvq i)) s;
          s \<leftarrow> env_do_status (ep_init_interrupt P t (tvq i)) s;
          s \<leftarrow> env_do (ep_disable_interrupt P r) s;
          s \<leftarrow> env_do (ep_disable_interrupt P t) s;
          s \<leftarrow> set_inst dev (\<lambda>i. i\<lparr>link_state := 1\<rparr>) s;
          s \<leftarrow> env_do (ep_enable_interrupt P r) s;
          s \<leftarrow> env_do (ep_enable_interrupt P t) s;
          s \<leftarrow> vq_kick P cfg (rvq i) s;
          Some (dev, s) }"

definition rpmsg_lite_master_init ::
  "'e env_port \<Rightarrow> rl_config \<Rightarrow> ptr \<Rightarrow> u32 \<Rightarrow> u32 \<Rightarrow> 'e rl_state \<Rightarrow> (ptr \<times> 'e rl_state) option" where
  "rpmsg_lite_master_init P cfg shmem_addr shmem_length link s =
     do { chk \<leftarrow> master_init_checks cfg shmem_addr shmem_length link;
          case chk of
            None \<Rightarrow> Some (NULL, s)
          | Some sc \<Rightarrow> do {
              (dev, s) \<leftarrow> init_alloc_env P s;
              if dev = NULL then Some (NULL, s)
              else do {
                n \<leftarrow> RL_CALCULATE_BUFFER_COUNT_DOWN_SAFE shmem_length (2 * cfg_vring_size sc)
                       (RL_BUFFER_SIZE sc);
                s \<leftarrow> set_inst dev (\<lambda>i. i\<lparr>link_id := link,
                       sh_mem_base := RL_WORD_ALIGN_UP (shmem_addr + 2 * cfg_vring_size sc),
                       sh_mem_remaining := n, sh_mem_total := n, dev_ops := Master_ops\<rparr>) s;
                (vq0, s) \<leftarrow> create_vq True cfg (ring_info sc shmem_addr 0) (ucast (RL_GET_VQ_ID link 0))
                       ''rx_vq'' Fn_rpmsg_lite_rx_callback dev s;
                if vq0 = NULL then do { s \<leftarrow> init_cleanup dev NULL NULL s; Some (NULL, s) }
                else do {
                  (vq1, s) \<leftarrow> create_vq True cfg (ring_info sc shmem_addr 1)
                         (ucast (RL_GET_VQ_ID link 1)) ''tx_vq'' Fn_rpmsg_lite_tx_callback dev s;
                  if vq1 = NULL then do { s \<leftarrow> init_cleanup dev vq0 NULL s; Some (NULL, s) }
                  else do {
                    (status, s) \<leftarrow> init_mutex P dev s;
                    if status \<noteq> RL_SUCCESS
                    then do { s \<leftarrow> init_cleanup dev vq0 vq1 s; Some (NULL, s) }
                    else do {
                      s \<leftarrow> set_inst dev (\<lambda>i. i\<lparr>tvq := vq1, rvq := vq0\<rparr>) s;
                      (st, s) \<leftarrow> fill_vq P cfg sc dev vq0 s;
                      (st, s) \<leftarrow> (if st \<noteq> RL_SUCCESS then Some (st, s)
                                  else fill_vq P cfg sc dev vq1 s);
                      if st \<noteq> RL_SUCCESS
                      then do {
                        i \<leftarrow> insts s dev;
                        let s = s\<lparr>env := ep_delete_mutex P (dev_lock i) (env s)\<rparr>;
                        s \<leftarrow> init_cleanup dev vq0 vq1 s;
                        Some (NULL, s) }
                      else master_init_finish P cfg dev s } } } } } }"

definition remote_init_finish ::
  "'e env_port \<Rightarrow> ptr \<Rightarrow> 'e rl_state \<Rightarrow> (ptr \<times> 'e rl_state) option" where
  "remote_init_finish P dev s =
     do { s \<leftarrow> set_inst dev (\<lambda>i. i\<lparr>link_state := 0\<rparr>) s;
          i \<leftarrow> insts s dev;
          t \<leftarrow> vq_index (tvq i) s;
          r \<leftarrow> vq_index (rvq i) s;
          s \<leftarrow> env_do_status (ep_init_interrupt P t (tvq i)) s;
          s \<leftarrow> env_do_status (ep_init_interrupt P r (rvq i)) s;
          s \<leftarrow> env_do (ep_disable_interrupt P r) s;
          s \<leftarrow> env_do (ep_disable_interrupt P t) s;
          s \<leftarrow> env_do (ep_enable_interrupt P r) s;
          s \<leftarrow> env_do (ep_enable_interrupt P t) s;
          Some (dev, s) }"

definition rpmsg_lite_remote_init ::
  "'e env_port \<Rightarrow> rl_config \<Rightarrow> ptr \<Rightarrow> u32 \<Rightarrow> 'e rl_state \<Rightarrow> (ptr \<times> 'e rl_state) option" where
  "rpmsg_lite_remote_init P cfg shmem_addr link s =
     (case remote_init_checks cfg shmem_addr link of
        None \<Rightarrow> Some (NULL, s)
      | Some sc \<Rightarrow> do {
          (dev, s) \<leftarrow> init_alloc_env P s;
          if dev = NULL then Some (NULL, s)
          else do {
            s \<leftarrow> set_inst dev (\<lambda>i. i\<lparr>link_id := link, dev_ops := Remote_ops,
                   sh_mem_base := RL_WORD_ALIGN_UP (shmem_addr + 2 * cfg_vring_size sc)\<rparr>) s;
            (vq0, s) \<leftarrow> create_vq False cfg (ring_info sc shmem_addr 0) (ucast (RL_GET_VQ_ID link 0))
                   ''tx_vq'' Fn_rpmsg_lite_tx_callback dev s;
            if vq0 = NULL then do { s \<leftarrow> init_cleanup dev NULL NULL s; Some (NULL, s) }
            else do {
              (vq1, s) \<leftarrow> create_vq False cfg (ring_info sc shmem_addr 1) (ucast (RL_GET_VQ_ID link 1))
                     ''rx_vq'' Fn_rpmsg_lite_rx_callback dev s;
              if vq1 = NULL then do { s \<leftarrow> init_cleanup dev vq0 NULL s; Some (NULL, s) }
              else do {
                (status, s) \<leftarrow> init_mutex P dev s;
                if status \<noteq> RL_SUCCESS
                then do { s \<leftarrow> init_cleanup dev vq0 vq1 s; Some (NULL, s) }
                else do {
                  s \<leftarrow> set_inst dev (\<lambda>i. i\<lparr>tvq := vq0, rvq := vq1\<rparr>) s;
                  remote_init_finish P dev s } } } } })"

section \<open>Deinitialisation\<close>

definition rpmsg_lite_deinit ::
  "'e env_port \<Rightarrow> ptr \<Rightarrow> 'e rl_state \<Rightarrow> (int \<times> 'e rl_state) option" where
  "rpmsg_lite_deinit P dev s =
     (if dev = NULL then Some (RL_ERR_PARAM, s)
      else do {
        i \<leftarrow> insts s dev;
        rl_assert (rvq i \<noteq> NULL \<and> tvq i \<noteq> NULL \<and> dev_lock i \<noteq> NULL);
        r \<leftarrow> vq_index (rvq i) s;
        t \<leftarrow> vq_index (tvq i) s;
        s \<leftarrow> env_do_status (ep_deinit_interrupt P r) s;
        s \<leftarrow> env_do_status (ep_deinit_interrupt P t) s;
        s \<leftarrow> set_inst dev (\<lambda>i. i\<lparr>link_state := 0\<rparr>) s;
        s \<leftarrow> vq_free (rvq i) s;
        s \<leftarrow> vq_free (tvq i) s;
        s \<leftarrow> set_inst dev (\<lambda>i. i\<lparr>rvq := NULL, tvq := NULL\<rparr>) s;
        let s = s\<lparr>env := ep_delete_mutex P (dev_lock i) (env s)\<rparr>;
        s \<leftarrow> env_do_status (ep_env_deinit P) s;
        s \<leftarrow> mem_free dev s;
        Some (RL_SUCCESS, s\<lparr>insts := (insts s)(dev := None)\<rparr>) })"

end
