(* ===== verification/Env_Bm.thy ===== *)
theory Env_Bm
  imports Env_Port Platform_Imxrt1170
begin

text \<open>
  The bare-metal environment layer
  (\<^verbatim>\<open>lib/rpmsg_lite/porting/environment/rpmsg_env_bm.c\<close>) on top of the i.MX RT1170 platform:
  its state, its operations, the busy wait for the link, and the port it provides.
\<close>

section \<open>State and operations\<close>

record bm_env =
  env_init_counter :: int
  isr_table :: "ptr list"
  bm_plat :: plat

text \<open>The lock is the address of its own variable; locking does nothing on bare metal.\<close>

definition env_create_mutex :: "ptr \<Rightarrow> int \<Rightarrow> 'e \<Rightarrow> int \<times> ptr \<times> 'e" where
  "env_create_mutex lock count e = (0, lock, e)"

definition env_delete_mutex :: "ptr \<Rightarrow> 'e \<Rightarrow> 'e" where
  "env_delete_mutex lock e = e"

definition env_lock_mutex :: "ptr \<Rightarrow> 'e \<Rightarrow> 'e option" where
  "env_lock_mutex lock e = Some e"

definition env_unlock_mutex :: "ptr \<Rightarrow> 'e \<Rightarrow> 'e option" where
  "env_unlock_mutex lock e = Some e"

definition with_plat ::
  "(plat \<times> ptr list \<Rightarrow> (int \<times> plat \<times> ptr list) option) \<Rightarrow> bm_env \<Rightarrow> (int \<times> bm_env) option" where
  "with_plat f e =
     do { (r, pl, t) \<leftarrow> f (bm_plat e, isr_table e);
          Some (r, e\<lparr>bm_plat := pl, isr_table := t\<rparr>) }"

definition env_init :: "bm_env \<Rightarrow> (int \<times> bm_env) option" where
  "env_init e =
     do { rl_assert (env_init_counter e \<ge> 0);
          (if env_init_counter e < 0 then Some (-1, e)
           else
             let e = e\<lparr>env_init_counter := env_init_counter e + 1\<rparr>
             in if 1 < env_init_counter e then Some (0, e)
                else with_plat (\<lambda>s. Some (platform_init env_create_mutex s))
                       (e\<lparr>isr_table := replicate RL_PLATFORM_MAX_ISR_COUNT NULL\<rparr>)) }"

definition env_deinit :: "bm_env \<Rightarrow> (int \<times> bm_env) option" where
  "env_deinit e =
     do { rl_assert (env_init_counter e > 0);
          (if env_init_counter e \<le> 0 then Some (-1, e)
           else
             let e = e\<lparr>env_init_counter := env_init_counter e - 1\<rparr>
             in if 0 < env_init_counter e then Some (0, e)
                else with_plat (\<lambda>s. Some (platform_deinit env_delete_mutex s)) e) }"

definition env_map_vatopa :: "ptr \<Rightarrow> u32" where
  "env_map_vatopa address = platform_vatopa address"

definition env_map_patova :: "u32 \<Rightarrow> ptr" where
  "env_map_patova address = platform_patova address"

definition env_enable_interrupt :: "u32 \<Rightarrow> bm_env \<Rightarrow> bm_env option" where
  "env_enable_interrupt vector_id e =
     do { (r, pl) \<leftarrow> platform_interrupt_enable vector_id (bm_plat e);
          Some (e\<lparr>bm_plat := pl\<rparr>) }"

definition env_disable_interrupt :: "bool \<Rightarrow> u32 \<Rightarrow> bm_env \<Rightarrow> bm_env option" where
  "env_disable_interrupt side_a vector_id e =
     do { (r, pl) \<leftarrow> platform_interrupt_disable side_a vector_id (bm_plat e);
          Some (e\<lparr>bm_plat := pl\<rparr>) }"

definition env_tx_callback :: "u32 \<Rightarrow> bm_env \<Rightarrow> bm_env option" where
  "env_tx_callback link_id e = Some e"

definition env_sleep_msec :: "u32 \<Rightarrow> u32 \<Rightarrow> nat" where
  "env_sleep_msec SystemCoreClock num_msec = platform_time_delay SystemCoreClock num_msec"

definition bm_notify :: "u32 \<Rightarrow> bm_env \<Rightarrow> bm_env option" where
  "bm_notify vector_id e =
     do { (pl, t) \<leftarrow> platform_notify env_lock_mutex env_unlock_mutex vector_id (bm_plat e, isr_table e);
          Some (e\<lparr>bm_plat := pl, isr_table := t\<rparr>) }"

text \<open>What \<open>env_isr\<close> passes to \<open>virtqueue_notification\<close>: the registered virtqueue.\<close>

definition bm_isr_data :: "u32 \<Rightarrow> bm_env \<Rightarrow> ptr option" where
  "bm_isr_data vector e = env_isr (\<lambda>d s. Some d) vector (isr_table e) NULL"

section \<open>Waiting for the link\<close>

abbreviation (input) RL_BLOCK :: u32 where "RL_BLOCK \<equiv> 0xFFFFFFFF"

text \<open>
  \<open>link_state\<close> reads the variable, \<open>sleep\<close> is what the rest of the system does to the state
  while this core sleeps for one interval of \<open>iv\<close> (\<open>RL_MS_PER_INTERVAL\<close>) milliseconds.
\<close>

partial_function (option) wait_for_link_up_loop ::
  "('s \<Rightarrow> u32 option) \<Rightarrow> ('s \<Rightarrow> 's) \<Rightarrow> u32 \<Rightarrow> u32 \<Rightarrow> u32 \<Rightarrow> 's \<Rightarrow> (u32 \<times> 's) option" where
  "wait_for_link_up_loop link_state sleep iv timeout_ms tick_count s =
     do { l \<leftarrow> link_state s;
          (if l \<noteq> 1
           then let s = sleep s
                in if RL_BLOCK \<noteq> timeout_ms
                   then let tick_temp = tick_count + iv
                        in if tick_temp < tick_count \<or> tick_temp \<ge> timeout_ms then Some (0, s)
                           else wait_for_link_up_loop link_state sleep iv timeout_ms tick_temp s
                   else wait_for_link_up_loop link_state sleep iv timeout_ms tick_count s
           else Some (1, s)) }"

definition env_wait_for_link_up ::
  "('s \<Rightarrow> 's) \<Rightarrow> u32 \<Rightarrow> ('s \<Rightarrow> u32 option) \<Rightarrow> u32 \<Rightarrow> u32 \<Rightarrow> 's \<Rightarrow> (u32 \<times> 's) option" where
  "env_wait_for_link_up sleep iv link_state link_id timeout_ms s =
     wait_for_link_up_loop link_state sleep iv timeout_ms 0 s"

section \<open>The port\<close>

definition bm_port :: "bool \<Rightarrow> bm_env env_port" where
  "bm_port side_a =
     \<lparr>ep_env_init = env_init,
      ep_env_deinit = env_deinit,
      ep_create_mutex = env_create_mutex,
      ep_delete_mutex = env_delete_mutex,
      ep_lock_mutex = env_lock_mutex,
      ep_unlock_mutex = env_unlock_mutex,
      ep_init_interrupt = (\<lambda>v d. with_plat
        (platform_init_interrupt env_register_isr env_lock_mutex env_unlock_mutex v d)),
      ep_deinit_interrupt = (\<lambda>v. with_plat
        (platform_deinit_interrupt env_unregister_isr env_lock_mutex env_unlock_mutex v)),
      ep_enable_interrupt = env_enable_interrupt,
      ep_disable_interrupt = env_disable_interrupt side_a,
      ep_notify = bm_notify,
      ep_tx_callback = env_tx_callback,
      ep_isr_data = bm_isr_data,
      ep_map_vatopa = env_map_vatopa,
      ep_map_patova = env_map_patova\<rparr>"

lemma bm_notify_eq:
  "bm_notify v e = Some (e\<lparr>bm_plat := mu_do
     (MU_TriggerInterrupts (if RL_GET_Q_ID v = 0 then 0x80000 else 0x40000)) (bm_plat e)\<rparr>)"
  using q_id_cases [of v]
  by (auto simp: bm_notify_def platform_notify_def env_lock_mutex_def env_unlock_mutex_def
      shl1_def Let_def push_bit_eq_mult)

interpretation bm: env_locks "bm_port side_a" "\<lambda>l e. True" "\<lambda>l e. True" for side_a
  by unfold_locales
    (simp_all add: bm_port_def env_map_vatopa_def env_map_patova_def platform_vatopa_def
      platform_patova_def env_lock_mutex_def env_unlock_mutex_def bm_notify_eq)

section \<open>The wait ends\<close>

lemma tick_step:
  fixes t iv timeout :: u32
  shows "t + iv < t \<or> timeout \<le> t + iv \<longleftrightarrow> unat timeout \<le> unat t + unat iv"
proof (cases "unat t + unat iv < 2 ^ 32")
  case True
  then have "unat (t + iv) = unat t + unat iv" by (simp add: unat_word_ariths)
  then show ?thesis by (simp add: word_less_nat_alt word_le_nat_alt)
next
  case False
  have b: "unat t < 2 ^ 32" "unat iv < 2 ^ 32" "unat timeout < 2 ^ 32"
    using unat_u32_less by simp_all
  from this False have "unat (t + iv) = unat t + unat iv - 2 ^ 32"
    by (simp add: unat_word_ariths mod_if)
  then have "unat (t + iv) < unat t" using b False by linarith
  then show ?thesis using b False by (simp add: word_less_nat_alt)
qed

lemma ex_nat_split: "(\<exists>j. P j) \<longleftrightarrow> P 0 \<or> (\<exists>j. P (Suc j))"
  by (metis not0_implies_Suc)

lemma wait_loop_spec:
  fixes iv timeout t :: u32
  assumes iv: "0 < iv" and def: "\<And>s. link_state s \<noteq> None" and tm: "timeout \<noteq> RL_BLOCK"
  shows "\<exists>s'. wait_for_link_up_loop link_state sleep iv timeout t s =
    Some (if \<exists>j. (j = 0 \<or> unat t + j * unat iv < unat timeout) \<and> link_state ((sleep ^^ j) s) = Some 1
          then 1 else 0, s')"
proof (induction "unat timeout - unat t" arbitrary: t s rule: less_induct)
  case less
  obtain l where l: "link_state s = Some l" using def [of s] by auto
  show ?case
  proof (cases "l = 1")
    case True
    then have "(\<exists>j. (j = 0 \<or> unat t + j * unat iv < unat timeout) \<and>
        link_state ((sleep ^^ j) s) = Some 1)"
      using l by (intro exI [of _ 0]) simp
    then show ?thesis
      using True l by (subst wait_for_link_up_loop.simps) simp
  next
    case False
    have up: "(\<exists>j. (j = 0 \<or> unat t + j * unat iv < unat timeout) \<and> link_state ((sleep ^^ j) s) = Some 1)
        \<longleftrightarrow> (\<exists>j. unat t + Suc j * unat iv < unat timeout \<and> link_state ((sleep ^^ j) (sleep s)) = Some 1)"
      using False l by (subst ex_nat_split) (simp add: funpow_swap1)
    show ?thesis
    proof (cases "unat timeout \<le> unat t + unat iv")
      case True
      then have "\<not> (\<exists>j. unat t + Suc j * unat iv < unat timeout \<and>
          link_state ((sleep ^^ j) (sleep s)) = Some 1)" by auto
      then show ?thesis
        using True False l tm up tick_step [of t iv timeout]
        by (subst wait_for_link_up_loop.simps) (simp add: Let_def)
    next
      case next_tick: False
      then have lt: "unat t + unat iv < 2 ^ 32" using unat_u32_less [of timeout] by simp
      then have u: "unat (t + iv) = unat t + unat iv" by (simp add: unat_word_ariths)
      have "0 < unat iv" using iv by (simp add: word_gt_0 unat_gt_0)
      then have "unat timeout - unat (t + iv) < unat timeout - unat t"
        using u next_tick by linarith
      note IH = less [OF this, of "sleep s"]
      have reach: "(j = 0 \<or> unat (t + iv) + j * unat iv < unat timeout) \<longleftrightarrow>
          unat t + Suc j * unat iv < unat timeout" for j
        using next_tick by (cases j) (auto simp: u)
      have "(\<exists>j. (j = 0 \<or> unat (t + iv) + j * unat iv < unat timeout) \<and>
            link_state ((sleep ^^ j) (sleep s)) = Some 1)
          \<longleftrightarrow> (\<exists>j. unat t + Suc j * unat iv < unat timeout \<and>
            link_state ((sleep ^^ j) (sleep s)) = Some 1)"
        using reach by simp
      then show ?thesis
        using IH False l tm up tick_step [of t iv timeout] next_tick
        by (subst wait_for_link_up_loop.simps) (simp add: Let_def)
    qed
  qed
qed

text \<open>
  C40: The bare-metal wait for the link ends whenever a timeout is given, whatever the rest of the
  system does while this core sleeps, and its answer is exact: 1 if the link was up at the start
  or after some number of intervals that add up to less than the timeout, 0 otherwise. The count of
  the elapsed time does not overflow.
\<close>

theorem env_wait_for_link_up_correct:
  fixes iv timeout :: u32
  assumes "0 < iv" "\<And>s. link_state s \<noteq> None" "timeout \<noteq> RL_BLOCK"
  shows "\<exists>s'. env_wait_for_link_up sleep iv link_state link_id timeout s =
    Some (if \<exists>j. (j = 0 \<or> j * unat iv < unat timeout) \<and> link_state ((sleep ^^ j) s) = Some 1
          then 1 else 0, s')"
  using wait_loop_spec [where link_state = link_state and t = 0 and sleep = sleep and s = s, OF assms] by (simp add: env_wait_for_link_up_def)

theorem env_wait_for_link_up_correct_witness:
  "\<exists>s'. env_wait_for_link_up (\<lambda>n. n + 1) 1 (\<lambda>n::nat. Some (if n = 3 then 1 else 0)) 0 10 0 = Some (1, s')"
proof -
  have f: "((\<lambda>n::nat. n + 1) ^^ j) 0 = j" for j by (induction j) simp_all
  have "\<exists>j. (j = 0 \<or> j * unat (1::u32) < unat (10::u32)) \<and>
      Some (if ((\<lambda>n::nat. n + 1) ^^ j) 0 = 3 then 1 else 0) = Some (1::u32)"
    by (intro exI [of _ 3]) (simp add: f)
  then show ?thesis
    using env_wait_for_link_up_correct [where iv = 1 and timeout = 10 and s = 0 and link_id = 0
        and link_state = "\<lambda>n::nat. Some (if n = 3 then 1 else 0)" and sleep = "\<lambda>n. n + 1"]
    by auto
qed

section \<open>Nested initialisation\<close>

text \<open>A sequence of \<open>env_init\<close> (True) and \<open>env_deinit\<close> (False) calls.\<close>

fun env_calls :: "bool list \<Rightarrow> bm_env \<Rightarrow> bm_env option" where
  "env_calls [] e = Some e"
| "env_calls (True # cs) e = do { (r, e) \<leftarrow> env_init e; env_calls cs e }"
| "env_calls (False # cs) e = do { (r, e) \<leftarrow> env_deinit e; env_calls cs e }"

text \<open>The platform lock exists exactly while the environment is initialised.\<close>

definition env_inv :: "bm_env \<Rightarrow> bool" where
  "env_inv e \<longleftrightarrow> 0 \<le> env_init_counter e \<and> lock_var (bm_plat e) \<noteq> NULL
     \<and> (platform_lock (bm_plat e) \<noteq> NULL \<longleftrightarrow> 0 < env_init_counter e)
     \<and> (0 < env_init_counter e \<longrightarrow> length (isr_table e) = RL_PLATFORM_MAX_ISR_COUNT)"

lemma env_init_inv:
  assumes "env_inv e"
  shows "\<exists>e'. env_init e = Some (0, e') \<and> env_inv e' \<and> env_init_counter e' = env_init_counter e + 1
    \<and> (env_init_counter e = 0 \<longrightarrow> isr_table e' = replicate RL_PLATFORM_MAX_ISR_COUNT NULL)
    \<and> (0 < env_init_counter e \<longrightarrow> isr_table e' = isr_table e)"
  using assms
  by (auto simp: env_init_def env_inv_def with_plat_def platform_init_def env_create_mutex_def Let_def)

lemma env_deinit_inv:
  assumes "env_inv e" "0 < env_init_counter e"
  shows "\<exists>e'. env_deinit e = Some (0, e') \<and> env_inv e' \<and> env_init_counter e' = env_init_counter e - 1"
  using assms
  by (auto simp: env_deinit_def env_inv_def with_plat_def platform_deinit_def env_delete_mutex_def Let_def)

text \<open>
  \<open>env_init\<close> and \<open>env_deinit\<close> nest: several instances can initialise the environment, only the
  first call sets the platform up and only the last one tears it down. After any sequence of
  calls that passes the assertions, the platform lock exists exactly when more calls have
  initialised than deinitialised, and the counter is their difference.
\<close>

theorem env_init_nesting:
  assumes "env_inv e" "env_calls cs e = Some e'"
  shows "env_init_counter e' = env_init_counter e
      + int (length (filter id cs)) - int (length (filter Not cs))
    \<and> (platform_lock (bm_plat e') \<noteq> NULL \<longleftrightarrow> 0 < env_init_counter e')"
proof -
  have "env_inv e' \<and> env_init_counter e' = env_init_counter e
      + int (length (filter id cs)) - int (length (filter Not cs))"
    using assms
  proof (induction cs e rule: env_calls.induct)
    case (2 cs e)
    then show ?case using env_init_inv [of e] by auto
  next
    case (3 cs e)
    have "0 < env_init_counter e"
      using 3(3) by (auto simp: env_deinit_def split: bind_splits)
    then show ?case using 3 env_deinit_inv [of e] by auto
  qed simp
  then show ?thesis by (simp add: env_inv_def)
qed

abbreviation (input) bm_reset :: bm_env where
  "bm_reset \<equiv> \<lparr>env_init_counter = 0, isr_table = [], bm_plat =
     \<lparr>isr_counter = 0, disable_counter = 0, platform_lock = NULL, lock_var = 64, primask = False,
      mu_log = []\<rparr>\<rparr>"

theorem env_init_nesting_witness:
  "\<exists>e'. env_calls [True, True, False, False, True] bm_reset = Some e'
     \<and> platform_lock (bm_plat e') \<noteq> NULL"
proof -
  have i: "env_inv bm_reset" by (simp add: env_inv_def)
  obtain e' where e: "env_calls [True, True, False, False, True] bm_reset = Some e'"
    by (simp add: env_init_def env_deinit_def with_plat_def platform_init_def platform_deinit_def
        env_create_mutex_def env_delete_mutex_def Let_def)
  show ?thesis using env_init_nesting [OF i e] e by simp
qed

end
