(* ===== verification/Rpmsg_Endpoints.thy ===== *)
theory Rpmsg_Endpoints
  imports Rpmsg_Lite Env_Bm
begin

text \<open>
  The endpoints of an instance: creation, lookup by address and destruction. The list of
  endpoints is the linked list of \<open>Llist\<close> (through its contract); the facts that involve
  locking are proved for every port that meets the contract \<open>env_locks\<close> and then used for the
  bare-metal port.
\<close>

section \<open>The endpoints an instance has\<close>

text \<open>An entry: the list node, the address of the endpoint structure, its contents.\<close>

type_synonym ept_entry = "ptr \<times> ptr \<times> rpmsg_lite_endpoint"

abbreviation (input) en_node :: "ept_entry \<Rightarrow> ptr" where "en_node x \<equiv> fst x"
abbreviation (input) en_ptr :: "ept_entry \<Rightarrow> ptr" where "en_ptr x \<equiv> fst (snd x)"
abbreviation (input) en_addr :: "ept_entry \<Rightarrow> u32" where "en_addr x \<equiv> ept_addr (snd (snd x))"

text \<open>
  The instance \<open>dev\<close> has exactly the endpoints \<open>xs\<close>: its list holds their nodes, each node
  points to its endpoint, all blocks are allocated and different, and no two endpoints have
  the same address.
\<close>

definition ept_rep :: "ptr \<Rightarrow> 'e rl_state \<Rightarrow> ept_entry list \<Rightarrow> bool" where
  "ept_rep dev s xs \<longleftrightarrow>
     (\<exists>i. insts s dev = Some i \<and> list_rep (rl_endpoints i, llnodes s) (map fst xs))
     \<and> (\<forall>x \<in> set xs. map_option l_data (llnodes s (en_node x)) = Some (en_ptr x)
           \<and> epts s (en_ptr x) = Some (snd (snd x)))
     \<and> distinct (map en_addr xs)
     \<and> distinct (map fst xs @ map (fst \<circ> snd) xs)
     \<and> set (map fst xs @ map (fst \<circ> snd) xs) \<subseteq> set (hp_live (hp s))
     \<and> NULL \<notin> set (map (fst \<circ> snd) xs)
     \<and> distinct (hp_live (hp s))"

lemma ept_rep_env [simp]: "ept_rep dev (s\<lparr>env := e\<rparr>) xs = ept_rep dev s xs"
  by (simp add: ept_rep_def)

section \<open>Lookup\<close>

lemma find_ept_loop_spec:
  assumes "path m p (map fst xs)"
    and "\<forall>x \<in> set xs. map_option l_data (m (en_node x)) = Some (en_ptr x)
           \<and> es (en_ptr x) = Some (snd (snd x))"
  shows "find_ept_loop m es a p =
    Some (case find (\<lambda>x. en_addr x = a) xs of None \<Rightarrow> NULL | Some x \<Rightarrow> en_node x)"
  using assms
proof (induction xs arbitrary: p)
  case Nil
  then show ?case by (subst find_ept_loop.simps) simp
next
  case (Cons x xs)
  then obtain n where n: "m (fst x) = Some n" "p = fst x" "p \<noteq> NULL" "path m (l_next n) (map fst xs)"
    "l_data n = en_ptr x" "es (en_ptr x) = Some (snd (snd x))"
    by (auto split: option.splits)
  then show ?case
    using Cons.IH [OF n(4)] Cons.prems(2) by (subst find_ept_loop.simps) simp
qed

lemma get_endpoint_eq:
  assumes "ept_rep dev s xs"
  shows "rpmsg_lite_get_endpoint_from_addr dev a s =
    Some (case find (\<lambda>x. en_addr x = a) xs of None \<Rightarrow> NULL | Some x \<Rightarrow> en_node x)"
  using assms find_ept_loop_spec [of "llnodes s" _ xs "epts s" a]
  by (auto simp: ept_rep_def rpmsg_lite_get_endpoint_from_addr_def list_rep_def)

lemma ept_rep_nodes:
  assumes "ept_rep dev s xs" "x \<in> set xs"
  shows "en_node x \<noteq> NULL" "en_ptr x \<noteq> NULL" "llnodes s (en_node x) \<noteq> None"
  using assms path_nodes by (force simp: ept_rep_def list_rep_def)+

lemma find_None_addr: "find (\<lambda>x. en_addr x = a) xs = None \<longleftrightarrow> a \<notin> set (map en_addr xs)"
  by (induction xs) auto

lemma get_endpoint_NULL:
  assumes "ept_rep dev s xs"
  shows "rpmsg_lite_get_endpoint_from_addr dev a s = Some NULL \<longleftrightarrow> a \<notin> set (map en_addr xs)"
proof (cases "find (\<lambda>x. en_addr x = a) xs")
  case None
  then have "rpmsg_lite_get_endpoint_from_addr dev a s = Some NULL"
    by (simp add: get_endpoint_eq [OF assms])
  then show ?thesis using None find_None_addr [of a xs] by blast
next
  case (Some x)
  then have "x \<in> set xs" "en_addr x = a" by (auto simp: find_Some_iff)
  then show ?thesis
    using Some ept_rep_nodes(1) [OF assms] by (auto simp: get_endpoint_eq [OF assms])
qed

lemma get_endpoint_defined:
  "ept_rep dev s xs \<Longrightarrow> \<exists>n. rpmsg_lite_get_endpoint_from_addr dev a s = Some n"
  by (simp add: get_endpoint_eq)

text \<open>
  \<open>rpmsg_lite_get_endpoint_from_addr\<close> always ends, follows no bad pointer and returns the node
  of the endpoint with the given address, or NULL exactly when the instance has none.
\<close>

lemma get_endpoint_correct:
  assumes "ept_rep dev s xs"
  shows "\<exists>node. rpmsg_lite_get_endpoint_from_addr dev a s = Some node
    \<and> (node = NULL \<longleftrightarrow> a \<notin> set (map en_addr xs))
    \<and> (node \<noteq> NULL \<longrightarrow> (\<exists>p e. (node, p, e) \<in> set xs \<and> ept_addr e = a
          \<and> map_option l_data (llnodes s node) = Some p \<and> epts s p = Some e))"
proof -
  obtain node where n: "rpmsg_lite_get_endpoint_from_addr dev a s = Some node"
    using get_endpoint_defined [OF assms] by blast
  have "\<exists>p e. (node, p, e) \<in> set xs \<and> ept_addr e = a
          \<and> map_option l_data (llnodes s node) = Some p \<and> epts s p = Some e" if nn: "node \<noteq> NULL"
  proof -
    obtain x where x: "find (\<lambda>x. en_addr x = a) xs = Some x" "node = en_node x"
      using nn n get_endpoint_eq [OF assms, of a] by (auto split: option.splits)
    then have "x \<in> set xs" "en_addr x = a" by (auto simp: find_Some_iff)
    with x(2) assms show ?thesis
      by (intro exI [of _ "en_ptr x"] exI [of _ "snd (snd x)"]) (auto simp: ept_rep_def)
  qed
  then show ?thesis using n get_endpoint_NULL [OF assms, of a] by auto
qed

section \<open>The lowest free address\<close>

definition free_addr :: "u32 set \<Rightarrow> u32 \<Rightarrow> u32" where
  "free_addr A i = (if \<exists>j. i \<le> j \<and> j < RL_ADDR_ANY \<and> j \<notin> A
     then (LEAST j. i \<le> j \<and> j < RL_ADDR_ANY \<and> j \<notin> A) else RL_ADDR_ANY)"

lemma free_addr_top: "\<not> i < RL_ADDR_ANY \<Longrightarrow> free_addr A i = RL_ADDR_ANY"
  by (auto simp: free_addr_def)

lemma free_addr_hit:
  assumes "i < RL_ADDR_ANY" "i \<notin> A" shows "free_addr A i = i"
proof -
  have "(LEAST j. i \<le> j \<and> j < RL_ADDR_ANY \<and> j \<notin> A) = i"
    by (rule Least_equality) (use assms in auto)
  moreover have "\<exists>j. i \<le> j \<and> j < RL_ADDR_ANY \<and> j \<notin> A" using assms by blast
  ultimately show ?thesis by (simp add: free_addr_def)
qed

lemma u32_succ:
  fixes i :: u32
  assumes "i < RL_ADDR_ANY" shows "unat (i + 1) = unat i + 1"
  using assms by (simp add: word_less_nat_alt unat_word_ariths)

lemma free_addr_miss:
  assumes "i < RL_ADDR_ANY" "i \<in> A" shows "free_addr A i = free_addr A (i + 1)"
proof -
  have "i + 1 \<le> j \<longleftrightarrow> i \<le> j \<and> j \<noteq> i" for j
    using u32_succ [OF assms(1)] by (auto simp: word_le_nat_alt word_unat_eq_iff)
  then have "(i \<le> j \<and> j < RL_ADDR_ANY \<and> j \<notin> A) = (i + 1 \<le> j \<and> j < RL_ADDR_ANY \<and> j \<notin> A)" for j
    using assms(2) by auto
  then show ?thesis unfolding free_addr_def by (simp only:)
qed

lemma find_free_addr_spec:
  assumes "ept_rep dev s xs"
  shows "find_free_addr dev s i = Some (free_addr (set (map en_addr xs)) i)"
proof (induction "2 ^ 32 - unat i" arbitrary: i rule: less_induct)
  case less
  show ?case
  proof (cases "i < RL_ADDR_ANY")
    case False
    then show ?thesis by (subst find_free_addr.simps) (simp add: free_addr_top)
  next
    case True
    obtain n where n: "rpmsg_lite_get_endpoint_from_addr dev i s = Some n"
      using get_endpoint_defined [OF assms] by blast
    have nn: "n = NULL \<longleftrightarrow> i \<notin> set (map en_addr xs)"
      using n get_endpoint_NULL [OF assms, of i] by simp
    have "unat i < 2 ^ 32" using unat_u32_less [of i] by simp
    then have "2 ^ 32 - unat (i + 1) < 2 ^ 32 - unat i" using u32_succ [OF True] by linarith
    from less [OF this] show ?thesis
      using True n nn free_addr_hit [OF True] free_addr_miss [OF True]
      by (subst find_free_addr.simps) auto
  qed
qed

lemma free_addr_cases:
  "free_addr A i = RL_ADDR_ANY \<or>
     (i \<le> free_addr A i \<and> free_addr A i < RL_ADDR_ANY \<and> free_addr A i \<notin> A
      \<and> (\<forall>j. i \<le> j \<and> j < free_addr A i \<longrightarrow> j \<in> A))"
proof (cases "\<exists>j. i \<le> j \<and> j < RL_ADDR_ANY \<and> j \<notin> A")
  case True
  let ?P = "\<lambda>j. i \<le> j \<and> j < RL_ADDR_ANY \<and> j \<notin> A"
  have f: "free_addr A i = (LEAST j. ?P j)" using True by (simp add: free_addr_def)
  have "?P (LEAST j. ?P j)" using True by (rule LeastI_ex)
  moreover have "j \<in> A" if "i \<le> j" "j < (LEAST j. ?P j)" for j
    using not_less_Least [OF that(2)] that calculation by auto
  ultimately show ?thesis using f by auto
qed (auto simp: free_addr_def)

section \<open>Allocation\<close>

lemma alloc_cases:
  assumes "alloc s = (p, s')"
  shows "(p = NULL \<and> (\<exists>h. s' = s\<lparr>hp := h\<rparr> \<and> hp_live h = hp_live (hp s)))
    \<or> (p \<noteq> NULL \<and> p \<notin> set (hp_live (hp s)) \<and>
        (\<exists>h. s' = s\<lparr>hp := h\<rparr> \<and> hp_live h = p # hp_live (hp s)))"
proof -
  obtain h where h: "env_allocate_memory (hp s) = (p, h)" "s' = s\<lparr>hp := h\<rparr>"
    using assms by (auto simp: alloc_def split: prod.splits)
  then have "(p = NULL \<and> hp_live h = hp_live (hp s)) \<or>
      (p \<noteq> NULL \<and> p \<notin> set (hp_live (hp s)) \<and> hp_live h = p # hp_live (hp s))"
    by (auto simp: env_allocate_memory_def split: list.splits if_splits)
  then show ?thesis using h(2) by blast
qed

lemma ept_rep_hp:
  "ept_rep dev s xs \<Longrightarrow> set (hp_live (hp s)) \<subseteq> set (hp_live h) \<Longrightarrow> distinct (hp_live h)
    \<Longrightarrow> ept_rep dev (s\<lparr>hp := h\<rparr>) xs"
  by (auto simp: ept_rep_def)

text \<open>The state with one more endpoint in front of the list.\<close>

lemma ept_rep_add:
  assumes rep: "ept_rep dev s xs" and i: "insts s dev = Some i"
    and fresh: "p \<noteq> NULL" "n \<noteq> NULL" "p \<noteq> n" "p \<notin> set (hp_live (hp s))" "n \<notin> set (hp_live (hp s))"
    and live: "hp_live h = n # p # hp_live (hp s)"
    and addr: "ept_addr e \<notin> set (map en_addr xs)"
  shows "\<exists>m. add_to_list (rl_endpoints i) n ((llnodes s)(n \<mapsto> junk\<lparr>l_data := p\<rparr>)) = Some (n, m)
    \<and> ept_rep dev (s\<lparr>hp := h, epts := (epts s)(p \<mapsto> e), llnodes := m,
        insts := (insts s)(dev \<mapsto> i\<lparr>rl_endpoints := n\<rparr>)\<rparr>) ((n, p, e) # xs)"
proof -
  let ?m = "(llnodes s)(n \<mapsto> junk\<lparr>l_data := p\<rparr>)"
  have inl: "set (map fst xs) \<subseteq> set (hp_live (hp s))" "set (map (fst \<circ> snd) xs) \<subseteq> set (hp_live (hp s))"
    using rep by (auto simp: ept_rep_def)
  then have n: "n \<notin> set (map fst xs)" "n \<notin> set (map (fst \<circ> snd) xs)"
    "p \<notin> set (map fst xs)" "p \<notin> set (map (fst \<circ> snd) xs)"
    using fresh by blast+
  have l: "path (llnodes s) (rl_endpoints i) (map fst xs)" "prev_ok (llnodes s) (map fst xs)"
    "distinct (map fst xs)"
    using rep i by (auto simp: ept_rep_def list_rep_def)
  have "path ?m (rl_endpoints i) (map fst xs) = path (llnodes s) (rl_endpoints i) (map fst xs)"
    using n(1) by (intro path_cong) auto
  moreover have "prev_ok ?m (map fst xs) = prev_ok (llnodes s) (map fst xs)"
    using n(1) in_set_tlD by (intro prev_ok_cong) fastforce
  ultimately have "list_rep (rl_endpoints i, ?m) (map fst xs)" using l by (simp add: list_rep_def)
  from add_to_list_rep [OF this fresh(2) _ n(1)] obtain m where
    m: "add_to_list (rl_endpoints i) n ?m = Some (n, m)" "list_rep (n, m) (n # map fst xs)"
    "payload m = payload ?m" by auto
  have d: "map_option l_data (m q) = map_option l_data (?m q)" for q
    using fun_cong [OF m(3), of q] by (cases "m q"; cases "?m q") (auto simp: payload_def)
  have "\<forall>x \<in> set ((n, p, e) # xs). map_option l_data (m (en_node x)) = Some (en_ptr x)
      \<and> ((epts s)(p \<mapsto> e)) (en_ptr x) = Some (snd (snd x))"
    using rep n unfolding ept_rep_def d by auto
  then show ?thesis
    using m rep n addr live fresh by (auto simp: ept_rep_def)
qed

text \<open>The state with one endpoint less.\<close>

lemma find_remove:
  assumes "distinct (map en_addr xs)" "x \<in> set xs"
  shows "find (\<lambda>y. en_addr y = en_addr x) xs = Some x"
  using assms by (induction xs) force+

lemma ept_rep_remove:
  assumes rep: "ept_rep dev s xs" and i: "insts s dev = Some i" and x: "(n, p, e) \<in> set xs"
    and live: "hp_live h = remove1 p (remove1 n (hp_live (hp s)))"
  shows "\<exists>h' m. remove_from_list (rl_endpoints i) n (llnodes s) = Some (h', m)
    \<and> ept_rep dev (s\<lparr>hp := h, epts := (epts s)(p := None), llnodes := m(n := None),
        insts := (insts s)(dev \<mapsto> i\<lparr>rl_endpoints := h'\<rparr>)\<rparr>) (remove1 (n, p, e) xs)"
proof -
  have dn: "distinct (map fst xs)" "distinct (map (fst \<circ> snd) xs)"
    "set (map fst xs) \<inter> set (map (fst \<circ> snd) xs) = {}"
    using rep by (auto simp: ept_rep_def)
  have rl: "list_rep (rl_endpoints i, llnodes s) (map fst xs)" using rep i by (auto simp: ept_rep_def)
  have n: "n \<in> set (map fst xs)" using x by force
  from remove_from_list_rep [OF rl n] obtain h' m where
    m: "remove_from_list (rl_endpoints i) n (llnodes s) = Some (h', m)"
    "list_rep (h', m) (remove1 n (map fst xs))" "payload m = payload (llnodes s)" by blast
  let ?xs = "remove1 (n, p, e) xs"
  have sub: "set ?xs \<subseteq> set xs" by (rule set_remove1_subset)
  have rm: "map fst ?xs = remove1 n (map fst xs)"
    "map (fst \<circ> snd) ?xs = remove1 p (map (fst \<circ> snd) xs)"
    "map en_addr ?xs = remove1 (ept_addr e) (map en_addr xs)"
    using map_remove1_distinct [OF _ x, of fst] map_remove1_distinct [OF _ x, of "fst \<circ> snd"]
      map_remove1_distinct [OF _ x, of "\<lambda>x. en_addr x"] dn rep by (auto simp: ept_rep_def)
  have p: "p \<in> set (map (fst \<circ> snd) xs)" using x by force
  have ne: "n \<notin> set (map fst ?xs)" "p \<notin> set (map (fst \<circ> snd) ?xs)"
    unfolding rm set_remove1_eq [OF dn(1)] set_remove1_eq [OF dn(2)] by simp_all
  have ne2: "n \<notin> set (map (fst \<circ> snd) ?xs)" "p \<notin> set (map fst ?xs)"
    unfolding rm set_remove1_eq [OF dn(1)] set_remove1_eq [OF dn(2)] using dn(3) n p by blast+
  have d: "map_option l_data (m q) = map_option l_data (llnodes s q)" for q
    using fun_cong [OF m(3), of q] by (cases "m q"; cases "llnodes s q") (auto simp: payload_def)
  have "path (m(n := None)) h' (map fst ?xs) = path m h' (map fst ?xs)"
    using ne(1) by (intro path_cong) auto
  moreover have "prev_ok (m(n := None)) (map fst ?xs) = prev_ok m (map fst ?xs)"
    using ne(1) in_set_tlD by (intro prev_ok_cong) fastforce
  ultimately have "list_rep (h', m(n := None)) (map fst ?xs)"
    using m(2) rm(1) by (simp add: list_rep_def)
  moreover have "\<forall>x \<in> set ?xs. map_option l_data ((m(n := None)) (en_node x)) = Some (en_ptr x)
      \<and> ((epts s)(p := None)) (en_ptr x) = Some (snd (snd x))"
  proof
    fix y assume y: "y \<in> set ?xs"
    then have "en_node y \<noteq> n" "en_ptr y \<noteq> p" using ne by force+
    then show "map_option l_data ((m(n := None)) (en_node y)) = Some (en_ptr y)
      \<and> ((epts s)(p := None)) (en_ptr y) = Some (snd (snd y))"
      using rep y sub d by (auto simp: ept_rep_def)
  qed
  moreover have "set (map fst ?xs @ map (fst \<circ> snd) ?xs) \<subseteq> set (hp_live h)"
  proof
    fix q assume q: "q \<in> set (map fst ?xs @ map (fst \<circ> snd) ?xs)"
    then have "q \<in> set (map fst xs @ map (fst \<circ> snd) xs)"
      using image_mono [OF sub, of fst] image_mono [OF sub, of "fst \<circ> snd"] unfolding set_append set_map by blast
    then have "q \<in> set (hp_live (hp s))" using rep unfolding ept_rep_def by blast
    moreover have "q \<noteq> n" "q \<noteq> p" using q ne ne2 unfolding set_append by blast+
    ultimately show "q \<in> set (hp_live h)" by (simp add: live in_set_remove1)
  qed
  moreover have "distinct (map en_addr ?xs)" "distinct (hp_live h)"
    using rep unfolding rm live by (simp_all add: ept_rep_def)
  moreover have "distinct (map fst ?xs @ map (fst \<circ> snd) ?xs)"
    using dn set_remove1_subset [of n "map fst xs"] set_remove1_subset [of p "map (fst \<circ> snd) xs"]
    unfolding distinct_append rm by (simp add: distinct_remove1) blast
  moreover have "NULL \<notin> set (map (fst \<circ> snd) ?xs)"
    using rep notin_set_remove1 unfolding rm by (auto simp: ept_rep_def)
  ultimately show ?thesis using m(1) by (auto simp: ept_rep_def)
qed

section \<open>Creating and destroying endpoints\<close>

text \<open>The address a new endpoint gets: the lowest free one when the caller leaves the choice.\<close>

definition chosen_addr :: "u32 \<Rightarrow> ept_entry list \<Rightarrow> u32" where
  "chosen_addr addr xs = (if addr = RL_ADDR_ANY then free_addr (set (map en_addr xs)) 1 else addr)"

definition addr_ok :: "u32 \<Rightarrow> ept_entry list \<Rightarrow> bool" where
  "addr_ok addr xs \<longleftrightarrow> chosen_addr addr xs \<noteq> RL_ADDR_ANY \<and> chosen_addr addr xs \<notin> set (map en_addr xs)"

lemma mem_free_ok:
  "p \<noteq> NULL \<Longrightarrow> p \<in> set (hp_live (hp s)) \<Longrightarrow>
    mem_free p s = Some (s\<lparr>hp := (hp s)\<lparr>hp_live := remove1 p (hp_live (hp s))\<rparr>\<rparr>)"
  by (simp add: mem_free_def env_free_memory_def)

text \<open>What creating and destroying an endpoint leaves alone.\<close>

definition same_queues :: "'e rl_state \<Rightarrow> 'e rl_state \<Rightarrow> bool" where
  "same_queues s s' \<longleftrightarrow> vqs s' = vqs s \<and> vrings s' = vrings s \<and> mem s' = mem s
     \<and> (\<forall>d. map_option (\<lambda>i. i\<lparr>rl_endpoints := NULL\<rparr>) (insts s' d) =
             map_option (\<lambda>i. i\<lparr>rl_endpoints := NULL\<rparr>) (insts s d))"

context env_locks
begin

lemma lock_mutex_ok:
  "free l (env s) \<Longrightarrow> \<exists>e. lock_mutex P l s = Some (s\<lparr>env := e\<rparr>) \<and> held l e"
  using lock_free [of l "env s"] by (auto simp: lock_mutex_def)

lemma unlock_mutex_ok:
  "held l (env s) \<Longrightarrow> \<exists>e. unlock_mutex P l s = Some (s\<lparr>env := e\<rparr>) \<and> free l e"
  using unlock_held [of l "env s"] by (auto simp: unlock_mutex_def)

lemma create_ept_found:
  assumes "ept_rep dev s xs"
  shows "(if addr = RL_ADDR_ANY
          then do { a \<leftarrow> find_free_addr dev s 1;
                    Some (if a = RL_ADDR_ANY then None else Some a) }
          else do { n \<leftarrow> rpmsg_lite_get_endpoint_from_addr dev addr s;
                    Some (if n \<noteq> NULL then None else Some addr) }) =
     Some (if addr_ok addr xs then Some (chosen_addr addr xs) else None)"
proof (cases "addr = RL_ADDR_ANY")
  case True
  then show ?thesis
    using free_addr_cases [of "set (map en_addr xs)" 1] find_free_addr_spec [OF assms, of 1]
    by (auto simp: addr_ok_def chosen_addr_def)
next
  case False
  obtain n where n: "rpmsg_lite_get_endpoint_from_addr dev addr s = Some n"
    using get_endpoint_defined [OF assms] by blast
  then have "n = NULL \<longleftrightarrow> addr \<notin> set (map en_addr xs)"
    using get_endpoint_NULL [OF assms, of addr] by simp
  then show ?thesis using False n by (auto simp: addr_ok_def chosen_addr_def)
qed

lemma create_ept_spec:
  assumes rep: "ept_rep dev s xs" and dev: "dev \<noteq> NULL" and i: "insts s dev = Some i"
    and fr: "free (dev_lock i) (env s)"
  shows "\<exists>r s'. rpmsg_lite_create_ept P junk dev addr cb cbd s = Some (r, s')
    \<and> free (dev_lock i) (env s') \<and> same_queues s s'
    \<and> (if r = NULL
       then ept_rep dev s' xs \<and> hp_live (hp s') = hp_live (hp s)
       else addr_ok addr xs \<and> (\<exists>n. ept_rep dev s' ((n, r, \<lparr>ept_addr = chosen_addr addr xs,
              rx_cb = cb, rx_cb_data = cbd, ept_rfu = NULL\<rparr>) # xs)
            \<and> hp_live (hp s') = n # r # hp_live (hp s)))
    \<and> (addr_ok addr xs \<and> fst (alloc s) \<noteq> NULL \<and> fst (alloc (snd (alloc s))) \<noteq> NULL \<longrightarrow> r \<noteq> NULL)"
proof -
  obtain e1 where e1: "lock_mutex P (dev_lock i) s = Some (s\<lparr>env := e1\<rparr>)" "held (dev_lock i) e1"
    using lock_mutex_ok [OF fr] by blast
  have rep1: "ept_rep dev (s\<lparr>env := e1\<rparr>) xs" using rep by simp
  note found = create_ept_found [OF rep1, of addr]
  obtain e2 where e2: "free (dev_lock i) e2"
      "\<And>t. env t = e1 \<Longrightarrow> unlock_mutex P (dev_lock i) t = Some (t\<lparr>env := e2\<rparr>)"
    using unlock_held [OF e1(2)] by (auto simp: unlock_mutex_def)
  have al: "alloc (t\<lparr>env := e\<rparr>) = (fst (alloc t), (snd (alloc t))\<lparr>env := e\<rparr>)" for t e
    by (simp add: alloc_def split: prod.splits)
  obtain p s1 where p: "alloc s = (p, s1)" by (cases "alloc s")
  obtain n s2 where n: "alloc s1 = (n, s2)" by (cases "alloc s1")
  note ac1 = alloc_cases [OF p] and ac2 = alloc_cases [OF n]
  note start = rpmsg_lite_create_ept_def dev i e1(1) found al p n
  consider (bad) "\<not> addr_ok addr xs" | (nop) "addr_ok addr xs" "p = NULL"
    | (non) "addr_ok addr xs" "p \<noteq> NULL" "n = NULL" | (ok) "addr_ok addr xs" "p \<noteq> NULL" "n \<noteq> NULL"
    by blast
  then show ?thesis
  proof cases
    case bad
    then show ?thesis using rep e2 by (simp add: start same_queues_def)
  next
    case nop
    then show ?thesis
      using ac1 rep e2 by (auto simp: start same_queues_def ept_rep_def)
  next
    case non
    then obtain h1 h2 where h: "s1 = s\<lparr>hp := h1\<rparr>" "hp_live h1 = p # hp_live (hp s)"
        "s2 = s\<lparr>hp := h2\<rparr>" "hp_live h2 = p # hp_live (hp s)" "p \<notin> set (hp_live (hp s))"
      using ac1 ac2 by auto
    let ?t = "s\<lparr>hp := h2\<lparr>hp_live := hp_live (hp s)\<rparr>, env := e2\<rparr>"
    have "ept_rep dev (s\<lparr>hp := h2\<lparr>hp_live := hp_live (hp s)\<rparr>\<rparr>) xs"
      using rep by (intro ept_rep_hp) (auto simp: ept_rep_def)
    then have "ept_rep dev ?t xs" by simp
    moreover have "rpmsg_lite_create_ept P junk dev addr cb cbd s = Some (NULL, ?t)"
      using non h n e2 by (simp add: start mem_free_ok)
    ultimately show ?thesis
      using non n h(1) e2(1) p by (intro exI [of _ NULL] exI [of _ ?t]) (simp add: same_queues_def)
  next
    case ok
    then obtain h1 h2 where h: "s1 = s\<lparr>hp := h1\<rparr>" "hp_live h1 = p # hp_live (hp s)"
        "s2 = s\<lparr>hp := h2\<rparr>" "hp_live h2 = n # p # hp_live (hp s)" "p \<notin> set (hp_live (hp s))"
        "n \<notin> set (hp_live (hp s))" "p \<noteq> n"
      using ac1 ac2 by auto
    let ?e = "\<lparr>ept_addr = chosen_addr addr xs, rx_cb = cb, rx_cb_data = cbd, ept_rfu = NULL\<rparr>"
    have "ept_addr ?e \<notin> set (map en_addr xs)" using ok by (simp add: addr_ok_def)
    from ept_rep_add [OF rep i ok(2,3) h(7,5,6,4) this] obtain m where
      m: "add_to_list (rl_endpoints i) n ((llnodes s)(n \<mapsto> junk\<lparr>l_data := p\<rparr>)) = Some (n, m)"
      "ept_rep dev (s\<lparr>hp := h2, epts := (epts s)(p \<mapsto> ?e), llnodes := m,
        insts := (insts s)(dev \<mapsto> i\<lparr>rl_endpoints := n\<rparr>)\<rparr>) ((n, p, ?e) # xs)" by blast
    let ?t = "s\<lparr>hp := h2, epts := (epts s)(p \<mapsto> ?e), llnodes := m,
        insts := (insts s)(dev \<mapsto> i\<lparr>rl_endpoints := n\<rparr>), env := e2\<rparr>"
    have "rpmsg_lite_create_ept P junk dev addr cb cbd s = Some (p, ?t)"
      using ok h n e2 i m(1) by (simp add: start set_inst_def)
    moreover have "ept_rep dev ?t ((n, p, ?e) # xs)"
      using m(2) ept_rep_env by fastforce
    ultimately show ?thesis
      using ok e2(1) i h(4) by (intro exI [of _ p] exI [of _ ?t]) (auto simp: same_queues_def)
  qed
qed

lemma destroy_ept_spec:
  assumes rep: "ept_rep dev s xs" and dev: "dev \<noteq> NULL" and i: "insts s dev = Some i"
    and fr: "free (dev_lock i) (env s)" and x: "(n, p, e) \<in> set xs"
  shows "\<exists>s'. rpmsg_lite_destroy_ept P dev p s = Some (RL_SUCCESS, s')
    \<and> free (dev_lock i) (env s') \<and> same_queues s s' \<and> ept_rep dev s' (remove1 (n, p, e) xs)
    \<and> hp_live (hp s') = remove1 p (remove1 n (hp_live (hp s)))"
proof -
  obtain e1 where e1: "lock_mutex P (dev_lock i) s = Some (s\<lparr>env := e1\<rparr>)" "held (dev_lock i) e1"
    using lock_mutex_ok [OF fr] by blast
  obtain e2 where e2: "free (dev_lock i) e2"
      "\<And>t. env t = e1 \<Longrightarrow> unlock_mutex P (dev_lock i) t = Some (t\<lparr>env := e2\<rparr>)"
    using unlock_held [OF e1(2)] by (auto simp: unlock_mutex_def)
  have pn: "p \<noteq> NULL" "n \<noteq> NULL" using ept_rep_nodes [OF rep x] by simp_all
  have live: "n \<in> set (hp_live (hp s))" "p \<in> set (hp_live (hp s))" "p \<noteq> n" "epts s p = Some e"
  proof -
    have np: "n \<in> set (map fst xs)" "p \<in> set (map (fst \<circ> snd) xs)"
      using imageI [OF x, of fst] imageI [OF x, of "fst \<circ> snd"] by simp_all
    have sub: "set (map fst xs) \<subseteq> set (hp_live (hp s))"
      "set (map (fst \<circ> snd) xs) \<subseteq> set (hp_live (hp s))"
      "set (map fst xs) \<inter> set (map (fst \<circ> snd) xs) = {}"
      using rep by (simp_all add: ept_rep_def)
    show "n \<in> set (hp_live (hp s))" "p \<in> set (hp_live (hp s))" "p \<noteq> n" using np sub by blast+
    have "\<forall>x \<in> set xs. epts s (en_ptr x) = Some (snd (snd x))" using rep by (simp add: ept_rep_def)
    from bspec [OF this x] show "epts s p = Some e" by simp
  qed
  have rep1: "ept_rep dev (s\<lparr>env := e1\<rparr>) xs" using rep by simp
  have "find (\<lambda>y. en_addr y = ept_addr e) xs = Some (n, p, e)"
    using find_remove [of xs "(n, p, e)"] rep x by (simp add: ept_rep_def)
  then have f: "rpmsg_lite_get_endpoint_from_addr dev (ept_addr e) (s\<lparr>env := e1\<rparr>) = Some n"
    by (simp add: get_endpoint_eq [OF rep1])
  let ?h = "(hp s)\<lparr>hp_live := remove1 p (remove1 n (hp_live (hp s)))\<rparr>"
  from ept_rep_remove [OF rep i x, of ?h] obtain h' m where
    m: "remove_from_list (rl_endpoints i) n (llnodes s) = Some (h', m)"
    "ept_rep dev (s\<lparr>hp := ?h, epts := (epts s)(p := None), llnodes := m(n := None),
        insts := (insts s)(dev \<mapsto> i\<lparr>rl_endpoints := h'\<rparr>)\<rparr>) (remove1 (n, p, e) xs)" by auto
  let ?t = "s\<lparr>hp := ?h, epts := (epts s)(p := None), llnodes := m(n := None),
        insts := (insts s)(dev \<mapsto> i\<lparr>rl_endpoints := h'\<rparr>), env := e2\<rparr>"
  have "rpmsg_lite_destroy_ept P dev p s = Some (RL_SUCCESS, ?t)"
    using dev pn i e1(1) f m(1) live e2(2)
    by (simp add: rpmsg_lite_destroy_ept_def set_inst_def mem_free_ok)
  moreover have "ept_rep dev ?t (remove1 (n, p, e) xs)" using m(2) ept_rep_env by fastforce
  ultimately show ?thesis
    using e2(1) i by (intro exI [of _ ?t]) (auto simp: same_queues_def)
qed

lemma destroy_ept_unknown:
  assumes rep: "ept_rep dev s xs" and n: "dev \<noteq> NULL" "p \<noteq> NULL" and i: "insts s dev = Some i"
    and fr: "free (dev_lock i) (env s)" and e: "epts s p = Some e" "ept_addr e \<notin> set (map en_addr xs)"
  shows "\<exists>e'. rpmsg_lite_destroy_ept P dev p s = Some (RL_ERR_PARAM, s\<lparr>env := e'\<rparr>)"
proof -
  obtain e1 where e1: "lock_mutex P (dev_lock i) s = Some (s\<lparr>env := e1\<rparr>)" "held (dev_lock i) e1"
    using lock_mutex_ok [OF fr] by blast
  obtain e2 where e2: "\<And>t. env t = e1 \<Longrightarrow> unlock_mutex P (dev_lock i) t = Some (t\<lparr>env := e2\<rparr>)"
    using unlock_held [OF e1(2)] by (auto simp: unlock_mutex_def)
  have "ept_rep dev (s\<lparr>env := e1\<rparr>) xs" using rep by simp
  from get_endpoint_NULL [OF this] have "rpmsg_lite_get_endpoint_from_addr dev (ept_addr e) (s\<lparr>env := e1\<rparr>) = Some NULL"
    using e(2) by simp
  then show ?thesis using n i e e1(1) e2 by (intro exI [of _ e2]) (simp add: rpmsg_lite_destroy_ept_def)
qed

end

text \<open>
  C38: \<open>rpmsg_lite_create_ept\<close>, on every path: without an instance it returns NULL and changes nothing, whatever the
  state is. With an instance whose list of endpoints is intact (as it is after every sequence of creations
  and destructions), an address in use, no free address or no memory give NULL, leave the endpoints
  as they were and leak nothing. Otherwise the new endpoint is the first of the list, takes two blocks, carries
  the callback and its data, and has the requested address, or, for \<open>RL_ADDR_ANY\<close>, the lowest free
  address from 1 on; and it is created whenever the address is available and the allocator delivers two blocks.
\<close>

theorem create_ept_correct:
  shows "(dev = NULL \<longrightarrow> rpmsg_lite_create_ept (bm_port side_a) junk dev addr cb cbd s = Some (NULL, s))
    \<and> (dev \<noteq> NULL \<and> ept_rep dev s xs \<longrightarrow> (\<exists>r s'. rpmsg_lite_create_ept (bm_port side_a) junk dev addr cb cbd s = Some (r, s')
    \<and> (if r = NULL
       then ept_rep dev s' xs \<and> hp_live (hp s') = hp_live (hp s)
       else addr_ok addr xs \<and> (\<exists>n. ept_rep dev s' ((n, r, \<lparr>ept_addr = chosen_addr addr xs,
              rx_cb = cb, rx_cb_data = cbd, ept_rfu = NULL\<rparr>) # xs)
            \<and> hp_live (hp s') = n # r # hp_live (hp s)))
    \<and> (addr_ok addr xs \<and> fst (alloc s) \<noteq> NULL \<and> fst (alloc (snd (alloc s))) \<noteq> NULL \<longrightarrow> r \<noteq> NULL)
    \<and> (addr \<noteq> RL_ADDR_ANY \<longrightarrow> chosen_addr addr xs = addr)
    \<and> (addr = RL_ADDR_ANY \<and> addr_ok addr xs \<longrightarrow> 1 \<le> chosen_addr addr xs
        \<and> (\<forall>j. 1 \<le> j \<and> j < chosen_addr addr xs \<longrightarrow> j \<in> set (map en_addr xs)))))"
proof (cases "dev \<noteq> NULL \<and> ept_rep dev s xs")
  case True
  then obtain i where i: "insts s dev = Some i" by (auto simp: ept_rep_def)
  have "addr = RL_ADDR_ANY \<and> addr_ok addr xs \<longrightarrow> 1 \<le> chosen_addr addr xs
        \<and> (\<forall>j. 1 \<le> j \<and> j < chosen_addr addr xs \<longrightarrow> j \<in> set (map en_addr xs))"
    using free_addr_cases [of "set (map en_addr xs)" 1] unfolding addr_ok_def chosen_addr_def by auto
  moreover have "addr \<noteq> RL_ADDR_ANY \<longrightarrow> chosen_addr addr xs = addr" by (simp add: chosen_addr_def)
  ultimately show ?thesis
    using True bm.create_ept_spec [OF _ _ i TrueI, of xs side_a junk addr cb cbd] by blast
qed (auto simp: rpmsg_lite_create_ept_def)


section \<open>Any sequence of calls\<close>

inductive ept_step :: "'e env_port \<Rightarrow> ptr \<Rightarrow> 'e rl_state \<Rightarrow> 'e rl_state \<Rightarrow> bool" for P dev where
  step_create: "rpmsg_lite_create_ept P junk dev addr cb cbd s = Some (r, s') \<Longrightarrow> ept_step P dev s s'"
| step_destroy: "ept_rep dev s xs \<Longrightarrow> (n, p, e) \<in> set xs
    \<Longrightarrow> rpmsg_lite_destroy_ept P dev p s = Some (st, s') \<Longrightarrow> ept_step P dev s s'"

inductive_cases ept_stepE: "ept_step P dev s s'"

lemma ept_step_rep:
  assumes "ept_step (bm_port side_a) dev s s'" "dev \<noteq> NULL" "ept_rep dev s xs"
  shows "\<exists>ys. ept_rep dev s' ys"
  using assms(1)
proof (rule ept_stepE)
  obtain i where i: "insts s dev = Some i" using assms(3) by (auto simp: ept_rep_def)
  fix junk addr cb cbd r
  assume "rpmsg_lite_create_ept (bm_port side_a) junk dev addr cb cbd s = Some (r, s')"
  then show ?thesis
    using bm.create_ept_spec [OF assms(3,2) i TrueI, of side_a junk addr cb cbd]
    by (auto split: if_splits)
next
  obtain i where i: "insts s dev = Some i" using assms(3) by (auto simp: ept_rep_def)
  fix xs n p e st
  assume "ept_rep dev s xs" "(n, p, e) \<in> set xs"
    "rpmsg_lite_destroy_ept (bm_port side_a) dev p s = Some (st, s')"
  then show ?thesis
    using bm.destroy_ept_spec [OF _ assms(2) i TrueI, of xs n p e side_a] by auto
qed

text \<open>
  C19: Endpoint addresses are unique: after any sequence of \<open>rpmsg_lite_create_ept\<close> calls with any
  arguments and \<open>rpmsg_lite_destroy_ept\<close> calls on endpoints of the instance, the list of endpoints is
  intact, no two endpoints have the same address, and each is found under its address.
\<close>

theorem endpoints_unique:
  assumes "(ept_step (bm_port side_a) dev)\<^sup>*\<^sup>* s s'" "dev \<noteq> NULL" "ept_rep dev s xs"
  shows "\<exists>ys. ept_rep dev s' ys \<and> distinct (map en_addr ys)
    \<and> (\<forall>(n, p, e) \<in> set ys. rpmsg_lite_get_endpoint_from_addr dev (ept_addr e) s' = Some n)"
proof -
  have "\<exists>ys. ept_rep dev s' ys"
    using assms by (induction rule: rtranclp_induct) (auto dest: ept_step_rep)
  then obtain ys where ys: "ept_rep dev s' ys" by blast
  then have d: "distinct (map en_addr ys)" by (simp add: ept_rep_def)
  have "rpmsg_lite_get_endpoint_from_addr dev (ept_addr e) s' = Some n" if "(n, p, e) \<in> set ys" for n p e
    using find_remove [OF d that] by (simp add: get_endpoint_eq [OF ys])
  then show ?thesis using ys d by blast
qed

section \<open>Witnesses\<close>

text \<open>An instance at 8 with one endpoint, whose node is at 16 and whose structure is at 32.\<close>

definition ept_ex :: "bm_env rl_state" where
  "ept_ex = \<lparr>insts = [8 \<mapsto> instance_zero\<lparr>rl_endpoints := 16, dev_lock := 20\<rparr>], vqs = Map.empty,
     vrings = Map.empty, llnodes = [16 \<mapsto> \<lparr>l_data = 32, l_attr = 0, l_next = 0, l_prev = 0\<rparr>],
     epts = [32 \<mapsto> \<lparr>ept_addr = 1, rx_cb = Fn_app 0, rx_cb_data = 0, ept_rfu = 0\<rparr>],
     mem = (\<lambda>a. 0), hp = \<lparr>hp_next = [64, 80], hp_live = [8, 16, 32]\<rparr>, env = bm_reset\<rparr>"

abbreviation (input) ept_ex_list :: "ept_entry list" where
  "ept_ex_list \<equiv> [(16, 32, \<lparr>ept_addr = 1, rx_cb = Fn_app 0, rx_cb_data = 0, ept_rfu = 0\<rparr>)]"

lemma ept_ex_rep: "ept_rep 8 ept_ex ept_ex_list"
  by (simp add: ept_rep_def ept_ex_def list_rep_def)

lemma ept_ex_room: "addr_ok 7 ept_ex_list" "fst (alloc ept_ex) \<noteq> NULL" "fst (alloc (snd (alloc ept_ex))) \<noteq> NULL"
  by (simp_all add: alloc_def env_allocate_memory_def ept_ex_def addr_ok_def chosen_addr_def)

theorem create_ept_correct_witness:
  "\<exists>r s'. rpmsg_lite_create_ept (bm_port True) \<lparr>l_data = 0, l_attr = 0, l_next = 0, l_prev = 0\<rparr>
      8 7 (Fn_app 1) 0 ept_ex = Some (r, s') \<and> r \<noteq> NULL"
  using create_ept_correct [of 8 True "\<lparr>l_data = 0, l_attr = 0, l_next = 0, l_prev = 0\<rparr>" 7 "Fn_app 1" 0 ept_ex ept_ex_list]
    ept_ex_rep ept_ex_room by auto


text \<open>The instance gets a second endpoint, with address 7, and then the first one, with address 1, is destroyed.\<close>

theorem endpoints_unique_witness:
  "\<exists>r s1 s2 n ys. rpmsg_lite_create_ept (bm_port True) \<lparr>l_data = 0, l_attr = 0, l_next = 0, l_prev = 0\<rparr>
        8 7 (Fn_app 1) 0 ept_ex = Some (r, s1) \<and> r \<noteq> NULL
    \<and> rpmsg_lite_destroy_ept (bm_port True) 8 32 s1 = Some (RL_SUCCESS, s2)
    \<and> ept_rep 8 s2 [(n, r, \<lparr>ept_addr = 7, rx_cb = Fn_app 1, rx_cb_data = 0, ept_rfu = NULL\<rparr>)]
    \<and> ept_rep 8 s2 ys \<and> distinct (map en_addr ys)
    \<and> (\<forall>(n, p, e) \<in> set ys. rpmsg_lite_get_endpoint_from_addr 8 (ept_addr e) s2 = Some n)"
proof -
  let ?P = "bm_port True" and ?j = "\<lparr>l_data = 0, l_attr = 0, l_next = 0, l_prev = 0\<rparr>"
  let ?e7 = "\<lparr>ept_addr = 7, rx_cb = Fn_app 1, rx_cb_data = 0, ept_rfu = NULL\<rparr>"
  obtain i where i: "insts ept_ex 8 = Some i" by (simp add: ept_ex_def)
  obtain r s1 n where c: "rpmsg_lite_create_ept ?P ?j 8 7 (Fn_app 1) 0 ept_ex = Some (r, s1)" "r \<noteq> NULL"
    "ept_rep 8 s1 ((n, r, ?e7) # ept_ex_list)"
    using bm.create_ept_spec [OF ept_ex_rep _ i TrueI, of True ?j 7 "Fn_app 1" 0] ept_ex_room
    by (auto simp: chosen_addr_def)
  then obtain j where j: "insts s1 8 = Some j" by (auto simp: ept_rep_def)
  obtain s2 where d: "rpmsg_lite_destroy_ept ?P 8 32 s1 = Some (RL_SUCCESS, s2)" "ept_rep 8 s2 [(n, r, ?e7)]"
    using bm.destroy_ept_spec [OF c(3) _ j TrueI, of 16 32 "\<lparr>ept_addr = 1, rx_cb = Fn_app 0, rx_cb_data = 0, ept_rfu = 0\<rparr>" True]
    by auto
  have "ept_step ?P 8 ept_ex s1" using c(1) by (rule step_create)
  moreover have "(16, 32, \<lparr>ept_addr = 1, rx_cb = Fn_app 0, rx_cb_data = 0, ept_rfu = 0\<rparr>) \<in> set ((n, r, ?e7) # ept_ex_list)"
    by simp
  from step_destroy [OF c(3) this d(1)] have "ept_step ?P 8 s1 s2" .
  ultimately have r: "(ept_step ?P 8)\<^sup>*\<^sup>* ept_ex s2" by simp
  obtain ys where "ept_rep 8 s2 ys \<and> distinct (map en_addr ys)
      \<and> (\<forall>(n, p, e) \<in> set ys. rpmsg_lite_get_endpoint_from_addr 8 (ept_addr e) s2 = Some n)"
    using endpoints_unique [OF r _ ept_ex_rep] by auto
  then show ?thesis using c(1,2) d by blast
qed

end
