(* ===== verification/Rpmsg_Transfer.thy ===== *)
theory Rpmsg_Transfer
  imports Rpmsg_Endpoints Virtqueue_Props
begin

text \<open>
  Sending and receiving. The operations of the two roles are brought to one form: a queue has
  pending buffers, which the role takes from one ring in order, and a ring on which it puts
  buffers; the roles only differ in which ring is which. With it come the layout of a message in
  memory and what the peer sees of a queue. \<open>Rpmsg_Send\<close>, \<open>Rpmsg_Receive\<close> and
  \<open>Rpmsg_Delivery\<close> rest on that form.
\<close>

section \<open>The roles\<close>

text \<open>The buffers a role can take from a queue, oldest first, with their lengths.\<close>

fun pend :: "vq_ops \<Rightarrow> virtqueue \<Rightarrow> vring_mem \<Rightarrow> (u16 \<times> u32) list" where
  "pend Ops_NULL vq vm = []"
| "pend Master_ops vq vm = map used_elem (ring_list (unat (vq_nentries vq)) (us_ring (vm_used vm))
     (vq_used_cons_idx vq) (us_idx (vm_used vm)))"
| "pend Remote_ops vq vm = map (\<lambda>i. (i, d_len (vm_desc vm ! unat i)))
     (ring_list (unat (vq_nentries vq)) (av_ring (vm_avail vm))
       (vq_available_idx vq) (av_idx (vm_avail vm)))"

text \<open>The queue after its role has taken the oldest pending buffer.\<close>

fun took :: "vq_ops \<Rightarrow> virtqueue \<Rightarrow> virtqueue" where
  "took Ops_NULL vq = vq"
| "took Master_ops vq = vq\<lparr>vq_used_cons_idx := vq_used_cons_idx vq + 1\<rparr>"
| "took Remote_ops vq = vq\<lparr>vq_available_idx := vq_available_idx vq + 1\<rparr>"

text \<open>The queue and the vring after the role has put a buffer on its other ring.\<close>

fun put :: "vq_ops \<Rightarrow> u16 \<times> u32 \<Rightarrow> virtqueue \<times> vring_mem \<Rightarrow> virtqueue \<times> vring_mem" where
  "put Ops_NULL x q = q"
| "put Master_ops x q = ((fst q)\<lparr>vq_queued_cnt := vq_queued_cnt (fst q) + 1\<rparr>,
     avail_push (unat (vq_nentries (fst q))) (fst x) (snd q))"
| "put Remote_ops x q = (fst q,
     used_push (unat (vq_nentries (fst q))) \<lparr>ue_id = ucast (fst x), ue_len = snd x\<rparr> (snd q))"

definition buf_addr :: "'e env_port \<Rightarrow> vring_mem \<Rightarrow> u16 \<Rightarrow> ptr" where
  "buf_addr P vm i = ep_map_patova P (ucast (d_addr (vm_desc vm ! unat i)))"

text \<open>A queue a role can work on: well formed, idle, and every pending index names a descriptor.\<close>

definition vq_ready :: "vq_ops \<Rightarrow> virtqueue \<Rightarrow> vring_mem \<Rightarrow> bool" where
  "vq_ready ops vq vm \<longleftrightarrow> ops \<noteq> Ops_NULL \<and> vq_wf vq vm \<and> vq_idle vq \<and> vq_flags vq = 0
     \<and> notify_fc vq = Fn_virtqueue_notify
     \<and> (\<forall>x \<in> set (pend ops vq vm). fst x < vq_nentries vq)"

lemma put_frame [simp]:
  "vm_desc (snd (put ops x q)) = vm_desc (snd q)"
  "vq_nentries (fst (put ops x q)) = vq_nentries (fst q)"
  "vq_ring (fst (put ops x q)) = vq_ring (fst q)"
  "vq_wf (fst (put ops x q)) (snd (put ops x q)) = vq_wf (fst q) (snd q)"
  "vq_idle (fst (put ops x q)) = vq_idle (fst q)"
  "vq_flags (fst (put ops x q)) = vq_flags (fst q)"
  "notify_fc (fst (put ops x q)) = notify_fc (fst q)"
  by (cases ops, simp_all)+

lemma put_us_flags [simp]: "us_flags (vm_used (snd (put ops x q))) = us_flags (vm_used (snd q))"
  by (cases ops) (simp_all add: used_push_def)

lemma took_frame [simp]:
  "vq_nentries (took ops vq) = vq_nentries vq" "vq_ring (took ops vq) = vq_ring vq"
  "vq_wf (took ops vq) vm = vq_wf vq vm" "vq_idle (took ops vq) = vq_idle vq"
  "vq_flags (took ops vq) = vq_flags vq" "notify_fc (took ops vq) = notify_fc vq"
  by (cases ops, simp_all)+

text \<open>Putting a buffer does not touch the ring the role takes from.\<close>

lemma pend_put [simp]: "pend ops (fst (put ops x q)) (snd (put ops x q)) = pend ops (fst q) (snd q)"
  by (cases ops) simp_all

lemma pend_took:
  assumes "vq_wf vq vm" "pend ops vq vm = x # xs"
  shows "pend ops (took ops vq) vm = xs"
proof -
  have N: "unat (vq_nentries vq) dvd 65536"
    using assms(1) is_pow2_u16_dvd(1) by (simp add: vq_wf_def)
  show ?thesis
  proof (cases ops)
    case Ops_NULL
    then show ?thesis using assms(2) by simp
  next
    case Master_ops
    then have "vq_used_cons_idx vq \<noteq> us_idx (vm_used vm)" using assms(2) by auto
    from ring_list_deq [OF N this, of "us_ring (vm_used vm)"] show ?thesis
      using assms(2) Master_ops by simp
  next
    case Remote_ops
    then have "vq_available_idx vq \<noteq> av_idx (vm_avail vm)" using assms(2) by auto
    from ring_list_deq [OF N this, of "av_ring (vm_avail vm)"] show ?thesis
      using assms(2) Remote_ops by simp
  qed
qed

lemma vq_ready_put [simp]: "vq_ready ops (fst (put ops x q)) (snd (put ops x q)) = vq_ready ops (fst q) (snd q)"
  by (simp add: vq_ready_def)

lemma vq_ready_took: "vq_ready ops vq vm \<Longrightarrow> pend ops vq vm = x # xs \<Longrightarrow> vq_ready ops (took ops vq) vm"
  using pend_took [of vq vm ops x xs] by (simp add: vq_ready_def)

section \<open>The operations of the roles in this form\<close>

lemma get_vq_put [simp]: "get_vq v (put_vq v vq vm s) = Some (vq, vm)"
  by (simp add: get_vq_def put_vq_def)

lemma put_vq_put [simp]:
  "vq_ring vq' = vq_ring vq \<Longrightarrow> put_vq v vq' vm' (put_vq v vq vm s) = put_vq v vq' vm' s"
  by (simp add: put_vq_def)

lemma put_vq_triv: "get_vq v s = Some (vq, vm) \<Longrightarrow> put_vq v vq vm s = s"
  by (auto simp: get_vq_def put_vq_def fun_upd_idem_iff split: bind_splits)

lemma put_vq_simps [simp]:
  "insts (put_vq v vq vm s) = insts s" "epts (put_vq v vq vm s) = epts s"
  "llnodes (put_vq v vq vm s) = llnodes s" "mem (put_vq v vq vm s) = mem s"
  "hp (put_vq v vq vm s) = hp s" "env (put_vq v vq vm s) = env s"
  by (simp_all add: put_vq_def)

lemma get_vq_frame [simp]:
  "get_vq v (s\<lparr>env := e\<rparr>) = get_vq v s" "get_vq v (s\<lparr>mem := m\<rparr>) = get_vq v s"
  "get_vq v (s\<lparr>hp := h\<rparr>) = get_vq v s"
  by (simp_all add: get_vq_def)

lemma put_vq_frame [simp]:
  "(put_vq v vq vm s)\<lparr>env := e\<rparr> = put_vq v vq vm (s\<lparr>env := e\<rparr>)"
  "(put_vq v vq vm s)\<lparr>mem := m\<rparr> = put_vq v vq vm (s\<lparr>mem := m\<rparr>)"
  by (simp_all add: put_vq_def)

lemma vq_tx_alloc_eq:
  assumes q: "get_vq v s = Some (vq, vm)" and r: "vq_ready ops vq vm" and v: "v \<noteq> NULL"
  shows "vq_tx_alloc ops P cfg v s = Some (case pend ops vq vm of
      [] \<Rightarrow> ((NULL, None), s)
    | (i, l) # xs \<Rightarrow> ((buf_addr P vm i, Some (l, i)), put_vq v (took ops vq) vm s))"
proof -
  have w: "vq_wf vq vm" "vq_idle vq" using r by (simp_all add: vq_ready_def)
  have N: "unat (vq_nentries vq) dvd 65536"
    using w(1) is_pow2_u16_dvd(1) by (simp add: vq_wf_def)
  note triv = put_vq_triv [OF q]
  show ?thesis
  proof (cases ops)
    case Ops_NULL
    then show ?thesis using r by (simp add: vq_ready_def)
  next
    case Master_ops
    let ?e = "us_ring (vm_used vm) ! (unat (vq_used_cons_idx vq) mod unat (vq_nentries vq))"
    show ?thesis
    proof (cases "vq_used_cons_idx vq = us_idx (vm_used vm)")
      case True
      then show ?thesis
        using Master_ops q v triv by (simp add: vq_tx_alloc_master_def virtqueue_get_buffer_def)
    next
      case False
      note d = ring_list_deq [OF N False, of "us_ring (vm_used vm)"]
      then have "ucast (ue_id ?e) < vq_nentries vq"
        using r Master_ops by (simp add: vq_ready_def used_elem_def)
      then show ?thesis
        using Master_ops q v d False virtqueue_get_buffer_eq [OF w refl refl, of "ep_map_patova P" "cfg_vq_debug cfg"]
        by (simp add: vq_tx_alloc_master_def used_elem_def buf_addr_def)
    qed
  next
    case Remote_ops
    let ?i = "av_ring (vm_avail vm) ! (unat (vq_available_idx vq) mod unat (vq_nentries vq))"
    show ?thesis
    proof (cases "vq_available_idx vq = av_idx (vm_avail vm)")
      case True
      then show ?thesis
        using Remote_ops q v triv
        by (simp add: vq_tx_alloc_remote_def virtqueue_get_available_buffer_def)
    next
      case False
      note d = ring_list_deq [OF N False, of "av_ring (vm_avail vm)"]
      then have "?i < vq_nentries vq" using r Remote_ops by (simp add: vq_ready_def)
      then show ?thesis
        using Remote_ops q v d False
          virtqueue_get_available_buffer_eq [OF w refl, of "ep_map_patova P" "cfg_vq_debug cfg"]
        by (simp add: vq_tx_alloc_remote_def buf_addr_def)
    qed
  qed
qed

lemma vq_rx_tx_alloc: "vq_rx ops P cfg v s = vq_tx_alloc ops P cfg v s"
  by (cases ops) (simp_all add: vq_rx_master_def vq_tx_alloc_master_def vq_rx_remote_def vq_tx_alloc_remote_def)

lemma vq_tx_eq:
  assumes "get_vq v s = Some (vq, vm)" "vq_ready ops vq vm" "i < vq_nentries vq"
  shows "vq_tx ops cfg v b l i s =
    Some (put_vq v (fst (put ops (i, l) (vq, vm))) (snd (put ops (i, l) (vq, vm))) s)"
  using assms
  by (cases ops) (simp_all add: vq_ready_def vq_tx_master_def vq_tx_remote_def
      virtqueue_add_buffer_eq virtqueue_add_consumed_buffer_eq)

lemma vq_rx_free_tx:
  "vq_rx_free ops cfg v b l i s =
     vq_tx ops cfg v b l i (if cfg_clear_used cfg then s\<lparr>mem := env_memset b 0 l (mem s)\<rparr> else s)"
  by (cases ops) (simp_all add: vq_rx_free_master_def vq_rx_free_remote_def vq_tx_master_def
      vq_tx_remote_def)

section \<open>Messages in memory\<close>

text \<open>\<open>outside c k b n\<close>: none of the \<open>k\<close> bytes from \<open>c\<close> is one of the \<open>n\<close> bytes from \<open>b\<close>.\<close>

definition outside :: "ptr \<Rightarrow> nat \<Rightarrow> ptr \<Rightarrow> nat \<Rightarrow> bool" where
  "outside c k b n \<longleftrightarrow> (\<forall>j < k. n \<le> unat (c + of_nat j - b))"

text \<open>The message a buffer holds: destination, source and payload.\<close>

definition msg_at :: "memory \<Rightarrow> ptr \<Rightarrow> u32 \<times> u32 \<times> u8 list" where
  "msg_at m b = (load_u32 m (hdr_dst b), load_u32 m (hdr_src b),
     mem_read m (msg_data b) (unat (load_u16 m (hdr_len b))))"

definition same_outside :: "ptr \<Rightarrow> nat \<Rightarrow> memory \<Rightarrow> memory \<Rightarrow> bool" where
  "same_outside b n m m' \<longleftrightarrow> (\<forall>x. n \<le> unat (x - b) \<longrightarrow> m' x = m x)"

lemma same_outside_refl [simp]: "same_outside b n m m"
  by (simp add: same_outside_def)

lemma same_outside_trans:
  "same_outside b n m m' \<Longrightarrow> same_outside b n m' m'' \<Longrightarrow> same_outside b n m m''"
  by (simp add: same_outside_def)

lemma same_outside_mem_write:
  assumes "unat k + length bs \<le> n" "n \<le> 2 ^ 32"
  shows "same_outside b n m (mem_write m (b + k) bs)"
  unfolding same_outside_def
proof (intro allI impI)
  fix x assume x: "n \<le> unat (x - b)"
  then have "unat (x - b - k) = unat (x - b) - unat k"
    using assms by (subst unat_sub) (simp_all add: word_le_nat_alt)
  then have "length bs \<le> unat (x - (b + k))" using assms x by (simp add: diff_diff_eq)
  then show "mem_write m (b + k) bs x = m x" using assms by (intro mem_write_outside) simp_all
qed

lemma same_outside_byte:
  "same_outside b n m m' \<Longrightarrow> outside c k b n \<Longrightarrow> j < k \<Longrightarrow> m' (c + of_nat j) = m (c + of_nat j)"
  by (simp add: same_outside_def outside_def)

definition msg_bytes :: "memory \<Rightarrow> ptr \<Rightarrow> ptr set" where
  "msg_bytes m b = {b + of_nat j | j. j < 16 + unat (load_u16 m (hdr_len b))}"

lemma msg_at_cong:
  assumes "\<forall>x \<in> msg_bytes m c. m' x = m x"
  shows "msg_at m' c = msg_at m c"
proof -
  have e: "m' (c + of_nat j) = m (c + of_nat j)" if "j < 16 + unat (load_u16 m (hdr_len c))" for j
    using assms that by (auto simp: msg_bytes_def)
  have h: "load_u32 m' (hdr_dst c) = load_u32 m (hdr_dst c)"
    "load_u32 m' (hdr_src c) = load_u32 m (hdr_src c)"
    "load_u16 m' (hdr_len c) = load_u16 m (hdr_len c)"
    using e [of 0] e [of 1] e [of 2] e [of 3] e [of 4] e [of 5] e [of 6] e [of 7] e [of 12] e [of 13]
    by (simp_all add: load_u32_def load_u16_def ac_simps)
  moreover have "mem_read m' (msg_data c) (unat (load_u16 m (hdr_len c))) =
      mem_read m (msg_data c) (unat (load_u16 m (hdr_len c)))"
  proof (intro nth_equalityI; simp)
    fix j assume "j < unat (load_u16 m (hdr_len c))"
    then show "m' (c + 16 + word_of_nat j) = m (c + 16 + word_of_nat j)"
      using e [of "16 + j"] by (simp add: ac_simps)
  qed
  ultimately show ?thesis by (simp add: msg_at_def)
qed

lemma same_outside_bytes:
  "same_outside b n m m' \<Longrightarrow> outside c (16 + unat (load_u16 mz (hdr_len c))) b n
    \<Longrightarrow> \<forall>x \<in> msg_bytes mz c. m' x = m x"
  by (auto simp: same_outside_def outside_def msg_bytes_def)

lemma write_hdr_fields:
  "load_u32 (write_hdr b dst src len flags m) (hdr_dst b) = dst"
  "load_u32 (write_hdr b dst src len flags m) (hdr_src b) = src"
  "load_u16 (write_hdr b dst src len flags m) (hdr_len b) = ucast len"
  "load_u16 (write_hdr b dst src len flags m) (hdr_flags b) = ucast flags"
  "load_u16 (write_hdr b dst src len flags m) (hdr_idx b) = load_u16 m (hdr_idx b)"
proof -
  have "ucast (v AND mask 16) = (ucast v :: u16)" for v :: u32
    by (rule bit_word_eqI) (simp add: bit_simps)
  then have h: "ucast (v AND 0xFFFF) = (ucast v :: u16)" for v :: u32
    by (simp add: mask_eq_exp_minus_1)
  note w = write_hdr_def store_u32_def store_u16_def mem_read_def mem_write_apply upt_conv_Cons h
  show "load_u32 (write_hdr b dst src len flags m) (hdr_dst b) = dst"
    by (rule load_u32_bytes) (simp add: w u32_bytes_def)
  show "load_u32 (write_hdr b dst src len flags m) (hdr_src b) = src"
    by (rule load_u32_bytes) (simp add: w u32_bytes_def)
  show "load_u16 (write_hdr b dst src len flags m) (hdr_len b) = ucast len"
    by (rule load_u16_bytes) (simp add: w u16_bytes_def)
  show "load_u16 (write_hdr b dst src len flags m) (hdr_flags b) = ucast flags"
    by (rule load_u16_bytes) (simp add: w u16_bytes_def)
  show "load_u16 (write_hdr b dst src len flags m) (hdr_idx b) = load_u16 m (hdr_idx b)"
    by (simp add: load_u16_def w unsigned_minus_1_eq_mask mask_eq_exp_minus_1)
qed

lemma same_outside_store:
  "same_outside b 16 m m' \<Longrightarrow> unat k \<le> 12 \<Longrightarrow> same_outside b 16 m (store_u32 m' (b + k) v)"
  "same_outside b 16 m m' \<Longrightarrow> unat k \<le> 14 \<Longrightarrow> same_outside b 16 m (store_u16 m' (b + k) w)"
  unfolding store_u32_def store_u16_def
  by (erule same_outside_trans, rule same_outside_mem_write; simp)+

lemma write_hdr_same: "same_outside b 16 m (write_hdr b dst src len flags m)"
  unfolding write_hdr_def
  using same_outside_store(1) [of b m "store_u32 m (b + 4) dst" 0 src]
  by (intro same_outside_store(2)) (simp_all add: same_outside_store)

text \<open>The buffer after a send: header and payload are in place, the rest is as before.\<close>

definition sent_mem :: "ptr \<Rightarrow> u32 \<Rightarrow> u32 \<Rightarrow> ptr \<Rightarrow> u32 \<Rightarrow> memory \<Rightarrow> memory" where
  "sent_mem b dst src data len m = env_memcpy (msg_data b) data len (write_hdr b dst src len 0 m)"

lemma sent_mem_same:
  assumes "16 + unat len \<le> 2 ^ 32"
  shows "same_outside b (16 + unat len) m (sent_mem b dst src data len m)"
proof -
  have "same_outside b (16 + unat len) m (write_hdr b dst src len 0 m)"
    using write_hdr_same by (force simp: same_outside_def)
  then show ?thesis
    unfolding sent_mem_def env_memcpy_def using assms
    by (rule_tac same_outside_trans) (auto intro!: same_outside_mem_write)
qed

lemma sent_mem_msg:
  assumes "unat len \<le> 0xFFFF" "outside data (unat len) b 16"
  shows "msg_at (sent_mem b dst src data len m) b = (dst, src, mem_read m data (unat len))"
proof -
  let ?h = "write_hdr b dst src len 0 m"
  have l: "unat (ucast len :: u16) = unat len" using assms(1) by (simp add: unsigned_ucast_eq take_bit_nat_eq_self)
  have d: "mem_read ?h data (unat len) = mem_read m data (unat len)"
    using same_outside_byte [OF write_hdr_same assms(2)]
    by (intro nth_equalityI) simp_all
  have keep: "sent_mem b dst src data len m (b + k) = ?h (b + k)" if "unat k < 16" for k
  proof -
    have "2 ^ 32 - 16 \<le> unat (k - 16)" using that by (simp add: unat_sub_if')
    then have "unat len \<le> unat (b + k - (b + 16))" using assms(1) by simp
    then show ?thesis
      using assms(1) by (simp add: sent_mem_def env_memcpy_def mem_write_outside)
  qed
  have p: "mem_read (sent_mem b dst src data len m) (msg_data b) (unat len) = mem_read m data (unat len)"
    using mem_read_write_same [of "mem_read ?h data (unat len)" ?h "msg_data b"] assms(1) d
    by (simp add: sent_mem_def env_memcpy_def)
  have "load_u32 (sent_mem b dst src data len m) (hdr_dst b) = load_u32 ?h (hdr_dst b)"
    "load_u32 (sent_mem b dst src data len m) (hdr_src b) = load_u32 ?h (hdr_src b)"
    "load_u16 (sent_mem b dst src data len m) (hdr_len b) = load_u16 ?h (hdr_len b)"
    using keep [of 0] by (simp_all add: load_u32_def load_u16_def keep add.assoc)
  then show ?thesis using l p by (simp add: msg_at_def write_hdr_fields)
qed

section \<open>What the other side sees\<close>

text \<open>The role at the other end of a queue.\<close>

fun peer_ops :: "vq_ops \<Rightarrow> vq_ops" where
  "peer_ops Ops_NULL = Ops_NULL"
| "peer_ops Master_ops = Remote_ops"
| "peer_ops Remote_ops = Master_ops"

text \<open>The length the peer reads: the descriptor's for the remote, the used element's for the master.\<close>

fun peer_len :: "vq_ops \<Rightarrow> vring_mem \<Rightarrow> u16 \<times> u32 \<Rightarrow> u32" where
  "peer_len Remote_ops vm x = snd x"
| "peer_len ops vm x = d_len (vm_desc vm ! unat (fst x))"

definition has_room :: "vq_ops \<Rightarrow> virtqueue \<Rightarrow> vring_mem \<Rightarrow> bool" where
  "has_room ops pq vm \<longleftrightarrow> length (pend ops pq vm) < unat (vq_nentries pq)"

lemma pend_peer_put:
  assumes w: "vq_wf vq vm" and n: "vq_nentries pq = vq_nentries vq"
    and o: "ops \<noteq> Ops_NULL" and room: "has_room (peer_ops ops) pq vm"
  shows "pend (peer_ops ops) pq (snd (put ops x (vq, vm))) =
    pend (peer_ops ops) pq vm @ [(fst x, peer_len ops vm x)]"
proof -
  have N: "unat (vq_nentries vq) dvd 65536" "unat (vq_nentries vq) \<le> 32768"
    using w is_pow2_u16_dvd [of "vq_nentries vq"] by (simp_all add: vq_wf_def)
  note l = vq_wf_lengths [OF w]
  show ?thesis
  proof (cases ops)
    case Ops_NULL
    then show ?thesis using o by simp
  next
    case Master_ops
    then have "unat (av_idx (vm_avail vm) - vq_available_idx pq) < unat (vq_nentries vq)"
      using room n by (simp add: has_room_def)
    from ring_list_enq [OF N(1) l(4) N(2) _ this, of "av_ring (vm_avail vm)" "fst x"] show ?thesis
      using Master_ops n l(2) by (simp add: avail_push_def)
  next
    case Remote_ops
    then have "unat (us_idx (vm_used vm) - vq_used_cons_idx pq) < unat (vq_nentries vq)"
      using room n by (simp add: has_room_def)
    from ring_list_enq [OF N(1) l(4) N(2) _ this, of "us_ring (vm_used vm)"
        "\<lparr>ue_id = ucast (fst x), ue_len = snd x\<rparr>"] show ?thesis
      using Remote_ops n l(3) by (cases x) (simp add: used_push_def)
  qed
qed

section \<open>A vring with two buffers\<close>

text \<open>
  The concrete vring of the witnesses: at \<open>0x8000\<close>, with buffers of 512 bytes at \<open>0x1000\<close> and
  \<open>0x1200\<close> that the master has put on the used ring (its transmit queue after initialisation).
\<close>

abbreviation (input) ex_info :: vring_alloc_info where
  "ex_info \<equiv> \<lparr>phy_addr = 0x8000, ring_align = 16, num_descs = 2\<rparr>"

definition ex_vq :: "ptr \<Rightarrow> virtqueue" where
  "ex_vq dev = virtqueue_setup 0 ''vq'' ex_info Fn_NULL Fn_virtqueue_notify\<lparr>vq_priv := dev\<rparr>"

definition ex_vm :: vring_mem where
  "ex_vm = \<lparr>vm_desc = [\<lparr>d_addr = 0x1000, d_len = 512, d_flags = 2, d_next = 1\<rparr>,
       \<lparr>d_addr = 0x1200, d_len = 512, d_flags = 2, d_next = 0\<rparr>],
     vm_avail = \<lparr>av_flags = 0, av_idx = 0, av_ring = [0, 0, 0]\<rparr>,
     vm_used = \<lparr>us_flags = 0, us_idx = 2,
       us_ring = [\<lparr>ue_id = 0, ue_len = 512\<rparr>, \<lparr>ue_id = 1, ue_len = 512\<rparr>, \<lparr>ue_id = 0, ue_len = 0\<rparr>]\<rparr>\<rparr>"

definition cfg_ex :: rl_config where
  "cfg_ex = \<lparr>cfg_vq_debug = True, cfg_clear_used = False, cfg_consumed_notification = False,
     cfg_debug_check = True,
     cfg_shmem = \<lparr>buffer_payload_size = 496, buffer_count = 2, cfg_vring_size = 0x400,
       cfg_vring_align = 16\<rparr>,
     cfg_custom = None, cfg_highest_link = 1, cfg_interval = 1\<rparr>"

lemma ex_vq_simps [simp]:
  "vq_nentries (ex_vq dev) = 2" "vq_idle (ex_vq dev)" "vq_priv (ex_vq dev) = dev"
  "vr_desc (vq_ring (ex_vq dev)) = 0x8000" "vq_flags (ex_vq dev) = 0"
  "notify_fc (ex_vq dev) = Fn_virtqueue_notify"
  "vq_used_cons_idx (ex_vq dev) = 0" "vq_available_idx (ex_vq dev) = 0"
  by (simp_all add: ex_vq_def vq_idle_def virtqueue_setup_def virtqueue_zero_def vring_init_def)

lemma ex_pend [simp]:
  "pend Master_ops (ex_vq dev) ex_vm = [(0, 512), (1, 512)]" "pend Remote_ops (ex_vq dev) ex_vm = []"
  by (simp_all add: ex_vm_def ring_list_def used_elem_def upt_conv_Cons)

lemma ex_wf [simp]: "vq_wf (ex_vq dev) ex_vm"
  by (simp add: vq_wf_def is_pow2_def ex_vm_def vring_mem_wf_def ex_vq_def virtqueue_setup_def
      virtqueue_zero_def vring_init_def)

lemma ex_ready [simp]: "vq_ready Master_ops (ex_vq dev) ex_vm" "vq_ready Remote_ops (ex_vq dev) ex_vm"
  by (simp_all add: vq_ready_def del: pend.simps)

lemma ex_desc [simp]: "d_addr (vm_desc ex_vm ! 0) = 0x1000" "d_addr (vm_desc ex_vm ! 1) = 0x1200"
  "d_addr (vm_desc ex_vm ! Suc 0) = 0x1200" "d_len (vm_desc ex_vm ! 0) = 512"
  "d_len (vm_desc ex_vm ! Suc 0) = 512"
  by (simp_all add: ex_vm_def)

lemma ex_addr [simp]: "buf_addr (bm_port side_a) ex_vm 0 = 0x1000"
  "buf_addr (bm_port side_a) ex_vm 1 = 0x1200"
  by (simp_all add: buf_addr_def bm_port_def env_map_patova_def platform_patova_def)

text \<open>A master with this queue as its transmit queue, and its endpoint 30; memory is the identity.\<close>

definition ex_inst :: rpmsg_lite_instance where
  "ex_inst = instance_zero\<lparr>tvq := 48, dev_ops := Master_ops, link_state := 1, dev_lock := 20\<rparr>"

definition ex_master :: "bm_env rl_state" where
  "ex_master = \<lparr>insts = [8 \<mapsto> ex_inst], vqs = [48 \<mapsto> ex_vq 8], vrings = [0x8000 \<mapsto> ex_vm],
     llnodes = Map.empty,
     epts = [32 \<mapsto> \<lparr>ept_addr = 30, rx_cb = Fn_app 0, rx_cb_data = 0, ept_rfu = 0\<rparr>],
     mem = (\<lambda>a. ucast a), hp = \<lparr>hp_next = [], hp_live = [8]\<rparr>, env = bm_reset\<rparr>"

lemma ex_master_simps [simp]:
  "insts ex_master 8 = Some ex_inst" "get_vq 48 ex_master = Some (ex_vq 8, ex_vm)"
  "tvq ex_inst = 48" "dev_ops ex_inst = Master_ops" "link_state ex_inst = 1" "link_id ex_inst = 0"
  "epts ex_master 32 = Some \<lparr>ept_addr = 30, rx_cb = Fn_app 0, rx_cb_data = 0, ept_rfu = 0\<rparr>"
  "buffer_payload_size (link_shmem cfg_ex l) = 496" "\<not> cfg_clear_used cfg_ex"
  "\<not> cfg_consumed_notification cfg_ex" "cfg_interval cfg_ex = 1"
  by (simp_all add: ex_master_def ex_inst_def instance_zero_def get_vq_def cfg_ex_def link_shmem_def)

end
