(* ===== verification/Rpmsg_Send.thy ===== *)
theory Rpmsg_Send
  imports Rpmsg_Transfer
begin

text \<open>
  Sending a copy of a message: the effect of \<open>rpmsg_lite_send\<close> for both roles, its error returns,
  and the polling for a free buffer when a timeout is given.
\<close>

section \<open>Sending\<close>

text \<open>The instance can send: its transmit queue is ready and its buffers have addresses.\<close>

definition tx_ready :: "'e env_port \<Rightarrow> ptr \<Rightarrow> rpmsg_lite_instance \<Rightarrow> 'e rl_state \<Rightarrow> bool" where
  "tx_ready P dev i s \<longleftrightarrow> insts s dev = Some i \<and> tvq i \<noteq> NULL
     \<and> (\<exists>vq vm. get_vq (tvq i) s = Some (vq, vm) \<and> vq_ready (dev_ops i) vq vm
          \<and> (\<forall>x \<in> set (pend (dev_ops i) vq vm). buf_addr P vm (fst x) \<noteq> NULL))"

text \<open>The buffers it can send in.\<close>

definition tx_bufs :: "rpmsg_lite_instance \<Rightarrow> 'e rl_state \<Rightarrow> (u16 \<times> u32) list" where
  "tx_bufs i s = (case get_vq (tvq i) s of None \<Rightarrow> [] | Some (vq, vm) \<Rightarrow> pend (dev_ops i) vq vm)"

text \<open>The transmit queue and its vring after a buffer was taken, put on the other ring and announced.\<close>

definition sent_vq :: "vq_ops \<Rightarrow> u16 \<times> u32 \<Rightarrow> virtqueue \<Rightarrow> vring_mem \<Rightarrow> virtqueue" where
  "sent_vq ops x vq vm = (fst (put ops x (vq, vm)))\<lparr>vq_queued_cnt := 0\<rparr>"

definition sent_vring :: "vq_ops \<Rightarrow> u16 \<times> u32 \<Rightarrow> virtqueue \<Rightarrow> vring_mem \<Rightarrow> vring_mem" where
  "sent_vring ops x vq vm = snd (put ops x (vq, vm))"

lemma pend_queued_cnt [simp]: "pend ops (vq\<lparr>vq_queued_cnt := c\<rparr>) vm = pend ops vq vm"
  by (cases ops) simp_all

lemma vq_ready_queued_cnt [simp]: "vq_ready ops (vq\<lparr>vq_queued_cnt := c\<rparr>) vm = vq_ready ops vq vm"
  by (simp add: vq_ready_def)

lemma sent_vq_simps [simp]:
  "pend ops (sent_vq ops x vq vm) (sent_vring ops x vq vm) = pend ops vq vm"
  "vq_ready ops (sent_vq ops x vq vm) (sent_vring ops x vq vm) = vq_ready ops vq vm"
  "vq_nentries (sent_vq ops x vq vm) = vq_nentries vq" "vq_ring (sent_vq ops x vq vm) = vq_ring vq"
  "vm_desc (sent_vring ops x vq vm) = vm_desc vm"
  "vq_queued_cnt (sent_vq ops x vq vm) = 0"
  by (simp_all add: sent_vq_def sent_vring_def)

lemma vq_kick_eq:
  assumes "get_vq v s = Some (vq, vm)" "vq_ready ops vq vm"
  shows "vq_kick P cfg v s =
    map_option (\<lambda>e. put_vq v (vq\<lparr>vq_queued_cnt := 0\<rparr>) vm (s\<lparr>env := e\<rparr>))
      (if us_flags (vm_used vm) AND VRING_USED_F_NO_NOTIFY = 0
       then ep_notify P (ucast (vq_queue_index vq)) (env s) else Some (env s))"
proof -
  have i: "vq_idle vq" "vq_flags vq = 0" "notify_fc vq = Fn_virtqueue_notify"
    using assms(2) by (simp_all add: vq_ready_def)
  then show ?thesis
    using virtqueue_kick_spec [OF i(1,2) i(1,2)] assms(1)
    by (simp add: vq_kick_def virtqueue_notify_def map_option_case split: option.split)
qed

context env_locks
begin

lemma vq_kick_ok:
  assumes "get_vq v s = Some (vq, vm)" "vq_ready ops vq vm"
  shows "held l (env s) \<Longrightarrow> \<exists>e. held l e \<and>
      vq_kick P cfg v s = Some (put_vq v (vq\<lparr>vq_queued_cnt := 0\<rparr>) vm (s\<lparr>env := e\<rparr>))"
    and "free l (env s) \<Longrightarrow> \<exists>e. free l e \<and>
      vq_kick P cfg v s = Some (put_vq v (vq\<lparr>vq_queued_cnt := 0\<rparr>) vm (s\<lparr>env := e\<rparr>))"
  using notify_held [of l "env s" "ucast (vq_queue_index vq)"]
    notify_free [of l "env s" "ucast (vq_queue_index vq)"]
  by (auto simp: vq_kick_eq [OF assms])

text \<open>Taking and handing over a buffer with the lock of the instance.\<close>

lemma tx_alloc_locked_ok:
  assumes i: "insts s dev = Some i" and fr: "free (dev_lock i) (env s)" and t: "tvq i \<noteq> NULL"
    and q: "get_vq (tvq i) s = Some (vq, vm)" and r: "vq_ready (dev_ops i) vq vm"
  shows "\<exists>e. free (dev_lock i) e \<and> tx_alloc_locked P cfg dev s = Some (case pend (dev_ops i) vq vm of
      [] \<Rightarrow> ((NULL, None), s\<lparr>env := e\<rparr>)
    | (idx, l) # xs \<Rightarrow> ((buf_addr P vm idx, Some (l, idx)),
        put_vq (tvq i) (took (dev_ops i) vq) vm (s\<lparr>env := e\<rparr>)))"
proof -
  obtain e1 where e1: "lock_mutex P (dev_lock i) s = Some (s\<lparr>env := e1\<rparr>)" "held (dev_lock i) e1"
    using lock_mutex_ok [OF fr] by blast
  obtain e2 where e2: "free (dev_lock i) e2"
      "\<And>t. env t = e1 \<Longrightarrow> unlock_mutex P (dev_lock i) t = Some (t\<lparr>env := e2\<rparr>)"
    using unlock_held [OF e1(2)] by (auto simp: unlock_mutex_def)
  have "get_vq (tvq i) (s\<lparr>env := e1\<rparr>) = Some (vq, vm)" using q by simp
  note a = vq_tx_alloc_eq [OF this r t, of P cfg]
  show ?thesis
    using i e1(1) e2 by (intro exI [of _ e2]) (simp add: tx_alloc_locked_def a split: list.split)
qed

lemma tx_submit_locked_ok:
  assumes i: "insts s dev = Some i" and fr: "free (dev_lock i) (env s)"
    and q: "get_vq (tvq i) s = Some (vq, vm)" and r: "vq_ready (dev_ops i) vq vm"
    and idx: "idx < vq_nentries vq"
  shows "\<exists>e. free (dev_lock i) e \<and> tx_submit_locked P cfg dev b l idx s =
    Some (put_vq (tvq i) (sent_vq (dev_ops i) (idx, l) vq vm) (sent_vring (dev_ops i) (idx, l) vq vm)
      (s\<lparr>env := e\<rparr>))"
proof -
  obtain e1 where e1: "lock_mutex P (dev_lock i) s = Some (s\<lparr>env := e1\<rparr>)" "held (dev_lock i) e1"
    using lock_mutex_ok [OF fr] by blast
  let ?q = "put (dev_ops i) (idx, l) (vq, vm)"
  let ?s = "put_vq (tvq i) (fst ?q) (snd ?q) (s\<lparr>env := e1\<rparr>)"
  have "get_vq (tvq i) (s\<lparr>env := e1\<rparr>) = Some (vq, vm)" using q by simp
  note tx = vq_tx_eq [OF this r idx, of cfg b l]
  have "vq_ready (dev_ops i) (fst ?q) (snd ?q)" using r by simp
  from vq_kick_ok(1) [where s = ?s and v = "tvq i" and cfg = cfg and l = "dev_lock i", OF get_vq_put this] e1(2)
  obtain e2 where e2: "held (dev_lock i) e2" "vq_kick P cfg (tvq i) ?s = Some (put_vq (tvq i)
      ((fst ?q)\<lparr>vq_queued_cnt := 0\<rparr>) (snd ?q) (?s\<lparr>env := e2\<rparr>))" by auto
  obtain e3 where e3: "free (dev_lock i) e3"
      "\<And>t. env t = e2 \<Longrightarrow> unlock_mutex P (dev_lock i) t = Some (t\<lparr>env := e3\<rparr>)"
    using unlock_held [OF e2(1)] by (auto simp: unlock_mutex_def)
  show ?thesis
    using i e1(1) e2(2) e3 tx
    by (intro exI [of _ e3]) (simp add: tx_submit_locked_def sent_vq_def sent_vring_def)
qed

text \<open>The state after a send in the buffer \<open>x\<close> (index and length).\<close>

lemma send_ok:
  assumes rdy: "tx_ready P dev i s" and fr: "free (dev_lock i) (env s)" and up: "link_state i = 1"
    and q: "get_vq (tvq i) s = Some (vq, vm)" and x: "pend (dev_ops i) vq vm = (idx, l) # xs"
    and args: "ept \<noteq> NULL" "dev \<noteq> NULL" "data \<noteq> NULL" "epts s ept = Some e"
      "len \<le> buffer_payload_size (link_shmem cfg (link_id i))"
  shows "\<exists>e'. free (dev_lock i) e' \<and> rpmsg_lite_send P cfg world dev ept dst data len timeout s =
    Some (RL_SUCCESS, put_vq (tvq i) (sent_vq (dev_ops i) (idx, l) (took (dev_ops i) vq) vm)
      (sent_vring (dev_ops i) (idx, l) (took (dev_ops i) vq) vm)
      (s\<lparr>mem := sent_mem (buf_addr P vm idx) dst (ept_addr e) data len (mem s), env := e'\<rparr>))"
proof -
  have r: "insts s dev = Some i" "tvq i \<noteq> NULL" "vq_ready (dev_ops i) vq vm"
    "buf_addr P vm idx \<noteq> NULL"
    using rdy q x by (auto simp: tx_ready_def)
  have idx: "idx < vq_nentries (took (dev_ops i) vq)"
    using r(3) x by (auto simp: vq_ready_def)
  obtain e1 where e1: "free (dev_lock i) e1" "tx_alloc_locked P cfg dev s =
      Some ((buf_addr P vm idx, Some (l, idx)), put_vq (tvq i) (took (dev_ops i) vq) vm (s\<lparr>env := e1\<rparr>))"
    using tx_alloc_locked_ok [OF r(1) fr r(2) q r(3), of cfg] x by auto
  let ?m = "sent_mem (buf_addr P vm idx) dst (ept_addr e) data len (mem s)"
  let ?s = "put_vq (tvq i) (took (dev_ops i) vq) vm (s\<lparr>env := e1, mem := ?m\<rparr>)"
  have "insts ?s dev = Some i" "free (dev_lock i) (env ?s)" using r e1(1) by simp_all
  from tx_submit_locked_ok [OF this get_vq_put vq_ready_took [OF r(3) x] idx,
      of cfg "buf_addr P vm idx" l] obtain e2 where
    e2: "free (dev_lock i) e2" "tx_submit_locked P cfg dev (buf_addr P vm idx) l idx ?s =
      Some (put_vq (tvq i) (sent_vq (dev_ops i) (idx, l) (took (dev_ops i) vq) vm)
      (sent_vring (dev_ops i) (idx, l) (took (dev_ops i) vq) vm) (?s\<lparr>env := e2\<rparr>))" by blast
  have "tx_alloc_timeout P cfg world dev timeout s =
      Some ((buf_addr P vm idx, Some (l, idx)), put_vq (tvq i) (took (dev_ops i) vq) vm (s\<lparr>env := e1\<rparr>))"
    using e1(2) r(4) by (simp add: tx_alloc_timeout_def)
  then have "rpmsg_lite_format_message P cfg world dev (ept_addr e) dst data len 0 timeout s =
      do { s \<leftarrow> tx_submit_locked P cfg dev (buf_addr P vm idx) l idx ?s; Some (RL_SUCCESS, s) }"
    using args(3) r(1,4) up by (simp add: rpmsg_lite_format_message_def sent_mem_def Let_def)
  then have "rpmsg_lite_send P cfg world dev ept dst data len timeout s =
      do { s \<leftarrow> tx_submit_locked P cfg dev (buf_addr P vm idx) l idx ?s; Some (RL_SUCCESS, s) }"
    using args(1,2,4) r(1) linorder_not_less [THEN iffD2, OF args(5)] by (simp add: rpmsg_lite_send_def)
  then show ?thesis
    using e2 by (intro exI [of _ e2]) simp
qed

end

lemma get_vq_buf: "tx_bufs i s = x # xs \<Longrightarrow> \<exists>vq vm. get_vq (tvq i) s = Some (vq, vm) \<and> pend (dev_ops i) vq vm = x # xs"
  by (auto simp: tx_bufs_def split: option.splits)

text \<open>
  C10: \<open>rpmsg_lite_send\<close> with a free buffer: it succeeds without waiting, takes the oldest free buffer,
  writes the header and the payload into it and nothing else into memory, hands exactly this buffer to
  the peer, behind what the peer has not yet taken, and leaves the instance ready for the next
  call. It is proved for both roles.
\<close>

theorem send_correct:
  assumes "tx_ready (bm_port side_a) dev i s" "link_state i = 1"
    and "get_vq (tvq i) s = Some (vq, vm)" "pend (dev_ops i) vq vm = (idx, l) # xs"
    and "ept \<noteq> NULL" "dev \<noteq> NULL" "data \<noteq> NULL" "epts s ept = Some e"
    and "len \<le> buffer_payload_size (link_shmem cfg (link_id i))"
    and "unat len \<le> 0xFFFF" "outside data (unat len) (buf_addr (bm_port side_a) vm idx) 16"
    and "vq_nentries pq = vq_nentries vq" "has_room (peer_ops (dev_ops i)) pq vm"
  shows "\<exists>s' vq' vm'. rpmsg_lite_send (bm_port side_a) cfg world dev ept dst data len timeout s =
      Some (RL_SUCCESS, s')
    \<and> msg_at (mem s') (buf_addr (bm_port side_a) vm idx) =
        (dst, ept_addr e, mem_read (mem s) data (unat len))
    \<and> same_outside (buf_addr (bm_port side_a) vm idx) (16 + unat len) (mem s) (mem s')
    \<and> get_vq (tvq i) s' = Some (vq', vm') \<and> pend (dev_ops i) vq' vm' = xs
    \<and> vm_desc vm' = vm_desc vm
    \<and> pend (peer_ops (dev_ops i)) pq vm' =
        pend (peer_ops (dev_ops i)) pq vm @ [(idx, peer_len (dev_ops i) vm (idx, l))]
    \<and> tx_ready (bm_port side_a) dev i s'"
proof -
  have r: "vq_ready (dev_ops i) vq vm" "dev_ops i \<noteq> Ops_NULL" "vq_wf vq vm"
    using assms(1,3) by (auto simp: tx_ready_def vq_ready_def)
  have rd: "tvq i \<noteq> NULL" "insts s dev = Some i"
    "\<forall>x \<in> set xs. buf_addr (bm_port side_a) vm (fst x) \<noteq> NULL"
    using assms(1,3,4) by (auto simp: tx_ready_def)
  obtain e' where s: "rpmsg_lite_send (bm_port side_a) cfg world dev ept dst data len timeout s =
    Some (RL_SUCCESS, put_vq (tvq i) (sent_vq (dev_ops i) (idx, l) (took (dev_ops i) vq) vm)
      (sent_vring (dev_ops i) (idx, l) (took (dev_ops i) vq) vm)
      (s\<lparr>mem := sent_mem (buf_addr (bm_port side_a) vm idx) dst (ept_addr e) data len (mem s), env := e'\<rparr>))"
    using bm.send_ok [OF assms(1) TrueI assms(2,3,4,5,6,7,8,9)] by blast
  have p: "pend (peer_ops (dev_ops i)) pq (sent_vring (dev_ops i) (idx, l) (took (dev_ops i) vq) vm) =
      pend (peer_ops (dev_ops i)) pq vm @ [(idx, peer_len (dev_ops i) vm (idx, l))]"
    using pend_peer_put [of "took (dev_ops i) vq" vm pq "dev_ops i" "(idx, l)"] assms(12,13) r(2,3)
    by (simp add: sent_vring_def)
  show ?thesis
    unfolding s using assms(10,11) rd p r vq_ready_took [OF r(1) assms(4)] pend_took [OF r(3) assms(4)]
    by (intro exI conjI) (auto simp: sent_mem_msg sent_mem_same tx_ready_def buf_addr_def)
qed

lemma bm_alloc_locked:
  assumes "tx_ready (bm_port side_a) dev i s"
  shows "tx_bufs i s = [] \<Longrightarrow> tx_alloc_locked (bm_port side_a) cfg dev s = Some ((NULL, None), s)"
    and "tx_bufs i s \<noteq> [] \<Longrightarrow> \<exists>b s'. tx_alloc_locked (bm_port side_a) cfg dev s = Some (b, s') \<and> fst b \<noteq> NULL"
proof -
  obtain vq vm where q: "insts s dev = Some i" "tvq i \<noteq> NULL" "get_vq (tvq i) s = Some (vq, vm)"
    "vq_ready (dev_ops i) vq vm"
    "\<forall>x \<in> set (pend (dev_ops i) vq vm). buf_addr (bm_port side_a) vm (fst x) \<noteq> NULL"
    using assms by (auto simp: tx_ready_def)
  have l: "lock_mutex (bm_port side_a) l' t = Some t" "unlock_mutex (bm_port side_a) l' t = Some t" for l' t
    by (simp_all add: lock_mutex_def unlock_mutex_def bm_port_def env_lock_mutex_def env_unlock_mutex_def)
  note a = vq_tx_alloc_eq [OF q(3,4,2), of "bm_port side_a" cfg]
  have p: "tx_bufs i s = pend (dev_ops i) vq vm" using q(3) by (simp add: tx_bufs_def)
  show "tx_alloc_locked (bm_port side_a) cfg dev s = Some ((NULL, None), s)" if "tx_bufs i s = []"
    using that p q(1) by (simp add: tx_alloc_locked_def l a)
  show "\<exists>b s'. tx_alloc_locked (bm_port side_a) cfg dev s = Some (b, s') \<and> fst b \<noteq> NULL"
    if "tx_bufs i s \<noteq> []"
    using that p q(1,5) by (cases "pend (dev_ops i) vq vm") (auto simp: tx_alloc_locked_def l a)
qed

section \<open>Sending with a timeout\<close>

lemma funpow_Suc2: "(f ^^ Suc j) x = (f ^^ j) (f x)"
  by (simp add: funpow_swap1)

lemma tx_poll_loop_spec:
  fixes t timeout :: u32
  assumes w: "\<And>s. tx_ready (bm_port side_a) dev i s \<Longrightarrow> tx_ready (bm_port side_a) dev i (world s)"
    and iv: "0 < cfg_interval cfg" "unat timeout + unat (cfg_interval cfg) \<le> 2 ^ 32"
    and r: "tx_ready (bm_port side_a) dev i s" and t: "unat t < unat timeout"
  shows "\<exists>j. (\<forall>k < j. tx_bufs i ((world ^^ Suc k) s) = [])
    \<and> (j = 0 \<or> unat t + j * unat (cfg_interval cfg) < unat timeout)
    \<and> (tx_bufs i ((world ^^ Suc j) s) = [] \<longrightarrow> unat timeout \<le> unat t + Suc j * unat (cfg_interval cfg))
    \<and> tx_poll_loop (bm_port side_a) cfg world dev timeout t s =
        tx_alloc_timeout (bm_port side_a) cfg world dev 0 ((world ^^ Suc j) s)"
  using r t
proof (induction "unat timeout - unat t" arbitrary: t s rule: less_induct)
  case less
  let ?iv = "unat (cfg_interval cfg)"
  have rw: "tx_ready (bm_port side_a) dev i (world s)" using less.prems(1) by (rule w)
  have u: "unat (t + cfg_interval cfg) = unat t + ?iv"
    using less.prems(2) iv(2) by (simp add: unat_word_ariths)
  show ?case
  proof (cases "tx_bufs i (world s) = [] \<and> unat t + ?iv < unat timeout")
    case True
    have "0 < ?iv" using iv(1) by (simp add: word_gt_0 unat_gt_0)
    then have "unat timeout - unat (t + cfg_interval cfg) < unat timeout - unat t"
      using u less.prems(2) by linarith
    from less.hyps [OF this rw] True u obtain j where
      j: "\<forall>k < j. tx_bufs i ((world ^^ Suc k) (world s)) = []"
        "j = 0 \<or> unat t + ?iv + j * ?iv < unat timeout"
        "tx_bufs i ((world ^^ Suc j) (world s)) = [] \<longrightarrow> unat timeout \<le> unat t + ?iv + Suc j * ?iv"
        "tx_poll_loop (bm_port side_a) cfg world dev timeout (t + cfg_interval cfg) (world s) =
          tx_alloc_timeout (bm_port side_a) cfg world dev 0 ((world ^^ Suc j) (world s))"
      by auto
    have "tx_poll_loop (bm_port side_a) cfg world dev timeout t s =
        tx_poll_loop (bm_port side_a) cfg world dev timeout (t + cfg_interval cfg) (world s)"
      using True bm_alloc_locked(1) [OF rw, of cfg] u
      by (subst tx_poll_loop.simps) (simp add: Let_def word_le_nat_alt)
    moreover have "tx_bufs i ((world ^^ Suc k) s) = []" if "k < Suc j" for k
      using that j(1) True by (cases k) (simp_all add: funpow_Suc2 del: funpow.simps)
    ultimately show ?thesis
      using j True by (intro exI [of _ "Suc j"]) (auto simp: funpow_Suc2 [of _ world] algebra_simps simp del: funpow.simps)
  next
    case False
    have "tx_poll_loop (bm_port side_a) cfg world dev timeout t s =
        tx_alloc_timeout (bm_port side_a) cfg world dev 0 (world s)"
    proof (cases "tx_bufs i (world s) = []")
      case True
      then show ?thesis
        using False u bm_alloc_locked(1) [OF rw, of cfg]
        by (subst tx_poll_loop.simps) (simp add: tx_alloc_timeout_def Let_def word_le_nat_alt)
    next
      case some_buf: False
      then obtain b s' where "tx_alloc_locked (bm_port side_a) cfg dev (world s) = Some (b, s')"
          "fst b \<noteq> NULL"
        using bm_alloc_locked(2) [OF rw, of cfg] by blast
      then show ?thesis
        by (subst tx_poll_loop.simps) (simp add: tx_alloc_timeout_def Let_def)
    qed
    then show ?thesis using False by (intro exI [of _ 0]) auto
  qed
qed

text \<open>A send with a timeout is the send without waiting at some poll.\<close>

lemma send_polls:
  fixes timeout :: u32
  assumes r: "tx_ready (bm_port side_a) dev i s" and e: "epts s ept = Some e"
    and w: "\<And>s. tx_ready (bm_port side_a) dev i s \<Longrightarrow> tx_ready (bm_port side_a) dev i (world s)"
    and we: "\<And>s. epts (world s) = epts s"
    and iv: "0 < cfg_interval cfg" "unat timeout + unat (cfg_interval cfg) \<le> 2 ^ 32"
  shows "\<exists>j. (\<forall>k < j. tx_bufs i ((world ^^ k) s) = [])
    \<and> (j = 0 \<or> (j - 1) * unat (cfg_interval cfg) < unat timeout)
    \<and> (tx_bufs i ((world ^^ j) s) = [] \<longrightarrow> unat timeout \<le> j * unat (cfg_interval cfg))
    \<and> (ept \<noteq> NULL \<and> dev \<noteq> NULL \<and> data \<noteq> NULL \<and> link_state i = 1
         \<and> len \<le> buffer_payload_size (link_shmem cfg (link_id i)) \<longrightarrow>
       rpmsg_lite_send (bm_port side_a) cfg world dev ept dst data len timeout s =
         rpmsg_lite_send (bm_port side_a) cfg world dev ept dst data len 0 ((world ^^ j) s))"
proof -
  let ?P = "bm_port side_a"
  have rj: "tx_ready ?P dev i ((world ^^ j) s)" "epts ((world ^^ j) s) = epts s" for j
    by (induction j) (use r w we in simp_all)
  have send: "rpmsg_lite_send ?P cfg world dev ept dst data len timeout s =
      rpmsg_lite_send ?P cfg world dev ept dst data len 0 ((world ^^ j) s)"
    if "tx_alloc_timeout ?P cfg world dev timeout s = tx_alloc_timeout ?P cfg world dev 0 ((world ^^ j) s)"
      "ept \<noteq> NULL \<and> dev \<noteq> NULL \<and> data \<noteq> NULL \<and> link_state i = 1
         \<and> len \<le> buffer_payload_size (link_shmem cfg (link_id i))" for j
  proof -
    have "insts s dev = Some i" "insts ((world ^^ j) s) dev = Some i"
      using r rj(1) [of j] by (simp_all add: tx_ready_def)
    then show ?thesis
      using that e rj(2) [of j] linorder_not_less [THEN iffD2, of len "buffer_payload_size (link_shmem cfg (link_id i))"]
      by (simp add: rpmsg_lite_send_def rpmsg_lite_format_message_def)
  qed
  show ?thesis
  proof (cases "tx_bufs i s = [] \<and> timeout \<noteq> 0")
    case False
    have "tx_alloc_timeout ?P cfg world dev timeout s = tx_alloc_timeout ?P cfg world dev 0 s"
      using False bm_alloc_locked(2) [OF r, of cfg] by (auto simp: tx_alloc_timeout_def)
    then show ?thesis using False send [of 0] by (intro exI [of _ 0]) auto
  next
    case True
    then have "unat (0 :: u32) < unat timeout" by (simp add: unat_gt_0)
    from tx_poll_loop_spec [where world = world and cfg = cfg, OF w iv r this] obtain j where
      j: "\<forall>k < j. tx_bufs i ((world ^^ Suc k) s) = []"
        "j = 0 \<or> j * unat (cfg_interval cfg) < unat timeout"
        "tx_bufs i ((world ^^ Suc j) s) = [] \<longrightarrow> unat timeout \<le> Suc j * unat (cfg_interval cfg)"
        "tx_poll_loop ?P cfg world dev timeout 0 s = tx_alloc_timeout ?P cfg world dev 0 ((world ^^ Suc j) s)"
      by auto
    have "tx_alloc_timeout ?P cfg world dev timeout s = tx_poll_loop ?P cfg world dev timeout 0 s"
      using True bm_alloc_locked(1) [OF r, of cfg] by (simp add: tx_alloc_timeout_def)
    with j(4) send [of "Suc j"] have "ept \<noteq> NULL \<and> dev \<noteq> NULL \<and> data \<noteq> NULL \<and> link_state i = 1
         \<and> len \<le> buffer_payload_size (link_shmem cfg (link_id i)) \<longrightarrow>
       rpmsg_lite_send ?P cfg world dev ept dst data len timeout s =
         rpmsg_lite_send ?P cfg world dev ept dst data len 0 ((world ^^ Suc j) s)" by simp
    moreover have "tx_bufs i ((world ^^ k) s) = []" if "k < Suc j" for k
      using that j(1) True by (cases k) auto
    ultimately show ?thesis
      using j(2,3) True by (intro exI [of _ "Suc j"]) (auto simp: unat_gt_0)
  qed
qed

text \<open>
  C11: A send with a timeout ends, whatever the rest of the system does while this core sleeps (as long
  as it keeps the queue well formed and the endpoints in place): it is the send without waiting at
  some poll \<open>j\<close>, where all earlier polls found no buffer, the time spent before it is less than the
  timeout, and if it also finds none then the next poll would be too late. The elapsed time does
  not overflow for a timeout that is at most \<open>2^32\<close> less one interval.
\<close>

theorem send_timeout_polls:
  fixes timeout :: u32
  assumes r: "tx_ready (bm_port side_a) dev i s" and e: "epts s ept = Some e"
    and w: "\<And>s. tx_ready (bm_port side_a) dev i s \<Longrightarrow> tx_ready (bm_port side_a) dev i (world s)"
    and we: "\<And>s. epts (world s) = epts s"
    and iv: "0 < cfg_interval cfg" "unat timeout + unat (cfg_interval cfg) \<le> 2 ^ 32"
  shows "\<exists>j. (\<forall>k < j. tx_bufs i ((world ^^ k) s) = [])
    \<and> (j = 0 \<or> (j - 1) * unat (cfg_interval cfg) < unat timeout)
    \<and> (tx_bufs i ((world ^^ j) s) = [] \<longrightarrow> unat timeout \<le> j * unat (cfg_interval cfg))
    \<and> (ept \<noteq> NULL \<and> dev \<noteq> NULL \<and> data \<noteq> NULL \<and> link_state i = 1
         \<and> len \<le> buffer_payload_size (link_shmem cfg (link_id i)) \<longrightarrow>
       rpmsg_lite_send (bm_port side_a) cfg world dev ept dst data len timeout s =
         rpmsg_lite_send (bm_port side_a) cfg world dev ept dst data len 0 ((world ^^ j) s))"
  using send_polls [OF r e w we iv] .

text \<open>
  C12: The other outcomes of \<open>rpmsg_lite_send\<close>, for any timeout. A missing endpoint or instance is reported with
  its code whatever the state is, and so are, for an instance and an endpoint that exist, a message that does
  not fit into a buffer, a missing payload and a link that is down, in this order and for every port; the state
  is left as it was. When no buffer is free, on bare metal, the answer is \<open>RL_ERR_NO_MEM\<close>: at once and in
  the same state with timeout 0, and otherwise, if none gets free while the call polls, after at least
  the timeout, with nothing changed but what the rest of the system did meanwhile.
\<close>

theorem send_errors:
  fixes timeout :: u32 and P :: "'e env_port"
  shows "(ept = NULL \<or> dev = NULL \<longrightarrow> rpmsg_lite_send P cfg world dev ept dst data len timeout s = Some (RL_ERR_PARAM, s))
    \<and> (ept \<noteq> NULL \<and> dev \<noteq> NULL \<and> insts s dev = Some i \<and> epts s ept = Some e
        \<and> (len > buffer_payload_size (link_shmem cfg (link_id i)) \<or> data = NULL \<or> link_state i \<noteq> 1) \<longrightarrow>
      rpmsg_lite_send P cfg world dev ept dst data len timeout s = Some
        (if len > buffer_payload_size (link_shmem cfg (link_id i)) then RL_ERR_BUFF_SIZE
         else if data = NULL then RL_ERR_PARAM else RL_NOT_READY, s))
    \<and> (ept \<noteq> NULL \<and> dev \<noteq> NULL \<and> data \<noteq> NULL \<and> tx_ready (bm_port side_a) dev j t \<and> epts t ept = Some e
        \<and> len \<le> buffer_payload_size (link_shmem cfg (link_id j)) \<and> link_state j = 1 \<longrightarrow>
      (tx_bufs j t = [] \<longrightarrow> rpmsg_lite_send (bm_port side_a) cfg others dev ept dst data len 0 t = Some (RL_ERR_NO_MEM, t))
      \<and> ((\<forall>u. tx_ready (bm_port side_a) dev j u \<longrightarrow> tx_ready (bm_port side_a) dev j (others u))
          \<and> (\<forall>u. epts (others u) = epts u) \<and> (\<forall>k. tx_bufs j ((others ^^ k) t) = [])
          \<and> 0 < cfg_interval cfg \<and> unat timeout + unat (cfg_interval cfg) \<le> 2 ^ 32 \<longrightarrow>
        (\<exists>n. rpmsg_lite_send (bm_port side_a) cfg others dev ept dst data len timeout t
            = Some (RL_ERR_NO_MEM, (others ^^ n) t)
          \<and> unat timeout \<le> n * unat (cfg_interval cfg) \<and> (n = 0 \<or> (n - 1) * unat (cfg_interval cfg) < unat timeout))))"
proof (intro conjI impI)
  let ?send = "rpmsg_lite_send (bm_port side_a) cfg others dev ept dst data len"
  have no_mem: "?send 0 u = Some (RL_ERR_NO_MEM, u)"
    if "ept \<noteq> NULL \<and> dev \<noteq> NULL \<and> data \<noteq> NULL \<and> tx_ready (bm_port side_a) dev j u \<and> epts u ept = Some e
        \<and> len \<le> buffer_payload_size (link_shmem cfg (link_id j)) \<and> link_state j = 1" "tx_bufs j u = []" for u
  proof -
    have "insts u dev = Some j" using that(1) by (simp add: tx_ready_def)
    then show ?thesis
      using that bm_alloc_locked(1) [of side_a dev j u cfg] linorder_not_less [THEN iffD2, of len]
      by (simp add: rpmsg_lite_send_def rpmsg_lite_format_message_def tx_alloc_timeout_def)
  qed
  assume h: "ept \<noteq> NULL \<and> dev \<noteq> NULL \<and> data \<noteq> NULL \<and> tx_ready (bm_port side_a) dev j t \<and> epts t ept = Some e
      \<and> len \<le> buffer_payload_size (link_shmem cfg (link_id j)) \<and> link_state j = 1"
  show "?send 0 t = Some (RL_ERR_NO_MEM, t)" if "tx_bufs j t = []" using no_mem [OF h that] .
  assume o: "(\<forall>u. tx_ready (bm_port side_a) dev j u \<longrightarrow> tx_ready (bm_port side_a) dev j (others u))
      \<and> (\<forall>u. epts (others u) = epts u) \<and> (\<forall>k. tx_bufs j ((others ^^ k) t) = [])
      \<and> 0 < cfg_interval cfg \<and> unat timeout + unat (cfg_interval cfg) \<le> 2 ^ 32"
  obtain n where n: "n = 0 \<or> (n - 1) * unat (cfg_interval cfg) < unat timeout"
      "unat timeout \<le> n * unat (cfg_interval cfg)" "?send timeout t = ?send 0 ((others ^^ n) t)"
    using send_polls [of side_a dev j t ept e others cfg timeout data len dst] h o by blast
  have "tx_ready (bm_port side_a) dev j ((others ^^ n) t) \<and> epts ((others ^^ n) t) = epts t" for n
    by (induction n) (use h o in simp_all)
  then have "?send 0 ((others ^^ n) t) = Some (RL_ERR_NO_MEM, (others ^^ n) t)" using no_mem h o by simp
  then show "\<exists>n. ?send timeout t = Some (RL_ERR_NO_MEM, (others ^^ n) t)
      \<and> unat timeout \<le> n * unat (cfg_interval cfg) \<and> (n = 0 \<or> (n - 1) * unat (cfg_interval cfg) < unat timeout)"
    using n by auto
qed (auto simp: rpmsg_lite_send_def rpmsg_lite_format_message_def)

section \<open>Witnesses\<close>

lemma ex_tx_ready: "tx_ready (bm_port True) 8 ex_inst ex_master"
  by (simp add: tx_ready_def del: pend.simps)

lemma ex_tx_bufs: "tx_bufs ex_inst ex_master = [(0, 512), (1, 512)]"
  by (simp add: tx_bufs_def del: pend.simps)

lemma outside_ex: "outside 0x2000 4 0x1000 16"
  unfolding outside_def
proof (intro allI impI)
  fix j :: nat assume "j < 4"
  then have "j = 0 \<or> j = 1 \<or> j = 2 \<or> j = 3" by arith
  then show "16 \<le> unat (0x2000 + of_nat j - 0x1000 :: u32)" by auto
qed

lemma ex_data: "mem_read (mem ex_master) 0x2000 4 = [0, 1, 2, 3]"
  by (simp add: mem_read_def ex_master_def upt_conv_Cons)

theorem send_correct_witness:
  "\<exists>s'. rpmsg_lite_send (bm_port True) cfg_ex (\<lambda>s. s) 8 32 1 0x2000 4 0 ex_master = Some (RL_SUCCESS, s')
     \<and> msg_at (mem s') 0x1000 = (1, 30, [0, 1, 2, 3])"
proof -
  have room: "has_room (peer_ops (dev_ops ex_inst)) (ex_vq 9) ex_vm"
    by (simp add: has_room_def del: pend.simps)
  have "get_vq (tvq ex_inst) ex_master = Some (ex_vq 8, ex_vm)"
    "pend (dev_ops ex_inst) (ex_vq 8) ex_vm = [(0, 512), (1, 512)]" by (simp_all del: pend.simps)
  from send_correct [where ept = 32 and data = "0x2000" and len = 4 and cfg = cfg_ex and dst = 1
      and world = "\<lambda>s. s" and timeout = 0, OF ex_tx_ready _ this _ _ _ _ _ _ _ _ room] outside_ex ex_data
  show ?thesis by auto
qed

theorem send_errors_witness:
  "rpmsg_lite_send (bm_port True) cfg_ex (\<lambda>s. s) 8 32 1 0x2000 497 100 ex_master = Some (RL_ERR_BUFF_SIZE, ex_master)"
  using send_errors [where P = "bm_port True" and dev = 8 and ept = 32 and len = 497 and cfg = cfg_ex and data = "0x2000"
      and dst = 1 and world = "\<lambda>s. s" and timeout = 100 and s = ex_master and i = ex_inst] ex_tx_ready
  by (simp add: tx_ready_def)

theorem send_timeout_polls_witness:
  "\<exists>j. rpmsg_lite_send (bm_port True) cfg_ex (\<lambda>s. s) 8 32 1 0x2000 4 100 ex_master =
     rpmsg_lite_send (bm_port True) cfg_ex (\<lambda>s. s) 8 32 1 0x2000 4 0 (((\<lambda>s. s) ^^ j) ex_master)"
  using send_timeout_polls [where ept = 32 and len = 4 and cfg = cfg_ex and data = "0x2000" and dst = 1
      and world = "\<lambda>s. s" and timeout = 100, OF ex_tx_ready] by auto

end
