(* ===== verification/Rpmsg_Receive.thy ===== *)
theory Rpmsg_Receive
  imports Rpmsg_Transfer
begin

text \<open>
  Receiving: the loop of \<open>rpmsg_lite_rx_callback\<close> against a function on the list of pending
  messages, for both roles, any endpoints and any callbacks that act on memory and environment.
\<close>

section \<open>Receiving\<close>

text \<open>
  A callback that gets the address of the payload, the payload, the source and the private data
  and acts on memory and on the environment's state; \<open>call_of\<close> is the call through the
  function pointer, and \<open>calls\<close> says that the callbacks of the endpoints \<open>xs\<close> behave like \<open>cb\<close>
  as long as the environment satisfies \<open>einv\<close>, which they keep.
\<close>

type_synonym 'e rx_cb_fn =
  "fn_ptr \<Rightarrow> ptr \<Rightarrow> u8 list \<Rightarrow> u32 \<Rightarrow> ptr \<Rightarrow> memory \<times> 'e \<Rightarrow> int \<times> memory \<times> 'e"

definition call_of :: "'e rx_cb_fn \<Rightarrow> 'e rx_call" where
  "call_of cb f data len src priv s =
     (let (r, m, e) = cb f data (mem_read (mem s) data (unat len)) src priv (mem s, env s)
      in Some (r, s\<lparr>mem := m, env := e\<rparr>))"

definition calls :: "'e rx_call \<Rightarrow> 'e rx_cb_fn \<Rightarrow> ept_entry list \<Rightarrow> ('e \<Rightarrow> bool) \<Rightarrow> bool" where
  "calls call_rx cb xs einv \<longleftrightarrow> (\<forall>y \<in> set xs.
     (\<forall>data len src s. einv (env s) \<longrightarrow>
        call_rx (rx_cb (snd (snd y))) data len src (rx_cb_data (snd (snd y))) s =
        call_of cb (rx_cb (snd (snd y))) data len src (rx_cb_data (snd (snd y))) s)
     \<and> (\<forall>d p src me. einv (snd me) \<longrightarrow>
        einv (snd (snd (cb (rx_cb (snd (snd y))) d p src (rx_cb_data (snd (snd y))) me)))))"

lemma calls_call_of [simp]: "calls (call_of cb) cb xs (\<lambda>e. True)"
  by (simp add: calls_def)

text \<open>The effect of one message \<open>msg\<close> in the buffer \<open>b\<close>: whether it is released, memory, environment.\<close>

definition rx_effect ::
  "rl_config \<Rightarrow> 'e rx_cb_fn \<Rightarrow> ept_entry list \<Rightarrow> u32 \<times> u32 \<times> u8 list \<Rightarrow> ptr \<Rightarrow> u16 \<times> u32 \<Rightarrow> memory \<times> 'e
    \<Rightarrow> bool \<times> memory \<times> 'e" where
  "rx_effect cfg cb xs msg b x me =
     (let (r, m, e) = (case find (\<lambda>y. en_addr y = fst msg) xs of
            None \<Rightarrow> (RL_RELEASE, me)
          | Some y \<Rightarrow> cb (rx_cb (snd (snd y))) (msg_data b) (snd (snd msg)) (fst (snd msg))
                       (rx_cb_data (snd (snd y))) me)
      in if r = RL_HOLD then (False, store_u16 m (hdr_idx b) (fst x), e)
         else (True, if cfg_clear_used cfg then env_memset b 0 (snd x) m else m, e))"

text \<open>
  All pending messages, oldest first, each with the contents it had in the memory \<open>mz\<close>: the
  released buffers, memory and environment.
\<close>

fun rx_effects ::
  "'e env_port \<Rightarrow> rl_config \<Rightarrow> 'e rx_cb_fn \<Rightarrow> ept_entry list \<Rightarrow> vring_mem \<Rightarrow> memory \<Rightarrow> (u16 \<times> u32) list
    \<Rightarrow> memory \<times> 'e \<Rightarrow> (u16 \<times> u32) list \<times> memory \<times> 'e" where
  "rx_effects P cfg cb xs vm mz [] me = ([], me)"
| "rx_effects P cfg cb xs vm mz (x # ys) me =
     (let b = buf_addr P vm (fst x);
          (freed, me) = rx_effect cfg cb xs (msg_at mz b) b x me;
          (rel, me) = rx_effects P cfg cb xs vm mz ys me
      in (if freed then x # rel else rel, me))"

lemma rx_effect_inv:
  assumes "calls call_rx cb xs einv" "einv (snd me)"
  shows "einv (snd (snd (rx_effect cfg cb xs msg b x me)))"
proof (cases "find (\<lambda>y. en_addr y = fst msg) xs")
  case None
  then show ?thesis using assms(2) by (cases me) (simp add: rx_effect_def)
next
  case (Some y)
  then have "y \<in> set xs" by (auto simp: find_Some_iff)
  then have "einv (snd (snd (cb (rx_cb (snd (snd y))) (msg_data b) (snd (snd msg)) (fst (snd msg))
      (rx_cb_data (snd (snd y))) me)))"
    using assms unfolding calls_def by blast
  then show ?thesis
    using Some by (cases "cb (rx_cb (snd (snd y))) (msg_data b) (snd (snd msg)) (fst (snd msg))
      (rx_cb_data (snd (snd y))) me") (simp add: rx_effect_def)
qed

lemma ept_rep_simps [simp]:
  "ept_rep dev (s\<lparr>mem := m\<rparr>) xs = ept_rep dev s xs"
  "ept_rep dev (put_vq v vq vm s) xs = ept_rep dev s xs"
  by (simp_all add: ept_rep_def)

lemma rx_one_eq:
  assumes rep: "ept_rep dev s xs" and cl: "calls call_rx cb xs einv" "einv (env s)" and i: "insts s dev = Some i"
    and q: "get_vq (rvq i) s = Some (vq, vm)" and r: "vq_ready (dev_ops i) vq vm"
    and idx: "idx < vq_nentries vq"
  shows "rx_one P cfg call_rx dev b l idx s =
    (let (freed, m, e) = rx_effect cfg cb xs (msg_at (mem s) b) b (idx, l) (mem s, env s)
     in Some (freed, if freed
          then put_vq (rvq i) (fst (put (dev_ops i) (idx, l) (vq, vm)))
                 (snd (put (dev_ops i) (idx, l) (vq, vm))) (s\<lparr>mem := m, env := e\<rparr>)
          else s\<lparr>mem := m, env := e\<rparr>))"
proof -
  have q2: "get_vq (rvq i) (s\<lparr>mem := m, env := e\<rparr>) = Some (vq, vm)" for m e using q by simp
  have q3: "get_vq (rvq i) (s\<lparr>mem := m\<rparr>) = Some (vq, vm)" for m using q by simp
  have id: "s\<lparr>mem := m, env := env s\<rparr> = s\<lparr>mem := m\<rparr>" "s\<lparr>mem := mem s, env := env s\<rparr> = s" for m by simp_all
  note tx = vq_tx_eq [OF q2 r idx]
  let ?dst = "load_u32 (mem s) (hdr_dst b)"
  show ?thesis
  proof (cases "find (\<lambda>y. en_addr y = ?dst) xs")
    case None
    then show ?thesis
      using i vq_tx_eq [OF q r idx] vq_tx_eq [OF q3 r idx]
      by (simp add: id rx_one_def get_endpoint_eq [OF rep] rx_effect_def msg_at_def vq_rx_free_tx)
  next
    case (Some y)
    obtain n p ept where y: "y = (n, p, ept)" by (cases y)
    then have e: "(n, p, ept) \<in> set xs" using Some by (auto simp: find_Some_iff)
    then have n: "n \<noteq> NULL" using ept_rep_nodes(1) [OF rep] by fastforce
    have "\<forall>x \<in> set xs. map_option l_data (llnodes s (en_node x)) = Some (en_ptr x)
           \<and> epts s (en_ptr x) = Some (snd (snd x))" using rep by (simp add: ept_rep_def)
    from bspec [OF this e] obtain nd where nd: "llnodes s n = Some nd" "l_data nd = p" "epts s p = Some ept"
      by auto
    have cl': "call_rx (rx_cb ept) data len src (rx_cb_data ept) t =
        call_of cb (rx_cb ept) data len src (rx_cb_data ept) t" if "einv (env t)" for data len src t
      using conjunct1 [OF bspec [OF cl(1) [unfolded calls_def] e]] that by simp
    obtain rr m e where c: "cb (rx_cb ept) (msg_data b) (mem_read (mem s) (msg_data b) (unat (load_u16 (mem s) (hdr_len b))))
        (load_u32 (mem s) (hdr_src b)) (rx_cb_data ept) (mem s, env s) = (rr, m, e)"
      by (cases "cb (rx_cb ept) (msg_data b) (mem_read (mem s) (msg_data b) (unat (load_u16 (mem s) (hdr_len b))))
        (load_u32 (mem s) (hdr_src b)) (rx_cb_data ept) (mem s, env s)")
    have comm: "s\<lparr>env := e, mem := m\<rparr> = s\<lparr>mem := m, env := e\<rparr>" for m e by simp
    show ?thesis
      using Some y n nd c i tx
      by (simp add: comm rx_one_def get_endpoint_eq [OF rep] rx_effect_def msg_at_def vq_rx_free_tx
          cl' cl(2) call_of_def unat_u16_u32)
  qed
qed

text \<open>
  What is asked of the memory: handling a message, by the callback or by the library,
  does not change the bytes of the messages still pending.
\<close>

fun rx_keeps ::
  "'e env_port \<Rightarrow> rl_config \<Rightarrow> 'e rx_cb_fn \<Rightarrow> ept_entry list \<Rightarrow> vring_mem \<Rightarrow> memory \<Rightarrow> (u16 \<times> u32) list \<Rightarrow> bool" where
  "rx_keeps P cfg cb xs vm mz [] = True"
| "rx_keeps P cfg cb xs vm mz (x # ys) =
     ((\<forall>me y a. y \<in> set ys \<longrightarrow> a \<in> msg_bytes mz (buf_addr P vm (fst y)) \<longrightarrow>
         fst (snd (rx_effect cfg cb xs (msg_at mz (buf_addr P vm (fst x))) (buf_addr P vm (fst x)) x me)) a
           = fst me a)
      \<and> rx_keeps P cfg cb xs vm mz ys)"

lemma rx_addr_cong:
  assumes "buf_addr P vm' = buf_addr P vm"
  shows "rx_effects P cfg cb xs vm' mz ys me = rx_effects P cfg cb xs vm mz ys me"
    and "rx_keeps P cfg cb xs vm' mz ys = rx_keeps P cfg cb xs vm mz ys"
  using assms by (induction ys arbitrary: me) (simp_all add: Let_def split: prod.split)

text \<open>The peer's view of the queue after the buffers \<open>rel\<close> were released.\<close>

definition released_to ::
  "vq_ops \<Rightarrow> virtqueue \<times> vring_mem \<Rightarrow> (u16 \<times> u32) list \<Rightarrow> virtqueue \<times> vring_mem \<Rightarrow> bool" where
  "released_to ops q rel q' \<longleftrightarrow>
     vm_desc (snd q') = vm_desc (snd q) \<and> vq_nentries (fst q') = vq_nentries (fst q)
     \<and> vq_ring (fst q') = vq_ring (fst q)
     \<and> (\<forall>pq. vq_nentries pq = vq_nentries (fst q)
          \<and> length (pend (peer_ops ops) pq (snd q)) + length rel \<le> unat (vq_nentries pq) \<longrightarrow>
          pend (peer_ops ops) pq (snd q') =
            pend (peer_ops ops) pq (snd q) @ map (\<lambda>x. (fst x, peer_len ops (snd q) x)) rel)"

lemma released_to_Nil [simp]: "released_to ops q [] q"
  by (simp add: released_to_def)

lemma peer_len_desc: "vm_desc vm' = vm_desc vm \<Longrightarrow> peer_len ops vm' x = peer_len ops vm x"
  by (cases ops) simp_all

lemma released_to_took:
  "released_to ops (took ops vq, vm) rel q' = released_to ops (vq, vm) rel q'"
  by (simp add: released_to_def)

lemma released_to_put:
  assumes "released_to ops (put ops x (vq, vm)) rel q'" "vq_wf vq vm" "ops \<noteq> Ops_NULL"
  shows "released_to ops (vq, vm) (x # rel) q'"
proof -
  let ?q = "put ops x (vq, vm)"
  have d: "vm_desc (snd ?q) = vm_desc vm" by simp
  have "pend (peer_ops ops) pq (snd q') =
      pend (peer_ops ops) pq vm @ map (\<lambda>x. (fst x, peer_len ops vm x)) (x # rel)"
    if n: "vq_nentries pq = vq_nentries vq"
      and l: "length (pend (peer_ops ops) pq vm) + length (x # rel) \<le> unat (vq_nentries pq)" for pq
  proof -
    have p: "pend (peer_ops ops) pq (snd ?q) =
        pend (peer_ops ops) pq vm @ [(fst x, peer_len ops vm x)]"
      using pend_peer_put [OF assms(2) n assms(3)] l by (simp add: has_room_def)
    then show ?thesis
      using assms(1) n l peer_len_desc [OF d, of ops] by (simp add: released_to_def)
  qed
  moreover have "vm_desc (snd q') = vm_desc vm" "vq_nentries (fst q') = vq_nentries vq"
    "vq_ring (fst q') = vq_ring vq"
    using assms(1) by (simp_all add: released_to_def)
  ultimately show ?thesis unfolding released_to_def fst_conv snd_conv by blast
qed

lemma rx_step:
  assumes "ept_rep dev s xs" and cl: "calls call_rx cb xs einv" "einv (env s)" and "insts s dev = Some i"
    and "get_vq (rvq i) s = Some (vq, vm)" "vq_ready (dev_ops i) vq vm" "fst x < vq_nentries vq"
    and "\<forall>a \<in> msg_bytes mz (buf_addr P vm (fst x)). mem s a = mz a"
    and "rx_effect cfg cb xs (msg_at mz (buf_addr P vm (fst x))) (buf_addr P vm (fst x)) x (mem s, env s)
      = (fd, m, e)"
  shows "\<exists>vq1 vm1. rx_one P cfg call_rx dev (buf_addr P vm (fst x)) (snd x) (fst x) s =
      Some (fd, put_vq (rvq i) vq1 vm1 (s\<lparr>mem := m, env := e\<rparr>))
    \<and> vq_ready (dev_ops i) vq1 vm1 \<and> pend (dev_ops i) vq1 vm1 = pend (dev_ops i) vq vm
    \<and> vm_desc vm1 = vm_desc vm \<and> vq_nentries vq1 = vq_nentries vq \<and> vq_ring vq1 = vq_ring vq
    \<and> einv e
    \<and> (\<forall>rel q'. released_to (dev_ops i) (vq1, vm1) rel q' \<longrightarrow>
          released_to (dev_ops i) (vq, vm) (if fd then x # rel else rel) q')"
proof -
  let ?b = "buf_addr P vm (fst x)"
  have m: "msg_at (mem s) ?b = msg_at mz ?b" using assms(8) by (rule msg_at_cong)
  let ?q = "if fd then put (dev_ops i) x (vq, vm) else (vq, vm)"
  have "rx_one P cfg call_rx dev ?b (snd x) (fst x) s =
      Some (fd, put_vq (rvq i) (fst ?q) (snd ?q) (s\<lparr>mem := m, env := e\<rparr>))"
    using rx_one_eq [OF assms(1-7), of P cfg ?b "snd x"] assms(5,9) m by (auto simp: put_vq_triv)
  moreover have "released_to (dev_ops i) (vq, vm) (if fd then x # rel else rel) q'"
    if r: "released_to (dev_ops i) ?q rel q'" for rel q'
  proof (cases fd)
    case True
    then have "released_to (dev_ops i) (put (dev_ops i) x (vq, vm)) rel q'" using r by simp
    from released_to_put [OF this] show ?thesis using True assms(6) by (simp add: vq_ready_def)
  qed (use r in simp)
  moreover have "einv e"
    using rx_effect_inv [OF cl(1), of "(mem s, env s)" cfg "msg_at mz ?b" ?b x] cl(2) assms(9) by simp
  ultimately show ?thesis
    using assms(6) by (intro exI [of _ "fst ?q"] exI [of _ "snd ?q"]) auto
qed

lemma rx_loop_NULL: "rx_loop P cfg call_rx dev (NULL, x) fr = Some"
  by (rule ext, subst rx_loop.simps) simp

lemma rx_loop_spec:
  assumes "ept_rep dev s xs" "calls call_rx cb xs einv" "einv (env s)" "insts s dev = Some i" "rvq i \<noteq> NULL"
    and "get_vq (rvq i) s = Some (vq, vm)" "vq_ready (dev_ops i) vq vm"
    and "pend (dev_ops i) vq vm = ys" "fst x < vq_nentries vq"
    and "\<forall>y \<in> set (x # ys). buf_addr P vm (fst y) \<noteq> NULL"
    and "\<forall>y \<in> set (x # ys). \<forall>a \<in> msg_bytes mz (buf_addr P vm (fst y)). mem s a = mz a"
    and "rx_keeps P cfg cb xs vm mz (x # ys)"
    and "rx_effects P cfg cb xs vm mz (x # ys) (mem s, env s) = (rel, m', e')"
  shows "\<exists>vq' vm'. vq_ready (dev_ops i) vq' vm' \<and> pend (dev_ops i) vq' vm' = []
    \<and> released_to (dev_ops i) (vq, vm) rel (vq', vm')
    \<and> rx_loop P cfg call_rx dev (buf_addr P vm (fst x), Some (snd x, fst x)) fr s =
       (let s' = put_vq (rvq i) vq' vm' (s\<lparr>mem := m', env := e'\<rparr>)
        in if cfg_consumed_notification cfg \<and> (fr \<or> rel \<noteq> []) then vq_kick P cfg (rvq i) s' else Some s')"
  using assms
proof (induction ys arbitrary: x s vq vm fr rel)
  case Nil
  let ?b = "buf_addr P vm (fst x)"
  obtain fd m e where ef: "rx_effect cfg cb xs (msg_at mz ?b) ?b x (mem s, env s) = (fd, m, e)"
    by (cases "rx_effect cfg cb xs (msg_at mz ?b) ?b x (mem s, env s)")
  have res: "m = m'" "e = e'" "rel = (if fd then [x] else [])"
    using Nil.prems(13) ef by (auto simp: Let_def)
  have "\<forall>a \<in> msg_bytes mz ?b. mem s a = mz a" using Nil.prems(11) by simp
  from rx_step [OF Nil.prems(1-4,6,7,9) this ef] obtain vq1 vm1 where
    one: "rx_one P cfg call_rx dev ?b (snd x) (fst x) s =
      Some (fd, put_vq (rvq i) vq1 vm1 (s\<lparr>mem := m, env := e\<rparr>))"
    and rdy: "vq_ready (dev_ops i) vq1 vm1" "pend (dev_ops i) vq1 vm1 = []"
    and iv: "einv e"
    and rl: "\<And>rel q'. released_to (dev_ops i) (vq1, vm1) rel q' \<Longrightarrow>
      released_to (dev_ops i) (vq, vm) (if fd then x # rel else rel) q'"
    unfolding Nil.prems(8) by blast
  have rel: "released_to (dev_ops i) (vq, vm) rel (vq1, vm1)"
    using rl [OF released_to_Nil] unfolding res(3) .
  let ?s = "put_vq (rvq i) vq1 vm1 (s\<lparr>mem := m, env := e\<rparr>)"
  have rx: "vq_rx (dev_ops i) P cfg (rvq i) ?s = Some ((NULL, None), ?s)"
    using vq_tx_alloc_eq [OF get_vq_put rdy(1) Nil.prems(5), of P cfg] rdy(2)
    by (simp add: vq_rx_tx_alloc)
  have "rx_loop P cfg call_rx dev (?b, Some (snd x, fst x)) fr s =
      (if cfg_consumed_notification cfg \<and> (fr \<or> rel \<noteq> []) then vq_kick P cfg (rvq i) ?s else Some ?s)"
    using Nil.prems(4,10) one rx res(3) by (subst rx_loop.simps) (auto simp: rx_loop_NULL)
  then show ?case
    using rdy res(1,2) rel by (intro exI [of _ vq1] exI [of _ vm1]) (auto simp: Let_def)
next
  case (Cons y ys)
  let ?b = "buf_addr P vm (fst x)"
  obtain fd m e where ef: "rx_effect cfg cb xs (msg_at mz ?b) ?b x (mem s, env s) = (fd, m, e)"
    by (cases "rx_effect cfg cb xs (msg_at mz ?b) ?b x (mem s, env s)")
  obtain rel2 where rest: "rx_effects P cfg cb xs vm mz (y # ys) (m, e) = (rel2, m', e')"
      "rel = (if fd then x # rel2 else rel2)"
    using Cons.prems(13) ef by (cases "rx_effects P cfg cb xs vm mz (y # ys) (m, e)") (auto simp: Let_def)
  have "\<forall>a \<in> msg_bytes mz ?b. mem s a = mz a" using Cons.prems(11) by simp
  from rx_step [OF Cons.prems(1-4,6,7,9) this ef] obtain vq1 vm1 where
    one: "rx_one P cfg call_rx dev ?b (snd x) (fst x) s =
      Some (fd, put_vq (rvq i) vq1 vm1 (s\<lparr>mem := m, env := e\<rparr>))"
    and rdy: "vq_ready (dev_ops i) vq1 vm1" "pend (dev_ops i) vq1 vm1 = y # ys"
    and fr: "vm_desc vm1 = vm_desc vm" "vq_nentries vq1 = vq_nentries vq" "vq_ring vq1 = vq_ring vq"
    and iv: "einv e"
    and rel: "\<And>q'. released_to (dev_ops i) (vq1, vm1) rel2 q' \<Longrightarrow> released_to (dev_ops i) (vq, vm) rel q'"
    unfolding Cons.prems(8) rest(2) by blast
  have ba: "buf_addr P vm1 = buf_addr P vm" by (intro ext) (simp add: buf_addr_def fr)
  let ?s = "put_vq (rvq i) (took (dev_ops i) vq1) vm1 (s\<lparr>mem := m, env := e\<rparr>)"
  have rx: "vq_rx (dev_ops i) P cfg (rvq i) (put_vq (rvq i) vq1 vm1 (s\<lparr>mem := m, env := e\<rparr>)) =
      Some ((buf_addr P vm (fst y), Some (snd y, fst y)), ?s)"
    using vq_tx_alloc_eq [OF get_vq_put rdy(1) Cons.prems(5), of P cfg] rdy(2)
    by (cases y) (simp add: vq_rx_tx_alloc ba)
  have loop: "rx_loop P cfg call_rx dev (?b, Some (snd x, fst x)) fr s =
      rx_loop P cfg call_rx dev (buf_addr P vm (fst y), Some (snd y, fst y)) (fr \<or> fd) ?s"
    using Cons.prems(4,10) one rx by (subst rx_loop.simps) simp
  have keep: "\<forall>z \<in> set (y # ys). \<forall>a \<in> msg_bytes mz (buf_addr P vm (fst z)). m a = mz a"
  proof (intro ballI)
    fix z a assume z: "z \<in> set (y # ys)" "a \<in> msg_bytes mz (buf_addr P vm (fst z))"
    then have "fst (snd (rx_effect cfg cb xs (msg_at mz ?b) ?b x (mem s, env s))) a = fst (mem s, env s) a"
      using Cons.prems(12) unfolding rx_keeps.simps(2) by blast
    then have "m a = mem s a" using ef by simp
    then show "m a = mz a" using z Cons.prems(11) by (metis list.set_intros(2))
  qed
  have "\<exists>vq' vm'. vq_ready (dev_ops i) vq' vm' \<and> pend (dev_ops i) vq' vm' = []
    \<and> released_to (dev_ops i) (took (dev_ops i) vq1, vm1) rel2 (vq', vm')
    \<and> rx_loop P cfg call_rx dev (buf_addr P vm1 (fst y), Some (snd y, fst y)) (fr \<or> fd) ?s =
       (let s' = put_vq (rvq i) vq' vm' (?s\<lparr>mem := m', env := e'\<rparr>)
        in if cfg_consumed_notification cfg \<and> ((fr \<or> fd) \<or> rel2 \<noteq> []) then vq_kick P cfg (rvq i) s'
           else Some s')"
  proof (rule Cons.IH)
    show "einv (env ?s)" using iv by simp
    show "ept_rep dev ?s xs" "calls call_rx cb xs einv" "insts ?s dev = Some i" "rvq i \<noteq> NULL"
      using Cons.prems(1,2,4,5) by simp_all
    show "get_vq (rvq i) ?s = Some (took (dev_ops i) vq1, vm1)" by simp
    show "vq_ready (dev_ops i) (took (dev_ops i) vq1) vm1" by (rule vq_ready_took [OF rdy])
    show "pend (dev_ops i) (took (dev_ops i) vq1) vm1 = ys"
      using pend_took rdy by (simp add: vq_ready_def)
    show "fst y < vq_nentries (took (dev_ops i) vq1)" using rdy by (simp add: vq_ready_def)
    show "rx_keeps P cfg cb xs vm1 mz (y # ys)"
      using Cons.prems(12) unfolding rx_keeps.simps(2) [of P cfg cb xs vm mz x "y # ys"]
      by (simp only: rx_addr_cong(2) [OF ba])
    show "rx_effects P cfg cb xs vm1 mz (y # ys) (mem ?s, env ?s) = (rel2, m', e')"
      using rest(1) unfolding rx_addr_cong [OF ba] by simp
    show "\<forall>z \<in> set (y # ys). \<forall>a \<in> msg_bytes mz (buf_addr P vm1 (fst z)). mem ?s a = mz a"
      using keep unfolding ba by simp
    show "\<forall>z \<in> set (y # ys). buf_addr P vm1 (fst z) \<noteq> NULL" using Cons.prems(10) by (simp add: ba)
  qed
  then obtain vq' vm' where fin: "vq_ready (dev_ops i) vq' vm'" "pend (dev_ops i) vq' vm' = []"
    "released_to (dev_ops i) (took (dev_ops i) vq1, vm1) rel2 (vq', vm')"
    "rx_loop P cfg call_rx dev (buf_addr P vm1 (fst y), Some (snd y, fst y)) (fr \<or> fd) ?s =
       (let s' = put_vq (rvq i) vq' vm' (?s\<lparr>mem := m', env := e'\<rparr>)
        in if cfg_consumed_notification cfg \<and> ((fr \<or> fd) \<or> rel2 \<noteq> []) then vq_kick P cfg (rvq i) s'
           else Some s')" by blast
  have "vq_ring vq' = vq_ring (took (dev_ops i) vq1)" using fin(3) by (simp add: released_to_def)
  then have "put_vq (rvq i) vq' vm' (?s\<lparr>mem := m', env := e'\<rparr>) =
      put_vq (rvq i) vq' vm' (s\<lparr>mem := m', env := e'\<rparr>)" by simp
  moreover have "released_to (dev_ops i) (vq, vm) rel (vq', vm')"
    using fin(3) by (intro rel) (simp only: released_to_took)
  moreover have "((fr \<or> fd) \<or> rel2 \<noteq> []) = (fr \<or> rel \<noteq> [])" using rest(2) by auto
  ultimately show ?case
    using fin(1,2,4) unfolding loop ba by (intro exI [of _ vq'] exI [of _ vm']) simp
qed

lemma rx_callback_spec:
  assumes "vqs s vqp = Some vqc" "vq_priv vqc = dev" "dev \<noteq> NULL"
    and "ept_rep dev s xs" "insts s dev = Some i" "rvq i \<noteq> NULL"
    and "get_vq (rvq i) s = Some (vq, vm)" "vq_ready (dev_ops i) vq vm"
    and "\<forall>y \<in> set (pend (dev_ops i) vq vm). buf_addr P vm (fst y) \<noteq> NULL"
    and "rx_keeps P cfg cb xs vm (mem s) (pend (dev_ops i) vq vm)"
    and "rx_effects P cfg cb xs vm (mem s) (pend (dev_ops i) vq vm) (mem s, env s) = (rel, m', e')"
    and "calls call_rx cb xs einv" "einv (env s)"
  shows "\<exists>vq' vm'. vq_ready (dev_ops i) vq' vm' \<and> pend (dev_ops i) vq' vm' = []
    \<and> released_to (dev_ops i) (vq, vm) rel (vq', vm')
    \<and> rpmsg_lite_rx_callback P cfg call_rx vqp s =
       (let s' = put_vq (rvq i) vq' vm' (s\<lparr>mem := m', env := e'\<rparr>)
        in if cfg_consumed_notification cfg \<and> rel \<noteq> [] then vq_kick P cfg (rvq i) s' else Some s')"
proof (cases "pend (dev_ops i) vq vm")
  case Nil
  then show ?thesis
    using assms(1-9,11) put_vq_triv [OF assms(7)]
    by (intro exI [of _ vq] exI [of _ vm])
      (auto simp: rpmsg_lite_rx_callback_def vq_rx_tx_alloc vq_tx_alloc_eq [OF assms(7,8,6)] rx_loop_NULL)
next
  case (Cons x ys)
  let ?s = "put_vq (rvq i) (took (dev_ops i) vq) vm s"
  have w: "vq_wf vq vm" using assms(8) by (simp add: vq_ready_def)
  have "\<exists>vq' vm'. vq_ready (dev_ops i) vq' vm' \<and> pend (dev_ops i) vq' vm' = []
    \<and> released_to (dev_ops i) (took (dev_ops i) vq, vm) rel (vq', vm')
    \<and> rx_loop P cfg call_rx dev (buf_addr P vm (fst x), Some (snd x, fst x)) False ?s =
       (let s' = put_vq (rvq i) vq' vm' (?s\<lparr>mem := m', env := e'\<rparr>)
        in if cfg_consumed_notification cfg \<and> (False \<or> rel \<noteq> []) then vq_kick P cfg (rvq i) s'
           else Some s')"
  proof (rule rx_loop_spec [where einv = einv and xs = xs and ys = ys and mz = "mem s"])
    show "pend (dev_ops i) (took (dev_ops i) vq) vm = ys" by (rule pend_took [OF w Cons])
    show "vq_ready (dev_ops i) (took (dev_ops i) vq) vm" by (rule vq_ready_took [OF assms(8) Cons])
    show "fst x < vq_nentries (took (dev_ops i) vq)" using assms(8) Cons by (simp add: vq_ready_def)
  qed (use assms(4-6,9-13) Cons in simp_all)
  then obtain vq' vm' where fin: "vq_ready (dev_ops i) vq' vm'" "pend (dev_ops i) vq' vm' = []"
    "released_to (dev_ops i) (vq, vm) rel (vq', vm')"
    "rx_loop P cfg call_rx dev (buf_addr P vm (fst x), Some (snd x, fst x)) False ?s =
       (let s' = put_vq (rvq i) vq' vm' (?s\<lparr>mem := m', env := e'\<rparr>)
        in if cfg_consumed_notification cfg \<and> rel \<noteq> [] then vq_kick P cfg (rvq i) s' else Some s')"
    unfolding released_to_took by auto
  have "vq_ring vq' = vq_ring (took (dev_ops i) vq)" using fin(3) by (simp add: released_to_def)
  then have p: "put_vq (rvq i) vq' vm' (?s\<lparr>mem := m', env := e'\<rparr>) =
      put_vq (rvq i) vq' vm' (s\<lparr>mem := m', env := e'\<rparr>)" by simp
  have "rpmsg_lite_rx_callback P cfg call_rx vqp s =
      rx_loop P cfg call_rx dev (buf_addr P vm (fst x), Some (snd x, fst x)) False ?s"
    using assms(1-3,5) Cons
    by (cases x) (simp add: rpmsg_lite_rx_callback_def vq_rx_tx_alloc vq_tx_alloc_eq [OF assms(7,8,6)])
  then show ?thesis using fin p by (intro exI [of _ vq'] exI [of _ vm']) simp
qed

text \<open>
  C2: The receive callback of either role delivers all pending messages: it ends, and memory and
  environment are what the callbacks of the addressed endpoints make of the messages, called once
  per message, oldest first, with the payload, source and private data that the message had
  when the callback started (a message to an unknown address is dropped). Afterwards nothing is
  pending; the buffers of the messages that were not held are on the peer's ring in order, the
  held ones have their index stored in the header. With \<open>RL_ALLOW_CONSUMED_BUFFERS_NOTIFICATION\<close>
  the peer is notified once at the end, if any buffer was released.
\<close>

theorem rx_callback_delivers:
  assumes "vqs s vqp = Some vqc" "vq_priv vqc = dev" "dev \<noteq> NULL"
    and "ept_rep dev s xs" "insts s dev = Some i" "rvq i \<noteq> NULL"
    and "get_vq (rvq i) s = Some (vq, vm)" "vq_ready (dev_ops i) vq vm"
    and "\<forall>y \<in> set (pend (dev_ops i) vq vm). buf_addr P vm (fst y) \<noteq> NULL"
    and "rx_keeps P cfg cb xs vm (mem s) (pend (dev_ops i) vq vm)"
    and "rx_effects P cfg cb xs vm (mem s) (pend (dev_ops i) vq vm) (mem s, env s) = (rel, m', e')"
    and "calls call_rx cb xs einv" "einv (env s)"
  shows "\<exists>vq' vm'. vq_ready (dev_ops i) vq' vm' \<and> pend (dev_ops i) vq' vm' = []
    \<and> released_to (dev_ops i) (vq, vm) rel (vq', vm')
    \<and> rpmsg_lite_rx_callback P cfg call_rx vqp s =
       (let s' = put_vq (rvq i) vq' vm' (s\<lparr>mem := m', env := e'\<rparr>)
        in if cfg_consumed_notification cfg \<and> rel \<noteq> [] then vq_kick P cfg (rvq i) s' else Some s')"
  by (rule rx_callback_spec [OF assms])

text \<open>A sufficient condition for \<open>rx_keeps\<close>: disjoint buffers and callbacks that leave them alone.\<close>

lemma rx_effect_mem:
  assumes "\<And>f d p src priv me. fst (snd (cb f d p src priv me)) a = fst me a"
    and "max 16 (unat (snd x)) \<le> unat (a - b)"
  shows "fst (snd (rx_effect cfg cb xs msg b x me)) a = fst me a"
proof -
  have st: "store_u16 m (b + 10) v a = m a" for m v
    using assms(2) same_outside_store(2) [of b m m 10 v] by (simp add: same_outside_def)
  have ms: "env_memset b 0 (snd x) m a = m a" for m
    using assms(2) unat_u32_less [of "snd x"]
    by (simp add: env_memset_def Let_def mem_write_outside)
  obtain r m e where c: "(case find (\<lambda>y. en_addr y = fst msg) xs of
            None \<Rightarrow> (RL_RELEASE, me)
          | Some y \<Rightarrow> cb (rx_cb (snd (snd y))) (msg_data b) (snd (snd msg)) (fst (snd msg))
                       (rx_cb_data (snd (snd y))) me) = (r, m, e)"
    by (rule prod_cases3)
  have "m a = fst me a"
  proof (cases "find (\<lambda>y. en_addr y = fst msg) xs")
    case (Some y)
    then show ?thesis
      using c assms(1) [of "rx_cb (snd (snd y))" "msg_data b" "snd (snd msg)" "fst (snd msg)" "rx_cb_data (snd (snd y))" me]
      by simp
  qed (use c in auto)
  then show ?thesis by (simp add: rx_effect_def c st ms)
qed

lemma rx_keepsI:
  assumes "\<And>f d p src priv me y a. y \<in> set ys \<Longrightarrow> a \<in> msg_bytes mz (buf_addr P vm (fst y))
      \<Longrightarrow> fst (snd (cb f d p src priv me)) a = fst me a"
    and "\<And>x y. x \<in> set ys \<Longrightarrow> y \<in> set ys \<Longrightarrow> x \<noteq> y \<Longrightarrow>
      outside (buf_addr P vm (fst y)) (16 + unat (load_u16 mz (hdr_len (buf_addr P vm (fst y)))))
        (buf_addr P vm (fst x)) (max 16 (unat (snd x)))"
    and "distinct ys"
  shows "rx_keeps P cfg cb xs vm mz ys"
  using assms
proof (induction ys)
  case (Cons x ys)
  have "fst (snd (rx_effect cfg cb xs (msg_at mz (buf_addr P vm (fst x))) (buf_addr P vm (fst x)) x me)) a
      = fst me a" if y: "y \<in> set ys" "a \<in> msg_bytes mz (buf_addr P vm (fst y))" for me y a
  proof (rule rx_effect_mem)
    show "fst (snd (cb f d p src priv me)) a = fst me a" for f d p src priv me
      using Cons.prems(1) [of y a] y by simp
    have "x \<noteq> y" using y(1) Cons.prems(3) by auto
    then have "outside (buf_addr P vm (fst y)) (16 + unat (load_u16 mz (hdr_len (buf_addr P vm (fst y)))))
        (buf_addr P vm (fst x)) (max 16 (unat (snd x)))" using Cons.prems(2) y(1) by simp
    then show "max 16 (unat (snd x)) \<le> unat (a - buf_addr P vm (fst x))"
      using y(2) by (auto simp: outside_def msg_bytes_def)
  qed
  moreover have "rx_keeps P cfg cb xs vm mz ys"
  proof (rule Cons.IH)
    show "fst (snd (cb f d p src priv me)) a = fst me a"
      if "y \<in> set ys" "a \<in> msg_bytes mz (buf_addr P vm (fst y))" for f d p src priv me y a
      using Cons.prems(1) [of y a] that by simp
    show "outside (buf_addr P vm (fst y)) (16 + unat (load_u16 mz (hdr_len (buf_addr P vm (fst y)))))
        (buf_addr P vm (fst z)) (max 16 (unat (snd z)))"
      if "z \<in> set ys" "y \<in> set ys" "z \<noteq> y" for z y
      using Cons.prems(2) [of z y] that by simp
    show "distinct ys" using Cons.prems(3) by simp
  qed
  ultimately show ?case by simp
qed simp

section \<open>Witness\<close>

text \<open>
  The remote at the other end of the example vring, with endpoint 1; the message of
  the payload 0, 1, 2, 3 from address 30 is pending in the first buffer. The callback records
  the length of the payload.
\<close>

definition ex_rinst :: rpmsg_lite_instance where
  "ex_rinst = instance_zero\<lparr>rvq := 56, dev_ops := Remote_ops, rl_endpoints := 16, dev_lock := 20\<rparr>"

abbreviation (input) ex_ept :: rpmsg_lite_endpoint where
  "ex_ept \<equiv> \<lparr>ept_addr = 1, rx_cb = Fn_app 0, rx_cb_data = 0, ept_rfu = 0\<rparr>"

definition ex_remote :: "memory \<Rightarrow> vring_mem \<Rightarrow> bm_env rl_state" where
  "ex_remote m vm = \<lparr>insts = [8 \<mapsto> ex_rinst], vqs = [56 \<mapsto> ex_vq 8], vrings = [0x8000 \<mapsto> vm],
     llnodes = [16 \<mapsto> \<lparr>l_data = 32, l_attr = 0, l_next = 0, l_prev = 0\<rparr>], epts = [32 \<mapsto> ex_ept],
     mem = m, hp = \<lparr>hp_next = [], hp_live = [8, 16, 32]\<rparr>, env = bm_reset\<rparr>"

definition ex_cb :: "bm_env rx_cb_fn" where
  "ex_cb f d p src priv me = (RL_RELEASE, fst me, (snd me)\<lparr>env_init_counter := int (length p)\<rparr>)"

lemma ex_remote_simps [simp]:
  "insts (ex_remote m vm) 8 = Some ex_rinst" "get_vq 56 (ex_remote m vm) = Some (ex_vq 8, vm)"
  "vqs (ex_remote m vm) 56 = Some (ex_vq 8)" "mem (ex_remote m vm) = m" "env (ex_remote m vm) = bm_reset"
  "rvq ex_rinst = 56" "dev_ops ex_rinst = Remote_ops"
  by (simp_all add: ex_remote_def ex_rinst_def instance_zero_def get_vq_def)

lemma ex_remote_rep: "ept_rep 8 (ex_remote m vm) [(16, 32, ex_ept)]"
  by (simp add: ept_rep_def ex_remote_def ex_rinst_def list_rep_def)

theorem rx_callback_delivers_witness:
  "\<exists>s'. rpmsg_lite_rx_callback (bm_port False) cfg_ex (call_of ex_cb) 56
      (ex_remote (sent_mem 0x1000 1 30 0x2000 4 (\<lambda>a. ucast a)) (avail_push 2 0 ex_vm)) = Some s'
     \<and> env_init_counter (env s') = 4"
proof -
  let ?m = "sent_mem 0x1000 1 30 0x2000 4 (\<lambda>a. ucast a)" and ?vm = "avail_push 2 0 ex_vm"
  have p: "pend Remote_ops (ex_vq 8) ?vm = [(0, 512)]"
    by (simp add: avail_push_def ex_vm_def ring_list_def)
  have r: "vq_ready Remote_ops (ex_vq 8) ?vm" by (simp add: vq_ready_def p del: pend.simps)
  have a: "buf_addr (bm_port False) ?vm 0 = 0x1000"
    using ex_addr(1) [of False] by (simp add: buf_addr_def)
  have "outside 0x2000 (unat (4 :: u32)) 0x1000 16"
    unfolding outside_def
  proof (intro allI impI)
    fix j assume "j < unat (4 :: u32)"
    then have "j = 0 \<or> j = 1 \<or> j = 2 \<or> j = 3" by auto
    then show "16 \<le> unat (0x2000 + of_nat j - 0x1000 :: u32)" by auto
  qed
  then have m: "msg_at ?m 0x1000 = (1, 30, [0, 1, 2, 3])"
    using sent_mem_msg [of 4 "0x2000" "0x1000" 1 30 "\<lambda>a. ucast a"] by (simp add: mem_read_def upt_conv_Cons)
  have e: "rx_effects (bm_port False) cfg_ex ex_cb [(16, 32, ex_ept)] ?vm ?m
      (pend Remote_ops (ex_vq 8) ?vm) (?m, bm_reset) = ([(0, 512)], ?m, bm_reset\<lparr>env_init_counter := 4\<rparr>)"
    by (simp add: p a m rx_effect_def ex_cb_def del: pend.simps)
  have "\<exists>vq' vm'. vq_ready (dev_ops ex_rinst) vq' vm' \<and> pend (dev_ops ex_rinst) vq' vm' = []
    \<and> released_to (dev_ops ex_rinst) (ex_vq 8, ?vm) [(0, 512)] (vq', vm')
    \<and> rpmsg_lite_rx_callback (bm_port False) cfg_ex (call_of ex_cb) 56 (ex_remote ?m ?vm) =
       (let s' = put_vq (rvq ex_rinst) vq' vm'
          (ex_remote ?m ?vm\<lparr>mem := ?m, env := bm_reset\<lparr>env_init_counter := 4\<rparr>\<rparr>)
        in if cfg_consumed_notification cfg_ex \<and> [(0 :: u16, 512 :: u32)] \<noteq> []
           then vq_kick (bm_port False) cfg_ex (rvq ex_rinst) s' else Some s')"
    by (rule rx_callback_delivers [where vqc = "ex_vq 8" and cb = ex_cb and einv = "\<lambda>e. True" and xs = "[(16, 32, ex_ept)]", OF _ _ _ ex_remote_rep]) (use e r p a in \<open>simp_all del: pend.simps\<close>)
  then show ?thesis by auto
qed

end
