(* ===== verification/Rpmsg_Delivery.thy ===== *)
theory Rpmsg_Delivery
  imports Rpmsg_Send Rpmsg_Receive
begin

text \<open>
  A message from one core to the other, the zero-copy interface, and concrete instances of the
  theorems on sending and receiving: a master and a remote that share a vring with two
  buffers.
\<close>

section \<open>From the sender's payload to the receiver's callback\<close>

text \<open>The receiver's state with the shared memory as the sender left it.\<close>

definition see_shared :: "'e rl_state \<Rightarrow> 'e rl_state \<Rightarrow> 'e rl_state" where
  "see_shared s t = t\<lparr>mem := mem s, vrings := vrings s\<rparr>"

lemma see_shared_simps [simp]:
  "insts (see_shared s t) = insts t" "vqs (see_shared s t) = vqs t" "env (see_shared s t) = env t"
  "mem (see_shared s t) = mem s" "ept_rep dev (see_shared s t) xs = ept_rep dev t xs"
  by (simp_all add: see_shared_def ept_rep_def)

lemma get_vq_shared:
  assumes "get_vq v s = Some (vq, vm)" "vqs t w = Some pq" "vr_desc (vq_ring pq) = vr_desc (vq_ring vq)"
  shows "get_vq w (see_shared s t) = Some (pq, vm)"
  using assms by (auto simp: get_vq_def see_shared_def split: bind_splits)

lemma peer_peer [simp]: "peer_ops (peer_ops ops) = ops"
  by (cases ops) simp_all

lemma vq_wf_put [simp]: "vq_wf pq (snd (put ops x q)) = vq_wf pq (snd q)"
  by (cases ops) simp_all

lemma vq_ready_peer_put:
  assumes "vq_ready (peer_ops ops) pq vm" "pend (peer_ops ops) pq vm = []" "vq_wf vq vm"
    and "vq_nentries pq = vq_nentries vq" "fst x < vq_nentries vq"
  shows "vq_ready (peer_ops ops) pq (snd (put ops x (vq, vm)))"
    and "pend (peer_ops ops) pq (snd (put ops x (vq, vm))) = [(fst x, peer_len ops vm x)]"
proof -
  have o: "ops \<noteq> Ops_NULL" using assms(1) by (auto simp: vq_ready_def)
  have "has_room (peer_ops ops) pq vm"
    using assms(2,4) vq_wf_lengths(4) [OF assms(3)] by (simp add: has_room_def)
  from pend_peer_put [OF assms(3,4) o this, of x] assms(2)
  show p: "pend (peer_ops ops) pq (snd (put ops x (vq, vm))) = [(fst x, peer_len ops vm x)]" by simp
  then show "vq_ready (peer_ops ops) pq (snd (put ops x (vq, vm)))"
    using assms(1,4,5) by (simp add: vq_ready_def)
qed

lemma bm_buf_addr: "vm_desc vm' = vm_desc vm \<Longrightarrow> buf_addr (bm_port a) vm' i = buf_addr (bm_port b) vm i"
  by (simp add: buf_addr_def bm_port_def)

lemma find_addr: "ept_rep dev s xs \<Longrightarrow> y \<in> set xs \<Longrightarrow> find (\<lambda>z. en_addr z = en_addr y) xs = Some y"
  by (rule find_remove) (auto simp: ept_rep_def)

lemma message_delivery:
  assumes sender: "tx_ready (bm_port side_a) dev i s" "link_state i = 1"
      "get_vq (tvq i) s = Some (vq, vm)" "pend (dev_ops i) vq vm = (idx, l) # free_bufs"
      "length (pend (dev_ops i) vq vm) \<le> unat (vq_nentries vq)"
    and args: "ept \<noteq> NULL" "dev \<noteq> NULL" "data \<noteq> NULL" "epts s ept = Some e"
      "len \<le> buffer_payload_size (link_shmem cfg (link_id i))" "unat len \<le> 0xFFFF"
      "outside data (unat len) (buf_addr (bm_port side_a) vm idx) 16"
    and receiver: "dev2 \<noteq> NULL" "insts t dev2 = Some j" "dev_ops j = peer_ops (dev_ops i)"
      "ept_rep dev2 t xs" "y \<in> set xs" "en_addr y = dst"
      "rvq j \<noteq> NULL" "vqs t (rvq j) = Some pq" "vq_priv pq = dev2"
    and shared: "vr_desc (vq_ring pq) = vr_desc (vq_ring vq)" "vq_nentries pq = vq_nentries vq"
      "vq_ready (dev_ops j) pq vm" "pend (dev_ops j) pq vm = []"
    and cfg2: "\<not> cfg_consumed_notification cfg2" "\<not> cfg_clear_used cfg2"
    and cl: "calls call_rx cb xs einv" "einv (env t)"
  shows "\<exists>s' t'. rpmsg_lite_send (bm_port side_a) cfg world dev ept dst data len timeout s =
        Some (RL_SUCCESS, s')
    \<and> rpmsg_lite_rx_callback (bm_port side_b) cfg2 call_rx (rvq j) (see_shared s' t) = Some t'
    \<and> (let (r, m, env2) = cb (rx_cb (snd (snd y))) (msg_data (buf_addr (bm_port side_a) vm idx)) (mem_read (mem s) data (unat len)) (ept_addr e)
                            (rx_cb_data (snd (snd y))) (mem s', env t)
       in env t' = env2
        \<and> (if r = RL_HOLD then mem t' = store_u16 m (hdr_idx (buf_addr (bm_port side_a) vm idx)) idx
           else mem t' = m \<and> tx_bufs i (see_shared t' s') =
             free_bufs @ [(idx, peer_len (dev_ops j) vm (idx, peer_len (dev_ops i) vm (idx, l)))]))"
proof -
  let ?b = "buf_addr (bm_port side_a) vm idx" and ?x = "(idx, l)"
  let ?vq = "sent_vq (dev_ops i) ?x (took (dev_ops i) vq) vm"
  let ?vm = "sent_vring (dev_ops i) ?x (took (dev_ops i) vq) vm"
  let ?m = "sent_mem ?b dst (ept_addr e) data len (mem s)"
  let ?y = "(idx, peer_len (dev_ops i) vm ?x)"
  have r: "vq_ready (dev_ops i) vq vm" "vq_wf vq vm" "?b \<noteq> NULL" "idx < vq_nentries vq"
    "vr_desc (vq_ring pq) = vr_desc (vq_ring ?vq)"
    using sender shared(1) by (auto simp: tx_ready_def vq_ready_def)
  obtain e' where send: "rpmsg_lite_send (bm_port side_a) cfg world dev ept dst data len timeout s =
      Some (RL_SUCCESS, put_vq (tvq i) ?vq ?vm (s\<lparr>mem := ?m, env := e'\<rparr>))"
    using bm.send_ok [OF sender(1) TrueI sender(2-4) args(1-5)] by blast
  define s' where "s' = put_vq (tvq i) ?vq ?vm (s\<lparr>mem := ?m, env := e'\<rparr>)"
  have q: "get_vq (tvq i) s' = Some (?vq, ?vm)" "mem s' = ?m" by (simp_all add: s'_def)
  have "vq_ready (dev_ops j) pq ?vm \<and> pend (dev_ops j) pq ?vm = [?y]"
    using vq_ready_peer_put [of "dev_ops i" pq vm "took (dev_ops i) vq" ?x] shared r receiver(3)
    by (simp add: sent_vring_def)
  then have rdy: "vq_ready (dev_ops j) pq ?vm" "pend (dev_ops j) pq ?vm = [?y]" by simp_all
  have ba: "buf_addr (bm_port side_b) ?vm idx = ?b" by (rule bm_buf_addr) simp
  have msg: "msg_at ?m ?b = (dst, ept_addr e, mem_read (mem s) data (unat len))"
    using args by (intro sent_mem_msg) simp_all
  obtain rr m env2 where cb: "cb (rx_cb (snd (snd y))) (msg_data (buf_addr (bm_port side_a) vm idx)) (mem_read (mem s) data (unat len)) (ept_addr e)
      (rx_cb_data (snd (snd y))) (mem s', env t) = (rr, m, env2)" by (rule prod_cases3)
  let ?rel = "if rr = RL_HOLD then [] else [?y]"
  let ?m' = "if rr = RL_HOLD then store_u16 m (hdr_idx ?b) idx else m"
  have eff: "rx_effects (bm_port side_b) cfg2 cb xs ?vm (mem s') (pend (dev_ops j) pq ?vm) (mem s', env t)
      = (?rel, ?m', env2)"
    using find_addr [OF receiver(4,5)] receiver(6) cb cfg2(2) msg q(2)
    by (simp add: rdy(2) ba rx_effect_def Let_def)
  have gv: "get_vq (rvq j) (see_shared s' t) = Some (pq, ?vm)"
    using get_vq_shared [OF q(1) receiver(8)] r(5) by simp
  have "\<exists>vq2 vm2. vq_ready (dev_ops j) vq2 vm2 \<and> pend (dev_ops j) vq2 vm2 = []
    \<and> released_to (dev_ops j) (pq, ?vm) ?rel (vq2, vm2)
    \<and> rpmsg_lite_rx_callback (bm_port side_b) cfg2 call_rx (rvq j) (see_shared s' t) =
       (let t' = put_vq (rvq j) vq2 vm2 (see_shared s' t\<lparr>mem := ?m', env := env2\<rparr>)
        in if cfg_consumed_notification cfg2 \<and> ?rel \<noteq> []
           then vq_kick (bm_port side_b) cfg2 (rvq j) t' else Some t')"
  proof (rule rx_callback_spec [where einv = einv and cb = cb and xs = xs, OF _ receiver(9,1) _ _ receiver(7) gv rdy(1)])
    show "rx_effects (bm_port side_b) cfg2 cb xs ?vm (mem (see_shared s' t)) (pend (dev_ops j) pq ?vm)
      (mem (see_shared s' t), env (see_shared s' t)) = (?rel, ?m', env2)" using eff by simp
  qed (use receiver(2,4,8) rdy(2) r(3) ba cl in simp_all)
  then obtain vq2 vm2 where fin: "released_to (dev_ops j) (pq, ?vm) ?rel (vq2, vm2)"
    "rpmsg_lite_rx_callback (bm_port side_b) cfg2 call_rx (rvq j) (see_shared s' t) =
      Some (put_vq (rvq j) vq2 vm2 (see_shared s' t\<lparr>mem := ?m', env := env2\<rparr>))"
    using cfg2(1) by auto
  define t' where "t' = put_vq (rvq j) vq2 vm2 (see_shared s' t\<lparr>mem := ?m', env := env2\<rparr>)"
  have "tx_bufs i (see_shared t' s') = free_bufs @ [(idx, peer_len (dev_ops j) vm ?y)]" if "rr \<noteq> RL_HOLD"
  proof -
    have fb: "pend (dev_ops i) ?vq ?vm = free_bufs" using pend_took [OF r(2) sender(4)] by simp
    have "vqs s' (tvq i) = Some ?vq" "vrings t' (vr_desc (vq_ring ?vq)) = Some vm2"
      using fin(1) r(5) by (auto simp: s'_def t'_def put_vq_def released_to_def)
    then have "tx_bufs i (see_shared t' s') = pend (dev_ops i) ?vq vm2"
      by (simp add: tx_bufs_def get_vq_def see_shared_def)
    also have "\<dots> = free_bufs @ map (\<lambda>x. (fst x, peer_len (dev_ops j) ?vm x)) [?y]"
    proof -
      have "peer_ops (dev_ops j) = dev_ops i" using receiver(3) by simp
      moreover have "length free_bufs + 1 \<le> unat (vq_nentries vq)" using sender(4,5) by simp
      moreover have "released_to (dev_ops j) (pq, ?vm) [?y] (vq2, vm2)" using fin(1) that by simp
      ultimately show ?thesis using fb shared(2) by (simp add: released_to_def)
    qed
    finally show ?thesis using peer_len_desc [of ?vm vm "dev_ops j"] by simp
  qed
  moreover have "mem t' = ?m'" "env t' = env2" by (simp_all add: t'_def)
  ultimately show ?thesis
    using send fin(2) cb unfolding s'_def [symmetric] t'_def [symmetric]
    by (intro exI [of _ s'] exI [of _ t']) auto
qed

text \<open>
  C1: A message arrives: what the sender passes to \<open>rpmsg_lite_send\<close> (payload of at most 65535 bytes,
  destination of an endpoint of the receiver) is what the callback of that endpoint gets, with the
  sender's address as the source, when the receiver handles its interrupt; the callback is
  called exactly once. If it does not hold the buffer, the buffer is back among the sender's free
  ones, behind the others: no buffer is lost.
\<close>

theorem message_delivered:
  assumes sender: "tx_ready (bm_port side_a) dev i s" "link_state i = 1"
      "get_vq (tvq i) s = Some (vq, vm)" "pend (dev_ops i) vq vm = (idx, l) # free_bufs"
      "length (pend (dev_ops i) vq vm) \<le> unat (vq_nentries vq)"
    and args: "ept \<noteq> NULL" "dev \<noteq> NULL" "data \<noteq> NULL" "epts s ept = Some e"
      "len \<le> buffer_payload_size (link_shmem cfg (link_id i))" "unat len \<le> 0xFFFF"
      "outside data (unat len) (buf_addr (bm_port side_a) vm idx) 16"
    and receiver: "dev2 \<noteq> NULL" "insts t dev2 = Some j" "dev_ops j = peer_ops (dev_ops i)"
      "ept_rep dev2 t xs" "y \<in> set xs" "en_addr y = dst"
      "rvq j \<noteq> NULL" "vqs t (rvq j) = Some pq" "vq_priv pq = dev2"
    and shared: "vr_desc (vq_ring pq) = vr_desc (vq_ring vq)" "vq_nentries pq = vq_nentries vq"
      "vq_ready (dev_ops j) pq vm" "pend (dev_ops j) pq vm = []"
    and cfg2: "\<not> cfg_consumed_notification cfg2" "\<not> cfg_clear_used cfg2"
    and cl: "calls call_rx cb xs einv" "einv (env t)"
  shows "\<exists>s' t'. rpmsg_lite_send (bm_port side_a) cfg world dev ept dst data len timeout s =
        Some (RL_SUCCESS, s')
    \<and> rpmsg_lite_rx_callback (bm_port side_b) cfg2 call_rx (rvq j) (see_shared s' t) = Some t'
    \<and> (let (r, m, env2) = cb (rx_cb (snd (snd y))) (msg_data (buf_addr (bm_port side_a) vm idx)) (mem_read (mem s) data (unat len)) (ept_addr e)
                            (rx_cb_data (snd (snd y))) (mem s', env t)
       in env t' = env2
        \<and> (if r = RL_HOLD then mem t' = store_u16 m (hdr_idx (buf_addr (bm_port side_a) vm idx)) idx
           else mem t' = m \<and> tx_bufs i (see_shared t' s') =
             free_bufs @ [(idx, peer_len (dev_ops j) vm (idx, peer_len (dev_ops i) vm (idx, l)))]))"
  by (rule message_delivery [OF assms])

section \<open>The zero-copy interface\<close>

lemma bm_locks:
  "lock_mutex (bm_port a) l s = Some s" "unlock_mutex (bm_port a) l s = Some s"
  by (simp_all add: lock_mutex_def unlock_mutex_def bm_port_def env_lock_mutex_def env_unlock_mutex_def)

lemma load_store_u16 [simp]: "load_u16 (store_u16 m a v) a = v"
  by (rule load_u16_bytes) (use mem_read_write_same [of "u16_bytes v" m a] in \<open>simp add: store_u16_def\<close>)

lemma bm_alloc_some:
  assumes "tx_ready (bm_port side_a) dev i s" "get_vq (tvq i) s = Some (vq, vm)"
    and "pend (dev_ops i) vq vm = (idx, l) # xs"
  shows "tx_alloc_locked (bm_port side_a) cfg dev s = Some ((buf_addr (bm_port side_a) vm idx, Some (l, idx)),
      put_vq (tvq i) (took (dev_ops i) vq) vm s)"
proof -
  have r: "insts s dev = Some i" "tvq i \<noteq> NULL" "vq_ready (dev_ops i) vq vm"
    using assms(1,2) by (auto simp: tx_ready_def)
  show ?thesis
    using r(1) assms(3)
    by (simp add: tx_alloc_locked_def bm_locks vq_tx_alloc_eq [OF assms(2) r(3,2)])
qed

lemma bm_put_kick:
  assumes "get_vq v s = Some (vq, vm)" "vq_ready ops vq vm" "idx < vq_nentries vq"
  shows "\<exists>e. (do { s \<leftarrow> vq_tx ops cfg v b l idx s; vq_kick (bm_port a) cfg v s }) =
    Some (put_vq v (sent_vq ops (idx, l) vq vm) (sent_vring ops (idx, l) vq vm) (s\<lparr>env := e\<rparr>))"
proof -
  let ?q = "put ops (idx, l) (vq, vm)"
  let ?s = "put_vq v (fst ?q) (snd ?q) s"
  have "vq_ready ops (fst ?q) (snd ?q)" using assms(2) by simp
  from bm.vq_kick_ok(2) [where s = ?s and v = v and cfg = cfg, OF get_vq_put this TrueI, of a] obtain e where
    "vq_kick (bm_port a) cfg v ?s = Some (put_vq v ((fst ?q)\<lparr>vq_queued_cnt := 0\<rparr>) (snd ?q) (?s\<lparr>env := e\<rparr>))"
    by blast
  then show ?thesis
    using vq_tx_eq [OF assms] by (intro exI [of _ e]) (simp add: sent_vq_def sent_vring_def)
qed

lemma buffer_length_eq:
  "vq_wf vq vm \<Longrightarrow> idx < vq_nentries vq \<Longrightarrow>
    virtqueue_get_buffer_length vm idx = Some (d_len (vm_desc vm ! unat idx))"
  using vq_wf_lengths(1) [of vq vm] by (simp add: virtqueue_get_buffer_length_def word_less_nat_alt)

lemma debug_check_ok:
  assumes "get_vq v s = Some (vq, vm)" "vq_wf vq vm" "idx < vq_nentries vq"
    and "d_addr (vm_desc vm ! unat idx) = ucast b"
  shows "debug_check_buffer cfg v b s = Some ()"
proof -
  have "unat idx < length (vm_desc vm)" "length (vm_desc vm) = unat (vq_nentries vq)"
    using assms(2,3) vq_wf_lengths(1) by (simp_all add: word_less_nat_alt)
  then have "ucast b \<in> set (map d_addr (take (unat (vq_nentries vq)) (vm_desc vm)))"
    using assms(4) by (metis length_map nth_map nth_mem order_refl take_all)
  then show ?thesis using assms(1) by (simp add: debug_check_buffer_def)
qed

lemma send_nocopy_eq:
  assumes i: "insts s dev = Some i" "link_state i = 1"
    and q: "get_vq (tvq i) s = Some (vq, vm)" "vq_ready (dev_ops i) vq vm"
    and idx: "load_u16 (mem s) (hdr_idx b) = idx" "idx < vq_nentries vq"
      "d_addr (vm_desc vm ! unat idx) = ucast b"
    and args: "ept \<noteq> NULL" "msg_data b \<noteq> NULL" "epts s ept = Some e"
      "len \<le> buffer_payload_size (link_shmem cfg (link_id i))"
  shows "\<exists>e'. rpmsg_lite_send_nocopy (bm_port side_a) cfg dev ept dst (msg_data b) len s =
    (let x = (idx, d_len (vm_desc vm ! unat idx))
     in Some (RL_SUCCESS, put_vq (tvq i) (sent_vq (dev_ops i) x vq vm) (sent_vring (dev_ops i) x vq vm)
          (s\<lparr>mem := write_hdr b dst (ept_addr e) len 0 (mem s), env := e'\<rparr>)))"
proof -
  let ?l = "d_len (vm_desc vm ! unat idx)"
  let ?s = "s\<lparr>mem := write_hdr b dst (ept_addr e) len 0 (mem s)\<rparr>"
  have w: "vq_wf vq vm" using q(2) by (simp add: vq_ready_def)
  have q2: "get_vq (tvq i) ?s = Some (vq, vm)" using q(1) by simp
  from bm_put_kick [OF q2 q(2) idx(2)] obtain e' where e':
    "(do { s \<leftarrow> vq_tx (dev_ops i) cfg (tvq i) b ?l idx ?s; vq_kick (bm_port side_a) cfg (tvq i) s }) =
     Some (put_vq (tvq i) (sent_vq (dev_ops i) (idx, ?l) vq vm) (sent_vring (dev_ops i) (idx, ?l) vq vm)
       (?s\<lparr>env := e'\<rparr>))" by blast
  have m: "RPMSG_STD_MSG_FROM_BUF (msg_data b) = b" by (simp add: RPMSG_STD_MSG_FROM_BUF_def)
  have nl: "\<not> buffer_payload_size (link_shmem cfg (link_id i)) < len" using args(4) by simp
  have id: "load_u16 (mem ?s) (hdr_idx b) = idx" using idx(1) by (simp add: write_hdr_fields)
  have "rpmsg_lite_send_nocopy (bm_port side_a) cfg dev ept dst (msg_data b) len s =
      do { s \<leftarrow> (do { s \<leftarrow> vq_tx (dev_ops i) cfg (tvq i) b ?l idx ?s; vq_kick (bm_port side_a) cfg (tvq i) s });
           Some (RL_SUCCESS, s) }"
    using args(1,2,3) i nl q2 id
    by (simp add: rpmsg_lite_send_nocopy_def m debug_check_ok [OF q(1) w idx(2,3)] bm_locks
        buffer_length_eq [OF w idx(2)])
  then show ?thesis using e' by (intro exI [of _ e']) (simp add: Let_def)
qed

text \<open>
  C17: Sending without a copy, for both roles: \<open>rpmsg_lite_alloc_tx_buffer\<close> hands out the payload area of
  the oldest free buffer with its size (the buffer's length less the header), and, whatever the
  application then does with the memory as long as it keeps the two bytes of the header that hold the
  index, \<open>rpmsg_lite_send_nocopy\<close> sends exactly that buffer: it adds the header, keeps the payload the
  application wrote, and puts the buffer behind what the peer has not yet taken.
\<close>

theorem nocopy_send_correct:
  assumes b: "b = buf_addr (bm_port side_a) vm idx" "msg_data b \<noteq> NULL"
      "d_addr (vm_desc vm ! unat idx) = ucast b"
    and rdy: "tx_ready (bm_port side_a) dev i s" "link_state i = 1"
      "get_vq (tvq i) s = Some (vq, vm)" "pend (dev_ops i) vq vm = (idx, l) # xs" "16 \<le> l"
    and args: "ept \<noteq> NULL" "epts s ept = Some e" "unat len \<le> 0xFFFF"
      "len \<le> buffer_payload_size (link_shmem cfg (link_id i))"
    and peer: "vq_nentries pq = vq_nentries vq" "has_room (peer_ops (dev_ops i)) pq vm"
    and app: "\<And>m. load_u16 (app m) (hdr_idx b) = load_u16 m (hdr_idx b)"
  shows "\<exists>s1 s2 vq' vm'. rpmsg_lite_alloc_tx_buffer (bm_port side_a) cfg world dev True timeout s =
        Some (msg_data b, Some (l - 16), s1)
    \<and> same_outside b 16 (mem s) (mem s1)
    \<and> rpmsg_lite_send_nocopy (bm_port side_a) cfg dev ept dst (msg_data b) len (s1\<lparr>mem := app (mem s1)\<rparr>) =
        Some (RL_SUCCESS, s2)
    \<and> msg_at (mem s2) b = (dst, ept_addr e, mem_read (app (mem s1)) (msg_data b) (unat len))
    \<and> get_vq (tvq i) s2 = Some (vq', vm') \<and> pend (dev_ops i) vq' vm' = xs
    \<and> pend (peer_ops (dev_ops i)) pq vm' = pend (peer_ops (dev_ops i)) pq vm
        @ [(idx, peer_len (dev_ops i) vm (idx, d_len (vm_desc vm ! unat idx)))]"
proof -
  have r: "insts s dev = Some i" "vq_ready (dev_ops i) vq vm" "vq_wf vq vm" "b \<noteq> NULL"
    "idx < vq_nentries vq" "dev_ops i \<noteq> Ops_NULL"
    using rdy(1,3,4) b(1) by (auto simp: tx_ready_def vq_ready_def)
  let ?vq = "took (dev_ops i) vq" and ?x = "(idx, d_len (vm_desc vm ! unat idx))"
  let ?s1 = "put_vq (tvq i) ?vq vm (s\<lparr>mem := store_u16 (mem s) (hdr_idx b) idx\<rparr>)"
  let ?a = "?s1\<lparr>mem := app (mem ?s1)\<rparr>"
  have al: "rpmsg_lite_alloc_tx_buffer (bm_port side_a) cfg world dev True timeout s =
        Some (msg_data b, Some (l - 16), ?s1)"
    using r rdy(2,5) bm_alloc_some [OF rdy(1,3,4), of cfg]
    by (simp add: rpmsg_lite_alloc_tx_buffer_def tx_alloc_timeout_def flip: b(1))
  have "\<exists>e'. rpmsg_lite_send_nocopy (bm_port side_a) cfg dev ept dst (msg_data b) len ?a =
    (let x = ?x in Some (RL_SUCCESS, put_vq (tvq i) (sent_vq (dev_ops i) x ?vq vm)
          (sent_vring (dev_ops i) x ?vq vm) (?a\<lparr>mem := write_hdr b dst (ept_addr e) len 0 (mem ?a), env := e'\<rparr>)))"
  proof (rule send_nocopy_eq)
    show "vq_ready (dev_ops i) ?vq vm" by (rule vq_ready_took [OF r(2) rdy(4)])
    show "load_u16 (mem ?a) (hdr_idx b) = idx" by (simp add: app)
  qed (use r rdy(2) args b in simp_all)
  then obtain e' where sd: "rpmsg_lite_send_nocopy (bm_port side_a) cfg dev ept dst (msg_data b) len ?a =
      Some (RL_SUCCESS, put_vq (tvq i) (sent_vq (dev_ops i) ?x ?vq vm)
          (sent_vring (dev_ops i) ?x ?vq vm) (?a\<lparr>mem := write_hdr b dst (ept_addr e) len 0 (mem ?a), env := e'\<rparr>))"
    by (auto simp: Let_def)
  have so: "same_outside b 16 (mem s) (mem ?s1)" using same_outside_store(2) [of b "mem s" "mem s" 10] by simp
  have pl: "mem_read (write_hdr b dst (ept_addr e) len 0 m) (msg_data b) (unat len) =
      mem_read m (msg_data b) (unat len)" for m
  proof (rule nth_equalityI; simp)
    fix k assume k: "k < unat len"
    then have "16 \<le> unat (b + 16 + of_nat k - b)" using args(3) by (simp add: unat_word_ariths unat_of_nat)
    then show "write_hdr b dst (ept_addr e) len 0 m (b + 16 + word_of_nat k) = m (b + 16 + word_of_nat k)"
      using write_hdr_same [of b m] by (simp add: same_outside_def)
  qed
  have msg: "msg_at (write_hdr b dst (ept_addr e) len 0 m) b =
      (dst, ept_addr e, mem_read m (msg_data b) (unat len))" for m
    using args(3) pl by (simp add: msg_at_def write_hdr_fields unsigned_ucast_eq take_bit_nat_eq_self)
  have pp: "pend (peer_ops (dev_ops i)) pq (sent_vring (dev_ops i) ?x ?vq vm) =
      pend (peer_ops (dev_ops i)) pq vm @ [(idx, peer_len (dev_ops i) vm ?x)]"
    using pend_peer_put [of ?vq vm pq "dev_ops i" ?x] peer r(3,6) by (simp add: sent_vring_def)
  have own: "pend (dev_ops i) (sent_vq (dev_ops i) ?x ?vq vm) (sent_vring (dev_ops i) ?x ?vq vm) = xs"
    using pend_took [OF r(3) rdy(4)] by simp
  show ?thesis
    by (rule exI, rule exI, rule exI, rule exI, intro conjI, rule al, rule so, rule sd, simp add: msg,
        rule get_vq_put, rule own, rule pp)
qed

text \<open>
  C18: \<open>rpmsg_lite_release_rx_buffer\<close> returns a held buffer to the peer, for both roles: it finds the
  index in the header, where the receive callback stored it, puts the buffer with its full
  length behind what the peer has not yet taken, and changes neither the pending messages nor
  (unless used buffers are cleared) memory. NULL arguments are refused.
\<close>

theorem release_rx_buffer_correct:
  assumes "insts s dev = Some i" "dev \<noteq> NULL" "msg_data b \<noteq> NULL"
    and "get_vq (rvq i) s = Some (vq, vm)" "vq_ready (dev_ops i) vq vm"
    and "load_u16 (mem s) (hdr_idx b) = idx" "idx < vq_nentries vq"
    and "d_addr (vm_desc vm ! unat idx) = ucast b"
    and "vq_nentries pq = vq_nentries vq" "has_room (peer_ops (dev_ops i)) pq vm"
    and "\<not> cfg_clear_used cfg"
  shows "\<exists>s' vq' vm'. rpmsg_lite_release_rx_buffer (bm_port side_a) cfg dev (msg_data b) s =
        Some (RL_SUCCESS, s')
    \<and> mem s' = mem s \<and> get_vq (rvq i) s' = Some (vq', vm')
    \<and> pend (dev_ops i) vq' vm' = pend (dev_ops i) vq vm
    \<and> pend (peer_ops (dev_ops i)) pq vm' = pend (peer_ops (dev_ops i)) pq vm
        @ [(idx, peer_len (dev_ops i) vm (idx, d_len (vm_desc vm ! unat idx)))]
    \<and> rpmsg_lite_release_rx_buffer (bm_port side_a) cfg NULL (msg_data b) s = Some (RL_ERR_PARAM, s)
    \<and> rpmsg_lite_release_rx_buffer (bm_port side_a) cfg dev NULL s = Some (RL_ERR_PARAM, s)"
proof -
  let ?l = "d_len (vm_desc vm ! unat idx)"
  have w: "vq_wf vq vm" "dev_ops i \<noteq> Ops_NULL" using assms(5) by (simp_all add: vq_ready_def)
  have m: "RPMSG_STD_MSG_FROM_BUF (msg_data b) = b" by (simp add: RPMSG_STD_MSG_FROM_BUF_def)
  note tx = vq_tx_eq [OF assms(4,5,7), of cfg b ?l]
  have start: "rpmsg_lite_release_rx_buffer (bm_port side_a) cfg dev (msg_data b) s =
      do { s \<leftarrow> vq_tx (dev_ops i) cfg (rvq i) b ?l idx s;
           s \<leftarrow> (if cfg_consumed_notification cfg then vq_kick (bm_port side_a) cfg (rvq i) s else Some s);
           Some (RL_SUCCESS, s) }"
    using assms(1-4,6,11)
    by (simp add: rpmsg_lite_release_rx_buffer_def m debug_check_ok [OF assms(4) w(1) assms(7,8)]
        bm_locks buffer_length_eq [OF w(1) assms(7)] vq_rx_free_tx)
  have "\<exists>s' vq' vm'. rpmsg_lite_release_rx_buffer (bm_port side_a) cfg dev (msg_data b) s = Some (RL_SUCCESS, s')
      \<and> mem s' = mem s \<and> get_vq (rvq i) s' = Some (vq', vm')
      \<and> pend (dev_ops i) vq' vm' = pend (dev_ops i) vq vm \<and> vm' = snd (put (dev_ops i) (idx, ?l) (vq, vm))"
  proof (cases "cfg_consumed_notification cfg")
    case True
    obtain e where "(do { s \<leftarrow> vq_tx (dev_ops i) cfg (rvq i) b ?l idx s;
          vq_kick (bm_port side_a) cfg (rvq i) s }) =
        Some (put_vq (rvq i) (sent_vq (dev_ops i) (idx, ?l) vq vm) (sent_vring (dev_ops i) (idx, ?l) vq vm)
          (s\<lparr>env := e\<rparr>))" using bm_put_kick [OF assms(4,5,7)] by blast
    then show ?thesis
      using True tx unfolding start
      by (intro exI [of _ "put_vq (rvq i) (sent_vq (dev_ops i) (idx, ?l) vq vm)
          (sent_vring (dev_ops i) (idx, ?l) vq vm) (s\<lparr>env := e\<rparr>)"]) (simp add: sent_vring_def sent_vq_def)
  next
    case False
    let ?q = "put (dev_ops i) (idx, ?l) (vq, vm)"
    have "get_vq (rvq i) (put_vq (rvq i) (fst ?q) (snd ?q) s) = Some (fst ?q, snd ?q)"
      "pend (dev_ops i) (fst ?q) (snd ?q) = pend (dev_ops i) vq vm" by simp_all
    moreover have "rpmsg_lite_release_rx_buffer (bm_port side_a) cfg dev (msg_data b) s =
        Some (RL_SUCCESS, put_vq (rvq i) (fst ?q) (snd ?q) s)" using False tx unfolding start by simp
    ultimately show ?thesis by (metis put_vq_simps(4))
  qed
  moreover have "pend (peer_ops (dev_ops i)) pq (snd (put (dev_ops i) (idx, ?l) (vq, vm))) =
      pend (peer_ops (dev_ops i)) pq vm @ [(idx, peer_len (dev_ops i) vm (idx, ?l))]"
    using pend_peer_put [OF w(1) assms(9) w(2) assms(10), of "(idx, ?l)"] by simp
  moreover have "rpmsg_lite_release_rx_buffer (bm_port side_a) cfg NULL (msg_data b) s = Some (RL_ERR_PARAM, s)"
    "rpmsg_lite_release_rx_buffer (bm_port side_a) cfg dev NULL s = Some (RL_ERR_PARAM, s)"
    using assms(2) by (simp_all add: rpmsg_lite_release_rx_buffer_def)
  ultimately show ?thesis by blast
qed

section \<open>Witnesses\<close>

abbreviation (input) ex_sender :: rpmsg_lite_endpoint where
  "ex_sender \<equiv> \<lparr>ept_addr = 30, rx_cb = Fn_app 0, rx_cb_data = 0, ept_rfu = 0\<rparr>"

lemma ex_pend_master: "pend (dev_ops ex_inst) (ex_vq 8) ex_vm = [(0, 512), (1, 512)]"
  by (simp del: pend.simps)

lemma ex_room: "has_room (peer_ops (dev_ops ex_inst)) (ex_vq 9) ex_vm"
  by (simp add: has_room_def del: pend.simps)

theorem message_delivered_witness:
  "\<exists>s' t'. rpmsg_lite_send (bm_port True) cfg_ex (\<lambda>s. s) 8 32 1 0x2000 4 0 ex_master = Some (RL_SUCCESS, s')
     \<and> rpmsg_lite_rx_callback (bm_port False) cfg_ex (call_of ex_cb) 56
          (see_shared s' (ex_remote (\<lambda>a. 0) ex_vm)) = Some t'
     \<and> env_init_counter (env t') = 4 \<and> tx_bufs ex_inst (see_shared t' s') = [(1, 512), (0, 512)]"
proof -
  have "\<exists>s' t'. rpmsg_lite_send (bm_port True) cfg_ex (\<lambda>s. s) 8 32 1 0x2000 4 0 ex_master =
        Some (RL_SUCCESS, s')
    \<and> rpmsg_lite_rx_callback (bm_port False) cfg_ex (call_of ex_cb) (rvq ex_rinst)
        (see_shared s' (ex_remote (\<lambda>a. 0) ex_vm)) = Some t'
    \<and> (let (r, m, env2) = ex_cb (rx_cb (snd (snd (16::ptr, 32::ptr, ex_ept)))) (msg_data (buf_addr (bm_port True) ex_vm 0))
          (mem_read (mem ex_master) 0x2000 (unat (4 :: u32))) (ept_addr ex_sender)
          (rx_cb_data (snd (snd (16::ptr, 32::ptr, ex_ept)))) (mem s', env (ex_remote (\<lambda>a. 0) ex_vm))
       in env t' = env2
        \<and> (if r = RL_HOLD then mem t' = store_u16 m (hdr_idx (buf_addr (bm_port True) ex_vm 0)) 0
           else mem t' = m \<and> tx_bufs ex_inst (see_shared t' s') = [(1, 512)] @
             [(0, peer_len (dev_ops ex_rinst) ex_vm (0, peer_len (dev_ops ex_inst) ex_vm (0, 512)))]))"
    by (rule message_delivered [where cfg = cfg_ex and cb = ex_cb and einv = "\<lambda>e. True" and y = "(16, 32, ex_ept)" and pq = "ex_vq 8" and ?dev2.0 = 8,
          OF ex_tx_ready _ _ ex_pend_master _ _ _ _ _ _ _ _ _ _ _ ex_remote_rep])
      (use outside_ex in \<open>simp_all del: pend.simps\<close>)
  then show ?thesis by (auto simp: ex_cb_def)
qed

theorem nocopy_send_correct_witness:
  "\<exists>s1 s2. rpmsg_lite_alloc_tx_buffer (bm_port True) cfg_ex (\<lambda>s. s) 8 True 0 ex_master =
        Some (0x1010, Some 496, s1)
     \<and> rpmsg_lite_send_nocopy (bm_port True) cfg_ex 8 32 1 0x1010 2 (s1\<lparr>mem := (mem s1)(0x1010 := 7)\<rparr>) =
        Some (RL_SUCCESS, s2)"
proof -
  have app: "load_u16 (m(0x1010 := 7)) (hdr_idx 0x1000) = load_u16 m (hdr_idx 0x1000)" for m
    by (simp add: load_u16_def)
  show ?thesis
    using nocopy_send_correct [where b = "0x1000" and ept = 32 and cfg = cfg_ex and len = 2 and dst = 1
      and world = "\<lambda>s. s" and timeout = 0 and app = "\<lambda>m. m(0x1010 := 7)",
      OF _ _ _ ex_tx_ready _ _ ex_pend_master _ _ _ _ _ _ ex_room app]
    by (auto simp del: pend.simps)
qed

text \<open>The remote has taken buffer 0 and holds it; the master has one entry left to collect.\<close>

theorem release_rx_buffer_correct_witness:
  "\<exists>s'. rpmsg_lite_release_rx_buffer (bm_port False) cfg_ex 8 0x1010 (ex_remote (\<lambda>a. 0) ex_vm) =
     Some (RL_SUCCESS, s')"
proof -
  have l: "load_u16 (mem (ex_remote (\<lambda>a. 0) ex_vm)) (hdr_idx 0x1000) = 0" by (simp add: load_u16_def)
  have room: "has_room (peer_ops (dev_ops ex_rinst)) (ex_vq 9\<lparr>vq_used_cons_idx := 1\<rparr>) ex_vm"
    by (simp add: has_room_def ex_vm_def)
  show ?thesis
    using release_rx_buffer_correct [where s = "ex_remote (\<lambda>a. 0) ex_vm" and dev = 8 and b = "0x1000"
        and cfg = cfg_ex and side_a = False, OF _ _ _ _ _ l _ _ _ room]
    by (auto simp del: pend.simps)
qed

end
