(* ===== verification/Env_Queue.thy ===== *)
theory Env_Queue
  imports Env_Port
begin

text \<open>
  The message queues of the environment layer (\<^verbatim>\<open>env_create_queue\<close> and the other queue functions of
  \<^verbatim>\<open>lib/include/rpmsg_env.h\<close>) as operations of a port, and the contract \<open>rpmsg_queue.c\<close> relies on.
  The bare-metal layer has no queues; the layers over a real-time kernel provide them.
\<close>

text \<open>\<open>rpmsg_queue_rx_cb_data_t\<close>: the source address, the payload in its buffer, and its length.\<close>

record rpmsg_queue_rx_cb_data =
  q_src :: u32
  q_data :: ptr
  q_len :: u32

definition queue_msg_zero :: rpmsg_queue_rx_cb_data where
  "queue_msg_zero = \<lparr>q_src = 0, q_data = NULL, q_len = 0\<rparr>"

text \<open>
  \<open>qp_create\<close> gets the number of elements and their size and returns the status and the queue;
  \<open>qp_put\<close> and \<open>qp_get\<close> get a timeout in milliseconds and return 1 for success and 0 for a
  timeout, \<open>qp_get\<close> with the buffer for the message, which it leaves alone when it fails. A call
  that never returns or has undefined behaviour has the result \<open>None\<close>.
\<close>

record 'e queue_port =
  qp_create :: "int \<Rightarrow> int \<Rightarrow> 'e \<Rightarrow> (int \<times> ptr \<times> 'e) option"
  qp_delete :: "ptr \<Rightarrow> 'e \<Rightarrow> 'e"
  qp_put :: "ptr \<Rightarrow> rpmsg_queue_rx_cb_data \<Rightarrow> u32 \<Rightarrow> 'e \<Rightarrow> (int \<times> 'e) option"
  qp_get :: "ptr \<Rightarrow> rpmsg_queue_rx_cb_data \<Rightarrow> u32 \<Rightarrow> 'e \<Rightarrow> (int \<times> rpmsg_queue_rx_cb_data \<times> 'e) option"
  qp_size :: "ptr \<Rightarrow> 'e \<Rightarrow> int"

text \<open>
  The contract: \<open>items\<close> are the messages in a queue, oldest first, \<open>cap\<close> is its length and \<open>ok\<close>
  says that it exists. Nothing is lost, duplicated or reordered; a call with timeout 0 does
  not wait. Queues are independent of each other, and locks and notifications leave them alone.
\<close>

locale env_fifo =
  fixes Q :: "'e queue_port"
    and items :: "ptr \<Rightarrow> 'e \<Rightarrow> rpmsg_queue_rx_cb_data list"
    and cap :: "ptr \<Rightarrow> 'e \<Rightarrow> nat"
    and ok :: "ptr \<Rightarrow> 'e \<Rightarrow> bool"
  assumes put_room: "ok q e \<Longrightarrow> length (items q e) < cap q e \<Longrightarrow>
      \<exists>e'. qp_put Q q m 0 e = Some (1, e') \<and> ok q e' \<and> items q e' = items q e @ [m] \<and> cap q e' = cap q e"
    and put_full: "ok q e \<Longrightarrow> cap q e \<le> length (items q e) \<Longrightarrow> qp_put Q q m 0 e = Some (0, e)"
    and get_Cons: "ok q e \<Longrightarrow> items q e = x # xs \<Longrightarrow>
      \<exists>e'. qp_get Q q m t e = Some (1, x, e') \<and> ok q e' \<and> items q e' = xs \<and> cap q e' = cap q e"
    and get_empty: "ok q e \<Longrightarrow> items q e = [] \<Longrightarrow> qp_get Q q m 0 e = Some (0, m, e)"
    and put_other: "ok q e \<Longrightarrow> qp_put Q q m 0 e = Some (r, e') \<Longrightarrow> q' \<noteq> q \<Longrightarrow>
      ok q' e' = ok q' e \<and> items q' e' = items q' e \<and> cap q' e' = cap q' e"
begin

lemma put_cases:
  assumes "ok q e"
  shows "\<exists>r e'. qp_put Q q m 0 e = Some (r, e') \<and> ok q e' \<and> cap q e' = cap q e
    \<and> (r \<noteq> 0 \<longleftrightarrow> length (items q e) < cap q e)
    \<and> items q e' = (if r \<noteq> 0 then items q e @ [m] else items q e)"
  using put_room [OF assms, of m] put_full [OF assms, of m] assms
  by (cases "length (items q e) < cap q e") auto

end

text \<open>A port that also reports how many messages a queue holds.\<close>

locale env_queue = env_fifo Q items cap ok
  for Q :: "'e queue_port" and items :: "ptr \<Rightarrow> 'e \<Rightarrow> rpmsg_queue_rx_cb_data list"
    and cap :: "ptr \<Rightarrow> 'e \<Rightarrow> nat" and ok :: "ptr \<Rightarrow> 'e \<Rightarrow> bool" +
  assumes size_items: "ok q e \<Longrightarrow> length (items q e) < 2 ^ 31 \<Longrightarrow> qp_size Q q e = int (length (items q e))"

text \<open>Each queue is a bounded FIFO in the sense of the prelude.\<close>

sublocale env_fifo \<subseteq> fifo: bounded_fifo
    "\<lambda>m e. case qp_put Q q m 0 e of Some (r, e') \<Rightarrow> if r \<noteq> 0 then Some e' else None | None \<Rightarrow> None"
    "\<lambda>e. case qp_get Q q queue_msg_zero 0 e of
        Some (r, m, e') \<Rightarrow> Some (if r \<noteq> 0 then Some m else None, e') | None \<Rightarrow> None"
    "items q" "cap q" "\<lambda>n m. True" "ok q" for q
proof (unfold_locales, goal_cases)
  case (1 e m)
  then show ?case using put_room [of q e m] by auto
next
  case (2 e)
  then show ?case using get_empty [of q e] by simp
next
  case (3 e x xs)
  then show ?case using get_Cons [of q e x xs queue_msg_zero 0] by auto
qed

end
