(* ===== verification/Env_Rtos.thy ===== *)
theory Env_Rtos
  imports Env_Queue Platform_Imxrt1170
begin

text \<open>
  What the environment layers over an operating system share
  (\<^verbatim>\<open>rpmsg_env_freertos.c\<close>, \<^verbatim>\<open>rpmsg_env_threadx.c\<close>, \<^verbatim>\<open>rpmsg_env_zephyr.c\<close> and
  \<^verbatim>\<open>rpmsg_env_xos.c\<close> under \<^verbatim>\<open>lib/rpmsg_lite/porting/environment\<close>): their static variables, and the
  contracts of locks, message queues and event flags, with what follows from them for the
  messaging layer. Every layer interprets the contracts on its own operations.
\<close>

section \<open>State\<close>

text \<open>
  The static variables of a layer. \<open>env_sema\<close> and \<open>event_group\<close> are handles or addresses of static
  objects of the system, \<open>os_plat\<close> the variables of the platform layer, \<open>os_icsr\<close> the interrupt
  status of the processor and \<open>kern\<close> the operating system.
\<close>

record ('p, 'k) os_env =
  os_init_counter :: int
  os_isr_table :: "ptr list"
  env_sema :: ptr
  event_group :: ptr
  os_plat :: 'p
  os_icsr :: u32
  kern :: 'k

text \<open>
  The functions of a platform call back into the layer; they work on the interrupt table and
  the kernel.
\<close>

definition os_with_plat ::
  "('p \<times> ptr list \<times> 'k \<Rightarrow> (int \<times> 'p \<times> ptr list \<times> 'k) option) \<Rightarrow> ('p, 'k) os_env \<Rightarrow> (int \<times> ('p, 'k) os_env) option" where
  "os_with_plat f e =
     do { (r, pl, t, k) \<leftarrow> f (os_plat e, os_isr_table e, kern e);
          Some (r, e\<lparr>os_plat := pl, os_isr_table := t, kern := k\<rparr>) }"

definition on_kern :: "('k \<Rightarrow> 'k option) \<Rightarrow> ptr list \<times> 'k \<Rightarrow> (ptr list \<times> 'k) option" where
  "on_kern f x = do { k \<leftarrow> f (snd x); Some (fst x, k) }"

definition on_table :: "(ptr list \<Rightarrow> ptr list option) \<Rightarrow> ptr list \<times> 'k \<Rightarrow> (ptr list \<times> 'k) option" where
  "on_table f x = do { t \<leftarrow> f (fst x); Some (t, snd x) }"

abbreviation (input) RL_ENV_MAX_MUTEX_COUNT :: int where "RL_ENV_MAX_MUTEX_COUNT \<equiv> 10"

abbreviation (input) OS_BLOCK :: u32 where "OS_BLOCK \<equiv> 0xFFFFFFFF"

text \<open>The shift in \<open>platform_notify\<close> is defined for every vector.\<close>

lemma shl1_notify: "\<exists>m. shl1 (19 - RL_GET_Q_ID v) = Some m"
  using q_id_cases [of v] by (auto simp: shl1_def)

section \<open>Locks\<close>

text \<open>
  A lock is a semaphore of the system, \<open>sem k l = Some (c, m)\<close> if it has count \<open>c\<close> and maximum
  \<open>m\<close>. In a task a call with count 0 waits for ever unless another task gives the semaphore; in an
  interrupt handler locking does nothing. \<open>rest\<close> is what locks leave alone.
\<close>

locale os_locks =
  fixes in_isr :: "u32 \<Rightarrow> bool"
    and lock :: "u32 \<Rightarrow> ptr \<Rightarrow> 'k \<Rightarrow> 'k option"
    and unlock :: "u32 \<Rightarrow> ptr \<Rightarrow> 'k \<Rightarrow> 'k option"
    and sem :: "'k \<Rightarrow> ptr \<Rightarrow> (nat \<times> nat) option"
    and rest :: "'k \<Rightarrow> 'r"
  assumes lock_isr: "in_isr i \<Longrightarrow> lock i l k = Some k"
    and unlock_isr: "in_isr i \<Longrightarrow> unlock i l k = Some k"
    and lock_count: "\<not> in_isr i \<Longrightarrow> sem k l = Some (Suc c, m) \<Longrightarrow>
      \<exists>k'. lock i l k = Some k' \<and> sem k' = (sem k)(l \<mapsto> (c, m)) \<and> rest k' = rest k"
    and lock_zero: "\<not> in_isr i \<Longrightarrow> sem k l = Some (0, m) \<Longrightarrow> lock i l k = None"
    and unlock_space: "\<not> in_isr i \<Longrightarrow> sem k l = Some (c, m) \<Longrightarrow> c < m \<Longrightarrow>
      \<exists>k'. unlock i l k = Some k' \<and> sem k' = (sem k)(l \<mapsto> (Suc c, m)) \<and> rest k' = rest k"

definition has_count :: "('k \<Rightarrow> ptr \<Rightarrow> (nat \<times> nat) option) \<Rightarrow> ptr \<Rightarrow> 'k \<Rightarrow> bool" where
  "has_count sem l k \<longleftrightarrow> (\<exists>c m. sem k l = Some (Suc c, m) \<and> Suc c \<le> m)"

definition has_space :: "('k \<Rightarrow> ptr \<Rightarrow> (nat \<times> nat) option) \<Rightarrow> ptr \<Rightarrow> 'k \<Rightarrow> bool" where
  "has_space sem l k \<longleftrightarrow> (\<exists>c m. sem k l = Some (c, m) \<and> c < m)"

text \<open>
  A lock is free when its semaphore has a count, and the lock of the platform, which a notification
  takes, is another one and free.
\<close>

definition os_free ::
  "(u32 \<Rightarrow> bool) \<Rightarrow> ('p \<Rightarrow> ptr) \<Rightarrow> ('k \<Rightarrow> ptr \<Rightarrow> (nat \<times> nat) option) \<Rightarrow> ptr \<Rightarrow> ('p, 'k) os_env \<Rightarrow> bool" where
  "os_free in_isr plock sem l e \<longleftrightarrow> in_isr (os_icsr e) \<or>
     (l \<noteq> plock (os_plat e) \<and> has_count sem l (kern e) \<and> has_count sem (plock (os_plat e)) (kern e))"

definition os_held ::
  "(u32 \<Rightarrow> bool) \<Rightarrow> ('p \<Rightarrow> ptr) \<Rightarrow> ('k \<Rightarrow> ptr \<Rightarrow> (nat \<times> nat) option) \<Rightarrow> ptr \<Rightarrow> ('p, 'k) os_env \<Rightarrow> bool" where
  "os_held in_isr plock sem l e \<longleftrightarrow> in_isr (os_icsr e) \<or>
     (l \<noteq> plock (os_plat e) \<and> has_space sem l (kern e) \<and> has_count sem (plock (os_plat e)) (kern e))"

lemma os_free_kern: "sem k = sem (kern e) \<Longrightarrow> os_free in_isr plock sem l (e\<lparr>kern := k\<rparr>) = os_free in_isr plock sem l e"
  by (simp add: os_free_def has_count_def)

subsection \<open>Mutual exclusion\<close>

text \<open>Tasks that lock and unlock one mutex, in any order, beside anything else that leaves it alone.\<close>

inductive mutex_step ::
  "(ptr \<Rightarrow> 'k \<Rightarrow> 'k option) \<Rightarrow> (ptr \<Rightarrow> 'k \<Rightarrow> 'k option) \<Rightarrow> ('k \<Rightarrow> ptr \<Rightarrow> (nat \<times> nat) option) \<Rightarrow> ptr
    \<Rightarrow> nat set \<times> 'k \<Rightarrow> nat set \<times> 'k \<Rightarrow> bool"
  for lock unlock sem l
where
  enter: "i \<notin> S \<Longrightarrow> lock l k = Some k' \<Longrightarrow> mutex_step lock unlock sem l (S, k) (insert i S, k')"
| leave: "i \<in> S \<Longrightarrow> unlock l k = Some k' \<Longrightarrow> mutex_step lock unlock sem l (S, k) (S - {i}, k')"
| other: "sem k' l = sem k l \<Longrightarrow> mutex_step lock unlock sem l (S, k) (S, k')"

inductive_cases mutex_stepE [consumes 1, case_names enter leave other]: "mutex_step lock unlock sem l (S, k) (S', k')"

context os_locks
begin

lemma mutex_step_inv:
  assumes "mutex_step (lock i) (unlock i) sem l (S, k) (S', k')" "\<not> in_isr i"
    and "finite S" "sem k l = Some (n - card S, m)" "card S \<le> n" "n \<le> m"
  shows "finite S' \<and> sem k' l = Some (n - card S', m) \<and> card S' \<le> n"
  using assms(1)
proof (cases rule: mutex_stepE)
  case (enter j)
  obtain c where c: "n - card S = Suc c"
    using lock_zero [OF assms(2), of k l m] enter(2,3) assms(4) by (cases "n - card S") auto
  then have "sem k' l = Some (c, m)" using lock_count [OF assms(2), of k l c m] assms(4) enter(2,3) by auto
  then show ?thesis using enter c assms(3) by (auto simp: card_insert_if)
next
  case (leave j)
  then have pos: "card S > 0" using assms(3) card_gt_0_iff by blast
  have "n - card S < m" using pos assms(5,6) by simp
  then have "sem k' l = Some (Suc (n - card S), m)" using unlock_space [OF assms(2,4)] leave by auto
  then show ?thesis using leave pos assms(3,5) by (auto simp: Suc_diff_le)
next
  case other
  then show ?thesis using assms by simp
qed

lemma mutex_reach_inv:
  assumes "(mutex_step (lock i) (unlock i) sem l)\<^sup>*\<^sup>* ({}, k) (S, k')" "\<not> in_isr i"
    and "sem k l = Some (n, m)" "n \<le> m"
  shows "finite S \<and> sem k' l = Some (n - card S, m) \<and> card S \<le> n"
  using assms(1)
proof (induction rule: rtranclp_induct2)
  case refl
  then show ?case using assms(3) by simp
next
  case (step S1 k1 S2 k2)
  then show ?case using mutex_step_inv [OF step(2) assms(2)] assms(4) by blast
qed

lemma mutex_exclusion:
  assumes "(mutex_step (lock i) (unlock i) sem l)\<^sup>*\<^sup>* ({}, k0) (S, k)" "\<not> in_isr i"
    and "sem k0 l = Some (n, m)" "n \<le> m"
  shows "finite S \<and> card S \<le> n \<and> (lock i l k \<noteq> None \<longleftrightarrow> card S < n)"
proof -
  have r: "finite S" "sem k l = Some (n - card S, m)" "card S \<le> n"
    using mutex_reach_inv [OF assms] by auto
  have "lock i l k \<noteq> None \<longleftrightarrow> card S < n"
    using lock_count [OF assms(2), of k l _ m] lock_zero [OF assms(2), of k l m] r
    by (cases "n - card S") auto
  then show ?thesis using r by simp
qed

subsection \<open>The contract of the messaging layer\<close>

lemma lock_has_count:
  assumes "\<not> in_isr i" "has_count sem l k"
  shows "\<exists>k'. lock i l k = Some k' \<and> has_space sem l k' \<and> rest k' = rest k
    \<and> (\<forall>l'. l' \<noteq> l \<longrightarrow> sem k' l' = sem k l')"
proof -
  obtain c m where c: "sem k l = Some (Suc c, m)" "Suc c \<le> m" using assms(2) by (auto simp: has_count_def)
  from lock_count [OF assms(1) c(1)] show ?thesis using c(2) by (auto simp: has_space_def)
qed

lemma unlock_has_space:
  assumes "\<not> in_isr i" "has_space sem l k"
  shows "\<exists>k'. unlock i l k = Some k' \<and> has_count sem l k' \<and> rest k' = rest k
    \<and> (\<forall>l'. l' \<noteq> l \<longrightarrow> sem k' l' = sem k l')"
proof -
  obtain c m where c: "sem k l = Some (c, m)" "c < m" using assms(2) by (auto simp: has_space_def)
  from unlock_space [OF assms(1) c] show ?thesis using c(2) by (auto simp: has_count_def)
qed

lemma lock_unlock_count:
  assumes "in_isr i \<or> has_count sem l k"
  shows "\<exists>k1 k2. lock i l k = Some k1 \<and> unlock i l k1 = Some k2 \<and> rest k2 = rest k
    \<and> (\<not> in_isr i \<longrightarrow> has_count sem l k2 \<and> (\<forall>l'. l' \<noteq> l \<longrightarrow> sem k2 l' = sem k l'))"
proof (cases "in_isr i")
  case True
  then show ?thesis by (simp add: lock_isr unlock_isr)
next
  case False
  then have "has_count sem l k" using assms by simp
  from lock_has_count [OF False this] obtain k1 where k1: "lock i l k = Some k1" "has_space sem l k1"
    "rest k1 = rest k" "\<forall>l'. l' \<noteq> l \<longrightarrow> sem k1 l' = sem k l'" by blast
  from unlock_has_space [OF False k1(2)] k1 show ?thesis by auto
qed

end

text \<open>
  A port with such locks, whose notifications lock the platform, write to its registers and
  unlock it, provided that the platform is \<open>ready\<close>.
\<close>

locale os_port = os_locks in_isr lock unlock sem rest
  for in_isr and lock unlock :: "u32 \<Rightarrow> ptr \<Rightarrow> 'k \<Rightarrow> 'k option"
    and sem :: "'k \<Rightarrow> ptr \<Rightarrow> (nat \<times> nat) option" and rest :: "'k \<Rightarrow> 'r" +
  fixes P :: "('p, 'k) os_env env_port" and plock :: "'p \<Rightarrow> ptr" and ready :: "'p \<Rightarrow> bool"
  assumes port_lock: "ep_lock_mutex P l e = do { k \<leftarrow> lock (os_icsr e) l (kern e); Some (e\<lparr>kern := k\<rparr>) }"
    and port_unlock: "ep_unlock_mutex P l e = do { k \<leftarrow> unlock (os_icsr e) l (kern e); Some (e\<lparr>kern := k\<rparr>) }"
    and port_notify: "ready (os_plat e) \<Longrightarrow> ep_notify P v e = Some e \<or> (\<exists>pl. plock pl = plock (os_plat e) \<and> ready pl
      \<and> ep_notify P v e = do { k \<leftarrow> lock (os_icsr e) (plock (os_plat e)) (kern e);
          k \<leftarrow> unlock (os_icsr e) (plock (os_plat e)) k; Some (e\<lparr>os_plat := pl, kern := k\<rparr>) })"
    and port_map: "ep_map_patova P (ep_map_vatopa P a) = a"
begin

lemma notify_ok:
  assumes "in_isr (os_icsr e) \<or> has_count sem (plock (os_plat e)) (kern e)" "ready (os_plat e)"
  shows "\<exists>pl k. ep_notify P v e = Some (e\<lparr>os_plat := pl, kern := k\<rparr>)
    \<and> plock pl = plock (os_plat e) \<and> ready pl \<and> rest k = rest (kern e)
    \<and> (\<not> in_isr (os_icsr e) \<longrightarrow> has_count sem (plock pl) k \<and> (\<forall>l. l \<noteq> plock pl \<longrightarrow> sem k l = sem (kern e) l))"
proof (cases "ep_notify P v e = Some e")
  case True
  then show ?thesis using assms by (intro exI [of _ "os_plat e"] exI [of _ "kern e"]) auto
next
  case False
  then obtain pl where pl: "plock pl = plock (os_plat e)" "ready pl"
    "ep_notify P v e = do { k \<leftarrow> lock (os_icsr e) (plock (os_plat e)) (kern e);
       k \<leftarrow> unlock (os_icsr e) (plock (os_plat e)) k; Some (e\<lparr>os_plat := pl, kern := k\<rparr>) }"
    using port_notify [OF assms(2), of v] by auto
  from lock_unlock_count [OF assms(1)] obtain k1 k2 where
    k: "lock (os_icsr e) (plock (os_plat e)) (kern e) = Some k1" "unlock (os_icsr e) (plock (os_plat e)) k1 = Some k2"
      "rest k2 = rest (kern e)" "\<not> in_isr (os_icsr e) \<longrightarrow> has_count sem (plock (os_plat e)) k2
        \<and> (\<forall>l'. l' \<noteq> plock (os_plat e) \<longrightarrow> sem k2 l' = sem (kern e) l')" by blast
  show ?thesis using pl k by (intro exI [of _ pl] exI [of _ k2]) simp
qed

end

sublocale os_port \<subseteq> locks: env_locks P
    "\<lambda>l e. os_free in_isr plock sem l e \<and> ready (os_plat e) \<and> rest (kern e) = rs"
    "\<lambda>l e. os_held in_isr plock sem l e \<and> ready (os_plat e) \<and> rest (kern e) = rs"
  for rs
proof (unfold_locales, goal_cases)
  case (1 a)
  then show ?case by (rule port_map)
next
  case (2 l e)
  show ?case
  proof (cases "in_isr (os_icsr e)")
    case False
    then have "has_count sem l (kern e)" "l \<noteq> plock (os_plat e)" "has_count sem (plock (os_plat e)) (kern e)"
      using 2 by (auto simp: os_free_def)
    with lock_has_count [OF False this(1)] show ?thesis
      using False 2 by (auto simp: port_lock os_held_def has_count_def)
  qed (use 2 in \<open>auto simp: port_lock os_held_def lock_isr\<close>)
next
  case (3 l e)
  show ?case
  proof (cases "in_isr (os_icsr e)")
    case False
    then have "has_space sem l (kern e)" "l \<noteq> plock (os_plat e)" "has_count sem (plock (os_plat e)) (kern e)"
      using 3 by (auto simp: os_held_def)
    with unlock_has_space [OF False this(1)] show ?thesis
      using False 3 by (auto simp: port_unlock os_free_def has_count_def)
  qed (use 3 in \<open>auto simp: port_unlock os_free_def unlock_isr\<close>)
next
  case (4 l e v)
  then show ?case
    using notify_ok [of e v] by (auto simp: os_held_def has_space_def has_count_def)
next
  case (5 l e v)
  then show ?case
    using notify_ok [of e v] by (auto simp: os_free_def has_space_def has_count_def)
qed

context os_port
begin

lemmas os_env_locks = locks.env_locks_axioms

end

section \<open>Message queues\<close>

text \<open>
  Contents, length and existence of the queues; \<open>up\<close> says that the conversion of timeouts to
  ticks is defined.
\<close>

definition os_items ::
  "('k \<Rightarrow> ptr \<Rightarrow> (rpmsg_queue_rx_cb_data list \<times> nat) option) \<Rightarrow> ptr \<Rightarrow> ('p, 'k) os_env \<Rightarrow> rpmsg_queue_rx_cb_data list" where
  "os_items queue q e = (case queue (kern e) q of None \<Rightarrow> [] | Some (xs, n) \<Rightarrow> xs)"

definition os_cap :: "('k \<Rightarrow> ptr \<Rightarrow> ('m list \<times> nat) option) \<Rightarrow> ptr \<Rightarrow> ('p, 'k) os_env \<Rightarrow> nat" where
  "os_cap queue q e = (case queue (kern e) q of None \<Rightarrow> 0 | Some (xs, n) \<Rightarrow> n)"

definition os_ok :: "bool \<Rightarrow> ('k \<Rightarrow> ptr \<Rightarrow> ('m list \<times> nat) option) \<Rightarrow> ptr \<Rightarrow> ('p, 'k) os_env \<Rightarrow> bool" where
  "os_ok up queue q e \<longleftrightarrow> queue (kern e) q \<noteq> None \<and> up"

locale os_fifo =
  fixes Q :: "('p, 'k) os_env queue_port"
    and queue :: "'k \<Rightarrow> ptr \<Rightarrow> (rpmsg_queue_rx_cb_data list \<times> nat) option" and up :: bool
  assumes q_put_room: "queue (kern e) q = Some (xs, n) \<Longrightarrow> length xs < n \<Longrightarrow> up \<Longrightarrow>
      \<exists>k. qp_put Q q m 0 e = Some (1, e\<lparr>kern := k\<rparr>) \<and> queue k = (queue (kern e))(q \<mapsto> (xs @ [m], n))"
    and q_put_full: "queue (kern e) q = Some (xs, n) \<Longrightarrow> n \<le> length xs \<Longrightarrow> up \<Longrightarrow> qp_put Q q m 0 e = Some (0, e)"
    and q_get_Cons: "queue (kern e) q = Some (x # xs, n) \<Longrightarrow> up \<Longrightarrow>
      \<exists>k. qp_get Q q m t e = Some (1, x, e\<lparr>kern := k\<rparr>) \<and> queue k = (queue (kern e))(q \<mapsto> (xs, n))"
    and q_get_empty: "queue (kern e) q = Some ([], n) \<Longrightarrow> up \<Longrightarrow> qp_get Q q m 0 e = Some (0, m, e)"

sublocale os_fifo \<subseteq> queues: env_fifo Q "os_items queue" "os_cap queue" "os_ok up queue"
proof (unfold_locales, goal_cases)
  case (1 q e m)
  then obtain xs n where q: "queue (kern e) q = Some (xs, n)" "length xs < n" up
    by (auto simp: os_ok_def os_items_def os_cap_def)
  then show ?case using q_put_room [OF q, of m] by (auto simp: os_ok_def os_items_def os_cap_def)
next
  case (2 q e m)
  then show ?case using q_put_full [of e q _ _ m] by (auto simp: os_ok_def os_items_def os_cap_def)
next
  case (3 q e x xs m t)
  then obtain n where q: "queue (kern e) q = Some (x # xs, n)" up
    by (auto simp: os_ok_def os_items_def)
  then show ?case using q_get_Cons [OF q, of m t] by (auto simp: os_ok_def os_items_def os_cap_def)
next
  case (4 q e m)
  then show ?case using q_get_empty [of e q _ m] by (auto simp: os_ok_def os_items_def)
next
  case (5 q e m r e' q')
  then obtain xs n where q: "queue (kern e) q = Some (xs, n)" up
    by (auto simp: os_ok_def)
  then have "queue (kern e') q' = queue (kern e) q'"
    using 5(2,3) q_put_room [OF q(1) _ q(2), of m] q_put_full [OF q(1) _ q(2), of m]
    by (cases "length xs < n") auto
  then show ?case by (simp add: os_ok_def os_items_def os_cap_def)
qed

locale os_queue = os_fifo +
  assumes q_size: "queue (kern e) q = Some (xs, n) \<Longrightarrow> up \<Longrightarrow> length xs < 2 ^ 31 \<Longrightarrow> qp_size Q q e = int (length xs)"

sublocale os_queue \<subseteq> sized: env_queue Q "os_items queue" "os_cap queue" "os_ok up queue"
  by unfold_locales (auto simp: os_ok_def os_items_def q_size)

context os_queue
begin

lemmas os_env_queue = sized.env_queue_axioms

end

section \<open>Creation of a queue\<close>

text \<open>
  ThreadX and Zephyr need a control block and a buffer for a queue. The check for an overflow of the
  size of the buffer, and what is left allocated when the call gets the blocks \<open>p\<close> and \<open>b\<close>.
\<close>

lemma int_div_limit:
  fixes m :: int
  assumes "0 < e"
  shows "m div e < len \<longleftrightarrow> m < len * e"
proof
  assume "m div e < len"
  then have "(m div e + 1) * e \<le> len * e" using assms by (intro mult_right_mono) simp_all
  moreover have "m < (m div e + 1) * e"
    using pos_mod_bound [OF assms, of m] div_mult_mod_eq [of m e] unfolding distrib_right by linarith
  ultimately show "m < len * e" by linarith
next
  assume l: "m < len * e"
  show "m div e < len"
  proof (rule ccontr)
    assume "\<not> m div e < len"
    then have "len * e \<le> (m div e) * e" using assms by (intro mult_right_mono) simp_all
    also have "\<dots> \<le> m" using assms pos_mod_sign [OF assms, of m] div_mult_mod_eq [of m e] by linarith
    finally show False using l by simp
  qed
qed

definition queue_blocks :: "bool \<Rightarrow> ptr \<Rightarrow> ptr \<Rightarrow> ptr set" where
  "queue_blocks created p b = (if created \<or> p = NULL \<or> b = NULL then {p, b} - {NULL} else {})"

section \<open>Waiting for the link\<close>

text \<open>
  A task in \<open>env_wait_for_link_up\<close> and the interrupt handler that sets \<open>link_state\<close> and then calls
  \<open>env_tx_callback\<close> (\<open>rpmsg_lite_tx_callback\<close>), interleaved at their accesses to the state they share:
  \<open>begin\<close> is what the layer does before it reads \<open>link_state\<close>, \<open>wait\<close> the wait for the event of the link,
  \<open>post\<close> the callback, and \<open>others\<close> what other tasks and handlers may do.
\<close>

datatype wait_pc = W_begin | W_read | W_wait | W_done u32

datatype isr_pc = I_state | I_bits | I_done

inductive link_step ::
  "('e \<Rightarrow> 'e option) \<Rightarrow> ('e \<Rightarrow> (u32 \<times> 'e) option) \<Rightarrow> ('e \<Rightarrow> 'e option) \<Rightarrow> ('e \<Rightarrow> 'e \<Rightarrow> bool)
    \<Rightarrow> 'e \<times> u32 \<times> wait_pc \<times> isr_pc \<Rightarrow> 'e \<times> u32 \<times> wait_pc \<times> isr_pc \<Rightarrow> bool"
  for begin' wait post others
where
  clear: "begin' e = Some e' \<Longrightarrow> link_step begin' wait post others (e, ls, W_begin, i) (e', ls, W_read, i)"
| up: "ls = 1 \<Longrightarrow> link_step begin' wait post others (e, ls, W_read, i) (e, ls, W_done 1, i)"
| down: "ls \<noteq> 1 \<Longrightarrow> link_step begin' wait post others (e, ls, W_read, i) (e, ls, W_wait, i)"
| wake: "wait e = Some (r, e') \<Longrightarrow> link_step begin' wait post others (e, ls, W_wait, i) (e', ls, W_done r, i)"
| isr_state: "link_step begin' wait post others (e, ls, w, I_state) (e, 1, w, I_bits)"
| isr_bits: "post e = Some e' \<Longrightarrow> link_step begin' wait post others (e, ls, w, I_bits) (e', ls, w, I_done)"
| other: "others e e' \<Longrightarrow> link_step begin' wait post others (e, ls, w, i) (e', ls, w, i)"

lemmas rtranclp_induct4 =
  rtranclp_induct [of _ "(ax, ay, az, aw)" "(bx, by', bz, bw)", split_rule, consumes 1, case_names refl step]

lemma or_and_keep:
  fixes v :: "'a::len word"
  assumes "v AND b = b"
  shows "(v OR c) AND b = b"
proof -
  have "(v OR c) AND b = (v AND b) OR (c AND b)" by (rule word_ao_dist)
  also have "\<dots> = b OR (c AND b)" by (simp add: assms)
  finally show ?thesis by (simp add: word_ao_absorbs)
qed

text \<open>The event of the link stays set until somebody waits for it.\<close>

locale link_flag =
  fixes post :: "'e \<Rightarrow> 'e option" and others :: "'e \<Rightarrow> 'e \<Rightarrow> bool" and flag :: "'e \<Rightarrow> bool"
  assumes post_flag: "post e = Some e' \<Longrightarrow> flag e'"
    and others_flag: "others e e' \<Longrightarrow> flag e \<Longrightarrow> flag e'"
begin

lemma link_reach_inv:
  assumes "(link_step begin' wait post others)\<^sup>*\<^sup>* (e0, ls0, W_begin, I_state) (e, ls, w, i)"
  shows "(i \<noteq> I_state \<longrightarrow> ls = 1) \<and> (i = I_done \<and> w = W_wait \<longrightarrow> flag e)"
  using assms
proof (induction rule: rtranclp_induct4)
  case refl
  then show ?case by simp
next
  case (step e1 l1 w1 i1 e2 l2 w2 i2)
  from step(2) step(3) show ?case
    by (cases rule: link_step.cases) (auto dest: post_flag others_flag)
qed

end

text \<open>\<open>(int32_t)\<close> of a number of messages below \<open>2^31\<close>.\<close>

lemma msg_count_word:
  assumes "n < 2 ^ 31"
  shows "\<not> (of_nat n :: u32) > 0x7FFFFFFF" "sint (of_nat n :: u32) = int n"
proof -
  have u: "unat (of_nat n :: u32) = n" using assms by (simp add: unat_of_nat)
  show "\<not> (of_nat n :: u32) > 0x7FFFFFFF" using u assms by (simp add: word_less_nat_alt)
  show "sint (of_nat n :: u32) = int n" using sint_eq_unat [of "of_nat n :: u32"] u assms by simp
qed

end
