(* ===== verification/Env_Freertos.thy ===== *)
theory Env_Freertos
  imports Env_Rtos
begin

text \<open>
  The FreeRTOS environment layer
  (\<^verbatim>\<open>lib/rpmsg_lite/porting/environment/rpmsg_env_freertos.c\<close>) on the i.MX RT1170 platform, with
  \<open>RL_USE_STATIC_API = 0\<close> and \<open>configUSE_16_BIT_TICKS = 0\<close>. The kernel is not part of the repository:
  it is the argument \<open>K\<close>, its documented behaviour the contract \<open>rtos_kernel\<close>.
\<close>

section \<open>The kernel\<close>

text \<open>
  The kernel functions the layer calls, on the state of the kernel. Handles are addresses, NULL a
  failed creation. A call that suspends its caller for ever or fails \<open>configASSERT\<close> has the
  result \<open>None\<close>.
\<close>

record 'k rtos =
  vTaskSuspendAll :: "'k \<Rightarrow> 'k"
  xTaskResumeAll :: "'k \<Rightarrow> 'k"
  vTaskDelay :: "u32 \<Rightarrow> 'k \<Rightarrow> 'k"
  xTaskGetTickCount :: "'k \<Rightarrow> u32"
  xTaskGetTickCountFromISR :: "'k \<Rightarrow> u32"
  xSemaphoreCreateBinary :: "'k \<Rightarrow> ptr \<times> 'k"
  xSemaphoreCreateCounting :: "u32 \<Rightarrow> u32 \<Rightarrow> 'k \<Rightarrow> ptr \<times> 'k"
  xSemaphoreTake :: "ptr \<Rightarrow> 'k \<Rightarrow> 'k option"
  xSemaphoreGive :: "ptr \<Rightarrow> 'k \<Rightarrow> 'k option"
  vSemaphoreDelete :: "ptr \<Rightarrow> 'k \<Rightarrow> 'k"
  xEventGroupCreate :: "'k \<Rightarrow> ptr \<times> 'k"
  vEventGroupDelete :: "ptr \<Rightarrow> 'k \<Rightarrow> 'k"
  xEventGroupClearBits :: "ptr \<Rightarrow> u32 \<Rightarrow> 'k \<Rightarrow> 'k option"
  xEventGroupSetBits :: "ptr \<Rightarrow> u32 \<Rightarrow> 'k \<Rightarrow> 'k option"
  xEventGroupSetBitsFromISR :: "ptr \<Rightarrow> u32 \<Rightarrow> 'k \<Rightarrow> (bool \<times> 'k) option"
  xEventGroupWaitBits :: "ptr \<Rightarrow> u32 \<Rightarrow> u32 \<Rightarrow> 'k \<Rightarrow> (u32 \<times> 'k) option"
  xQueueCreate :: "u32 \<Rightarrow> u32 \<Rightarrow> 'k \<Rightarrow> ptr \<times> 'k"
  vQueueDelete :: "ptr \<Rightarrow> 'k \<Rightarrow> 'k"
  xQueueSend :: "ptr \<Rightarrow> rpmsg_queue_rx_cb_data \<Rightarrow> u32 \<Rightarrow> 'k \<Rightarrow> (bool \<times> 'k) option"
  xQueueSendFromISR :: "ptr \<Rightarrow> rpmsg_queue_rx_cb_data \<Rightarrow> 'k \<Rightarrow> (bool \<times> 'k) option"
  xQueueReceive :: "ptr \<Rightarrow> rpmsg_queue_rx_cb_data \<Rightarrow> u32 \<Rightarrow> 'k \<Rightarrow> (bool \<times> rpmsg_queue_rx_cb_data \<times> 'k) option"
  xQueueReceiveFromISR :: "ptr \<Rightarrow> rpmsg_queue_rx_cb_data \<Rightarrow> 'k \<Rightarrow> (bool \<times> rpmsg_queue_rx_cb_data \<times> 'k) option"
  uxQueueMessagesWaiting :: "ptr \<Rightarrow> 'k \<Rightarrow> u32"
  uxQueueMessagesWaitingFromISR :: "ptr \<Rightarrow> 'k \<Rightarrow> u32"
  portTICK_PERIOD_MS :: u32
  SCB_ICSR_VECTACTIVE_Msk :: u32

abbreviation (input) portMAX_DELAY :: u32 where "portMAX_DELAY \<equiv> 0xFFFFFFFF"

text \<open>
  The contract of the kernel, with its semaphores (count and maximum), its queues of messages
  (contents and length) and its event groups as they can be observed. A wait on an event
  group ends, while other contexts run, with the value the group then has.
\<close>

locale rtos_kernel =
  fixes K :: "'k rtos"
    and sem :: "'k \<Rightarrow> ptr \<Rightarrow> (nat \<times> nat) option"
    and queue :: "'k \<Rightarrow> ptr \<Rightarrow> (rpmsg_queue_rx_cb_data list \<times> nat) option"
  assumes sem_take: "sem k l = Some (Suc c, m) \<Longrightarrow> \<exists>k'. xSemaphoreTake K l k = Some k'
      \<and> sem k' = (sem k)(l \<mapsto> (c, m)) \<and> queue k' = queue k"
    and sem_block: "sem k l = Some (0, m) \<Longrightarrow> xSemaphoreTake K l k = None"
    and sem_give: "sem k l = Some (c, m) \<Longrightarrow> c < m \<Longrightarrow> \<exists>k'. xSemaphoreGive K l k = Some k'
      \<and> sem k' = (sem k)(l \<mapsto> (Suc c, m)) \<and> queue k' = queue k"
    and sem_create: "xSemaphoreCreateCounting K mx ct k = (l, k') \<Longrightarrow> l \<noteq> NULL \<Longrightarrow> ct \<le> mx \<Longrightarrow>
      sem k l = None \<and> sem k' = (sem k)(l \<mapsto> (unat ct, unat mx)) \<and> queue k' = queue k"
    and queue_send: "queue k q = Some (xs, n) \<Longrightarrow> length xs < n \<Longrightarrow>
      \<exists>k'. xQueueSend K q x t k = Some (True, k')
        \<and> queue k' = (queue k)(q \<mapsto> (xs @ [x], n)) \<and> sem k' = sem k"
    and queue_send_isr: "queue k q = Some (xs, n) \<Longrightarrow> length xs < n \<Longrightarrow>
      \<exists>k'. xQueueSendFromISR K q x k = Some (True, k')
        \<and> queue k' = (queue k)(q \<mapsto> (xs @ [x], n)) \<and> sem k' = sem k"
    and queue_full: "queue k q = Some (xs, n) \<Longrightarrow> n \<le> length xs \<Longrightarrow>
      xQueueSend K q x 0 k = Some (False, k) \<and> xQueueSendFromISR K q x k = Some (False, k)"
    and queue_receive: "queue k q = Some (x # xs, n) \<Longrightarrow>
      \<exists>k'. xQueueReceive K q y t k = Some (True, x, k') \<and> queue k' = (queue k)(q \<mapsto> (xs, n)) \<and> sem k' = sem k"
    and queue_receive_isr: "queue k q = Some (x # xs, n) \<Longrightarrow>
      \<exists>k'. xQueueReceiveFromISR K q y k = Some (True, x, k') \<and> queue k' = (queue k)(q \<mapsto> (xs, n)) \<and> sem k' = sem k"
    and queue_empty: "queue k q = Some ([], n) \<Longrightarrow>
      xQueueReceive K q y 0 k = Some (False, y, k) \<and> xQueueReceiveFromISR K q y k = Some (False, y, k)"
    and queue_waiting: "queue k q = Some (xs, n) \<Longrightarrow> length xs < 2 ^ 31 \<Longrightarrow>
      uxQueueMessagesWaiting K q k = of_nat (length xs)
      \<and> uxQueueMessagesWaitingFromISR K q k = of_nat (length xs)"
    and queue_create: "xQueueCreate K len sz k = (q, k') \<Longrightarrow> q \<noteq> NULL \<Longrightarrow>
      queue k q = None \<and> queue k' = (queue k)(q \<mapsto> ([], unat len)) \<and> sem k' = sem k"

section \<open>State and operations\<close>

type_synonym 'k fr_env = "(plat, 'k) os_env"

definition fr_in_isr :: "'k rtos \<Rightarrow> u32 \<Rightarrow> int" where
  "fr_in_isr K icsr = platform_in_isr (SCB_ICSR_VECTACTIVE_Msk K) icsr"

text \<open>
  Mutexes are counting semaphores. \<open>old\<close> is the value of the lock variable, which stays when the
  count is refused; inside an interrupt handler locking does nothing.
\<close>

definition fr_create_mutex :: "'k rtos \<Rightarrow> ptr \<Rightarrow> int \<Rightarrow> 'k \<Rightarrow> int \<times> ptr \<times> 'k" where
  "fr_create_mutex K old count k =
     (if count > RL_ENV_MAX_MUTEX_COUNT then (-1, old, k)
      else let (l, k) = xSemaphoreCreateCounting K (word_of_int RL_ENV_MAX_MUTEX_COUNT) (word_of_int count) k
           in if l \<noteq> NULL then (0, l, k) else (-1, l, k))"

definition fr_delete_mutex :: "'k rtos \<Rightarrow> ptr \<Rightarrow> 'k \<Rightarrow> 'k" where
  "fr_delete_mutex K l k = vSemaphoreDelete K l k"

definition fr_lock_mutex :: "'k rtos \<Rightarrow> u32 \<Rightarrow> ptr \<Rightarrow> 'k \<Rightarrow> 'k option" where
  "fr_lock_mutex K icsr l k = (if fr_in_isr K icsr = 0 then xSemaphoreTake K l k else Some k)"

definition fr_unlock_mutex :: "'k rtos \<Rightarrow> u32 \<Rightarrow> ptr \<Rightarrow> 'k \<Rightarrow> 'k option" where
  "fr_unlock_mutex K icsr l k = (if fr_in_isr K icsr = 0 then xSemaphoreGive K l k else Some k)"

definition fr_create_sync_lock :: "'k rtos \<Rightarrow> ptr \<Rightarrow> int \<Rightarrow> 'k \<Rightarrow> int \<times> ptr \<times> 'k" where
  "fr_create_sync_lock K old state k = fr_create_mutex K old state k"

definition fr_delete_sync_lock :: "'k rtos \<Rightarrow> ptr \<Rightarrow> 'k \<Rightarrow> 'k" where
  "fr_delete_sync_lock K l k = (if l \<noteq> NULL then fr_delete_mutex K l k else k)"

definition fr_platform_init :: "'k rtos \<Rightarrow> 'k fr_env \<Rightarrow> int \<times> 'k fr_env" where
  "fr_platform_init K e =
     (let (r, pl, k) = platform_init (\<lambda>a. fr_create_mutex K (platform_lock (os_plat e))) (os_plat e, kern e)
      in (r, e\<lparr>os_plat := pl, kern := k\<rparr>))"

definition fr_env_init :: "'k rtos \<Rightarrow> 'k fr_env \<Rightarrow> (int \<times> 'k fr_env) option" where
  "fr_env_init K e =
     do { let e = e\<lparr>kern := vTaskSuspendAll K (kern e)\<rparr>;
          rl_assert (os_init_counter e \<ge> 0);
          (if os_init_counter e < 0 then Some (-1, e\<lparr>kern := xTaskResumeAll K (kern e)\<rparr>)
           else
             let e = e\<lparr>os_init_counter := os_init_counter e + 1\<rparr>
             in if os_init_counter e = 1
                then do {
                  let (sema, k) = xSemaphoreCreateBinary K (kern e);
                  let (grp, k) = xEventGroupCreate K k;
                  k \<leftarrow> xEventGroupClearBits K grp 0xFFFFFF k;
                  let e = e\<lparr>env_sema := sema, event_group := grp,
                    os_isr_table := replicate RL_PLATFORM_MAX_ISR_COUNT NULL,
                    kern := xTaskResumeAll K k\<rparr>;
                  let (retval, e) = fr_platform_init K e;
                  k \<leftarrow> xSemaphoreGive K (env_sema e) (kern e);
                  Some (retval, e\<lparr>kern := k\<rparr>) }
                else do {
                  k \<leftarrow> xSemaphoreTake K (env_sema e) (xTaskResumeAll K (kern e));
                  k \<leftarrow> xSemaphoreGive K (env_sema e) k;
                  Some (0, e\<lparr>kern := k\<rparr>) }) }"

definition fr_env_deinit :: "'k rtos \<Rightarrow> 'k fr_env \<Rightarrow> (int \<times> 'k fr_env) option" where
  "fr_env_deinit K e =
     do { let e = e\<lparr>kern := vTaskSuspendAll K (kern e)\<rparr>;
          rl_assert (os_init_counter e > 0);
          (if os_init_counter e \<le> 0 then Some (-1, e\<lparr>kern := xTaskResumeAll K (kern e)\<rparr>)
           else
             let e = e\<lparr>os_init_counter := os_init_counter e - 1\<rparr>
             in if os_init_counter e \<le> 0
                then let (retval, pl, k) = platform_deinit (fr_delete_mutex K) (os_plat e, kern e);
                         k = vEventGroupDelete K (event_group e) k;
                         k = vSemaphoreDelete K (env_sema e) k
                     in Some (retval, e\<lparr>os_isr_table := replicate RL_PLATFORM_MAX_ISR_COUNT NULL,
                          os_plat := pl, event_group := NULL, env_sema := NULL,
                          kern := xTaskResumeAll K k\<rparr>)
                else Some (0, e\<lparr>kern := xTaskResumeAll K (kern e)\<rparr>)) }"

definition fr_sleep_msec :: "'k rtos \<Rightarrow> u32 \<Rightarrow> 'k fr_env \<Rightarrow> 'k fr_env option" where
  "fr_sleep_msec K num_msec e =
     (if portTICK_PERIOD_MS K = 0 then None
      else Some (e\<lparr>kern := vTaskDelay K (num_msec div portTICK_PERIOD_MS K) (kern e)\<rparr>))"

definition fr_enable_interrupt :: "u32 \<Rightarrow> 'k fr_env \<Rightarrow> 'k fr_env option" where
  "fr_enable_interrupt vector_id e =
     do { (r, pl) \<leftarrow> platform_interrupt_enable vector_id (os_plat e); Some (e\<lparr>os_plat := pl\<rparr>) }"

definition fr_disable_interrupt :: "bool \<Rightarrow> u32 \<Rightarrow> 'k fr_env \<Rightarrow> 'k fr_env option" where
  "fr_disable_interrupt side_a vector_id e =
     do { (r, pl) \<leftarrow> platform_interrupt_disable side_a vector_id (os_plat e); Some (e\<lparr>os_plat := pl\<rparr>) }"

definition fr_notify :: "'k rtos \<Rightarrow> u32 \<Rightarrow> 'k fr_env \<Rightarrow> 'k fr_env option" where
  "fr_notify K vector_id e =
     do { (pl, k) \<leftarrow> platform_notify (fr_lock_mutex K (os_icsr e)) (fr_unlock_mutex K (os_icsr e))
            vector_id (os_plat e, kern e);
          Some (e\<lparr>os_plat := pl, kern := k\<rparr>) }"

definition fr_get_timestamp :: "'k rtos \<Rightarrow> 'k fr_env \<Rightarrow> u64" where
  "fr_get_timestamp K e =
     (if fr_in_isr K (os_icsr e) \<noteq> 0 then ucast (xTaskGetTickCountFromISR K (kern e))
      else ucast (xTaskGetTickCount K (kern e)))"

definition fr_isr_data :: "u32 \<Rightarrow> 'k fr_env \<Rightarrow> ptr option" where
  "fr_isr_data vector e = env_isr (\<lambda>d s. Some d) vector (os_isr_table e) NULL"

section \<open>Waiting for the link\<close>

text \<open>The conversion of a timeout in milliseconds to ticks; a division by zero has no result.\<close>

definition fr_ticks :: "'k rtos \<Rightarrow> u32 \<Rightarrow> u32 option" where
  "fr_ticks K timeout_ms =
     (if timeout_ms = portMAX_DELAY then Some portMAX_DELAY
      else if portTICK_PERIOD_MS K = 0 then None
      else Some (timeout_ms div portTICK_PERIOD_MS K))"

text \<open>
  \<open>link_state\<close> is what the read of the variable gives, after the bit was cleared. The wait is for
  all of the bits (there is one) and leaves them set.
\<close>

definition fr_wait_begin :: "'k rtos \<Rightarrow> u32 \<Rightarrow> 'k fr_env \<Rightarrow> (u32 \<times> 'k fr_env) option" where
  "fr_wait_begin K link_id e =
     do { lbit \<leftarrow> shl1 link_id;
          k \<leftarrow> xEventGroupClearBits K (event_group e) lbit (kern e);
          Some (lbit, e\<lparr>kern := k\<rparr>) }"

definition fr_wait_end :: "'k rtos \<Rightarrow> u32 \<Rightarrow> u32 \<Rightarrow> 'k fr_env \<Rightarrow> (u32 \<times> 'k fr_env) option" where
  "fr_wait_end K lbit timeout_ms e =
     do { ticks \<leftarrow> fr_ticks K timeout_ms;
          (uxBits, k) \<leftarrow> xEventGroupWaitBits K (event_group e) lbit ticks (kern e);
          Some (if uxBits = lbit then 1 else 0, e\<lparr>kern := k\<rparr>) }"

definition fr_wait_for_link_up ::
  "'k rtos \<Rightarrow> ('k \<Rightarrow> u32) \<Rightarrow> u32 \<Rightarrow> u32 \<Rightarrow> 'k fr_env \<Rightarrow> (u32 \<times> 'k fr_env) option" where
  "fr_wait_for_link_up K link_state link_id timeout_ms e =
     do { (lbit, e) \<leftarrow> fr_wait_begin K link_id e;
          (if link_state (kern e) \<noteq> 1 then fr_wait_end K lbit timeout_ms e else Some (1, e)) }"

text \<open>The layer does not look at the result of \<open>xEventGroupSetBitsFromISR\<close>.\<close>

definition fr_tx_callback :: "'k rtos \<Rightarrow> u32 \<Rightarrow> 'k fr_env \<Rightarrow> 'k fr_env option" where
  "fr_tx_callback K link_id e =
     do { lbit \<leftarrow> shl1 link_id;
          k \<leftarrow> (if fr_in_isr K (os_icsr e) \<noteq> 0
                 then map_option snd (xEventGroupSetBitsFromISR K (event_group e) lbit (kern e))
                 else xEventGroupSetBits K (event_group e) lbit (kern e));
          Some (e\<lparr>kern := k\<rparr>) }"

section \<open>Message queues\<close>

text \<open>\<open>(int32_t)\<close> of a count above \<open>INT32_MAX\<close> is cut off there.\<close>

definition fr_create_queue :: "'k rtos \<Rightarrow> int \<Rightarrow> int \<Rightarrow> 'k fr_env \<Rightarrow> int \<times> ptr \<times> 'k fr_env" where
  "fr_create_queue K len element_size e =
     (if len < 0 \<or> element_size < 0 then (-1, NULL, e)
      else let (q, k) = xQueueCreate K (word_of_int len) (word_of_int element_size) (kern e)
           in (if q \<noteq> NULL then 0 else -1, q, e\<lparr>kern := k\<rparr>))"

definition fr_delete_queue :: "'k rtos \<Rightarrow> ptr \<Rightarrow> 'k fr_env \<Rightarrow> 'k fr_env" where
  "fr_delete_queue K q e = e\<lparr>kern := vQueueDelete K q (kern e)\<rparr>"

definition fr_put_queue ::
  "'k rtos \<Rightarrow> ptr \<Rightarrow> rpmsg_queue_rx_cb_data \<Rightarrow> u32 \<Rightarrow> 'k fr_env \<Rightarrow> (int \<times> 'k fr_env) option" where
  "fr_put_queue K q msg timeout_ms e =
     do { (r, k) \<leftarrow> (if fr_in_isr K (os_icsr e) \<noteq> 0 then xQueueSendFromISR K q msg (kern e)
                      else do { ticks \<leftarrow> fr_ticks K timeout_ms; xQueueSend K q msg ticks (kern e) });
          Some (if r then 1 else 0, e\<lparr>kern := k\<rparr>) }"

definition fr_get_queue ::
  "'k rtos \<Rightarrow> ptr \<Rightarrow> rpmsg_queue_rx_cb_data \<Rightarrow> u32 \<Rightarrow> 'k fr_env
    \<Rightarrow> (int \<times> rpmsg_queue_rx_cb_data \<times> 'k fr_env) option" where
  "fr_get_queue K q msg timeout_ms e =
     do { (r, m, k) \<leftarrow> (if fr_in_isr K (os_icsr e) \<noteq> 0 then xQueueReceiveFromISR K q msg (kern e)
                         else do { ticks \<leftarrow> fr_ticks K timeout_ms; xQueueReceive K q msg ticks (kern e) });
          Some (if r then 1 else 0, m, e\<lparr>kern := k\<rparr>) }"

definition fr_get_current_queue_size :: "'k rtos \<Rightarrow> ptr \<Rightarrow> 'k fr_env \<Rightarrow> int" where
  "fr_get_current_queue_size K q e =
     (let messages = (if fr_in_isr K (os_icsr e) \<noteq> 0 then uxQueueMessagesWaitingFromISR K q (kern e)
                      else uxQueueMessagesWaiting K q (kern e))
      in if messages > 0x7FFFFFFF then 0x7FFFFFFF else sint messages)"

section \<open>The ports\<close>

definition fr_port :: "'k rtos \<Rightarrow> bool \<Rightarrow> 'k fr_env env_port" where
  "fr_port K side_a =
     \<lparr>ep_env_init = fr_env_init K,
      ep_env_deinit = fr_env_deinit K,
      ep_create_mutex = (\<lambda>addr count e.
        let (st, l, k) = fr_create_mutex K NULL count (kern e) in (st, l, e\<lparr>kern := k\<rparr>)),
      ep_delete_mutex = (\<lambda>l e. e\<lparr>kern := fr_delete_mutex K l (kern e)\<rparr>),
      ep_lock_mutex = (\<lambda>l e. do { k \<leftarrow> fr_lock_mutex K (os_icsr e) l (kern e); Some (e\<lparr>kern := k\<rparr>) }),
      ep_unlock_mutex = (\<lambda>l e. do { k \<leftarrow> fr_unlock_mutex K (os_icsr e) l (kern e); Some (e\<lparr>kern := k\<rparr>) }),
      ep_init_interrupt = (\<lambda>v d e. os_with_plat
        (platform_init_interrupt (\<lambda>v d. on_table (env_register_isr v d))
          (\<lambda>l. on_kern (fr_lock_mutex K (os_icsr e) l)) (\<lambda>l. on_kern (fr_unlock_mutex K (os_icsr e) l)) v d) e),
      ep_deinit_interrupt = (\<lambda>v e. os_with_plat
        (platform_deinit_interrupt (\<lambda>v. on_table (env_unregister_isr v))
          (\<lambda>l. on_kern (fr_lock_mutex K (os_icsr e) l)) (\<lambda>l. on_kern (fr_unlock_mutex K (os_icsr e) l)) v) e),
      ep_enable_interrupt = fr_enable_interrupt,
      ep_disable_interrupt = fr_disable_interrupt side_a,
      ep_notify = fr_notify K,
      ep_tx_callback = fr_tx_callback K,
      ep_isr_data = fr_isr_data,
      ep_map_vatopa = platform_vatopa,
      ep_map_patova = platform_patova\<rparr>"

definition fr_queue_port :: "'k rtos \<Rightarrow> 'k fr_env queue_port" where
  "fr_queue_port K =
     \<lparr>qp_create = (\<lambda>len sz e. Some (fr_create_queue K len sz e)), qp_delete = fr_delete_queue K, qp_put = fr_put_queue K,
      qp_get = fr_get_queue K, qp_size = fr_get_current_queue_size K\<rparr>"

section \<open>The layer meets the contracts of the library\<close>

text \<open>A lock is free or held, and a queue has contents, as the contracts of the library say.\<close>

abbreviation fr_free :: "'k rtos \<Rightarrow> ('k \<Rightarrow> ptr \<Rightarrow> (nat \<times> nat) option) \<Rightarrow> ptr \<Rightarrow> 'k fr_env \<Rightarrow> bool" where
  "fr_free K \<equiv> os_free (\<lambda>i. fr_in_isr K i \<noteq> 0) platform_lock"

abbreviation fr_ok :: "'k rtos \<Rightarrow> ('k \<Rightarrow> ptr \<Rightarrow> ('m list \<times> nat) option) \<Rightarrow> ptr \<Rightarrow> 'k fr_env \<Rightarrow> bool" where
  "fr_ok K \<equiv> os_ok (portTICK_PERIOD_MS K \<noteq> 0)"

sublocale rtos_kernel \<subseteq> locks: os_port "\<lambda>i. fr_in_isr K i \<noteq> 0" "fr_lock_mutex K" "fr_unlock_mutex K" sem queue
    "fr_port K side_a" platform_lock "\<lambda>pl. True"
  for side_a
proof (unfold_locales, goal_cases)
  case (8 e v)
  obtain b where b: "shl1 (19 - RL_GET_Q_ID v) = Some b" using shl1_notify by blast
  let ?pl = "mu_do (MU_TriggerInterrupts b) (os_plat e)"
  have "platform_lock ?pl = platform_lock (os_plat e)" by (simp add: mu_do_def)
  then show ?case using b
    by (intro disjI2 exI [of _ ?pl])
      (cases "fr_lock_mutex K (os_icsr e) (platform_lock (os_plat e)) (kern e)";
        simp add: fr_port_def fr_notify_def platform_notify_def Let_def Option.bind_eq_Some_conv split: bind_splits)
qed (auto simp: fr_lock_mutex_def fr_unlock_mutex_def sem_take sem_block sem_give fr_port_def
    platform_vatopa_def platform_patova_def)

context rtos_kernel
begin

lemmas fr_os_locks = locks.os_locks_axioms

lemmas fr_env_locks = locks.os_env_locks [simplified]

end

context rtos_kernel
begin

text \<open>One queue operation of the layer, in a task and in an interrupt handler.\<close>

lemma fr_get_Cons:
  assumes "queue (kern e) q = Some (x # xs, n)" "portTICK_PERIOD_MS K \<noteq> 0"
  shows "\<exists>k. fr_get_queue K q m t e = Some (1, x, e\<lparr>kern := k\<rparr>)
    \<and> queue k = (queue (kern e))(q \<mapsto> (xs, n)) \<and> sem k = sem (kern e)"
proof -
  have "\<exists>ticks. fr_ticks K t = Some ticks" using assms(2) by (simp add: fr_ticks_def)
  then obtain ticks where "fr_ticks K t = Some ticks" by blast
  then show ?thesis
    using queue_receive [OF assms(1), of m ticks] queue_receive_isr [OF assms(1), of m]
    by (cases "fr_in_isr K (os_icsr e) = 0") (auto simp: fr_get_queue_def)
qed

lemma fr_ticks_0: "portTICK_PERIOD_MS K \<noteq> 0 \<Longrightarrow> fr_ticks K 0 = Some 0"
  by (simp add: fr_ticks_def)

end

sublocale rtos_kernel \<subseteq> queues: os_queue "fr_queue_port K" queue "portTICK_PERIOD_MS K \<noteq> 0"
proof (unfold_locales, goal_cases)
  case (1 e q xs n m)
  then show ?case
    using queue_send [OF 1(1,2), of m 0] queue_send_isr [OF 1(1,2), of m] fr_ticks_0
    by (cases "fr_in_isr K (os_icsr e) = 0") (auto simp: fr_queue_port_def fr_put_queue_def)
next
  case (2 e q xs n m)
  then show ?case using queue_full [OF 2(1,2), of m] fr_ticks_0 by (auto simp: fr_queue_port_def fr_put_queue_def)
next
  case (3 e q x xs n m t)
  then show ?case using fr_get_Cons [OF 3, of m t] by (auto simp: fr_queue_port_def)
next
  case (4 e q n m)
  then show ?case using queue_empty [OF 4(1), of m] fr_ticks_0 by (auto simp: fr_queue_port_def fr_get_queue_def)
next
  case (5 e q xs n)
  then show ?case
    using queue_waiting [OF 5(1,3)] msg_count_word [OF 5(3)]
    by (simp add: fr_queue_port_def fr_get_current_queue_size_def Let_def)
qed

context rtos_kernel
begin

lemmas fr_env_queue = queues.os_env_queue

end

text \<open>
  The event groups of the kernel: \<open>bits k g\<close> are the bits set in \<open>g\<close>. An interrupt handler does not
  set bits itself: \<open>xEventGroupSetBitsFromISR\<close> sends the order to the timer task, whose queue holds the orders
  \<open>pend k\<close>; it fails when that queue has no \<open>room\<close>. \<open>timer\<close> is the execution of the oldest order by the
  timer task. A wait for bits that are set ends at once; a wait without limit also ends when the bits
  are only ordered, since the timer task runs while the caller waits.
\<close>

locale rtos_events = rtos_kernel K sem queue
  for K :: "'k rtos" and sem :: "'k \<Rightarrow> ptr \<Rightarrow> (nat \<times> nat) option"
    and queue :: "'k \<Rightarrow> ptr \<Rightarrow> (rpmsg_queue_rx_cb_data list \<times> nat) option" +
  fixes bits :: "'k \<Rightarrow> ptr \<Rightarrow> u32"
    and pend :: "'k \<Rightarrow> (ptr \<times> u32) list"
    and room :: "'k \<Rightarrow> bool"
    and timer :: "'k \<Rightarrow> 'k \<Rightarrow> bool"
  assumes bits_clear: "xEventGroupClearBits K g b k = Some k' \<Longrightarrow>
      bits k' = (bits k)(g := bits k g AND NOT b) \<and> pend k' = pend k"
    and bits_set: "xEventGroupSetBits K g b k = Some k' \<Longrightarrow>
      bits k' = (bits k)(g := bits k g OR b) \<and> pend k' = pend k"
    and bits_set_isr: "xEventGroupSetBitsFromISR K g b k = Some (ok, k') \<Longrightarrow>
      ok = room k \<and> bits k' = bits k \<and> pend k' = (if room k then pend k @ [(g, b)] else pend k)"
    and bits_timer: "timer k k' \<Longrightarrow> \<exists>g b. pend k = (g, b) # pend k' \<and> bits k' = (bits k)(g := bits k g OR b)"
    and bits_wait: "bits k g AND b = b \<Longrightarrow> \<exists>k'. xEventGroupWaitBits K g b t k = Some (bits k g, k')"
    and bits_wait_pend: "(g, c) \<in> set (pend k) \<Longrightarrow> c AND b = b \<Longrightarrow>
      \<exists>r k'. xEventGroupWaitBits K g b portMAX_DELAY k = Some (r, k') \<and> r AND b = b"

section \<open>A kernel that meets the contract\<close>

text \<open>
  A small kernel for concrete runs. \<open>rk_timer\<close> are the orders in the queue of the timer task, which has place
  for \<open>rk_space\<close> of them. \<open>rk_sched\<close> lists the event bits other contexts set while a task waits, in their order,
  after the timer task has executed its orders.
\<close>

record rk =
  rk_sem :: "ptr \<Rightarrow> (nat \<times> nat) option"
  rk_queue :: "ptr \<Rightarrow> (rpmsg_queue_rx_cb_data list \<times> nat) option"
  rk_bits :: "ptr \<Rightarrow> u32"
  rk_timer :: "(ptr \<times> u32) list"
  rk_space :: nat
  rk_sched :: "(ptr \<times> u32) list"
  rk_next :: ptr
  rk_tick :: u32

definition rk_sem_create :: "u32 \<Rightarrow> u32 \<Rightarrow> rk \<Rightarrow> ptr \<times> rk" where
  "rk_sem_create mx ct k =
     (if rk_sem k (rk_next k) = None then (rk_next k, k\<lparr>rk_sem := (rk_sem k)(rk_next k \<mapsto> (unat ct, unat mx)), rk_next := rk_next k + 4\<rparr>)
      else (NULL, k))"

definition rk_take :: "ptr \<Rightarrow> rk \<Rightarrow> rk option" where
  "rk_take l k = (case rk_sem k l of
      Some (Suc c, m) \<Rightarrow> Some (k\<lparr>rk_sem := (rk_sem k)(l \<mapsto> (c, m))\<rparr>) | _ \<Rightarrow> None)"

definition rk_give :: "ptr \<Rightarrow> rk \<Rightarrow> rk option" where
  "rk_give l k = (case rk_sem k l of
      Some (c, m) \<Rightarrow> Some (if c < m then k\<lparr>rk_sem := (rk_sem k)(l \<mapsto> (Suc c, m))\<rparr> else k) | None \<Rightarrow> None)"

definition rk_set_bits :: "ptr \<Rightarrow> u32 \<Rightarrow> rk \<Rightarrow> rk" where
  "rk_set_bits g b k = k\<lparr>rk_bits := (rk_bits k)(g := rk_bits k g OR b)\<rparr>"

definition rk_set_bits_isr :: "ptr \<Rightarrow> u32 \<Rightarrow> rk \<Rightarrow> bool \<times> rk" where
  "rk_set_bits_isr g b k =
     (if length (rk_timer k) < rk_space k then (True, k\<lparr>rk_timer := rk_timer k @ [(g, b)]\<rparr>) else (False, k))"

fun rk_timer_task :: "rk \<Rightarrow> rk option" where
  "rk_timer_task k = (case rk_timer k of (g, b) # s \<Rightarrow> Some (rk_set_bits g b k\<lparr>rk_timer := s\<rparr>) | [] \<Rightarrow> None)"

definition rk_drop :: "rk \<Rightarrow> rk" where
  "rk_drop k = (case rk_timer k of _ # s \<Rightarrow> k\<lparr>rk_timer := s\<rparr> | [] \<Rightarrow> k\<lparr>rk_sched := tl (rk_sched k)\<rparr>)"

fun rk_wait :: "(ptr \<times> u32) list \<Rightarrow> ptr \<Rightarrow> u32 \<Rightarrow> u32 \<Rightarrow> rk \<Rightarrow> (u32 \<times> rk) option" where
  "rk_wait [] g b t k = (if rk_bits k g AND b = b \<or> t \<noteq> portMAX_DELAY then Some (rk_bits k g, k) else None)"
| "rk_wait ((g', b') # s) g b t k =
     (if rk_bits k g AND b = b then Some (rk_bits k g, k)
      else rk_wait s g b t (rk_set_bits g' b' (rk_drop k)))"

definition rk_queue_create :: "u32 \<Rightarrow> u32 \<Rightarrow> rk \<Rightarrow> ptr \<times> rk" where
  "rk_queue_create len sz k =
     (if rk_queue k (rk_next k) = None then (rk_next k, k\<lparr>rk_queue := (rk_queue k)(rk_next k \<mapsto> ([], unat len)), rk_next := rk_next k + 4\<rparr>)
      else (NULL, k))"

definition rk_send :: "ptr \<Rightarrow> rpmsg_queue_rx_cb_data \<Rightarrow> u32 \<Rightarrow> rk \<Rightarrow> (bool \<times> rk) option" where
  "rk_send q x t k = (case rk_queue k q of
      Some (xs, n) \<Rightarrow>
        if length xs < n then Some (True, k\<lparr>rk_queue := (rk_queue k)(q \<mapsto> (xs @ [x], n))\<rparr>)
        else if t = portMAX_DELAY then None else Some (False, k)
    | None \<Rightarrow> None)"

definition rk_receive ::
  "ptr \<Rightarrow> rpmsg_queue_rx_cb_data \<Rightarrow> u32 \<Rightarrow> rk \<Rightarrow> (bool \<times> rpmsg_queue_rx_cb_data \<times> rk) option" where
  "rk_receive q y t k = (case rk_queue k q of
      Some (x # xs, n) \<Rightarrow> Some (True, x, k\<lparr>rk_queue := (rk_queue k)(q \<mapsto> (xs, n))\<rparr>)
    | Some ([], n) \<Rightarrow> if t = portMAX_DELAY then None else Some (False, y, k)
    | None \<Rightarrow> None)"

definition rk_waiting :: "ptr \<Rightarrow> rk \<Rightarrow> u32" where
  "rk_waiting q k = (case rk_queue k q of Some (xs, n) \<Rightarrow> of_nat (length xs) | None \<Rightarrow> 0)"

definition ref_rtos :: "rk rtos" where
  "ref_rtos =
     \<lparr>vTaskSuspendAll = (\<lambda>k. k), xTaskResumeAll = (\<lambda>k. k),
      vTaskDelay = (\<lambda>n k. k\<lparr>rk_tick := rk_tick k + n\<rparr>),
      xTaskGetTickCount = rk_tick, xTaskGetTickCountFromISR = rk_tick,
      xSemaphoreCreateBinary = rk_sem_create 1 0, xSemaphoreCreateCounting = rk_sem_create,
      xSemaphoreTake = rk_take, xSemaphoreGive = rk_give,
      vSemaphoreDelete = (\<lambda>l k. k\<lparr>rk_sem := (rk_sem k)(l := None)\<rparr>),
      xEventGroupCreate = (\<lambda>k. (rk_next k, k\<lparr>rk_bits := (rk_bits k)(rk_next k := 0), rk_next := rk_next k + 4\<rparr>)),
      vEventGroupDelete = (\<lambda>g k. k),
      xEventGroupClearBits = (\<lambda>g b k. Some (k\<lparr>rk_bits := (rk_bits k)(g := rk_bits k g AND NOT b)\<rparr>)),
      xEventGroupSetBits = (\<lambda>g b k. Some (rk_set_bits g b k)),
      xEventGroupSetBitsFromISR = (\<lambda>g b k. Some (rk_set_bits_isr g b k)),
      xEventGroupWaitBits = (\<lambda>g b t k. rk_wait (rk_timer k @ rk_sched k) g b t k),
      xQueueCreate = rk_queue_create,
      vQueueDelete = (\<lambda>q k. k\<lparr>rk_queue := (rk_queue k)(q := None)\<rparr>),
      xQueueSend = rk_send, xQueueSendFromISR = (\<lambda>q x. rk_send q x 0),
      xQueueReceive = rk_receive, xQueueReceiveFromISR = (\<lambda>q y. rk_receive q y 0),
      uxQueueMessagesWaiting = rk_waiting, uxQueueMessagesWaitingFromISR = rk_waiting,
      portTICK_PERIOD_MS = 1, SCB_ICSR_VECTACTIVE_Msk = 0x1FF\<rparr>"

interpretation ref: rtos_kernel ref_rtos rk_sem rk_queue
  by unfold_locales
    (auto simp: ref_rtos_def rk_sem_create_def rk_take_def rk_give_def rk_queue_create_def rk_send_def
      rk_receive_def rk_waiting_def split: if_splits option.splits)

lemma rk_wait_set: "rk_bits k g AND b = b \<Longrightarrow> rk_wait s g b t k = Some (rk_bits k g, k)"
  by (cases s) auto

lemma rk_wait_order:
  "(g, c) \<in> set s \<Longrightarrow> c AND b = b \<Longrightarrow> \<exists>r k'. rk_wait s g b t k = Some (r, k') \<and> r AND b = b"
proof (induction s arbitrary: k)
  case (Cons x s)
  obtain g' b' where x: "x = (g', b')" by fastforce
  show ?case
  proof (cases "rk_bits k g AND b = b \<or> x \<noteq> (g, c)")
    case True
    then show ?thesis using Cons by (auto simp: x)
  next
    case False
    have "rk_bits (rk_set_bits g' b' (rk_drop k)) g AND b = b"
      using False Cons.prems(2) or_and_keep [of c b "rk_bits (rk_drop k) g"]
      by (simp add: x rk_set_bits_def or.commute)
    then show ?thesis using False by (simp add: x rk_wait_set)
  qed
qed simp

interpretation ref: rtos_events ref_rtos rk_sem rk_queue rk_bits rk_timer "\<lambda>k. length (rk_timer k) < rk_space k"
    "\<lambda>k k'. rk_timer_task k = Some k'"
proof (unfold_locales, goal_cases)
  case (5 k g b t)
  then show ?case by (simp add: ref_rtos_def rk_wait_set)
next
  case (6 g c k b)
  then have "(g, c) \<in> set (rk_timer k @ rk_sched k)" by simp
  from rk_wait_order [OF this 6(2)] show ?case by (simp add: ref_rtos_def)
qed (auto simp: ref_rtos_def rk_set_bits_def rk_set_bits_isr_def split: if_splits list.splits)

definition rk0 :: rk where
  "rk0 = \<lparr>rk_sem = \<lambda>l. None, rk_queue = \<lambda>q. None, rk_bits = \<lambda>g. 0, rk_timer = [], rk_space = 4, rk_sched = [], rk_next = 0x1000, rk_tick = 0\<rparr>"

section \<open>Properties\<close>

context rtos_kernel
begin

lemma create_mutex_sem:
  assumes "fr_create_mutex K old count k = (0, l, k')" "0 \<le> count"
  shows "sem k' l = Some (nat count, 10) \<and> count \<le> 10"
proof -
  have c: "count \<le> 10" using assms(1) by (auto simp: fr_create_mutex_def split: if_splits)
  then have u: "unat (word_of_int count :: u32) = nat count"
    using assms(2) by (simp add: unat_eq_nat_uint uint_word_of_int)
  have x: "xSemaphoreCreateCounting K (word_of_int RL_ENV_MAX_MUTEX_COUNT) (word_of_int count) k = (l, k')" "l \<noteq> NULL"
    using assms(1) c by (auto simp: fr_create_mutex_def Let_def split: prod.splits if_splits)
  have "(word_of_int count :: u32) \<le> word_of_int RL_ENV_MAX_MUTEX_COUNT"
    using c u by (simp add: word_le_nat_alt)
  from sem_create [OF x this] show ?thesis using u c by simp
qed

end

text \<open>
  C15: a mutex created with \<^verbatim>\<open>env_create_mutex(&lock, count)\<close> admits at most \<open>count\<close> tasks at a time,
  whatever the order in which tasks lock and unlock it, and a task gets through
  \<^verbatim>\<open>env_lock_mutex\<close> at once exactly when fewer are inside. With count 1 this is the mutual
  exclusion the messaging layer relies on.
\<close>

theorem fr_mutex_exclusion:
  assumes "rtos_kernel K sem queue" and "fr_in_isr K icsr = 0"
    and "fr_create_mutex K old count k0 = (0, l, k1)" "0 \<le> count"
    and "(mutex_step (fr_lock_mutex K icsr) (fr_unlock_mutex K icsr) sem l)\<^sup>*\<^sup>* ({}, k1) (S, k)"
  shows "finite S \<and> card S \<le> nat count \<and> (fr_lock_mutex K icsr l k \<noteq> None \<longleftrightarrow> card S < nat count)"
proof -
  have "sem k1 l = Some (nat count, 10)" "nat count \<le> 10"
    using rtos_kernel.create_mutex_sem [OF assms(1,3,4)] by auto
  from os_locks.mutex_exclusion [OF rtos_kernel.fr_os_locks [OF assms(1)] assms(5) _ this] assms(2)
  show ?thesis by simp
qed

lemma fr_mutex_exclusion_witness:
  "\<exists>k1 k2. fr_create_mutex ref_rtos NULL 1 rk0 = (0, 0x1000, k1)
    \<and> (mutex_step (fr_lock_mutex ref_rtos 0) (fr_unlock_mutex ref_rtos 0) rk_sem 0x1000)\<^sup>*\<^sup>* ({}, k1) ({7}, k2)
    \<and> fr_lock_mutex ref_rtos 0 0x1000 k2 = None"
proof -
  let ?k1 = "rk0\<lparr>rk_sem := [0x1000 \<mapsto> (1, 10)], rk_next := 0x1004\<rparr>"
  let ?k2 = "?k1\<lparr>rk_sem := [0x1000 \<mapsto> (0, 10)]\<rparr>"
  let ?step = "mutex_step (fr_lock_mutex ref_rtos 0) (fr_unlock_mutex ref_rtos 0) rk_sem 0x1000"
  have c: "fr_create_mutex ref_rtos NULL 1 rk0 = (0, 0x1000, ?k1)"
    by (simp add: fr_create_mutex_def ref_rtos_def rk_sem_create_def rk0_def)
  have i: "fr_in_isr ref_rtos 0 = 0" by (simp add: fr_in_isr_def platform_in_isr_def ref_rtos_def)
  have "fr_lock_mutex ref_rtos 0 0x1000 ?k1 = Some ?k2"
    using i by (simp add: fr_lock_mutex_def) (simp add: ref_rtos_def rk_take_def)
  then have r: "?step\<^sup>*\<^sup>* ({}, ?k1) ({7}, ?k2)"
    by (intro r_into_rtranclp mutex_step.enter [of 7 "{}", simplified])
  from fr_mutex_exclusion [OF ref.rtos_kernel_axioms i c _ r]
  have "fr_lock_mutex ref_rtos 0 0x1000 ?k2 = None" by simp
  with c r show ?thesis by blast
qed

text \<open>The callback of a handler that interrupts a task: it runs with the interrupt status \<open>i\<close> of its own.\<close>

definition fr_isr_callback :: "'k rtos \<Rightarrow> u32 \<Rightarrow> u32 \<Rightarrow> 'k fr_env \<Rightarrow> 'k fr_env option" where
  "fr_isr_callback K i link_id e =
     map_option (\<lambda>e'. e'\<lparr>os_icsr := os_icsr e\<rparr>) (fr_tx_callback K link_id (e\<lparr>os_icsr := i\<rparr>))"

text \<open>
  The accesses of a task that waits for link \<open>link_id\<close>, of the callback of this link with the interrupt status
  \<open>i\<close> (0 is a task), and beside them the callbacks of any link in any context and the timer task. The callback of the link
  is called when the timer task's queue has room, or in a task.
\<close>

abbreviation fr_link_step ::
  "'k rtos \<Rightarrow> ('k \<Rightarrow> bool) \<Rightarrow> ('k \<Rightarrow> 'k \<Rightarrow> bool) \<Rightarrow> u32 \<Rightarrow> u32 \<Rightarrow> u32 \<Rightarrow> u32
    \<Rightarrow> 'k fr_env \<times> u32 \<times> wait_pc \<times> isr_pc \<Rightarrow> 'k fr_env \<times> u32 \<times> wait_pc \<times> isr_pc \<Rightarrow> bool" where
  "fr_link_step K room timer i link_id lbit timeout_ms \<equiv>
     link_step (\<lambda>e. map_option snd (fr_wait_begin K link_id e)) (fr_wait_end K lbit timeout_ms)
       (\<lambda>e. if fr_in_isr K i = 0 \<or> room (kern e) then fr_isr_callback K i link_id e else None)
       (\<lambda>e e'. (\<exists>i j. fr_isr_callback K i j e = Some e') \<or> (\<exists>k. timer (kern e) k \<and> e' = e\<lparr>kern := k\<rparr>))"

text \<open>The bits are set, or the timer task has the order to set them.\<close>

definition bit_coming ::
  "('k \<Rightarrow> ptr \<Rightarrow> u32) \<Rightarrow> ('k \<Rightarrow> (ptr \<times> u32) list) \<Rightarrow> u32 \<Rightarrow> 'k fr_env \<Rightarrow> bool" where
  "bit_coming bits pend b e \<longleftrightarrow> bits (kern e) (event_group e) AND b = b \<or> (\<exists>c. (event_group e, c) \<in> set (pend (kern e)) \<and> c AND b = b)"

context rtos_events
begin

abbreviation (input) coming :: "u32 \<Rightarrow> 'k fr_env \<Rightarrow> bool" where
  "coming \<equiv> bit_coming bits pend"

lemma isr_callback_bits:
  assumes "fr_isr_callback K i link_id e = Some e'"
  shows "\<exists>b. shl1 link_id = Some b \<and> event_group e' = event_group e
    \<and> (if fr_in_isr K i = 0
       then bits (kern e') = (bits (kern e))(event_group e := bits (kern e) (event_group e) OR b) \<and> pend (kern e') = pend (kern e)
       else bits (kern e') = bits (kern e)
         \<and> pend (kern e') = (if room (kern e) then pend (kern e) @ [(event_group e, b)] else pend (kern e)))"
proof -
  let ?e = "e\<lparr>os_icsr := i\<rparr>"
  obtain t where t: "fr_tx_callback K link_id ?e = Some t" "e' = t\<lparr>os_icsr := os_icsr e\<rparr>"
    using assms by (auto simp: fr_isr_callback_def)
  then obtain b where b: "shl1 link_id = Some b" by (cases "shl1 link_id") (simp_all add: fr_tx_callback_def)
  show ?thesis
  proof (cases "fr_in_isr K i = 0")
    case True
    then obtain k where "xEventGroupSetBits K (event_group e) b (kern e) = Some k" "kern e' = k" "event_group e' = event_group e"
      using t b by (auto simp: fr_tx_callback_def split: bind_splits)
    then show ?thesis using bits_set b True by simp
  next
    case False
    then obtain ok k where "xEventGroupSetBitsFromISR K (event_group e) b (kern e) = Some (ok, k)" "kern e' = k"
      "event_group e' = event_group e"
      using t b by (auto simp: fr_tx_callback_def split: bind_splits)
    then show ?thesis using bits_set_isr b False by simp
  qed
qed

lemma isr_callback_coming:
  assumes "fr_isr_callback K i j e = Some e'"
  shows "coming b e \<Longrightarrow> coming b e'"
    and "shl1 j = Some b \<Longrightarrow> fr_in_isr K i = 0 \<or> room (kern e) \<Longrightarrow> coming b e'"
  using isr_callback_bits [OF assms]
  by (auto simp: bit_coming_def or_and_keep word_ao_absorbs split: if_splits)

lemma timer_coming:
  assumes "timer (kern e) k" "coming b e"
  shows "coming b (e\<lparr>kern := k\<rparr>)"
proof -
  obtain g c where t: "pend (kern e) = (g, c) # pend k" "bits k = (bits (kern e))(g := bits (kern e) g OR c)"
    using bits_timer [OF assms(1)] by blast
  have "(v OR c) AND b = b" if "c AND b = b" for v using or_and_keep [OF that, of v] by (simp add: or.commute)
  then show ?thesis using assms(2) t by (auto simp: bit_coming_def or_and_keep)
qed

lemma fr_link_flag:
  assumes "shl1 link_id = Some lbit"
  shows "link_flag (\<lambda>e. if fr_in_isr K i = 0 \<or> room (kern e) then fr_isr_callback K i link_id e else None)
    (\<lambda>e e'. (\<exists>i j. fr_isr_callback K i j e = Some e') \<or> (\<exists>k. timer (kern e) k \<and> e' = e\<lparr>kern := k\<rparr>)) (coming lbit)"
  by unfold_locales (auto simp: assms intro: isr_callback_coming timer_coming split: if_splits)

lemma wait_at_once:
  assumes b: "bits (kern e) (event_group e) AND lbit = lbit" and p: "portTICK_PERIOD_MS K \<noteq> 0"
  shows "\<exists>e'. fr_wait_end K lbit timeout_ms e
      = Some (if bits (kern e) (event_group e) AND NOT lbit = 0 then 1 else 0, e')"
proof -
  have "v = (v AND lbit) OR (v AND NOT lbit)" for v
    by (simp add: bit.conj_disj_distrib [symmetric])
  then have n: "bits (kern e) (event_group e) = lbit \<longleftrightarrow> bits (kern e) (event_group e) AND NOT lbit = 0"
    using b by (metis or.right_neutral and.left_idem bit.conj_cancel_right)
  obtain ticks where t: "fr_ticks K timeout_ms = Some ticks"
    using p by (cases "timeout_ms = portMAX_DELAY") (auto simp: fr_ticks_def)
  obtain k' where "xEventGroupWaitBits K (event_group e) lbit ticks (kern e)
      = Some (bits (kern e) (event_group e), k')"
    using bits_wait [OF b] by blast
  then show ?thesis using t n by (simp add: fr_wait_end_def)
qed

lemma wait_unlimited:
  assumes "coming lbit e"
  shows "\<exists>r e'. fr_wait_end K lbit OS_BLOCK e = Some (r, e')"
  using assms bits_wait [of "kern e" "event_group e" lbit portMAX_DELAY] bits_wait_pend [of "event_group e" _ "kern e" lbit]
  by (fastforce simp: bit_coming_def fr_wait_end_def fr_ticks_def)

end

text \<open>
  C16: a wake-up that the kernel accepts is not lost: wherever the interrupt falls between the reads and writes of
  \<open>env_wait_for_link_up\<close>, when a task gets to its wait after the handler finished, the bit of its link is set or the
  timer task has the order to set it. If it is set, the task does not wait; what it then reports depends on the other
  links: 1 if their bits are clear, and 0, the value of a timeout, if one of them is set. In both cases a
  wait without limit ends.
\<close>

theorem fr_wait_not_lost:
  assumes k: "rtos_events K sem queue bits pend room timer" and "shl1 link_id = Some lbit" and "portTICK_PERIOD_MS K \<noteq> 0"
    and "(fr_link_step K room timer i link_id lbit timeout_ms)\<^sup>*\<^sup>* (e0, ls0, W_begin, I_state) (e, ls, W_wait, I_done)"
  shows "(bits (kern e) (event_group e) AND lbit = lbit
      \<or> (\<exists>c. (event_group e, c) \<in> set (pend (kern e)) \<and> c AND lbit = lbit))
    \<and> (bits (kern e) (event_group e) AND lbit = lbit \<longrightarrow> (\<exists>e'. fr_wait_end K lbit timeout_ms e
      = Some (if bits (kern e) (event_group e) AND NOT lbit = 0 then 1 else 0, e')))
    \<and> (\<exists>r e'. fr_wait_end K lbit OS_BLOCK e = Some (r, e'))"
proof -
  have b: "bit_coming bits pend lbit e"
    using link_flag.link_reach_inv [OF rtos_events.fr_link_flag [OF k assms(2)] assms(4)] by simp
  then show ?thesis
    using rtos_events.wait_at_once [OF k _ assms(3)] rtos_events.wait_unlimited [OF k b]
    unfolding bit_coming_def by blast
qed

definition fr_ex :: "u32 \<Rightarrow> rk fr_env" where
  "fr_ex b = \<lparr>os_init_counter = 1, os_isr_table = replicate 5 NULL, env_sema = 0x10, event_group = 0x20,
     os_plat = \<lparr>isr_counter = 0, disable_counter = 0, platform_lock = 0x30, lock_var = 0x34, primask = False, mu_log = []\<rparr>,
     os_icsr = 0, kern = rk0\<lparr>rk_bits := (\<lambda>g. if g = 0x20 then b else 0)\<rparr>\<rparr>"

abbreviation fr_ref_step :: "u32 \<Rightarrow> rk fr_env \<times> u32 \<times> wait_pc \<times> isr_pc \<Rightarrow> rk fr_env \<times> u32 \<times> wait_pc \<times> isr_pc \<Rightarrow> bool" where
  "fr_ref_step i \<equiv> fr_link_step ref_rtos (\<lambda>k. length (rk_timer k) < rk_space k) (\<lambda>k k'. rk_timer_task k = Some k') i 0 1 portMAX_DELAY"

text \<open>A task that clears the bit and finds the link down, and the handler that sets \<open>link_state\<close> then.\<close>

lemma fr_ref_run:
  assumes "fr_wait_begin ref_rtos 0 e0 = Some (1, e1)"
  shows "(fr_ref_step i)\<^sup>*\<^sup>* (e0, 0, W_begin, I_state) (e1, 1, W_wait, I_bits)"
proof -
  have "(fr_ref_step i)\<^sup>*\<^sup>* (e0, 0, W_begin, I_state) (e1, 0, W_read, I_state)"
    by (rule r_into_rtranclp, rule link_step.clear) (simp add: assms)
  also have "(fr_ref_step i)\<^sup>*\<^sup>* (e1, 0, W_read, I_state) (e1, 0, W_wait, I_state)"
    by (rule r_into_rtranclp, rule link_step.down) simp
  also have "(fr_ref_step i)\<^sup>*\<^sup>* (e1, 0, W_wait, I_state) (e1, 1, W_wait, I_bits)"
    by (rule r_into_rtranclp, rule link_step.isr_state)
  finally show ?thesis .
qed

text \<open>
  The wait for link 0, with the bit of link 1 already set in the group. The handler with number 16 orders the bit, the
  timer task sets it, and the task reports a timeout.
\<close>

lemma fr_wait_not_lost_witness:
  "\<exists>e1 e2 e'. (fr_ref_step 16)\<^sup>*\<^sup>* (fr_ex 2, 0, W_begin, I_state) (e1, 1, W_wait, I_done)
     \<and> rk_bits (kern e1) 0x20 = 2 \<and> rk_timer (kern e1) = [(0x20, 1)]
     \<and> (\<exists>r e. fr_wait_end ref_rtos 1 OS_BLOCK e1 = Some (r, e))
     \<and> fr_ref_step 16 (e1, 1, W_wait, I_done) (e2, 1, W_wait, I_done)
     \<and> fr_wait_end ref_rtos 1 portMAX_DELAY e2 = Some (0, e')"
proof -
  define e0 where "e0 = fr_ex 2\<lparr>kern := (kern (fr_ex 2))\<lparr>rk_bits := (rk_bits (kern (fr_ex 2)))(0x20 := 2)\<rparr>\<rparr>"
  define e1 where "e1 = e0\<lparr>kern := (kern e0)\<lparr>rk_timer := [(0x20, 1)]\<rparr>\<rparr>"
  define e2 where "e2 = e1\<lparr>kern := (rk_set_bits 0x20 1 (kern e1))\<lparr>rk_timer := []\<rparr>\<rparr>"
  have a: "fr_wait_begin ref_rtos 0 (fr_ex 2) = Some (1, e0)"
    by (simp add: fr_wait_begin_def shl1_def ref_rtos_def fr_ex_def e0_def)
  have b: "fr_isr_callback ref_rtos 16 0 e0 = Some e1"
    by (simp add: fr_isr_callback_def fr_tx_callback_def shl1_def ref_rtos_def fr_ex_def e0_def e1_def fr_in_isr_def
      platform_in_isr_def rk_set_bits_isr_def rk0_def)
  note fr_ref_run [OF a]
  also have "(fr_ref_step 16)\<^sup>*\<^sup>* (e0, 1, W_wait, I_bits) (e1, 1, W_wait, I_done)"
    by (rule r_into_rtranclp, rule link_step.isr_bits) (simp add: b, simp add: e0_def fr_ex_def rk0_def)
  finally have r: "(fr_ref_step 16)\<^sup>*\<^sup>* (fr_ex 2, 0, W_begin, I_state) (e1, 1, W_wait, I_done)" .
  have t: "fr_ref_step 16 (e1, 1, W_wait, I_done) (e2, 1, W_wait, I_done)"
    by (rule link_step.other, rule disjI2) (simp add: e1_def e2_def)
  have g: "rk_bits (kern e2) (event_group e2) = 3" "rk_bits (kern e1) 0x20 = 2" "rk_timer (kern e1) = [(0x20, 1)]"
    by (simp_all add: e2_def e1_def e0_def fr_ex_def rk_set_bits_def)
  have s: "shl1 0 = Some 1" "portTICK_PERIOD_MS ref_rtos \<noteq> 0" by (simp_all add: shl1_def ref_rtos_def)
  note N = fr_wait_not_lost [OF ref.rtos_events_axioms s]
  have w2: "\<exists>e'. fr_wait_end ref_rtos 1 portMAX_DELAY e2 = Some (0, e')"
    using N [OF rtranclp.rtrancl_into_rtrancl [OF r t]] g(1) by simp
  show ?thesis using r t g w2 N [OF r] by blast
qed

text \<open>
  A wake-up that the kernel refuses is lost: when the queue of the timer task is full, the callback drops the result of
  \<open>xEventGroupSetBitsFromISR\<close>, and a task that is about to wait waits for ever although the link is up.
\<close>

lemma fr_wake_up_refused:
  "\<exists>e1. (fr_ref_step 16)\<^sup>*\<^sup>* (fr_ex 0\<lparr>kern := rk0\<lparr>rk_space := 0\<rparr>\<rparr>, 0, W_begin, I_state) (e1, 1, W_wait, I_bits)
     \<and> fr_isr_callback ref_rtos 16 0 e1 = Some e1 \<and> fr_wait_end ref_rtos 1 OS_BLOCK e1 = None"
proof -
  define e1 where "e1 = fr_ex 0\<lparr>kern := rk0\<lparr>rk_space := 0, rk_bits := (rk_bits rk0)(0x20 := 0)\<rparr>\<rparr>"
  have "fr_wait_begin ref_rtos 0 (fr_ex 0\<lparr>kern := rk0\<lparr>rk_space := 0\<rparr>\<rparr>) = Some (1, e1)"
    by (simp add: fr_wait_begin_def shl1_def ref_rtos_def fr_ex_def e1_def rk0_def)
  moreover have "fr_isr_callback ref_rtos 16 0 e1 = Some e1" "fr_wait_end ref_rtos 1 OS_BLOCK e1 = None"
    by (simp_all add: fr_isr_callback_def fr_tx_callback_def shl1_def ref_rtos_def fr_ex_def e1_def fr_in_isr_def
      platform_in_isr_def rk_set_bits_isr_def rk0_def fr_wait_end_def fr_ticks_def)
  ultimately show ?thesis using fr_ref_run by blast
qed

end
