(* ===== verification/Rpmsg_Queue.thy ===== *)
theory Rpmsg_Queue
  imports Rpmsg_Delivery Env_Freertos
begin

text \<open>
  The queue component, \<^verbatim>\<open>lib/rpmsg_lite/rpmsg_queue.c\<close>: an endpoint whose callback puts a
  description of each message into a message queue of the environment and holds the buffer,
  and functions for the task that takes the messages out and returns the buffers.
\<close>

section \<open>Operations\<close>

text \<open>\<open>Q\<close> is the message queues of the port, \<open>P\<close> the rest of it.\<close>

definition rpmsg_queue_rx_cb ::
  "'e queue_port \<Rightarrow> ptr \<Rightarrow> u32 \<Rightarrow> u32 \<Rightarrow> ptr \<Rightarrow> 'e rl_state \<Rightarrow> (int \<times> 'e rl_state) option" where
  "rpmsg_queue_rx_cb Q data payload_len src priv s =
     do { rl_assert (priv \<noteq> NULL);
          let msg = \<lparr>q_src = src, q_data = data, q_len = payload_len\<rparr>;
          (r, e) \<leftarrow> qp_put Q priv msg 0 (env s);
          Some (if r \<noteq> 0 then RL_HOLD else RL_RELEASE, s\<lparr>env := e\<rparr>) }"

definition rpmsg_queue_create :: "'e queue_port \<Rightarrow> ptr \<Rightarrow> 'e rl_state \<Rightarrow> (ptr \<times> 'e rl_state) option" where
  "rpmsg_queue_create Q dev s =
     (if dev = NULL then Some (NULL, s)
      else do {
        i \<leftarrow> insts s dev;
        vq \<leftarrow> vqs s (rvq i);
        (status, q, e) \<leftarrow> qp_create Q (2 * int (unat (vq_nentries vq))) 12 (env s);
        Some (if status \<noteq> 0 \<or> q = NULL then NULL else q, s\<lparr>env := e\<rparr>) })"

definition rpmsg_queue_destroy :: "'e queue_port \<Rightarrow> ptr \<Rightarrow> ptr \<Rightarrow> 'e rl_state \<Rightarrow> int \<times> 'e rl_state" where
  "rpmsg_queue_destroy Q dev q s =
     (if dev = NULL then (RL_ERR_PARAM, s)
      else if q = NULL then (RL_ERR_PARAM, s)
      else (RL_SUCCESS, s\<lparr>env := qp_delete Q q (env s)\<rparr>))"

text \<open>An output through a pointer that may be NULL.\<close>

definition out_u32 :: "ptr \<Rightarrow> u32 \<Rightarrow> memory \<Rightarrow> memory" where
  "out_u32 p v m = (if p \<noteq> NULL then store_u32 m p v else m)"

definition rpmsg_queue_recv ::
  "'e env_port \<Rightarrow> rl_config \<Rightarrow> 'e queue_port \<Rightarrow> ptr \<Rightarrow> ptr \<Rightarrow> ptr \<Rightarrow> ptr \<Rightarrow> u32 \<Rightarrow> ptr \<Rightarrow> u32
    \<Rightarrow> 'e rl_state \<Rightarrow> (int \<times> 'e rl_state) option" where
  "rpmsg_queue_recv P cfg Q dev q src data maxlen len timeout s =
     (if dev = NULL then Some (RL_ERR_PARAM, s)
      else if q = NULL then Some (RL_ERR_PARAM, s)
      else if data = NULL then Some (RL_ERR_PARAM, s)
      else do {
        (r, msg, e) \<leftarrow> qp_get Q q queue_msg_zero timeout (env s);
        let s = s\<lparr>env := e\<rparr>;
        if r \<noteq> 0
        then do {
          let m = out_u32 len (q_len msg) (out_u32 src (q_src msg) (mem s));
          let (retval, m) = (if maxlen \<ge> q_len msg
                             then (RL_SUCCESS, env_memcpy data (q_data msg) (q_len msg) m)
                             else (RL_ERR_BUFF_SIZE, m));
          (r, s) \<leftarrow> rpmsg_lite_release_rx_buffer P cfg dev (q_data msg) (s\<lparr>mem := m\<rparr>);
          Some (if r = RL_SUCCESS then retval else RL_ERR_PARAM, s) }
        else Some (RL_ERR_NO_BUFF, s) })"

definition rpmsg_queue_recv_nocopy ::
  "'e queue_port \<Rightarrow> ptr \<Rightarrow> ptr \<Rightarrow> ptr \<Rightarrow> ptr \<Rightarrow> ptr \<Rightarrow> u32 \<Rightarrow> 'e rl_state \<Rightarrow> (int \<times> 'e rl_state) option" where
  "rpmsg_queue_recv_nocopy Q dev q src data len timeout s =
     (if dev = NULL then Some (RL_ERR_PARAM, s)
      else if data = NULL then Some (RL_ERR_PARAM, s)
      else if q = NULL then Some (RL_ERR_PARAM, s)
      else do {
        (r, msg, e) \<leftarrow> qp_get Q q queue_msg_zero timeout (env s);
        let s = s\<lparr>env := e\<rparr>;
        if r \<noteq> 0
        then Some (RL_SUCCESS, s\<lparr>mem := store_u32 (out_u32 len (q_len msg) (out_u32 src (q_src msg) (mem s)))
               data (q_data msg)\<rparr>)
        else Some (RL_ERR_NO_BUFF, s) })"

definition rpmsg_queue_nocopy_free ::
  "'e env_port \<Rightarrow> rl_config \<Rightarrow> ptr \<Rightarrow> ptr \<Rightarrow> 'e rl_state \<Rightarrow> (int \<times> 'e rl_state) option" where
  "rpmsg_queue_nocopy_free P cfg dev data s =
     (if dev = NULL then Some (RL_ERR_PARAM, s)
      else if data = NULL then Some (RL_ERR_PARAM, s)
      else do {
        (r, s) \<leftarrow> rpmsg_lite_release_rx_buffer P cfg dev data s;
        Some (if r = RL_SUCCESS then RL_SUCCESS else RL_ERR_PARAM, s) })"

definition rpmsg_queue_get_current_size :: "'e queue_port \<Rightarrow> ptr \<Rightarrow> 'e rl_state \<Rightarrow> int" where
  "rpmsg_queue_get_current_size Q q s = (if q = NULL then RL_ERR_PARAM else qp_size Q q (env s))"

section \<open>Returning a buffer, with any locks\<close>

context env_locks
begin

lemma release_ok:
  assumes i: "insts s dev = Some i" "dev \<noteq> NULL" "msg_data b \<noteq> NULL" "free (dev_lock i) (env s)"
    and q: "get_vq (rvq i) s = Some (vq, vm)" "vq_ready (dev_ops i) vq vm"
    and idx: "load_u16 (mem s) (hdr_idx b) = idx" "idx < vq_nentries vq"
      "d_addr (vm_desc vm ! unat idx) = ucast b"
    and cl: "\<not> cfg_clear_used cfg"
  shows "\<exists>e vq'. free (dev_lock i) e \<and> pend (dev_ops i) vq' (sent_vring (dev_ops i) (idx, d_len (vm_desc vm ! unat idx)) vq vm)
        = pend (dev_ops i) vq vm
    \<and> rpmsg_lite_release_rx_buffer P cfg dev (msg_data b) s = Some (RL_SUCCESS,
        put_vq (rvq i) vq' (sent_vring (dev_ops i) (idx, d_len (vm_desc vm ! unat idx)) vq vm) (s\<lparr>env := e\<rparr>))"
proof -
  let ?x = "(idx, d_len (vm_desc vm ! unat idx))"
  let ?q = "put (dev_ops i) ?x (vq, vm)"
  have w: "vq_wf vq vm" using q(2) by (simp add: vq_ready_def)
  have m: "RPMSG_STD_MSG_FROM_BUF (msg_data b) = b" by (simp add: RPMSG_STD_MSG_FROM_BUF_def)
  obtain e1 where e1: "lock_mutex P (dev_lock i) s = Some (s\<lparr>env := e1\<rparr>)" "held (dev_lock i) e1"
    using lock_mutex_ok [OF i(4)] by blast
  have q1: "get_vq (rvq i) (s\<lparr>env := e1\<rparr>) = Some (vq, vm)" using q(1) by simp
  let ?s = "put_vq (rvq i) (fst ?q) (snd ?q) (s\<lparr>env := e1\<rparr>)"
  have start: "rpmsg_lite_release_rx_buffer P cfg dev (msg_data b) s =
      do { s \<leftarrow> (if cfg_consumed_notification cfg then vq_kick P cfg (rvq i) ?s else Some ?s);
           s \<leftarrow> unlock_mutex P (dev_lock i) s;
           Some (RL_SUCCESS, s) }"
    using i(1-3) idx(1) q(1) e1(1) cl q1 vq_tx_eq [OF q1 q(2) idx(2), of cfg b "snd ?x"]
    by (simp add: rpmsg_lite_release_rx_buffer_def m debug_check_ok [OF q(1) w idx(2,3)]
        buffer_length_eq [OF w idx(2)] vq_rx_free_tx)
  have rdy: "vq_ready (dev_ops i) (fst ?q) (snd ?q)" using q(2) by simp
  from vq_kick_ok(1) [where s = ?s and v = "rvq i" and cfg = cfg and l = "dev_lock i", OF get_vq_put rdy] e1(2)
  obtain e2 where e2: "held (dev_lock i) e2" "vq_kick P cfg (rvq i) ?s = Some (put_vq (rvq i)
      ((fst ?q)\<lparr>vq_queued_cnt := 0\<rparr>) (snd ?q) (?s\<lparr>env := e2\<rparr>))" by auto
  let ?e = "if cfg_consumed_notification cfg then e2 else e1"
  have "held (dev_lock i) ?e" using e1(2) e2(1) by simp
  then obtain e3 where e3: "free (dev_lock i) e3"
      "\<And>t. env t = ?e \<Longrightarrow> unlock_mutex P (dev_lock i) t = Some (t\<lparr>env := e3\<rparr>)"
    using unlock_held by (fastforce simp: unlock_mutex_def)
  have p: "pend (dev_ops i) (fst ?q\<lparr>vq_queued_cnt := 0\<rparr>) (snd ?q) = pend (dev_ops i) (fst ?q) (snd ?q)"
    by (cases "dev_ops i") simp_all
  show ?thesis
  proof (cases "cfg_consumed_notification cfg")
    case True
    then show ?thesis
      using e2(2) e3 p unfolding start
      by (intro exI [of _ e3] exI [of _ "fst ?q\<lparr>vq_queued_cnt := 0\<rparr>"]) (simp add: sent_vring_def)
  next
    case False
    then show ?thesis
      using e3 unfolding start
      by (intro exI [of _ e3] exI [of _ "fst ?q"]) (simp add: sent_vring_def)
  qed
qed

end

section \<open>Taking messages out\<close>

text \<open>An output that does not touch a buffer leaves its bytes.\<close>

lemma outside_far:
  assumes "outside c k b n" "unat (x - b) < n"
  shows "k \<le> unat (x - c)"
proof (rule ccontr)
  assume "\<not> k \<le> unat (x - c)"
  then have "unat (x - c) < k" by simp
  then have "n \<le> unat (c + of_nat (unat (x - c)) - b)" using assms(1) by (simp only: outside_def)
  moreover have "c + of_nat (unat (x - c)) = x" by simp
  ultimately show False using assms(2) by simp
qed

lemma out_u32_keep:
  assumes "p = NULL \<or> outside p 4 b n" "unat (x - b) < n"
  shows "out_u32 p v m x = m x"
  using assms outside_far [of p 4 b n x] by (auto simp: out_u32_def store_u32_def mem_write_outside)

lemma hdr_idx_cong:
  assumes "\<And>x. unat (x - b) < 16 \<Longrightarrow> m' x = m x"
  shows "load_u16 m' (hdr_idx b) = load_u16 m (hdr_idx b)"
proof -
  have "m' (b + 10) = m (b + 10)" "m' (b + 10 + 1) = m (b + 10 + 1)" using assms by simp_all
  then show ?thesis by (simp add: load_u16_def)
qed

text \<open>The memory after the outputs of \<open>rpmsg_queue_recv\<close>.\<close>

definition recv_mem :: "ptr \<Rightarrow> ptr \<Rightarrow> ptr \<Rightarrow> u32 \<Rightarrow> rpmsg_queue_rx_cb_data \<Rightarrow> memory \<Rightarrow> memory" where
  "recv_mem src data len maxlen msg m =
     (let m1 = out_u32 len (q_len msg) (out_u32 src (q_src msg) m)
      in if q_len msg \<le> maxlen then mem_write m1 data (mem_read m (q_data msg) (unat (q_len msg))) else m1)"

text \<open>
  C7: \<open>rpmsg_queue_recv\<close> takes the oldest message of the queue: it stores source and length through
  the pointers that are not NULL, copies the payload out of the buffer if it fits (else it reports
  \<open>RL_ERR_BUFF_SIZE\<close>, and the message is lost), and in both cases returns the buffer to
  the peer, behind what the peer has not yet taken; the rest of the queue stays as it is.
\<close>

theorem queue_recv_correct:
  assumes K: "rtos_kernel K sem queue"
    and i: "insts s dev = Some i" "dev \<noteq> NULL" "fr_free K sem (dev_lock i) (env s)"
    and args: "q \<noteq> NULL" "data \<noteq> NULL" "msg_data b \<noteq> NULL" "\<not> cfg_clear_used cfg"
    and item: "fr_ok K queue q (env s)" "os_items queue q (env s) = msg # rest" "q_data msg = msg_data b"
    and vq: "get_vq (rvq i) s = Some (vq, vm)" "vq_ready (dev_ops i) vq vm"
      "load_u16 (mem s) (hdr_idx b) = idx" "idx < vq_nentries vq" "d_addr (vm_desc vm ! unat idx) = ucast b"
    and peer: "vq_nentries pq = vq_nentries vq" "has_room (peer_ops (dev_ops i)) pq vm"
    and ptrs: "unat (q_len msg) \<le> 0xFFFF"
      "src = NULL \<or> outside src 4 b (16 + unat (q_len msg))"
      "len = NULL \<or> outside len 4 b (16 + unat (q_len msg))"
      "outside data (unat (q_len msg)) b (16 + unat (q_len msg))"
  shows "\<exists>s' vq' vm'. rpmsg_queue_recv (fr_port K side_a) cfg (fr_queue_port K) dev q src data maxlen len timeout s =
        Some (if q_len msg \<le> maxlen then RL_SUCCESS else RL_ERR_BUFF_SIZE, s')
    \<and> mem s' = recv_mem src data len maxlen msg (mem s)
    \<and> os_items queue q (env s') = rest
    \<and> get_vq (rvq i) s' = Some (vq', vm') \<and> pend (dev_ops i) vq' vm' = pend (dev_ops i) vq vm
    \<and> pend (peer_ops (dev_ops i)) pq vm' = pend (peer_ops (dev_ops i)) pq vm
        @ [(idx, peer_len (dev_ops i) vm (idx, d_len (vm_desc vm ! unat idx)))]"
proof -
  obtain n where n: "queue (kern (env s)) q = Some (msg # rest, n)" "portTICK_PERIOD_MS K \<noteq> 0"
    using item(1,2) by (auto simp: os_ok_def os_items_def)
  from rtos_kernel.fr_get_Cons [OF K n, of queue_msg_zero timeout] obtain k where
    k: "fr_get_queue K q queue_msg_zero timeout (env s) = Some (1, msg, (env s)\<lparr>kern := k\<rparr>)"
      "queue k = (queue (kern (env s)))(q \<mapsto> (rest, n))" "sem k = sem (kern (env s))" by blast
  let ?m1 = "out_u32 len (q_len msg) (out_u32 src (q_src msg) (mem s))"
  let ?m2 = "recv_mem src data len maxlen msg (mem s)"
  have m1: "?m1 x = mem s x" if "unat (x - b) < 16 + unat (q_len msg)" for x
    using out_u32_keep [OF ptrs(2) that] out_u32_keep [OF ptrs(3) that] by simp
  have rd: "mem_read ?m1 (q_data msg) (unat (q_len msg)) = mem_read (mem s) (q_data msg) (unat (q_len msg))"
  proof (rule nth_equalityI; simp)
    fix j assume j: "j < unat (q_len msg)"
    then have "unat (b + 16 + of_nat j - b) = 16 + j" using ptrs(1) by (simp add: unat_word_ariths unat_of_nat)
    then show "?m1 (q_data msg + word_of_nat j) = mem s (q_data msg + word_of_nat j)"
      using m1 [of "b + 16 + of_nat j"] j item(3) by simp
  qed
  have m2: "?m2 x = mem s x" if "unat (x - b) < 16" for x
    using m1 [of x] that outside_far [OF ptrs(4), of x] ptrs(1)
    by (simp add: recv_mem_def Let_def mem_write_outside)
  let ?s = "s\<lparr>env := (env s)\<lparr>kern := k\<rparr>, mem := ?m2\<rparr>"
  have rv: "rpmsg_queue_recv (fr_port K side_a) cfg (fr_queue_port K) dev q src data maxlen len timeout s =
      do { (r, s) \<leftarrow> rpmsg_lite_release_rx_buffer (fr_port K side_a) cfg dev (msg_data b) ?s;
           Some (if r = RL_SUCCESS then (if q_len msg \<le> maxlen then RL_SUCCESS else RL_ERR_BUFF_SIZE)
                 else RL_ERR_PARAM, s) }"
    using i(2) args(1,2) k(1) item(3) rd
    by (simp add: rpmsg_queue_recv_def fr_queue_port_def recv_mem_def Let_def env_memcpy_def)
  have fr: "fr_free K sem (dev_lock i) (env ?s) \<and> queue (kern (env ?s)) = queue k"
    using i(3) os_free_kern [OF k(3)] by simp
  have q2: "get_vq (rvq i) ?s = Some (vq, vm)" using vq(1) by (simp add: get_vq_def)
  have h: "load_u16 (mem ?s) (hdr_idx b) = idx" using hdr_idx_cong [of b ?m2 "mem s"] m2 vq(3) by simp
  have i2: "insts ?s dev = Some i" using i(1) by simp
  from env_locks.release_ok [OF rtos_kernel.fr_env_locks [OF K] i2 i(2) args(3) fr q2 vq(2) h vq(4,5) args(4)]
  obtain e vq' where r: "queue (kern e) = queue k"
    "pend (dev_ops i) vq' (sent_vring (dev_ops i) (idx, d_len (vm_desc vm ! unat idx)) vq vm) = pend (dev_ops i) vq vm"
    "rpmsg_lite_release_rx_buffer (fr_port K side_a) cfg dev (msg_data b) ?s = Some (RL_SUCCESS,
        put_vq (rvq i) vq' (sent_vring (dev_ops i) (idx, d_len (vm_desc vm ! unat idx)) vq vm) (?s\<lparr>env := e\<rparr>))"
    by blast
  have w: "vq_wf vq vm" "dev_ops i \<noteq> Ops_NULL" using vq(2) by (simp_all add: vq_ready_def)
  have "pend (peer_ops (dev_ops i)) pq (sent_vring (dev_ops i) (idx, d_len (vm_desc vm ! unat idx)) vq vm) =
      pend (peer_ops (dev_ops i)) pq vm @ [(idx, peer_len (dev_ops i) vm (idx, d_len (vm_desc vm ! unat idx)))]"
    using pend_peer_put [OF w(1) peer(1) w(2) peer(2)] by (simp add: sent_vring_def)
  moreover have "os_items queue q e = rest" using r(1) k(2) by (simp add: os_items_def)
  ultimately show ?thesis
    using r(2,3) unfolding rv
    by (intro exI [of _ "put_vq (rvq i) vq' (sent_vring (dev_ops i) (idx, d_len (vm_desc vm ! unat idx)) vq vm)
        (?s\<lparr>env := e\<rparr>)"] exI [of _ vq']
        exI [of _ "sent_vring (dev_ops i) (idx, d_len (vm_desc vm ! unat idx)) vq vm"]) simp
qed

section \<open>Queueing in the receive callback\<close>

text \<open>The call through the function pointer of a queue endpoint.\<close>

definition queue_call :: "'e queue_port \<Rightarrow> 'e rx_call" where
  "queue_call Q f data len src priv s =
     (if f = Fn_rpmsg_queue_rx_cb then rpmsg_queue_rx_cb Q data len src priv s else None)"

definition queue_cb :: "'e queue_port \<Rightarrow> 'e rx_cb_fn" where
  "queue_cb Q f d p src priv me =
     (case qp_put Q priv \<lparr>q_src = src, q_data = d, q_len = of_nat (length p)\<rparr> 0 (snd me) of
        Some (r, e) \<Rightarrow> (if r \<noteq> 0 then RL_HOLD else RL_RELEASE, fst me, e)
      | None \<Rightarrow> (RL_RELEASE, me))"

lemma queue_cb_mem [simp]: "fst (snd (queue_cb Q f d p src priv me)) = fst me"
  by (auto simp: queue_cb_def split: option.split)

text \<open>Endpoints with queues of their own.\<close>

definition queue_epts :: "(ptr \<Rightarrow> 'e \<Rightarrow> bool) \<Rightarrow> ept_entry list \<Rightarrow> 'e \<Rightarrow> bool" where
  "queue_epts ok xs e \<longleftrightarrow> distinct (map en_addr xs) \<and> distinct (map (\<lambda>y. rx_cb_data (snd (snd y))) xs)
     \<and> (\<forall>y \<in> set xs. rx_cb (snd (snd y)) = Fn_rpmsg_queue_rx_cb \<and> rx_cb_data (snd (snd y)) \<noteq> NULL
          \<and> ok (rx_cb_data (snd (snd y))) e)"

abbreviation (input) ept_queue :: "ept_entry \<Rightarrow> ptr" where "ept_queue y \<equiv> rx_cb_data (snd (snd y))"

text \<open>
  The messages an endpoint queues when its queue has room for \<open>n\<close>, and what it queues: the first
  \<open>n\<close> of the pending ones that have its address.
\<close>

definition queue_held ::
  "'e env_port \<Rightarrow> vring_mem \<Rightarrow> memory \<Rightarrow> u32 \<Rightarrow> nat \<Rightarrow> (u16 \<times> u32) list \<Rightarrow> (u16 \<times> u32) list" where
  "queue_held P vm mz addr n ys = take n (filter (\<lambda>x. fst (msg_at mz (buf_addr P vm (fst x))) = addr) ys)"

definition queue_desc :: "'e env_port \<Rightarrow> vring_mem \<Rightarrow> memory \<Rightarrow> u16 \<times> u32 \<Rightarrow> rpmsg_queue_rx_cb_data" where
  "queue_desc P vm mz x = (let b = buf_addr P vm (fst x)
     in \<lparr>q_src = fst (snd (msg_at mz b)), q_data = msg_data b, q_len = of_nat (length (snd (snd (msg_at mz b))))\<rparr>)"

lemma queue_held_simps [simp]:
  "queue_held P vm mz addr n [] = []"
  "fst (msg_at mz (buf_addr P vm (fst x))) \<noteq> addr \<Longrightarrow>
    queue_held P vm mz addr n (x # ys) = queue_held P vm mz addr n ys"
  "fst (msg_at mz (buf_addr P vm (fst x))) = addr \<Longrightarrow>
    queue_held P vm mz addr (Suc n) (x # ys) = x # queue_held P vm mz addr n ys"
  "queue_held P vm mz addr 0 ys = []"
  by (simp_all add: queue_held_def)

lemma queue_held_subset: "x \<in> set (queue_held P vm mz addr n ys) \<Longrightarrow> x \<in> set ys"
  by (auto simp: queue_held_def dest: in_set_takeD)

context env_queue
begin

lemma queue_calls: "queue_epts ok xs e \<Longrightarrow> calls (queue_call Q) (queue_cb Q) xs (queue_epts ok xs)"
  unfolding calls_def
proof (intro ballI conjI allI impI)
  fix y data len src and s :: "'e rl_state" assume y: "y \<in> set xs" and e: "queue_epts ok xs (env s)"
  then have o: "ok (ept_queue y) (env s)" "rx_cb (snd (snd y)) = Fn_rpmsg_queue_rx_cb" "ept_queue y \<noteq> NULL"
    by (simp_all add: queue_epts_def)
  obtain r e' where "qp_put Q (ept_queue y) \<lparr>q_src = src, q_data = data, q_len = len\<rparr> 0 (env s) = Some (r, e')"
    using put_cases [OF o(1)] by blast
  then show "queue_call Q (rx_cb (snd (snd y))) data len src (ept_queue y) s =
      call_of (queue_cb Q) (rx_cb (snd (snd y))) data len src (ept_queue y) s"
    using o by (simp add: queue_call_def rpmsg_queue_rx_cb_def call_of_def queue_cb_def)
next
  fix y d src and p :: "u8 list" and me :: "memory \<times> 'e" assume y: "y \<in> set xs" and e: "queue_epts ok xs (snd me)"
  let ?m = "\<lparr>q_src = src, q_data = d, q_len = of_nat (length p)\<rparr>"
  have o: "ok (ept_queue y) (snd me)" using y e by (simp add: queue_epts_def)
  obtain r e' where r: "qp_put Q (ept_queue y) ?m 0 (snd me) = Some (r, e')" "ok (ept_queue y) e'"
    using put_cases [OF o] by blast
  have "ok (ept_queue z) e'" if "z \<in> set xs" for z
    using put_other [OF o r(1), of "ept_queue z"] r(2) e that
    by (cases "ept_queue z = ept_queue y") (simp_all add: queue_epts_def)
  then show "queue_epts ok xs (snd (snd (queue_cb Q (rx_cb (snd (snd y))) d p src (ept_queue y) me)))"
    using e r(1) by (simp add: queue_cb_def queue_epts_def)
qed

abbreviation room :: "ptr \<Rightarrow> 'e \<Rightarrow> nat" where
  "room q e \<equiv> cap q e - length (items q e)"

lemma queue_effects:
  assumes "queue_epts ok xs e" "distinct ys"
    and "rx_effects P cfg (queue_cb Q) xs vm mz ys (m, e) = (rel, m', e')"
  shows "queue_epts ok xs e'
    \<and> (\<forall>y \<in> set xs. items (ept_queue y) e' = items (ept_queue y) e
          @ map (queue_desc P vm mz) (queue_held P vm mz (en_addr y) (room (ept_queue y) e) ys))
    \<and> rel = filter (\<lambda>x. \<forall>y \<in> set xs. x \<notin> set (queue_held P vm mz (en_addr y) (room (ept_queue y) e) ys)) ys"
  using assms
proof (induction ys arbitrary: e m rel)
  case Nil
  then show ?case by simp
next
  case (Cons x ys)
  let ?b = "buf_addr P vm (fst x)" and ?msg = "msg_at mz (buf_addr P vm (fst x))"
  obtain fd m1 e1 where ef: "rx_effect cfg (queue_cb Q) xs ?msg ?b x (m, e) = (fd, m1, e1)"
    by (rule prod_cases3)
  obtain rel1 where rest: "rx_effects P cfg (queue_cb Q) xs vm mz ys (m1, e1) = (rel1, m', e')"
      "rel = (if fd then x # rel1 else rel1)"
    using Cons.prems(3) ef by (cases "rx_effects P cfg (queue_cb Q) xs vm mz ys (m1, e1)") (auto simp: Let_def)
  have x: "x \<notin> set ys" "distinct ys" using Cons.prems(2) by simp_all
  note held = queue_held_subset [of x P vm mz _ _ ys]
  show ?case
  proof (cases "find (\<lambda>y. en_addr y = fst ?msg) xs")
    case None
    then have n: "\<forall>y \<in> set xs. fst ?msg \<noteq> en_addr y" unfolding find_None_iff by metis
    have e: "e1 = e" "fd" using ef None by (auto simp: rx_effect_def)
    from Cons.IH [OF _ x(2) rest(1)] Cons.prems(1) e(1) rest(2) e(2) n x(1) held
    show ?thesis by auto
  next
    case (Some y)
    then have y: "y \<in> set xs" "en_addr y = fst ?msg" by (auto simp: find_Some_iff)
    let ?q = "ept_queue y" and ?d = "queue_desc P vm mz x"
    have o: "ok ?q e" using Cons.prems(1) y(1) by (simp add: queue_epts_def)
    obtain r e2 where r: "qp_put Q ?q ?d 0 e = Some (r, e2)" "ok ?q e2" "cap ?q e2 = cap ?q e"
      "r \<noteq> 0 \<longleftrightarrow> length (items ?q e) < cap ?q e"
      "items ?q e2 = (if r \<noteq> 0 then items ?q e @ [?d] else items ?q e)"
      using put_cases [OF o, of ?d] by blast
    have e1: "e1 = e2" "fd \<longleftrightarrow> r = 0"
      using ef Some r(1)
      by (cases "r = 0"; auto simp: rx_effect_def queue_cb_def queue_desc_def Let_def)+
    have others: "ok (ept_queue z) e2 \<and> cap (ept_queue z) e2 = cap (ept_queue z) e
        \<and> items (ept_queue z) e2 = items (ept_queue z) e \<and> en_addr z \<noteq> fst ?msg"
      if "z \<in> set xs" "z \<noteq> y" for z
    proof -
      have "ept_queue z \<noteq> ?q" "en_addr z \<noteq> en_addr y" "ok (ept_queue z) e"
        using Cons.prems(1) that y(1) by (auto simp: queue_epts_def distinct_map dest: inj_onD)
      then show ?thesis using put_other [OF o r(1)] y(2) by simp
    qed
    have ep: "queue_epts ok xs e2" using Cons.prems(1) others r(2) by (auto simp: queue_epts_def)
    note ih = Cons.IH [OF ep x(2) rest(1) [unfolded e1(1)]]
    have step: "queue_held P vm mz (en_addr z) (room (ept_queue z) e) (x # ys) =
        (if z = y \<and> r \<noteq> 0 then [x] else []) @ queue_held P vm mz (en_addr z) (room (ept_queue z) e2) ys"
      if z: "z \<in> set xs" for z
    proof (cases "z = y")
      case True
      show ?thesis
      proof (cases "r = 0")
        case True
        then show ?thesis using r \<open>z = y\<close> by simp
      next
        case False
        then have "room ?q e = Suc (room ?q e2)" using r by simp
        then show ?thesis using False \<open>z = y\<close> y(2) by simp
      qed
    next
      case False
      then show ?thesis using others [OF z False] by (simp add: eq_commute [of "en_addr z"])
    qed
    have it: "items (ept_queue z) e2 = items (ept_queue z) e @ (if z = y \<and> r \<noteq> 0 then [?d] else [])"
      if "z \<in> set xs" for z using others [OF that] r(5) by (cases "z = y") auto
    have "rel = filter (\<lambda>x'. \<forall>z \<in> set xs. x' \<notin> set (queue_held P vm mz (en_addr z) (room (ept_queue z) e) (x # ys))) (x # ys)"
    proof -
      have "rel1 = filter (\<lambda>x'. \<forall>z \<in> set xs. x' \<notin> set (queue_held P vm mz (en_addr z) (room (ept_queue z) e) (x # ys))) ys"
        using ih x(1) by (auto simp: step intro!: filter_cong)
      moreover have "(\<forall>z \<in> set xs. x \<notin> set (queue_held P vm mz (en_addr z) (room (ept_queue z) e) (x # ys))) \<longleftrightarrow> fd"
        using held x(1) y(1) e1(2) by (auto simp: step)
      ultimately show ?thesis using rest(2) by simp
    qed
    moreover have "\<forall>z \<in> set xs. items (ept_queue z) e' = items (ept_queue z) e
        @ map (queue_desc P vm mz) (queue_held P vm mz (en_addr z) (room (ept_queue z) e) (x # ys))"
      using ih by (auto simp: step it)
    ultimately show ?thesis using ih by blast
  qed
qed

end

text \<open>Memory: the index of a held buffer is in its header, its message is intact.\<close>

lemma msg_at_store_idx [simp]: "msg_at (store_u16 m (hdr_idx b) v) b = msg_at m b"
proof -
  have o: "store_u16 m (b + 10) v (b + k) = m (b + k)" if "unat k < 10 \<or> 12 \<le> unat k" for k
  proof -
    have "2 \<le> unat (k - 10)" using that by (cases "unat k < 10") (simp_all add: unat_sub_if')
    then have "2 \<le> unat (b + k - (b + 10))" by simp
    then show ?thesis by (simp add: store_u16_def mem_write_outside)
  qed
  have p: "mem_read (store_u16 m (b + 10) v) (b + 16) n = mem_read m (b + 16) n" if "n \<le> 65535" for n
  proof (rule nth_equalityI; simp)
    fix j assume "j < n"
    then have "12 \<le> unat (16 + of_nat j :: u32)" using that by (simp add: unat_word_ariths unat_of_nat)
    then show "store_u16 m (b + 10) v (b + 16 + word_of_nat j) = m (b + 16 + word_of_nat j)"
      using o [of "16 + of_nat j"] by (simp add: add.assoc)
  qed
  have h: "load_u32 (store_u16 m (b + 10) v) (hdr_dst b) = load_u32 m (hdr_dst b)"
    "load_u32 (store_u16 m (b + 10) v) (hdr_src b) = load_u32 m (hdr_src b)"
    "load_u16 (store_u16 m (b + 10) v) (hdr_len b) = load_u16 m (hdr_len b)"
    using o [of 0] by (simp_all add: load_u32_def load_u16_def o add.assoc)
  have "unat (load_u16 m (hdr_len b)) \<le> 65535"
    using unat_u16_less [of "load_u16 m (hdr_len b)"] by simp
  from p [OF this] show ?thesis by (simp add: msg_at_def h)
qed

lemma hdr_in_msg_bytes: "j < 16 \<Longrightarrow> b + of_nat j \<in> msg_bytes m b"
  by (auto simp: msg_bytes_def)

lemma rx_effects_frame:
  assumes "\<And>f d p src priv me. fst (snd (cb f d p src priv me)) = fst me"
    and "\<And>x. x \<in> set ys \<Longrightarrow> max 16 (unat (snd x)) \<le> unat (a - buf_addr P vm (fst x))"
    and "rx_effects P cfg cb xs vm mz ys (m, e) = (rel, m', e')"
  shows "m' a = m a"
  using assms(2,3)
proof (induction ys arbitrary: m e rel)
  case (Cons x ys)
  let ?b = "buf_addr P vm (fst x)"
  obtain fd m1 e1 where ef: "rx_effect cfg cb xs (msg_at mz ?b) ?b x (m, e) = (fd, m1, e1)"
    by (rule prod_cases3)
  then obtain rel1 where "rx_effects P cfg cb xs vm mz ys (m1, e1) = (rel1, m', e')"
    using Cons.prems(2) by (cases "rx_effects P cfg cb xs vm mz ys (m1, e1)") (auto simp: Let_def)
  then have "m' a = m1 a" using Cons.IH Cons.prems(1) by simp
  moreover have "m1 a = m a"
    using rx_effect_mem [of cb a x ?b cfg xs "msg_at mz ?b" "(m, e)"] assms(1) Cons.prems(1) [of x] ef by simp
  ultimately show ?case by simp
qed simp

lemma rx_effects_held:
  assumes pure: "\<And>f d p src priv me. fst (snd (cb f d p src priv me)) = fst me"
    and sep: "\<And>x y. x \<in> set ys \<Longrightarrow> y \<in> set ys \<Longrightarrow> x \<noteq> y \<Longrightarrow>
      outside (buf_addr P vm (fst y)) (16 + unat (load_u16 mz (hdr_len (buf_addr P vm (fst y)))))
        (buf_addr P vm (fst x)) (max 16 (unat (snd x)))"
    and "distinct ys"
    and "\<forall>x \<in> set ys. \<forall>a \<in> msg_bytes mz (buf_addr P vm (fst x)). m a = mz a"
    and "rx_effects P cfg cb xs vm mz ys (m, e) = (rel, m', e')"
    and "x \<in> set ys" "x \<notin> set rel"
  shows "load_u16 m' (hdr_idx (buf_addr P vm (fst x))) = fst x
    \<and> msg_at m' (buf_addr P vm (fst x)) = msg_at mz (buf_addr P vm (fst x))"
  using assms(2-)
proof (induction ys arbitrary: m e rel)
  case (Cons z ys)
  let ?b = "buf_addr P vm (fst z)"
  obtain fd m1 e1 where ef: "rx_effect cfg cb xs (msg_at mz ?b) ?b z (m, e) = (fd, m1, e1)"
    by (rule prod_cases3)
  obtain rel1 where rest: "rx_effects P cfg cb xs vm mz ys (m1, e1) = (rel1, m', e')"
      "rel = (if fd then z # rel1 else rel1)"
    using Cons.prems(4) ef by (cases "rx_effects P cfg cb xs vm mz ys (m1, e1)") (auto simp: Let_def)
  have off: "max 16 (unat (snd x)) \<le> unat (a - buf_addr P vm (fst x))"
    if "x \<in> set (z # ys)" "y \<in> set (z # ys)" "x \<noteq> y" "a \<in> msg_bytes mz (buf_addr P vm (fst y))" for x y a
    using Cons.prems(1) [OF that(1-3)] that(4) by (auto simp: outside_def msg_bytes_def)
  have eq: "m1 a = m a" if "a \<in> msg_bytes mz (buf_addr P vm (fst y))" "y \<in> set ys" for y a
  proof -
    have "z \<noteq> y" using that(2) Cons.prems(2) by auto
    then show ?thesis
      using rx_effect_mem [of cb a z ?b cfg xs "msg_at mz ?b" "(m, e)"] pure off [of z y a] that ef by simp
  qed
  show ?case
  proof (cases "x = z")
    case False
    then have x: "x \<in> set ys" "x \<notin> set rel1" using Cons.prems(5,6) rest(2) by (auto split: if_splits)
    have "\<forall>x \<in> set ys. \<forall>a \<in> msg_bytes mz (buf_addr P vm (fst x)). m1 a = mz a"
      using eq Cons.prems(3) by simp
    from Cons.IH [OF _ _ this rest(1) x] Cons.prems(1,2) show ?thesis by simp
  next
    case True
    then have h: "\<not> fd" using Cons.prems(6) rest(2) by (auto split: if_splits)
    have pm: "m2 = m" if "(case find (\<lambda>y. en_addr y = fst (msg_at mz ?b)) xs of
            None \<Rightarrow> (RL_RELEASE, (m, e))
          | Some y \<Rightarrow> cb (rx_cb (snd (snd y))) (msg_data ?b) (snd (snd (msg_at mz ?b))) (fst (snd (msg_at mz ?b)))
                       (rx_cb_data (snd (snd y))) (m, e)) = (r, m2, e2)" for r m2 e2
    proof (cases "find (\<lambda>y. en_addr y = fst (msg_at mz ?b)) xs")
      case (Some y)
      then show ?thesis
        using that pure [of "rx_cb (snd (snd y))" "msg_data ?b" "snd (snd (msg_at mz ?b))"
          "fst (snd (msg_at mz ?b))" "rx_cb_data (snd (snd y))" "(m, e)"] by simp
    qed (use that in simp)
    have m1: "m1 = store_u16 m (hdr_idx ?b) (fst z)"
      using ef h pm by (auto simp: rx_effect_def split: prod.splits if_splits)
    have mz: "msg_at m ?b = msg_at mz ?b" using Cons.prems(3) by (intro msg_at_cong) simp
    have len: "load_u16 m1 (hdr_len ?b) = load_u16 mz (hdr_len ?b)"
    proof -
      have "m (?b + of_nat 12) = mz (?b + of_nat 12)" "m (?b + of_nat 13) = mz (?b + of_nat 13)"
        using Cons.prems(3) hdr_in_msg_bytes [of 12] hdr_in_msg_bytes [of 13] by auto
      moreover have "m1 (?b + 12) = m (?b + 12)" "m1 (?b + 13) = m (?b + 13)"
        by (simp_all add: m1 store_u16_def mem_write_apply)
      ultimately show ?thesis by (simp add: load_u16_def add.assoc)
    qed
    have eq': "m' a = m1 a" if "a \<in> msg_bytes mz ?b" for a
    proof (rule rx_effects_frame [OF pure _ rest(1)])
      fix y assume "y \<in> set ys"
      then show "max 16 (unat (snd y)) \<le> unat (a - buf_addr P vm (fst y))"
        using off [of y z a] that Cons.prems(2) by auto
    qed
    have "msg_at m' ?b = msg_at m1 ?b" using eq' len by (intro msg_at_cong) (simp add: msg_bytes_def)
    moreover have "load_u16 m' (hdr_idx ?b) = load_u16 m1 (hdr_idx ?b)"
    proof -
      have "m' (?b + of_nat 10) = m1 (?b + of_nat 10)" "m' (?b + of_nat 11) = m1 (?b + of_nat 11)"
        by (intro eq' hdr_in_msg_bytes; simp)+
      then show ?thesis by (simp add: load_u16_def add.assoc)
    qed
    ultimately show ?thesis using True mz by (simp add: m1)
  qed
qed simp

text \<open>
  C6: the receive callback with queue endpoints (FreeRTOS): each endpoint's queue gets a
  description of the pending messages with its address, in their order, as far as there is room
  in it; those messages stay intact in their buffers, which are held with their index in
  the header. All other buffers (unknown address, queue full) go back to the peer in order, and
  nothing is pending any more.
\<close>

theorem queue_rx_correct:
  assumes K: "rtos_kernel K sem queue"
    and dev: "vqs s vqp = Some vqc" "vq_priv vqc = dev" "dev \<noteq> NULL" "insts s dev = Some i" "rvq i \<noteq> NULL"
    and xs: "ept_rep dev s xs" "queue_epts (fr_ok K queue) xs (env s)"
    and vq: "get_vq (rvq i) s = Some (vq, vm)" "vq_ready (dev_ops i) vq vm" "pend (dev_ops i) vq vm = ys"
    and bufs: "distinct ys" "\<And>x. x \<in> set ys \<Longrightarrow> buf_addr (fr_port K side_a) vm (fst x) \<noteq> NULL"
      "\<And>x y. x \<in> set ys \<Longrightarrow> y \<in> set ys \<Longrightarrow> x \<noteq> y \<Longrightarrow> outside (buf_addr (fr_port K side_a) vm (fst y))
         (16 + unat (load_u16 (mem s) (hdr_len (buf_addr (fr_port K side_a) vm (fst y)))))
         (buf_addr (fr_port K side_a) vm (fst x)) (max 16 (unat (snd x)))"
    and cfg: "\<not> cfg_consumed_notification cfg"
    and held: "held = (\<lambda>y. queue_held (fr_port K side_a) vm (mem s) (en_addr y)
        (os_cap queue (ept_queue y) (env s) - length (os_items queue (ept_queue y) (env s))) ys)"
  shows "\<exists>s' vq' vm'. rpmsg_lite_rx_callback (fr_port K side_a) cfg (queue_call (fr_queue_port K)) vqp s = Some s'
    \<and> (\<forall>y \<in> set xs. os_items queue (ept_queue y) (env s') = os_items queue (ept_queue y) (env s)
         @ map (queue_desc (fr_port K side_a) vm (mem s)) (held y))
    \<and> (\<forall>y \<in> set xs. \<forall>x \<in> set (held y). let b = buf_addr (fr_port K side_a) vm (fst x) in
         load_u16 (mem s') (hdr_idx b) = fst x \<and> msg_at (mem s') b = msg_at (mem s) b)
    \<and> get_vq (rvq i) s' = Some (vq', vm') \<and> pend (dev_ops i) vq' vm' = []
    \<and> released_to (dev_ops i) (vq, vm) (filter (\<lambda>x. \<forall>y \<in> set xs. x \<notin> set (held y)) ys) (vq', vm')"
proof -
  let ?P = "fr_port K side_a" and ?Q = "fr_queue_port K"
  have Q: "env_queue ?Q (os_items queue) (os_cap queue) (fr_ok K queue)" by (rule rtos_kernel.fr_env_queue [OF K])
  obtain rel m' e' where ef: "rx_effects ?P cfg (queue_cb ?Q) xs vm (mem s) ys (mem s, env s) = (rel, m', e')"
    by (rule prod_cases3)
  note qe = env_queue.queue_effects [OF Q xs(2) bufs(1) ef]
  have rel: "rel = filter (\<lambda>x. \<forall>y \<in> set xs. x \<notin> set (held y)) ys" using qe by (simp add: held)
  have keeps: "rx_keeps ?P cfg (queue_cb ?Q) xs vm (mem s) ys" using bufs(1,3) by (intro rx_keepsI) simp_all
  have "\<exists>vq' vm'. vq_ready (dev_ops i) vq' vm' \<and> pend (dev_ops i) vq' vm' = []
    \<and> released_to (dev_ops i) (vq, vm) rel (vq', vm')
    \<and> rpmsg_lite_rx_callback ?P cfg (queue_call ?Q) vqp s =
       (let s' = put_vq (rvq i) vq' vm' (s\<lparr>mem := m', env := e'\<rparr>)
        in if cfg_consumed_notification cfg \<and> rel \<noteq> [] then vq_kick ?P cfg (rvq i) s' else Some s')"
    using dev vq bufs(2) keeps ef xs env_queue.queue_calls [OF Q xs(2)]
    by (intro rx_callback_spec [where cb = "queue_cb ?Q" and xs = xs and vqc = vqc
        and einv = "queue_epts (fr_ok K queue) xs"]) simp_all
  then obtain vq' vm' where r: "pend (dev_ops i) vq' vm' = []" "released_to (dev_ops i) (vq, vm) rel (vq', vm')"
    "rpmsg_lite_rx_callback ?P cfg (queue_call ?Q) vqp s = Some (put_vq (rvq i) vq' vm' (s\<lparr>mem := m', env := e'\<rparr>))"
    using cfg by auto
  have "\<forall>y \<in> set xs. \<forall>x \<in> set (held y). let b = buf_addr ?P vm (fst x) in
      load_u16 m' (hdr_idx b) = fst x \<and> msg_at m' b = msg_at (mem s) b"
  proof (intro ballI)
    fix y x assume x: "y \<in> set xs" "x \<in> set (held y)"
    have "x \<in> set ys" using x(2) unfolding held by (rule queue_held_subset)
    moreover have "x \<notin> set rel" using x by (auto simp: rel)
    ultimately show "let b = buf_addr ?P vm (fst x) in load_u16 m' (hdr_idx b) = fst x \<and> msg_at m' b = msg_at (mem s) b"
      using rx_effects_held [OF queue_cb_mem bufs(3,1) _ ef] by (simp add: Let_def)
  qed
  then show ?thesis
    using r qe by (intro exI [of _ "put_vq (rvq i) vq' vm' (s\<lparr>mem := m', env := e'\<rparr>)"] exI [of _ vq'] exI [of _ vm'])
      (simp add: rel [symmetric] held)
qed

section \<open>Witnesses\<close>

text \<open>
  The remote of the example vring on the small kernel: endpoint 1 with the queue at \<open>0x40\<close>, which
  has room for 4 messages and contains \<open>xs\<close>.
\<close>

abbreviation (input) ex_qept :: rpmsg_lite_endpoint where
  "ex_qept \<equiv> \<lparr>ept_addr = 1, rx_cb = Fn_rpmsg_queue_rx_cb, rx_cb_data = 0x40, ept_rfu = 0\<rparr>"

definition ex_kern :: "rpmsg_queue_rx_cb_data list \<Rightarrow> rk" where
  "ex_kern xs = rk0\<lparr>rk_queue := [0x40 \<mapsto> (xs, 4)], rk_sem := [20 \<mapsto> (1, 10), 0x30 \<mapsto> (1, 10)]\<rparr>"

definition ex_qrem :: "memory \<Rightarrow> vring_mem \<Rightarrow> rpmsg_queue_rx_cb_data list \<Rightarrow> rk fr_env rl_state" where
  "ex_qrem m vm xs = \<lparr>insts = [8 \<mapsto> ex_rinst], vqs = [56 \<mapsto> ex_vq 8], vrings = [0x8000 \<mapsto> vm],
     llnodes = [16 \<mapsto> \<lparr>l_data = 32, l_attr = 0, l_next = 0, l_prev = 0\<rparr>], epts = [32 \<mapsto> ex_qept],
     mem = m, hp = \<lparr>hp_next = [], hp_live = [8, 16, 32]\<rparr>, env = (fr_ex 0)\<lparr>kern := ex_kern xs\<rparr>\<rparr>"

lemma ex_qrem_simps [simp]:
  "insts (ex_qrem m vm xs) 8 = Some ex_rinst" "get_vq 56 (ex_qrem m vm xs) = Some (ex_vq 8, vm)"
  "vqs (ex_qrem m vm xs) 56 = Some (ex_vq 8)" "mem (ex_qrem m vm xs) = m"
  "os_items rk_queue 0x40 (env (ex_qrem m vm xs)) = xs" "os_cap rk_queue 0x40 (env (ex_qrem m vm xs)) = 4"
  "fr_ok ref_rtos rk_queue 0x40 (env (ex_qrem m vm xs))"
  "fr_free ref_rtos rk_sem (dev_lock ex_rinst) (env (ex_qrem m vm xs))"
  by (simp_all add: ex_qrem_def ex_rinst_def instance_zero_def get_vq_def os_items_def os_cap_def os_ok_def
      ex_kern_def ref_rtos_def os_free_def fr_ex_def has_count_def)

lemma ex_qrem_rep: "ept_rep 8 (ex_qrem m vm xs) [(16, 32, ex_qept)]"
  by (simp add: ept_rep_def ex_qrem_def ex_rinst_def list_rep_def)

lemma ex_fr_addr: "buf_addr (fr_port K a) (avail_push 2 0 ex_vm) 0 = 0x1000" "buf_addr (fr_port K a) ex_vm 0 = 0x1000"
  using ex_addr(1) [of a] by (simp_all add: buf_addr_def fr_port_def bm_port_def env_map_patova_def)

lemma ex_sent_msg: "msg_at (sent_mem 0x1000 1 30 0x2000 4 (\<lambda>a. ucast a)) 0x1000 = (1, 30, [0, 1, 2, 3])"
proof -
  have "outside 0x2000 (unat (4 :: u32)) 0x1000 16"
    unfolding outside_def
  proof (intro allI impI)
    fix j assume "j < unat (4 :: u32)"
    then have "j = 0 \<or> j = 1 \<or> j = 2 \<or> j = 3" by auto
    then show "16 \<le> unat (0x2000 + of_nat j - 0x1000 :: u32)" by auto
  qed
  then show ?thesis
    using sent_mem_msg [of 4 "0x2000" "0x1000" 1 30 "\<lambda>a. ucast a"] by (simp add: mem_read_def upt_conv_Cons)
qed

theorem queue_rx_correct_witness:
  "\<exists>s'. rpmsg_lite_rx_callback (fr_port ref_rtos False) cfg_ex (queue_call (fr_queue_port ref_rtos)) 56
      (ex_qrem (sent_mem 0x1000 1 30 0x2000 4 (\<lambda>a. ucast a)) (avail_push 2 0 ex_vm) []) = Some s'
     \<and> os_items rk_queue 0x40 (env s') = [\<lparr>q_src = 30, q_data = 0x1010, q_len = 4\<rparr>]
     \<and> load_u16 (mem s') 0x100A = 0"
proof -
  let ?m = "sent_mem 0x1000 1 30 0x2000 4 (\<lambda>a. ucast a)" and ?vm = "avail_push 2 0 ex_vm"
  let ?P = "fr_port ref_rtos False"
  have p': "pend Remote_ops (ex_vq 8) ?vm = [(0, 512)]"
    by (simp add: avail_push_def ex_vm_def ring_list_def)
  then have p: "pend (dev_ops ex_rinst) (ex_vq 8) ?vm = [(0, 512)]" by (simp del: pend.simps)
  have r: "vq_ready (dev_ops ex_rinst) (ex_vq 8) ?vm" by (simp add: vq_ready_def p' del: pend.simps)
  have h: "queue_held ?P ?vm (mem (ex_qrem ?m ?vm [])) (en_addr (16, 32, ex_qept)) (os_cap rk_queue (ept_queue (16, 32, ex_qept)) (env (ex_qrem ?m ?vm []))
      - length (os_items rk_queue (ept_queue (16, 32, ex_qept)) (env (ex_qrem ?m ?vm [])))) [(0, 512)] = [(0, 512)]"
    by (simp add: queue_held_def ex_fr_addr ex_sent_msg)
  have e: "queue_epts (fr_ok ref_rtos rk_queue) [(16, 32, ex_qept)] (env (ex_qrem ?m ?vm []))"
    by (simp add: queue_epts_def)
  have d: "queue_desc ?P ?vm ?m (0, 512) = \<lparr>q_src = 30, q_data = 0x1010, q_len = 4\<rparr>"
    by (simp add: queue_desc_def ex_fr_addr ex_sent_msg)
  show ?thesis
    using queue_rx_correct [where cfg = cfg_ex and side_a = False and s = "ex_qrem ?m ?vm []" and vqp = 56,
        OF ref.rtos_kernel_axioms _ _ _ _ _ ex_qrem_rep e _ r p _ _ _ _ refl] h d
    by (auto simp: ex_fr_addr Let_def simp del: pend.simps)
qed

theorem queue_recv_correct_witness:
  "\<exists>s'. rpmsg_queue_recv (fr_port ref_rtos False) cfg_ex (fr_queue_port ref_rtos) 8 0x40 0 0x3000 2 0 0
      (ex_qrem (\<lambda>a. 0) ex_vm [\<lparr>q_src = 30, q_data = 0x1010, q_len = 4\<rparr>]) = Some (RL_ERR_BUFF_SIZE, s')
     \<and> os_items rk_queue 0x40 (env s') = []"
proof -
  let ?s = "ex_qrem (\<lambda>a. 0) ex_vm [\<lparr>q_src = 30, q_data = 0x1010, q_len = 4\<rparr>]"
  have l: "load_u16 (mem ?s) (hdr_idx 0x1000) = 0" by (simp add: load_u16_def)
  have room: "has_room (peer_ops (dev_ops ex_rinst)) (ex_vq 9\<lparr>vq_used_cons_idx := 1\<rparr>) ex_vm"
    by (simp add: has_room_def ex_vm_def)
  have o: "outside 0x3000 (unat (4 :: u32)) 0x1000 (16 + unat (4 :: u32))"
    unfolding outside_def
  proof (intro allI impI)
    fix j assume "j < unat (4 :: u32)"
    then have "j = 0 \<or> j = 1 \<or> j = 2 \<or> j = 3" by auto
    then show "16 + unat (4 :: u32) \<le> unat (0x3000 + of_nat j - 0x1000 :: u32)" by auto
  qed
  show ?thesis
    using queue_recv_correct [where s = ?s and dev = 8 and b = "0x1000" and cfg = cfg_ex and side_a = False
        and q = "0x40" and src = 0 and len = 0 and data = "0x3000" and maxlen = 2 and timeout = 0
        and msg = "\<lparr>q_src = 30, q_data = 0x1010, q_len = 4\<rparr>" and vq = "ex_vq 8",
        OF ref.rtos_kernel_axioms _ _ _ _ _ _ _ _ _ _ _ _ l _ _ _ room] o
    by (auto simp del: pend.simps)
qed

end
