(* ===== verification/Rpmsg_Ns.thy ===== *)
theory Rpmsg_Ns
  imports Rpmsg_Delivery
begin

text \<open>
  The name service, \<^verbatim>\<open>lib/rpmsg_lite/rpmsg_ns.c\<close>: endpoints are announced by a message with
  their name, address and flags to the endpoint 53 of the other side, whose callback hands
  them to the application.
\<close>

section \<open>Data\<close>

abbreviation (input) RL_NS_EPT_ADDR :: u32 where "RL_NS_EPT_ADDR \<equiv> 0x35"
abbreviation (input) RL_NS_NAME_SIZE :: nat where "RL_NS_NAME_SIZE \<equiv> 32"
abbreviation (input) RL_BLOCK :: u32 where "RL_BLOCK \<equiv> 0xFFFFFFFF"

text \<open>
  \<open>struct rpmsg_ns_msg\<close>, packed: the name at 0, the address at 32, the flags at 36, 40 bytes
  in all.
\<close>

abbreviation (input) ns_name :: "ptr \<Rightarrow> ptr" where "ns_name p \<equiv> p"
abbreviation (input) ns_addr :: "ptr \<Rightarrow> ptr" where "ns_addr p \<equiv> p + 32"
abbreviation (input) ns_flags :: "ptr \<Rightarrow> ptr" where "ns_flags p \<equiv> p + 36"
abbreviation (input) ns_msg_size :: u32 where "ns_msg_size \<equiv> 40"

record rpmsg_ns_callback_data =
  nc_cb :: fn_ptr
  nc_user_data :: ptr

record rpmsg_ns_context =
  nx_ept :: ptr
  nx_cb_ctxt :: ptr

text \<open>The state of the messaging layer, with the objects of the name service.\<close>

record 'e ns_state =
  ns_rl :: "'e rl_state"
  ns_cbs :: "ptr \<rightharpoonup> rpmsg_ns_callback_data"
  ns_ctxs :: "ptr \<rightharpoonup> rpmsg_ns_context"

section \<open>Operations\<close>

text \<open>
  \<open>app\<close> is the call of the application's function with address, name (a pointer into the
  buffer), flags and user data.
\<close>

type_synonym 'e ns_app = "fn_ptr \<Rightarrow> u32 \<Rightarrow> ptr \<Rightarrow> u32 \<Rightarrow> ptr \<Rightarrow> 'e rl_state \<Rightarrow> 'e rl_state option"

definition rpmsg_ns_rx_cb ::
  "'e ns_app \<Rightarrow> (ptr \<rightharpoonup> rpmsg_ns_callback_data) \<Rightarrow> ptr \<Rightarrow> u32 \<Rightarrow> u32 \<Rightarrow> ptr \<Rightarrow> 'e rl_state
    \<Rightarrow> (int \<times> 'e rl_state) option" where
  "rpmsg_ns_rx_cb app cbs data payload_len src priv s =
     do { rl_assert (priv \<noteq> NULL);
          c \<leftarrow> cbs priv;
          rl_assert (nc_cb c \<noteq> Fn_NULL);
          s \<leftarrow> (if payload_len = ns_msg_size
                 then app (nc_cb c) (load_u32 (mem s) (ns_addr data)) (ns_name data)
                        (load_u32 (mem s) (ns_flags data)) (nc_user_data c) s
                 else Some s);
          Some (RL_RELEASE, s) }"

definition rpmsg_ns_bind ::
  "'e env_port \<Rightarrow> llist \<Rightarrow> ptr \<Rightarrow> fn_ptr \<Rightarrow> ptr \<Rightarrow> 'e ns_state \<Rightarrow> (ptr \<times> 'e ns_state) option" where
  "rpmsg_ns_bind P junk dev app_cb user_data ns =
     (if app_cb = Fn_NULL then Some (NULL, ns)
      else
        (let (cb_ctxt, s) = alloc (ns_rl ns)
         in if cb_ctxt = NULL then Some (NULL, ns\<lparr>ns_rl := s\<rparr>)
            else
              (let (ns_ctxt, s) = alloc s
               in if ns_ctxt = NULL
                  then do { s \<leftarrow> mem_free cb_ctxt s; Some (NULL, ns\<lparr>ns_rl := s\<rparr>) }
                  else do {
                    (ept, s) \<leftarrow> rpmsg_lite_create_ept P junk dev RL_NS_EPT_ADDR Fn_rpmsg_ns_rx_cb cb_ctxt s;
                    Some (ns_ctxt, \<lparr>ns_rl = s,
                      ns_cbs = (ns_cbs ns)(cb_ctxt \<mapsto> \<lparr>nc_cb = app_cb, nc_user_data = user_data\<rparr>),
                      ns_ctxs = (ns_ctxs ns)(ns_ctxt \<mapsto> \<lparr>nx_ept = ept, nx_cb_ctxt = cb_ctxt\<rparr>)\<rparr>) })))"

definition rpmsg_ns_unbind ::
  "'e env_port \<Rightarrow> ptr \<Rightarrow> ptr \<Rightarrow> 'e ns_state \<Rightarrow> (int \<times> 'e ns_state) option" where
  "rpmsg_ns_unbind P dev handle ns =
     do { x \<leftarrow> ns_ctxs ns handle;
          (retval, s) \<leftarrow> rpmsg_lite_destroy_ept P dev (nx_ept x) (ns_rl ns);
          s \<leftarrow> mem_free (nx_cb_ctxt x) s;
          s \<leftarrow> mem_free handle s;
          Some (retval, \<lparr>ns_rl = s, ns_cbs = (ns_cbs ns)(nx_cb_ctxt x := None),
                  ns_ctxs = (ns_ctxs ns)(handle := None)\<rparr>) }"

text \<open>
  The message is built in a local variable at the address \<open>local\<close>; \<open>None\<close> is a name that is NULL.
\<close>

definition ns_write :: "ptr \<Rightarrow> string \<Rightarrow> u32 \<Rightarrow> u32 \<Rightarrow> memory \<Rightarrow> memory" where
  "ns_write p name addr flags m =
     store_u32 (store_u32 (mem_write m (ns_name p) (map of_char (env_strncpy name RL_NS_NAME_SIZE)))
       (ns_flags p) flags) (ns_addr p) addr"

definition rpmsg_ns_announce ::
  "'e env_port \<Rightarrow> rl_config \<Rightarrow> ('e rl_state \<Rightarrow> 'e rl_state) \<Rightarrow> ptr \<Rightarrow> ptr \<Rightarrow> ptr \<Rightarrow> string option \<Rightarrow> u32
    \<Rightarrow> 'e rl_state \<Rightarrow> (int \<times> 'e rl_state) option" where
  "rpmsg_ns_announce P cfg world local dev new_ept ept_name flags s =
     (case ept_name of
        None \<Rightarrow> Some (RL_ERR_PARAM, s)
      | Some name \<Rightarrow>
          if new_ept = NULL then Some (RL_ERR_PARAM, s)
          else do {
            e \<leftarrow> epts s new_ept;
            rpmsg_lite_send P cfg world dev new_ept RL_NS_EPT_ADDR local ns_msg_size RL_BLOCK
              (s\<lparr>mem := ns_write local name (ept_addr e) flags (mem s)\<rparr>) })"

section \<open>The message\<close>

text \<open>What the receiver reads from the 40 bytes: address, flags and name.\<close>

definition le32 :: "u8 list \<Rightarrow> u32" where
  "le32 bs = ucast (bs ! 0) OR push_bit 8 (ucast (bs ! 1)) OR push_bit 16 (ucast (bs ! 2))
     OR push_bit 24 (ucast (bs ! 3))"

definition ns_parse :: "u8 list \<Rightarrow> u32 \<times> u32 \<times> u8 list" where
  "ns_parse bs = (le32 (drop 32 bs), le32 (drop 36 bs), take 32 bs)"

lemma ns_parse_read:
  "ns_parse (mem_read m p 40) = (load_u32 m (ns_addr p), load_u32 m (ns_flags p), mem_read m (ns_name p) 32)"
proof -
  have "take 32 (mem_read m p 40) = mem_read m (ns_name p) 32" by (rule nth_equalityI) simp_all
  then show ?thesis by (simp add: ns_parse_def le32_def load_u32_def ac_simps)
qed

lemma length_strncpy [simp]: "length (env_strncpy s n) = n"
  by (simp add: env_strncpy_def Let_def)

lemma load_store_u32 [simp]: "load_u32 (store_u32 m a v) a = v"
  by (rule load_u32_bytes) (use mem_read_write_same [of "u32_bytes v" m a] in \<open>simp add: store_u32_def\<close>)

lemma mem_read_store_u32:
  assumes "\<And>j. j < n \<Longrightarrow> 4 \<le> unat (c + of_nat j - a)"
  shows "mem_read (store_u32 m a v) c n = mem_read m c n"
  unfolding store_u32_def by (rule mem_read_write_disjoint) (use assms in simp_all)

lemma load_u32_cong: "mem_read m' a 4 = mem_read m a 4 \<Longrightarrow> load_u32 m' a = load_u32 m a"
  by (simp add: mem_read_def load_u32_def upt_conv_Cons)

text \<open>What was announced is what is read.\<close>

lemma ns_write_parse:
  "ns_parse (mem_read (ns_write p name addr flags m) p 40) =
     (addr, flags, map of_char (env_strncpy name RL_NS_NAME_SIZE))"
proof -
  let ?bs = "map of_char (env_strncpy name RL_NS_NAME_SIZE) :: u8 list"
  let ?m1 = "mem_write m p ?bs"
  let ?m2 = "store_u32 ?m1 (ns_flags p) flags"
  have far: "4 \<le> unat (p + of_nat j - (p + k))" if "j < 32" "k = 32 \<or> k = 36" for j k
  proof -
    have "unat (of_nat j - k :: u32) = 2 ^ 32 + j - unat k"
      using that by (subst unat_sub_if') (auto simp: unat_of_nat word_le_nat_alt)
    then show ?thesis using that by auto
  qed
  have "mem_read (store_u32 ?m2 (ns_addr p) addr) (ns_name p) 32 = mem_read ?m2 (ns_name p) 32"
    by (rule mem_read_store_u32) (rule far; simp)
  moreover have "mem_read ?m2 (ns_name p) 32 = mem_read ?m1 (ns_name p) 32"
    by (rule mem_read_store_u32) (rule far; simp)
  moreover have "mem_read ?m1 (ns_name p) 32 = ?bs"
    using mem_read_write_same [of ?bs m p] by simp
  moreover have "load_u32 (store_u32 ?m2 (ns_addr p) addr) (ns_flags p) = load_u32 ?m2 (ns_flags p)"
  proof (rule load_u32_cong, rule mem_read_store_u32)
    fix j :: nat assume "j < 4"
    then have "j = 0 \<or> j = 1 \<or> j = 2 \<or> j = 3" by auto
    then show "4 \<le> unat (p + 36 + of_nat j - (p + 32))" by auto
  qed
  ultimately show ?thesis by (simp add: ns_parse_read ns_write_def)
qed

section \<open>From the announcement to the application\<close>

definition ns_call :: "'e ns_app \<Rightarrow> (ptr \<rightharpoonup> rpmsg_ns_callback_data) \<Rightarrow> 'e rx_call" where
  "ns_call app cbs f data len src priv s =
     (if f = Fn_rpmsg_ns_rx_cb then rpmsg_ns_rx_cb app cbs data len src priv s else None)"

text \<open>An application that acts on its environment: \<open>g\<close> gets address, name, flags and user data.\<close>

definition acts :: "'e ns_app \<Rightarrow> (fn_ptr \<Rightarrow> u32 \<Rightarrow> u8 list \<Rightarrow> u32 \<Rightarrow> ptr \<Rightarrow> 'e \<Rightarrow> 'e) \<Rightarrow> bool" where
  "acts app g \<longleftrightarrow> (\<forall>f addr name flags user s.
     app f addr name flags user s = Some (s\<lparr>env := g f addr (mem_read (mem s) name 32) flags user (env s)\<rparr>))"

definition ns_cb ::
  "(fn_ptr \<Rightarrow> u32 \<Rightarrow> u8 list \<Rightarrow> u32 \<Rightarrow> ptr \<Rightarrow> 'e \<Rightarrow> 'e) \<Rightarrow> rpmsg_ns_callback_data \<Rightarrow> 'e rx_cb_fn" where
  "ns_cb g c f d p src priv me =
     (RL_RELEASE, fst me,
      if length p = 40
      then (let (addr, flags, name) = ns_parse p in g (nc_cb c) addr name flags (nc_user_data c) (snd me))
      else snd me)"

lemma ns_calls:
  assumes "acts app g" "cbs (rx_cb_data (snd (snd y))) = Some c" "nc_cb c \<noteq> Fn_NULL"
    and "rx_cb (snd (snd y)) = Fn_rpmsg_ns_rx_cb" "rx_cb_data (snd (snd y)) \<noteq> NULL"
  shows "calls (ns_call app cbs) (ns_cb g c) [y] (\<lambda>e. True)"
proof -
  have l: "unat len = 40 \<longleftrightarrow> len = ns_msg_size" for len :: u32 by (simp add: word_unat_eq_iff)
  have "ns_call app cbs (rx_cb (snd (snd y))) data len src (rx_cb_data (snd (snd y))) s =
      call_of (ns_cb g c) (rx_cb (snd (snd y))) data len src (rx_cb_data (snd (snd y))) s" for data len src s
    using assms by (auto simp: ns_call_def rpmsg_ns_rx_cb_def acts_def call_of_def ns_cb_def l ns_parse_read)
  then show ?thesis by (simp add: calls_def)
qed

text \<open>
  C14: an announcement arrives: \<open>rpmsg_ns_announce\<close> with a free buffer succeeds, and when the other side
  handles its interrupt its application is called once, with the address of the announced
  endpoint, the name (cut off or padded with NUL to 32 bytes), the flags, and the user data it
  bound; the buffer goes back to the sender.
\<close>

theorem ns_announce_received:
  assumes sender: "tx_ready (bm_port side_a) dev i s" "link_state i = 1"
      "get_vq (tvq i) s = Some (vq, vm)" "pend (dev_ops i) vq vm = (idx, l) # free_bufs"
      "length (pend (dev_ops i) vq vm) \<le> unat (vq_nentries vq)"
    and args: "ept \<noteq> NULL" "dev \<noteq> NULL" "local \<noteq> NULL" "epts s ept = Some e"
      "40 \<le> buffer_payload_size (link_shmem cfg (link_id i))"
      "outside local 40 (buf_addr (bm_port side_a) vm idx) 16"
    and receiver: "dev2 \<noteq> NULL" "insts t dev2 = Some j" "dev_ops j = peer_ops (dev_ops i)"
      "ept_rep dev2 t [(n, p, \<lparr>ept_addr = RL_NS_EPT_ADDR, rx_cb = Fn_rpmsg_ns_rx_cb, rx_cb_data = cx, ept_rfu = NULL\<rparr>)]"
      "rvq j \<noteq> NULL" "vqs t (rvq j) = Some pq" "vq_priv pq = dev2"
    and app: "acts app g" "cx \<noteq> NULL" "cbs cx = Some \<lparr>nc_cb = app_cb, nc_user_data = user\<rparr>" "app_cb \<noteq> Fn_NULL"
    and shared: "vr_desc (vq_ring pq) = vr_desc (vq_ring vq)" "vq_nentries pq = vq_nentries vq"
      "vq_ready (dev_ops j) pq vm" "pend (dev_ops j) pq vm = []"
    and cfg2: "\<not> cfg_consumed_notification cfg2" "\<not> cfg_clear_used cfg2"
  shows "\<exists>s' t'. rpmsg_ns_announce (bm_port side_a) cfg world local dev ept (Some name) flags s = Some (RL_SUCCESS, s')
    \<and> rpmsg_lite_rx_callback (bm_port side_b) cfg2 (ns_call app cbs) (rvq j) (see_shared s' t) = Some t'
    \<and> env t' = g app_cb (ept_addr e) (map of_char (env_strncpy name 32)) flags user (env t)
    \<and> tx_bufs i (see_shared t' s') =
        free_bufs @ [(idx, peer_len (dev_ops j) vm (idx, peer_len (dev_ops i) vm (idx, l)))]"
proof -
  let ?s = "s\<lparr>mem := ns_write local name (ept_addr e) flags (mem s)\<rparr>"
  let ?y = "(n, p, \<lparr>ept_addr = RL_NS_EPT_ADDR, rx_cb = Fn_rpmsg_ns_rx_cb, rx_cb_data = cx, ept_rfu = NULL\<rparr>)"
  let ?c = "\<lparr>nc_cb = app_cb, nc_user_data = user\<rparr>"
  have rd: "tx_ready (bm_port side_a) dev i ?s" "get_vq (tvq i) ?s = Some (vq, vm)"
    using sender(1,3) by (simp_all add: tx_ready_def)
  have cl: "calls (ns_call app cbs) (ns_cb g ?c) [?y] (\<lambda>e. True)" using app by (intro ns_calls) simp_all
  have pl: "ns_parse (mem_read (mem ?s) local (unat ns_msg_size)) =
      (ept_addr e, flags, map of_char (env_strncpy name 32))" using ns_write_parse by simp
  obtain s' t' where r: "rpmsg_lite_send (bm_port side_a) cfg world dev ept RL_NS_EPT_ADDR local ns_msg_size RL_BLOCK ?s =
        Some (RL_SUCCESS, s')"
    "rpmsg_lite_rx_callback (bm_port side_b) cfg2 (ns_call app cbs) (rvq j) (see_shared s' t) = Some t'"
    "let (r, m, env2) = ns_cb g ?c (rx_cb (snd (snd ?y))) (msg_data (buf_addr (bm_port side_a) vm idx))
          (mem_read (mem ?s) local (unat ns_msg_size)) (ept_addr e) (rx_cb_data (snd (snd ?y))) (mem s', env t)
     in env t' = env2
        \<and> (if r = RL_HOLD then mem t' = store_u16 m (hdr_idx (buf_addr (bm_port side_a) vm idx)) idx
           else mem t' = m \<and> tx_bufs i (see_shared t' s') =
             free_bufs @ [(idx, peer_len (dev_ops j) vm (idx, peer_len (dev_ops i) vm (idx, l)))])"
    using message_delivery [where cfg = cfg and world = world and ept = ept and dst = RL_NS_EPT_ADDR and data = local
        and len = ns_msg_size and timeout = RL_BLOCK and ?cfg2.0 = cfg2 and y = ?y and xs = "[?y]"
        and side_b = side_b and einv = "\<lambda>e. True",
        OF rd(1) sender(2) rd(2) sender(4,5) args(1-3) _ _ _ _ receiver(1-4) _ _ receiver(5-7) shared cfg2 cl]
      args(4-6) by auto
  have "rpmsg_ns_announce (bm_port side_a) cfg world local dev ept (Some name) flags s = Some (RL_SUCCESS, s')"
    using args(1,4) r(1) by (simp add: rpmsg_ns_announce_def)
  then show ?thesis
    using r(2,3) pl by (intro exI [of _ s'] exI [of _ t']) (simp add: ns_cb_def)
qed

section \<open>Binding and unbinding\<close>

lemma ept_rep_live:
  "ept_rep dev s' xs \<Longrightarrow> ept_rep dev s xs \<Longrightarrow> hp_live h = hp_live (hp s) \<Longrightarrow> ept_rep dev (s'\<lparr>hp := h\<rparr>) xs"
  by (simp add: ept_rep_def)

text \<open>
  \<open>rpmsg_ns_bind\<close> and \<open>rpmsg_ns_unbind\<close> leak nothing: a failed \<open>bind\<close> (no memory) leaves endpoints
  and allocated blocks as they were; otherwise the handle leads to the application's callback and
  data, and \<open>unbind\<close> restores endpoints and allocated blocks. The handle is not NULL even when
  the endpoint could not be created, as when address 53 is in use: its endpoint is NULL then,
  nothing will be received through it, and only \<open>unbind\<close> reports \<open>RL_ERR_PARAM\<close>.
\<close>

theorem ns_bind_unbind:
  assumes "ept_rep dev (ns_rl ns) xs" "dev \<noteq> NULL" "app_cb \<noteq> Fn_NULL"
  shows "\<exists>h ns'. rpmsg_ns_bind (bm_port side_a) junk dev app_cb user ns = Some (h, ns')
    \<and> (if h = NULL
       then ept_rep dev (ns_rl ns') xs \<and> hp_live (hp (ns_rl ns')) = hp_live (hp (ns_rl ns))
       else \<exists>c ept ns''. ns_ctxs ns' h = Some \<lparr>nx_ept = ept, nx_cb_ctxt = c\<rparr>
         \<and> ns_cbs ns' c = Some \<lparr>nc_cb = app_cb, nc_user_data = user\<rparr>
         \<and> (ept \<noteq> NULL \<longrightarrow> (\<exists>n. ept_rep dev (ns_rl ns') ((n, ept, \<lparr>ept_addr = RL_NS_EPT_ADDR,
              rx_cb = Fn_rpmsg_ns_rx_cb, rx_cb_data = c, ept_rfu = NULL\<rparr>) # xs)))
         \<and> (RL_NS_EPT_ADDR \<in> set (map en_addr xs) \<longrightarrow> ept = NULL)
         \<and> rpmsg_ns_unbind (bm_port side_a) dev h ns' = Some (if ept = NULL then RL_ERR_PARAM else RL_SUCCESS, ns'')
         \<and> ept_rep dev (ns_rl ns'') xs \<and> hp_live (hp (ns_rl ns'')) = hp_live (hp (ns_rl ns)))"
proof -
  let ?s = "ns_rl ns" and ?L = "hp_live (hp (ns_rl ns))"
  obtain i where i: "insts ?s dev = Some i" using assms(1) by (auto simp: ept_rep_def)
  have dL: "distinct ?L" using assms(1) by (simp add: ept_rep_def)
  obtain c s1 where c: "alloc ?s = (c, s1)" by (cases "alloc ?s")
  obtain x s2 where x: "alloc s1 = (x, s2)" by (cases "alloc s1")
  note ac1 = alloc_cases [OF c] and ac2 = alloc_cases [OF x]
  note start = rpmsg_ns_bind_def assms(3) c x
  consider (noc) "c = NULL" | (nox) "c \<noteq> NULL" "x = NULL" | (ok) "c \<noteq> NULL" "x \<noteq> NULL" by blast
  then show ?thesis
  proof cases
    case noc
    then show ?thesis using ac1 assms(1) by (auto simp: start ept_rep_def)
  next
    case nox
    then obtain h where h: "s2 = ?s\<lparr>hp := h\<rparr>" "hp_live h = c # ?L" using ac1 ac2 by auto
    have "ept_rep dev (?s\<lparr>hp := h\<lparr>hp_live := ?L\<rparr>\<rparr>) xs" by (rule ept_rep_live [OF assms(1,1)]) simp
    then show ?thesis using nox h by (simp add: start mem_free_ok)
  next
    case ok
    then obtain h where h: "s2 = ?s\<lparr>hp := h\<rparr>" "hp_live h = x # c # ?L" "x \<noteq> c" "c \<notin> set ?L" "x \<notin> set ?L"
      using ac1 ac2 by auto
    have rep2: "ept_rep dev s2 xs" unfolding h(1) using dL h by (intro ept_rep_hp [OF assms(1)]) auto
    have i2: "insts s2 dev = Some i" using i h(1) by simp
    from bm.create_ept_spec [OF rep2 assms(2) i2 TrueI, of side_a junk RL_NS_EPT_ADDR Fn_rpmsg_ns_rx_cb c]
    obtain ept s3 where e: "rpmsg_lite_create_ept (bm_port side_a) junk dev RL_NS_EPT_ADDR Fn_rpmsg_ns_rx_cb c s2
        = Some (ept, s3)"
      "if ept = NULL then ept_rep dev s3 xs \<and> hp_live (hp s3) = hp_live (hp s2)
       else addr_ok RL_NS_EPT_ADDR xs \<and> (\<exists>n. ept_rep dev s3 ((n, ept, \<lparr>ept_addr = chosen_addr RL_NS_EPT_ADDR xs,
           rx_cb = Fn_rpmsg_ns_rx_cb, rx_cb_data = c, ept_rfu = NULL\<rparr>) # xs)
         \<and> hp_live (hp s3) = n # ept # hp_live (hp s2))" by blast
    let ?y = "\<lambda>n. (n, ept, \<lparr>ept_addr = RL_NS_EPT_ADDR, rx_cb = Fn_rpmsg_ns_rx_cb, rx_cb_data = c, ept_rfu = NULL\<rparr>)"
    let ?ns = "\<lparr>ns_rl = s3, ns_cbs = (ns_cbs ns)(c \<mapsto> \<lparr>nc_cb = app_cb, nc_user_data = user\<rparr>),
        ns_ctxs = (ns_ctxs ns)(x \<mapsto> \<lparr>nx_ept = ept, nx_cb_ctxt = c\<rparr>)\<rparr>"
    have bind: "rpmsg_ns_bind (bm_port side_a) junk dev app_cb user ns = Some (x, ?ns)"
      using ok e(1) by (simp add: start)
    have ch: "chosen_addr RL_NS_EPT_ADDR xs = RL_NS_EPT_ADDR" by (simp add: chosen_addr_def)
    have "\<exists>s4. rpmsg_lite_destroy_ept (bm_port side_a) dev ept s3
          = Some (if ept = NULL then RL_ERR_PARAM else RL_SUCCESS, s4)
        \<and> ept_rep dev s4 xs \<and> hp_live (hp s4) = x # c # ?L"
    proof (cases "ept = NULL")
      case True
      then show ?thesis using e(2) h assms(2) by (simp add: rpmsg_lite_destroy_ept_def)
    next
      case False
      then obtain n where n: "ept_rep dev s3 (?y n # xs)" "hp_live (hp s3) = n # ept # x # c # ?L"
        using e(2) h ch by auto
      obtain i3 where i3: "insts s3 dev = Some i3" using n(1) by (auto simp: ept_rep_def)
      have "(n, ept, snd (snd (?y n))) \<in> set (?y n # xs)" by simp
      from bm.destroy_ept_spec [OF n(1) assms(2) i3 TrueI this, of side_a] n(2) False show ?thesis by auto
    qed
    then obtain s4 where s4: "rpmsg_lite_destroy_ept (bm_port side_a) dev ept s3
          = Some (if ept = NULL then RL_ERR_PARAM else RL_SUCCESS, s4)"
      "ept_rep dev s4 xs" "hp_live (hp s4) = x # c # ?L" by blast
    have "\<exists>ns''. rpmsg_ns_unbind (bm_port side_a) dev x ?ns = Some (if ept = NULL then RL_ERR_PARAM else RL_SUCCESS, ns'')
        \<and> ept_rep dev (ns_rl ns'') xs \<and> hp_live (hp (ns_rl ns'')) = ?L"
      using s4(1,3) ok h(3) ept_rep_live [OF s4(2) assms(1)] by (simp add: rpmsg_ns_unbind_def mem_free_ok)
    moreover have "RL_NS_EPT_ADDR \<in> set (map en_addr xs) \<longrightarrow> ept = NULL"
      using e(2) ch by (auto simp: addr_ok_def split: if_splits)
    moreover have "ept \<noteq> NULL \<longrightarrow> (\<exists>n. ept_rep dev (ns_rl ?ns) (?y n # xs))" using e(2) ch by auto
    ultimately show ?thesis
      using bind ok(2) by (intro exI [of _ x] exI [of _ ?ns]) auto
  qed
qed

section \<open>Witnesses\<close>

text \<open>
  The master of the example announces its endpoint 30 as \<open>a\<close>; the remote's application records the
  address. The message is built at \<open>0x3000\<close>.
\<close>

abbreviation (input) ex_ns_ept :: rpmsg_lite_endpoint where
  "ex_ns_ept \<equiv> \<lparr>ept_addr = 0x35, rx_cb = Fn_rpmsg_ns_rx_cb, rx_cb_data = 0x50, ept_rfu = 0\<rparr>"

definition ex_ns_remote :: "bm_env rl_state" where
  "ex_ns_remote = (ex_remote (\<lambda>a. 0) ex_vm)\<lparr>epts := [32 \<mapsto> ex_ns_ept]\<rparr>"

definition ex_ns_act :: "fn_ptr \<Rightarrow> u32 \<Rightarrow> u8 list \<Rightarrow> u32 \<Rightarrow> ptr \<Rightarrow> bm_env \<Rightarrow> bm_env" where
  "ex_ns_act f addr name flags user e = e\<lparr>env_init_counter := int (unat addr)\<rparr>"

definition ex_ns_app :: "bm_env ns_app" where
  "ex_ns_app f addr name flags user s =
     Some (s\<lparr>env := ex_ns_act f addr (mem_read (mem s) name 32) flags user (env s)\<rparr>)"

lemma ex_ns_rep: "ept_rep 8 ex_ns_remote [(16, 32, ex_ns_ept)]"
  by (simp add: ex_ns_remote_def ept_rep_def ex_remote_def ex_rinst_def list_rep_def)

lemma ex_ns_simps [simp]:
  "insts ex_ns_remote 8 = Some ex_rinst" "vqs ex_ns_remote 56 = Some (ex_vq 8)" "env ex_ns_remote = bm_reset"
  by (simp_all add: ex_ns_remote_def)

lemma ex_ns_acts: "acts ex_ns_app ex_ns_act"
  by (simp add: acts_def ex_ns_app_def)

lemma outside_ns: "outside 0x3000 40 0x1000 16"
  unfolding outside_def
proof (intro allI impI)
  fix j :: nat assume "j < 40"
  then have "unat (0x2000 + of_nat j :: u32) = 0x2000 + j" by (simp add: unat_word_ariths unat_of_nat)
  then show "16 \<le> unat (0x3000 + of_nat j - 0x1000 :: u32)" by (simp add: algebra_simps)
qed

theorem ns_announce_received_witness:
  "\<exists>s' t'. rpmsg_ns_announce (bm_port True) cfg_ex (\<lambda>s. s) 0x3000 8 32 (Some ''a'') 0 ex_master = Some (RL_SUCCESS, s')
     \<and> rpmsg_lite_rx_callback (bm_port False) cfg_ex
          (ns_call ex_ns_app [0x50 \<mapsto> \<lparr>nc_cb = Fn_app 3, nc_user_data = 0\<rparr>]) 56 (see_shared s' ex_ns_remote) = Some t'
     \<and> env_init_counter (env t') = 30"
  using ns_announce_received [where cfg = cfg_ex and ?cfg2.0 = cfg_ex and side_b = False and ept = 32
      and world = "\<lambda>s. s" and name = "''a''" and flags = 0 and pq = "ex_vq 8" and e = ex_sender
      and cbs = "[0x50 \<mapsto> \<lparr>nc_cb = Fn_app 3, nc_user_data = 0\<rparr>]" and app_cb = "Fn_app 3" and user = 0
      and local = "0x3000" and j = ex_rinst,
      OF ex_tx_ready _ _ ex_pend_master _ _ _ _ _ _ _ _ _ _ ex_ns_rep _ _ _ ex_ns_acts]
    outside_ns by (auto simp: ex_ns_act_def simp del: pend.simps)

text \<open>The example of \<open>Rpmsg_Endpoints\<close>, whose allocator has two more blocks: no endpoint is created.\<close>

theorem ns_bind_unbind_witness:
  "\<exists>h ns'. rpmsg_ns_bind (bm_port True) \<lparr>l_data = 0, l_attr = 0, l_next = 0, l_prev = 0\<rparr> 8 (Fn_app 3) 0
      \<lparr>ns_rl = ept_ex, ns_cbs = Map.empty, ns_ctxs = Map.empty\<rparr> = Some (h, ns')"
  using ns_bind_unbind [of 8 "\<lparr>ns_rl = ept_ex, ns_cbs = Map.empty, ns_ctxs = Map.empty\<rparr>" ept_ex_list "Fn_app 3"]
    ept_ex_rep by fastforce

end
