(* ===== verification/Rpmsg_Init.thy ===== *)
theory Rpmsg_Init
  imports Rpmsg_Delivery
begin

text \<open>
  Initialisation and deinitialisation: the master lays out the shared memory, builds the two
  queues and hands out the buffers; what is allocated is freed again on every failure and by
  \<open>rpmsg_lite_deinit\<close>.
\<close>

section \<open>Filling a queue\<close>

text \<open>
  A queue in which the first \<open>j\<close> descriptors carry buffers: the role \<open>ops\<close> can take exactly those,
  in order, and the other role nothing. \<open>addr\<close> is the address of each buffer, \<open>len\<close> its length.
\<close>

definition filled ::
  "'e env_port \<Rightarrow> vq_ops \<Rightarrow> (nat \<Rightarrow> ptr) \<Rightarrow> u32 \<Rightarrow> nat \<Rightarrow> virtqueue \<Rightarrow> vring_mem \<Rightarrow> bool" where
  "filled P ops addr len j vq vm \<longleftrightarrow> vq_wf vq vm \<and> vq_idle vq \<and> vq_flags vq = 0
     \<and> notify_fc vq = Fn_virtqueue_notify
     \<and> vq_desc_head_idx vq = of_nat j \<and> j \<le> unat (vq_nentries vq)
     \<and> pend ops vq vm = map (\<lambda>m. (of_nat m, len)) [0..<j] \<and> pend (peer_ops ops) vq vm = []
     \<and> (\<forall>m < j. d_addr (vm_desc vm ! m) = ucast (ep_map_vatopa P (addr m)) \<and> d_len (vm_desc vm ! m) = len)"

lemma filled_head:
  assumes "filled P ops addr len j vq vm" "j < unat (vq_nentries vq)"
  shows "unat (vq_desc_head_idx vq) = j" "vq_desc_head_idx vq < vq_nentries vq" "j < length (vm_desc vm)"
proof -
  have "j < 65536" using assms(2) unat_u16_less [of "vq_nentries vq"] by simp
  then show u: "unat (vq_desc_head_idx vq) = j" using assms(1) by (simp add: filled_def unat_of_nat)
  then show "vq_desc_head_idx vq < vq_nentries vq" using assms(2) by (simp add: word_less_nat_alt)
  show "j < length (vm_desc vm)" using assms vq_wf_lengths(1) [of vq vm] by (simp add: filled_def)
qed

lemma desc_set_nth:
  assumes "i < length (vm_desc vm)"
  shows "d_addr (vm_desc (desc_set i a l vm) ! m) = (if m = i then ucast a else d_addr (vm_desc vm ! m))"
    and "d_len (vm_desc (desc_set i a l vm) ! m) = (if m = i then l else d_len (vm_desc vm ! m))"
  using assms by (auto simp: desc_set_def nth_list_update)

text \<open>What a queue says besides its rings.\<close>

definition same_id :: "virtqueue \<Rightarrow> virtqueue \<Rightarrow> bool" where
  "same_id vq vq' \<longleftrightarrow> vq_ring vq' = vq_ring vq \<and> vq_nentries vq' = vq_nentries vq \<and> vq_priv vq' = vq_priv vq
     \<and> vq_queue_index vq' = vq_queue_index vq \<and> callback_fc vq' = callback_fc vq \<and> vq_ring_mem vq' = vq_ring_mem vq"

lemma same_id_trans: "same_id a b \<Longrightarrow> same_id b c \<Longrightarrow> same_id a c" and same_id_refl [simp]: "same_id a a"
  by (simp_all add: same_id_def)

lemma filled_entry_bound:
  "j < unat (vq_nentries vq) \<Longrightarrow> m < j \<Longrightarrow> unat (of_nat m :: u16) = m" for vq :: virtqueue
  using unat_u16_less [of "vq_nentries vq"] by (simp add: unat_of_nat)

lemma fill_avail_step:
  assumes f: "filled P Remote_ops addr len j vq vm" and j: "j < unat (vq_nentries vq)"
  shows "\<exists>vq' vm'. virtqueue_fill_avail_buffers (ep_map_vatopa P) dbg (Some vq) vm (addr j) len =
      Some (VQUEUE_SUCCESS, vq', vm') \<and> filled P Remote_ops addr len (Suc j) vq' vm'
    \<and> same_id vq vq' \<and> us_flags (vm_used vm') = us_flags (vm_used vm)"
proof -
  note h = filled_head [OF f j]
  let ?a = "ep_map_vatopa P (addr j)"
  let ?vm1 = "desc_set j ?a len vm"
  let ?vq = "vq\<lparr>vq_desc_head_idx := vq_desc_head_idx vq + 1, vq_queued_cnt := vq_queued_cnt vq + 1\<rparr>"
  let ?vm = "avail_push (unat (vq_nentries vq)) (of_nat j) ?vm1"
  have w: "vq_wf vq vm" "vq_idle vq" "vq_desc_head_idx vq = of_nat j" using f by (simp_all add: filled_def)
  have w1: "vq_wf vq ?vm1" using w(1) by simp
  have rl: "ring_list (unat (vq_nentries vq)) (av_ring (vm_avail vm)) (vq_available_idx vq)
      (av_idx (vm_avail vm)) = map of_nat [0..<j]" (is "?r = _")
  proof -
    have "map fst (pend Remote_ops vq vm) = map of_nat [0..<j]" using f by (simp add: filled_def o_def)
    then show ?thesis by (simp add: o_def)
  qed
  have p1: "pend Remote_ops vq ?vm1 = map (\<lambda>m. (of_nat m, len)) [0..<j]"
    using f j h(3) by (auto simp: rl desc_set_nth filled_entry_bound filled_def)
  have "pend (peer_ops Master_ops) vq (snd (put Master_ops (of_nat j, len) (vq, ?vm1))) =
      pend (peer_ops Master_ops) vq ?vm1 @ [(of_nat j, peer_len Master_ops ?vm1 (of_nat j, len))]"
    using pend_peer_put [OF w1 refl, of Master_ops "(of_nat j, len)"] p1 j
    by (simp add: has_room_def del: pend.simps)
  then have p: "pend Remote_ops ?vq ?vm = map (\<lambda>m. (of_nat m, len)) [0..<Suc j]"
    using p1 h(1,3) w(3) by (simp add: desc_set_nth)
  have "filled P Remote_ops addr len (Suc j) ?vq ?vm"
    using f j h(3) p w(3) by (auto simp: filled_def desc_set_nth less_Suc_eq simp del: pend.simps)
      (auto simp: add.commute)
  then show ?thesis
    using virtqueue_fill_avail_buffers_eq [OF w(1,2) h(2)] h(1) w(3) by (simp add: same_id_def)
qed

lemma fill_used_step:
  assumes f: "filled P Master_ops addr len j vq vm" and j: "j < unat (vq_nentries vq)" and b: "addr j \<noteq> NULL"
  shows "\<exists>vq' vm'. virtqueue_fill_used_buffers (ep_map_vatopa P) dbg vq vm (addr j) len =
      Some (VQUEUE_SUCCESS, vq', vm') \<and> filled P Master_ops addr len (Suc j) vq' vm'
    \<and> same_id vq vq' \<and> us_flags (vm_used vm') = us_flags (vm_used vm)"
proof -
  note h = filled_head [OF f j]
  let ?a = "ep_map_vatopa P (addr j)"
  let ?vm1 = "desc_set j ?a len vm"
  let ?vq = "vq\<lparr>vq_desc_head_idx := vq_desc_head_idx vq + 1\<rparr>"
  let ?vm = "used_push (unat (vq_nentries vq)) \<lparr>ue_id = ucast (of_nat j :: u16), ue_len = len\<rparr> ?vm1"
  have w: "vq_wf vq vm" "vq_idle vq" "vq_desc_head_idx vq = of_nat j" using f by (simp_all add: filled_def)
  have w1: "vq_wf vq ?vm1" using w(1) by simp
  have p1: "pend Master_ops vq ?vm1 = map (\<lambda>m. (of_nat m, len)) [0..<j]" using f by (simp add: filled_def)
  have "pend (peer_ops Remote_ops) vq (snd (put Remote_ops (of_nat j, len) (vq, ?vm1))) =
      pend (peer_ops Remote_ops) vq ?vm1 @ [(of_nat j, peer_len Remote_ops ?vm1 (of_nat j, len))]"
    using pend_peer_put [OF w1 refl, of Remote_ops "(of_nat j, len)"] p1 j
    by (simp add: has_room_def del: pend.simps)
  then have p: "pend Master_ops ?vq ?vm = map (\<lambda>m. (of_nat m, len)) [0..<Suc j]"
    using p1 by simp
  have "filled P Master_ops addr len (Suc j) ?vq ?vm"
    using f j h(3) p w(3) by (auto simp: filled_def desc_set_nth less_Suc_eq simp del: pend.simps)
      (auto simp: add.commute)
  then show ?thesis
    using virtqueue_fill_used_buffers_eq [OF w(1,2) h(2) b] h(1) w(3)
    by (simp add: same_id_def) (simp add: used_push_def)
qed

lemma get_vq_insts [simp]: "get_vq v (s\<lparr>insts := x\<rparr>) = get_vq v s"
  by (simp add: get_vq_def)

lemma put_vq_insts [simp]: "(put_vq v vq vm s)\<lparr>insts := x\<rparr> = put_vq v vq vm (s\<lparr>insts := x\<rparr>)"
  by (simp add: put_vq_def)

lemma put_vq_hp [simp]: "(put_vq v vq vm s)\<lparr>hp := x\<rparr> = put_vq v vq vm (s\<lparr>hp := x\<rparr>)"
  by (simp add: put_vq_def)

text \<open>The buffer number \<open>n\<close> of the shared memory.\<close>

definition shm_buf :: "shmem_config \<Rightarrow> rpmsg_lite_instance \<Rightarrow> nat \<Rightarrow> ptr" where
  "shm_buf sc i n = sh_mem_base i + RL_BUFFER_SIZE sc * of_nat n"

text \<open>The queue a role of the master: the remote takes from the receive queue, the master from its transmit queue.\<close>

definition fills :: "rpmsg_lite_instance \<Rightarrow> ptr \<Rightarrow> vq_ops \<Rightarrow> bool" where
  "fills i v ops \<longleftrightarrow> (v = rvq i \<and> ops = Remote_ops) \<or> (v \<noteq> rvq i \<and> v = tvq i \<and> ops = Master_ops)"

lemma fill_one_eq:
  assumes i: "insts s dev = Some i" "sh_mem_remaining i = sh_mem_total i - of_nat (k0 + j)"
      "k0 + j < unat (sh_mem_total i)"
    and q: "get_vq v s = Some (vq, vm)" "fills i v ops"
    and f: "filled P ops (\<lambda>m. shm_buf sc i (k0 + m)) (RL_BUFFER_SIZE sc) j vq vm" "j < unat (vq_nentries vq)"
    and b: "shm_buf sc i (k0 + j) \<noteq> NULL"
  shows "\<exists>vq' vm' m'. fill_one P cfg sc dev v s = Some (RL_SUCCESS, put_vq v vq' vm'
      (s\<lparr>insts := (insts s)(dev \<mapsto> i\<lparr>sh_mem_remaining := sh_mem_total i - of_nat (k0 + Suc j)\<rparr>), mem := m'\<rparr>))
    \<and> filled P ops (\<lambda>m. shm_buf sc i (k0 + m)) (RL_BUFFER_SIZE sc) (Suc j) vq' vm'
    \<and> same_id vq vq' \<and> us_flags (vm_used vm') = us_flags (vm_used vm)"
proof -
  have "unat (of_nat (k0 + j) :: u32) = k0 + j"
    using i(3) unat_u32_less [of "sh_mem_total i"] by (simp add: unat_of_nat del: of_nat_add)
  then have "sh_mem_remaining i \<noteq> 0" using i(2,3) by (metis eq_iff_diff_eq_0 less_irrefl)
  then have r: "0 < sh_mem_remaining i" by (simp add: word_gt_0)
  have bf: "sh_mem_base i + RL_BUFFER_SIZE sc * (sh_mem_total i - sh_mem_remaining i) = shm_buf sc i (k0 + j)"
    using i(2) by (simp add: shm_buf_def)
  have rem: "sh_mem_remaining i - 1 = sh_mem_total i - of_nat (k0 + Suc j)" using i(2) by (simp add: algebra_simps)
  let ?i = "i\<lparr>sh_mem_remaining := sh_mem_total i - of_nat (k0 + Suc j)\<rparr>"
  let ?s = "s\<lparr>insts := (insts s)(dev \<mapsto> ?i),
      mem := env_memset (shm_buf sc i (k0 + j)) 0 (RL_BUFFER_SIZE sc) (mem s)\<rparr>"
  have qs: "get_vq v ?s = Some (vq, vm)" using q(1) by simp
  have start: "fill_one P cfg sc dev v s =
      do { (st, vq, vm) \<leftarrow> (if v = rvq i
             then virtqueue_fill_avail_buffers (ep_map_vatopa P) (cfg_vq_debug cfg) (Some vq) vm
                    (shm_buf sc i (k0 + j)) (RL_BUFFER_SIZE sc)
             else virtqueue_fill_used_buffers (ep_map_vatopa P) (cfg_vq_debug cfg) vq vm
                    (shm_buf sc i (k0 + j)) (RL_BUFFER_SIZE sc));
           Some (st, put_vq v vq vm ?s) }"
    using i(1) r q(2) b qs by (auto simp: fill_one_def bf set_inst_def rem fills_def Let_def)
  show ?thesis
  proof (cases "v = rvq i")
    case True
    then have "ops = Remote_ops" using q(2) by (auto simp: fills_def)
    then show ?thesis
      using fill_avail_step [where addr = "\<lambda>m. shm_buf sc i (k0 + m)" and dbg = "cfg_vq_debug cfg"] f True
      unfolding start by fastforce
  next
    case False
    then have "ops = Master_ops" using q(2) by (auto simp: fills_def)
    then show ?thesis
      using fill_used_step [where addr = "\<lambda>m. shm_buf sc i (k0 + m)" and dbg = "cfg_vq_debug cfg"] f b False
      unfolding start by fastforce
  qed
qed

lemma fill_loop_eq:
  assumes "insts s dev = Some i" "sh_mem_remaining i = sh_mem_total i - of_nat (k0 + j)"
      "k0 + j + k \<le> unat (sh_mem_total i)"
    and "get_vq v s = Some (vq, vm)" "fills i v ops"
    and "filled P ops (\<lambda>m. shm_buf sc i (k0 + m)) (RL_BUFFER_SIZE sc) j vq vm" "j + k \<le> unat (vq_nentries vq)"
    and "\<And>m. m < j + k \<Longrightarrow> shm_buf sc i (k0 + m) \<noteq> NULL"
  shows "\<exists>vq' vm' m'. fill_loop P cfg sc dev v k s = Some (RL_SUCCESS, put_vq v vq' vm'
      (s\<lparr>insts := (insts s)(dev \<mapsto> i\<lparr>sh_mem_remaining := sh_mem_total i - of_nat (k0 + j + k)\<rparr>), mem := m'\<rparr>))
    \<and> filled P ops (\<lambda>m. shm_buf sc i (k0 + m)) (RL_BUFFER_SIZE sc) (j + k) vq' vm'
    \<and> same_id vq vq' \<and> us_flags (vm_used vm') = us_flags (vm_used vm)"
  using assms
proof (induction k arbitrary: s i j vq vm)
  case 0
  have i: "i\<lparr>sh_mem_remaining := sh_mem_total i - of_nat (k0 + j + 0)\<rparr> = i" using 0(2) by simp
  have e: "(insts s)(dev \<mapsto> i) = insts s" using 0(1) by (rule fun_upd_idem)
  have A: "fill_loop P cfg sc dev v 0 s = Some (RL_SUCCESS, put_vq v vq vm
      (s\<lparr>insts := (insts s)(dev \<mapsto> i\<lparr>sh_mem_remaining := sh_mem_total i - of_nat (k0 + j + 0)\<rparr>), mem := mem s\<rparr>))"
    unfolding i e using put_vq_triv [OF 0(4)] by simp
  have B: "filled P ops (\<lambda>m. shm_buf sc i (k0 + m)) (RL_BUFFER_SIZE sc) (j + 0) vq vm" using 0(6) by simp
  show ?case
    by (rule exI [of _ vq], rule exI [of _ vm], rule exI [of _ "mem s"], intro conjI, rule A, rule B,
        rule same_id_refl, rule refl)
next
  case (Suc k)
  let ?i = "i\<lparr>sh_mem_remaining := sh_mem_total i - of_nat (k0 + Suc j)\<rparr>"
  have "k0 + j < unat (sh_mem_total i)" "j < unat (vq_nentries vq)" "shm_buf sc i (k0 + j) \<noteq> NULL"
    using Suc.prems(3,7,8) by simp_all
  from fill_one_eq [OF Suc.prems(1,2) this(1) Suc.prems(4,5,6) this(2,3), of cfg]
  obtain vq1 vm1 m1 where one: "fill_one P cfg sc dev v s = Some (RL_SUCCESS, put_vq v vq1 vm1
      (s\<lparr>insts := (insts s)(dev \<mapsto> ?i), mem := m1\<rparr>))"
    and f1: "filled P ops (\<lambda>m. shm_buf sc i (k0 + m)) (RL_BUFFER_SIZE sc) (Suc j) vq1 vm1"
      "same_id vq vq1" "us_flags (vm_used vm1) = us_flags (vm_used vm)" by blast
  let ?s = "put_vq v vq1 vm1 (s\<lparr>insts := (insts s)(dev \<mapsto> ?i), mem := m1\<rparr>)"
  have sb: "shm_buf sc ?i = shm_buf sc i" by (simp add: shm_buf_def fun_eq_iff)
  have "\<exists>vq' vm' m'. fill_loop P cfg sc dev v k ?s = Some (RL_SUCCESS, put_vq v vq' vm'
      (?s\<lparr>insts := (insts ?s)(dev \<mapsto> ?i\<lparr>sh_mem_remaining := sh_mem_total ?i - of_nat (k0 + Suc j + k)\<rparr>), mem := m'\<rparr>))
    \<and> filled P ops (\<lambda>m. shm_buf sc ?i (k0 + m)) (RL_BUFFER_SIZE sc) (Suc j + k) vq' vm'
    \<and> same_id vq1 vq' \<and> us_flags (vm_used vm') = us_flags (vm_used vm1)"
  proof (rule Suc.IH)
    show "fills ?i v ops" using Suc.prems(5) by (simp add: fills_def)
    show "filled P ops (\<lambda>m. shm_buf sc ?i (k0 + m)) (RL_BUFFER_SIZE sc) (Suc j) vq1 vm1" using f1(1) sb by simp
    show "Suc j + k \<le> unat (vq_nentries vq1)" using Suc.prems(7) f1(2) by (simp add: same_id_def)
    show "shm_buf sc ?i (k0 + m) \<noteq> NULL" if "m < Suc j + k" for m using Suc.prems(8) [of m] that sb by simp
  qed (use Suc.prems in simp_all)
  then obtain vq2 vm2 m2 where r: "fill_loop P cfg sc dev v k ?s = Some (RL_SUCCESS, put_vq v vq2 vm2
      (?s\<lparr>insts := (insts ?s)(dev \<mapsto> ?i\<lparr>sh_mem_remaining := sh_mem_total ?i - of_nat (k0 + Suc j + k)\<rparr>), mem := m2\<rparr>))"
    and f2: "filled P ops (\<lambda>m. shm_buf sc i (k0 + m)) (RL_BUFFER_SIZE sc) (Suc j + k) vq2 vm2"
      "same_id vq1 vq2" "us_flags (vm_used vm2) = us_flags (vm_used vm1)" unfolding sb by blast
  have n: "k0 + Suc j + k = k0 + j + Suc k" "Suc j + k = j + Suc k" by simp_all
  have A: "fill_loop P cfg sc dev v (Suc k) s = Some (RL_SUCCESS, put_vq v vq2 vm2
      (s\<lparr>insts := (insts s)(dev \<mapsto> i\<lparr>sh_mem_remaining := sh_mem_total i - of_nat (k0 + j + Suc k)\<rparr>), mem := m2\<rparr>))"
    using one r f2(2) by (simp add: same_id_def n del: of_nat_add of_nat_Suc)
  show ?case
    by (rule exI [of _ vq2], rule exI [of _ vm2], rule exI [of _ m2], intro conjI, rule A, rule f2(1) [unfolded n(2)],
        rule same_id_trans [OF f1(2) f2(2)], simp add: f2(3) f1(3))
qed

section \<open>Creating the queues\<close>

lemma filled_zeroI:
  assumes "vq_wf vq vm" "vq_idle vq" "vq_flags vq = 0" "notify_fc vq = Fn_virtqueue_notify" "ops \<noteq> Ops_NULL"
    and "vq_desc_head_idx vq = 0" "vq_available_idx vq = av_idx (vm_avail vm)" "vq_used_cons_idx vq = us_idx (vm_used vm)"
  shows "filled P ops addr len 0 vq vm"
  using assms by (cases ops) (simp_all add: filled_def)

lemma create_status_ok:
  assumes "is_pow2 (num_descs ri)" "ring_align ri \<le> 65536"
  shows "virtqueue_create_status dbg ri = VQUEUE_SUCCESS"
proof -
  have "\<not> ring_align ri > VRING_INT32_MAX" using assms(2) by (simp add: word_le_nat_alt word_less_nat_alt)
  then show ?thesis using assms(1) by (simp add: virtqueue_create_status_def VQ_PARAM_CHK_def is_pow2_def)
qed

lemma disable_cb_eq:
  assumes "vq_idle vq" "vq_flags vq = 0"
  shows "virtqueue_disable_cb dbg vq vm = Some (vq, vm\<lparr>vm_avail := (vm_avail vm)
      \<lparr>av_flags := av_flags (vm_avail vm) OR VRING_AVAIL_F_NO_INTERRUPT\<rparr>\<rparr>)"
proof -
  have "vq\<lparr>avail_write := False\<rparr> = vq" using assms(1) by (cases vq) (simp add: vq_idle_def)
  then show ?thesis
    using assms by (cases dbg) (simp_all add: virtqueue_disable_cb_def VQUEUE_BUSY_idle VQUEUE_IDLE_def)
qed

text \<open>A queue of the master: empty for both roles, with its vring at the address it was given.\<close>

lemma create_vq_master:
  assumes ri: "is_pow2 (num_descs ri)" "ring_align ri \<le> 65536" and al: "env_allocate_memory (hp s) = (p, h)" "p \<noteq> NULL"
  shows "\<exists>vq vm. create_vq True cfg ri qid name cb dev s = Some (p, put_vq p vq vm (s\<lparr>hp := h\<rparr>))
    \<and> (\<forall>ops P addr len. ops \<noteq> Ops_NULL \<longrightarrow> filled P ops addr len 0 vq vm)
    \<and> vr_desc (vq_ring vq) = phy_addr ri \<and> vq_nentries vq = num_descs ri \<and> vq_priv vq = dev
    \<and> vq_queue_index vq = qid \<and> callback_fc vq = cb \<and> us_flags (vm_used vm) = 0"
proof -
  let ?vq = "virtqueue_setup qid name ri cb Fn_virtqueue_notify"
  let ?z = "vring_mem_zero (unat (num_descs ri))"
  note st = create_status_ok [OF ri]
  have w: "vq_wf ?vq ?z" by (rule virtqueue_setup_wf) (simp_all add: ri)
  obtain ds where ds: "vq_ring_init ?vq ?z = Some (?z\<lparr>vm_desc := ds\<rparr>)" "length ds = unat (vq_nentries ?vq)"
    using vq_ring_init_chain [OF w] by blast
  let ?vm = "?z\<lparr>vm_desc := ds, vm_avail := (vm_avail ?z)
      \<lparr>av_flags := av_flags (vm_avail ?z) OR VRING_AVAIL_F_NO_INTERRUPT\<rparr>\<rparr>"
  have dc: "virtqueue_disable_cb (cfg_vq_debug cfg) ?vq (?z\<lparr>vm_desc := ds\<rparr>) = Some (?vq, ?vm)"
    using disable_cb_eq [of ?vq "cfg_vq_debug cfg" "?z\<lparr>vm_desc := ds\<rparr>"] by simp
  have al': "alloc (s\<lparr>vrings := x\<rparr>) = (p, s\<lparr>vrings := x, hp := h\<rparr>)" for x
    using al(1) by (simp add: alloc_def)
  have d: "vr_desc (vq_ring ?vq) = phy_addr ri" by (simp add: virtqueue_setup_def vring_init_def)
  have c: "virtqueue_create (cfg_vq_debug cfg) qid name (Some ri) cb Fn_virtqueue_notify p = Some (VQUEUE_SUCCESS, Some ?vq)"
    using al(2) st by (simp add: virtqueue_create_def)
  have "create_vq True cfg ri qid name cb dev s = Some (p, put_vq p (?vq\<lparr>vq_priv := dev\<rparr>) ?vm (s\<lparr>hp := h\<rparr>))"
    using st al' c ds(1) dc d by (simp add: create_vq_def put_vq_def)
  moreover have "filled P ops addr len 0 (?vq\<lparr>vq_priv := dev\<rparr>) ?vm" if "ops \<noteq> Ops_NULL" for P ops addr len
  proof (rule filled_zeroI [OF _ _ _ _ that])
    have "vq_wf ?vq ?vm" using w ds(2) by (simp add: vq_wf_def vring_mem_wf_def)
    then show "vq_wf (?vq\<lparr>vq_priv := dev\<rparr>) ?vm" by (simp add: vq_wf_def)
    have "vq_idle ?vq" by simp
    then show "vq_idle (?vq\<lparr>vq_priv := dev\<rparr>)" by (simp add: vq_idle_def)
  qed (simp_all add: virtqueue_setup_def virtqueue_zero_def)
  moreover have "vr_desc (vq_ring (?vq\<lparr>vq_priv := dev\<rparr>)) = phy_addr ri"
    "vq_nentries (?vq\<lparr>vq_priv := dev\<rparr>) = num_descs ri" "vq_priv (?vq\<lparr>vq_priv := dev\<rparr>) = dev"
    "vq_queue_index (?vq\<lparr>vq_priv := dev\<rparr>) = qid" "callback_fc (?vq\<lparr>vq_priv := dev\<rparr>) = cb"
    "us_flags (vm_used ?vm) = 0"
    by (simp_all add: virtqueue_setup_def virtqueue_zero_def vring_init_def)
  ultimately show ?thesis by blast
qed

section \<open>The layout of the shared memory\<close>

lemma unat_word_align_up:
  assumes "unat a + 3 < 2 ^ 32"
  shows "unat (RL_WORD_ALIGN_UP a) = align_up 4 (unat a)"
proof -
  have p: "is_pow2 (4 :: u32)" by (simp add: is_pow2_def)
  have "align_up 4 (unat a) < 2 ^ 32" using align_up_less [of 4 "unat a"] assms by simp
  moreover have u: "unat (4 :: u32) = 4" by simp
  ultimately have "unat ((a + 4 - 1) AND NOT (4 - 1)) = align_up 4 (unat a)"
    using unat_align_up [OF p, of a] unfolding u by simp
  moreover have "a + 4 - 1 = a + (4 - 1)" by simp
  ultimately show ?thesis unfolding RL_WORD_ALIGN_UP_def by metis
qed

lemma word_align_down_le: "unat (RL_WORD_ALIGN_DOWN a) \<le> unat a"
  unfolding RL_WORD_ALIGN_DOWN_def using word_and_le2 [of a "NOT (4 - 1)"] by (simp add: word_le_nat_alt)

lemma calculate_bound:
  assumes "RL_CALCULATE_BUFFER_COUNT_DOWN_SAFE len overhead sz = Some n" "0 < unat n"
  shows "unat overhead + unat n * unat sz \<le> unat len"
proof -
  have c: "\<not> len < overhead" "sz \<noteq> 0" "n = RL_WORD_ALIGN_DOWN (len - overhead) div sz"
    using assms by (auto simp: RL_CALCULATE_BUFFER_COUNT_DOWN_SAFE_def split: if_splits)
  have "unat n * unat sz \<le> unat (RL_WORD_ALIGN_DOWN (len - overhead))"
    unfolding c(3) unat_div by (rule div_times_less_eq_dividend)
  also have "\<dots> \<le> unat (len - overhead)" by (rule word_align_down_le)
  also have "\<dots> = unat len - unat overhead" using c(1) by (intro unat_sub) (simp add: not_less)
  finally have "unat n * unat sz \<le> unat len - unat overhead" .
  moreover have "unat overhead \<le> unat len" using c(1) by (simp add: not_less word_le_nat_alt)
  ultimately show ?thesis by linarith
qed

text \<open>What the checks at the start of the initialisation establish.\<close>

lemma checks_Some:
  assumes "master_init_checks cfg shmem len link = Some (Some sc)"
  shows "link \<le> cfg_highest_link cfg" "shmem \<noteq> NULL"
    and "\<exists>n. RL_CALCULATE_BUFFER_COUNT_DOWN_SAFE len (2 * cfg_vring_size sc) (RL_BUFFER_SIZE sc) = Some n
      \<and> 2 * ucast (buffer_count sc) \<le> n"
  using assms by (auto simp: master_init_checks_def Let_def not_less split: option.splits prod.splits if_splits bind_splits)

text \<open>A configuration within the limits of the preprocessor's checks.\<close>

definition shmem_ok :: "shmem_config \<Rightarrow> bool" where
  "shmem_ok sc \<longleftrightarrow> is_pow2 (buffer_count sc) \<and> is_pow2 (cfg_vring_align sc) \<and> cfg_vring_align sc \<le> 65536
     \<and> unat (buffer_payload_size sc) + 19 < 2 ^ 32 \<and> 2 * unat (cfg_vring_size sc) < 2 ^ 32
     \<and> unat (cfg_vring_size sc) mod 4 = 0 \<and> 0 < cfg_vring_size sc
     \<and> vring_size (ucast (buffer_count sc)) (cfg_vring_align sc) \<le> int (unat (cfg_vring_size sc))"

lemma buffer_size_eq:
  assumes "shmem_ok sc"
  shows "unat (RL_BUFFER_SIZE sc) = align_up 4 (unat (buffer_payload_size sc) + 16)"
    and "unat (buffer_payload_size sc) + 16 \<le> unat (RL_BUFFER_SIZE sc)"
proof -
  have "unat (buffer_payload_size sc + 16) = unat (buffer_payload_size sc) + 16"
    using assms by (simp add: shmem_ok_def unat_word_ariths)
  then show e: "unat (RL_BUFFER_SIZE sc) = align_up 4 (unat (buffer_payload_size sc) + 16)"
    using assms by (simp add: RL_BUFFER_SIZE_def unat_word_align_up shmem_ok_def)
  show "unat (buffer_payload_size sc) + 16 \<le> unat (RL_BUFFER_SIZE sc)"
    unfolding e by (rule align_up_ge) simp
qed

text \<open>The start of the buffers, and their numbers.\<close>

definition shm_base :: "shmem_config \<Rightarrow> ptr \<Rightarrow> ptr" where
  "shm_base sc shmem = RL_WORD_ALIGN_UP (shmem + 2 * cfg_vring_size sc)"

lemma shm_base_unat:
  assumes "shmem_ok sc" "unat shmem + unat len + 3 < 2 ^ 32" "unat (2 * cfg_vring_size sc) \<le> unat len"
  shows "unat (shm_base sc shmem) = align_up 4 (unat shmem + 2 * unat (cfg_vring_size sc))"
proof -
  have v: "unat (2 * cfg_vring_size sc) = 2 * unat (cfg_vring_size sc)"
    using assms(1) by (simp add: shmem_ok_def unat_word_ariths)
  then have "unat (shmem + 2 * cfg_vring_size sc) = unat shmem + 2 * unat (cfg_vring_size sc)"
    using assms(2,3) by (simp add: unat_word_ariths)
  then show ?thesis using assms(2,3) v by (simp add: shm_base_def unat_word_align_up)
qed

lemma shm_buf_unat:
  assumes ok: "shmem_ok sc" "unat shmem + unat len + 3 < 2 ^ 32"
    and n: "RL_CALCULATE_BUFFER_COUNT_DOWN_SAFE len (2 * cfg_vring_size sc) (RL_BUFFER_SIZE sc) = Some n"
    and m: "m < unat n"
  shows "unat (shm_base sc shmem + RL_BUFFER_SIZE sc * of_nat m) =
      align_up 4 (unat shmem + 2 * unat (cfg_vring_size sc)) + m * unat (RL_BUFFER_SIZE sc)"
    and "align_up 4 (unat shmem + 2 * unat (cfg_vring_size sc)) + unat n * unat (RL_BUFFER_SIZE sc)
      \<le> unat shmem + unat len + 3"
    and "(unat shmem + 2 * unat (cfg_vring_size sc)) mod 4 = 0 \<Longrightarrow>
      align_up 4 (unat shmem + 2 * unat (cfg_vring_size sc)) + unat n * unat (RL_BUFFER_SIZE sc)
      \<le> unat shmem + unat len"
proof -
  let ?b = "unat shmem + 2 * unat (cfg_vring_size sc)" and ?z = "unat (RL_BUFFER_SIZE sc)"
  have v: "unat (2 * cfg_vring_size sc) = 2 * unat (cfg_vring_size sc)"
    using ok(1) by (simp add: shmem_ok_def unat_word_ariths)
  have b: "2 * unat (cfg_vring_size sc) + unat n * ?z \<le> unat len"
    using calculate_bound [OF n] m v by simp
  have up: "align_up 4 ?b < ?b + 4" by (rule align_up_less) simp
  then show top: "align_up 4 ?b + unat n * ?z \<le> unat shmem + unat len + 3" using b by linarith
  have "align_up 4 (?b + 0) = ?b + align_up 4 0" if "?b mod 4 = 0" using that by (intro align_up_add_mult) simp_all
  then show "align_up 4 ?b + unat n * ?z \<le> unat shmem + unat len" if "?b mod 4 = 0"
    using b that by (simp add: align_up_def)
  have base: "unat (shm_base sc shmem) = align_up 4 ?b" using shm_base_unat [OF ok] b v by simp
  have le: "m * ?z \<le> unat n * ?z" using m by (intro mult_right_mono) simp_all
  then have "m * ?z < 2 ^ 32" using top ok(2) by linarith
  then have mz: "?z * m < 2 ^ 32" by (simp add: mult.commute)
  have "m < 2 ^ 32" using m unat_u32_less [of n] by simp
  then have "unat (RL_BUFFER_SIZE sc * of_nat m) = m * ?z"
    using mz by (simp add: unat_word_ariths unat_of_nat mult.commute)
  moreover have "align_up 4 ?b + m * ?z < 2 ^ 32" using top le ok(2) by linarith
  ultimately show "unat (shm_base sc shmem + RL_BUFFER_SIZE sc * of_nat m) = align_up 4 ?b + m * ?z"
    using base by (simp only: unat_word_ariths) simp
qed

section \<open>Starting the bare-metal port\<close>

text \<open>
  The environment is initialised: its lock exists, the table of handlers has its full length, and
  the counters of the platform are not negative.
\<close>

definition bm_counters :: "bm_env \<Rightarrow> bool" where
  "bm_counters e \<longleftrightarrow> 0 \<le> isr_counter (bm_plat e) \<and> 0 \<le> disable_counter (bm_plat e)"

definition bm_up :: "bm_env \<Rightarrow> bool" where
  "bm_up e \<longleftrightarrow> env_inv e \<and> 0 < env_init_counter e \<and> bm_counters e"

lemma bm_boot:
  assumes "env_inv e" "bm_counters e"
  shows "\<exists>e'. ep_env_init (bm_port a) e = Some (0, e') \<and> bm_up e'
    \<and> env_init_counter e' = env_init_counter e + 1"
  using assms
  by (auto simp: bm_port_def bm_up_def bm_counters_def env_init_def env_inv_def with_plat_def platform_init_def
      env_create_mutex_def Let_def)

lemma bm_init_interrupt:
  assumes "bm_up e" "unat v < RL_PLATFORM_MAX_ISR_COUNT"
  shows "\<exists>e'. ep_init_interrupt (bm_port a) v d e = Some (0, e') \<and> bm_up e'
    \<and> isr_table e' = (isr_table e)[unat v := d] \<and> env_init_counter e' = env_init_counter e
    \<and> disable_counter (bm_plat e') = disable_counter (bm_plat e)"
proof -
  have "31 - v < 32" using assms(2) by (simp add: word_less_nat_alt unat_sub word_le_nat_alt)
  then have "\<exists>m. shl1 (31 - v) = Some m" by (simp add: shl1_def)
  then show ?thesis
    using assms
    by (auto simp: bm_port_def bm_up_def bm_counters_def env_inv_def with_plat_def platform_init_interrupt_def
        env_register_isr_def env_lock_mutex_def env_unlock_mutex_def mu_do_def Let_def)
qed

lemma bm_disable_interrupt:
  assumes "bm_up e"
  shows "\<exists>e'. ep_disable_interrupt (bm_port a) v e = Some e' \<and> bm_up e'
    \<and> isr_table e' = isr_table e \<and> env_init_counter e' = env_init_counter e
    \<and> disable_counter (bm_plat e') = disable_counter (bm_plat e) + 1"
  using assms
  by (auto simp: bm_port_def bm_up_def bm_counters_def env_inv_def env_disable_interrupt_def
      platform_interrupt_disable_def platform_global_isr_disable_def platform_global_isr_enable_def
      mu_do_def Let_def)

lemma bm_enable_interrupt:
  assumes "bm_up e" "0 < disable_counter (bm_plat e)"
  shows "\<exists>e'. ep_enable_interrupt (bm_port a) v e = Some e' \<and> bm_up e'
    \<and> isr_table e' = isr_table e \<and> env_init_counter e' = env_init_counter e
    \<and> disable_counter (bm_plat e') = disable_counter (bm_plat e) - 1"
  using assms
  by (auto simp: bm_port_def bm_up_def bm_counters_def env_inv_def env_enable_interrupt_def
      platform_interrupt_enable_def platform_global_isr_disable_def platform_global_isr_enable_def
      mu_do_def Let_def)

text \<open>Locks and notifications leave the table of handlers and the nesting count alone.\<close>

interpretation bm_keep: env_locks "bm_port side_a"
  "\<lambda>l e. isr_table e = T \<and> env_init_counter e = c" "\<lambda>l e. isr_table e = T \<and> env_init_counter e = c"
  for side_a T c
  by unfold_locales
    (simp_all add: bm_port_def env_map_vatopa_def env_map_patova_def platform_vatopa_def
      platform_patova_def env_lock_mutex_def env_unlock_mutex_def bm_notify_eq)

text \<open>
  The two queues are registered, the interrupts are disabled and enabled again, the link goes
  up and the receive queue is kicked.
\<close>

lemma master_init_finish_ok:
  assumes up: "bm_up (env s)" and i: "insts s dev = Some i"
    and q: "get_vq (rvq i) s = Some (vq0, vm0)" "vqs s (tvq i) = Some vq1"
    and x: "unat (vq_queue_index vq0) < RL_PLATFORM_MAX_ISR_COUNT"
      "unat (vq_queue_index vq1) < RL_PLATFORM_MAX_ISR_COUNT"
    and r: "vq_ready ops vq0 vm0"
  shows "\<exists>e. master_init_finish (bm_port a) cfg dev s = Some (dev, put_vq (rvq i) (vq0\<lparr>vq_queued_cnt := 0\<rparr>) vm0
      (s\<lparr>insts := (insts s)(dev \<mapsto> i\<lparr>link_state := 1\<rparr>), env := e\<rparr>))
    \<and> isr_table e = (isr_table (env s))[unat (vq_queue_index vq0) := rvq i, unat (vq_queue_index vq1) := tvq i]
    \<and> env_init_counter e = env_init_counter (env s)"
proof -
  let ?r = "ucast (vq_queue_index vq0) :: u32" and ?t = "ucast (vq_queue_index vq1) :: u32"
  have idx: "vq_index (rvq i) s = Some ?r" "vq_index (tvq i) s = Some ?t"
    using q by (auto simp: vq_index_def get_vq_def split: bind_splits)
  have u: "unat ?r = unat (vq_queue_index vq0)" "unat ?t = unat (vq_queue_index vq1)"
    by simp_all
  obtain e1 where e1: "ep_init_interrupt (bm_port a) ?r (rvq i) (env s) = Some (0, e1)" "bm_up e1"
    "isr_table e1 = (isr_table (env s))[unat ?r := rvq i]" "env_init_counter e1 = env_init_counter (env s)"
    using bm_init_interrupt [OF up, of ?r] x(1) u by auto
  obtain e2 where e2: "ep_init_interrupt (bm_port a) ?t (tvq i) e1 = Some (0, e2)" "bm_up e2"
    "isr_table e2 = (isr_table e1)[unat ?t := tvq i]" "env_init_counter e2 = env_init_counter e1"
    using bm_init_interrupt [OF e1(2), of ?t] x(2) u by auto
  obtain e3 where e3: "ep_disable_interrupt (bm_port a) ?r e2 = Some e3" "bm_up e3" "isr_table e3 = isr_table e2"
    "env_init_counter e3 = env_init_counter e2"
    "disable_counter (bm_plat e3) = disable_counter (bm_plat e2) + 1"
    using bm_disable_interrupt [OF e2(2)] by blast
  obtain e4 where e4: "ep_disable_interrupt (bm_port a) ?t e3 = Some e4" "bm_up e4" "isr_table e4 = isr_table e3"
    "env_init_counter e4 = env_init_counter e3"
    "disable_counter (bm_plat e4) = disable_counter (bm_plat e3) + 1"
    using bm_disable_interrupt [OF e3(2)] by blast
  have pos: "0 \<le> disable_counter (bm_plat e2)" using e2(2) by (simp add: bm_up_def bm_counters_def)
  then obtain e5 where e5: "ep_enable_interrupt (bm_port a) ?r e4 = Some e5" "bm_up e5" "isr_table e5 = isr_table e4"
    "env_init_counter e5 = env_init_counter e4"
    "disable_counter (bm_plat e5) = disable_counter (bm_plat e4) - 1"
    using bm_enable_interrupt [OF e4(2)] e3(5) e4(5) by fastforce
  then obtain e6 where e6: "ep_enable_interrupt (bm_port a) ?t e5 = Some e6" "isr_table e6 = isr_table e5"
    "env_init_counter e6 = env_init_counter e5"
    using bm_enable_interrupt [OF e5(2)] pos e3(5) e4(5) by fastforce
  let ?s = "s\<lparr>insts := (insts s)(dev \<mapsto> i\<lparr>link_state := 1\<rparr>), env := e6\<rparr>"
  have "get_vq (rvq i) ?s = Some (vq0, vm0)" using q(1) by (simp add: get_vq_def)
  from bm_keep.vq_kick_ok(2) [OF this r, of "isr_table e6" "env_init_counter e6" a cfg] obtain e where
    e: "vq_kick (bm_port a) cfg (rvq i) ?s = Some (put_vq (rvq i) (vq0\<lparr>vq_queued_cnt := 0\<rparr>) vm0 (?s\<lparr>env := e\<rparr>))"
    "isr_table e = isr_table e6" "env_init_counter e = env_init_counter e6" by auto
  have "master_init_finish (bm_port a) cfg dev s = Some (dev, put_vq (rvq i) (vq0\<lparr>vq_queued_cnt := 0\<rparr>) vm0
      (?s\<lparr>env := e\<rparr>))"
    using e(1) e1(1) e2(1) e3(1) e4(1) e5(1) e6(1) i idx
    by (simp add: master_init_finish_def env_do_def env_do_status_def set_inst_def)
  moreover have "?s\<lparr>env := e\<rparr> = s\<lparr>insts := (insts s)(dev \<mapsto> i\<lparr>link_state := 1\<rparr>), env := e\<rparr>" by simp
  moreover have "isr_table e = (isr_table (env s))[unat (vq_queue_index vq0) := rvq i,
      unat (vq_queue_index vq1) := tvq i]" "env_init_counter e = env_init_counter (env s)"
    using e(2,3) e1(3,4) e2(3,4) e3(3,4) e4(3,4) e5(3,4) e6(2,3) u by simp_all
  ultimately show ?thesis by (intro exI [of _ e]) simp
qed

section \<open>The master's initialisation\<close>

lemma get_vq_put_other:
  "v \<noteq> w \<Longrightarrow> (\<And>u. vqs s v = Some u \<Longrightarrow> vr_desc (vq_ring u) \<noteq> vr_desc (vq_ring vq)) \<Longrightarrow>
    get_vq v (put_vq w vq vm s) = get_vq v s"
  by (cases "vqs s v") (auto simp: get_vq_def put_vq_def)

lemma vqs_put_vq [simp]: "vqs (put_vq w vq vm s) = (vqs s)(w \<mapsto> vq)"
  by (simp add: put_vq_def)

text \<open>The next blocks of the allocator: usable, and different from each other.\<close>

definition next_blocks :: "ptr list \<Rightarrow> ptr list \<Rightarrow> heap \<Rightarrow> bool" where
  "next_blocks bs ps h \<longleftrightarrow> hp_next h = bs @ ps \<and> distinct bs \<and> NULL \<notin> set bs \<and> set bs \<inter> set (hp_live h) = {}"

lemma next_blocks_alloc:
  assumes "next_blocks (b # bs) ps h"
  shows "env_allocate_memory h = (b, h\<lparr>hp_next := bs @ ps, hp_live := b # hp_live h\<rparr>)"
    and "next_blocks bs ps (h\<lparr>hp_next := bs @ ps, hp_live := b # hp_live h\<rparr>)" and "b \<noteq> NULL"
  using assms by (auto simp: next_blocks_def env_allocate_memory_def)

lemma init_mutex_bm:
  assumes "insts s dev = Some i"
  shows "init_mutex (bm_port a) dev s =
    Some (0, s\<lparr>insts := (insts s)(dev \<mapsto> i\<lparr>dev_lock := lock_addr dev\<rparr>)\<rparr>)"
  using assms by (simp add: init_mutex_def bm_port_def env_create_mutex_def set_inst_def)

lemma init_alloc_env_bm:
  assumes "env_allocate_memory (hp s) = (d, h)" "d \<noteq> NULL" "ep_env_init (bm_port a) (env s) = Some (0, e)"
  shows "init_alloc_env (bm_port a) s =
    Some (d, s\<lparr>hp := h, insts := (insts s)(d \<mapsto> instance_zero), env := e\<rparr>)"
  using assms by (simp add: init_alloc_env_def alloc_def)

lemma fill_vq_eq:
  assumes i: "insts s dev = Some i" "sh_mem_remaining i = sh_mem_total i - of_nat kb"
      "kb + unat (vq_nentries vq) \<le> unat (sh_mem_total i)"
    and q: "get_vq v s = Some (vq, vm)" "fills i v ops"
    and f: "filled P ops (\<lambda>m. shm_buf sc i (kb + m)) (RL_BUFFER_SIZE sc) 0 vq vm"
    and b: "\<And>m. m < unat (vq_nentries vq) \<Longrightarrow> shm_buf sc i (kb + m) \<noteq> NULL"
  shows "\<exists>vq' vm' m'. fill_vq P cfg sc dev v s = Some (RL_SUCCESS, put_vq v vq' vm'
      (s\<lparr>insts := (insts s)(dev \<mapsto> i\<lparr>sh_mem_remaining := sh_mem_total i - of_nat (kb + unat (vq_nentries vq))\<rparr>),
        mem := m'\<rparr>))
    \<and> filled P ops (\<lambda>m. shm_buf sc i (kb + m)) (RL_BUFFER_SIZE sc) (unat (vq_nentries vq)) vq' vm'
    \<and> same_id vq vq'"
proof -
  have "vqs s v = Some vq" using q(1) by (auto simp: get_vq_def split: bind_splits)
  then have "fill_vq P cfg sc dev v s = fill_loop P cfg sc dev v (unat (vq_nentries vq)) s"
    using i(1,3) by (simp add: fill_vq_def min_def)
  moreover have "sh_mem_remaining i = sh_mem_total i - of_nat (kb + 0)" using i(2) by simp
  ultimately show ?thesis
    using fill_loop_eq [where j = 0 and k = "unat (vq_nentries vq)" and cfg = cfg, OF i(1) _ _ q f] i(3) b by auto
qed

text \<open>The instance after the queues have been created, before the buffers are handed out.\<close>

definition new_instance :: "shmem_config \<Rightarrow> ptr \<Rightarrow> u32 \<Rightarrow> ptr \<Rightarrow> ptr \<Rightarrow> ptr \<Rightarrow> rpmsg_lite_instance" where
  "new_instance sc shmem n d v0 v1 =
     \<lparr>rvq = v0, tvq = v1, rl_endpoints = NULL, dev_lock = lock_addr d, link_state = 0, sh_mem_base = shm_base sc shmem,
      sh_mem_remaining = n, sh_mem_total = n, dev_ops = Master_ops, link_id = 0\<rparr>"

definition empty_queue :: "ptr \<Rightarrow> u16 \<Rightarrow> u16 \<Rightarrow> virtqueue \<Rightarrow> vring_mem \<Rightarrow> bool" where
  "empty_queue a n x vq vm \<longleftrightarrow> (\<forall>ops (P :: bm_env env_port) addr len. ops \<noteq> Ops_NULL \<longrightarrow> filled P ops addr len 0 vq vm)
     \<and> vr_desc (vq_ring vq) = a \<and> vq_nentries vq = n \<and> vq_queue_index vq = x"

lemma master_init_setup:
  assumes chk: "master_init_checks cfg shmem len link = Some (Some sc)"
    and n: "RL_CALCULATE_BUFFER_COUNT_DOWN_SAFE len (2 * cfg_vring_size sc) (RL_BUFFER_SIZE sc) = Some n"
    and cfg: "cfg_highest_link cfg = RL_PLATFORM_HIGHEST_LINK_ID"
    and sc: "is_pow2 (buffer_count sc)" "cfg_vring_align sc \<le> 65536"
    and e: "env_inv (env s)" "bm_counters (env s)" and al: "next_blocks [d, v0, v1] ps (hp s)"
  shows "\<exists>e vq0 vm0 vq1 vm1. rpmsg_lite_master_init (bm_port a) cfg shmem len link s =
      do { (st, s) \<leftarrow> fill_vq (bm_port a) cfg sc d v0 (put_vq v1 vq1 vm1 (put_vq v0 vq0 vm0 (s\<lparr>env := e,
             hp := (hp s)\<lparr>hp_next := ps, hp_live := v1 # v0 # d # hp_live (hp s)\<rparr>,
             insts := (insts s)(d \<mapsto> new_instance sc shmem n d v0 v1)\<rparr>)));
           (st, s) \<leftarrow> (if st \<noteq> RL_SUCCESS then Some (st, s) else fill_vq (bm_port a) cfg sc d v1 s);
           if st \<noteq> RL_SUCCESS
           then do { i \<leftarrow> insts s d;
                     let s = s\<lparr>env := ep_delete_mutex (bm_port a) (dev_lock i) (env s)\<rparr>;
                     s \<leftarrow> init_cleanup d v0 v1 s;
                     Some (NULL, s) }
           else master_init_finish (bm_port a) cfg d s }
    \<and> bm_up e \<and> env_init_counter e = env_init_counter (env s) + 1
    \<and> empty_queue (RL_WORD_ALIGN_UP shmem) (buffer_count sc) 0 vq0 vm0
    \<and> empty_queue (RL_WORD_ALIGN_UP shmem + cfg_vring_size sc) (buffer_count sc) 1 vq1 vm1"
proof -
  obtain e where e: "ep_env_init (bm_port a) (env s) = Some (0, e)" "bm_up e"
    "env_init_counter e = env_init_counter (env s) + 1" using bm_boot [OF e] by blast
  have l: "link = 0" using checks_Some(1) [OF chk] cfg by simp
  note A = next_blocks_alloc [OF al]
  note B = next_blocks_alloc [OF A(2)]
  note C = next_blocks_alloc [OF B(2)]
  let ?i = "new_instance sc shmem n d NULL NULL\<lparr>dev_lock := NULL\<rparr>"
  let ?h1 = "(hp s)\<lparr>hp_next := [v0, v1] @ ps, hp_live := d # hp_live (hp s)\<rparr>"
  let ?s1 = "s\<lparr>hp := ?h1, insts := (insts s)(d \<mapsto> ?i), env := e\<rparr>"
  have ri: "is_pow2 (num_descs (ring_info sc shmem x))" "ring_align (ring_info sc shmem x) \<le> 65536" for x
    using sc by (simp_all add: ring_info_def)
  have s1: "set_inst d (\<lambda>i. i\<lparr>link_id := link, sh_mem_base := RL_WORD_ALIGN_UP (shmem + 2 * cfg_vring_size sc),
      sh_mem_remaining := n, sh_mem_total := n, dev_ops := Master_ops\<rparr>) (s\<lparr>hp := ?h1,
      insts := (insts s)(d \<mapsto> instance_zero), env := e\<rparr>) = Some ?s1"
    by (simp add: set_inst_def new_instance_def instance_zero_def shm_base_def l)
  obtain vq0 vm0 where q0: "create_vq True cfg (ring_info sc shmem 0) (ucast (RL_GET_VQ_ID link 0))
      ''rx_vq'' Fn_rpmsg_lite_rx_callback d ?s1 = Some (v0, put_vq v0 vq0 vm0 (?s1\<lparr>hp := ?h1
        \<lparr>hp_next := [v1] @ ps, hp_live := v0 # hp_live ?h1\<rparr>\<rparr>))"
    "empty_queue (RL_WORD_ALIGN_UP shmem) (buffer_count sc) 0 vq0 vm0"
    using create_vq_master [OF ri [of 0] _ B(3), where s = ?s1 and cfg = cfg and dev = d and name = "''rx_vq''"
        and cb = Fn_rpmsg_lite_rx_callback and qid = "ucast (RL_GET_VQ_ID link 0)"] B(1)
    by (auto simp: empty_queue_def ring_info_def l RL_GET_VQ_ID_def)
  let ?s2 = "put_vq v0 vq0 vm0 (?s1\<lparr>hp := ?h1\<lparr>hp_next := [v1] @ ps, hp_live := v0 # hp_live ?h1\<rparr>\<rparr>)"
  obtain vq1 vm1 where q1: "create_vq True cfg (ring_info sc shmem 1) (ucast (RL_GET_VQ_ID link 1))
      ''tx_vq'' Fn_rpmsg_lite_tx_callback d ?s2 = Some (v1, put_vq v1 vq1 vm1 (?s2\<lparr>hp :=
        (hp s)\<lparr>hp_next := ps, hp_live := v1 # v0 # d # hp_live (hp s)\<rparr>\<rparr>))"
    "empty_queue (RL_WORD_ALIGN_UP shmem + cfg_vring_size sc) (buffer_count sc) 1 vq1 vm1"
    using create_vq_master [OF ri [of 1] _ C(3), where s = ?s2 and cfg = cfg and dev = d and name = "''tx_vq''"
        and cb = Fn_rpmsg_lite_tx_callback and qid = "ucast (RL_GET_VQ_ID link 1)"] C(1)
    by (auto simp: empty_queue_def ring_info_def l RL_GET_VQ_ID_def)
  let ?s3 = "put_vq v1 vq1 vm1 (put_vq v0 vq0 vm0 (s\<lparr>env := e,
        hp := (hp s)\<lparr>hp_next := ps, hp_live := v1 # v0 # d # hp_live (hp s)\<rparr>,
        insts := (insts s)(d \<mapsto> new_instance sc shmem n d v0 v1)\<rparr>))"
  have m: "rpmsg_lite_master_init (bm_port a) cfg shmem len link s =
      do { (st, s) \<leftarrow> fill_vq (bm_port a) cfg sc d v0 ?s3;
           (st, s) \<leftarrow> (if st \<noteq> RL_SUCCESS then Some (st, s) else fill_vq (bm_port a) cfg sc d v1 s);
           if st \<noteq> RL_SUCCESS
           then do { i \<leftarrow> insts s d;
                     let s = s\<lparr>env := ep_delete_mutex (bm_port a) (dev_lock i) (env s)\<rparr>;
                     s \<leftarrow> init_cleanup d v0 v1 s;
                     Some (NULL, s) }
           else master_init_finish (bm_port a) cfg d s }"
    unfolding rpmsg_lite_master_init_def chk n option.case Option.bind.bind_lunit init_alloc_env_bm [OF A(1,3) e(1)]
      prod.case if_not_P [OF A(3)] s1 if_not_P [OF B(3)] if_not_P [OF C(3)] q0(1) q1(1)
    by (simp add: init_mutex_bm set_inst_def) (simp add: new_instance_def)
  show ?thesis
    by (intro exI [of _ e] exI [of _ vq0] exI [of _ vm0] exI [of _ vq1] exI [of _ vm1] conjI, rule m)
      (use e q0(2) q1(2) in simp_all)
qed

lemma filled_queued [simp]: "filled P ops addr len j (vq\<lparr>vq_queued_cnt := c\<rparr>) vm = filled P ops addr len j vq vm"
  by (cases ops) (simp_all add: filled_def vq_wf_def vq_idle_def)

lemma filled_ready:
  assumes "filled P ops addr len j vq vm" "ops \<noteq> Ops_NULL"
  shows "vq_ready ops vq vm" "vq_ready (peer_ops ops) vq vm"
proof -
  have "(of_nat m :: u16) < vq_nentries vq" if "m < j" for m
    using assms(1) that filled_entry_bound [of m vq m] unat_u16_less [of "vq_nentries vq"]
    by (simp add: filled_def word_less_nat_alt unat_of_nat)
  then show "vq_ready ops vq vm" "vq_ready (peer_ops ops) vq vm"
    using assms by (cases ops; auto simp: filled_def vq_ready_def simp del: pend.simps)+
qed

lemma filled_buf_addr:
  assumes f: "filled (bm_port a) ops addr len (unat (vq_nentries vq)) vq vm" and m: "m < unat (vq_nentries vq)"
  shows "buf_addr (bm_port a) vm (of_nat m) = addr m"
proof -
  have "unat (of_nat m :: u16) = m" using m unat_u16_less [of "vq_nentries vq"] by (simp add: unat_of_nat)
  then show ?thesis using f m bm.patova_desc [of a "addr m"] by (simp add: buf_addr_def filled_def)
qed

lemma new_instance_buf [simp]:
  "shm_buf sc (new_instance sc shmem n d v0 v1\<lparr>sh_mem_remaining := x\<rparr>) m =
    shm_base sc shmem + RL_BUFFER_SIZE sc * of_nat m"
  "shm_buf sc (new_instance sc shmem n d v0 v1) m = shm_base sc shmem + RL_BUFFER_SIZE sc * of_nat m"
  by (simp_all add: shm_buf_def new_instance_def)

lemma new_instance_simps [simp]:
  "sh_mem_total (new_instance sc shmem n d v0 v1) = n" "sh_mem_remaining (new_instance sc shmem n d v0 v1) = n"
  "rvq (new_instance sc shmem n d v0 v1) = v0" "tvq (new_instance sc shmem n d v0 v1) = v1"
  "dev_ops (new_instance sc shmem n d v0 v1) = Master_ops"
  by (simp_all add: new_instance_def)

text \<open>The number of buffers that is computed covers both queues, and no buffer is at address 0.\<close>

lemma checks_count:
  assumes "master_init_checks cfg shmem len link = Some (Some sc)" "shmem_ok sc" "unat shmem + unat len + 3 < 2 ^ 32"
  shows "\<exists>n. RL_CALCULATE_BUFFER_COUNT_DOWN_SAFE len (2 * cfg_vring_size sc) (RL_BUFFER_SIZE sc) = Some n
    \<and> 2 * unat (buffer_count sc) \<le> unat n
    \<and> (\<forall>m < unat n. shm_base sc shmem + RL_BUFFER_SIZE sc * of_nat m \<noteq> NULL)"
proof -
  obtain n where n: "RL_CALCULATE_BUFFER_COUNT_DOWN_SAFE len (2 * cfg_vring_size sc) (RL_BUFFER_SIZE sc) = Some n"
    "2 * ucast (buffer_count sc) \<le> n" using checks_Some(3) [OF assms(1)] by blast
  have "unat (2 * ucast (buffer_count sc) :: u32) = 2 * unat (buffer_count sc)"
    using unat_u16_less [of "buffer_count sc"] by (simp add: unat_word_ariths)
  then have "2 * unat (buffer_count sc) \<le> unat n" using n(2) by (simp add: word_le_nat_alt)
  moreover have "shm_base sc shmem + RL_BUFFER_SIZE sc * of_nat m \<noteq> NULL" if m: "m < unat n" for m
  proof -
    have "0 < unat shmem" using checks_Some(2) [OF assms(1)] by (simp add: unat_gt_0)
    moreover have "unat shmem + 2 * unat (cfg_vring_size sc) \<le> align_up 4 (unat shmem + 2 * unat (cfg_vring_size sc))"
      by (rule align_up_ge) simp
    ultimately have "0 < unat (shm_base sc shmem + RL_BUFFER_SIZE sc * of_nat m)"
      using shm_buf_unat(1) [OF assms(2,3) n(1) m] by simp
    then show ?thesis by (simp add: unat_gt_0)
  qed
  ultimately show ?thesis using n(1) by blast
qed

text \<open>What the initialisation of the master establishes, for this theory and the ones that start from it.\<close>

lemma master_init_boots:
  assumes chk: "master_init_checks cfg shmem len link = Some (Some sc)"
    and ok: "shmem_ok sc" "unat shmem + unat len + 3 < 2 ^ 32"
    and cfg: "cfg_highest_link cfg = RL_PLATFORM_HIGHEST_LINK_ID"
    and e: "env_inv (env s)" "env_init_counter (env s) = 0" "bm_counters (env s)"
    and al: "next_blocks [d, v0, v1] ps (hp s)"
  shows "\<exists>s' n vq0 vm0 vq1 vm1. let i = new_instance sc shmem n d v0 v1
        \<lparr>sh_mem_remaining := n - 2 * ucast (buffer_count sc), link_state := 1\<rparr>;
      buf = \<lambda>m. shm_base sc shmem + RL_BUFFER_SIZE sc * of_nat m; N = unat (buffer_count sc)
    in rpmsg_lite_master_init (bm_port a) cfg shmem len link s = Some (d, s')
    \<and> RL_CALCULATE_BUFFER_COUNT_DOWN_SAFE len (2 * cfg_vring_size sc) (RL_BUFFER_SIZE sc) = Some n
    \<and> insts s' = (insts s)(d \<mapsto> i) \<and> get_vq v0 s' = Some (vq0, vm0) \<and> get_vq v1 s' = Some (vq1, vm1)
    \<and> filled (bm_port a) Remote_ops buf (RL_BUFFER_SIZE sc) N vq0 vm0
    \<and> filled (bm_port a) Master_ops (\<lambda>m. buf (N + m)) (RL_BUFFER_SIZE sc) N vq1 vm1
    \<and> vq_nentries vq0 = buffer_count sc \<and> vq_nentries vq1 = buffer_count sc
    \<and> tx_ready (bm_port a) d i s' \<and> vq_ready Master_ops vq0 vm0
    \<and> isr_table (env s') ! 0 = v0 \<and> isr_table (env s') ! 1 = v1
    \<and> hp_live (hp s') = v1 # v0 # d # hp_live (hp s)"
proof -
  obtain n where n: "RL_CALCULATE_BUFFER_COUNT_DOWN_SAFE len (2 * cfg_vring_size sc) (RL_BUFFER_SIZE sc) = Some n"
    "2 * unat (buffer_count sc) \<le> unat n" "\<And>m. m < unat n \<Longrightarrow> shm_base sc shmem + RL_BUFFER_SIZE sc * of_nat m \<noteq> NULL"
    using checks_count [OF chk ok] by blast
  let ?P = "bm_port a" and ?N = "unat (buffer_count sc)" and ?Z = "RL_BUFFER_SIZE sc"
  let ?buf = "\<lambda>m. shm_base sc shmem + ?Z * of_nat m"
  let ?i = "new_instance sc shmem n d v0 v1"
  have p: "is_pow2 (buffer_count sc)" "cfg_vring_align sc \<le> 65536" "cfg_vring_size sc \<noteq> 0"
    using ok(1) by (auto simp: shmem_ok_def)
  have d: "v0 \<noteq> v1" "v0 \<noteq> NULL" "v1 \<noteq> NULL" using al by (auto simp: next_blocks_def)
  obtain e vq0 vm0 vq1 vm1 where m: "rpmsg_lite_master_init ?P cfg shmem len link s =
      do { (st, s) \<leftarrow> fill_vq ?P cfg sc d v0 (put_vq v1 vq1 vm1 (put_vq v0 vq0 vm0 (s\<lparr>env := e,
             hp := (hp s)\<lparr>hp_next := ps, hp_live := v1 # v0 # d # hp_live (hp s)\<rparr>,
             insts := (insts s)(d \<mapsto> ?i)\<rparr>)));
           (st, s) \<leftarrow> (if st \<noteq> RL_SUCCESS then Some (st, s) else fill_vq ?P cfg sc d v1 s);
           if st \<noteq> RL_SUCCESS
           then do { i \<leftarrow> insts s d;
                     let s = s\<lparr>env := ep_delete_mutex ?P (dev_lock i) (env s)\<rparr>;
                     s \<leftarrow> init_cleanup d v0 v1 s;
                     Some (NULL, s) }
           else master_init_finish ?P cfg d s }"
    and up: "bm_up e"
    and q0: "empty_queue (RL_WORD_ALIGN_UP shmem) (buffer_count sc) 0 vq0 vm0"
    and q1: "empty_queue (RL_WORD_ALIGN_UP shmem + cfg_vring_size sc) (buffer_count sc) 1 vq1 vm1"
    using master_init_setup [OF chk n(1) cfg p(1,2) e(1,3) al, of a] by blast
  let ?s0 = "s\<lparr>env := e, hp := (hp s)\<lparr>hp_next := ps, hp_live := v1 # v0 # d # hp_live (hp s)\<rparr>,
      insts := (insts s)(d \<mapsto> ?i)\<rparr>"
  let ?s1 = "put_vq v1 vq1 vm1 (put_vq v0 vq0 vm0 ?s0)"
  have ne: "vr_desc (vq_ring vq0) \<noteq> vr_desc (vq_ring vq1)" using p(3) q0 q1 by (simp add: empty_queue_def)
  have N: "vq_nentries vq0 = buffer_count sc" "vq_nentries vq1 = buffer_count sc"
    using q0 q1 by (simp_all add: empty_queue_def)
  have g0: "get_vq v0 ?s1 = Some (vq0, vm0)" using d ne by (subst get_vq_put_other) auto
  have l0: "filled ?P Remote_ops (\<lambda>m. shm_buf sc ?i (0 + m)) ?Z 0 vq0 vm0" using q0 by (simp add: empty_queue_def)
  have x0: "insts ?s1 d = Some ?i" "sh_mem_remaining ?i = sh_mem_total ?i - of_nat 0"
    "0 + unat (vq_nentries vq0) \<le> unat (sh_mem_total ?i)" "fills ?i v0 Remote_ops"
    "m < unat (vq_nentries vq0) \<Longrightarrow> shm_buf sc ?i (0 + m) \<noteq> NULL" for m
    using n(2,3) by (simp_all add: N fills_def)
  obtain vq0' vm0' m1 where f0: "fill_vq ?P cfg sc d v0 ?s1 = Some (RL_SUCCESS, put_vq v0 vq0' vm0'
      (?s1\<lparr>insts := (insts ?s1)(d \<mapsto> ?i\<lparr>sh_mem_remaining := n - of_nat ?N\<rparr>), mem := m1\<rparr>))"
    "filled ?P Remote_ops ?buf ?Z ?N vq0' vm0'" "same_id vq0 vq0'"
    using fill_vq_eq [where cfg = cfg, OF x0(1-3) g0 x0(4) l0 x0(5)]
    unfolding N add_0 new_instance_buf new_instance_simps by blast
  let ?i2 = "?i\<lparr>sh_mem_remaining := n - of_nat ?N\<rparr>"
  let ?s2 = "put_vq v0 vq0' vm0' (?s1\<lparr>insts := (insts ?s1)(d \<mapsto> ?i2), mem := m1\<rparr>)"
  have ne2: "vr_desc (vq_ring vq0') = vr_desc (vq_ring vq0)" using f0(3) by (simp add: same_id_def)
  have g1: "get_vq v1 ?s2 = Some (vq1, vm1)" using d ne ne2 by (subst get_vq_put_other) auto
  have l1: "filled ?P Master_ops (\<lambda>m. shm_buf sc ?i2 (?N + m)) ?Z 0 vq1 vm1"
    using q1 by (simp add: empty_queue_def)
  have x1: "insts ?s2 d = Some ?i2" "sh_mem_remaining ?i2 = sh_mem_total ?i2 - of_nat ?N"
    "?N + unat (vq_nentries vq1) \<le> unat (sh_mem_total ?i2)" "fills ?i2 v1 Master_ops"
    "m < unat (vq_nentries vq1) \<Longrightarrow> shm_buf sc ?i2 (?N + m) \<noteq> NULL" for m
    using n(2) n(3) [of "?N + m"] d(1) by (simp_all add: N fills_def)
  obtain vq1' vm1' m2 where f1: "fill_vq ?P cfg sc d v1 ?s2 = Some (RL_SUCCESS, put_vq v1 vq1' vm1'
      (?s2\<lparr>insts := (insts ?s2)(d \<mapsto> ?i2\<lparr>sh_mem_remaining := n - of_nat (?N + ?N)\<rparr>), mem := m2\<rparr>))"
    "filled ?P Master_ops (\<lambda>m. ?buf (?N + m)) ?Z ?N vq1' vm1'" "same_id vq1 vq1'"
    using fill_vq_eq [where cfg = cfg, OF x1(1-3) g1 x1(4) l1 x1(5)]
    unfolding N new_instance_buf by (simp del: of_nat_add) blast
  let ?i3 = "?i2\<lparr>sh_mem_remaining := n - of_nat (?N + ?N)\<rparr>"
  let ?s3 = "put_vq v1 vq1' vm1' (?s2\<lparr>insts := (insts ?s2)(d \<mapsto> ?i3), mem := m2\<rparr>)"
  have ne3: "vr_desc (vq_ring vq1') = vr_desc (vq_ring vq1)" "vq_nentries vq0' = buffer_count sc"
    "vq_nentries vq1' = buffer_count sc" "vq_queue_index vq0' = 0" "vq_queue_index vq1' = 1"
    using f0(3) f1(3) q0 q1 by (simp_all add: same_id_def empty_queue_def)
  have g3: "get_vq v0 ?s3 = Some (vq0', vm0')" using d ne ne2 ne3 by (subst get_vq_put_other) auto
  have r0: "vq_ready Remote_ops vq0' vm0'" "vq_ready Master_ops vq0' vm0'"
    using filled_ready [OF f0(2)] by simp_all
  have r1: "vq_ready Master_ops vq1' vm1'" using filled_ready [OF f1(2)] by simp
  have fin: "bm_up (env ?s3)" "insts ?s3 d = Some ?i3" "get_vq (rvq ?i3) ?s3 = Some (vq0', vm0')"
    "vqs ?s3 (tvq ?i3) = Some vq1'" "unat (vq_queue_index vq0') < 32" "unat (vq_queue_index vq1') < 32"
    using up g3 ne3 by simp_all
  obtain e' where e': "master_init_finish ?P cfg d ?s3 = Some (d, put_vq v0 (vq0'\<lparr>vq_queued_cnt := 0\<rparr>) vm0'
      (?s3\<lparr>insts := (insts ?s3)(d \<mapsto> ?i3\<lparr>link_state := 1\<rparr>), env := e'\<rparr>))"
    "isr_table e' = (isr_table e)[0 := v0, 1 := v1]"
    using master_init_finish_ok [OF fin r0(1), of a cfg] ne3 by auto
  let ?i4 = "?i\<lparr>sh_mem_remaining := n - 2 * ucast (buffer_count sc), link_state := 1\<rparr>"
  have i4: "?i3\<lparr>link_state := 1\<rparr> = ?i4" by (simp add: new_instance_def)
  let ?s4 = "put_vq v0 (vq0'\<lparr>vq_queued_cnt := 0\<rparr>) vm0' (?s3\<lparr>insts := (insts ?s3)(d \<mapsto> ?i4), env := e'\<rparr>)"
  define s4 where "s4 = ?s4"
  have g4: "get_vq v1 s4 = Some (vq1', vm1')" unfolding s4_def using d ne ne2 ne3 by (subst get_vq_put_other) auto
  have m4: "rpmsg_lite_master_init ?P cfg shmem len link s = Some (d, s4)"
    unfolding m s4_def using f0(1) f1(1) e'(1) i4 by simp
  have S: "insts s4 = (insts s)(d \<mapsto> ?i4)" "hp_live (hp s4) = v1 # v0 # d # hp_live (hp s)" "env s4 = e'"
    "get_vq v0 s4 = Some (vq0'\<lparr>vq_queued_cnt := 0\<rparr>, vm0')" by (simp_all add: s4_def)
  have rdy: "tx_ready ?P d ?i4 s4"
  proof -
    have "pend Master_ops vq1' vm1' = map (\<lambda>m. (of_nat m, ?Z)) [0..<?N]" using f1(2) unfolding filled_def by blast
    moreover have nz: "?buf (?N + m) \<noteq> NULL" if "m < ?N" for m using n(2) n(3) [of "?N + m"] that by simp
    ultimately have "\<forall>x \<in> set (pend Master_ops vq1' vm1'). buf_addr ?P vm1' (fst x) \<noteq> NULL"
      using filled_buf_addr [where vq = vq1' and vm = vm1', unfolded ne3(3), OF f1(2)] nz
      by (auto simp del: pend.simps)
    then show ?thesis using S(1) g4 r1 d(3) by (simp add: tx_ready_def del: pend.simps)
  qed
  have "length (isr_table e) = 32" using up by (simp add: bm_up_def env_inv_def)
  then have isr: "isr_table (env s4) ! 0 = v0" "isr_table (env s4) ! 1 = v1" using e'(2) S(3) by simp_all
  have l0': "filled ?P Remote_ops ?buf ?Z ?N (vq0'\<lparr>vq_queued_cnt := 0\<rparr>) vm0'" using f0(2) by simp
  have r0': "vq_ready Master_ops (vq0'\<lparr>vq_queued_cnt := 0\<rparr>) vm0'" using filled_ready(2) [OF l0'] by simp
  have n0': "vq_nentries (vq0'\<lparr>vq_queued_cnt := 0\<rparr>) = buffer_count sc" using ne3(2) by simp
  show ?thesis
    unfolding Let_def using m4 n(1) S(1,4) g4 l0' f1(2) n0' ne3(3) rdy r0' isr S(2) by blast
qed


text \<open>A state before the initialisation, on a machine with one link and two buffers for each direction.\<close>

definition boot_cfg :: rl_config where
  "boot_cfg = cfg_ex\<lparr>cfg_highest_link := 0\<rparr>"

definition boot_ex :: "ptr list \<Rightarrow> bm_env rl_state" where
  "boot_ex ps = \<lparr>insts = Map.empty, vqs = Map.empty, vrings = Map.empty, llnodes = Map.empty, epts = Map.empty,
     mem = (\<lambda>a. 0), hp = \<lparr>hp_next = ps, hp_live = [4]\<rparr>, env = bm_reset\<rparr>"

abbreviation (input) sc_ex :: shmem_config where "sc_ex \<equiv> cfg_shmem cfg_ex"

lemma sc_ex_ok: "shmem_ok sc_ex"
  by (simp add: shmem_ok_def cfg_ex_def is_pow2_def vring_size_def word_le_nat_alt)

lemma sc_ex_size: "RL_BUFFER_SIZE sc_ex = 512"
  by (simp add: RL_BUFFER_SIZE_def RL_WORD_ALIGN_UP_def cfg_ex_def)

lemma sc_ex_count: "RL_CALCULATE_BUFFER_COUNT_DOWN_SAFE 0x2000 (2 * cfg_vring_size sc_ex) 512 = Some 12"
  by (simp add: RL_CALCULATE_BUFFER_COUNT_DOWN_SAFE_def RL_WORD_ALIGN_DOWN_def cfg_ex_def)

lemma boot_checks: "master_init_checks boot_cfg (0x1000 + x) 0x2000 0 = Some (Some sc_ex)" if "0x1000 + x \<noteq> 0"
proof -
  have "cfg_shmem boot_cfg = sc_ex" "cfg_custom boot_cfg = None" "cfg_highest_link boot_cfg = 0"
    by (simp_all add: boot_cfg_def cfg_ex_def)
  moreover have "buffer_count sc_ex = 2" by (simp add: cfg_ex_def)
  ultimately show ?thesis using that sc_ex_count by (simp add: master_init_checks_def sc_ex_size)
qed


text \<open>The areas of the two vrings and of the buffers.\<close>

lemma shm_areas:
  assumes chk: "master_init_checks cfg shmem len link = Some (Some sc)"
    and ok: "shmem_ok sc" "unat shmem + unat len + 3 < 2 ^ 32"
  shows "unat (phy_addr (ring_info sc shmem 0)) = align_up 4 (unat shmem)
    \<and> unat (phy_addr (ring_info sc shmem 1)) = align_up 4 (unat shmem) + unat (cfg_vring_size sc)
    \<and> unat (shm_base sc shmem) = align_up 4 (unat shmem) + 2 * unat (cfg_vring_size sc)
    \<and> (\<forall>m < 2 * unat (buffer_count sc). unat (shm_base sc shmem + RL_BUFFER_SIZE sc * of_nat m)
          = unat (shm_base sc shmem) + m * unat (RL_BUFFER_SIZE sc)
        \<and> unat (shm_base sc shmem + RL_BUFFER_SIZE sc * of_nat m) + unat (RL_BUFFER_SIZE sc)
          \<le> unat shmem + unat len + (if unat shmem mod 4 = 0 then 0 else 3))"
proof -
  obtain n where n: "RL_CALCULATE_BUFFER_COUNT_DOWN_SAFE len (2 * cfg_vring_size sc) (RL_BUFFER_SIZE sc) = Some n"
    "2 * unat (buffer_count sc) \<le> unat n" using checks_count [OF chk ok] by blast
  let ?v = "unat (cfg_vring_size sc)" and ?s = "unat shmem" and ?Z = "unat (RL_BUFFER_SIZE sc)"
  have k: "is_pow2 (buffer_count sc)" "?v mod 4 = 0" "2 * ?v < 2 ^ 32"
    "vring_size (ucast (buffer_count sc)) (cfg_vring_align sc) \<le> int ?v"
    using ok(1) unfolding shmem_ok_def by blast+
  have pos: "0 < unat (buffer_count sc)" using k(1) by (rule is_pow2_pos)
  have v: "unat (2 * cfg_vring_size sc) = 2 * ?v" using k(3) by (simp add: unat_word_ariths)
  have b: "2 * ?v + unat n * ?Z \<le> unat len" using calculate_bound [OF n(1)] n(2) pos v by simp
  have s: "unat (RL_WORD_ALIGN_UP shmem) = align_up 4 ?s" using ok(2) by (simp add: unat_word_align_up)
  have up: "?s \<le> align_up 4 ?s" "align_up 4 ?s < ?s + 4" by (rule align_up_ge align_up_less; simp)+
  have ring0: "unat (phy_addr (ring_info sc shmem 0)) = align_up 4 ?s" by (simp add: ring_info_def s)
  have ring1: "unat (phy_addr (ring_info sc shmem 1)) = align_up 4 ?s + ?v"
    using up b ok(2) by (simp add: ring_info_def unat_word_ariths s)
  have "align_up 4 (2 * ?v + ?s) = 2 * ?v + align_up 4 ?s"
    using k(2) by (intro align_up_add_mult) (simp_all add: mod_mult_right_eq [symmetric, of 2])
  then have top: "align_up 4 (?s + 2 * ?v) = align_up 4 ?s + 2 * ?v" by (simp add: add.commute)
  have buf: "unat (shm_base sc shmem + RL_BUFFER_SIZE sc * of_nat m) = align_up 4 ?s + 2 * ?v + m * ?Z"
    if "m < unat n" for m using shm_buf_unat(1) [OF ok n(1) that] unfolding top .
  have al: "align_up 4 ?s = ?s" if "?s mod 4 = 0" using align_up_add_mult [OF that, of 0] by (simp add: align_up_def)
  have fit: "align_up 4 ?s + 2 * ?v + m * ?Z + ?Z \<le> ?s + unat len + (if ?s mod 4 = 0 then 0 else 3)"
    if m: "m < unat n" for m
  proof -
    have "m * ?Z + ?Z = Suc m * ?Z" by simp
    also have "\<dots> \<le> unat n * ?Z" using m by (intro mult_right_mono) simp_all
    finally have "m * ?Z + ?Z \<le> unat n * ?Z" .
    moreover have "align_up 4 ?s \<le> ?s + (if ?s mod 4 = 0 then 0 else 3)" using al up by auto
    ultimately show ?thesis using b by linarith
  qed
  have z: "0 < unat n" using n(2) pos by linarith
  have base: "unat (shm_base sc shmem) = align_up 4 ?s + 2 * ?v" using buf [OF z] by simp
  show ?thesis
    unfolding ring0 ring1 base
  proof (intro conjI allI impI refl)
    fix m assume "m < 2 * unat (buffer_count sc)"
    then have m: "m < unat n" using n(2) by linarith
    show "unat (shm_base sc shmem + RL_BUFFER_SIZE sc * of_nat m) = align_up 4 ?s + 2 * ?v + m * ?Z"
      using buf [OF m] by simp
    show "unat (shm_base sc shmem + RL_BUFFER_SIZE sc * of_nat m) + ?Z
        \<le> ?s + unat len + (if ?s mod 4 = 0 then 0 else 3)" unfolding buf [OF m] by (rule fit [OF m])
  qed
qed

text \<open>Where the two vrings lie: their addresses are even, and their rings end below the end of the address space.\<close>

lemma shm_ring_bounds:
  assumes chk: "master_init_checks cfg shmem len link = Some (Some sc)"
    and ok: "shmem_ok sc" "unat shmem + unat len + 3 < 2 ^ 32"
    and q: "q \<in> {0, 1}"
  shows "unat (phy_addr (ring_info sc shmem q)) = align_up 4 (unat shmem) + (if q = 0 then 0 else unat (cfg_vring_size sc))"
    and "unat (phy_addr (ring_info sc shmem q)) + (18 * unat (buffer_count sc) + 4) + unat (cfg_vring_align sc) < 2 ^ 32"
    and "unat (phy_addr (ring_info sc shmem q)) mod 2 = 0"
proof -
  note ar = shm_areas [OF chk ok]
  let ?n = "unat (buffer_count sc)" and ?v = "unat (cfg_vring_size sc)" and ?al = "unat (cfg_vring_align sc)"
  let ?num = "ucast (buffer_count sc) :: u32" and ?b = "align_up 4 (unat shmem)"
  let ?Z = "unat (RL_BUFFER_SIZE sc)"
  have k: "is_pow2 (buffer_count sc)" "is_pow2 (cfg_vring_align sc)" "?al \<le> 65536" "?v mod 4 = 0"
    "vring_size ?num (cfg_vring_align sc) \<le> int ?v"
    using ok(1) by (auto simp: shmem_ok_def word_le_nat_alt)
  have pos: "0 < ?n" "0 < ?al" using k(1,2) is_pow2_pos by auto
  have num: "unat ?num = ?n" "?n \<le> 32768" using is_pow2_u16_dvd(2) [OF k(1)] by (simp_all add: unat_u16_u32)
  have "?al dvd align_up ?al (18 * ?n + 8)" by (simp add: dvd_eq_mod_eq_0)
  moreover have "18 * ?n + 8 \<le> align_up ?al (18 * ?n + 8)" using pos(2) by (rule align_up_ge)
  ultimately have "?al \<le> align_up ?al (18 * ?n + 8)" by (intro dvd_imp_le) simp_all
  moreover have "nat (vring_size ?num (cfg_vring_align sc)) \<le> ?v" using k(5) by linarith
  ultimately have v: "?al + (8 * ?n + 14) \<le> ?v" using nat_vring_size [OF k(2,3), of ?num] num by simp
  have "2 * ?n - 1 < 2 * ?n" using pos by simp
  then have "unat (shm_base sc shmem + RL_BUFFER_SIZE sc * of_nat (2 * ?n - 1)) = unat (shm_base sc shmem) + (2 * ?n - 1) * ?Z
      \<and> unat (shm_base sc shmem + RL_BUFFER_SIZE sc * of_nat (2 * ?n - 1)) + ?Z
        \<le> unat shmem + unat len + (if unat shmem mod 4 = 0 then 0 else 3)" using ar by blast
  then have "unat (shm_base sc shmem) + (2 * ?n - 1) * ?Z + ?Z \<le> unat shmem + unat len + 3" by (simp split: if_splits)
  moreover have "(2 * ?n - 1) * ?Z + ?Z = 2 * ?n * ?Z" using pos(1) by (cases "2 * ?n") simp_all
  moreover have "2 * ?n * 16 \<le> 2 * ?n * ?Z" using buffer_size_eq(2) [OF ok(1)] by (intro mult_left_mono) simp_all
  ultimately have bound: "?b + 2 * ?v + 32 * ?n < 2 ^ 32" using ar ok(2) by linarith
  show area: "unat (phy_addr (ring_info sc shmem q)) = ?b + (if q = 0 then 0 else ?v)" using ar q by auto
  show "unat (phy_addr (ring_info sc shmem q)) + (18 * ?n + 4) + ?al < 2 ^ 32"
    using bound v pos(1) unfolding area by (cases "q = 0") simp_all
  have "?b mod 4 = 0" by simp
  then have "?b mod 2 = 0" by presburger
  moreover have "?v mod 2 = 0" using k(4) by presburger
  ultimately show "unat (phy_addr (ring_info sc shmem q)) mod 2 = 0" unfolding area by (cases "q = 0") presburger+
qed



text \<open>
  That the address matters is no artefact: with 128 buffers, the alignment 4096, an area of 5136 bytes and a
  shared memory that starts in the middle of a page, all of which the checks accept, the first used ring reaches into the
  area of the second queue.
\<close>

definition overlap_sc :: shmem_config where
  "overlap_sc = \<lparr>buffer_payload_size = 496, buffer_count = 128, cfg_vring_size = 5136, cfg_vring_align = 4096\<rparr>"

lemma vring_areas_overlap:
  "master_init_checks (boot_cfg\<lparr>cfg_custom := Some (\<lambda>l. (RL_SUCCESS, overlap_sc))\<rparr>) 0x10800 0x40000 0 = Some (Some overlap_sc)"
  "vring_size 128 4096 \<le> 5136"
  "unat (phy_addr (ring_info overlap_sc 0x10800 1))
    < vring_end 128 (phy_addr (ring_info overlap_sc 0x10800 0)) (cfg_vring_align overlap_sc)"
  by (simp_all add: master_init_checks_def boot_cfg_def cfg_ex_def overlap_sc_def RL_BUFFER_SIZE_def RL_WORD_ALIGN_UP_def
      RL_CALCULATE_BUFFER_COUNT_DOWN_SAFE_def RL_WORD_ALIGN_DOWN_def vring_size_def vring_end_def vring_init_def ring_info_def)

section \<open>Failures and deinitialisation\<close>

lemma alloc_live:
  "alloc s = (p, s') \<Longrightarrow> hp_live (hp s') = (if p = NULL then hp_live (hp s) else p # hp_live (hp s))"
  by (auto simp: alloc_def env_allocate_memory_def split: list.splits if_splits)

lemma create_vq_live:
  assumes "create_vq r cfg ri qid name cb dev s = Some (p, s')"
  shows "hp_live (hp s') = (if p = NULL then hp_live (hp s) else p # hp_live (hp s))"
proof -
  let ?s = "if r then s\<lparr>vrings := (vrings s)(phy_addr ri \<mapsto> vring_mem_zero (unat (num_descs ri)))\<rparr> else s"
  obtain q s1 where q: "(if virtqueue_create_status (cfg_vq_debug cfg) ri = VQUEUE_SUCCESS then alloc ?s else (NULL, ?s))
      = (q, s1)" by fastforce
  have live: "hp_live (hp s1) = (if q = NULL then hp_live (hp s) else q # hp_live (hp s))"
    using q alloc_live [of ?s q s1] by (auto split: if_splits)
  have c: "virtqueue_create (cfg_vq_debug cfg) qid name (Some ri) cb Fn_virtqueue_notify q = Some (st, vqo) \<Longrightarrow>
      st = RL_SUCCESS \<longleftrightarrow> q \<noteq> NULL" for st vqo
    using q by (auto simp: virtqueue_create_def split: if_splits)
  show ?thesis
    using assms live c q by (auto simp: create_vq_def Let_def split: bind_splits if_splits)
qed

lemma mem_free_live: "mem_free p s = Some s' \<Longrightarrow> p \<noteq> NULL \<Longrightarrow> hp_live (hp s') = remove1 p (hp_live (hp s))"
  by (auto simp: mem_free_def env_free_memory_def split: bind_splits if_splits)

lemma vq_free_live:
  "vq_free p s = Some s' \<Longrightarrow> hp_live (hp s') = (if p = NULL then hp_live (hp s) else remove1 p (hp_live (hp s)))"
  by (auto simp: vq_free_def virtqueue_free_def env_free_memory_def split: bind_splits if_splits)

lemma set_inst_live: "set_inst dev f s = Some s' \<Longrightarrow> hp s' = hp s"
  by (auto simp: set_inst_def split: bind_splits)

lemma init_mutex_live: "init_mutex P dev s = Some (st, s') \<Longrightarrow> hp s' = hp s"
  by (auto simp: init_mutex_def dest!: set_inst_live split: bind_splits prod.splits)

lemma init_alloc_env_live:
  assumes "init_alloc_env P s = Some (dev, s')"
  shows "hp_live (hp s') = (if dev = NULL then hp_live (hp s) else dev # hp_live (hp s))"
proof -
  obtain d s1 where a: "alloc s = (d, s1)" by fastforce
  note live = alloc_live [OF a]
  show ?thesis
    using assms live
    by (auto simp: init_alloc_env_def a Let_def split: bind_splits if_splits dest!: mem_free_live)
qed

lemma init_cleanup_live:
  assumes "init_cleanup dev q0 q1 s = Some s'" "dev \<noteq> NULL"
  shows "hp_live (hp s') = remove1 dev ((if q1 = NULL then id else remove1 q1)
    ((if q0 = NULL then id else remove1 q0) (hp_live (hp s))))"
  using assms by (auto simp: init_cleanup_def split: bind_splits dest!: mem_free_live vq_free_live)

lemma fill_one_live: "fill_one P cfg sc dev v s = Some (st, s') \<Longrightarrow> hp s' = hp s"
  by (auto simp: fill_one_def Let_def split: bind_splits if_splits dest!: set_inst_live)

lemma fill_loop_live: "fill_loop P cfg sc dev v k s = Some (st, s') \<Longrightarrow> hp s' = hp s"
  by (induction k arbitrary: s) (auto split: bind_splits if_splits dest!: fill_one_live)

lemma fill_vq_live: "fill_vq P cfg sc dev v s = Some (st, s') \<Longrightarrow> hp s' = hp s"
  by (auto simp: fill_vq_def split: bind_splits dest!: fill_loop_live)

lemma init_finish_dev:
  "master_init_finish P cfg dev s = Some (p, s') \<Longrightarrow> p = dev" "remote_init_finish P dev s = Some (p, s') \<Longrightarrow> p = dev"
  by (auto simp: master_init_finish_def remote_init_finish_def split: bind_splits)

lemmas init_live = init_alloc_env_live create_vq_live init_mutex_live set_inst_live fill_vq_live

lemma master_init_failure:
  assumes "rpmsg_lite_master_init P cfg shmem len link s = Some (NULL, s')"
  shows "hp_live (hp s') = hp_live (hp s)"
  using assms
  by (auto simp: rpmsg_lite_master_init_def Let_def split: bind_splits option.splits if_splits
      dest!: init_live init_cleanup_live init_finish_dev)

lemma remote_init_failure:
  assumes "rpmsg_lite_remote_init P cfg shmem link s = Some (NULL, s')"
  shows "hp_live (hp s') = hp_live (hp s)"
  using assms
  by (auto simp: rpmsg_lite_remote_init_def Let_def split: bind_splits option.splits if_splits
      dest!: init_live init_cleanup_live init_finish_dev)

text \<open>
  What a failed initialisation has done to the port: nothing; the start of the environment; or its start
  and the creation of the instance's lock, which is deleted again when its creation had succeeded. In no
  case is the environment stopped again.
\<close>

definition port_left :: "'e env_port \<Rightarrow> 'e \<Rightarrow> 'e \<Rightarrow> bool" where
  "port_left P e e' \<longleftrightarrow> e' = e
     \<or> (\<exists>st e1. ep_env_init P e = Some (st, e1)
         \<and> (e' = e1
            \<or> st = RL_SUCCESS \<and> (\<exists>dev r l e2. ep_create_mutex P (lock_addr dev) 1 e1 = (r, l, e2)
                 \<and> e' = (if r = RL_SUCCESS then ep_delete_mutex P l e2 else e2))))"

text \<open>A step that leaves the port alone, and the lock that the instance refers to.\<close>

definition lock_kept :: "ptr \<Rightarrow> 'e rl_state \<Rightarrow> 'e rl_state \<Rightarrow> bool" where
  "lock_kept dev s s' \<longleftrightarrow> env s' = env s \<and> map_option dev_lock (insts s' dev) = map_option dev_lock (insts s dev)"

lemma lock_kept_refl [simp]: "lock_kept dev s s"
  by (simp add: lock_kept_def)

lemma lock_kept_trans: "lock_kept dev s t \<Longrightarrow> lock_kept dev t u \<Longrightarrow> lock_kept dev s u"
  by (simp add: lock_kept_def)

lemma set_inst_lock:
  "set_inst d f s = Some s' \<Longrightarrow> (\<And>i. dev_lock (f i) = dev_lock i) \<Longrightarrow> lock_kept dev s s'"
  by (auto simp: set_inst_def lock_kept_def split: bind_splits)

lemma alloc_env: "alloc s = (p, s') \<Longrightarrow> env s' = env s \<and> insts s' = insts s"
  by (auto simp: alloc_def split: prod.splits)

lemma create_vq_env:
  assumes "create_vq r cfg ri qid name cb dev s = Some (p, s')"
  shows "env s' = env s"
proof -
  let ?s = "if r then s\<lparr>vrings := (vrings s)(phy_addr ri \<mapsto> vring_mem_zero (unat (num_descs ri)))\<rparr> else s"
  obtain q s1 where q: "(if virtqueue_create_status (cfg_vq_debug cfg) ri = VQUEUE_SUCCESS then alloc ?s else (NULL, ?s))
      = (q, s1)" by fastforce
  then have "env s1 = env s" using alloc_env [of ?s q s1] by (auto split: if_splits)
  then show ?thesis using assms q by (auto simp: create_vq_def Let_def split: bind_splits if_splits)
qed

lemma fill_one_lock: "fill_one P cfg sc dev v s = Some (st, s') \<Longrightarrow> lock_kept dev s s'"
  by (auto simp: fill_one_def Let_def lock_kept_def set_inst_def split: bind_splits if_splits)

lemma fill_loop_lock: "fill_loop P cfg sc dev v k s = Some (st, s') \<Longrightarrow> lock_kept dev s s'"
  by (induction k arbitrary: s) (auto split: bind_splits if_splits dest!: fill_one_lock intro: lock_kept_trans)

lemma fill_vq_lock: "fill_vq P cfg sc dev v s = Some (st, s') \<Longrightarrow> lock_kept dev s s'"
  by (auto simp: fill_vq_def split: bind_splits dest!: fill_loop_lock)

lemma init_alloc_env_env:
  assumes "init_alloc_env P s = Some (dev, s')"
  shows "if dev = NULL then port_left P (env s) (env s') else ep_env_init P (env s) = Some (RL_SUCCESS, env s')"
proof -
  obtain d s1 where a: "alloc s = (d, s1)" by fastforce
  show ?thesis
    using assms alloc_env [OF a]
    by (auto simp: init_alloc_env_def a port_left_def mem_free_def Let_def split: bind_splits if_splits)
qed

lemma init_cleanup_env: "init_cleanup dev q0 q1 s = Some s' \<Longrightarrow> env s' = env s"
  by (auto simp: init_cleanup_def vq_free_def mem_free_def split: bind_splits)

lemma set_inst_env: "set_inst dev f s = Some s' \<Longrightarrow> env s' = env s"
  by (auto simp: set_inst_def split: bind_splits)

lemma init_mutex_env:
  assumes "init_mutex P dev s = Some (st, s')"
  obtains l where "ep_create_mutex P (lock_addr dev) 1 (env s) = (st, l, env s')"
    "map_option dev_lock (insts s' dev) = Some l"
  using assms that by (auto simp: init_mutex_def set_inst_def Let_def split: bind_splits prod.splits)

text \<open>The state in which the port can be brought back to what \<open>port_left\<close> says by deleting the instance's lock.\<close>

definition undoable :: "'e env_port \<Rightarrow> 'e \<Rightarrow> ptr \<Rightarrow> 'e rl_state \<Rightarrow> bool" where
  "undoable P e dev s \<longleftrightarrow>
     (\<exists>l. map_option dev_lock (insts s dev) = Some l \<and> port_left P e (ep_delete_mutex P l (env s)))"

lemma undoable_lock: "undoable P e dev s \<Longrightarrow> lock_kept dev s s' \<Longrightarrow> undoable P e dev s'"
  by (simp add: undoable_def lock_kept_def)

lemma undoableD: "undoable P e dev s \<Longrightarrow> insts s dev = Some i \<Longrightarrow> port_left P e (ep_delete_mutex P (dev_lock i) (env s))"
  by (auto simp: undoable_def)

lemma port_leftI:
  assumes "ep_env_init P e = Some (RL_SUCCESS, e1)" "ep_create_mutex P (lock_addr dev) 1 e1 = (r, l, e2)"
  shows "r \<noteq> RL_SUCCESS \<Longrightarrow> port_left P e e2" "r = RL_SUCCESS \<Longrightarrow> port_left P e (ep_delete_mutex P l e2)"
  using assms by (auto simp: port_left_def intro!: exI [of _ dev])

lemma init_mutex_port:
  assumes "init_mutex P dev s = Some (st, s')" "ep_env_init P e = Some (RL_SUCCESS, env s)"
  shows "if st = RL_SUCCESS then undoable P e dev s' else port_left P e (env s')"
proof -
  obtain l where l: "ep_create_mutex P (lock_addr dev) 1 (env s) = (st, l, env s')"
    "map_option dev_lock (insts s' dev) = Some l" by (rule init_mutex_env [OF assms(1)])
  then show ?thesis using port_leftI [OF assms(2) l(1)] by (auto simp: undoable_def)
qed

lemma fill_vq_undo: "fill_vq P cfg sc dev v s = Some (st, s') \<Longrightarrow> undoable P e dev s \<Longrightarrow> undoable P e dev s'"
  by (blast intro: undoable_lock fill_vq_lock)

lemma set_inst_undo:
  "set_inst dev (\<lambda>i. i\<lparr>tvq := a, rvq := b\<rparr>) s = Some s' \<Longrightarrow> undoable P e dev s \<Longrightarrow> undoable P e dev s'"
  by (rule undoable_lock, assumption, erule set_inst_lock) simp

lemma port_left_started: "ep_env_init P e = Some (st, e1) \<Longrightarrow> port_left P e e1"
  by (auto simp: port_left_def)

lemmas init_env = create_vq_env set_inst_env init_cleanup_env

text \<open>The part of the master's initialisation that follows the creation of the queues, and what it does to the port.\<close>

definition master_lock ::
  "'e env_port \<Rightarrow> rl_config \<Rightarrow> shmem_config \<Rightarrow> ptr \<Rightarrow> ptr \<Rightarrow> ptr \<Rightarrow> 'e rl_state \<Rightarrow> (ptr \<times> 'e rl_state) option" where
  "master_lock P cfg sc dev vq0 vq1 s =
     (if vq1 = NULL then do { s \<leftarrow> init_cleanup dev vq0 NULL s; Some (NULL, s) }
      else do {
        (status, s) \<leftarrow> init_mutex P dev s;
        if status \<noteq> RL_SUCCESS
        then do { s \<leftarrow> init_cleanup dev vq0 vq1 s; Some (NULL, s) }
        else do {
          s \<leftarrow> set_inst dev (\<lambda>i. i\<lparr>tvq := vq1, rvq := vq0\<rparr>) s;
          (st, s) \<leftarrow> fill_vq P cfg sc dev vq0 s;
          (st, s) \<leftarrow> (if st \<noteq> RL_SUCCESS then Some (st, s)
                      else fill_vq P cfg sc dev vq1 s);
          if st \<noteq> RL_SUCCESS
          then do {
            i \<leftarrow> insts s dev;
            let s = s\<lparr>env := ep_delete_mutex P (dev_lock i) (env s)\<rparr>;
            s \<leftarrow> init_cleanup dev vq0 vq1 s;
            Some (NULL, s) }
          else master_init_finish P cfg dev s } })"

lemma master_lock_port:
  assumes m: "master_lock P cfg sc dev vq0 vq1 s = Some (NULL, s')" "dev \<noteq> NULL"
    and e: "ep_env_init P e = Some (RL_SUCCESS, env s)"
  shows "port_left P e (env s')"
proof (cases "vq1 = NULL")
  case True
  then show ?thesis using m port_left_started [OF e]
    by (auto simp: master_lock_def split: bind_splits dest!: init_env)
next
  case False
  then obtain st s1 where l: "init_mutex P dev s = Some (st, s1)"
    using m by (auto simp: master_lock_def split: bind_splits)
  note port = init_mutex_port [OF l e]
  show ?thesis
  proof (cases "st = RL_SUCCESS")
    case False
    then show ?thesis using m port l \<open>vq1 \<noteq> NULL\<close>
      by (auto simp: master_lock_def split: bind_splits dest!: init_env)
  next
    case True
    then have u: "undoable P e dev s1" using port by simp
    obtain s2 st2 s3 st3 s4 where q: "set_inst dev (\<lambda>i. i\<lparr>tvq := vq1, rvq := vq0\<rparr>) s1 = Some s2"
      and f: "fill_vq P cfg sc dev vq0 s2 = Some (st2, s3)"
      and g: "(if st2 \<noteq> RL_SUCCESS then Some (st2, s3) else fill_vq P cfg sc dev vq1 s3) = Some (st3, s4)"
      and x: "(if st3 \<noteq> RL_SUCCESS
          then do {
            i \<leftarrow> insts s4 dev;
            let s = s4\<lparr>env := ep_delete_mutex P (dev_lock i) (env s4)\<rparr>;
            s \<leftarrow> init_cleanup dev vq0 vq1 s;
            Some (NULL, s) }
          else master_init_finish P cfg dev s4) = Some (NULL, s')"
      using m(1) l True \<open>vq1 \<noteq> NULL\<close> unfolding master_lock_def Let_def by (auto split: bind_splits)
    have "undoable P e dev s3" using fill_vq_undo [OF f set_inst_undo [OF q u]] .
    then have "undoable P e dev s4" using g fill_vq_undo by (cases "st2 = RL_SUCCESS") auto
    note v = undoableD [OF this]
    show ?thesis using x v m(2)
      by (auto simp: Let_def split: bind_splits if_splits dest!: init_env(3) init_finish_dev)
  qed
qed

lemma master_init_eq:
  "rpmsg_lite_master_init P cfg shmem_addr shmem_length link s =
     do { chk \<leftarrow> master_init_checks cfg shmem_addr shmem_length link;
          case chk of
            None \<Rightarrow> Some (NULL, s)
          | Some sc \<Rightarrow> do {
              (dev, s) \<leftarrow> init_alloc_env P s;
              if dev = NULL then Some (NULL, s)
              else do {
                n \<leftarrow> RL_CALCULATE_BUFFER_COUNT_DOWN_SAFE shmem_length (2 * cfg_vring_size sc)
                       (RL_BUFFER_SIZE sc);
                s \<leftarrow> set_inst dev (\<lambda>i. i\<lparr>link_id := link,
                       sh_mem_base := RL_WORD_ALIGN_UP (shmem_addr + 2 * cfg_vring_size sc),
                       sh_mem_remaining := n, sh_mem_total := n, dev_ops := Master_ops\<rparr>) s;
                (vq0, s) \<leftarrow> create_vq True cfg (ring_info sc shmem_addr 0) (ucast (RL_GET_VQ_ID link 0))
                       ''rx_vq'' Fn_rpmsg_lite_rx_callback dev s;
                if vq0 = NULL then do { s \<leftarrow> init_cleanup dev NULL NULL s; Some (NULL, s) }
                else do {
                  (vq1, s) \<leftarrow> create_vq True cfg (ring_info sc shmem_addr 1)
                         (ucast (RL_GET_VQ_ID link 1)) ''tx_vq'' Fn_rpmsg_lite_tx_callback dev s;
                  master_lock P cfg sc dev vq0 vq1 s } } } }"
  unfolding rpmsg_lite_master_init_def master_lock_def by (rule refl)

lemma master_init_port:
  assumes r: "rpmsg_lite_master_init P cfg shmem len link s = Some (NULL, s')"
  shows "port_left P (env s) (env s')"
proof -
  consider "master_init_checks cfg shmem len link = Some None"
    | sc dev s1 where "master_init_checks cfg shmem len link = Some (Some sc)" "init_alloc_env P s = Some (dev, s1)"
    using r by (auto simp: rpmsg_lite_master_init_def split: bind_splits option.splits)
  then show ?thesis
  proof cases
    case 1
    then show ?thesis using r by (simp add: rpmsg_lite_master_init_def port_left_def)
  next
    case (2 sc dev s1)
    show ?thesis
    proof (cases "dev = NULL")
      case True
      then show ?thesis using r 2 init_alloc_env_env [OF 2(2)] by (simp add: rpmsg_lite_master_init_def)
    next
      case False
      then have e: "ep_env_init P (env s) = Some (RL_SUCCESS, env s1)" using init_alloc_env_env [OF 2(2)] by simp
      obtain n s2 vq0 s3 where q0: "env s3 = env s1" "(if vq0 = NULL then do { s \<leftarrow> init_cleanup dev NULL NULL s3; Some (NULL, s) }
          else do {
            (vq1, s) \<leftarrow> create_vq True cfg (ring_info sc shmem 1) (ucast (RL_GET_VQ_ID link 1))
              ''tx_vq'' Fn_rpmsg_lite_tx_callback dev s3;
            master_lock P cfg sc dev vq0 vq1 s }) = Some (NULL, s')"
        using r 2 False unfolding master_init_eq by (auto split: bind_splits dest!: init_env(1,2))
      have lock: "master_lock P cfg sc dev vq0 vq1 s4 = Some (NULL, s') \<Longrightarrow> env s4 = env s1 \<Longrightarrow> port_left P (env s) (env s')"
        for vq1 s4 using master_lock_port [OF _ False, of P cfg sc vq0 vq1 s4 s' "env s"] e by simp
      show ?thesis
      proof (cases "vq0 = NULL")
        case True
        then show ?thesis using q0 port_left_started [OF e] by (auto split: bind_splits dest!: init_env(3))
      next
        case False
        then show ?thesis using q0 lock by (auto split: bind_splits dest!: init_env(1))
      qed
    qed
  qed
qed

lemma remote_init_port:
  assumes r: "rpmsg_lite_remote_init P cfg shmem link s = Some (NULL, s')"
  shows "port_left P (env s) (env s')"
proof (cases "remote_init_checks cfg shmem link")
  case None
  then show ?thesis using r by (simp add: rpmsg_lite_remote_init_def port_left_def)
next
  case (Some sc)
  then obtain dev s1 where a: "init_alloc_env P s = Some (dev, s1)"
    using r by (auto simp: rpmsg_lite_remote_init_def split: bind_splits)
  show ?thesis
  proof (cases "dev = NULL")
    case True
    then show ?thesis using r Some a init_alloc_env_env [OF a] by (simp add: rpmsg_lite_remote_init_def)
  next
    case False
    then have e: "ep_env_init P (env s) = Some (RL_SUCCESS, env s1)" using init_alloc_env_env [OF a] by simp
    have lock: "init_mutex P dev s4 = Some (st, s5) \<Longrightarrow> env s4 = env s1 \<Longrightarrow> st \<noteq> RL_SUCCESS \<Longrightarrow> port_left P (env s) (env s5)"
      for s4 st s5 using init_mutex_port [of P dev s4 st s5 "env s"] e by simp
    show ?thesis
      using r Some a False port_left_started [OF e] lock
      by (auto simp: rpmsg_lite_remote_init_def Let_def split: bind_splits if_splits dest!: init_env init_finish_dev)
  qed
qed

text \<open>
  C25: A failed initialisation keeps none of the blocks it took: whenever the master's or the remote's
  initialisation returns NULL, for whatever reason (refused arguments, a failing allocation, queue,
  lock or environment), the instance and the queues it had allocated are freed, so that the blocks the
  library holds are exactly those it held before, whatever the port. To the port it has done what
  \<open>port_left\<close> says: nothing, or the start of the environment, or the start of the environment and the
  creation of the lock of the instance, which is deleted again. The environment is never stopped on
  these paths: what a port allocates while it starts (the semaphores and the context that the XOS, ThreadX,
  Zephyr and QNX files take from their own \<open>env_allocate_memory\<close>) is part of the port's state, is not among the
  blocks counted here and stays allocated; and the count of the environment's users stays one too high.
\<close>

theorem init_failure_frees:
  assumes "rpmsg_lite_master_init P cfg shmem len link s = Some (NULL, s')
    \<or> rpmsg_lite_remote_init P cfg shmem link s = Some (NULL, s')"
  shows "hp_live (hp s') = hp_live (hp s) \<and> port_left P (env s) (env s')"
  using assms by (elim disjE) (simp_all add: master_init_failure remote_init_failure master_init_port remote_init_port)

text \<open>The second allocation fails: the instance is freed, but the environment stays initialised.\<close>

theorem init_failure_frees_witness:
  "\<exists>s'. rpmsg_lite_master_init (bm_port True) boot_cfg 0x1000 0x2000 0 (boot_ex [8, 0]) = Some (NULL, s')
    \<and> hp_live (hp s') = [4] \<and> port_left (bm_port True) bm_reset (env s') \<and> env_init_counter (env s') = 1"
proof -
  let ?s = "boot_ex [8, 0]"
  have c: "master_init_checks boot_cfg 0x1000 0x2000 0 = Some (Some sc_ex)" using boot_checks [of 0] by simp
  obtain e where e: "ep_env_init (bm_port True) bm_reset = Some (0, e)" "env_init_counter e = 1"
    using bm_boot [of bm_reset True] by (auto simp: env_inv_def bm_counters_def)
  have a: "env_allocate_memory (hp ?s) = (8, \<lparr>hp_next = [0], hp_live = [8, 4]\<rparr>)"
    by (simp add: boot_ex_def env_allocate_memory_def)
  have i: "init_alloc_env (bm_port True) ?s = Some (8, ?s\<lparr>hp := \<lparr>hp_next = [0], hp_live = [8, 4]\<rparr>,
      insts := (insts ?s)(8 \<mapsto> instance_zero), env := e\<rparr>)"
    by (rule init_alloc_env_bm [OF a]) (simp_all add: boot_ex_def e)
  have ri: "is_pow2 (num_descs (ring_info sc_ex 0x1000 0))" "ring_align (ring_info sc_ex 0x1000 0) \<le> 65536"
    by (simp_all add: ring_info_def cfg_ex_def is_pow2_def word_le_nat_alt)
  have "\<exists>s'. rpmsg_lite_master_init (bm_port True) boot_cfg 0x1000 0x2000 0 ?s = Some (NULL, s') \<and> env s' = e"
    using sc_ex_count create_status_ok [OF ri]
    by (simp add: rpmsg_lite_master_init_def c i sc_ex_size set_inst_def create_vq_def virtqueue_create_def
        alloc_def env_allocate_memory_def init_cleanup_def vq_free_def virtqueue_free_def mem_free_def
        env_free_memory_def)
  then obtain s' where s': "rpmsg_lite_master_init (bm_port True) boot_cfg 0x1000 0x2000 0 ?s = Some (NULL, s')"
    "env s' = e" by blast
  then show ?thesis using init_failure_frees [OF disjI1, OF s'(1)] e(2) by (simp add: boot_ex_def)
qed

lemma bm_deinit_interrupt:
  assumes "bm_up e" "unat v < RL_PLATFORM_MAX_ISR_COUNT" "0 < isr_counter (bm_plat e)"
  shows "\<exists>e'. ep_deinit_interrupt (bm_port a) v e = Some (0, e') \<and> bm_up e'
    \<and> isr_table e' = (isr_table e)[unat v := NULL] \<and> env_init_counter e' = env_init_counter e
    \<and> isr_counter (bm_plat e') = isr_counter (bm_plat e) - 1"
proof -
  have "31 - v < 32" using assms(2) by (simp add: word_less_nat_alt unat_sub word_le_nat_alt)
  then have "\<exists>m. shl1 (31 - v) = Some m" by (simp add: shl1_def)
  then show ?thesis
    using assms
    by (auto simp: bm_port_def bm_up_def bm_counters_def env_inv_def with_plat_def platform_deinit_interrupt_def
        env_unregister_isr_def env_lock_mutex_def env_unlock_mutex_def mu_do_def Let_def)
qed

lemma bm_shutdown:
  assumes "bm_up e"
  shows "\<exists>e'. ep_env_deinit (bm_port a) e = Some (0, e') \<and> env_inv e'
    \<and> isr_table e' = isr_table e \<and> env_init_counter e' = env_init_counter e - 1"
  using assms
  by (auto simp: bm_port_def bm_up_def env_deinit_def env_inv_def with_plat_def platform_deinit_def
      env_delete_mutex_def Let_def)

text \<open>
  C26: The deinitialisation of a running instance on bare metal succeeds: its two interrupt handlers are
  unregistered, the two queues and the instance leave the store and their blocks are freed, everything else
  that is allocated stays (the endpoints of the instance among it, which the application must
  have destroyed before), and the environment is shut down exactly when this was the last instance.
\<close>

theorem deinit_correct:
  assumes i: "insts s d = Some i" "d \<noteq> NULL" "rvq i \<noteq> NULL" "tvq i \<noteq> NULL" "dev_lock i \<noteq> NULL"
    and q: "vqs s (rvq i) = Some rq" "vqs s (tvq i) = Some tq" "rvq i \<noteq> tvq i"
    and h: "hp_live (hp s) = bs" "distinct [d, rvq i, tvq i]" "{d, rvq i, tvq i} \<subseteq> set bs"
    and e: "bm_up (env s)" "2 \<le> isr_counter (bm_plat (env s))"
    and x: "unat (vq_queue_index rq) < RL_PLATFORM_MAX_ISR_COUNT" "unat (vq_queue_index tq) < RL_PLATFORM_MAX_ISR_COUNT"
  shows "\<exists>s'. rpmsg_lite_deinit (bm_port a) d s = Some (RL_SUCCESS, s')
    \<and> insts s' = (insts s)(d := None) \<and> vqs s' = (vqs s)(rvq i := None, tvq i := None)
    \<and> epts s' = epts s \<and> llnodes s' = llnodes s
    \<and> hp_live (hp s') = remove1 d (remove1 (tvq i) (remove1 (rvq i) bs))
    \<and> isr_table (env s') = (isr_table (env s))[unat (vq_queue_index rq) := NULL, unat (vq_queue_index tq) := NULL]
    \<and> env_init_counter (env s') = env_init_counter (env s) - 1
    \<and> (platform_lock (bm_plat (env s')) = NULL \<longleftrightarrow> env_init_counter (env s) = 1)"
proof -
  let ?r = "ucast (vq_queue_index rq) :: u32" and ?t = "ucast (vq_queue_index tq) :: u32"
  have idx: "vq_index (rvq i) s = Some ?r" "vq_index (tvq i) s = Some ?t" using q by (simp_all add: vq_index_def)
  obtain e1 where e1: "ep_deinit_interrupt (bm_port a) ?r (env s) = Some (0, e1)" "bm_up e1"
    "isr_table e1 = (isr_table (env s))[unat ?r := NULL]" "env_init_counter e1 = env_init_counter (env s)"
    "isr_counter (bm_plat e1) = isr_counter (bm_plat (env s)) - 1"
    using bm_deinit_interrupt [OF e(1), of ?r a] x(1) e(2) by auto
  obtain e2 where e2: "ep_deinit_interrupt (bm_port a) ?t e1 = Some (0, e2)" "bm_up e2"
    "isr_table e2 = (isr_table e1)[unat ?t := NULL]" "env_init_counter e2 = env_init_counter e1"
    using bm_deinit_interrupt [OF e1(2), of ?t a] x(2) e(2) e1(5) by auto
  have del: "ep_delete_mutex (bm_port a) l e2 = e2" for l by (simp add: bm_port_def env_delete_mutex_def)
  obtain e3 where e3: "ep_env_deinit (bm_port a) e2 = Some (0, e3)" "env_inv e3" "isr_table e3 = isr_table e2"
    "env_init_counter e3 = env_init_counter e2 - 1" using bm_shutdown [OF e2(2)] by blast
  define s' where "s' = s\<lparr>env := e3, insts := (insts s)(d := None), vqs := (vqs s)(rvq i := None, tvq i := None),
      hp := (hp s)\<lparr>hp_live := remove1 d (remove1 (tvq i) (remove1 (rvq i) bs))\<rparr>\<rparr>"
  have "tvq i \<in> set (remove1 (rvq i) bs)" "d \<in> set (remove1 (tvq i) (remove1 (rvq i) bs))"
    using h(2,3) by (auto simp: in_set_remove1)
  then have "rpmsg_lite_deinit (bm_port a) d s = Some (RL_SUCCESS, s')"
    using i q h idx e1(1) e2(1) e3(1) del
    by (simp add: rpmsg_lite_deinit_def env_do_status_def set_inst_def vq_free_def virtqueue_free_def
        env_free_memory_def mem_free_def s'_def)
  moreover have "platform_lock (bm_plat e3) = NULL \<longleftrightarrow> env_init_counter (env s) = 1"
    using e3(2,4) e2(4) e1(4) e(1) by (auto simp: env_inv_def bm_up_def)
  ultimately show ?thesis
    using e1(3,4) e2(3,4) e3(3,4) by (intro exI [of _ s']) (simp add: s'_def)
qed

text \<open>A running instance at 8, whose queues are at 16 and 32, and a block of the application at 4.\<close>

definition deinit_ex :: "bm_env rl_state" where
  "deinit_ex = \<lparr>insts = [8 \<mapsto> instance_zero\<lparr>rvq := 16, tvq := 32, dev_lock := 20\<rparr>],
     vqs = [16 \<mapsto> ex_vq 8, 32 \<mapsto> ex_vq 8\<lparr>vq_queue_index := 1\<rparr>], vrings = Map.empty, llnodes = Map.empty,
     epts = Map.empty, mem = (\<lambda>a. 0), hp = \<lparr>hp_next = [], hp_live = [32, 4, 16, 8]\<rparr>,
     env = \<lparr>env_init_counter = 1, isr_table = replicate 32 0, bm_plat = \<lparr>isr_counter = 2, disable_counter = 0,
       platform_lock = 64, lock_var = 64, primask = False, mu_log = []\<rparr>\<rparr>\<rparr>"

theorem deinit_correct_witness:
  "\<exists>s'. rpmsg_lite_deinit (bm_port True) 8 deinit_ex = Some (RL_SUCCESS, s') \<and> hp_live (hp s') = [4]
    \<and> platform_lock (bm_plat (env s')) = NULL"
proof -
  let ?i = "instance_zero\<lparr>rvq := 16, tvq := 32, dev_lock := 20\<rparr>"
  have i: "insts deinit_ex 8 = Some ?i" "vqs deinit_ex (rvq ?i) = Some (ex_vq 8)"
    "vqs deinit_ex (tvq ?i) = Some (ex_vq 8\<lparr>vq_queue_index := 1\<rparr>)" "hp_live (hp deinit_ex) = [32, 4, 16, 8]"
    "bm_up (env deinit_ex)" "isr_counter (bm_plat (env deinit_ex)) = 2" "env_init_counter (env deinit_ex) = 1"
    by (simp_all add: deinit_ex_def bm_up_def bm_counters_def env_inv_def)
  have "\<exists>s'. rpmsg_lite_deinit (bm_port True) 8 deinit_ex = Some (RL_SUCCESS, s')
      \<and> hp_live (hp s') = remove1 8 (remove1 32 (remove1 16 [32, 4, 16, 8]))
      \<and> platform_lock (bm_plat (env s')) = NULL"
    using deinit_correct [OF i(1) _ _ _ _ i(2,3) _ i(4) _ _ i(5), of True]
    by (simp add: i(6,7) ex_vq_def) blast
  then show ?thesis by simp
qed

end
