(* ===== verification/Rpmsg_Static.thy ===== *)
theory Rpmsg_Static
  imports Rpmsg_Init Rpmsg_Ns Rpmsg_Queue
begin

text \<open>
  The configuration \<open>RL_USE_STATIC_API = 1\<close>: the application passes the memory of instances, endpoints, queues and
  handles, and nothing is allocated. Each operation of \<^verbatim>\<open>lib/rpmsg_lite/rpmsg_lite.c\<close>, \<^verbatim>\<open>rpmsg_queue.c\<close> and
  \<^verbatim>\<open>rpmsg_ns.c\<close> that is compiled differently is given again, and shown to do what the other configuration does when
  its allocator returns the same addresses. The port \<open>P\<close> is the environment in this configuration.
\<close>

section \<open>Endpoints\<close>

text \<open>
  \<open>struct rpmsg_lite_ept_static_context\<close>: the endpoint (16 bytes) and the node of the list behind it. The objects belong to
  the application: they stay when the endpoint is destroyed.
\<close>

abbreviation (input) sctx_ept :: "ptr \<Rightarrow> ptr" where "sctx_ept c \<equiv> c"
abbreviation (input) sctx_node :: "ptr \<Rightarrow> ptr" where "sctx_node c \<equiv> c + 16"

definition static_create_ept ::
  "'e env_port \<Rightarrow> llist \<Rightarrow> ptr \<Rightarrow> u32 \<Rightarrow> fn_ptr \<Rightarrow> ptr \<Rightarrow> ptr \<Rightarrow> 'e rl_state \<Rightarrow> (ptr \<times> 'e rl_state) option" where
  "static_create_ept P junk dev addr cb cb_data ept_context s =
     (if dev = NULL then Some (NULL, s)
      else do {
        i \<leftarrow> insts s dev;
        s \<leftarrow> lock_mutex P (dev_lock i) s;
        found \<leftarrow> (if addr = RL_ADDR_ANY
                   then do { a \<leftarrow> find_free_addr dev s 1;
                             Some (if a = RL_ADDR_ANY then None else Some a) }
                   else do { n \<leftarrow> rpmsg_lite_get_endpoint_from_addr dev addr s;
                             Some (if n \<noteq> NULL then None else Some addr) });
        case found of
          None \<Rightarrow> do { s \<leftarrow> unlock_mutex P (dev_lock i) s; Some (NULL, s) }
        | Some addr \<Rightarrow>
            if ept_context = NULL
            then do { s \<leftarrow> unlock_mutex P (dev_lock i) s; Some (NULL, s) }
            else do {
              let rl_ept = sctx_ept ept_context;
              let node = sctx_node ept_context;
              let s = s\<lparr>epts := (epts s)(rl_ept \<mapsto>
                \<lparr>ept_addr = addr, rx_cb = cb, rx_cb_data = cb_data, ept_rfu = NULL\<rparr>),
                llnodes := (llnodes s)(node \<mapsto> junk\<lparr>l_data := rl_ept\<rparr>)\<rparr>;
              i \<leftarrow> insts s dev;
              (h, m) \<leftarrow> add_to_list (rl_endpoints i) node (llnodes s);
              s \<leftarrow> set_inst dev (\<lambda>i. i\<lparr>rl_endpoints := h\<rparr>) (s\<lparr>llnodes := m\<rparr>);
              s \<leftarrow> unlock_mutex P (dev_lock i) s;
              Some (rl_ept, s) } })"

definition static_destroy_ept ::
  "'e env_port \<Rightarrow> ptr \<Rightarrow> ptr \<Rightarrow> 'e rl_state \<Rightarrow> (int \<times> 'e rl_state) option" where
  "static_destroy_ept P dev rl_ept s =
     (if dev = NULL then Some (RL_ERR_PARAM, s)
      else if rl_ept = NULL then Some (RL_ERR_PARAM, s)
      else do {
        i \<leftarrow> insts s dev;
        s \<leftarrow> lock_mutex P (dev_lock i) s;
        e \<leftarrow> epts s rl_ept;
        node \<leftarrow> rpmsg_lite_get_endpoint_from_addr dev (ept_addr e) s;
        if node \<noteq> NULL
        then do {
          (h, m) \<leftarrow> remove_from_list (rl_endpoints i) node (llnodes s);
          s \<leftarrow> set_inst dev (\<lambda>i. i\<lparr>rl_endpoints := h\<rparr>) (s\<lparr>llnodes := m\<rparr>);
          s \<leftarrow> unlock_mutex P (dev_lock i) s;
          Some (RL_SUCCESS, s) }
        else do { s \<leftarrow> unlock_mutex P (dev_lock i) s; Some (RL_ERR_PARAM, s) } })"

section \<open>Initialisation\<close>

text \<open>\<open>ctx\<close> is the address of the queue's entry of \<open>vq_ctxt\<close> in the instance.\<close>

definition static_create_vq ::
  "bool \<Rightarrow> rl_config \<Rightarrow> vring_alloc_info \<Rightarrow> u16 \<Rightarrow> string \<Rightarrow> fn_ptr \<Rightarrow> ptr \<Rightarrow> ptr \<Rightarrow> 'e rl_state
    \<Rightarrow> (ptr \<times> 'e rl_state) option" where
  "static_create_vq master cfg ri qid name callback dev ctx s =
     do { let s = (if master
                   then s\<lparr>vrings := (vrings s)(phy_addr ri \<mapsto> vring_mem_zero (unat (num_descs ri)))\<rparr>
                   else s);
          (status, vqo) \<leftarrow> virtqueue_create_static (cfg_vq_debug cfg) qid name (Some ri) callback
                             Fn_virtqueue_notify ctx;
          if status \<noteq> RL_SUCCESS then Some (NULL, s)
          else do {
            vq \<leftarrow> vqo;
            if master
            then do {
              vm \<leftarrow> vrings s (vr_desc (vq_ring vq));
              vm \<leftarrow> vq_ring_init vq vm;
              (vq, vm) \<leftarrow> virtqueue_disable_cb (cfg_vq_debug cfg) vq vm;
              Some (ctx, put_vq ctx (vq\<lparr>vq_priv := dev\<rparr>) vm s) }
            else Some (ctx, s\<lparr>vqs := (vqs s)(ctx \<mapsto> vq\<lparr>vq_priv := dev\<rparr>)\<rparr>) } }"

text \<open>
  \<open>ctx0\<close> and \<open>ctx1\<close> are the addresses of the two entries of \<open>vq_ctxt\<close>. The failure paths free nothing; they leave the
  instance and queues as they are.
\<close>

definition static_master_init ::
  "'e env_port \<Rightarrow> rl_config \<Rightarrow> ptr \<Rightarrow> u32 \<Rightarrow> u32 \<Rightarrow> ptr \<Rightarrow> ptr \<Rightarrow> ptr \<Rightarrow> 'e rl_state \<Rightarrow> (ptr \<times> 'e rl_state) option" where
  "static_master_init P cfg shmem_addr shmem_length link dev ctx0 ctx1 s =
     do { chk \<leftarrow> master_init_checks cfg shmem_addr shmem_length link;
          case chk of
            None \<Rightarrow> Some (NULL, s)
          | Some sc \<Rightarrow>
              if dev = NULL then Some (NULL, s)
              else do {
                let s = s\<lparr>insts := (insts s)(dev \<mapsto> instance_zero)\<rparr>;
                (status, e) \<leftarrow> ep_env_init P (env s);
                let s = s\<lparr>env := e\<rparr>;
                if status \<noteq> RL_SUCCESS then Some (NULL, s)
                else do {
                n \<leftarrow> RL_CALCULATE_BUFFER_COUNT_DOWN_SAFE shmem_length (2 * cfg_vring_size sc)
                       (RL_BUFFER_SIZE sc);
                s \<leftarrow> set_inst dev (\<lambda>i. i\<lparr>link_id := link,
                       sh_mem_base := RL_WORD_ALIGN_UP (shmem_addr + 2 * cfg_vring_size sc),
                       sh_mem_remaining := n, sh_mem_total := n, dev_ops := Master_ops\<rparr>) s;
                (vq0, s) \<leftarrow> static_create_vq True cfg (ring_info sc shmem_addr 0) (ucast (RL_GET_VQ_ID link 0))
                       ''rx_vq'' Fn_rpmsg_lite_rx_callback dev ctx0 s;
                if vq0 = NULL then Some (NULL, s)
                else do {
                  (vq1, s) \<leftarrow> static_create_vq True cfg (ring_info sc shmem_addr 1)
                         (ucast (RL_GET_VQ_ID link 1)) ''tx_vq'' Fn_rpmsg_lite_tx_callback dev ctx1 s;
                  if vq1 = NULL then Some (NULL, s)
                  else do {
                    (status, s) \<leftarrow> init_mutex P dev s;
                    if status \<noteq> RL_SUCCESS then Some (NULL, s)
                    else do {
                      s \<leftarrow> set_inst dev (\<lambda>i. i\<lparr>tvq := vq1, rvq := vq0\<rparr>) s;
                      (st, s) \<leftarrow> fill_vq P cfg sc dev vq0 s;
                      (st, s) \<leftarrow> (if st \<noteq> RL_SUCCESS then Some (st, s)
                                  else fill_vq P cfg sc dev vq1 s);
                      if st \<noteq> RL_SUCCESS
                      then do {
                        i \<leftarrow> insts s dev;
                        Some (NULL, s\<lparr>env := ep_delete_mutex P (dev_lock i) (env s)\<rparr>) }
                      else master_init_finish P cfg dev s } } } } } }"

definition static_remote_init ::
  "'e env_port \<Rightarrow> rl_config \<Rightarrow> ptr \<Rightarrow> u32 \<Rightarrow> ptr \<Rightarrow> ptr \<Rightarrow> ptr \<Rightarrow> 'e rl_state \<Rightarrow> (ptr \<times> 'e rl_state) option" where
  "static_remote_init P cfg shmem_addr link dev ctx0 ctx1 s =
     (case remote_init_checks cfg shmem_addr link of
        None \<Rightarrow> Some (NULL, s)
      | Some sc \<Rightarrow>
          if dev = NULL then Some (NULL, s)
          else do {
            let s = s\<lparr>insts := (insts s)(dev \<mapsto> instance_zero)\<rparr>;
            (status, e) \<leftarrow> ep_env_init P (env s);
            let s = s\<lparr>env := e\<rparr>;
            if status \<noteq> RL_SUCCESS then Some (NULL, s)
            else do {
            s \<leftarrow> set_inst dev (\<lambda>i. i\<lparr>link_id := link, dev_ops := Remote_ops,
                   sh_mem_base := RL_WORD_ALIGN_UP (shmem_addr + 2 * cfg_vring_size sc)\<rparr>) s;
            (vq0, s) \<leftarrow> static_create_vq False cfg (ring_info sc shmem_addr 0) (ucast (RL_GET_VQ_ID link 0))
                   ''tx_vq'' Fn_rpmsg_lite_tx_callback dev ctx0 s;
            if vq0 = NULL then Some (NULL, s)
            else do {
              (vq1, s) \<leftarrow> static_create_vq False cfg (ring_info sc shmem_addr 1) (ucast (RL_GET_VQ_ID link 1))
                     ''rx_vq'' Fn_rpmsg_lite_rx_callback dev ctx1 s;
              if vq1 = NULL then Some (NULL, s)
              else do {
                (status, s) \<leftarrow> init_mutex P dev s;
                if status \<noteq> RL_SUCCESS then Some (NULL, s)
                else do {
                  s \<leftarrow> set_inst dev (\<lambda>i. i\<lparr>tvq := vq0, rvq := vq1\<rparr>) s;
                  remote_init_finish P dev s } } } } })"

definition static_vq_free :: "ptr \<Rightarrow> 'e rl_state \<Rightarrow> 'e rl_state option" where
  "static_vq_free p s =
     (if p = NULL then Some s
      else do { vq \<leftarrow> vqs s p; q \<leftarrow> virtqueue_free_static (Some vq); Some (s\<lparr>vqs := (vqs s)(p \<mapsto> q)\<rparr>) })"

definition static_deinit :: "'e env_port \<Rightarrow> ptr \<Rightarrow> 'e rl_state \<Rightarrow> (int \<times> 'e rl_state) option" where
  "static_deinit P dev s =
     (if dev = NULL then Some (RL_ERR_PARAM, s)
      else do {
        i \<leftarrow> insts s dev;
        rl_assert (rvq i \<noteq> NULL \<and> tvq i \<noteq> NULL \<and> dev_lock i \<noteq> NULL);
        r \<leftarrow> vq_index (rvq i) s;
        t \<leftarrow> vq_index (tvq i) s;
        s \<leftarrow> env_do_status (ep_deinit_interrupt P r) s;
        s \<leftarrow> env_do_status (ep_deinit_interrupt P t) s;
        s \<leftarrow> set_inst dev (\<lambda>i. i\<lparr>link_state := 0\<rparr>) s;
        s \<leftarrow> static_vq_free (rvq i) s;
        s \<leftarrow> static_vq_free (tvq i) s;
        s \<leftarrow> set_inst dev (\<lambda>i. i\<lparr>rvq := NULL, tvq := NULL\<rparr>) s;
        let s = s\<lparr>env := ep_delete_mutex P (dev_lock i) (env s)\<rparr>;
        s \<leftarrow> env_do_status (ep_env_deinit P) s;
        Some (RL_SUCCESS, s) })"

section \<open>Message queues and name service\<close>

text \<open>\<open>create\<close> is \<open>env_create_queue\<close> with the storage and the control block of the application.\<close>

definition static_queue_create ::
  "(int \<Rightarrow> int \<Rightarrow> ptr \<Rightarrow> ptr \<Rightarrow> 'e \<Rightarrow> (int \<times> ptr \<times> 'e) option) \<Rightarrow> ptr \<Rightarrow> ptr \<Rightarrow> ptr \<Rightarrow> 'e rl_state \<Rightarrow> (ptr \<times> 'e rl_state) option" where
  "static_queue_create create dev queue_storage queue_ctxt s =
     (if dev = NULL then Some (NULL, s)
      else if queue_storage = NULL \<or> queue_ctxt = NULL then Some (NULL, s)
      else do {
        i \<leftarrow> insts s dev;
        vq \<leftarrow> vqs s (rvq i);
        (status, q, e) \<leftarrow> create (2 * int (unat (vq_nentries vq))) 12 queue_storage queue_ctxt (env s);
        Some (if status \<noteq> 0 \<or> q = NULL then NULL else q, s\<lparr>env := e\<rparr>) })"

text \<open>\<open>rpmsg_ns_static_context\<close>: the context of the endpoint (32 bytes), the callback data and the context of the handle.\<close>

definition static_ns_bind ::
  "'e env_port \<Rightarrow> llist \<Rightarrow> ptr \<Rightarrow> fn_ptr \<Rightarrow> ptr \<Rightarrow> ptr \<Rightarrow> 'e ns_state \<Rightarrow> (ptr \<times> 'e ns_state) option" where
  "static_ns_bind P junk dev app_cb user_data ns_ept_ctxt ns =
     (if app_cb = Fn_NULL then Some (NULL, ns)
      else if ns_ept_ctxt = NULL then Some (NULL, ns)
      else do {
        let cb_ctxt = ns_ept_ctxt + 32;
        let ns_ctxt = ns_ept_ctxt + 40;
        (ept, s) \<leftarrow> static_create_ept P junk dev RL_NS_EPT_ADDR Fn_rpmsg_ns_rx_cb cb_ctxt ns_ept_ctxt (ns_rl ns);
        Some (ns_ctxt, \<lparr>ns_rl = s,
          ns_cbs = (ns_cbs ns)(cb_ctxt \<mapsto> \<lparr>nc_cb = app_cb, nc_user_data = user_data\<rparr>),
          ns_ctxs = (ns_ctxs ns)(ns_ctxt \<mapsto> \<lparr>nx_ept = ept, nx_cb_ctxt = cb_ctxt\<rparr>)\<rparr>) })"

definition static_ns_unbind :: "'e env_port \<Rightarrow> ptr \<Rightarrow> ptr \<Rightarrow> 'e ns_state \<Rightarrow> (int \<times> 'e ns_state) option" where
  "static_ns_unbind P dev handle ns =
     do { x \<leftarrow> ns_ctxs ns handle;
          (retval, s) \<leftarrow> static_destroy_ept P dev (nx_ept x) (ns_rl ns);
          Some (retval, ns\<lparr>ns_rl := s\<rparr>) }"

section \<open>Operations that do not use the allocator\<close>

text \<open>They do the same whatever the state of the allocator is, and leave it as it is.\<close>

abbreviation with_heap :: "heap \<Rightarrow> 'e rl_state \<Rightarrow> 'e rl_state" where "with_heap h s \<equiv> s\<lparr>hp := h\<rparr>"

abbreviation with_heap_val :: "heap \<Rightarrow> 'a \<times> 'e rl_state \<Rightarrow> 'a \<times> 'e rl_state" where
  "with_heap_val h \<equiv> map_prod (\<lambda>x. x) (with_heap h)"

lemma bind_with_heap [simp]: "Option.bind (map_option f x) g = Option.bind x (\<lambda>y. g (f y))"
  by (cases x) simp_all

lemma nh_set_inst: "set_inst d f (with_heap h s) = map_option (with_heap h) (set_inst d f s)"
  by (simp add: set_inst_def split: bind_splits)

lemma nh_env_do: "env_do f (with_heap h s) = map_option (with_heap h) (env_do f s)"
  by (simp add: env_do_def split: bind_splits)

lemma nh_env_do_status: "env_do_status f (with_heap h s) = map_option (with_heap h) (env_do_status f s)"
  by (auto simp: env_do_status_def split: bind_splits)

lemma nh_lock: "lock_mutex P l (with_heap h s) = map_option (with_heap h) (lock_mutex P l s)"
  by (simp add: lock_mutex_def split: bind_splits)

lemma nh_unlock: "unlock_mutex P l (with_heap h s) = map_option (with_heap h) (unlock_mutex P l s)"
  by (simp add: unlock_mutex_def split: bind_splits)

lemma nh_get_vq: "get_vq p (with_heap h s) = get_vq p s"
  by (simp add: get_vq_def)

lemma nh_put_vq: "put_vq p vq vm (with_heap h s) = with_heap h (put_vq p vq vm s)"
  by (simp add: put_vq_def)

lemma nh_vq_index: "vq_index p (with_heap h s) = vq_index p s"
  by (simp add: vq_index_def)

lemma nh_kick: "vq_kick P cfg v (with_heap h s) = map_option (with_heap h) (vq_kick P cfg v s)"
  by (auto simp: vq_kick_def nh_get_vq virtqueue_notify_def put_vq_def split: bind_splits option.splits fn_ptr.splits)

lemma nh_init_mutex: "init_mutex P d (with_heap h s) = map_option (with_heap_val h) (init_mutex P d s)"
  by (auto simp: init_mutex_def Let_def set_inst_def split: bind_splits prod.splits)

lemma nh_fill_one: "fill_one P cfg sc d v (with_heap h s) = map_option (with_heap_val h) (fill_one P cfg sc d v s)"
  by (auto simp: fill_one_def get_vq_def put_vq_def set_inst_def Let_def split: bind_splits if_splits prod.splits)

lemma nh_fill_loop: "fill_loop P cfg sc d v k (with_heap h s) = map_option (with_heap_val h) (fill_loop P cfg sc d v k s)"
proof (induction k arbitrary: s)
  case (Suc k)
  then show ?case by (auto simp: nh_fill_one split: bind_splits)
qed simp

lemma nh_fill_vq: "fill_vq P cfg sc d v (with_heap h s) = map_option (with_heap_val h) (fill_vq P cfg sc d v s)"
  by (auto simp: fill_vq_def nh_fill_loop split: bind_splits)

lemma nh_get_ept: "rpmsg_lite_get_endpoint_from_addr d a (with_heap h s) = rpmsg_lite_get_endpoint_from_addr d a s"
  by (simp add: rpmsg_lite_get_endpoint_from_addr_def)

lemma nh_find_free: "find_free_addr d (with_heap h s) i = find_free_addr d s i"
proof (induction "unat (0xFFFFFFFF - i)" arbitrary: i rule: less_induct)
  case less
  show ?case
  proof (cases "i < 0xFFFFFFFF")
    case True
    then have "unat (0xFFFFFFFF - (i + 1)) < unat (0xFFFFFFFF - i)"
      by (simp add: word_less_nat_alt unat_sub word_le_nat_alt unat_word_ariths)
    from less [OF this] show ?thesis
      by (subst (1 2) find_free_addr.simps) (simp add: nh_get_ept split: bind_splits)
  qed (simp add: find_free_addr.simps)
qed

lemmas nh = nh_set_inst nh_env_do nh_env_do_status nh_lock nh_unlock nh_get_vq nh_put_vq nh_vq_index nh_kick nh_init_mutex
  nh_fill_vq nh_get_ept nh_find_free

lemma nh_master_finish: "master_init_finish P cfg d (with_heap h s) = map_option (with_heap_val h) (master_init_finish P cfg d s)"
  by (simp add: master_init_finish_def nh split: bind_splits)

lemma nh_remote_finish: "remote_init_finish P d (with_heap h s) = map_option (with_heap_val h) (remote_init_finish P d s)"
  by (simp add: remote_init_finish_def nh split: bind_splits)

section \<open>The two configurations do the same\<close>

lemma alloc_with_heap: "env_allocate_memory (hp s) = (p, h) \<Longrightarrow> alloc s = (p, with_heap h s)"
  by (simp add: alloc_def)

lemma create_ept_static:
  assumes "env_allocate_memory (hp s) = (c, h1)" "env_allocate_memory h1 = (c + 16, h2)" "c \<noteq> NULL" "c + 16 \<noteq> NULL"
  shows "rpmsg_lite_create_ept P junk dev addr cb cbd s
    = map_option (\<lambda>(r, t). (r, if r = NULL then t else with_heap h2 t)) (static_create_ept P junk dev addr cb cbd c s)"
proof (cases "dev = NULL \<or> insts s dev = None \<or> (\<exists>i. insts s dev = Some i \<and> lock_mutex P (dev_lock i) s = None)")
  case True
  then show ?thesis by (auto simp: rpmsg_lite_create_ept_def static_create_ept_def)
next
  case False
  then obtain i u where u: "dev \<noteq> NULL" "insts s dev = Some i" "lock_mutex P (dev_lock i) s = Some u" by auto
  then have hu: "hp u = hp s" by (auto simp: lock_mutex_def split: bind_splits)
  have al: "alloc u = (c, with_heap h1 u)" "alloc (with_heap h1 u) = (c + 16, with_heap h2 u)"
    using assms(1,2) by (simp_all add: alloc_def hu)
  let ?F = "if addr = RL_ADDR_ANY
            then do { a \<leftarrow> find_free_addr dev u 1; Some (if a = RL_ADDR_ANY then None else Some a) }
            else do { n \<leftarrow> rpmsg_lite_get_endpoint_from_addr dev addr u; Some (if n \<noteq> NULL then None else Some addr) }"
  obtain f where f: "?F = f" by simp
  note d = rpmsg_lite_create_ept_def static_create_ept_def
  show ?thesis
  proof (cases f)
    case None
    then show ?thesis unfolding d using u f by (simp only: if_False simp_thms bind.simps option.map)
  next
    case (Some g)
    show ?thesis
    proof (cases g)
      case None
      then show ?thesis unfolding d using u f Some
        by (simp only: if_False simp_thms bind.simps option.case) (simp split: bind_splits)
    next
      case (Some a)
      then show ?thesis unfolding d using u f \<open>f = Some g\<close> assms(3,4)
        by (simp only: if_False simp_thms bind.simps option.case al prod.case Let_def)
          (simp add: unlock_mutex_def set_inst_def split: bind_splits prod.splits)
    qed
  qed
qed

text \<open>Destroying an endpoint, where the two blocks are live and differ.\<close>

lemma destroy_ept_static:
  fixes s :: "'e rl_state"
  assumes "rpmsg_lite_destroy_ept P dev rl_ept s = Some (r, s')"
  shows "\<exists>t. static_destroy_ept P dev rl_ept s = Some (r, t)
    \<and> (s' = t \<or> (\<exists>node. s' = t\<lparr>hp := hp s', llnodes := (llnodes t)(node := None), epts := (epts t)(rl_ept := None)\<rparr>))"
proof -
  have f: "mem_free p v = Some w \<Longrightarrow> \<exists>h. w = with_heap h v" for p and v w :: "'e rl_state"
    by (auto simp: mem_free_def split: bind_splits)
  show ?thesis
  proof (cases "dev = NULL \<or> rl_ept = NULL")
    case True
    then show ?thesis
      using assms by (cases "dev = NULL") (simp_all add: rpmsg_lite_destroy_ept_def static_destroy_ept_def)
  next
    case False
    then obtain i where i: "insts s dev = Some i" using assms by (cases "insts s dev") (simp_all add: rpmsg_lite_destroy_ept_def)
    then obtain v where v: "lock_mutex P (dev_lock i) s = Some v"
      using assms False by (cases "lock_mutex P (dev_lock i) s") (simp_all add: rpmsg_lite_destroy_ept_def)
    then obtain e where e: "epts v rl_ept = Some e"
      using assms False i by (cases "epts v rl_ept") (simp_all add: rpmsg_lite_destroy_ept_def)
    then obtain n where n: "rpmsg_lite_get_endpoint_from_addr dev (ept_addr e) v = Some n"
      using assms False i v
      by (cases "rpmsg_lite_get_endpoint_from_addr dev (ept_addr e) v") (simp_all add: rpmsg_lite_destroy_ept_def)
    note u = i v e n
    note d = rpmsg_lite_destroy_ept_def static_destroy_ept_def u bind.simps
    show ?thesis
    proof (cases "n = NULL")
      case True
      then show ?thesis using assms False by (simp add: d split: bind_splits)
    next
      case n: False
      then obtain h m y w where y: "remove_from_list (rl_endpoints i) n (llnodes v) = Some (h, m)"
          "set_inst dev (\<lambda>i. i\<lparr>rl_endpoints := h\<rparr>) (v\<lparr>llnodes := m\<rparr>) = Some y" "unlock_mutex P (dev_lock i) y = Some w"
        using assms False by (auto simp: d bind_eq_Some_conv)
      have st: "static_destroy_ept P dev rl_ept s = Some (RL_SUCCESS, w)" using False n by (simp add: d y)
      obtain w1 w2 where w: "mem_free n w = Some w1" "mem_free rl_ept w1 = Some w2"
        "r = RL_SUCCESS" "s' = w2\<lparr>llnodes := (llnodes w2)(n := None), epts := (epts w2)(rl_ept := None)\<rparr>"
        using assms False n by (auto simp: d y bind_eq_Some_conv)
      obtain h1 h2 where "w2 = with_heap h2 (with_heap h1 w)" using f [OF w(1)] f [OF w(2)] by auto
      then show ?thesis unfolding st w(3,4) by (intro exI [of _ w] conjI disjI2 exI [of _ n]) simp_all
    qed
  qed
qed

lemma nh_static_create_vq:
  "static_create_vq m cfg ri qid name cb d c (with_heap h s) = map_option (with_heap_val h) (static_create_vq m cfg ri qid name cb d c s)"
  by (auto simp: static_create_vq_def put_vq_def Let_def split: bind_splits if_splits prod.splits)

lemma create_vq_static:
  assumes "env_allocate_memory (hp s) = (c, h')" "c \<noteq> NULL"
  shows "create_vq m cfg ri qid name cb d s
    = map_option (\<lambda>(r, t). (r, if r = NULL then t else with_heap h' t)) (static_create_vq m cfg ri qid name cb d c s)"
  using assms
  by (auto simp: create_vq_def static_create_vq_def virtqueue_create_def virtqueue_create_static_def alloc_def put_vq_def Let_def
      split: bind_splits if_splits prod.splits)

text \<open>
  A step of both configurations: the results agree up to the allocator, which has reached \<open>h\<close>, whenever they are not NULL.
\<close>

definition same_result :: "heap \<Rightarrow> (ptr \<times> 'e rl_state) option \<Rightarrow> (ptr \<times> 'e rl_state) option \<Rightarrow> bool" where
  "same_result h dyn stat \<longleftrightarrow> (\<forall>r s'. r \<noteq> NULL \<longrightarrow> dyn = Some (r, s') \<longleftrightarrow> (\<exists>t. stat = Some (r, t) \<and> s' = with_heap h t))"

lemma same_resultI [intro]:
  "(\<And>r s'. r \<noteq> NULL \<Longrightarrow> dyn = Some (r, s') \<longleftrightarrow> (\<exists>t. stat = Some (r, t) \<and> s' = with_heap h t)) \<Longrightarrow> same_result h dyn stat"
  by (simp add: same_result_def)

lemma same_result_simps [simp]:
  "same_result h None None"
  "same_result h (map_option (with_heap_val h) x) x"
  "same_result h (do { s \<leftarrow> x'; Some (NULL, s) }) (Some (NULL, t'))"
  "same_result h (do { s \<leftarrow> x'; Some (NULL, s) }) (do { i \<leftarrow> y'; Some (NULL, f i) })"
  "same_result h (Some (NULL, s')) (Some (NULL, t'))"
  by (auto simp: same_result_def split: bind_splits)

lemma same_result_bind:
  "(\<And>y. x = Some y \<Longrightarrow> same_result h (f y) (g y)) \<Longrightarrow> same_result h (Option.bind x f) (Option.bind x g)"
  by (cases x) simp_all

lemma same_result_vq:
  assumes "env_allocate_memory h1 = (c, h2)" "c \<noteq> NULL"
    and "\<And>q w. q \<noteq> NULL \<Longrightarrow> same_result h (f (q, with_heap h2 w)) (g (q, w))"
    and "\<And>s' w. same_result h (f (NULL, s')) (g (NULL, w))"
  shows "same_result h (Option.bind (create_vq m cfg ri qid name cb d (with_heap h1 v)) f)
    (Option.bind (static_create_vq m cfg ri qid name cb d c v) g)"
proof -
  have "create_vq m cfg ri qid name cb d (with_heap h1 v)
    = map_option (\<lambda>(q, w). (q, with_heap (if q = NULL then h1 else h2) w)) (static_create_vq m cfg ri qid name cb d c v)"
    using create_vq_static [of "with_heap h1 v" c h2 m cfg ri qid name cb d] assms(1,2)
    by (simp add: nh_static_create_vq option.map_comp comp_def case_prod_unfold map_prod_def)
      (auto intro!: option.map_cong)
  then show ?thesis using assms(3,4) by (auto intro!: same_result_bind simp: case_prod_unfold)
qed

lemma same_result_env_init:
  assumes "env_allocate_memory (hp s) = (d, h1)" "d \<noteq> NULL"
    and "\<And>e. same_result h (f (d, with_heap h1 (s\<lparr>insts := (insts s)(d \<mapsto> instance_zero), env := e\<rparr>))) (g e)"
    and "\<And>s' w. same_result h (f (NULL, s')) (Some (NULL, w))"
  shows "same_result h (Option.bind (init_alloc_env P s) f)
    (do { (status, e) \<leftarrow> ep_env_init P (env s); if status \<noteq> RL_SUCCESS then Some (NULL, w e) else g e })"
proof (cases "ep_env_init P (env s)")
  case None
  then show ?thesis using assms(1,2) by (simp add: init_alloc_env_def alloc_def)
next
  case (Some y)
  obtain st e where y: "y = (st, e)" by (cases y)
  show ?thesis
  proof (cases "st = RL_SUCCESS")
    case True
    have "init_alloc_env P s = Some (d, with_heap h1 (s\<lparr>insts := (insts s)(d \<mapsto> instance_zero), env := e\<rparr>))"
      using True assms(1,2) Some y by (simp add: init_alloc_env_def alloc_def)
    then show ?thesis using assms(3) [of e]
      by (simp only: Some y True bind.simps prod.case simp_thms if_False)
  next
    case False
    have "init_alloc_env P s = None \<or> (\<exists>w. init_alloc_env P s = Some (NULL, w))"
      using assms(1,2) Some y False by (auto simp: init_alloc_env_def alloc_def mem_free_def split: bind_splits)
    then show ?thesis using assms(4) False Some y by (auto simp: same_result_def)
  qed
qed

lemma env_insts: "env (s\<lparr>insts := X\<rparr>) = env s"
  by simp

lemma remote_init_static:
  assumes "env_allocate_memory (hp s) = (d, h1)" "env_allocate_memory h1 = (c0, h2)" "env_allocate_memory h2 = (c1, h3)"
    and "d \<noteq> NULL" "c0 \<noteq> NULL" "c1 \<noteq> NULL"
  shows "same_result h3 (rpmsg_lite_remote_init P cfg a link s) (static_remote_init P cfg a link d c0 c1 s)"
proof (cases "remote_init_checks cfg a link")
  case None
  then show ?thesis by (simp add: rpmsg_lite_remote_init_def static_remote_init_def)
next
  case (Some sc)
  show ?thesis
    unfolding rpmsg_lite_remote_init_def static_remote_init_def Some option.case Let_def if_not_P [OF assms(4)]
    apply (simp only: env_insts)
    apply (rule same_result_env_init [OF assms(1,4)])
     apply (simp only: prod.case if_not_P [OF assms(4)] nh bind_with_heap)
     apply (rule same_result_bind)
     apply (rule same_result_vq [OF assms(2,5)])
      apply (simp only: prod.case if_False)
      apply (rule same_result_vq [OF assms(3,6)])
       apply (simp only: prod.case if_False nh bind_with_heap)
       apply (rule same_result_bind)
       apply (clarsimp simp: nh nh_remote_finish)
       apply (rule same_result_bind, simp)
      apply simp
     apply simp
    apply simp
    done
qed

lemma same_result_null:
  "same_result h (do { i \<leftarrow> x; s \<leftarrow> f i; Some (NULL, s) }) (do { i \<leftarrow> y; Some (NULL, g i) })"
  by (auto simp: same_result_def bind_eq_Some_conv)

lemma same_result_fill:
  "same_result h
    (do { (st, s) \<leftarrow> map_option (with_heap_val h) x; if st \<noteq> RL_SUCCESS
          then do { i \<leftarrow> insts s d; s \<leftarrow> f s i; Some (NULL, s) } else master_init_finish P cfg d s })
    (do { (st, s) \<leftarrow> x; if st \<noteq> RL_SUCCESS then do { i \<leftarrow> insts s d; Some (NULL, g s i) } else master_init_finish P cfg d s })"
proof (cases x)
  case (Some y)
  obtain st w where y: "y = (st, w)" by (cases y)
  show ?thesis
  proof (cases "st = RL_SUCCESS")
    case True
    then show ?thesis by (simp add: Some y nh_master_finish)
  next
    case False
    then show ?thesis
      using same_result_null [of h "insts w d" "f (with_heap h w)" "insts w d" "g w"] by (simp add: Some y)
  qed
qed simp

lemma master_init_static:
  assumes "env_allocate_memory (hp s) = (d, h1)" "env_allocate_memory h1 = (c0, h2)" "env_allocate_memory h2 = (c1, h3)"
    and "d \<noteq> NULL" "c0 \<noteq> NULL" "c1 \<noteq> NULL"
  shows "same_result h3 (rpmsg_lite_master_init P cfg a len link s) (static_master_init P cfg a len link d c0 c1 s)"
proof (cases "master_init_checks cfg a len link")
  case None
  then show ?thesis by (simp add: rpmsg_lite_master_init_def static_master_init_def)
next
  case chk: (Some x)
  show ?thesis
  proof (cases x)
    case None
    then show ?thesis using chk by (simp add: rpmsg_lite_master_init_def static_master_init_def)
  next
    case (Some sc)
    have fill2: "(if st \<noteq> RL_SUCCESS then Some (st, with_heap h3 w) else fill_vq P cfg sc d c (with_heap h3 w))
      = map_option (with_heap_val h3) (if st \<noteq> RL_SUCCESS then Some (st, w) else fill_vq P cfg sc d c w)" for st c w
      by (simp add: nh)
    show ?thesis
      unfolding rpmsg_lite_master_init_def static_master_init_def chk Some bind.simps option.case Let_def if_not_P [OF assms(4)]
      apply (simp only: env_insts)
      apply (rule same_result_env_init [OF assms(1,4)])
       apply (simp only: prod.case if_not_P [OF assms(4)] nh bind_with_heap)
       apply (rule same_result_bind)+
       apply (rule same_result_vq [OF assms(2,5)])
        apply (simp only: prod.case if_False)
        apply (rule same_result_vq [OF assms(3,6)])
         apply (simp only: prod.case if_False nh bind_with_heap)
         apply (rule same_result_bind)
         apply (clarsimp simp: nh)
         apply (rule same_result_bind)
         apply (rule same_result_bind)
         apply (simp only: split_paired_all map_prod_simp prod.case fill2)
         apply (rule same_result_fill)
        apply simp
       apply simp
      apply simp
      done
  qed
qed

section \<open>The allocator is not used\<close>

lemma hp_set_inst: "set_inst d f s = Some t \<Longrightarrow> hp t = hp s"
  by (auto simp: set_inst_def split: bind_splits)

lemma hp_init_mutex: "init_mutex P d s = Some (r, t) \<Longrightarrow> hp t = hp s"
  by (auto simp: init_mutex_def dest!: hp_set_inst split: bind_splits prod.splits)

lemma hp_static_create_vq: "static_create_vq m cfg ri qid name cb d c s = Some (r, t) \<Longrightarrow> hp t = hp s"
  by (auto simp: static_create_vq_def put_vq_def Let_def split: bind_splits if_splits prod.splits)

lemma hp_kept: "f s = map_option (with_heap_val (hp s)) (f s) \<Longrightarrow> f s = Some (r, t) \<Longrightarrow> hp t = hp s"
  by (cases t) auto

lemma hp_fill_vq: "fill_vq P cfg sc d v s = Some (r, t) \<Longrightarrow> hp t = hp s"
  by (rule hp_kept [of "fill_vq P cfg sc d v"]) (use nh_fill_vq [of P cfg sc d v "hp s" s] in simp)

lemma hp_master_finish: "master_init_finish P cfg d s = Some (r, t) \<Longrightarrow> hp t = hp s"
  by (rule hp_kept [of "master_init_finish P cfg d"]) (use nh_master_finish [of P cfg d "hp s" s] in simp)

lemma hp_remote_finish: "remote_init_finish P d s = Some (r, t) \<Longrightarrow> hp t = hp s"
  by (rule hp_kept [of "remote_init_finish P d"]) (use nh_remote_finish [of P d "hp s" s] in simp)

lemmas hp_ops = hp_set_inst hp_init_mutex hp_static_create_vq hp_fill_vq hp_master_finish hp_remote_finish

definition keeps_heap :: "heap \<Rightarrow> ('a \<times> 'e rl_state) option \<Rightarrow> bool" where
  "keeps_heap h x \<longleftrightarrow> (\<forall>r t. x = Some (r, t) \<longrightarrow> hp t = h)"

lemma kh_state:
  "(\<And>t. x = Some t \<Longrightarrow> hp t = h) \<Longrightarrow> (\<And>t. hp t = h \<Longrightarrow> keeps_heap h (f t)) \<Longrightarrow> keeps_heap h (Option.bind x f)"
  by (cases x) (auto simp: keeps_heap_def)

lemma kh_val:
  "(\<And>r t. x = Some (r, t) \<Longrightarrow> hp t = h) \<Longrightarrow> (\<And>r t. hp t = h \<Longrightarrow> keeps_heap h (f r t))
    \<Longrightarrow> keeps_heap h (Option.bind x (\<lambda>(r, t). f r t))"
  by (cases x) (auto simp: keeps_heap_def)

lemma kh_bind: "(\<And>y. keeps_heap h (f y)) \<Longrightarrow> keeps_heap h (Option.bind x f)"
  by (cases x) (auto simp: keeps_heap_def)

lemma kh_if: "(b \<Longrightarrow> keeps_heap h x) \<Longrightarrow> (\<not> b \<Longrightarrow> keeps_heap h y) \<Longrightarrow> keeps_heap h (if b then x else y)"
  by simp

lemma kh_some: "hp t = h \<Longrightarrow> keeps_heap h (Some (r, t))"
  by (simp add: keeps_heap_def)

lemma kh_set_inst: "hp s = h \<Longrightarrow> (\<And>t. hp t = h \<Longrightarrow> keeps_heap h (f t)) \<Longrightarrow> keeps_heap h (Option.bind (set_inst d g s) f)"
  by (rule kh_state) (auto dest: hp_set_inst)

lemma kh_create_vq:
  "hp s = h \<Longrightarrow> (\<And>r t. hp t = h \<Longrightarrow> keeps_heap h (f r t))
    \<Longrightarrow> keeps_heap h (Option.bind (static_create_vq m cfg ri qid name cb d c s) (\<lambda>(r, t). f r t))"
  by (rule kh_val) (auto dest: hp_static_create_vq)

lemma kh_mutex:
  "hp s = h \<Longrightarrow> (\<And>r t. hp t = h \<Longrightarrow> keeps_heap h (f r t)) \<Longrightarrow> keeps_heap h (Option.bind (init_mutex P d s) (\<lambda>(r, t). f r t))"
  by (rule kh_val) (auto dest: hp_init_mutex)

lemma kh_fill:
  "hp s = h \<Longrightarrow> (\<And>r t. hp t = h \<Longrightarrow> keeps_heap h (f r t)) \<Longrightarrow> keeps_heap h (Option.bind (fill_vq P cfg sc d v s) (\<lambda>(r, t). f r t))"
  "hp s = h \<Longrightarrow> (\<And>r t. hp t = h \<Longrightarrow> keeps_heap h (f r t))
    \<Longrightarrow> keeps_heap h (Option.bind (if b then Some (st, s) else fill_vq P cfg sc d v s) (\<lambda>(r, t). f r t))"
  by (rule kh_val, auto dest: hp_fill_vq split: if_splits)+

lemma kh_finish:
  "hp s = h \<Longrightarrow> keeps_heap h (master_init_finish P cfg d s)" "hp s = h \<Longrightarrow> keeps_heap h (remote_init_finish P d s)"
  by (auto simp: keeps_heap_def dest: hp_master_finish hp_remote_finish)

lemma kh_env_init:
  "(\<And>st e. keeps_heap h (f st e)) \<Longrightarrow> keeps_heap h (Option.bind (ep_env_init P x) (\<lambda>(st, e). f st e))"
  by (rule kh_bind) auto

lemma hp_static_master_init: "static_master_init P cfg a len link d c0 c1 s = Some (r, t) \<Longrightarrow> hp t = hp s"
proof -
  have "keeps_heap (hp s) (static_master_init P cfg a len link d c0 c1 s)"
    unfolding static_master_init_def Let_def option.case_eq_if
    by (rule kh_bind, intro kh_if kh_some refl, intro kh_env_init kh_if kh_some, simp, rule kh_bind, rule kh_set_inst, simp)
      (intro kh_create_vq kh_if kh_some kh_mutex kh_set_inst kh_fill kh_finish kh_bind; simp)
  then show "static_master_init P cfg a len link d c0 c1 s = Some (r, t) \<Longrightarrow> hp t = hp s" by (simp add: keeps_heap_def)
qed

lemma hp_static_remote_init: "static_remote_init P cfg a link d c0 c1 s = Some (r, t) \<Longrightarrow> hp t = hp s"
proof -
  have "keeps_heap (hp s) (static_remote_init P cfg a link d c0 c1 s)"
    unfolding static_remote_init_def Let_def option.case_eq_if
    by (intro kh_if kh_some refl, intro kh_env_init kh_if kh_some, simp, rule kh_set_inst, simp)
      (intro kh_create_vq kh_if kh_some kh_mutex kh_set_inst kh_finish; simp)
  then show "static_remote_init P cfg a link d c0 c1 s = Some (r, t) \<Longrightarrow> hp t = hp s" by (simp add: keeps_heap_def)
qed

lemma hp_static_create_ept: "static_create_ept P junk dev addr cb cbd c s = Some (r, t) \<Longrightarrow> hp t = hp s"
proof -
  have l: "lock_mutex P x y = Some z \<Longrightarrow> hp z = hp y" "unlock_mutex P x y = Some z \<Longrightarrow> hp z = hp y" for x y z
    by (auto simp: lock_mutex_def unlock_mutex_def split: bind_splits)
  have u: "hp y = h \<Longrightarrow> keeps_heap h (Option.bind (unlock_mutex P x y) (\<lambda>z. Some (q, z)))" for x y h and q :: ptr
    by (rule kh_state) (auto dest: l(2) simp: keeps_heap_def)
  have "keeps_heap (hp s) (static_create_ept P junk dev addr cb cbd c s)"
    unfolding static_create_ept_def Let_def option.case_eq_if
    by (intro kh_if kh_some refl, rule kh_bind, rule kh_state, erule l(1), rule kh_bind)
      (intro kh_if u kh_bind; (rule kh_set_inst)?; clarsimp?; intro u kh_set_inst; simp)
  then show "static_create_ept P junk dev addr cb cbd c s = Some (r, t) \<Longrightarrow> hp t = hp s" by (simp add: keeps_heap_def)
qed

section \<open>A context that is used twice\<close>

lemma find_ept_loop_cycle:
  assumes "m p = Some n" "l_next n = p" "p \<noteq> NULL" "es (l_data n) = Some e" "ept_addr e \<noteq> a"
  shows "find_ept_loop m es a p = None"
proof -
  have "find_ept_loop m es a p = Some y \<Longrightarrow> m = m \<and> es = es \<and> a = a \<longrightarrow> p \<noteq> p" for y
    by (erule find_ept_loop.raw_induct [where P = "\<lambda>m' es' a' q y. m' = m \<and> es' = es \<and> a' = a \<longrightarrow> q \<noteq> p", rotated])
      (use assms in \<open>fastforce split: bind_splits if_splits\<close>)
  then show ?thesis by (cases "find_ept_loop m es a p") auto
qed

text \<open>
  C30: The two configurations of the library initialise an instance alike. When the allocator returns the addresses of
  the application's instance and of its two queue contexts, the initialisation of the master, and of the remote, returns
  an instance in one configuration exactly if it does in the other, and then the two states are the same but for the
  allocator, which has given out the three blocks in one and is not used in the other, on success and on failure. This
  holds for every port.
\<close>

theorem static_init_equivalent:
  assumes "env_allocate_memory (hp s) = (d, h1)" "env_allocate_memory h1 = (c0, h2)" "env_allocate_memory h2 = (c1, h3)"
    and "d \<noteq> NULL" "c0 \<noteq> NULL" "c1 \<noteq> NULL"
  shows "(r \<noteq> NULL \<longrightarrow> rpmsg_lite_master_init P cfg a len link s = Some (r, s')
      \<longleftrightarrow> (\<exists>t. static_master_init P cfg a len link d c0 c1 s = Some (r, t) \<and> s' = t\<lparr>hp := h3\<rparr>))
    \<and> (r \<noteq> NULL \<longrightarrow> rpmsg_lite_remote_init P cfg a link s = Some (r, s')
      \<longleftrightarrow> (\<exists>t. static_remote_init P cfg a link d c0 c1 s = Some (r, t) \<and> s' = t\<lparr>hp := h3\<rparr>))
    \<and> (static_master_init P cfg a len link d c0 c1 s = Some (q, t) \<longrightarrow> hp t = hp s)
    \<and> (static_remote_init P cfg a link d c0 c1 s = Some (q, t) \<longrightarrow> hp t = hp s)"
proof (intro conjI impI)
  assume r: "r \<noteq> NULL"
  show "rpmsg_lite_master_init P cfg a len link s = Some (r, s')
      \<longleftrightarrow> (\<exists>t. static_master_init P cfg a len link d c0 c1 s = Some (r, t) \<and> s' = t\<lparr>hp := h3\<rparr>)"
    using master_init_static [OF assms, of P cfg a len link] r unfolding same_result_def by blast
  show "rpmsg_lite_remote_init P cfg a link s = Some (r, s')
      \<longleftrightarrow> (\<exists>t. static_remote_init P cfg a link d c0 c1 s = Some (r, t) \<and> s' = t\<lparr>hp := h3\<rparr>)"
    using remote_init_static [OF assms, of P cfg a link] r unfolding same_result_def by blast
qed (erule hp_static_master_init hp_static_remote_init)+

theorem static_init_equivalent_witness:
  "\<exists>t. static_master_init (bm_port True) boot_cfg 0x1000 0x2000 0 8 16 32 (boot_ex [8, 16, 32]) = Some (8, t)
    \<and> hp_live (hp t) = [4]"
proof -
  let ?s = "boot_ex [8, 16, 32]"
  have al: "next_blocks [8, 16, 32] [] (hp ?s)" by (simp add: next_blocks_def boot_ex_def)
  note A = next_blocks_alloc [OF al]
  note B = next_blocks_alloc [OF A(2)]
  note C = next_blocks_alloc [OF B(2)]
  have c: "master_init_checks boot_cfg 0x1000 0x2000 0 = Some (Some (cfg_shmem cfg_ex))" using boot_checks [of 0] by simp
  have "env_inv (env ?s)" "env_init_counter (env ?s) = 0" "bm_counters (env ?s)"
    "cfg_highest_link boot_cfg = RL_PLATFORM_HIGHEST_LINK_ID" "unat (0x1000 :: u32) + unat (0x2000 :: u32) + 3 < 2 ^ 32"
    by (simp_all add: boot_ex_def env_inv_def bm_counters_def boot_cfg_def)
  from master_init_boots [OF c sc_ex_ok this(5,4,1,2,3) al, where a = True]
  obtain s' where "rpmsg_lite_master_init (bm_port True) boot_cfg 0x1000 0x2000 0 ?s = Some (8, s')"
    unfolding Let_def by blast
  then obtain t where t: "static_master_init (bm_port True) boot_cfg 0x1000 0x2000 0 8 16 32 ?s = Some (8, t)"
    using static_init_equivalent [OF A(1) B(1) C(1), of 8 "bm_port True" boot_cfg "0x1000" "0x2000" 0 s'] by auto
  then have "hp t = hp ?s"
    using static_init_equivalent [OF A(1) B(1) C(1), of NULL "bm_port True" boot_cfg "0x1000" "0x2000" 0 _ 8 t] by simp
  then show ?thesis using t by (simp add: boot_ex_def)
qed

lemma static_create_ept_result:
  assumes "static_create_ept P junk dev addr cb cbd c s = Some (r, t)"
  shows "r = NULL \<or> r = c"
  using assms
  by (auto simp: static_create_ept_def Let_def bind_eq_Some_conv split: if_splits option.splits prod.splits)

lemma static_create_ept_again:
  assumes "insts s dev = Some i" "rl_endpoints i = c + 16" "c \<noteq> NULL" "c + 16 \<noteq> NULL"
    and "static_create_ept P junk dev addr cb cbd c s = Some (c, t)" "epts t c = Some e" "b \<noteq> ept_addr e"
  shows "rpmsg_lite_get_endpoint_from_addr dev b t = None"
proof -
  have l: "\<exists>e. z = y\<lparr>env := e\<rparr>" if "lock_mutex P x y = Some z \<or> unlock_mutex P x y = Some z" for x y z
    using that by (auto simp: lock_mutex_def unlock_mutex_def split: bind_splits)
  obtain j n where j: "insts t dev = Some j" "rl_endpoints j = c + 16" "llnodes t (c + 16) = Some n" "l_next n = c + 16"
      "l_data n = c"
    using assms(1-5)
    by (auto simp: static_create_ept_def Let_def bind_eq_Some_conv add_to_list_def set_next_def set_prev_def set_inst_def
        split: if_splits option.splits prod.splits dest!: l [OF disjI1] l [OF disjI2])
  then show ?thesis
    using find_ept_loop_cycle [of "llnodes t" "c + 16" n "epts t" e b] assms(4,6,7)
    by (simp add: rpmsg_lite_get_endpoint_from_addr_def)
qed

text \<open>
  C31: Endpoints in the memory of the application. Creating one in a context does what the other configuration does
  when its allocator returns the two parts of the context: the same endpoint or the same refusal, in the same state.
  The allocator is not used, and the result is NULL or the endpoint of the context. Destroying an endpoint
  returns the same status in both, and the states differ in the released memory only. The context must not be in
  use: an endpoint created again in the context of the newest one closes the list of endpoints into a loop, and the
  search for any other address never returns.
\<close>

theorem static_endpoints_correct:
  assumes "c \<noteq> NULL" "c + 16 \<noteq> NULL"
  shows "(env_allocate_memory (hp s) = (c, h1) \<and> env_allocate_memory h1 = (c + 16, h2) \<longrightarrow>
      rpmsg_lite_create_ept P junk dev addr cb cbd s
        = map_option (\<lambda>(r, t). (r, if r = NULL then t else t\<lparr>hp := h2\<rparr>)) (static_create_ept P junk dev addr cb cbd c s))
    \<and> (static_create_ept P junk dev addr cb cbd c s = Some (r, t) \<longrightarrow> hp t = hp s \<and> (r = NULL \<or> r = c))
    \<and> (rpmsg_lite_destroy_ept P dev p s = Some (st, s') \<longrightarrow> (\<exists>u. static_destroy_ept P dev p s = Some (st, u) \<and> (s' = u
        \<or> (\<exists>node. s' = u\<lparr>hp := hp s', llnodes := (llnodes u)(node := None), epts := (epts u)(p := None)\<rparr>))))
    \<and> (insts s dev = Some i \<and> rl_endpoints i = c + 16 \<and> static_create_ept P junk dev addr cb cbd c s = Some (c, t)
        \<and> epts t c = Some e \<and> b \<noteq> ept_addr e \<longrightarrow> rpmsg_lite_get_endpoint_from_addr dev b t = None)"
proof (intro conjI impI)
  assume "env_allocate_memory (hp s) = (c, h1) \<and> env_allocate_memory h1 = (c + 16, h2)"
  then show "rpmsg_lite_create_ept P junk dev addr cb cbd s
      = map_option (\<lambda>(r, t). (r, if r = NULL then t else t\<lparr>hp := h2\<rparr>)) (static_create_ept P junk dev addr cb cbd c s)"
    using create_ept_static assms by blast
qed (use static_create_ept_again [OF _ _ assms] in \<open>auto dest: hp_static_create_ept static_create_ept_result destroy_ept_static\<close>)

theorem static_endpoints_correct_witness:
  "\<exists>t u. static_create_ept (bm_port True) \<lparr>l_data = 0, l_attr = 0, l_next = 0, l_prev = 0\<rparr> 8 7 (Fn_app 1) 0 64 ept_ex
      = Some (64, t) \<and> hp t = hp ept_ex
    \<and> static_create_ept (bm_port True) \<lparr>l_data = 0, l_attr = 0, l_next = 0, l_prev = 0\<rparr> 8 9 (Fn_app 1) 0 64 t = Some (64, u)
    \<and> rpmsg_lite_get_endpoint_from_addr 8 1 u = None"
proof -
  let ?j = "\<lparr>l_data = 0, l_attr = 0, l_next = 0, l_prev = 0\<rparr>"
  let ?n = "?j\<lparr>l_data := 64, l_next := 16\<rparr>" and ?e = "\<lparr>ept_addr = 7, rx_cb = Fn_app 1, rx_cb_data = 0, ept_rfu = 0\<rparr>"
  let ?t = "ept_ex\<lparr>insts := [8 \<mapsto> instance_zero\<lparr>rl_endpoints := 80, dev_lock := 20\<rparr>],
      llnodes := [16 \<mapsto> ?j\<lparr>l_data := 32, l_prev := 80\<rparr>, 80 \<mapsto> ?n],
      epts := (epts ept_ex)(64 \<mapsto> ?e)\<rparr>"
  note d = static_create_ept_def rpmsg_lite_get_endpoint_from_addr_def add_to_list_def set_next_def set_prev_def set_inst_def
    lock_mutex_def unlock_mutex_def bm_port_def env_lock_mutex_def env_unlock_mutex_def Let_def ept_ex_def find_ept_loop.simps instance_zero_def
  have t: "static_create_ept (bm_port True) ?j 8 7 (Fn_app 1) 0 64 ept_ex = Some (64, ?t)"
    by (simp add: d fun_upd_twist)
  have "\<exists>u. static_create_ept (bm_port True) ?j 8 9 (Fn_app 1) 0 64 ?t = Some (64, u) \<and> epts u 64 = Some (?e\<lparr>ept_addr := 9\<rparr>)"
    by (simp add: d fun_upd_twist)
  then obtain u where u: "static_create_ept (bm_port True) ?j 8 9 (Fn_app 1) 0 64 ?t = Some (64, u)"
    "epts u 64 = Some (?e\<lparr>ept_addr := 9\<rparr>)" by blast
  have "rpmsg_lite_get_endpoint_from_addr 8 1 u = None"
    using static_endpoints_correct [where c = 64 and s = "?t" and P = "bm_port True" and junk = "?j" and dev = 8 and addr = 9
        and cb = "Fn_app 1" and cbd = 0 and t = u and e = "?e\<lparr>ept_addr := 9\<rparr>" and b = 1
        and i = "instance_zero\<lparr>rl_endpoints := 80, dev_lock := 20\<rparr>"] u
    by simp
  then show ?thesis using t u(1) by (intro exI [of _ ?t] exI [of _ u]) simp
qed

end
