(* ===== verification/Platform_Imxrt700.thy ===== *)
theory Platform_Imxrt700
  imports Platform_Imxrt1170
begin

text \<open>
  The platform layers of the i.MX RT700: two Cortex-M33 cores
  (\<^verbatim>\<open>lib/rpmsg_lite/porting/platform/imxrt700_m33/rpmsg_platform.c\<close>) and two HiFi DSPs
  (\<^verbatim>\<open>imxrt700_hifi4\<close>, \<^verbatim>\<open>imxrt700_hifi1\<close>), which signal each other through five messaging units. Calls of the
  SDK are recorded with their arguments, as for the RT1170. Which code is compiled for which core
  is decided by the preprocessor; here the core is an argument.
\<close>

section \<open>Identifiers\<close>

text \<open>Bits 5 to 3 of a virtqueue identifier name the pair of cores, bits 2 and 1 the vring, bit 0 the queue.\<close>

definition RL_GET_COM_ID :: "u32 \<Rightarrow> u32" where
  "RL_GET_COM_ID vq_id = drop_bit 3 vq_id"

definition RL_GEN_LINK_ID :: "u32 \<Rightarrow> u32 \<Rightarrow> u32" where
  "RL_GEN_LINK_ID com_id vring_id = push_bit 2 com_id OR vring_id"

abbreviation (input) M33_0_M33_1_COM_ID :: u32 where "M33_0_M33_1_COM_ID \<equiv> 0"
abbreviation (input) M33_0_HIFI4_COM_ID :: u32 where "M33_0_HIFI4_COM_ID \<equiv> 1"
abbreviation (input) M33_1_HIFI1_COM_ID :: u32 where "M33_1_HIFI1_COM_ID \<equiv> 2"
abbreviation (input) M33_0_EZHV_COM_ID :: u32 where "M33_0_EZHV_COM_ID \<equiv> 3"
abbreviation (input) M33_0_HIFI1_COM_ID :: u32 where "M33_0_HIFI1_COM_ID \<equiv> 4"
abbreviation (input) M33_1_HIFI4_COM_ID :: u32 where "M33_1_HIFI4_COM_ID \<equiv> 5"

datatype m33_core = CM33_0 | CM33_1

datatype hifi_core = HiFi4 | HiFi1

text \<open>The two sides of the messaging units.\<close>

datatype rt700_mu =
  MU0_MUA | MU0_MUB | MU1_MUA | MU1_MUB | MU2_MUA | MU2_MUB | MU3_MUA | MU3_MUB | MU4_MUA | MU4_MUB

text \<open>Interrupt lines: one for each side of a messaging unit, one for the EZH-V, two for the DSPs.\<close>

datatype rt700_irq = MU_IRQn rt700_mu | EZHV_IRQn | DSP_INT0_SEL1_IRQn | DSP_INT0_SEL2_IRQn

datatype rt700_call =
    MU_Init rt700_mu
  | MU_Deinit rt700_mu
  | MU_EnableInterrupts rt700_mu u32
  | MU_DisableInterrupts rt700_mu u32
  | MU_TriggerInterrupts rt700_mu u32
  | MU_ClearStatusFlags rt700_mu u32
  | EZHV_EnableEzhv2ArmIntChan nat
  | EZHV_DisableEzhv2ArmIntChan nat
  | EZHV_EnableArm2EzhvInt_MEI
  | EZHV_EnableArm2EzhvInt_MSI
  | EZHV_SetCallback nat
  | IRQ_Enable rt700_irq
  | IRQ_Disable rt700_irq
  | NVIC_SetPriority rt700_irq nat
  | INPUTMUX_Attach nat rt700_mu
  | Set_Handler rt700_irq "rt700_mu option"
  | MCMGR_RegisterEvent
  | XCACHE_CleanCacheByRange ptr u32
  | XCACHE_InvalidateCacheByRange ptr u32
  | MCMGR_TriggerEventForce nat u32

text \<open>\<open>MU_GI_INTR(1UL << RL_GET_Q_ID(vector_id))\<close>, without the macro of the SDK.\<close>

definition gi_mask :: "u32 \<Rightarrow> u32" where
  "gi_mask vector_id = push_bit (unat (RL_GET_Q_ID vector_id)) 1"

section \<open>The Cortex-M33 cores\<close>

text \<open>
  \<open>isr_counter0\<close> to \<open>isr_counter5\<close> and \<open>disable_counter0\<close> to \<open>disable_counter5\<close> belong to the pairs of
  cores 0 to 5: one function each.
\<close>

record m33_plat =
  m33_isr_counter :: "u32 \<Rightarrow> int"
  m33_disable_counter :: "u32 \<Rightarrow> int"
  m33_lock :: ptr
  m33_lock_var :: ptr
  m33_primask :: bool
  m33_log :: "rt700_call list"

definition m33_do :: "rt700_call list \<Rightarrow> m33_plat \<Rightarrow> m33_plat" where
  "m33_do cs pl = pl\<lparr>m33_log := m33_log pl @ cs\<rparr>"

text \<open>The unit through which a core reaches a pair, for the pairs it belongs to.\<close>

definition m33_mu :: "m33_core \<Rightarrow> u32 \<Rightarrow> rt700_mu option" where
  "m33_mu core com =
     (case core of
        CM33_0 \<Rightarrow> if com = M33_0_M33_1_COM_ID then Some MU1_MUA
                  else if com = M33_0_HIFI4_COM_ID then Some MU4_MUA
                  else if com = M33_0_HIFI1_COM_ID then Some MU0_MUA else None
      | CM33_1 \<Rightarrow> if com = M33_0_M33_1_COM_ID then Some MU1_MUB
                  else if com = M33_1_HIFI1_COM_ID then Some MU3_MUA
                  else if com = M33_1_HIFI4_COM_ID then Some MU2_MUB else None)"

definition m33_irq :: "m33_core \<Rightarrow> u32 \<Rightarrow> rt700_irq option" where
  "m33_irq core com =
     (case m33_mu core com of
        Some m \<Rightarrow> Some (MU_IRQn m)
      | None \<Rightarrow> if core = CM33_0 \<and> com = M33_0_EZHV_COM_ID then Some EZHV_IRQn else None)"

text \<open>The interrupt handlers: \<open>flags\<close> is the status of the unit, \<open>isr\<close> is \<open>env_isr\<close>, \<open>note\<close> records a call.\<close>

definition rt700_isr ::
  "rt700_mu \<Rightarrow> u32 \<Rightarrow> (rt700_call \<Rightarrow> 's \<Rightarrow> 's) \<Rightarrow> u32 \<Rightarrow> u32 \<Rightarrow> (u32 \<Rightarrow> 's \<Rightarrow> 's option) \<Rightarrow> u32 \<Rightarrow> 's \<Rightarrow> 's option" where
  "rt700_isr mu com note gen0 gen1 isr flags s =
     do { s \<leftarrow> (if gen0 AND flags \<noteq> 0
                then isr (push_bit 3 com) (note (MU_ClearStatusFlags mu gen0) s) else Some s);
          (if gen1 AND flags \<noteq> 0
           then isr (0x01 OR push_bit 3 com) (note (MU_ClearStatusFlags mu gen1) s) else Some s) }"

definition MU0_A_IRQHandler ::
  "(rt700_call \<Rightarrow> 's \<Rightarrow> 's) \<Rightarrow> u32 \<Rightarrow> u32 \<Rightarrow> (u32 \<Rightarrow> 's \<Rightarrow> 's option) \<Rightarrow> u32 \<Rightarrow> 's \<Rightarrow> 's option" where
  "MU0_A_IRQHandler = rt700_isr MU0_MUA M33_0_HIFI1_COM_ID"

definition MU1_A_IRQHandler ::
  "(rt700_call \<Rightarrow> 's \<Rightarrow> 's) \<Rightarrow> u32 \<Rightarrow> u32 \<Rightarrow> (u32 \<Rightarrow> 's \<Rightarrow> 's option) \<Rightarrow> u32 \<Rightarrow> 's \<Rightarrow> 's option" where
  "MU1_A_IRQHandler = rt700_isr MU1_MUA M33_0_M33_1_COM_ID"

definition MU4_A_IRQHandler ::
  "(rt700_call \<Rightarrow> 's \<Rightarrow> 's) \<Rightarrow> u32 \<Rightarrow> u32 \<Rightarrow> (u32 \<Rightarrow> 's \<Rightarrow> 's option) \<Rightarrow> u32 \<Rightarrow> 's \<Rightarrow> 's option" where
  "MU4_A_IRQHandler = rt700_isr MU4_MUA M33_0_HIFI4_COM_ID"

definition MU1_B_IRQHandler ::
  "(rt700_call \<Rightarrow> 's \<Rightarrow> 's) \<Rightarrow> u32 \<Rightarrow> u32 \<Rightarrow> (u32 \<Rightarrow> 's \<Rightarrow> 's option) \<Rightarrow> u32 \<Rightarrow> 's \<Rightarrow> 's option" where
  "MU1_B_IRQHandler = rt700_isr MU1_MUB M33_0_M33_1_COM_ID"

definition MU2_B_IRQHandler ::
  "(rt700_call \<Rightarrow> 's \<Rightarrow> 's) \<Rightarrow> u32 \<Rightarrow> u32 \<Rightarrow> (u32 \<Rightarrow> 's \<Rightarrow> 's option) \<Rightarrow> u32 \<Rightarrow> 's \<Rightarrow> 's option" where
  "MU2_B_IRQHandler = rt700_isr MU2_MUB M33_0_M33_1_COM_ID"

definition MU3_A_IRQHandler ::
  "(rt700_call \<Rightarrow> 's \<Rightarrow> 's) \<Rightarrow> u32 \<Rightarrow> u32 \<Rightarrow> (u32 \<Rightarrow> 's \<Rightarrow> 's option) \<Rightarrow> u32 \<Rightarrow> 's \<Rightarrow> 's option" where
  "MU3_A_IRQHandler = rt700_isr MU3_MUA M33_1_HIFI1_COM_ID"

definition ezhv_callback0 :: "(u32 \<Rightarrow> 's \<Rightarrow> 's option) \<Rightarrow> 's \<Rightarrow> 's option" where
  "ezhv_callback0 isr s = isr (push_bit 3 M33_0_EZHV_COM_ID) s"

definition ezhv_callback1 :: "(u32 \<Rightarrow> 's \<Rightarrow> 's option) \<Rightarrow> 's \<Rightarrow> 's option" where
  "ezhv_callback1 isr s = isr (0x01 OR push_bit 3 M33_0_EZHV_COM_ID) s"

text \<open>With the multicore manager, the event carries the identifier.\<close>

definition mcmgr_event_handler :: "(u32 \<Rightarrow> 's \<Rightarrow> 's option) \<Rightarrow> u16 \<Rightarrow> 's \<Rightarrow> 's option" where
  "mcmgr_event_handler isr vring_idx s = isr (ucast vring_idx) s"

definition m33_global_isr_disable :: "m33_plat \<Rightarrow> m33_plat" where
  "m33_global_isr_disable pl = pl\<lparr>m33_primask := True\<rparr>"

definition m33_global_isr_enable :: "m33_plat \<Rightarrow> m33_plat" where
  "m33_global_isr_enable pl = pl\<lparr>m33_primask := False\<rparr>"

definition m33_init_interrupt ::
  "m33_core \<Rightarrow> (u32 \<Rightarrow> ptr \<Rightarrow> 'e \<Rightarrow> 'e option) \<Rightarrow> (ptr \<Rightarrow> 'e \<Rightarrow> 'e option) \<Rightarrow> (ptr \<Rightarrow> 'e \<Rightarrow> 'e option)
    \<Rightarrow> u32 \<Rightarrow> ptr \<Rightarrow> m33_plat \<times> 'e \<Rightarrow> (int \<times> m33_plat \<times> 'e) option" where
  "m33_init_interrupt core register_isr lock unlock vector_id isr_data s =
     (let (pl, e) = s; com = RL_GET_COM_ID vector_id
      in if m33_lock pl \<noteq> NULL
         then do {
           e \<leftarrow> register_isr vector_id isr_data e;
           e \<leftarrow> lock (m33_lock pl) e;
           pl \<leftarrow> (if com \<le> M33_1_HIFI4_COM_ID
                  then do {
                    rl_assert (0 \<le> m33_isr_counter pl com);
                    let pl = (if m33_isr_counter pl com < 2
                      then m33_do (case m33_mu core com of
                          Some m \<Rightarrow> [MU_EnableInterrupts m (gi_mask vector_id)]
                        | None \<Rightarrow> if core = CM33_0 \<and> com = M33_0_EZHV_COM_ID
                                  then [EZHV_EnableEzhv2ArmIntChan 0, EZHV_EnableEzhv2ArmIntChan 1] else []) pl
                      else pl);
                    Some (pl\<lparr>m33_isr_counter := (m33_isr_counter pl)(com := m33_isr_counter pl com + 1)\<rparr>) }
                  else Some pl);
           e \<leftarrow> unlock (m33_lock pl) e;
           Some (0, pl, e) }
         else Some (-1, pl, e))"

definition m33_deinit_interrupt ::
  "m33_core \<Rightarrow> (u32 \<Rightarrow> 'e \<Rightarrow> 'e option) \<Rightarrow> (ptr \<Rightarrow> 'e \<Rightarrow> 'e option) \<Rightarrow> (ptr \<Rightarrow> 'e \<Rightarrow> 'e option)
    \<Rightarrow> u32 \<Rightarrow> m33_plat \<times> 'e \<Rightarrow> (int \<times> m33_plat \<times> 'e) option" where
  "m33_deinit_interrupt core unregister_isr lock unlock vector_id s =
     (let (pl, e) = s; com = RL_GET_COM_ID vector_id
      in if m33_lock pl \<noteq> NULL
         then do {
           e \<leftarrow> lock (m33_lock pl) e;
           pl \<leftarrow> (if com \<le> M33_1_HIFI4_COM_ID
                  then do {
                    rl_assert (0 < m33_isr_counter pl com);
                    let pl = pl\<lparr>m33_isr_counter := (m33_isr_counter pl)(com := m33_isr_counter pl com - 1)\<rparr>;
                    Some (if m33_isr_counter pl com < 2
                      then m33_do (case m33_mu core com of
                          Some m \<Rightarrow> [MU_DisableInterrupts m (gi_mask vector_id)]
                        | None \<Rightarrow> if core = CM33_0 \<and> com = M33_0_EZHV_COM_ID
                                  then [EZHV_DisableEzhv2ArmIntChan 0, EZHV_DisableEzhv2ArmIntChan 1] else []) pl
                      else pl) }
                  else Some pl);
           e \<leftarrow> unregister_isr vector_id e;
           e \<leftarrow> unlock (m33_lock pl) e;
           Some (0, pl, e) }
         else Some (-1, pl, e))"

text \<open>The call that notifies the other core of a pair; \<open>mcmgr\<close> is \<open>RL_USE_MCMGR_IPC_ISR_HANDLER\<close>.\<close>

definition m33_notify_calls :: "bool \<Rightarrow> m33_core \<Rightarrow> u32 \<Rightarrow> rt700_call list" where
  "m33_notify_calls mcmgr core vector_id =
     (let com = RL_GET_COM_ID vector_id
      in if mcmgr
         then (case core of
             CM33_0 \<Rightarrow> if com = M33_0_M33_1_COM_ID then [MCMGR_TriggerEventForce 1 (vector_id AND 0xFFFF)]
                       else if com = M33_0_HIFI4_COM_ID then [MCMGR_TriggerEventForce 2 (vector_id AND 0xFFFF)]
                       else if com = M33_0_HIFI1_COM_ID then [MCMGR_TriggerEventForce 3 (vector_id AND 0xFFFF)]
                       else []
           | CM33_1 \<Rightarrow> if com = M33_0_M33_1_COM_ID then [MCMGR_TriggerEventForce 0 (vector_id AND 0xFFFF)]
                       else if com = M33_1_HIFI1_COM_ID then [MCMGR_TriggerEventForce 3 (vector_id AND 0xFFFF)]
                       else if com = M33_1_HIFI4_COM_ID then [MCMGR_TriggerEventForce 2 (vector_id AND 0xFFFF)]
                       else [])
         else (case m33_mu core com of
             Some m \<Rightarrow> [MU_TriggerInterrupts m (gi_mask vector_id)]
           | None \<Rightarrow> if core = CM33_0 \<and> com = M33_0_EZHV_COM_ID
                     then [if RL_GET_Q_ID vector_id \<noteq> 0 then EZHV_EnableArm2EzhvInt_MEI
                           else EZHV_EnableArm2EzhvInt_MSI] else []))"

definition m33_notify ::
  "bool \<Rightarrow> m33_core \<Rightarrow> (ptr \<Rightarrow> 'e \<Rightarrow> 'e option) \<Rightarrow> (ptr \<Rightarrow> 'e \<Rightarrow> 'e option) \<Rightarrow> u32 \<Rightarrow> m33_plat \<times> 'e
    \<Rightarrow> (m33_plat \<times> 'e) option" where
  "m33_notify mcmgr core lock unlock vector_id s =
     (let (pl, e) = s
      in do {
        e \<leftarrow> lock (m33_lock pl) e;
        let pl = m33_do (m33_notify_calls mcmgr core vector_id) pl;
        e \<leftarrow> unlock (m33_lock pl) e;
        Some (pl, e) })"

definition m33_interrupt_enable :: "m33_core \<Rightarrow> u32 \<Rightarrow> m33_plat \<Rightarrow> (int \<times> m33_plat) option" where
  "m33_interrupt_enable core vector_id pl =
     do { let pl = m33_global_isr_disable pl;
          let com = RL_GET_COM_ID vector_id;
          pl \<leftarrow> (if com \<le> M33_1_HIFI4_COM_ID
                 then do {
                   rl_assert (0 < m33_disable_counter pl com);
                   let pl = pl\<lparr>m33_disable_counter :=
                     (m33_disable_counter pl)(com := m33_disable_counter pl com - 1)\<rparr>;
                   Some (if m33_disable_counter pl com = 0
                         then m33_do (case m33_irq core com of Some i \<Rightarrow> [IRQ_Enable i] | None \<Rightarrow> []) pl
                         else pl) }
                 else Some pl);
          Some (0, m33_global_isr_enable pl) }"

definition m33_interrupt_disable :: "m33_core \<Rightarrow> u32 \<Rightarrow> m33_plat \<Rightarrow> (int \<times> m33_plat) option" where
  "m33_interrupt_disable core vector_id pl =
     do { let pl = m33_global_isr_disable pl;
          let com = RL_GET_COM_ID vector_id;
          pl \<leftarrow> (if com \<le> M33_1_HIFI4_COM_ID
                 then do {
                   rl_assert (0 \<le> m33_disable_counter pl com);
                   let pl = (if m33_disable_counter pl com = 0
                     then m33_do (case m33_irq core com of Some i \<Rightarrow> [IRQ_Disable i] | None \<Rightarrow> []) pl
                     else pl);
                   Some (pl\<lparr>m33_disable_counter :=
                     (m33_disable_counter pl)(com := m33_disable_counter pl com + 1)\<rparr>) }
                 else Some pl);
          Some (0, m33_global_isr_enable pl) }"

text \<open>\<open>registered\<close> is whether \<open>MCMGR_RegisterEvent\<close> succeeds.\<close>

definition m33_start_mu :: "rt700_mu \<Rightarrow> rt700_call list" where
  "m33_start_mu m = [MU_Init m, NVIC_SetPriority (MU_IRQn m) 3, IRQ_Enable (MU_IRQn m)]"

definition m33_init ::
  "bool \<Rightarrow> bool \<Rightarrow> m33_core \<Rightarrow> (ptr \<Rightarrow> int \<Rightarrow> 'e \<Rightarrow> int \<times> ptr \<times> 'e) \<Rightarrow> m33_plat \<times> 'e \<Rightarrow> int \<times> m33_plat \<times> 'e" where
  "m33_init mcmgr registered core create_mutex s =
     (let (pl, e) = s;
          pl = m33_do (if mcmgr then [MCMGR_RegisterEvent]
            else case core of
                CM33_0 \<Rightarrow> m33_start_mu MU1_MUA @ m33_start_mu MU4_MUA @ m33_start_mu MU0_MUA
                  @ [EZHV_SetCallback 0, EZHV_SetCallback 1, NVIC_SetPriority EZHV_IRQn 3, IRQ_Enable EZHV_IRQn]
              | CM33_1 \<Rightarrow> m33_start_mu MU1_MUB @ m33_start_mu MU3_MUA @ m33_start_mu MU2_MUB) pl
      in if mcmgr \<and> \<not> registered then (-1, pl, e)
         else let (st, l, e) = create_mutex (m33_lock_var pl) 1 e; pl = pl\<lparr>m33_lock := l\<rparr>
              in if st \<noteq> 0 then (-1, pl, e) else (0, pl, e))"

definition m33_deinit :: "bool \<Rightarrow> m33_core \<Rightarrow> (ptr \<Rightarrow> 'e \<Rightarrow> 'e) \<Rightarrow> m33_plat \<times> 'e \<Rightarrow> int \<times> m33_plat \<times> 'e" where
  "m33_deinit mcmgr core delete_mutex s =
     (let (pl, e) = s;
          pl = (if mcmgr then pl
                else m33_do (case core of
                    CM33_0 \<Rightarrow> [MU_Deinit MU1_MUA, MU_Deinit MU4_MUA, MU_Deinit MU0_MUA]
                  | CM33_1 \<Rightarrow> [MU_Deinit MU1_MUB, MU_Deinit MU3_MUA, MU_Deinit MU2_MUB]) pl);
          e = delete_mutex (m33_lock pl) e
      in (0, pl\<lparr>m33_lock := NULL\<rparr>, e))"

definition m33_time_delay :: "u32 \<Rightarrow> u32 \<Rightarrow> nat" where
  "m33_time_delay SystemCoreClock num_msec = delay_loop (SystemCoreClock div 3 div 1000 * num_msec)"

definition m33_in_isr :: "u32 \<Rightarrow> u32 \<Rightarrow> int" where
  "m33_in_isr vectactive_msk icsr = (if icsr AND vectactive_msk \<noteq> 0 then 1 else 0)"

text \<open>Only the first core has a cache.\<close>

definition m33_cache_flush :: "m33_core \<Rightarrow> ptr \<Rightarrow> u32 \<Rightarrow> m33_plat \<Rightarrow> m33_plat" where
  "m33_cache_flush core data len pl =
     (if data = NULL \<or> len = 0 then pl
      else if core = CM33_0 then m33_do [XCACHE_CleanCacheByRange data len] pl else pl)"

definition m33_cache_invalidate :: "m33_core \<Rightarrow> ptr \<Rightarrow> u32 \<Rightarrow> m33_plat \<Rightarrow> m33_plat" where
  "m33_cache_invalidate core data len pl =
     (if data = NULL \<or> len = 0 then pl
      else if core = CM33_0 then m33_do [XCACHE_InvalidateCacheByRange data len] pl else pl)"

definition m33_vatopa :: "ptr \<Rightarrow> u32" where
  "m33_vatopa addr = addr"

definition m33_patova :: "u32 \<Rightarrow> ptr" where
  "m33_patova addr = addr"

section \<open>The HiFi DSPs\<close>

text \<open>
  The two ports differ in the units they use; \<open>isr_counter0\<close> and \<open>isr_counter1\<close> belong to the pairs with the
  first and with the second Cortex-M33.
\<close>

record hifi_plat =
  hifi_isr_counter :: "nat \<Rightarrow> int"
  hifi_disable_counter :: int
  hifi_lock :: ptr
  hifi_lock_var :: ptr
  hifi_log :: "rt700_call list"

definition hifi_do :: "rt700_call list \<Rightarrow> hifi_plat \<Rightarrow> hifi_plat" where
  "hifi_do cs pl = pl\<lparr>hifi_log := hifi_log pl @ cs\<rparr>"

definition hifi_mu :: "hifi_core \<Rightarrow> u32 \<Rightarrow> (nat \<times> rt700_mu) option" where
  "hifi_mu core com =
     (case core of
        HiFi4 \<Rightarrow> if com = M33_0_HIFI4_COM_ID then Some (0, MU4_MUB)
                 else if com = M33_1_HIFI4_COM_ID then Some (1, MU2_MUA) else None
      | HiFi1 \<Rightarrow> if com = M33_0_HIFI1_COM_ID then Some (0, MU0_MUB)
                 else if com = M33_1_HIFI1_COM_ID then Some (1, MU3_MUB) else None)"

definition MU2_A_IRQHandler ::
  "(rt700_call \<Rightarrow> 's \<Rightarrow> 's) \<Rightarrow> u32 \<Rightarrow> u32 \<Rightarrow> (u32 \<Rightarrow> 's \<Rightarrow> 's option) \<Rightarrow> u32 \<Rightarrow> 's \<Rightarrow> 's option" where
  "MU2_A_IRQHandler = rt700_isr MU2_MUA M33_1_HIFI4_COM_ID"

definition MU4_B_IRQHandler ::
  "(rt700_call \<Rightarrow> 's \<Rightarrow> 's) \<Rightarrow> u32 \<Rightarrow> u32 \<Rightarrow> (u32 \<Rightarrow> 's \<Rightarrow> 's option) \<Rightarrow> u32 \<Rightarrow> 's \<Rightarrow> 's option" where
  "MU4_B_IRQHandler = rt700_isr MU4_MUB M33_0_HIFI4_COM_ID"

definition MU0_B_IRQHandler ::
  "(rt700_call \<Rightarrow> 's \<Rightarrow> 's) \<Rightarrow> u32 \<Rightarrow> u32 \<Rightarrow> (u32 \<Rightarrow> 's \<Rightarrow> 's option) \<Rightarrow> u32 \<Rightarrow> 's \<Rightarrow> 's option" where
  "MU0_B_IRQHandler = rt700_isr MU0_MUB M33_0_HIFI1_COM_ID"

definition MU3_B_IRQHandler ::
  "(rt700_call \<Rightarrow> 's \<Rightarrow> 's) \<Rightarrow> u32 \<Rightarrow> u32 \<Rightarrow> (u32 \<Rightarrow> 's \<Rightarrow> 's option) \<Rightarrow> u32 \<Rightarrow> 's \<Rightarrow> 's option" where
  "MU3_B_IRQHandler = rt700_isr MU3_MUB M33_1_HIFI1_COM_ID"

definition hifi_init_interrupt ::
  "hifi_core \<Rightarrow> (u32 \<Rightarrow> ptr \<Rightarrow> 'e \<Rightarrow> 'e option) \<Rightarrow> (ptr \<Rightarrow> 'e \<Rightarrow> 'e option) \<Rightarrow> (ptr \<Rightarrow> 'e \<Rightarrow> 'e option)
    \<Rightarrow> u32 \<Rightarrow> ptr \<Rightarrow> hifi_plat \<times> 'e \<Rightarrow> (int \<times> hifi_plat \<times> 'e) option" where
  "hifi_init_interrupt core register_isr lock unlock vector_id isr_data s =
     (let (pl, e) = s
      in if hifi_lock pl \<noteq> NULL
         then do {
           e \<leftarrow> register_isr vector_id isr_data e;
           e \<leftarrow> lock (hifi_lock pl) e;
           pl \<leftarrow> (case hifi_mu core (RL_GET_COM_ID vector_id) of
               Some (n, m) \<Rightarrow> do {
                 rl_assert (0 \<le> hifi_isr_counter pl n);
                 let pl = (if hifi_isr_counter pl n < 2
                           then hifi_do [MU_EnableInterrupts m (gi_mask vector_id)] pl else pl);
                 Some (pl\<lparr>hifi_isr_counter := (hifi_isr_counter pl)(n := hifi_isr_counter pl n + 1)\<rparr>) }
             | None \<Rightarrow> Some pl);
           e \<leftarrow> unlock (hifi_lock pl) e;
           Some (0, pl, e) }
         else Some (-1, pl, e))"

definition hifi_deinit_interrupt ::
  "hifi_core \<Rightarrow> (u32 \<Rightarrow> 'e \<Rightarrow> 'e option) \<Rightarrow> (ptr \<Rightarrow> 'e \<Rightarrow> 'e option) \<Rightarrow> (ptr \<Rightarrow> 'e \<Rightarrow> 'e option)
    \<Rightarrow> u32 \<Rightarrow> hifi_plat \<times> 'e \<Rightarrow> (int \<times> hifi_plat \<times> 'e) option" where
  "hifi_deinit_interrupt core unregister_isr lock unlock vector_id s =
     (let (pl, e) = s
      in if hifi_lock pl \<noteq> NULL
         then do {
           e \<leftarrow> lock (hifi_lock pl) e;
           pl \<leftarrow> (case hifi_mu core (RL_GET_COM_ID vector_id) of
               Some (n, m) \<Rightarrow> do {
                 rl_assert (0 < hifi_isr_counter pl n);
                 let pl = pl\<lparr>hifi_isr_counter := (hifi_isr_counter pl)(n := hifi_isr_counter pl n - 1)\<rparr>;
                 Some (if hifi_isr_counter pl n < 2
                       then hifi_do [MU_DisableInterrupts m (gi_mask vector_id)] pl else pl) }
             | None \<Rightarrow> Some pl);
           e \<leftarrow> unregister_isr vector_id e;
           e \<leftarrow> unlock (hifi_lock pl) e;
           Some (0, pl, e) }
         else Some (-1, pl, e))"

definition hifi_notify_calls :: "bool \<Rightarrow> hifi_core \<Rightarrow> u32 \<Rightarrow> rt700_call list" where
  "hifi_notify_calls mcmgr core vector_id =
     (case hifi_mu core (RL_GET_COM_ID vector_id) of
        None \<Rightarrow> []
      | Some (n, m) \<Rightarrow>
          if mcmgr then [MCMGR_TriggerEventForce n (vector_id AND 0xFFFF)]
          else [MU_TriggerInterrupts m (gi_mask vector_id)])"

definition hifi_notify ::
  "bool \<Rightarrow> hifi_core \<Rightarrow> (ptr \<Rightarrow> 'e \<Rightarrow> 'e option) \<Rightarrow> (ptr \<Rightarrow> 'e \<Rightarrow> 'e option) \<Rightarrow> u32 \<Rightarrow> hifi_plat \<times> 'e
    \<Rightarrow> (hifi_plat \<times> 'e) option" where
  "hifi_notify mcmgr core lock unlock vector_id s =
     (let (pl, e) = s
      in do {
        e \<leftarrow> lock (hifi_lock pl) e;
        let pl = hifi_do (hifi_notify_calls mcmgr core vector_id) pl;
        e \<leftarrow> unlock (hifi_lock pl) e;
        Some (pl, e) })"

text \<open>The delay loop counts on six cycles for each round.\<close>

definition hifi_time_delay :: "u32 \<Rightarrow> u32 \<Rightarrow> nat" where
  "hifi_time_delay SystemCoreClock num_msec = delay_loop (SystemCoreClock div 6 div 1000 * num_msec)"

definition hifi_in_isr :: "u32 \<Rightarrow> u32 \<Rightarrow> int" where
  "hifi_in_isr interrupt intenable = sint (interrupt AND intenable)"

text \<open>Both lines are switched at every call, whatever the counter says.\<close>

definition hifi_interrupt_enable :: "u32 \<Rightarrow> hifi_plat \<Rightarrow> (int \<times> hifi_plat) option" where
  "hifi_interrupt_enable vector_id pl =
     do { rl_assert (0 < hifi_disable_counter pl);
          let pl = hifi_do [IRQ_Enable DSP_INT0_SEL1_IRQn, IRQ_Enable DSP_INT0_SEL2_IRQn] pl;
          Some (0, pl\<lparr>hifi_disable_counter := hifi_disable_counter pl - 1\<rparr>) }"

definition hifi_interrupt_disable :: "u32 \<Rightarrow> hifi_plat \<Rightarrow> (int \<times> hifi_plat) option" where
  "hifi_interrupt_disable vector_id pl =
     do { rl_assert (0 \<le> hifi_disable_counter pl);
          let pl = hifi_do [IRQ_Disable DSP_INT0_SEL1_IRQn, IRQ_Disable DSP_INT0_SEL2_IRQn] pl;
          Some (0, pl\<lparr>hifi_disable_counter := hifi_disable_counter pl + 1\<rparr>) }"

text \<open>\<open>Set_Handler i (Some m)\<close> registers the handler of unit \<open>m\<close> for the line \<open>i\<close>.\<close>

definition hifi_init ::
  "bool \<Rightarrow> bool \<Rightarrow> hifi_core \<Rightarrow> (ptr \<Rightarrow> int \<Rightarrow> 'e \<Rightarrow> int \<times> ptr \<times> 'e) \<Rightarrow> hifi_plat \<times> 'e \<Rightarrow> int \<times> hifi_plat \<times> 'e" where
  "hifi_init mcmgr registered core create_mutex s =
     (let (pl, e) = s; (st, l, e) = create_mutex (hifi_lock_var pl) 1 e; pl = pl\<lparr>hifi_lock := l\<rparr>
      in if st \<noteq> 0 then (-1, pl, e)
         else if mcmgr then (if registered then 0 else -1, hifi_do [MCMGR_RegisterEvent] pl, e)
         else (0, hifi_do (case core of
             HiFi4 \<Rightarrow> [MU_Init MU2_MUA, MU_Init MU4_MUB, INPUTMUX_Attach 1 MU4_MUB, INPUTMUX_Attach 2 MU2_MUA,
               Set_Handler DSP_INT0_SEL1_IRQn (Some MU4_MUB), Set_Handler DSP_INT0_SEL2_IRQn (Some MU2_MUA)]
           | HiFi1 \<Rightarrow> [MU_Init MU0_MUB, MU_Init MU3_MUB, INPUTMUX_Attach 2 MU0_MUB, INPUTMUX_Attach 1 MU3_MUB,
               Set_Handler DSP_INT0_SEL1_IRQn (Some MU3_MUB), Set_Handler DSP_INT0_SEL2_IRQn (Some MU0_MUB)]) pl, e))"

definition hifi_deinit :: "hifi_core \<Rightarrow> (ptr \<Rightarrow> 'e \<Rightarrow> 'e) \<Rightarrow> hifi_plat \<times> 'e \<Rightarrow> int \<times> hifi_plat \<times> 'e" where
  "hifi_deinit core delete_mutex s =
     (let (pl, e) = s;
          pl = hifi_do ((case core of HiFi4 \<Rightarrow> [MU_Deinit MU4_MUB] | HiFi1 \<Rightarrow> [MU_Deinit MU0_MUB, MU_Deinit MU3_MUB])
            @ [Set_Handler DSP_INT0_SEL1_IRQn None, Set_Handler DSP_INT0_SEL2_IRQn None]) pl;
          e = delete_mutex (hifi_lock pl) e
      in (0, pl\<lparr>hifi_lock := NULL\<rparr>, e))"

text \<open>Addresses are not translated. The functions of the two ports are those above with their core, here for the HiFi1.\<close>

definition hifi4_vatopa :: "ptr \<Rightarrow> u32" where "hifi4_vatopa addr = addr"
definition hifi4_patova :: "u32 \<Rightarrow> ptr" where "hifi4_patova addr = addr"
definition hifi1_vatopa :: "ptr \<Rightarrow> u32" where "hifi1_vatopa addr = addr"
definition hifi1_patova :: "u32 \<Rightarrow> ptr" where "hifi1_patova addr = addr"
definition hifi4_mcmgr_event_handler where "hifi4_mcmgr_event_handler = mcmgr_event_handler"
definition hifi1_init_interrupt where "hifi1_init_interrupt = hifi_init_interrupt HiFi1"
definition hifi1_deinit_interrupt where "hifi1_deinit_interrupt = hifi_deinit_interrupt HiFi1"
definition hifi1_notify where "hifi1_notify = (\<lambda>mcmgr. hifi_notify mcmgr HiFi1)"
definition hifi1_time_delay where "hifi1_time_delay = hifi_time_delay"
definition hifi1_in_isr where "hifi1_in_isr = hifi_in_isr"
definition hifi1_interrupt_enable where "hifi1_interrupt_enable = hifi_interrupt_enable"
definition hifi1_interrupt_disable where "hifi1_interrupt_disable = hifi_interrupt_disable"
definition hifi1_init where "hifi1_init = (\<lambda>mcmgr registered. hifi_init mcmgr registered HiFi1)"
definition hifi1_deinit where "hifi1_deinit = hifi_deinit HiFi1"
definition hifi1_mcmgr_event_handler where "hifi1_mcmgr_event_handler = mcmgr_event_handler"

section \<open>Signals between the cores\<close>

text \<open>The four cores, and the two ends of each pair.\<close>

datatype rt700_node = M33 m33_core | HiFi hifi_core

definition com_ends :: "u32 \<Rightarrow> (rt700_node \<times> rt700_node) option" where
  "com_ends com =
     (if com = M33_0_M33_1_COM_ID then Some (M33 CM33_0, M33 CM33_1)
      else if com = M33_0_HIFI4_COM_ID then Some (M33 CM33_0, HiFi HiFi4)
      else if com = M33_1_HIFI1_COM_ID then Some (M33 CM33_1, HiFi HiFi1)
      else if com = M33_0_HIFI1_COM_ID then Some (M33 CM33_0, HiFi HiFi1)
      else if com = M33_1_HIFI4_COM_ID then Some (M33 CM33_1, HiFi HiFi4)
      else None)"

text \<open>The other side of a unit: what is triggered on one side sets a flag on the other.\<close>

fun mu_peer :: "rt700_mu \<Rightarrow> rt700_mu" where
  "mu_peer MU0_MUA = MU0_MUB" | "mu_peer MU0_MUB = MU0_MUA" | "mu_peer MU1_MUA = MU1_MUB"
| "mu_peer MU1_MUB = MU1_MUA" | "mu_peer MU2_MUA = MU2_MUB" | "mu_peer MU2_MUB = MU2_MUA"
| "mu_peer MU3_MUA = MU3_MUB" | "mu_peer MU3_MUB = MU3_MUA" | "mu_peer MU4_MUA = MU4_MUB"
| "mu_peer MU4_MUB = MU4_MUA"

definition rt700_notify_calls :: "rt700_node \<Rightarrow> u32 \<Rightarrow> rt700_call list" where
  "rt700_notify_calls n v = (case n of M33 c \<Rightarrow> m33_notify_calls False c v | HiFi c \<Rightarrow> hifi_notify_calls False c v)"

text \<open>The handler a core runs when a unit interrupts it; a unit it does not handle changes nothing.\<close>

definition rt700_interrupt ::
  "rt700_node \<Rightarrow> rt700_mu \<Rightarrow> (rt700_call \<Rightarrow> 's \<Rightarrow> 's) \<Rightarrow> u32 \<Rightarrow> u32 \<Rightarrow> (u32 \<Rightarrow> 's \<Rightarrow> 's option) \<Rightarrow> u32 \<Rightarrow> 's \<Rightarrow> 's option" where
  "rt700_interrupt n m =
     (case n of
        M33 CM33_0 \<Rightarrow> (case m of MU0_MUA \<Rightarrow> MU0_A_IRQHandler | MU1_MUA \<Rightarrow> MU1_A_IRQHandler
                       | MU4_MUA \<Rightarrow> MU4_A_IRQHandler | _ \<Rightarrow> \<lambda>note gen0 gen1 isr flags. Some)
      | M33 CM33_1 \<Rightarrow> (case m of MU1_MUB \<Rightarrow> MU1_B_IRQHandler | MU2_MUB \<Rightarrow> MU2_B_IRQHandler
                       | MU3_MUA \<Rightarrow> MU3_A_IRQHandler | _ \<Rightarrow> \<lambda>note gen0 gen1 isr flags. Some)
      | HiFi HiFi4 \<Rightarrow> (case m of MU2_MUA \<Rightarrow> MU2_A_IRQHandler | MU4_MUB \<Rightarrow> MU4_B_IRQHandler
                       | _ \<Rightarrow> \<lambda>note gen0 gen1 isr flags. Some)
      | HiFi HiFi1 \<Rightarrow> (case m of MU0_MUB \<Rightarrow> MU0_B_IRQHandler | MU3_MUB \<Rightarrow> MU3_B_IRQHandler
                       | _ \<Rightarrow> \<lambda>note gen0 gen1 isr flags. Some))"

lemma u32_le_cases:
  "q \<le> 1 \<Longrightarrow> q = 0 \<or> q = 1" "v \<le> 3 \<Longrightarrow> v = 0 \<or> v = 1 \<or> v = 2 \<or> v = 3" for q v :: u32
proof -
  have w: "unat x = k \<Longrightarrow> x = of_nat k" for x :: u32 and k by (drule sym) simp
  show "q = 0 \<or> q = 1" if "q \<le> 1"
  proof -
    have "unat q = 0 \<or> unat q = 1" using that by (auto simp: word_le_nat_alt)
    then show ?thesis by (auto dest: w)
  qed
  show "v = 0 \<or> v = 1 \<or> v = 2 \<or> v = 3" if "v \<le> 3"
  proof -
    have "unat v = 0 \<or> unat v = 1 \<or> unat v = 2 \<or> unat v = 3" using that by (auto simp: word_le_nat_alt)
    then show ?thesis by (auto dest: w)
  qed
qed

lemma com_ends_cases:
  assumes "com_ends com = Some (x, y) \<or> com_ends com = Some (y, x)"
  shows "(com = 0 \<and> (x = M33 CM33_0 \<and> y = M33 CM33_1 \<or> x = M33 CM33_1 \<and> y = M33 CM33_0))
    \<or> (com = 1 \<and> (x = M33 CM33_0 \<and> y = HiFi HiFi4 \<or> x = HiFi HiFi4 \<and> y = M33 CM33_0))
    \<or> (com = 2 \<and> (x = M33 CM33_1 \<and> y = HiFi HiFi1 \<or> x = HiFi HiFi1 \<and> y = M33 CM33_1))
    \<or> (com = 4 \<and> (x = M33 CM33_0 \<and> y = HiFi HiFi1 \<or> x = HiFi HiFi1 \<and> y = M33 CM33_0))
    \<or> (com = 5 \<and> (x = M33 CM33_1 \<and> y = HiFi HiFi4 \<or> x = HiFi HiFi4 \<and> y = M33 CM33_1))"
  using assms by (auto simp: com_ends_def split: if_splits)

text \<open>The identifier of a queue splits into its three parts.\<close>

lemma vq_id_parts:
  assumes "com \<in> {0, 1, 2, 4, 5}" "q \<le> 1" "vr \<le> 3"
  shows "RL_GET_COM_ID (RL_GET_VQ_ID (RL_GEN_LINK_ID com vr) q) = com"
    and "RL_GET_VQ_ID (RL_GEN_LINK_ID com vr) q = RL_GET_VQ_ID (RL_GEN_LINK_ID com 0) q \<longleftrightarrow> vr = 0"
    and "RL_GET_VQ_ID (RL_GEN_LINK_ID com 0) q = (if q = 0 then push_bit 3 com else 0x01 OR push_bit 3 com)"
  using assms(1) u32_le_cases(1) [OF assms(2)] u32_le_cases(2) [OF assms(3)]
  by (elim insertE emptyE disjE; simp add: RL_GET_COM_ID_def RL_GET_VQ_ID_def RL_GEN_LINK_ID_def)+

lemmas rt700_handlers = MU0_A_IRQHandler_def MU1_A_IRQHandler_def MU4_A_IRQHandler_def MU1_B_IRQHandler_def
  MU2_B_IRQHandler_def MU3_A_IRQHandler_def MU2_A_IRQHandler_def MU4_B_IRQHandler_def MU0_B_IRQHandler_def
  MU3_B_IRQHandler_def

lemma notify_unit:
  assumes "com_ends com = Some (x, y) \<or> com_ends com = Some (y, x)" "RL_GET_COM_ID v = com"
  shows "\<exists>m. rt700_notify_calls x v = [MU_TriggerInterrupts m (gi_mask v)]
    \<and> rt700_interrupt y (mu_peer m) note gen0 gen1 isr f s =
      rt700_isr (mu_peer m) (if com = M33_1_HIFI4_COM_ID \<and> y = M33 CM33_1 then 0 else com) note gen0 gen1 isr f s"
  using com_ends_cases [OF assms(1)] assms(2)
  by (elim disjE conjE) (simp_all add: rt700_notify_calls_def m33_notify_calls_def hifi_notify_calls_def
      m33_mu_def hifi_mu_def rt700_interrupt_def rt700_handlers)

lemma rt700_isr_one:
  assumes "gen0 AND gen1 = 0" "gen0 \<noteq> 0" "gen1 \<noteq> 0"
  shows "rt700_isr mu c note gen0 gen1 isr (if q = 0 then gen0 else gen1) s =
    isr (if q = 0 then push_bit 3 c else 0x01 OR push_bit 3 c)
      (note (MU_ClearStatusFlags mu (if q = 0 then gen0 else gen1)) s)"
proof -
  have "gen1 AND gen0 = 0" using assms(1) by (simp add: and.commute)
  then show ?thesis using assms by (cases "q = 0") (simp_all add: rt700_isr_def)
qed

lemma gi_mask_vq:
  assumes "com \<in> {0, 1, 2, 4, 5}" "q \<le> 1" "vr \<le> 3"
  shows "gi_mask (RL_GET_VQ_ID (RL_GEN_LINK_ID com vr) q) = (if q = 0 then 1 else 2)"
  using assms(1) u32_le_cases(1) [OF assms(2)] u32_le_cases(2) [OF assms(3)]
  by (elim insertE emptyE disjE; simp add: gi_mask_def RL_GET_Q_ID_def RL_GET_VQ_ID_def RL_GEN_LINK_ID_def)+

text \<open>
  C20: Where a notification arrives. For every pair of two of the Cortex-M33 and HiFi cores (the EZH-V core has no messaging
  unit), in both directions and for both queues, the messaging unit that the sender triggers is one whose other
  side the receiver handles, and the interrupt that this trigger raises there makes the handler call
  \<open>env_isr\<close> once, with the queue that was notified, after it has cleared the flag, and for nothing else.
  \<open>flag_of\<close> is what the hardware does with the mask of a trigger: interrupt 0 sets the flag \<open>gen0\<close> on the other side,
  interrupt 1 the flag \<open>gen1\<close>. The identifier that is passed is the one
  that was notified only if the vring number is 0: the handlers drop it. For the pair of the second
  Cortex-M33 and the HiFi4, the Cortex-M33 passes the identifier of another pair, the one with the first
  Cortex-M33, so that notifications of the HiFi4 never reach the queue they are for.
\<close>

theorem interrupt_routing:
  assumes ends: "com_ends com = Some (x, y) \<or> com_ends com = Some (y, x)"
    and q: "q \<le> 1" "vr \<le> 3" and gen: "gen0 AND gen1 = 0" "gen0 \<noteq> 0" "gen1 \<noteq> 0"
    and flag: "flag_of 1 = gen0" "flag_of 2 = gen1"
  shows "let v = RL_GET_VQ_ID (RL_GEN_LINK_ID com vr) q;
      wrong = (com = M33_1_HIFI4_COM_ID \<and> y = M33 CM33_1);
      w = (if wrong then q else RL_GET_VQ_ID (RL_GEN_LINK_ID com 0) q)
    in (\<exists>m g. rt700_notify_calls x v = [MU_TriggerInterrupts m g]
        \<and> rt700_interrupt y (mu_peer m) note gen0 gen1 isr (flag_of g) s
          = isr w (note (MU_ClearStatusFlags (mu_peer m) (flag_of g)) s))
    \<and> (w = v \<longleftrightarrow> vr = 0 \<and> \<not> wrong)"
proof -
  let ?v = "RL_GET_VQ_ID (RL_GEN_LINK_ID com vr) q" and ?g = "if q = 0 then gen0 else gen1"
  have c: "com \<in> {0, 1, 2, 4, 5}" using com_ends_cases [OF ends] by auto
  note p = vq_id_parts [OF c q]
  have e: "q \<noteq> ?v" if "com = 5"
  proof -
    have "RL_GET_COM_ID q = 0" using u32_le_cases(1) [OF q(1)] by (auto simp: RL_GET_COM_ID_def)
    then show ?thesis using p(1) that by auto
  qed
  have f: "flag_of (gi_mask ?v) = ?g" using gi_mask_vq [OF c q] flag by simp
  obtain m where m: "rt700_notify_calls x ?v = [MU_TriggerInterrupts m (gi_mask ?v)]"
    "rt700_interrupt y (mu_peer m) note gen0 gen1 isr ?g s = rt700_isr (mu_peer m)
      (if com = M33_1_HIFI4_COM_ID \<and> y = M33 CM33_1 then 0 else com) note gen0 gen1 isr ?g s"
    using notify_unit [OF ends p(1), of "note" gen0 gen1 isr ?g s] by blast
  have "rt700_interrupt y (mu_peer m) note gen0 gen1 isr ?g s =
      isr (if com = M33_1_HIFI4_COM_ID \<and> y = M33 CM33_1 then q else RL_GET_VQ_ID (RL_GEN_LINK_ID com 0) q)
        (note (MU_ClearStatusFlags (mu_peer m) ?g) s)"
    unfolding m(2) rt700_isr_one [OF gen] p(3) using u32_le_cases(1) [OF q(1)] by auto
  then show ?thesis unfolding Let_def using m(1) e p(2) f by auto
qed

text \<open>A notification of the HiFi4 for the second queue of its link to the second Cortex-M33.\<close>

theorem interrupt_routing_witness:
  "rt700_notify_calls (HiFi HiFi4) (RL_GET_VQ_ID (RL_GEN_LINK_ID M33_1_HIFI4_COM_ID 0) 1) = [MU_TriggerInterrupts MU2_MUA 2]
    \<and> rt700_interrupt (M33 CM33_1) MU2_MUB (\<lambda>c s. s) 0x10 0x20 (\<lambda>w s. Some (w # s)) 0x20 [] = Some [1]
    \<and> (1 :: u32) \<noteq> RL_GET_VQ_ID (RL_GEN_LINK_ID M33_1_HIFI4_COM_ID 0) 1"
proof -
  have a: "com_ends 5 = Some (HiFi HiFi4, M33 CM33_1) \<or> com_ends 5 = Some (M33 CM33_1, HiFi HiFi4)"
    by (simp add: com_ends_def)
  have v: "RL_GET_COM_ID (RL_GET_VQ_ID (RL_GEN_LINK_ID 5 0) 1) = 5"
    by (simp add: RL_GET_COM_ID_def RL_GET_VQ_ID_def RL_GEN_LINK_ID_def)
  have c: "rt700_notify_calls (HiFi HiFi4) (RL_GET_VQ_ID (RL_GEN_LINK_ID 5 0) 1) = [MU_TriggerInterrupts MU2_MUA 2]"
    using v gi_mask_vq [of 5 1 0] by (simp add: rt700_notify_calls_def hifi_notify_calls_def hifi_mu_def)
  show ?thesis
    using interrupt_routing [OF a, of 1 0 "0x10" "0x20" "\<lambda>g. g * 0x10" "\<lambda>c s. s" "\<lambda>w s. Some (w # s)" "[]"] c
    unfolding Let_def by auto
qed

section \<open>Nested disabling\<close>

lemma m33_irq_inj: "m33_irq core c = Some i \<Longrightarrow> m33_irq core d = Some i \<Longrightarrow> c = d"
  by (auto simp: m33_irq_def m33_mu_def split: m33_core.splits if_splits)

definition m33_irq_inv :: "m33_core \<Rightarrow> (rt700_irq \<Rightarrow> bool) \<Rightarrow> m33_plat \<Rightarrow> bool" where
  "m33_irq_inv core b pl \<longleftrightarrow> (\<forall>com. com \<le> M33_1_HIFI4_COM_ID \<longrightarrow> 0 \<le> m33_disable_counter pl com
     \<and> (\<forall>i. m33_irq core com = Some i \<longrightarrow> switched (IRQ_Enable i) (IRQ_Disable i) (b i) (m33_log pl) = (m33_disable_counter pl com = 0)))"

lemma m33_line_other:
  assumes "m33_irq core com = Some i" "com \<noteq> d"
  shows "switched (IRQ_Enable i) (IRQ_Disable i) b (case m33_irq core d of Some j \<Rightarrow> [IRQ_Enable j] | None \<Rightarrow> []) = b"
    and "switched (IRQ_Enable i) (IRQ_Disable i) b (case m33_irq core d of Some j \<Rightarrow> [IRQ_Disable j] | None \<Rightarrow> []) = b"
  using assms m33_irq_inj by (auto split: option.splits)

interpretation m33: irq_nesting "m33_interrupt_disable core" "m33_interrupt_enable core" RL_GET_COM_ID
  "\<lambda>com. com \<le> M33_1_HIFI4_COM_ID" "m33_irq_inv core b" m33_disable_counter for core b
  by unfold_locales
    (auto simp: m33_irq_inv_def m33_interrupt_disable_def m33_interrupt_enable_def m33_global_isr_disable_def
      m33_global_isr_enable_def m33_do_def m33_line_other Let_def split: bind_splits if_splits)

text \<open>
  On the Cortex-M33 cores disabling nests for each pair of cores on its own. After any sequence of calls
  that passes the assertions, for arbitrary vectors, the line of a pair is enabled exactly when every disable
  for this pair has been matched by an enable for this pair; calls for the other pairs have no influence.
\<close>

theorem m33_interrupt_nesting:
  assumes "m33_irq_inv core b pl"
    and "irq_calls (m33_interrupt_disable core) (m33_interrupt_enable core) cs pl = Some pl'"
    and "com \<le> M33_1_HIFI4_COM_ID" "m33_irq core com = Some i"
  shows "m33_disable_counter pl' com = m33_disable_counter pl com + irq_depth RL_GET_COM_ID com cs
    \<and> switched (IRQ_Enable i) (IRQ_Disable i) (b i) (m33_log pl')
        = (m33_disable_counter pl com + irq_depth RL_GET_COM_ID com cs = 0)"
  using m33.calls_count [OF assms(1,2), of com] assms(3,4) by (auto simp: m33_irq_inv_def)

text \<open>Calls for the pair 0 leave the line of the pair 1 disabled as long as its own calls do.\<close>

abbreviation (input) m33_ex :: m33_plat where
  "m33_ex \<equiv> \<lparr>m33_isr_counter = (\<lambda>c. 0), m33_disable_counter = (\<lambda>c. 0), m33_lock = 64, m33_lock_var = 64,
     m33_primask = False, m33_log = []\<rparr>"

theorem m33_interrupt_nesting_witness:
  "\<exists>pl. irq_calls (m33_interrupt_disable CM33_0) (m33_interrupt_enable CM33_0) [(True, 8), (True, 0), (False, 1)] m33_ex = Some pl
    \<and> \<not> switched (IRQ_Enable (MU_IRQn MU4_MUA)) (IRQ_Disable (MU_IRQn MU4_MUA)) True (m33_log pl)"
proof -
  have i: "m33_irq_inv CM33_0 (\<lambda>i. True) m33_ex" by (simp add: m33_irq_inv_def)
  have c: "RL_GET_COM_ID 8 = 1" "RL_GET_COM_ID 0 = 0" "RL_GET_COM_ID 1 = 0" by (simp_all add: RL_GET_COM_ID_def)
  obtain pl where p: "irq_calls (m33_interrupt_disable CM33_0) (m33_interrupt_enable CM33_0) [(True, 8), (True, 0), (False, 1)] m33_ex = Some pl"
    by (simp add: m33_interrupt_disable_def m33_interrupt_enable_def m33_global_isr_disable_def
        m33_global_isr_enable_def m33_do_def c Let_def)
  have "(1 :: u32) \<le> M33_1_HIFI4_COM_ID" "m33_irq CM33_0 1 = Some (MU_IRQn MU4_MUA)"
    by (simp_all add: m33_irq_def m33_mu_def)
  then show ?thesis using m33_interrupt_nesting [OF i p, of 1] p by (auto simp: c)
qed

text \<open>On a HiFi core a single enable switches the lines on, however many disables are outstanding.\<close>

lemma hifi_enable_unbalanced:
  assumes "0 \<le> hifi_disable_counter pl"
  shows "\<exists>pl'. (do { (r, p) \<leftarrow> hifi_interrupt_disable v pl; (r, p) \<leftarrow> hifi_interrupt_disable w p;
      hifi_interrupt_enable v p }) = Some (0, pl')
    \<and> hifi_disable_counter pl' = hifi_disable_counter pl + 1
    \<and> switched (IRQ_Enable DSP_INT0_SEL1_IRQn) (IRQ_Disable DSP_INT0_SEL1_IRQn) b (hifi_log pl') \<and> switched (IRQ_Enable DSP_INT0_SEL2_IRQn) (IRQ_Disable DSP_INT0_SEL2_IRQn) b (hifi_log pl')"
  using assms
  by (simp add: hifi_interrupt_disable_def hifi_interrupt_enable_def hifi_do_def)

text \<open>The units that are initialised; the HiFi4 leaves one of its two initialised.\<close>

abbreviation (input) mu_ready :: "rt700_mu \<Rightarrow> bool \<Rightarrow> rt700_call list \<Rightarrow> bool" where
  "mu_ready m \<equiv> switched (MU_Init m) (MU_Deinit m)"

lemma rt700_init_deinit:
  assumes "create_mutex (m33_lock_var pl) 1 e = (0, l, e')" "create_mutex (hifi_lock_var hl) 1 e = (0, h, e')"
  shows "\<exists>p' e''. m33_deinit False core delete_mutex (snd (m33_init False r core create_mutex (pl, e))) = (0, p', e'')
      \<and> (m33_mu core com = Some m \<longrightarrow> \<not> mu_ready m b (m33_log p'))"
    and "\<exists>p' e''. hifi_deinit hcore delete_mutex (snd (hifi_init False r hcore create_mutex (hl, e))) = (0, p', e'')
      \<and> (hifi_mu hcore com = Some (k, m) \<longrightarrow> mu_ready m b (hifi_log p') = (m = MU2_MUA))"
  using assms
  by (auto simp: m33_deinit_def m33_init_def hifi_deinit_def hifi_init_def m33_do_def hifi_do_def m33_start_mu_def
      m33_mu_def hifi_mu_def Let_def split: m33_core.splits hifi_core.splits if_splits)

end
