(* ===== verification/Env_Threadx.thy ===== *)
theory Env_Threadx
  imports Env_Rtos
begin

text \<open>
  The ThreadX environment layer
  (\<^verbatim>\<open>lib/rpmsg_lite/porting/environment/rpmsg_env_threadx.c\<close>) on the i.MX RT1170 platform, with
  \<open>RL_USE_STATIC_API = 0\<close> and a 32-bit \<open>ULONG\<close>. The kernel, the memory manager and the functions
  that mask interrupts are not part of the repository: they are the argument \<open>K\<close>, their documented
  behaviour the contracts \<open>threadx_kernel\<close> and \<open>threadx_events\<close>.
\<close>

section \<open>The kernel\<close>

text \<open>
  Control blocks are addresses. The functions return a status, \<open>TX_SUCCESS\<close> for success; a call
  that suspends its caller for ever has the result \<open>None\<close>. \<open>clear_cb\<close> is \<open>memset\<close> to zero of a
  control block, \<open>tx_queue_start\<close> a read of the field of that name in the control block of a queue.
\<close>

record 'k tx =
  DisableGlobalIRQ :: "'k \<Rightarrow> u32 \<times> 'k"
  EnableGlobalIRQ :: "u32 \<Rightarrow> 'k \<Rightarrow> 'k"
  MEM_BufferAlloc :: "u32 \<Rightarrow> 'k \<Rightarrow> ptr \<times> 'k"
  MEM_BufferFree :: "ptr \<Rightarrow> 'k \<Rightarrow> 'k"
  clear_cb :: "ptr \<Rightarrow> 'k \<Rightarrow> 'k"
  tx_semaphore_create :: "ptr \<Rightarrow> u32 \<Rightarrow> 'k \<Rightarrow> u32 \<times> 'k"
  tx_semaphore_delete :: "ptr \<Rightarrow> 'k \<Rightarrow> 'k"
  tx_semaphore_get :: "ptr \<Rightarrow> u32 \<Rightarrow> 'k \<Rightarrow> (u32 \<times> 'k) option"
  tx_semaphore_put :: "ptr \<Rightarrow> 'k \<Rightarrow> 'k"
  tx_event_flags_create :: "ptr \<Rightarrow> 'k \<Rightarrow> 'k"
  tx_event_flags_delete :: "ptr \<Rightarrow> 'k \<Rightarrow> 'k"
  tx_event_flags_get :: "ptr \<Rightarrow> u32 \<Rightarrow> u32 \<Rightarrow> 'k \<Rightarrow> (u32 \<times> 'k) option"
  tx_event_flags_set :: "ptr \<Rightarrow> u32 \<Rightarrow> 'k \<Rightarrow> 'k"
  tx_queue_create :: "ptr \<Rightarrow> u32 \<Rightarrow> ptr \<Rightarrow> u32 \<Rightarrow> 'k \<Rightarrow> u32 \<times> 'k"
  tx_queue_delete :: "ptr \<Rightarrow> 'k \<Rightarrow> 'k"
  tx_queue_start :: "ptr \<Rightarrow> 'k \<Rightarrow> ptr"
  tx_queue_send :: "ptr \<Rightarrow> rpmsg_queue_rx_cb_data \<Rightarrow> u32 \<Rightarrow> 'k \<Rightarrow> (u32 \<times> 'k) option"
  tx_queue_receive :: "ptr \<Rightarrow> rpmsg_queue_rx_cb_data \<Rightarrow> u32 \<Rightarrow> 'k \<Rightarrow> (u32 \<times> rpmsg_queue_rx_cb_data \<times> 'k) option"
  tx_queue_info_get :: "ptr \<Rightarrow> 'k \<Rightarrow> u32 \<times> u32"
  tx_thread_sleep :: "u32 \<Rightarrow> 'k \<Rightarrow> 'k"
  tx_time_get :: "'k \<Rightarrow> u32"
  TX_TIMER_TICKS_PER_SECOND :: u32
  sizeof_TX_SEMAPHORE :: u32
  sizeof_TX_QUEUE :: u32
  tx_VECTACTIVE_Msk :: u32

abbreviation (input) TX_SUCCESS :: u32 where "TX_SUCCESS \<equiv> 0"
abbreviation (input) TX_WAIT_FOREVER :: u32 where "TX_WAIT_FOREVER \<equiv> 0xFFFFFFFF"

section \<open>Memory, locks and delays\<close>

type_synonym 'k tx_env = "(plat, 'k) os_env"

definition tx_in_isr :: "'k tx \<Rightarrow> u32 \<Rightarrow> int" where
  "tx_in_isr K icsr = platform_in_isr (tx_VECTACTIVE_Msk K) icsr"

definition tx_allocate_memory :: "'k tx \<Rightarrow> u32 \<Rightarrow> 'k \<Rightarrow> ptr \<times> 'k" where
  "tx_allocate_memory K sz k = MEM_BufferAlloc K sz k"

definition tx_free_memory :: "'k tx \<Rightarrow> ptr \<Rightarrow> 'k \<Rightarrow> 'k" where
  "tx_free_memory K p k = (if p \<noteq> NULL then MEM_BufferFree K p k else k)"

text \<open>\<open>old\<close> is the value of the lock variable, which stays when the creation fails.\<close>

definition tx_create_mutex :: "'k tx \<Rightarrow> ptr \<Rightarrow> int \<Rightarrow> 'k \<Rightarrow> int \<times> ptr \<times> 'k" where
  "tx_create_mutex K old count k =
     (if count > RL_ENV_MAX_MUTEX_COUNT then (-1, old, k)
      else let (semaphore_ptr, k) = tx_allocate_memory K (sizeof_TX_SEMAPHORE K) k
           in if semaphore_ptr = NULL then (-1, old, k)
              else let (st, k) = tx_semaphore_create K semaphore_ptr (word_of_int count) k
                   in if st = TX_SUCCESS then (0, semaphore_ptr, k)
                      else (-1, old, tx_free_memory K semaphore_ptr k))"

definition tx_delete_mutex :: "'k tx \<Rightarrow> ptr \<Rightarrow> 'k \<Rightarrow> 'k" where
  "tx_delete_mutex K l k = tx_free_memory K l (tx_semaphore_delete K l k)"

definition tx_lock_mutex :: "'k tx \<Rightarrow> u32 \<Rightarrow> ptr \<Rightarrow> 'k \<Rightarrow> 'k option" where
  "tx_lock_mutex K icsr l k =
     (if tx_in_isr K icsr = 0 then do { (st, k) \<leftarrow> tx_semaphore_get K l TX_WAIT_FOREVER k; Some k } else Some k)"

definition tx_unlock_mutex :: "'k tx \<Rightarrow> u32 \<Rightarrow> ptr \<Rightarrow> 'k \<Rightarrow> 'k option" where
  "tx_unlock_mutex K icsr l k = (if tx_in_isr K icsr = 0 then Some (tx_semaphore_put K l k) else Some k)"

definition tx_create_sync_lock :: "'k tx \<Rightarrow> ptr \<Rightarrow> int \<Rightarrow> 'k \<Rightarrow> int \<times> ptr \<times> 'k" where
  "tx_create_sync_lock K old state k = tx_create_mutex K old state k"

definition tx_delete_sync_lock :: "'k tx \<Rightarrow> ptr \<Rightarrow> 'k \<Rightarrow> 'k" where
  "tx_delete_sync_lock K l k = (if l \<noteq> NULL then tx_delete_mutex K l k else k)"

text \<open>
  Milliseconds to ticks: the conversion of the timeouts, and the one of \<open>env_sleep_msec\<close>. All
  products are taken modulo \<open>2^32\<close>.
\<close>

definition tx_ticks :: "'k tx \<Rightarrow> u32 \<Rightarrow> u32" where
  "tx_ticks K timeout_ms = timeout_ms * TX_TIMER_TICKS_PER_SECOND K div 1000"

definition tx_sleep_ticks :: "'k tx \<Rightarrow> u32 \<Rightarrow> u32" where
  "tx_sleep_ticks K num_msec =
     (num_msec div 1000) * TX_TIMER_TICKS_PER_SECOND K
     + (num_msec mod 1000) * TX_TIMER_TICKS_PER_SECOND K div 1000"

definition tx_sleep_msec :: "'k tx \<Rightarrow> u32 \<Rightarrow> 'k tx_env \<Rightarrow> 'k tx_env" where
  "tx_sleep_msec K num_msec e = e\<lparr>kern := tx_thread_sleep K (tx_sleep_ticks K num_msec) (kern e)\<rparr>"

definition tx_get_timestamp :: "'k tx \<Rightarrow> 'k tx_env \<Rightarrow> u64" where
  "tx_get_timestamp K e = ucast (tx_time_get K (kern e))"

section \<open>Initialisation and interrupts\<close>

definition tx_platform_init :: "'k tx \<Rightarrow> 'k tx_env \<Rightarrow> int \<times> 'k tx_env" where
  "tx_platform_init K e =
     (let (r, pl, k) = platform_init (\<lambda>a. tx_create_mutex K (platform_lock (os_plat e))) (os_plat e, kern e)
      in (r, e\<lparr>os_plat := pl, kern := k\<rparr>))"

definition tx_env_init :: "'k tx \<Rightarrow> 'k tx_env \<Rightarrow> (int \<times> 'k tx_env) option" where
  "tx_env_init K e =
     do { let (regPrimask, k) = DisableGlobalIRQ K (kern e);
          let e = e\<lparr>kern := k\<rparr>;
          rl_assert (os_init_counter e \<ge> 0);
          (if os_init_counter e < 0 then Some (-1, e\<lparr>kern := EnableGlobalIRQ K regPrimask (kern e)\<rparr>)
           else
             let e = e\<lparr>os_init_counter := os_init_counter e + 1\<rparr>
             in if os_init_counter e = 1
                then let (st, k) = tx_semaphore_create K (env_sema e) 0 (kern e)
                     in if st \<noteq> TX_SUCCESS then Some (-1, e\<lparr>kern := EnableGlobalIRQ K regPrimask k\<rparr>)
                        else let k = tx_event_flags_create K (event_group e) k;
                                 e = e\<lparr>os_isr_table := replicate RL_PLATFORM_MAX_ISR_COUNT NULL,
                                       kern := EnableGlobalIRQ K regPrimask k\<rparr>;
                                 (retval, e) = tx_platform_init K e
                             in Some (retval, e\<lparr>kern := tx_semaphore_put K (env_sema e) (kern e)\<rparr>)
                else do {
                  (st, k) \<leftarrow> tx_semaphore_get K (env_sema e) TX_WAIT_FOREVER
                    (EnableGlobalIRQ K regPrimask (kern e));
                  Some (0, e\<lparr>kern := if st = TX_SUCCESS then tx_semaphore_put K (env_sema e) k else k\<rparr>) }) }"

definition tx_env_deinit :: "'k tx \<Rightarrow> 'k tx_env \<Rightarrow> (int \<times> 'k tx_env) option" where
  "tx_env_deinit K e =
     do { let (regPrimask, k) = DisableGlobalIRQ K (kern e);
          let e = e\<lparr>kern := k\<rparr>;
          rl_assert (os_init_counter e > 0);
          (if os_init_counter e \<le> 0 then Some (-1, e\<lparr>kern := EnableGlobalIRQ K regPrimask (kern e)\<rparr>)
           else
             let e = e\<lparr>os_init_counter := os_init_counter e - 1\<rparr>
             in if os_init_counter e \<le> 0
                then let e = e\<lparr>os_isr_table := replicate RL_PLATFORM_MAX_ISR_COUNT NULL\<rparr>;
                         (retval, pl, k) = platform_deinit (tx_delete_mutex K) (os_plat e, kern e);
                         k = clear_cb K (event_group e) (tx_event_flags_delete K (event_group e) k);
                         k = clear_cb K (env_sema e) (tx_semaphore_delete K (env_sema e) k)
                     in Some (retval, e\<lparr>os_plat := pl, kern := EnableGlobalIRQ K regPrimask k\<rparr>)
                else Some (0, e\<lparr>kern := EnableGlobalIRQ K regPrimask (kern e)\<rparr>)) }"

definition tx_enable_interrupt :: "u32 \<Rightarrow> 'k tx_env \<Rightarrow> 'k tx_env option" where
  "tx_enable_interrupt vector_id e =
     do { (r, pl) \<leftarrow> platform_interrupt_enable vector_id (os_plat e); Some (e\<lparr>os_plat := pl\<rparr>) }"

definition tx_disable_interrupt :: "bool \<Rightarrow> u32 \<Rightarrow> 'k tx_env \<Rightarrow> 'k tx_env option" where
  "tx_disable_interrupt side_a vector_id e =
     do { (r, pl) \<leftarrow> platform_interrupt_disable side_a vector_id (os_plat e); Some (e\<lparr>os_plat := pl\<rparr>) }"

definition tx_register_isr :: "u32 \<Rightarrow> ptr \<Rightarrow> ptr list \<Rightarrow> ptr list option" where
  "tx_register_isr vector_id data isr_table =
     do { let t = (if unat vector_id < RL_PLATFORM_MAX_ISR_COUNT then isr_table[unat vector_id := data] else isr_table);
          rl_assert (unat vector_id < RL_PLATFORM_MAX_ISR_COUNT);
          Some t }"

definition tx_unregister_isr :: "u32 \<Rightarrow> ptr list \<Rightarrow> ptr list option" where
  "tx_unregister_isr vector_id isr_table =
     do { let t = (if unat vector_id < RL_PLATFORM_MAX_ISR_COUNT then isr_table[unat vector_id := NULL] else isr_table);
          rl_assert (unat vector_id < RL_PLATFORM_MAX_ISR_COUNT);
          Some t }"

text \<open>The virtqueue \<open>env_isr\<close> hands to \<open>virtqueue_notification\<close>.\<close>

definition tx_isr_data :: "u32 \<Rightarrow> 'k tx_env \<Rightarrow> ptr option" where
  "tx_isr_data vector e =
     (if unat vector < RL_PLATFORM_MAX_ISR_COUNT then rd (os_isr_table e) (unat vector) else None)"

definition tx_notify :: "'k tx \<Rightarrow> u32 \<Rightarrow> 'k tx_env \<Rightarrow> 'k tx_env option" where
  "tx_notify K vector_id e =
     do { (pl, k) \<leftarrow> platform_notify (tx_lock_mutex K (os_icsr e)) (tx_unlock_mutex K (os_icsr e))
            vector_id (os_plat e, kern e);
          Some (e\<lparr>os_plat := pl, kern := k\<rparr>) }"

section \<open>Waiting for the link\<close>

text \<open>
  \<open>link_state\<close> is what the read of the variable gives. The wait is for all of the flags (there is
  one), leaves them set, and its status alone decides.
\<close>

definition tx_wait_end :: "'k tx \<Rightarrow> u32 \<Rightarrow> u32 \<Rightarrow> 'k tx_env \<Rightarrow> (u32 \<times> 'k tx_env) option" where
  "tx_wait_end K flags timeout_ms e =
     do { (st, k) \<leftarrow> tx_event_flags_get K (event_group e) flags
            (if OS_BLOCK = timeout_ms then TX_WAIT_FOREVER else tx_ticks K timeout_ms) (kern e);
          Some (if st = TX_SUCCESS then 1 else 0, e\<lparr>kern := k\<rparr>) }"

definition tx_wait_for_link_up ::
  "'k tx \<Rightarrow> ('k \<Rightarrow> u32) \<Rightarrow> u32 \<Rightarrow> u32 \<Rightarrow> 'k tx_env \<Rightarrow> (u32 \<times> 'k tx_env) option" where
  "tx_wait_for_link_up K link_state link_id timeout_ms e =
     (if link_state (kern e) \<noteq> 1
      then do { lbit \<leftarrow> shl1 link_id; tx_wait_end K lbit timeout_ms e }
      else Some (1, e))"

definition tx_tx_callback :: "'k tx \<Rightarrow> u32 \<Rightarrow> 'k tx_env \<Rightarrow> 'k tx_env option" where
  "tx_tx_callback K link_id e =
     do { lbit \<leftarrow> shl1 link_id; Some (e\<lparr>kern := tx_event_flags_set K (event_group e) lbit (kern e)\<rparr>) }"

section \<open>Message queues\<close>

text \<open>
  The check for an overflow divides by the size of an element: for size 0 there is no defined
  result. \<open>old\<close> is the value of the queue variable.
\<close>

definition tx_create_queue :: "'k tx \<Rightarrow> ptr \<Rightarrow> int \<Rightarrow> int \<Rightarrow> 'k \<Rightarrow> (int \<times> ptr \<times> 'k) option" where
  "tx_create_queue K old len element_size k =
     (if len < 0 \<or> element_size < 0 then Some (-1, NULL, k)
      else if element_size = 0 then None
      else if len > 0x7FFFFFFF div element_size then Some (-1, old, k)
      else let (queue_ptr, k) = tx_allocate_memory K (sizeof_TX_QUEUE K) k;
               (msgq_buffer_ptr, k) = tx_allocate_memory K (word_of_int (len * element_size)) k
           in if queue_ptr = NULL \<or> msgq_buffer_ptr = NULL then Some (-1, old, k)
              else let (st, k) = tx_queue_create K queue_ptr (word_of_int element_size div 4) msgq_buffer_ptr
                         (word_of_int len * word_of_int element_size) k
                   in if st = TX_SUCCESS then Some (0, queue_ptr, k)
                      else Some (-1, old, tx_free_memory K queue_ptr (tx_free_memory K msgq_buffer_ptr k)))"

definition tx_delete_queue :: "'k tx \<Rightarrow> ptr \<Rightarrow> 'k tx_env \<Rightarrow> 'k tx_env" where
  "tx_delete_queue K q e =
     (let k = tx_queue_delete K q (kern e);
          k = tx_free_memory K (tx_queue_start K q k) k
      in e\<lparr>kern := tx_free_memory K q k\<rparr>)"

definition tx_put_queue ::
  "'k tx \<Rightarrow> ptr \<Rightarrow> rpmsg_queue_rx_cb_data \<Rightarrow> u32 \<Rightarrow> 'k tx_env \<Rightarrow> (int \<times> 'k tx_env) option" where
  "tx_put_queue K q msg timeout_ms e =
     do { (st, k) \<leftarrow> tx_queue_send K q msg
            (if OS_BLOCK = timeout_ms then TX_WAIT_FOREVER else tx_ticks K timeout_ms) (kern e);
          Some (if st = TX_SUCCESS then 1 else 0, e\<lparr>kern := k\<rparr>) }"

definition tx_get_queue ::
  "'k tx \<Rightarrow> ptr \<Rightarrow> rpmsg_queue_rx_cb_data \<Rightarrow> u32 \<Rightarrow> 'k tx_env
    \<Rightarrow> (int \<times> rpmsg_queue_rx_cb_data \<times> 'k tx_env) option" where
  "tx_get_queue K q msg timeout_ms e =
     do { (st, m, k) \<leftarrow> tx_queue_receive K q msg
            (if OS_BLOCK = timeout_ms then TX_WAIT_FOREVER else tx_ticks K timeout_ms) (kern e);
          Some (if st = TX_SUCCESS then 1 else 0, m, e\<lparr>kern := k\<rparr>) }"

definition tx_get_current_queue_size :: "'k tx \<Rightarrow> ptr \<Rightarrow> 'k tx_env \<Rightarrow> int" where
  "tx_get_current_queue_size K q e =
     (let (st, enqueued) = tx_queue_info_get K q (kern e)
      in if st = TX_SUCCESS then if enqueued > 0x7FFFFFFF then 0x7FFFFFFF else sint enqueued else -1)"

section \<open>The ports\<close>

definition tx_port :: "'k tx \<Rightarrow> bool \<Rightarrow> 'k tx_env env_port" where
  "tx_port K side_a =
     \<lparr>ep_env_init = tx_env_init K,
      ep_env_deinit = tx_env_deinit K,
      ep_create_mutex = (\<lambda>addr count e.
        let (st, l, k) = tx_create_mutex K NULL count (kern e) in (st, l, e\<lparr>kern := k\<rparr>)),
      ep_delete_mutex = (\<lambda>l e. e\<lparr>kern := tx_delete_mutex K l (kern e)\<rparr>),
      ep_lock_mutex = (\<lambda>l e. do { k \<leftarrow> tx_lock_mutex K (os_icsr e) l (kern e); Some (e\<lparr>kern := k\<rparr>) }),
      ep_unlock_mutex = (\<lambda>l e. do { k \<leftarrow> tx_unlock_mutex K (os_icsr e) l (kern e); Some (e\<lparr>kern := k\<rparr>) }),
      ep_init_interrupt = (\<lambda>v d e. os_with_plat
        (platform_init_interrupt (\<lambda>v d. on_table (tx_register_isr v d))
          (\<lambda>l. on_kern (tx_lock_mutex K (os_icsr e) l)) (\<lambda>l. on_kern (tx_unlock_mutex K (os_icsr e) l)) v d) e),
      ep_deinit_interrupt = (\<lambda>v e. os_with_plat
        (platform_deinit_interrupt (\<lambda>v. on_table (tx_unregister_isr v))
          (\<lambda>l. on_kern (tx_lock_mutex K (os_icsr e) l)) (\<lambda>l. on_kern (tx_unlock_mutex K (os_icsr e) l)) v) e),
      ep_enable_interrupt = tx_enable_interrupt,
      ep_disable_interrupt = tx_disable_interrupt side_a,
      ep_notify = tx_notify K,
      ep_tx_callback = tx_tx_callback K,
      ep_isr_data = tx_isr_data,
      ep_map_vatopa = platform_vatopa,
      ep_map_patova = platform_patova\<rparr>"

definition tx_queue_port :: "'k tx \<Rightarrow> 'k tx_env queue_port" where
  "tx_queue_port K =
     \<lparr>qp_create = (\<lambda>len sz e. do { (st, q, k) \<leftarrow> tx_create_queue K NULL len sz (kern e); Some (st, q, e\<lparr>kern := k\<rparr>) }),
      qp_delete = tx_delete_queue K, qp_put = tx_put_queue K,
      qp_get = tx_get_queue K, qp_size = tx_get_current_queue_size K\<rparr>"

section \<open>The contract of the kernel\<close>

text \<open>
  The kernel as it can be observed: its semaphores (count and the largest count), its queues of
  messages of three words (contents and length) and the blocks of the memory manager that are
  allocated. A call on an object that does not exist returns an error.
\<close>

locale threadx_kernel =
  fixes K :: "'k tx"
    and sem :: "'k \<Rightarrow> ptr \<Rightarrow> (nat \<times> nat) option"
    and queue :: "'k \<Rightarrow> ptr \<Rightarrow> (rpmsg_queue_rx_cb_data list \<times> nat) option"
    and live :: "'k \<Rightarrow> ptr set"
  assumes sem_get: "sem k l = Some (Suc c, m) \<Longrightarrow> \<exists>k'. tx_semaphore_get K l t k = Some (TX_SUCCESS, k')
      \<and> sem k' = (sem k)(l \<mapsto> (c, m)) \<and> queue k' = queue k"
    and sem_block: "sem k l = Some (0, m) \<Longrightarrow> tx_semaphore_get K l TX_WAIT_FOREVER k = None"
    and sem_none: "sem k l = None \<Longrightarrow> \<exists>st. st \<noteq> TX_SUCCESS \<and> tx_semaphore_get K l t k = Some (st, k)"
    and sem_put: "sem k l = Some (c, m) \<Longrightarrow> c < m \<Longrightarrow>
      sem (tx_semaphore_put K l k) = (sem k)(l \<mapsto> (Suc c, m)) \<and> queue (tx_semaphore_put K l k) = queue k"
    and sem_create: "tx_semaphore_create K p ct k = (st, k') \<Longrightarrow> live k' = live k \<and> queue k' = queue k
      \<and> sem k' = (if st = TX_SUCCESS then (sem k)(p \<mapsto> (unat ct, 2 ^ 32 - 1)) else sem k)"
    and irq_mask: "DisableGlobalIRQ K k = (pm, k') \<Longrightarrow> sem k' = sem k \<and> queue k' = queue k \<and> live k' = live k"
    and irq_restore: "sem (EnableGlobalIRQ K pm k) = sem k \<and> queue (EnableGlobalIRQ K pm k) = queue k
      \<and> live (EnableGlobalIRQ K pm k) = live k"
    and alloc: "MEM_BufferAlloc K sz k = (p, k') \<Longrightarrow> sem k' = sem k \<and> queue k' = queue k
      \<and> (if p = NULL then live k' = live k else p \<notin> live k \<and> live k' = insert p (live k))"
    and free: "live (MEM_BufferFree K p k) = live k - {p} \<and> sem (MEM_BufferFree K p k) = sem k
      \<and> queue (MEM_BufferFree K p k) = queue k"
    and queue_create: "tx_queue_create K q w buf sz k = (st, k') \<Longrightarrow> live k' = live k \<and> sem k' = sem k
      \<and> queue k' = (if st = TX_SUCCESS then (queue k)(q \<mapsto> ([], unat sz div (4 * unat w))) else queue k)"
    and queue_send: "queue k q = Some (xs, n) \<Longrightarrow> length xs < n \<Longrightarrow>
      \<exists>k'. tx_queue_send K q x t k = Some (TX_SUCCESS, k') \<and> queue k' = (queue k)(q \<mapsto> (xs @ [x], n)) \<and> sem k' = sem k"
    and queue_full: "queue k q = Some (xs, n) \<Longrightarrow> n \<le> length xs \<Longrightarrow>
      \<exists>st. st \<noteq> TX_SUCCESS \<and> tx_queue_send K q x 0 k = Some (st, k)"
    and queue_receive: "queue k q = Some (x # xs, n) \<Longrightarrow>
      \<exists>k'. tx_queue_receive K q y t k = Some (TX_SUCCESS, x, k') \<and> queue k' = (queue k)(q \<mapsto> (xs, n)) \<and> sem k' = sem k"
    and queue_empty: "queue k q = Some ([], n) \<Longrightarrow>
      \<exists>st. st \<noteq> TX_SUCCESS \<and> tx_queue_receive K q y 0 k = Some (st, y, k)"
    and queue_info: "queue k q = Some (xs, n) \<Longrightarrow> length xs < 2 ^ 31 \<Longrightarrow>
      tx_queue_info_get K q k = (TX_SUCCESS, of_nat (length xs))"

text \<open>The layer provides locks and queues as the library needs them.\<close>

lemma tx_ticks_0 [simp]: "tx_ticks K 0 = 0"
  by (simp add: tx_ticks_def)

sublocale threadx_kernel \<subseteq> locks: os_port "\<lambda>i. tx_in_isr K i \<noteq> 0" "tx_lock_mutex K" "tx_unlock_mutex K" sem queue
    "tx_port K side_a" platform_lock "\<lambda>pl. True"
  for side_a
proof (unfold_locales, goal_cases)
  case (3 i k l c m)
  then show ?case using sem_get [OF 3(2), of TX_WAIT_FOREVER] by (auto simp: tx_lock_mutex_def)
next
  case (8 e v)
  obtain b where b: "shl1 (19 - RL_GET_Q_ID v) = Some b" using shl1_notify by blast
  let ?pl = "mu_do (MU_TriggerInterrupts b) (os_plat e)"
  have "platform_lock ?pl = platform_lock (os_plat e)" by (simp add: mu_do_def)
  then show ?case using b
    by (intro disjI2 exI [of _ ?pl])
      (cases "tx_lock_mutex K (os_icsr e) (platform_lock (os_plat e)) (kern e)";
        simp add: tx_port_def tx_notify_def platform_notify_def Let_def Option.bind_eq_Some_conv split: bind_splits)
qed (auto simp: tx_lock_mutex_def tx_unlock_mutex_def sem_block sem_put tx_port_def
    platform_vatopa_def platform_patova_def)

sublocale threadx_kernel \<subseteq> queues: os_queue "tx_queue_port K" queue True
proof (unfold_locales, goal_cases)
  case (1 e q xs n m)
  then show ?case using queue_send [OF 1(1,2), of m 0] by (auto simp: tx_queue_port_def tx_put_queue_def)
next
  case (2 e q xs n m)
  then show ?case using queue_full [OF 2(1,2), of m] by (auto simp: tx_queue_port_def tx_put_queue_def)
next
  case (3 e q x xs n m t)
  then show ?case
    using queue_receive [OF 3(1), of m "if OS_BLOCK = t then TX_WAIT_FOREVER else tx_ticks K t"]
    by (auto simp: tx_queue_port_def tx_get_queue_def)
next
  case (4 e q n m)
  then show ?case using queue_empty [OF 4(1), of m] by (auto simp: tx_queue_port_def tx_get_queue_def)
next
  case (5 e q xs n)
  then show ?case
    using queue_info [OF 5(1,3)] msg_count_word [OF 5(3)]
    by (simp add: tx_queue_port_def tx_get_current_queue_size_def)
qed

context threadx_kernel
begin

lemmas tx_os_locks = locks.os_locks_axioms

lemmas tx_env_locks = locks.os_env_locks [simplified]

lemmas tx_env_queue = queues.os_env_queue

end

text \<open>The event flags groups: \<open>flags k g\<close> are the flags set in \<open>g\<close>.\<close>

locale threadx_events = threadx_kernel K sem queue live
  for K :: "'k tx" and sem :: "'k \<Rightarrow> ptr \<Rightarrow> (nat \<times> nat) option"
    and queue :: "'k \<Rightarrow> ptr \<Rightarrow> (rpmsg_queue_rx_cb_data list \<times> nat) option" and live :: "'k \<Rightarrow> ptr set" +
  fixes flags :: "'k \<Rightarrow> ptr \<Rightarrow> u32"
  assumes flags_set: "flags (tx_event_flags_set K g b k) = (flags k)(g := flags k g OR b)"
    and flags_get: "flags k g AND b = b \<Longrightarrow>
      \<exists>k'. tx_event_flags_get K g b t k = Some (TX_SUCCESS, k') \<and> flags k' = flags k"

section \<open>A kernel that meets the contracts\<close>

text \<open>
  A small kernel for concrete runs; \<open>tk_sem_ok\<close> says whether the creation of semaphores succeeds,
  \<open>tk_heap\<close> which blocks the memory manager has left.
\<close>

record tk =
  tk_sem :: "ptr \<Rightarrow> (nat \<times> nat) option"
  tk_queue :: "ptr \<Rightarrow> (rpmsg_queue_rx_cb_data list \<times> nat) option"
  tk_start :: "ptr \<Rightarrow> ptr"
  tk_flags :: "ptr \<Rightarrow> u32"
  tk_heap :: heap
  tk_sem_ok :: bool
  tk_mask :: u32
  tk_time :: u32

definition tk_live :: "tk \<Rightarrow> ptr set" where
  "tk_live k = set (hp_live (tk_heap k))"

definition tk_alloc :: "u32 \<Rightarrow> tk \<Rightarrow> ptr \<times> tk" where
  "tk_alloc n k = (let (p, h) = env_allocate_memory (tk_heap k) in (p, k\<lparr>tk_heap := h\<rparr>))"

definition tk_release :: "ptr \<Rightarrow> tk \<Rightarrow> tk" where
  "tk_release p k = k\<lparr>tk_heap := (tk_heap k)\<lparr>hp_live := removeAll p (hp_live (tk_heap k))\<rparr>\<rparr>"

definition tk_sem_create :: "ptr \<Rightarrow> u32 \<Rightarrow> tk \<Rightarrow> u32 \<times> tk" where
  "tk_sem_create p ct k =
     (if tk_sem_ok k then (TX_SUCCESS, k\<lparr>tk_sem := (tk_sem k)(p \<mapsto> (unat ct, 2 ^ 32 - 1))\<rparr>) else (0x0C, k))"

definition tk_sem_get :: "ptr \<Rightarrow> u32 \<Rightarrow> tk \<Rightarrow> (u32 \<times> tk) option" where
  "tk_sem_get l t k = (case tk_sem k l of
      Some (Suc c, m) \<Rightarrow> Some (TX_SUCCESS, k\<lparr>tk_sem := (tk_sem k)(l \<mapsto> (c, m))\<rparr>)
    | Some (0, m) \<Rightarrow> if t = TX_WAIT_FOREVER then None else Some (0x0D, k)
    | None \<Rightarrow> Some (0x0C, k))"

definition tk_sem_put :: "ptr \<Rightarrow> tk \<Rightarrow> tk" where
  "tk_sem_put l k = (case tk_sem k l of
      Some (c, m) \<Rightarrow> k\<lparr>tk_sem := (tk_sem k)(l \<mapsto> (Suc c, m))\<rparr> | None \<Rightarrow> k)"

definition tk_queue_create :: "ptr \<Rightarrow> u32 \<Rightarrow> ptr \<Rightarrow> u32 \<Rightarrow> tk \<Rightarrow> u32 \<times> tk" where
  "tk_queue_create q w buf n k =
     (if w = 0 \<or> w > 16 then (0x09, k)
      else (TX_SUCCESS, k\<lparr>tk_queue := (tk_queue k)(q \<mapsto> ([], unat n div (4 * unat w))),
                         tk_start := (tk_start k)(q := buf)\<rparr>))"

definition tk_send :: "ptr \<Rightarrow> rpmsg_queue_rx_cb_data \<Rightarrow> u32 \<Rightarrow> tk \<Rightarrow> (u32 \<times> tk) option" where
  "tk_send q x t k = (case tk_queue k q of
      Some (xs, n) \<Rightarrow>
        if length xs < n then Some (TX_SUCCESS, k\<lparr>tk_queue := (tk_queue k)(q \<mapsto> (xs @ [x], n))\<rparr>)
        else if t = TX_WAIT_FOREVER then None else Some (0x0B, k)
    | None \<Rightarrow> Some (0x09, k))"

definition tk_receive ::
  "ptr \<Rightarrow> rpmsg_queue_rx_cb_data \<Rightarrow> u32 \<Rightarrow> tk \<Rightarrow> (u32 \<times> rpmsg_queue_rx_cb_data \<times> tk) option" where
  "tk_receive q y t k = (case tk_queue k q of
      Some (x # xs, n) \<Rightarrow> Some (TX_SUCCESS, x, k\<lparr>tk_queue := (tk_queue k)(q \<mapsto> (xs, n))\<rparr>)
    | Some ([], n) \<Rightarrow> if t = TX_WAIT_FOREVER then None else Some (0x0A, y, k)
    | None \<Rightarrow> Some (0x09, y, k))"

definition ref_tx :: "tk tx" where
  "ref_tx =
     \<lparr>DisableGlobalIRQ = (\<lambda>k. (tk_mask k, k\<lparr>tk_mask := 1\<rparr>)), EnableGlobalIRQ = (\<lambda>pm k. k\<lparr>tk_mask := pm\<rparr>),
      MEM_BufferAlloc = tk_alloc, MEM_BufferFree = tk_release, clear_cb = (\<lambda>p k. k),
      tx_semaphore_create = tk_sem_create, tx_semaphore_delete = (\<lambda>l k. k\<lparr>tk_sem := (tk_sem k)(l := None)\<rparr>),
      tx_semaphore_get = tk_sem_get, tx_semaphore_put = tk_sem_put,
      tx_event_flags_create = (\<lambda>g k. k\<lparr>tk_flags := (tk_flags k)(g := 0)\<rparr>), tx_event_flags_delete = (\<lambda>g k. k),
      tx_event_flags_get = (\<lambda>g b t k. if tk_flags k g AND b = b then Some (TX_SUCCESS, k)
        else if t = TX_WAIT_FOREVER then None else Some (7, k)),
      tx_event_flags_set = (\<lambda>g b k. k\<lparr>tk_flags := (tk_flags k)(g := tk_flags k g OR b)\<rparr>),
      tx_queue_create = tk_queue_create, tx_queue_delete = (\<lambda>q k. k\<lparr>tk_queue := (tk_queue k)(q := None)\<rparr>),
      tx_queue_start = (\<lambda>q k. tk_start k q), tx_queue_send = tk_send, tx_queue_receive = tk_receive,
      tx_queue_info_get = (\<lambda>q k. case tk_queue k q of Some (xs, n) \<Rightarrow> (TX_SUCCESS, of_nat (length xs)) | None \<Rightarrow> (0x09, 0)),
      tx_thread_sleep = (\<lambda>n k. k\<lparr>tk_time := tk_time k + n\<rparr>), tx_time_get = tk_time,
      TX_TIMER_TICKS_PER_SECOND = 100, sizeof_TX_SEMAPHORE = 28, sizeof_TX_QUEUE = 60, tx_VECTACTIVE_Msk = 0x1FF\<rparr>"

lemmas tk_defs = tk_live_def tk_alloc_def tk_release_def tk_sem_create_def tk_sem_get_def tk_sem_put_def
  tk_queue_create_def tk_send_def tk_receive_def

interpretation ref_tx: threadx_kernel ref_tx tk_sem tk_queue tk_live
proof (unfold_locales, goal_cases)
  case (8 n k p k')
  then show ?case
    by (auto simp: ref_tx_def tk_defs env_allocate_memory_def Let_def split: list.splits if_splits)
next
  case (10 q w buf n k st k')
  then show ?case by (auto simp: ref_tx_def tk_defs split: if_splits)
qed (auto simp: ref_tx_def tk_defs split: if_splits)

interpretation ref_tx: threadx_events ref_tx tk_sem tk_queue tk_live tk_flags
  by unfold_locales (auto simp: ref_tx_def)

definition tk0 :: "ptr list \<Rightarrow> tk" where
  "tk0 blocks = \<lparr>tk_sem = \<lambda>l. None, tk_queue = \<lambda>q. None, tk_start = \<lambda>q. NULL, tk_flags = \<lambda>g. 0,
     tk_heap = \<lparr>hp_next = blocks, hp_live = []\<rparr>, tk_sem_ok = True, tk_mask = 0, tk_time = 0\<rparr>"

section \<open>Waiting for the link and timeouts\<close>

text \<open>The accesses of a task that waits for link \<open>link_id\<close>, and the callbacks of the other links.\<close>

abbreviation tx_link_step ::
  "'k tx \<Rightarrow> u32 \<Rightarrow> u32 \<Rightarrow> u32 \<Rightarrow> 'k tx_env \<times> u32 \<times> wait_pc \<times> isr_pc \<Rightarrow> 'k tx_env \<times> u32 \<times> wait_pc \<times> isr_pc \<Rightarrow> bool" where
  "tx_link_step K link_id lbit timeout_ms \<equiv>
     link_step Some (tx_wait_end K lbit timeout_ms) (tx_tx_callback K link_id)
       (\<lambda>e e'. \<exists>j. tx_tx_callback K j e = Some e')"

context threadx_events
begin

lemma tx_callback_flags:
  assumes "tx_tx_callback K link_id e = Some e'"
  shows "\<exists>b. shl1 link_id = Some b \<and> event_group e' = event_group e
    \<and> flags (kern e') = (flags (kern e))(event_group e := flags (kern e) (event_group e) OR b)"
  using assms by (auto simp: tx_tx_callback_def flags_set bind_eq_Some_conv)

lemma tx_link_flag:
  assumes "shl1 link_id = Some lbit"
  shows "link_flag (tx_tx_callback K link_id) (\<lambda>e e'. \<exists>j. tx_tx_callback K j e = Some e')
    (\<lambda>e. flags (kern e) (event_group e) AND lbit = lbit)"
proof
  fix e e' assume "tx_tx_callback K link_id e = Some e'"
  from tx_callback_flags [OF this] assms show "flags (kern e') (event_group e') AND lbit = lbit"
    by (simp add: word_ao_absorbs)
next
  fix e e' assume "\<exists>j. tx_tx_callback K j e = Some e'" and b: "flags (kern e) (event_group e) AND lbit = lbit"
  then obtain j c where "flags (kern e') (event_group e') = flags (kern e) (event_group e) OR c"
    using tx_callback_flags by fastforce
  then show "flags (kern e') (event_group e') AND lbit = lbit" using or_and_keep [OF b] by simp
qed

lemma tx_wait_end_set:
  assumes "flags (kern e) (event_group e) AND lbit = lbit"
  shows "\<exists>k. tx_wait_end K lbit timeout_ms e = Some (1, e\<lparr>kern := k\<rparr>) \<and> flags k = flags (kern e)"
  using flags_get [OF assms, of "if OS_BLOCK = timeout_ms then TX_WAIT_FOREVER else tx_ticks K timeout_ms"]
  by (auto simp: tx_wait_end_def)

end

text \<open>
  With ThreadX no wake-up is lost either: wherever the interrupt falls between the reads and
  writes of \<open>env_wait_for_link_up\<close>, a task that gets to its wait after the handler finished does not
  wait, and whatever the other links do it reports that the link is up. The event of the link
  stays set, so a later call for the same link reports it as up without waiting even if
  \<open>link_state\<close> has been reset to 0 in between.
\<close>

theorem tx_wait_not_lost:
  assumes "threadx_events K sem queue live flags" and "shl1 link_id = Some lbit"
    and "(tx_link_step K link_id lbit timeout_ms)\<^sup>*\<^sup>* (e0, ls0, W_begin, I_state) (e, ls, W_wait, I_done)"
  shows "\<exists>e' e''. tx_wait_end K lbit timeout_ms e = Some (1, e')
    \<and> tx_wait_for_link_up K (\<lambda>k. 0) link_id timeout e' = Some (1, e'')"
proof -
  have b: "flags (kern e) (event_group e) AND lbit = lbit"
    using link_flag.link_reach_inv [OF threadx_events.tx_link_flag [OF assms(1,2)] assms(3)] by simp
  obtain k where k: "tx_wait_end K lbit timeout_ms e = Some (1, e\<lparr>kern := k\<rparr>)" "flags k = flags (kern e)"
    using threadx_events.tx_wait_end_set [OF assms(1) b] by blast
  have "flags (kern (e\<lparr>kern := k\<rparr>)) (event_group (e\<lparr>kern := k\<rparr>)) AND lbit = lbit" using b k(2) by simp
  from threadx_events.tx_wait_end_set [OF assms(1) this] k(1) assms(2) show ?thesis
    by (auto simp: tx_wait_for_link_up_def)
qed

definition tx_ex :: "tk \<Rightarrow> tk tx_env" where
  "tx_ex k = \<lparr>os_init_counter = 0, os_isr_table = replicate 32 NULL, env_sema = 0x10, event_group = 0x20,
     os_plat = \<lparr>isr_counter = 0, disable_counter = 0, platform_lock = NULL, lock_var = 0x34, primask = False, mu_log = []\<rparr>,
     os_icsr = 0, kern = k\<rparr>"

text \<open>The wait for link 0 while the callback of link 1 comes first.\<close>

lemma tx_wait_not_lost_witness:
  "\<exists>e e' e''. (tx_link_step ref_tx 0 1 OS_BLOCK)\<^sup>*\<^sup>* (tx_ex (tk0 []), 0, W_begin, I_state) (e, 1, W_wait, I_done)
     \<and> tx_wait_end ref_tx 1 OS_BLOCK e = Some (1, e') \<and> tx_wait_for_link_up ref_tx (\<lambda>k. 0) 0 0 e' = Some (1, e'')"
proof -
  let ?step = "tx_link_step ref_tx 0 1 OS_BLOCK"
  define e1 where "e1 = (tx_ex (tk0 []))\<lparr>kern := (tk0 [])\<lparr>tk_flags := (\<lambda>g. 0)(0x20 := 2)\<rparr>\<rparr>"
  define e2 where "e2 = (tx_ex (tk0 []))\<lparr>kern := (tk0 [])\<lparr>tk_flags := (\<lambda>g. 0)(0x20 := 3)\<rparr>\<rparr>"
  have "tx_tx_callback ref_tx 1 (tx_ex (tk0 [])) = Some e1"
    by (simp add: tx_tx_callback_def shl1_def ref_tx_def tx_ex_def tk0_def e1_def)
  then have s1: "?step (tx_ex (tk0 []), 0, W_read, I_state) (e1, 0, W_read, I_state)"
    by (intro link_step.other) blast
  have a: "?step (tx_ex (tk0 []), 0, W_begin, I_state) (tx_ex (tk0 []), 0, W_read, I_state)"
    by (rule link_step.clear) simp
  have s2: "?step (e1, 0, W_read, I_state) (e1, 0, W_wait, I_state)" by (rule link_step.down) simp
  have s3: "?step (e1, 0, W_wait, I_state) (e1, 1, W_wait, I_bits)" by (rule link_step.isr_state)
  have s4: "?step (e1, 1, W_wait, I_bits) (e2, 1, W_wait, I_done)"
    by (rule link_step.isr_bits) (simp add: tx_tx_callback_def shl1_def ref_tx_def tx_ex_def tk0_def e1_def e2_def)
  have r: "?step\<^sup>*\<^sup>* (tx_ex (tk0 []), 0, W_begin, I_state) (e2, 1, W_wait, I_done)"
    using a s1 s2 s3 s4 by (meson converse_rtranclp_into_rtranclp rtranclp.rtrancl_refl)
  have "shl1 0 = Some 1" by (simp add: shl1_def)
  from tx_wait_not_lost [OF ref_tx.threadx_events_axioms this r, of 0] r show ?thesis by blast
qed

lemma ms_split: "(m div 1000) * T + (m mod 1000) * T div 1000 = m * T div (1000 :: nat)"
proof -
  have "m * T = (1000 * (m div 1000) + m mod 1000) * T" by simp
  also have "\<dots> = (m mod 1000) * T + 1000 * ((m div 1000) * T)" by (simp only: algebra_simps)
  finally have "m * T = (m mod 1000) * T + 1000 * ((m div 1000) * T)" .
  then show ?thesis by simp
qed

text \<open>
  The two conversions of milliseconds to ticks. The one of \<open>env_sleep_msec\<close> gives
  \<open>floor (ms * ticks_per_second / 1000)\<close> whenever that number fits 32 bits. The one of the
  timeouts gives the same as long as the product fits 32 bits, and otherwise fewer ticks: a wait
  for about twelve hours at 100 ticks per second can end at once.
\<close>

theorem tx_timeout_ticks:
  assumes "unat (TX_TIMER_TICKS_PER_SECOND K) \<le> 4294967"
    and "unat ms * unat (TX_TIMER_TICKS_PER_SECOND K) div 1000 < 2 ^ 32"
  shows "unat (tx_sleep_ticks K ms) = unat ms * unat (TX_TIMER_TICKS_PER_SECOND K) div 1000
    \<and> (if unat ms * unat (TX_TIMER_TICKS_PER_SECOND K) < 2 ^ 32
       then tx_ticks K ms = tx_sleep_ticks K ms else tx_ticks K ms < tx_sleep_ticks K ms)"
proof -
  define m and T where "m = unat ms" and "T = unat (TX_TIMER_TICKS_PER_SECOND K)"
  have T: "T \<le> 4294967" "m * T div 1000 < 2 ^ 32" using assms by (simp_all add: m_def T_def)
  have a: "(m div 1000) * T < 2 ^ 32" using ms_split [of m T] T(2) by linarith
  have "(m mod 1000) * T \<le> 999 * 4294967" by (rule mult_le_mono) (use T(1) in \<open>auto simp: less_Suc_eq_le [symmetric]\<close>)
  then have b: "(m mod 1000) * T < 2 ^ 32" by simp
  have d: "unat ((ms div 1000) * TX_TIMER_TICKS_PER_SECOND K) = (m div 1000) * T"
    using a unat_mult_lem [of "ms div 1000" "TX_TIMER_TICKS_PER_SECOND K"] by (simp add: unat_div m_def T_def)
  have r: "unat ((ms mod 1000) * TX_TIMER_TICKS_PER_SECOND K div 1000) = (m mod 1000) * T div 1000"
    using b by (simp add: unat_word_ariths unat_div unat_mod m_def T_def)
  have s: "unat (tx_sleep_ticks K ms) = m * T div 1000"
    unfolding tx_sleep_ticks_def unat_word_ariths(1) d r ms_split using T(2) by simp
  have t: "unat (tx_ticks K ms) = (m * T mod 2 ^ 32) div 1000"
    by (simp add: tx_ticks_def unat_div unat_word_ariths m_def T_def)
  have "tx_ticks K ms < tx_sleep_ticks K ms" if "\<not> m * T < 2 ^ 32"
  proof -
    have "m * T mod 2 ^ 32 + 1000 \<le> m * T" using that le_mod_geq [of "2 ^ 32" "m * T"] mod_less_eq_dividend [of "m * T - 2 ^ 32" "2 ^ 32"] by simp
    then have "(m * T mod 2 ^ 32 + 1000) div 1000 \<le> m * T div 1000" by (rule div_le_mono)
    then show ?thesis using s t by (simp add: word_less_nat_alt)
  qed
  moreover have "tx_ticks K ms = tx_sleep_ticks K ms" if "m * T < 2 ^ 32"
    using s t that by (simp add: word_unat_eq_iff)
  ultimately show ?thesis using s by (simp add: m_def T_def)
qed

lemma tx_timeout_ticks_witness:
  "tx_sleep_ticks ref_tx 42949673 = 4294967 \<and> tx_ticks ref_tx 42949673 < tx_sleep_ticks ref_tx 42949673
    \<and> tx_ticks ref_tx 42949673 = 0"
proof -
  have T: "TX_TIMER_TICKS_PER_SECOND ref_tx = 100" by (simp add: ref_tx_def)
  have "tx_sleep_ticks ref_tx 42949673 = 4294967" "tx_ticks ref_tx 42949673 = 0"
    unfolding tx_sleep_ticks_def tx_ticks_def T by simp_all
  then show ?thesis using tx_timeout_ticks [of ref_tx 42949673] unfolding T by simp
qed

section \<open>Errors\<close>

lemma queue_capacity:
  assumes "0 \<le> len" "0 < esz" "len * esz \<le> 0x7FFFFFFF"
  shows "unat (word_of_int len * word_of_int esz :: u32) div (4 * unat (word_of_int esz div 4 :: u32))
    = nat (len * esz) div (4 * nat (esz div 4))"
proof -
  have u: "unat (word_of_int n :: u32) = nat n" if "0 \<le> n" "n \<le> 0x7FFFFFFF" for n
    using that by (simp add: unat_eq_nat_uint uint_word_of_int)
  have n: "unat (word_of_int len * word_of_int esz :: u32) = nat (len * esz)"
    using u [of "len * esz"] assms by (simp flip: wi_hom_mult)
  show ?thesis
  proof (cases "len = 0")
    case False
    then have "1 * esz \<le> len * esz" using assms by (intro mult_right_mono) simp_all
    then have "esz \<le> 0x7FFFFFFF" using assms(3) by simp
    then have "unat (word_of_int esz div 4 :: u32) = nat (esz div 4)"
      using u [of esz] assms(2) by (simp add: unat_div nat_div_distrib)
    then show ?thesis using n by simp
  qed (simp add: n)
qed

context threadx_kernel
begin

lemma create_queue_blocks:
  assumes "0 \<le> len" "0 < esz" "len * esz \<le> 0x7FFFFFFF"
    and "MEM_BufferAlloc K (sizeof_TX_QUEUE K) k = (p, k1)" "MEM_BufferAlloc K (word_of_int (len * esz)) k1 = (b, k2)"
  shows "\<exists>st q k'. tx_create_queue K old len esz k = Some (st, q, k')
    \<and> live k' = live k \<union> queue_blocks (st = 0) p b \<and> sem k' = sem k
    \<and> (if st = 0 then q = p \<and> p \<noteq> NULL \<and> b \<noteq> NULL
         \<and> queue k' = (queue k)(q \<mapsto> ([], nat (len * esz) div (4 * nat (esz div 4))))
       else st = -1 \<and> q = old \<and> queue k' = queue k)"
proof -
  note a = alloc [OF assms(4)] alloc [OF assms(5)]
  have lim: "\<not> len > 0x7FFFFFFF div esz" using int_div_limit [OF assms(2), of "0x7FFFFFFF" len] assms(3) by simp
  obtain st k3 where c: "tx_queue_create K p (word_of_int esz div 4) b (word_of_int len * word_of_int esz) k2 = (st, k3)"
    by fastforce
  note cr = queue_create [OF c, unfolded queue_capacity [OF assms(1-3)]]
  have e: "tx_create_queue K old len esz k =
      (if p = NULL \<or> b = NULL then Some (-1, old, k2)
       else if st = TX_SUCCESS then Some (0, p, k3)
       else Some (-1, old, MEM_BufferFree K p (MEM_BufferFree K b k3)))"
    using assms lim c by (simp add: tx_create_queue_def tx_allocate_memory_def tx_free_memory_def)
  show ?thesis
  proof (cases "p = NULL \<or> b = NULL")
    case True
    then show ?thesis using a unfolding e by (auto simp: queue_blocks_def split: if_splits)
  next
    case False
    then show ?thesis using a cr free unfolding e by (auto simp: queue_blocks_def split: if_splits)
  qed
qed

end

text \<open>
  The function \<open>env_create_queue\<close> on every branch. Its result is undefined exactly when the size of an
  element is 0; a negative argument or a product beyond \<open>INT32_MAX\<close> is refused with nothing
  allocated. Otherwise it asks for a control block \<open>p\<close> and a buffer \<open>b\<close>: if it gets both and the
  kernel accepts them there is a new empty queue with room for the messages and both are in
  use; if the kernel refuses, both are freed again; if only one of the two was available it stays
  allocated although the call fails. In these failures the queue variable is not written.
\<close>

theorem tx_create_queue_spec:
  assumes "threadx_kernel K sem queue live"
  shows "case tx_create_queue K old len esz k of
      None \<Rightarrow> esz = 0 \<and> 0 \<le> len
    | Some (st, q, k') \<Rightarrow>
        if len < 0 \<or> esz < 0 then st = -1 \<and> q = NULL \<and> k' = k
        else if len * esz > 0x7FFFFFFF then st = -1 \<and> q = old \<and> k' = k
        else \<exists>p k1 b k2. MEM_BufferAlloc K (sizeof_TX_QUEUE K) k = (p, k1)
          \<and> MEM_BufferAlloc K (word_of_int (len * esz)) k1 = (b, k2)
          \<and> live k' = live k \<union> queue_blocks (st = 0) p b \<and> sem k' = sem k
          \<and> (if st = 0 then q = p \<and> p \<noteq> NULL \<and> b \<noteq> NULL
               \<and> queue k' = (queue k)(q \<mapsto> ([], nat (len * esz) div (4 * nat (esz div 4))))
             else st = -1 \<and> q = old \<and> queue k' = queue k)"
proof -
  consider "len < 0 \<or> esz < 0" | "0 \<le> len" "esz = 0" | "0 \<le> len" "0 < esz" "len * esz > 0x7FFFFFFF"
    | "0 \<le> len" "0 < esz" "len * esz \<le> 0x7FFFFFFF" by linarith
  then show ?thesis
  proof cases
    case 3
    then have "len > 0x7FFFFFFF div esz" using int_div_limit [of esz "0x7FFFFFFF" len] by simp
    then show ?thesis using 3 by (simp add: tx_create_queue_def)
  next
    case 4
    obtain p k1 b k2 where ab: "MEM_BufferAlloc K (sizeof_TX_QUEUE K) k = (p, k1)"
      "MEM_BufferAlloc K (word_of_int (len * esz)) k1 = (b, k2)" by (metis surj_pair)
    have n: "\<not> (len < 0 \<or> esz < 0)" "\<not> len * esz > 0x7FFFFFFF" using 4 by simp_all
    obtain st q k' where r: "tx_create_queue K old len esz k = Some (st, q, k')" and
      "live k' = live k \<union> queue_blocks (st = 0) p b \<and> sem k' = sem k
        \<and> (if st = 0 then q = p \<and> p \<noteq> NULL \<and> b \<noteq> NULL
             \<and> queue k' = (queue k)(q \<mapsto> ([], nat (len * esz) div (4 * nat (esz div 4))))
           else st = -1 \<and> q = old \<and> queue k' = queue k)"
      using threadx_kernel.create_queue_blocks [OF assms 4 ab, of old] by blast
    with ab show ?thesis
      unfolding r option.case prod.case if_not_P [OF n(1)] if_not_P [OF n(2)] by blast
  qed (auto simp: tx_create_queue_def)
qed

text \<open>The block for the queue is there, the one for its buffer is not: the first is lost.\<close>

lemma tx_create_queue_spec_witness:
  "\<exists>k'. tx_create_queue ref_tx 7 4 12 (tk0 [0x100]) = Some (-1, 7, k') \<and> tk_live k' = {0x100}"
proof -
  have a: "MEM_BufferAlloc ref_tx (sizeof_TX_QUEUE ref_tx) (tk0 [0x100]) =
      (0x100, (tk0 [0x100])\<lparr>tk_heap := \<lparr>hp_next = [], hp_live = [0x100]\<rparr>\<rparr>)"
    "MEM_BufferAlloc ref_tx 48 ((tk0 [0x100])\<lparr>tk_heap := \<lparr>hp_next = [], hp_live = [0x100]\<rparr>\<rparr>) =
      (NULL, (tk0 [0x100])\<lparr>tk_heap := \<lparr>hp_next = [], hp_live = [0x100]\<rparr>\<rparr>)"
    by (simp_all add: ref_tx_def tk_alloc_def tk0_def env_allocate_memory_def)
  have l: "tk_live (tk0 [0x100]) = {}" by (simp add: tk_live_def tk0_def)
  show ?thesis
    using tx_create_queue_spec [OF ref_tx.threadx_kernel_axioms, where old = 7 and len = 4 and esz = 12 and k = "tk0 [0x100]"] a l
    by (auto simp: queue_blocks_def split: option.splits if_splits)
qed

text \<open>
  A failed initialisation is not undone. If the kernel cannot create the semaphore of the layer,
  \<open>env_init\<close> returns -1 but keeps its counter, so the next call takes the branch of a second user:
  it ignores the error of the missing semaphore and returns 0, although the platform was never
  initialised and the table of interrupt handlers never cleared.
\<close>

theorem tx_init_retry:
  assumes "threadx_kernel K sem queue live"
    and "os_init_counter e = 0" and "sem (kern e) (env_sema e) = None"
    and "DisableGlobalIRQ K (kern e) = (pm, k1)" and "tx_semaphore_create K (env_sema e) 0 k1 = (st, k2)"
    and "st \<noteq> TX_SUCCESS"
  shows "\<exists>e1 e2. tx_env_init K e = Some (-1, e1) \<and> tx_env_init K e1 = Some (0, e2)
    \<and> os_init_counter e2 = 2 \<and> os_plat e2 = os_plat e \<and> os_isr_table e2 = os_isr_table e"
proof -
  define e1 where "e1 = e\<lparr>os_init_counter := 1, kern := EnableGlobalIRQ K pm k2\<rparr>"
  have i1: "tx_env_init K e = Some (-1, e1)"
    using assms(2,4-6) by (simp add: tx_env_init_def e1_def)
  have s1: "sem (kern e1) (env_sema e1) = None"
    using threadx_kernel.irq_mask [OF assms(1,4)] threadx_kernel.sem_create [OF assms(1,5)]
      threadx_kernel.irq_restore [OF assms(1), of pm k2] assms(3,6) by (simp add: e1_def)
  obtain pm2 k3 where d: "DisableGlobalIRQ K (kern e1) = (pm2, k3)" by fastforce
  have "sem (EnableGlobalIRQ K pm2 k3) (env_sema e1) = None"
    using threadx_kernel.irq_mask [OF assms(1) d] threadx_kernel.irq_restore [OF assms(1), of pm2 k3] s1 by simp
  from threadx_kernel.sem_none [OF assms(1) this, of TX_WAIT_FOREVER] obtain st2 where
    g: "st2 \<noteq> TX_SUCCESS" "tx_semaphore_get K (env_sema e1) TX_WAIT_FOREVER (EnableGlobalIRQ K pm2 k3)
      = Some (st2, EnableGlobalIRQ K pm2 k3)" by blast
  have c: "os_init_counter e1 = 1" by (simp add: e1_def)
  have "tx_env_init K e1 = Some (0, e1\<lparr>os_init_counter := 2, kern := EnableGlobalIRQ K pm2 k3\<rparr>)"
    using d g c by (simp add: tx_env_init_def)
  then show ?thesis using i1 by (auto simp: e1_def)
qed

lemma tx_init_retry_witness:
  "\<exists>e1 e2. tx_env_init ref_tx (tx_ex ((tk0 [])\<lparr>tk_sem_ok := False\<rparr>)) = Some (-1, e1)
    \<and> tx_env_init ref_tx e1 = Some (0, e2) \<and> platform_lock (os_plat e2) = NULL"
proof -
  let ?k = "(tk0 [])\<lparr>tk_sem_ok := False\<rparr>"
  have "DisableGlobalIRQ ref_tx (kern (tx_ex ?k)) = (0, ?k\<lparr>tk_mask := 1\<rparr>)"
    "tx_semaphore_create ref_tx (env_sema (tx_ex ?k)) 0 (?k\<lparr>tk_mask := 1\<rparr>) = (0x0C, ?k\<lparr>tk_mask := 1\<rparr>)"
    by (simp_all add: ref_tx_def tx_ex_def tk0_def tk_sem_create_def)
  from tx_init_retry [OF ref_tx.threadx_kernel_axioms _ _ this] show ?thesis
    by (fastforce simp: tx_ex_def tk0_def)
qed

end
