(* ===== verification/Platform_Ipm.thy ===== *)
theory Platform_Ipm
  imports Platform_Imxrt1170
begin

text \<open>
  The platform layer of the i.MX RT1170 under Zephyr
  (\<^verbatim>\<open>lib/rpmsg_lite/porting/platform/imxrt1170/rpmsg_platform_zephyr_ipm.c\<close>): the cores signal each
  other through the driver of an inter-processor mailbox (\<open>ipm\<close>). The driver is not part of the
  repository: the model records the calls, with their arguments and in their order. As in
  \<open>Platform_Imxrt1170\<close> the functions of the environment layer are arguments.
\<close>

section \<open>State\<close>

text \<open>
  \<open>ipm_handle\<close> is the device, NULL when the board has none. \<open>ipm_send\<close> is the call with the identifier 0,
  \<open>ipm_send_on\<close> the one with another identifier.
\<close>

datatype ipm_call =
    ipm_set_enabled bool
  | ipm_send u32
  | ipm_send_on u32 u32
  | ipm_register_callback

record ipm_plat =
  ip_isr_counter :: int
  ip_disable_counter :: int
  ip_platform_lock :: ptr
  ip_lock_var :: ptr
  ipm_handle :: ptr
  ip_primask :: bool
  ipm_log :: "ipm_call list"

definition ipm_do :: "ipm_call \<Rightarrow> ipm_plat \<Rightarrow> ipm_plat" where
  "ipm_do c pl = pl\<lparr>ipm_log := ipm_log pl @ [c]\<rparr>"

abbreviation (input) RL_PLATFORM_IMXRT1170_M7_M4_LINK_ID :: u32 where
  "RL_PLATFORM_IMXRT1170_M7_M4_LINK_ID \<equiv> 0"

section \<open>Interrupts\<close>

text \<open>\<open>data\<close> is the word the other core sent, \<open>isr\<close> the environment's \<open>env_isr\<close>.\<close>

definition platform_ipm_callback :: "(u32 \<Rightarrow> 's \<Rightarrow> 's option) \<Rightarrow> u32 \<Rightarrow> 's \<Rightarrow> 's option" where
  "platform_ipm_callback isr data s =
     do { s \<leftarrow> (if data AND 0x01 \<noteq> 0 then isr 0 s else Some s);
          (if data AND 0x02 \<noteq> 0 then isr 1 s else Some s) }"

definition ipm_global_isr_disable :: "ipm_plat \<Rightarrow> ipm_plat" where
  "ipm_global_isr_disable pl = pl\<lparr>ip_primask := True\<rparr>"

definition ipm_global_isr_enable :: "ipm_plat \<Rightarrow> ipm_plat" where
  "ipm_global_isr_enable pl = pl\<lparr>ip_primask := False\<rparr>"

definition ipm_init_interrupt ::
  "(u32 \<Rightarrow> ptr \<Rightarrow> 'e \<Rightarrow> 'e option) \<Rightarrow> (ptr \<Rightarrow> 'e \<Rightarrow> 'e option) \<Rightarrow> (ptr \<Rightarrow> 'e \<Rightarrow> 'e option)
    \<Rightarrow> u32 \<Rightarrow> ptr \<Rightarrow> ipm_plat \<times> 'e \<Rightarrow> (int \<times> ipm_plat \<times> 'e) option" where
  "ipm_init_interrupt register_isr lock unlock vector_id isr_data s =
     (let (pl, e) = s
      in do {
        e \<leftarrow> register_isr vector_id isr_data e;
        e \<leftarrow> lock (ip_platform_lock pl) e;
        rl_assert (0 \<le> ip_isr_counter pl);
        let pl = pl\<lparr>ip_isr_counter := ip_isr_counter pl + 1\<rparr>;
        e \<leftarrow> unlock (ip_platform_lock pl) e;
        Some (0, pl, e) })"

definition ipm_deinit_interrupt ::
  "(u32 \<Rightarrow> 'e \<Rightarrow> 'e option) \<Rightarrow> (ptr \<Rightarrow> 'e \<Rightarrow> 'e option) \<Rightarrow> (ptr \<Rightarrow> 'e \<Rightarrow> 'e option)
    \<Rightarrow> u32 \<Rightarrow> ipm_plat \<times> 'e \<Rightarrow> (int \<times> ipm_plat \<times> 'e) option" where
  "ipm_deinit_interrupt unregister_isr lock unlock vector_id s =
     (let (pl, e) = s
      in do {
        e \<leftarrow> lock (ip_platform_lock pl) e;
        rl_assert (0 < ip_isr_counter pl);
        let pl = pl\<lparr>ip_isr_counter := ip_isr_counter pl - 1\<rparr>;
        let pl = (if ip_isr_counter pl = 0 \<and> ipm_handle pl \<noteq> NULL then ipm_do (ipm_set_enabled False) pl else pl);
        e \<leftarrow> unregister_isr vector_id e;
        e \<leftarrow> unlock (ip_platform_lock pl) e;
        Some (0, pl, e) })"

text \<open>\<open>RL_GET_Q_ID\<close> is 0 or 1, so the shift of the signed 1 stays in range.\<close>

definition ipm_notify ::
  "(ptr \<Rightarrow> 'e \<Rightarrow> 'e option) \<Rightarrow> (ptr \<Rightarrow> 'e \<Rightarrow> 'e option) \<Rightarrow> u32 \<Rightarrow> ipm_plat \<times> 'e \<Rightarrow> (ipm_plat \<times> 'e) option" where
  "ipm_notify lock unlock vector_id s =
     (let (pl, e) = s
      in if RL_GET_LINK_ID vector_id = RL_PLATFORM_IMXRT1170_M7_M4_LINK_ID
         then do {
           e \<leftarrow> lock (ip_platform_lock pl) e;
           let data = push_bit (unat (RL_GET_Q_ID vector_id)) 1;
           rl_assert (ipm_handle pl \<noteq> NULL);
           let pl = ipm_do (ipm_send data) pl;
           e \<leftarrow> unlock (ip_platform_lock pl) e;
           Some (pl, e) }
         else Some (pl, e))"

definition ipm_interrupt_enable :: "u32 \<Rightarrow> ipm_plat \<Rightarrow> (int \<times> ipm_plat) option" where
  "ipm_interrupt_enable vector_id pl =
     do { rl_assert (0 < ip_disable_counter pl);
          let pl = ipm_global_isr_disable pl;
          let pl = pl\<lparr>ip_disable_counter := ip_disable_counter pl - 1\<rparr>;
          let pl = (if ip_disable_counter pl = 0 \<and> ipm_handle pl \<noteq> NULL then ipm_do (ipm_set_enabled True) pl else pl);
          Some (0, ipm_global_isr_enable pl) }"

definition ipm_interrupt_disable :: "u32 \<Rightarrow> ipm_plat \<Rightarrow> (int \<times> ipm_plat) option" where
  "ipm_interrupt_disable vector_id pl =
     do { rl_assert (0 \<le> ip_disable_counter pl);
          let pl = ipm_global_isr_disable pl;
          let pl = (if ip_disable_counter pl = 0 \<and> ipm_handle pl \<noteq> NULL then ipm_do (ipm_set_enabled False) pl else pl);
          let pl = pl\<lparr>ip_disable_counter := ip_disable_counter pl + 1\<rparr>;
          Some (0, ipm_global_isr_enable pl) }"

definition ipm_in_isr :: "(u32 \<Rightarrow> bool) \<Rightarrow> u32 \<Rightarrow> int" where
  "ipm_in_isr k_is_in_isr icsr = (if k_is_in_isr icsr then 1 else 0)"

definition ipm_vatopa :: "ptr \<Rightarrow> u32" where
  "ipm_vatopa a = a"

definition ipm_patova :: "u32 \<Rightarrow> ptr" where
  "ipm_patova a = a"

section \<open>Initialisation\<close>

definition ipm_init ::
  "(ptr \<Rightarrow> int \<Rightarrow> 'e \<Rightarrow> int \<times> ptr \<times> 'e) \<Rightarrow> ipm_plat \<times> 'e \<Rightarrow> int \<times> ipm_plat \<times> 'e" where
  "ipm_init create_mutex s =
     (let (pl, e) = s
      in if ipm_handle pl = NULL then (-1, pl, e)
         else let pl = ipm_do ipm_register_callback pl;
                  (st, l, e) = create_mutex (ip_lock_var pl) 1 e;
                  pl = pl\<lparr>ip_platform_lock := l\<rparr>
              in if st \<noteq> 0 then (-1, pl, e) else (0, pl, e))"

definition ipm_deinit :: "(ptr \<Rightarrow> 'e \<Rightarrow> 'e) \<Rightarrow> ipm_plat \<times> 'e \<Rightarrow> int \<times> ipm_plat \<times> 'e" where
  "ipm_deinit delete_mutex s =
     (let (pl, e) = s; e = delete_mutex (ip_platform_lock pl) e
      in (0, pl\<lparr>ip_platform_lock := NULL\<rparr>, e))"

section \<open>The way of a notification\<close>

text \<open>The words a core sent, in their order.\<close>

fun ipm_sent :: "ipm_call list \<Rightarrow> u32 list" where
  "ipm_sent [] = []"
| "ipm_sent (ipm_send d # cs) = d # ipm_sent cs"
| "ipm_sent (c # cs) = ipm_sent cs"

lemma ipm_sent_append: "ipm_sent (cs @ ds) = ipm_sent cs @ ipm_sent ds"
  by (induction cs rule: ipm_sent.induct) simp_all

text \<open>The word sent for a vector makes the callback of the other core run the handler of its queue, once.\<close>

lemma ipm_callback_word:
  "platform_ipm_callback isr (2 ^ unat (RL_GET_Q_ID v)) s = isr (RL_GET_Q_ID v) s"
  using q_id_cases [of v] by (auto simp: platform_ipm_callback_def)

text \<open>
  Under Zephyr a notification of the other core sends one word, and the callback of
  the other core that gets this word runs exactly the interrupt handler of the queue that
  was notified; vectors of links that the port does not have send nothing. Both need the
  mailbox device and a lock that can be taken and released.
\<close>

theorem ipm_notify_routed:
  assumes "ipm_handle pl \<noteq> NULL" and "lock (ip_platform_lock pl) e = Some e1" and "unlock (ip_platform_lock pl) e1 = Some e2"
  shows "if RL_GET_LINK_ID v = 0
    then \<exists>pl' d. ipm_notify lock unlock v (pl, e) = Some (pl', e2)
      \<and> ipm_sent (ipm_log pl') = ipm_sent (ipm_log pl) @ [d]
      \<and> ip_platform_lock pl' = ip_platform_lock pl
      \<and> platform_ipm_callback isr d s = isr (RL_GET_Q_ID v) s
    else ipm_notify lock unlock v (pl, e) = Some (pl, e)"
  using assms by (auto simp: ipm_notify_def ipm_do_def ipm_sent_append ipm_callback_word)

lemma ipm_notify_routed_witness:
  "\<exists>pl' d. ipm_notify (\<lambda>l. Some) (\<lambda>l. Some) 1
      (\<lparr>ip_isr_counter = 1, ip_disable_counter = 0, ip_platform_lock = 8, ip_lock_var = 4, ipm_handle = 16,
        ip_primask = False, ipm_log = []\<rparr>, ()) = Some (pl', ())
    \<and> ipm_sent (ipm_log pl') = [d] \<and> platform_ipm_callback (\<lambda>v s. Some (v # s)) d [] = Some [1]"
  using ipm_notify_routed [of "\<lparr>ip_isr_counter = 1, ip_disable_counter = 0, ip_platform_lock = 8, ip_lock_var = 4,
    ipm_handle = 16, ip_primask = False, ipm_log = []\<rparr>" "\<lambda>l. Some" "()" "()" "\<lambda>l. Some" "()" 1 "\<lambda>v s. Some (v # s)" "[]"]
  by (auto simp: RL_GET_LINK_ID_def RL_GET_Q_ID_def)

section \<open>Interrupt nesting\<close>

text \<open>
  Disabling nests: the mailbox is enabled exactly while every disable is matched by an enable.
\<close>

definition ipm_irq_inv :: "bool \<Rightarrow> ipm_plat \<Rightarrow> bool" where
  "ipm_irq_inv b pl \<longleftrightarrow> ipm_handle pl \<noteq> NULL \<and> 0 \<le> ip_disable_counter pl
     \<and> switched (ipm_set_enabled True) (ipm_set_enabled False) b (ipm_log pl) = (ip_disable_counter pl = 0)"

interpretation ipm: irq_nesting ipm_interrupt_disable ipm_interrupt_enable "\<lambda>v. ()" "\<lambda>c. True" "ipm_irq_inv b"
  "\<lambda>pl c. ip_disable_counter pl" for b
  by unfold_locales
    (auto simp: ipm_irq_inv_def ipm_interrupt_disable_def ipm_interrupt_enable_def ipm_global_isr_disable_def
      ipm_global_isr_enable_def ipm_do_def Let_def split: bind_splits if_splits)

lemma ipm_nesting:
  assumes "ipm_irq_inv b pl" "irq_calls ipm_interrupt_disable ipm_interrupt_enable cs pl = Some pl'"
  shows "switched (ipm_set_enabled True) (ipm_set_enabled False) b (ipm_log pl')
    = (ip_disable_counter pl + irq_depth (\<lambda>v. ()) () cs = 0)"
  using ipm.calls_count [OF assms, of "()"] by (simp add: ipm_irq_inv_def)

end
