(* ===== verification/Env_Zephyr.thy ===== *)
theory Env_Zephyr
  imports Env_Rtos Platform_Ipm
begin

text \<open>
  The Zephyr environment layer
  (\<^verbatim>\<open>lib/rpmsg_lite/porting/environment/rpmsg_env_zephyr.c\<close>) on the platform layer of
  \<open>Platform_Ipm\<close>, with \<open>RL_USE_STATIC_API = 0\<close>. The kernel is not part of the repository: it is the
  argument \<open>K\<close>, its documented behaviour the contracts \<open>zephyr_kernel\<close> and \<open>zephyr_events\<close>.
\<close>

section \<open>The kernel\<close>

text \<open>
  Timeouts are \<open>K_FOREVER\<close> or a number of ticks, 0 for \<open>K_NO_WAIT\<close>. A call that suspends its caller
  for ever has the result \<open>None\<close>. \<open>buffer_start\<close> is a read of the field of that name of a queue.
\<close>

datatype k_timeout = K_FOREVER | K_TICKS nat

record 'k zk =
  k_sched_lock :: "'k \<Rightarrow> 'k"
  k_sched_unlock :: "'k \<Rightarrow> 'k"
  k_is_in_isr :: "u32 \<Rightarrow> bool"
  k_malloc :: "u32 \<Rightarrow> 'k \<Rightarrow> ptr \<times> 'k"
  k_free :: "ptr \<Rightarrow> 'k \<Rightarrow> 'k"
  k_sem_init :: "ptr \<Rightarrow> u32 \<Rightarrow> u32 \<Rightarrow> 'k \<Rightarrow> int \<times> 'k"
  k_sem_take :: "ptr \<Rightarrow> k_timeout \<Rightarrow> 'k \<Rightarrow> (int \<times> 'k) option"
  k_sem_give :: "ptr \<Rightarrow> 'k \<Rightarrow> 'k"
  k_sem_reset :: "ptr \<Rightarrow> 'k \<Rightarrow> 'k"
  k_event_init :: "ptr \<Rightarrow> 'k \<Rightarrow> 'k"
  k_event_post :: "ptr \<Rightarrow> u32 \<Rightarrow> 'k \<Rightarrow> 'k"
  k_event_wait_all :: "ptr \<Rightarrow> u32 \<Rightarrow> bool \<Rightarrow> k_timeout \<Rightarrow> 'k \<Rightarrow> (u32 \<times> 'k) option"
  k_msgq_init :: "ptr \<Rightarrow> ptr \<Rightarrow> u32 \<Rightarrow> u32 \<Rightarrow> 'k \<Rightarrow> 'k"
  k_msgq_purge :: "ptr \<Rightarrow> 'k \<Rightarrow> 'k"
  buffer_start :: "ptr \<Rightarrow> 'k \<Rightarrow> ptr"
  k_msgq_put :: "ptr \<Rightarrow> rpmsg_queue_rx_cb_data \<Rightarrow> k_timeout \<Rightarrow> 'k \<Rightarrow> (int \<times> 'k) option"
  k_msgq_get :: "ptr \<Rightarrow> rpmsg_queue_rx_cb_data \<Rightarrow> k_timeout \<Rightarrow> 'k \<Rightarrow> (int \<times> rpmsg_queue_rx_cb_data \<times> 'k) option"
  k_msgq_num_used_get :: "ptr \<Rightarrow> 'k \<Rightarrow> u32"
  k_sleep :: "k_timeout \<Rightarrow> 'k \<Rightarrow> 'k"
  K_MSEC :: "u32 \<Rightarrow> k_timeout"
  sizeof_k_sem :: u32
  sizeof_k_msgq :: u32

section \<open>Memory, locks and delays\<close>

type_synonym 'k zp_env = "(ipm_plat, 'k) os_env"

definition zp_in_isr :: "'k zk \<Rightarrow> u32 \<Rightarrow> int" where
  "zp_in_isr K icsr = (if k_is_in_isr K icsr then 1 else 0)"

definition zp_allocate_memory :: "'k zk \<Rightarrow> u32 \<Rightarrow> 'k \<Rightarrow> ptr \<times> 'k" where
  "zp_allocate_memory K sz k = k_malloc K sz k"

definition zp_free_memory :: "'k zk \<Rightarrow> ptr \<Rightarrow> 'k \<Rightarrow> 'k" where
  "zp_free_memory K p k = (if p \<noteq> NULL then k_free K p k else k)"

text \<open>The status of \<open>k_sem_init\<close> is dropped; its count is unsigned.\<close>

definition zp_create_mutex :: "'k zk \<Rightarrow> ptr \<Rightarrow> int \<Rightarrow> 'k \<Rightarrow> int \<times> ptr \<times> 'k" where
  "zp_create_mutex K old count k =
     (if count > RL_ENV_MAX_MUTEX_COUNT then (-1, old, k)
      else let (semaphore_ptr, k) = zp_allocate_memory K (sizeof_k_sem K) k
           in if semaphore_ptr = NULL then (-1, old, k)
              else let (st, k) = k_sem_init K semaphore_ptr (word_of_int count) (word_of_int RL_ENV_MAX_MUTEX_COUNT) k
                   in (0, semaphore_ptr, k))"

definition zp_delete_mutex :: "'k zk \<Rightarrow> ptr \<Rightarrow> 'k \<Rightarrow> 'k" where
  "zp_delete_mutex K l k = zp_free_memory K l (k_sem_reset K l k)"

definition zp_lock_mutex :: "'k zk \<Rightarrow> u32 \<Rightarrow> ptr \<Rightarrow> 'k \<Rightarrow> 'k option" where
  "zp_lock_mutex K icsr l k =
     (if zp_in_isr K icsr = 0 then do { (st, k) \<leftarrow> k_sem_take K l K_FOREVER k; Some k } else Some k)"

definition zp_unlock_mutex :: "'k zk \<Rightarrow> u32 \<Rightarrow> ptr \<Rightarrow> 'k \<Rightarrow> 'k option" where
  "zp_unlock_mutex K icsr l k = (if zp_in_isr K icsr = 0 then Some (k_sem_give K l k) else Some k)"

definition zp_create_sync_lock :: "'k zk \<Rightarrow> ptr \<Rightarrow> int \<Rightarrow> 'k \<Rightarrow> int \<times> ptr \<times> 'k" where
  "zp_create_sync_lock K old state k = zp_create_mutex K old state k"

definition zp_delete_sync_lock :: "'k zk \<Rightarrow> ptr \<Rightarrow> 'k \<Rightarrow> 'k" where
  "zp_delete_sync_lock K l k = (if l \<noteq> NULL then zp_delete_mutex K l k else k)"

definition zp_sleep_msec :: "'k zk \<Rightarrow> u32 \<Rightarrow> 'k zp_env \<Rightarrow> 'k zp_env" where
  "zp_sleep_msec K num_msec e = e\<lparr>kern := k_sleep K (K_MSEC K num_msec) (kern e)\<rparr>"

section \<open>Initialisation and interrupts\<close>

definition zp_platform_init :: "'k zk \<Rightarrow> 'k zp_env \<Rightarrow> int \<times> 'k zp_env" where
  "zp_platform_init K e =
     (let (r, pl, k) = ipm_init (\<lambda>a. zp_create_mutex K (ip_platform_lock (os_plat e))) (os_plat e, kern e)
      in (r, e\<lparr>os_plat := pl, kern := k\<rparr>))"

definition zp_env_init :: "'k zk \<Rightarrow> 'k zp_env \<Rightarrow> (int \<times> 'k zp_env) option" where
  "zp_env_init K e =
     do { let e = e\<lparr>kern := k_sched_lock K (kern e)\<rparr>;
          rl_assert (os_init_counter e \<ge> 0);
          (if os_init_counter e < 0 then Some (-1, e\<lparr>kern := k_sched_unlock K (kern e)\<rparr>)
           else
             let e = e\<lparr>os_init_counter := os_init_counter e + 1\<rparr>
             in if os_init_counter e = 1
                then let (st, k) = k_sem_init K (env_sema e) 0 1 (kern e);
                         k = k_event_init K (event_group e) k;
                         e = e\<lparr>os_isr_table := replicate RL_PLATFORM_MAX_ISR_COUNT NULL, kern := k_sched_unlock K k\<rparr>;
                         (retval, e) = zp_platform_init K e
                     in Some (retval, e\<lparr>kern := k_sem_give K (env_sema e) (kern e)\<rparr>)
                else do {
                  (st, k) \<leftarrow> k_sem_take K (env_sema e) K_FOREVER (k_sched_unlock K (kern e));
                  Some (0, e\<lparr>kern := k_sem_give K (env_sema e) k\<rparr>) }) }"

definition zp_env_deinit :: "'k zk \<Rightarrow> 'k zp_env \<Rightarrow> (int \<times> 'k zp_env) option" where
  "zp_env_deinit K e =
     do { let e = e\<lparr>kern := k_sched_lock K (kern e)\<rparr>;
          rl_assert (os_init_counter e > 0);
          (if os_init_counter e \<le> 0 then Some (-1, e\<lparr>kern := k_sched_unlock K (kern e)\<rparr>)
           else
             let e = e\<lparr>os_init_counter := os_init_counter e - 1\<rparr>
             in if os_init_counter e \<le> 0
                then let e = e\<lparr>os_isr_table := replicate RL_PLATFORM_MAX_ISR_COUNT NULL\<rparr>;
                         (retval, pl, k) = ipm_deinit (zp_delete_mutex K) (os_plat e, kern e);
                         k = k_sem_reset K (env_sema e) k
                     in Some (retval, e\<lparr>os_plat := pl, kern := k_sched_unlock K k\<rparr>)
                else Some (0, e\<lparr>kern := k_sched_unlock K (kern e)\<rparr>)) }"

definition zp_enable_interrupt :: "u32 \<Rightarrow> 'k zp_env \<Rightarrow> 'k zp_env option" where
  "zp_enable_interrupt vector_id e =
     do { (r, pl) \<leftarrow> ipm_interrupt_enable vector_id (os_plat e); Some (e\<lparr>os_plat := pl\<rparr>) }"

definition zp_disable_interrupt :: "u32 \<Rightarrow> 'k zp_env \<Rightarrow> 'k zp_env option" where
  "zp_disable_interrupt vector_id e =
     do { (r, pl) \<leftarrow> ipm_interrupt_disable vector_id (os_plat e); Some (e\<lparr>os_plat := pl\<rparr>) }"

definition zp_register_isr :: "u32 \<Rightarrow> ptr \<Rightarrow> ptr list \<Rightarrow> ptr list option" where
  "zp_register_isr vector_id data isr_table =
     do { let t = (if unat vector_id < RL_PLATFORM_MAX_ISR_COUNT then isr_table[unat vector_id := data] else isr_table);
          rl_assert (unat vector_id < RL_PLATFORM_MAX_ISR_COUNT);
          Some t }"

definition zp_unregister_isr :: "u32 \<Rightarrow> ptr list \<Rightarrow> ptr list option" where
  "zp_unregister_isr vector_id isr_table =
     do { let t = (if unat vector_id < RL_PLATFORM_MAX_ISR_COUNT then isr_table[unat vector_id := NULL] else isr_table);
          rl_assert (unat vector_id < RL_PLATFORM_MAX_ISR_COUNT);
          Some t }"

text \<open>The virtqueue \<open>env_isr\<close> hands to \<open>virtqueue_notification\<close>.\<close>

definition zp_isr_data :: "u32 \<Rightarrow> 'k zp_env \<Rightarrow> ptr option" where
  "zp_isr_data vector e =
     (if unat vector < RL_PLATFORM_MAX_ISR_COUNT then rd (os_isr_table e) (unat vector) else None)"

definition zp_notify :: "'k zk \<Rightarrow> u32 \<Rightarrow> 'k zp_env \<Rightarrow> 'k zp_env option" where
  "zp_notify K vector_id e =
     do { (pl, k) \<leftarrow> ipm_notify (zp_lock_mutex K (os_icsr e)) (zp_unlock_mutex K (os_icsr e))
            vector_id (os_plat e, kern e);
          Some (e\<lparr>os_plat := pl, kern := k\<rparr>) }"

section \<open>Waiting for the link\<close>

text \<open>In an interrupt handler the call does not wait. The wait leaves the event set.\<close>

definition zp_timeout :: "'k zk \<Rightarrow> u32 \<Rightarrow> u32 \<Rightarrow> k_timeout" where
  "zp_timeout K icsr timeout_ms = K_MSEC K (if zp_in_isr K icsr \<noteq> 0 then 0 else timeout_ms)"

definition zp_wait_end :: "'k zk \<Rightarrow> u32 \<Rightarrow> u32 \<Rightarrow> 'k zp_env \<Rightarrow> (u32 \<times> 'k zp_env) option" where
  "zp_wait_end K lbit timeout_ms e =
     do { (v, k) \<leftarrow> k_event_wait_all K (event_group e) lbit False (zp_timeout K (os_icsr e) timeout_ms) (kern e);
          Some (if v \<noteq> 0 then 1 else 0, e\<lparr>kern := k\<rparr>) }"

definition zp_wait_for_link_up ::
  "'k zk \<Rightarrow> ('k \<Rightarrow> u32) \<Rightarrow> u32 \<Rightarrow> u32 \<Rightarrow> 'k zp_env \<Rightarrow> (u32 \<times> 'k zp_env) option" where
  "zp_wait_for_link_up K link_state link_id timeout_ms e =
     (if link_state (kern e) \<noteq> 1
      then do { lbit \<leftarrow> shl1 link_id; zp_wait_end K lbit timeout_ms e }
      else Some (1, e))"

definition zp_tx_callback :: "'k zk \<Rightarrow> u32 \<Rightarrow> 'k zp_env \<Rightarrow> 'k zp_env option" where
  "zp_tx_callback K link_id e =
     do { lbit \<leftarrow> shl1 link_id; Some (e\<lparr>kern := k_event_post K (event_group e) lbit (kern e)\<rparr>) }"

section \<open>Message queues\<close>

definition zp_create_queue :: "'k zk \<Rightarrow> ptr \<Rightarrow> int \<Rightarrow> int \<Rightarrow> 'k \<Rightarrow> (int \<times> ptr \<times> 'k) option" where
  "zp_create_queue K old len element_size k =
     (if len < 0 \<or> element_size < 0 then Some (-1, old, k)
      else if element_size = 0 then None
      else if len > 0x7FFFFFFF div element_size then Some (-1, old, k)
      else let (queue_ptr, k) = zp_allocate_memory K (sizeof_k_msgq K) k;
               (msgq_buffer_ptr, k) = zp_allocate_memory K (word_of_int (len * element_size)) k
           in if queue_ptr = NULL \<or> msgq_buffer_ptr = NULL then Some (-1, old, k)
              else Some (0, queue_ptr, k_msgq_init K queue_ptr msgq_buffer_ptr (word_of_int element_size) (word_of_int len) k))"

definition zp_delete_queue :: "'k zk \<Rightarrow> ptr \<Rightarrow> 'k zp_env \<Rightarrow> 'k zp_env" where
  "zp_delete_queue K q e =
     (let k = k_msgq_purge K q (kern e);
          k = zp_free_memory K (buffer_start K q k) k
      in e\<lparr>kern := zp_free_memory K q k\<rparr>)"

definition zp_put_queue ::
  "'k zk \<Rightarrow> ptr \<Rightarrow> rpmsg_queue_rx_cb_data \<Rightarrow> u32 \<Rightarrow> 'k zp_env \<Rightarrow> (int \<times> 'k zp_env) option" where
  "zp_put_queue K q msg timeout_ms e =
     do { (st, k) \<leftarrow> k_msgq_put K q msg (zp_timeout K (os_icsr e) timeout_ms) (kern e);
          Some (if st = 0 then 1 else 0, e\<lparr>kern := k\<rparr>) }"

definition zp_get_queue ::
  "'k zk \<Rightarrow> ptr \<Rightarrow> rpmsg_queue_rx_cb_data \<Rightarrow> u32 \<Rightarrow> 'k zp_env
    \<Rightarrow> (int \<times> rpmsg_queue_rx_cb_data \<times> 'k zp_env) option" where
  "zp_get_queue K q msg timeout_ms e =
     do { (st, m, k) \<leftarrow> k_msgq_get K q msg (zp_timeout K (os_icsr e) timeout_ms) (kern e);
          Some (if st = 0 then 1 else 0, m, e\<lparr>kern := k\<rparr>) }"

definition zp_get_current_queue_size :: "'k zk \<Rightarrow> ptr \<Rightarrow> 'k zp_env \<Rightarrow> int" where
  "zp_get_current_queue_size K q e = sint (k_msgq_num_used_get K q (kern e))"

section \<open>The ports\<close>

definition zp_port :: "'k zk \<Rightarrow> 'k zp_env env_port" where
  "zp_port K =
     \<lparr>ep_env_init = zp_env_init K,
      ep_env_deinit = zp_env_deinit K,
      ep_create_mutex = (\<lambda>addr count e.
        let (st, l, k) = zp_create_mutex K NULL count (kern e) in (st, l, e\<lparr>kern := k\<rparr>)),
      ep_delete_mutex = (\<lambda>l e. e\<lparr>kern := zp_delete_mutex K l (kern e)\<rparr>),
      ep_lock_mutex = (\<lambda>l e. do { k \<leftarrow> zp_lock_mutex K (os_icsr e) l (kern e); Some (e\<lparr>kern := k\<rparr>) }),
      ep_unlock_mutex = (\<lambda>l e. do { k \<leftarrow> zp_unlock_mutex K (os_icsr e) l (kern e); Some (e\<lparr>kern := k\<rparr>) }),
      ep_init_interrupt = (\<lambda>v d e. os_with_plat
        (ipm_init_interrupt (\<lambda>v d. on_table (zp_register_isr v d))
          (\<lambda>l. on_kern (zp_lock_mutex K (os_icsr e) l)) (\<lambda>l. on_kern (zp_unlock_mutex K (os_icsr e) l)) v d) e),
      ep_deinit_interrupt = (\<lambda>v e. os_with_plat
        (ipm_deinit_interrupt (\<lambda>v. on_table (zp_unregister_isr v))
          (\<lambda>l. on_kern (zp_lock_mutex K (os_icsr e) l)) (\<lambda>l. on_kern (zp_unlock_mutex K (os_icsr e) l)) v) e),
      ep_enable_interrupt = zp_enable_interrupt,
      ep_disable_interrupt = zp_disable_interrupt,
      ep_notify = zp_notify K,
      ep_tx_callback = zp_tx_callback K,
      ep_isr_data = zp_isr_data,
      ep_map_vatopa = ipm_vatopa,
      ep_map_patova = ipm_patova\<rparr>"

definition zp_queue_port :: "'k zk \<Rightarrow> 'k zp_env queue_port" where
  "zp_queue_port K =
     \<lparr>qp_create = (\<lambda>len sz e. do { (st, q, k) \<leftarrow> zp_create_queue K NULL len sz (kern e); Some (st, q, e\<lparr>kern := k\<rparr>) }),
      qp_delete = zp_delete_queue K, qp_put = zp_put_queue K,
      qp_get = zp_get_queue K, qp_size = zp_get_current_queue_size K\<rparr>"

section \<open>The contract of the kernel\<close>

text \<open>
  The kernel as it can be observed: semaphores (count and limit), message queues (contents and
  length) and allocated blocks. \<open>k_sem_init\<close> refuses a count above the limit and leaves the
  semaphore as it was; a call with \<open>K_NO_WAIT\<close> does not wait.
\<close>

locale zephyr_kernel =
  fixes K :: "'k zk"
    and sem :: "'k \<Rightarrow> ptr \<Rightarrow> (nat \<times> nat) option"
    and queue :: "'k \<Rightarrow> ptr \<Rightarrow> (rpmsg_queue_rx_cb_data list \<times> nat) option"
    and live :: "'k \<Rightarrow> ptr set"
  assumes sem_take: "sem k l = Some (Suc c, m) \<Longrightarrow> \<exists>k'. k_sem_take K l t k = Some (0, k')
      \<and> sem k' = (sem k)(l \<mapsto> (c, m)) \<and> queue k' = queue k"
    and sem_block: "sem k l = Some (0, m) \<Longrightarrow> k_sem_take K l K_FOREVER k = None"
    and sem_give: "sem k l = Some (c, m) \<Longrightarrow> c < m \<Longrightarrow>
      sem (k_sem_give K l k) = (sem k)(l \<mapsto> (Suc c, m)) \<and> queue (k_sem_give K l k) = queue k"
    and sem_init: "k_sem_init K p ct lim k = (st, k') \<Longrightarrow> live k' = live k \<and> queue k' = queue k
      \<and> (if ct \<le> lim \<and> 0 < lim then st = 0 \<and> sem k' = (sem k)(p \<mapsto> (unat ct, unat lim)) else st \<noteq> 0 \<and> sem k' = sem k)"
    and alloc: "k_malloc K sz k = (p, k') \<Longrightarrow> sem k' = sem k \<and> queue k' = queue k
      \<and> (if p = NULL then live k' = live k else p \<notin> live k \<and> live k' = insert p (live k))"
    and free: "live (k_free K p k) = live k - {p} \<and> sem (k_free K p k) = sem k
      \<and> queue (k_free K p k) = queue k"
    and queue_init: "live (k_msgq_init K q buf sz len k) = live k \<and> sem (k_msgq_init K q buf sz len k) = sem k
      \<and> queue (k_msgq_init K q buf sz len k) = (queue k)(q \<mapsto> ([], unat len))"
    and queue_put: "queue k q = Some (xs, n) \<Longrightarrow> length xs < n \<Longrightarrow>
      \<exists>k'. k_msgq_put K q x t k = Some (0, k') \<and> queue k' = (queue k)(q \<mapsto> (xs @ [x], n)) \<and> sem k' = sem k"
    and queue_full: "queue k q = Some (xs, n) \<Longrightarrow> n \<le> length xs \<Longrightarrow>
      \<exists>st. st \<noteq> 0 \<and> k_msgq_put K q x (K_TICKS 0) k = Some (st, k)"
    and queue_get: "queue k q = Some (x # xs, n) \<Longrightarrow>
      \<exists>k'. k_msgq_get K q y t k = Some (0, x, k') \<and> queue k' = (queue k)(q \<mapsto> (xs, n)) \<and> sem k' = sem k"
    and queue_empty: "queue k q = Some ([], n) \<Longrightarrow>
      \<exists>st. st \<noteq> 0 \<and> k_msgq_get K q y (K_TICKS 0) k = Some (st, y, k)"
    and queue_num: "queue k q = Some (xs, n) \<Longrightarrow> length xs < 2 ^ 31 \<Longrightarrow>
      k_msgq_num_used_get K q k = of_nat (length xs)"
    and msec_0: "K_MSEC K 0 = K_TICKS 0"

context zephyr_kernel
begin

lemma zp_timeout_0: "zp_timeout K i 0 = K_TICKS 0"
  by (simp add: zp_timeout_def msec_0)

end

sublocale zephyr_kernel \<subseteq> locks: os_port "\<lambda>i. zp_in_isr K i \<noteq> 0" "zp_lock_mutex K" "zp_unlock_mutex K" sem queue
    "zp_port K" ip_platform_lock "\<lambda>pl. ipm_handle pl \<noteq> NULL"
proof (unfold_locales, goal_cases)
  case (3 i k l c m)
  then show ?case using sem_take [OF 3(2), of K_FOREVER] by (auto simp: zp_lock_mutex_def)
next
  case (8 e v)
  let ?pl = "ipm_do (ipm_send (push_bit (unat (RL_GET_Q_ID v)) 1)) (os_plat e)"
  show ?case
  proof (cases "RL_GET_LINK_ID v = 0")
    case False
    then show ?thesis by (simp add: zp_port_def zp_notify_def ipm_notify_def)
  next
    case True
    moreover have "ip_platform_lock ?pl = ip_platform_lock (os_plat e)" "ipm_handle ?pl \<noteq> NULL"
      using 8 by (simp_all add: ipm_do_def)
    ultimately show ?thesis using 8
      by (intro disjI2 exI [of _ ?pl])
        (cases "zp_lock_mutex K (os_icsr e) (ip_platform_lock (os_plat e)) (kern e)";
          simp add: zp_port_def zp_notify_def ipm_notify_def Let_def Option.bind_eq_Some_conv split: bind_splits)
  qed
qed (auto simp: zp_lock_mutex_def zp_unlock_mutex_def sem_block sem_give zp_port_def
    ipm_vatopa_def ipm_patova_def)

sublocale zephyr_kernel \<subseteq> queues: os_queue "zp_queue_port K" queue True
proof (unfold_locales, goal_cases)
  case (1 e q xs n m)
  then show ?case using queue_put [OF 1(1,2), of m "K_TICKS 0"]
    by (auto simp: zp_queue_port_def zp_put_queue_def zp_timeout_0)
next
  case (2 e q xs n m)
  then show ?case using queue_full [OF 2(1,2), of m]
    by (auto simp: zp_queue_port_def zp_put_queue_def zp_timeout_0)
next
  case (3 e q x xs n m t)
  then show ?case using queue_get [OF 3(1), of m "zp_timeout K (os_icsr e) t"]
    by (auto simp: zp_queue_port_def zp_get_queue_def)
next
  case (4 e q n m)
  then show ?case using queue_empty [OF 4(1), of m]
    by (auto simp: zp_queue_port_def zp_get_queue_def zp_timeout_0)
next
  case (5 e q xs n)
  then show ?case
    using queue_num [OF 5(1,3)] msg_count_word(2) [OF 5(3)]
    by (simp add: zp_queue_port_def zp_get_current_queue_size_def)
qed

context zephyr_kernel
begin

lemmas zp_os_locks = locks.os_locks_axioms

lemmas zp_env_locks = locks.os_env_locks

lemmas zp_env_queue = queues.os_env_queue

end

text \<open>Event objects: \<open>events k g\<close> are the events posted to \<open>g\<close>.\<close>

locale zephyr_events = zephyr_kernel K sem queue live
  for K :: "'k zk" and sem :: "'k \<Rightarrow> ptr \<Rightarrow> (nat \<times> nat) option"
    and queue :: "'k \<Rightarrow> ptr \<Rightarrow> (rpmsg_queue_rx_cb_data list \<times> nat) option" and live :: "'k \<Rightarrow> ptr set" +
  fixes events :: "'k \<Rightarrow> ptr \<Rightarrow> u32"
  assumes event_post: "events (k_event_post K g b k) = (events k)(g := events k g OR b)"
    and event_wait: "events k g AND b = b \<Longrightarrow> b \<noteq> 0 \<Longrightarrow>
      \<exists>k'. k_event_wait_all K g b False t k = Some (b, k') \<and> events k' = events k"

section \<open>A kernel that meets the contracts\<close>

record zr =
  zr_sem :: "ptr \<Rightarrow> (nat \<times> nat) option"
  zr_queue :: "ptr \<Rightarrow> (rpmsg_queue_rx_cb_data list \<times> nat) option"
  zr_buf :: "ptr \<Rightarrow> ptr"
  zr_events :: "ptr \<Rightarrow> u32"
  zr_heap :: heap

definition zr_live :: "zr \<Rightarrow> ptr set" where
  "zr_live k = set (hp_live (zr_heap k))"

definition zr_alloc :: "u32 \<Rightarrow> zr \<Rightarrow> ptr \<times> zr" where
  "zr_alloc n k = (let (p, h) = env_allocate_memory (zr_heap k) in (p, k\<lparr>zr_heap := h\<rparr>))"

definition zr_take :: "ptr \<Rightarrow> k_timeout \<Rightarrow> zr \<Rightarrow> (int \<times> zr) option" where
  "zr_take l t k = (case zr_sem k l of
      Some (Suc c, m) \<Rightarrow> Some (0, k\<lparr>zr_sem := (zr_sem k)(l \<mapsto> (c, m))\<rparr>)
    | _ \<Rightarrow> if t = K_FOREVER then None else Some (-11, k))"

definition zr_give :: "ptr \<Rightarrow> zr \<Rightarrow> zr" where
  "zr_give l k = (case zr_sem k l of
      Some (c, m) \<Rightarrow> if c < m then k\<lparr>zr_sem := (zr_sem k)(l \<mapsto> (Suc c, m))\<rparr> else k | None \<Rightarrow> k)"

definition zr_put :: "ptr \<Rightarrow> rpmsg_queue_rx_cb_data \<Rightarrow> k_timeout \<Rightarrow> zr \<Rightarrow> (int \<times> zr) option" where
  "zr_put q x t k = (case zr_queue k q of
      Some (xs, n) \<Rightarrow>
        if length xs < n then Some (0, k\<lparr>zr_queue := (zr_queue k)(q \<mapsto> (xs @ [x], n))\<rparr>)
        else if t = K_FOREVER then None else Some (-11, k)
    | None \<Rightarrow> None)"

definition zr_get :: "ptr \<Rightarrow> rpmsg_queue_rx_cb_data \<Rightarrow> k_timeout \<Rightarrow> zr \<Rightarrow> (int \<times> rpmsg_queue_rx_cb_data \<times> zr) option" where
  "zr_get q y t k = (case zr_queue k q of
      Some (x # xs, n) \<Rightarrow> Some (0, x, k\<lparr>zr_queue := (zr_queue k)(q \<mapsto> (xs, n))\<rparr>)
    | Some ([], n) \<Rightarrow> if t = K_FOREVER then None else Some (-11, y, k)
    | None \<Rightarrow> None)"

definition ref_zk :: "zr zk" where
  "ref_zk =
     \<lparr>k_sched_lock = (\<lambda>k. k), k_sched_unlock = (\<lambda>k. k), k_is_in_isr = (\<lambda>i. i AND 0x1FF \<noteq> 0),
      k_malloc = zr_alloc,
      k_free = (\<lambda>p k. k\<lparr>zr_heap := (zr_heap k)\<lparr>hp_live := removeAll p (hp_live (zr_heap k))\<rparr>\<rparr>),
      k_sem_init = (\<lambda>p ct lim k. if ct \<le> lim \<and> 0 < lim
        then (0, k\<lparr>zr_sem := (zr_sem k)(p \<mapsto> (unat ct, unat lim))\<rparr>) else (-22, k)),
      k_sem_take = zr_take, k_sem_give = zr_give,
      k_sem_reset = (\<lambda>l k. case zr_sem k l of Some (c, m) \<Rightarrow> k\<lparr>zr_sem := (zr_sem k)(l \<mapsto> (0, m))\<rparr> | None \<Rightarrow> k),
      k_event_init = (\<lambda>g k. k\<lparr>zr_events := (zr_events k)(g := 0)\<rparr>),
      k_event_post = (\<lambda>g b k. k\<lparr>zr_events := (zr_events k)(g := zr_events k g OR b)\<rparr>),
      k_event_wait_all = (\<lambda>g b r t k. if zr_events k g AND b = b then Some (b, k)
        else if t = K_FOREVER then None else Some (0, k)),
      k_msgq_init = (\<lambda>q buf sz len k. k\<lparr>zr_queue := (zr_queue k)(q \<mapsto> ([], unat len)), zr_buf := (zr_buf k)(q := buf)\<rparr>),
      k_msgq_purge = (\<lambda>q k. case zr_queue k q of Some (xs, n) \<Rightarrow> k\<lparr>zr_queue := (zr_queue k)(q \<mapsto> ([], n))\<rparr> | None \<Rightarrow> k),
      buffer_start = (\<lambda>q k. zr_buf k q), k_msgq_put = zr_put, k_msgq_get = zr_get,
      k_msgq_num_used_get = (\<lambda>q k. case zr_queue k q of Some (xs, n) \<Rightarrow> of_nat (length xs) | None \<Rightarrow> 0),
      k_sleep = (\<lambda>t k. k), K_MSEC = (\<lambda>ms. K_TICKS (unat ms div 10)), sizeof_k_sem = 24, sizeof_k_msgq = 48\<rparr>"

lemmas zr_defs = zr_live_def zr_alloc_def zr_take_def zr_give_def zr_put_def zr_get_def

interpretation ref_zk: zephyr_kernel ref_zk zr_sem zr_queue zr_live
proof (unfold_locales, goal_cases)
  case (5 n k p k')
  then show ?case
    by (auto simp: ref_zk_def zr_defs env_allocate_memory_def Let_def split: list.splits if_splits)
qed (auto simp: ref_zk_def zr_defs split: if_splits)

interpretation ref_zk: zephyr_events ref_zk zr_sem zr_queue zr_live zr_events
  by unfold_locales (auto simp: ref_zk_def)

definition zr0 :: "ptr list \<Rightarrow> zr" where
  "zr0 blocks = \<lparr>zr_sem = \<lambda>l. None, zr_queue = \<lambda>q. None, zr_buf = \<lambda>q. NULL, zr_events = \<lambda>g. 0,
     zr_heap = \<lparr>hp_next = blocks, hp_live = []\<rparr>\<rparr>"

section \<open>Waiting for the link\<close>

abbreviation zp_link_step ::
  "'k zk \<Rightarrow> u32 \<Rightarrow> u32 \<Rightarrow> u32 \<Rightarrow> 'k zp_env \<times> u32 \<times> wait_pc \<times> isr_pc \<Rightarrow> 'k zp_env \<times> u32 \<times> wait_pc \<times> isr_pc \<Rightarrow> bool" where
  "zp_link_step K link_id lbit timeout_ms \<equiv>
     link_step Some (zp_wait_end K lbit timeout_ms) (zp_tx_callback K link_id)
       (\<lambda>e e'. \<exists>j. zp_tx_callback K j e = Some e')"

context zephyr_events
begin

lemma zp_callback_events:
  assumes "zp_tx_callback K link_id e = Some e'"
  shows "\<exists>b. shl1 link_id = Some b \<and> event_group e' = event_group e
    \<and> events (kern e') = (events (kern e))(event_group e := events (kern e) (event_group e) OR b)"
  using assms by (auto simp: zp_tx_callback_def event_post bind_eq_Some_conv)

lemma zp_link_flag:
  assumes "shl1 link_id = Some lbit"
  shows "link_flag (zp_tx_callback K link_id) (\<lambda>e e'. \<exists>j. zp_tx_callback K j e = Some e')
    (\<lambda>e. events (kern e) (event_group e) AND lbit = lbit)"
proof
  fix e e' assume "zp_tx_callback K link_id e = Some e'"
  from zp_callback_events [OF this] assms show "events (kern e') (event_group e') AND lbit = lbit"
    by (simp add: word_ao_absorbs)
next
  fix e e' assume "\<exists>j. zp_tx_callback K j e = Some e'" and b: "events (kern e) (event_group e) AND lbit = lbit"
  then obtain j c where "events (kern e') (event_group e') = events (kern e) (event_group e) OR c"
    using zp_callback_events by fastforce
  then show "events (kern e') (event_group e') AND lbit = lbit" using or_and_keep [OF b] by simp
qed

text \<open>No wake-up is lost, and the other links do not matter.\<close>

lemma zp_wait_not_lost:
  assumes "shl1 link_id = Some lbit"
    and "(zp_link_step K link_id lbit timeout_ms)\<^sup>*\<^sup>* (e0, ls0, W_begin, I_state) (e, ls, W_wait, I_done)"
  shows "\<exists>e'. zp_wait_end K lbit timeout_ms e = Some (1, e')"
proof -
  have b: "events (kern e) (event_group e) AND lbit = lbit"
    using link_flag.link_reach_inv [OF zp_link_flag [OF assms(1)] assms(2)] by simp
  have "lbit \<noteq> 0"
    using assms(1) by (auto simp: shl1_def word_less_nat_alt split: if_splits)
  from event_wait [OF b this, of "zp_timeout K (os_icsr e) timeout_ms"] \<open>lbit \<noteq> 0\<close> show ?thesis
    by (auto simp: zp_wait_end_def)
qed

end

section \<open>Errors\<close>

text \<open>
  The status of \<open>env_create_mutex\<close>. It fails, with the lock variable unchanged and nothing
  allocated, exactly when the count is above the limit or there is no memory. It returns 0 with a
  new block in every other case, also for a negative count: the kernel refuses that count, its
  status is dropped, and the caller gets a mutex whose semaphore was never initialised.
\<close>

theorem zp_create_mutex_status:
  assumes "zephyr_kernel K sem queue live" and "- (2 ^ 31) \<le> count"
  shows "case zp_create_mutex K old count k of (st, l, k') \<Rightarrow>
    if 10 < count \<or> fst (k_malloc K (sizeof_k_sem K) k) = NULL
    then st = -1 \<and> l = old \<and> live k' = live k \<and> sem k' = sem k
    else st = 0 \<and> l \<noteq> NULL \<and> l \<notin> live k \<and> live k' = insert l (live k)
      \<and> sem k' = (if 0 \<le> count then (sem k)(l \<mapsto> (nat count, 10)) else sem k)"
proof (cases "10 < count")
  case True
  then show ?thesis by (simp add: zp_create_mutex_def)
next
  case False
  obtain p k1 where a: "k_malloc K (sizeof_k_sem K) k = (p, k1)" by fastforce
  obtain st k2 where s: "k_sem_init K p (word_of_int count) 10 k1 = (st, k2)" by fastforce
  have c: "(word_of_int count :: u32) \<le> 10 \<longleftrightarrow> 0 \<le> count"
  proof (cases "0 \<le> count")
    case True
    then show ?thesis using False by (simp add: word_le_nat_alt unat_eq_nat_uint uint_word_of_int)
  next
    case neg: False
    then have "(count + 2 ^ 32) mod 2 ^ 32 = count + 2 ^ 32"
      using assms(2) by (intro mod_pos_pos_trivial) simp_all
    then have "count mod 2 ^ 32 = count + 2 ^ 32" by simp
    then show ?thesis using neg assms(2) by (simp add: word_le_def uint_word_of_int)
  qed
  have u: "0 \<le> count \<Longrightarrow> unat (word_of_int count :: u32) = nat count"
    using False by (simp add: unat_eq_nat_uint uint_word_of_int)
  show ?thesis
    using False a s c u zephyr_kernel.alloc [OF assms(1) a] zephyr_kernel.sem_init [OF assms(1) s]
    by (auto simp: zp_create_mutex_def zp_allocate_memory_def)
qed

lemma zp_create_mutex_status_witness:
  "\<exists>k'. zp_create_mutex ref_zk 0 (-1) (zr0 [0x100]) = (0, 0x100, k') \<and> zr_sem k' 0x100 = None"
proof -
  have "fst (k_malloc ref_zk (sizeof_k_sem ref_zk) (zr0 [0x100])) = 0x100"
    by (simp add: ref_zk_def zr_alloc_def zr0_def env_allocate_memory_def)
  moreover have "\<exists>k'. zp_create_mutex ref_zk 0 (-1) (zr0 [0x100]) = (0, 0x100, k')"
    by (simp add: zp_create_mutex_def zp_allocate_memory_def ref_zk_def zr_alloc_def zr0_def
        env_allocate_memory_def)
  ultimately show ?thesis
    using zp_create_mutex_status [OF ref_zk.zephyr_kernel_axioms, where count = "-1" and old = 0 and k = "zr0 [0x100]"]
    by (auto simp: zr0_def)
qed

text \<open>\<open>env_create_queue\<close> leaves allocated what \<open>queue_blocks\<close> says, as with ThreadX.\<close>

context zephyr_kernel
begin

lemma zp_create_queue_spec:
  assumes "0 \<le> len" "0 < esz" "len * esz \<le> 0x7FFFFFFF"
    and "k_malloc K (sizeof_k_msgq K) k = (p, k1)" "k_malloc K (word_of_int (len * esz)) k1 = (b, k2)"
  shows "\<exists>st q k'. zp_create_queue K old len esz k = Some (st, q, k')
    \<and> live k' = live k \<union> queue_blocks (st = 0) p b \<and> sem k' = sem k
    \<and> (if st = 0 then q = p \<and> p \<noteq> NULL \<and> b \<noteq> NULL \<and> queue k' = (queue k)(q \<mapsto> ([], nat len))
       else st = -1 \<and> q = old \<and> queue k' = queue k)"
proof -
  note a = alloc [OF assms(4)] alloc [OF assms(5)]
  have lim: "\<not> len > 0x7FFFFFFF div esz" using int_div_limit [OF assms(2), of "0x7FFFFFFF" len] assms(3) by simp
  have "len * 1 \<le> len * esz" using assms(1,2) by (intro mult_left_mono) simp_all
  then have u: "unat (word_of_int len :: u32) = nat len"
    using assms(1,3) by (simp add: unat_eq_nat_uint uint_word_of_int)
  have e: "zp_create_queue K old len esz k =
      (if p = NULL \<or> b = NULL then Some (-1, old, k2)
       else Some (0, p, k_msgq_init K p b (word_of_int esz) (word_of_int len) k2))"
    using assms lim by (simp add: zp_create_queue_def zp_allocate_memory_def)
  show ?thesis
    using a queue_init [of p b "word_of_int esz" "word_of_int len" k2] u unfolding e
    by (cases "p = NULL \<or> b = NULL") (auto simp: queue_blocks_def split: if_splits)
qed

end

text \<open>
  A timeout of 0xFFFFFFFF, which \<^verbatim>\<open>rpmsg_queue.h\<close> documents as waiting for ever, is converted
  like any other: where \<open>K_MSEC\<close> makes a number of ticks of it, a get of an empty queue gives up
  after them.
\<close>

lemma zp_get_block_gives_up:
  assumes "zp_in_isr K (os_icsr e) = 0" "K_MSEC K 0xFFFFFFFF = K_TICKS n"
    and "k_msgq_get K q m (K_TICKS n) (kern e) = Some (st, m, k)" "st \<noteq> 0"
  shows "zp_get_queue K q m OS_BLOCK e = Some (0, m, e\<lparr>kern := k\<rparr>)"
  using assms by (simp add: zp_get_queue_def zp_timeout_def)

end
