(* ===== verification/Env_Xos.thy ===== *)
theory Env_Xos
  imports Env_Rtos Platform_Imxrt700
begin

text \<open>
  The XOS environment layer (\<^verbatim>\<open>lib/rpmsg_lite/porting/environment/rpmsg_env_xos.c\<close>) on the platform layer
  of the HiFi DSPs of the i.MX RT700, with \<open>RL_USE_STATIC_API = 0\<close>. XOS and the allocator of the C
  library are the argument \<open>K\<close>, their documented behaviour the contracts \<open>xos_kernel\<close> and
  \<open>xos_events\<close>.
\<close>

section \<open>The kernel\<close>

text \<open>
  Control blocks are addresses. The functions return a status, \<open>XOS_OK\<close> for success; a call that
  suspends its caller for ever has the result \<open>None\<close>.
\<close>

record 'k xk =
  xos_disable_interrupts :: "'k \<Rightarrow> u32 \<times> 'k"
  xos_restore_interrupts :: "u32 \<Rightarrow> 'k \<Rightarrow> 'k"
  xos_malloc :: "u32 \<Rightarrow> 'k \<Rightarrow> ptr \<times> 'k"
  xos_free :: "ptr \<Rightarrow> 'k \<Rightarrow> 'k"
  xos_sem_create :: "ptr \<Rightarrow> int \<Rightarrow> 'k \<Rightarrow> int \<times> 'k"
  xos_sem_delete :: "ptr \<Rightarrow> 'k \<Rightarrow> 'k"
  xos_sem_get :: "ptr \<Rightarrow> 'k \<Rightarrow> (int \<times> 'k) option"
  xos_sem_put :: "ptr \<Rightarrow> 'k \<Rightarrow> 'k"
  xos_event_create :: "ptr \<Rightarrow> u32 \<Rightarrow> bool \<Rightarrow> 'k \<Rightarrow> 'k"
  xos_event_delete :: "ptr \<Rightarrow> 'k \<Rightarrow> 'k"
  xos_event_set :: "ptr \<Rightarrow> u32 \<Rightarrow> 'k \<Rightarrow> 'k"
  xos_event_wait_all :: "ptr \<Rightarrow> u32 \<Rightarrow> 'k \<Rightarrow> (int \<times> 'k) option"
  xos_event_wait_all_timeout :: "ptr \<Rightarrow> u32 \<Rightarrow> u64 \<Rightarrow> 'k \<Rightarrow> (int \<times> 'k) option"
  XOS_MSGQ_SIZE :: "int \<Rightarrow> int \<Rightarrow> u32"
  xos_msgq_create :: "ptr \<Rightarrow> u16 \<Rightarrow> u32 \<Rightarrow> 'k \<Rightarrow> int \<times> 'k"
  xos_msgq_delete :: "ptr \<Rightarrow> 'k \<Rightarrow> 'k"
  xos_msgq_put :: "ptr \<Rightarrow> rpmsg_queue_rx_cb_data \<Rightarrow> 'k \<Rightarrow> (int \<times> 'k) option"
  xos_msgq_put_timeout :: "ptr \<Rightarrow> rpmsg_queue_rx_cb_data \<Rightarrow> u64 \<Rightarrow> 'k \<Rightarrow> (int \<times> 'k) option"
  xos_msgq_get :: "ptr \<Rightarrow> rpmsg_queue_rx_cb_data \<Rightarrow> 'k \<Rightarrow> (int \<times> rpmsg_queue_rx_cb_data \<times> 'k) option"
  xos_msgq_get_timeout :: "ptr \<Rightarrow> rpmsg_queue_rx_cb_data \<Rightarrow> u64 \<Rightarrow> 'k \<Rightarrow> (int \<times> rpmsg_queue_rx_cb_data \<times> 'k) option"
  xos_msgq_empty :: "ptr \<Rightarrow> 'k \<Rightarrow> int"
  xos_thread_sleep_msec :: "u32 \<Rightarrow> 'k \<Rightarrow> 'k"
  xos_get_system_cycles :: "'k \<Rightarrow> u64"
  xos_msecs_to_cycles :: "u32 \<Rightarrow> u64"
  sizeof_XosSem :: u32

text \<open>\<open>RL_PLATFORM_MAX_ISR_COUNT\<close> of this platform.\<close>

abbreviation (input) HIFI_MAX_ISR_COUNT :: nat where "HIFI_MAX_ISR_COUNT \<equiv> 64"

abbreviation (input) XOS_OK :: int where "XOS_OK \<equiv> 0"

text \<open>\<open>os_icsr\<close> is the conjunction of the INTERRUPT and INTENABLE registers the platform reads.\<close>

type_synonym 'k xos_env = "(hifi_plat, 'k) os_env"

definition xos_in_isr :: "u32 \<Rightarrow> int" where
  "xos_in_isr icsr = hifi_in_isr icsr 0xFFFFFFFF"

section \<open>Memory, locks and delays\<close>

definition xos_allocate_memory :: "'k xk \<Rightarrow> u32 \<Rightarrow> 'k \<Rightarrow> ptr \<times> 'k" where
  "xos_allocate_memory K sz k = xos_malloc K sz k"

definition xos_free_memory :: "'k xk \<Rightarrow> ptr \<Rightarrow> 'k \<Rightarrow> 'k" where
  "xos_free_memory K p k = (if p \<noteq> NULL then xos_free K p k else k)"

definition xos_create_mutex :: "'k xk \<Rightarrow> ptr \<Rightarrow> int \<Rightarrow> 'k \<Rightarrow> int \<times> ptr \<times> 'k" where
  "xos_create_mutex K old count k =
     (if count > RL_ENV_MAX_MUTEX_COUNT then (-1, old, k)
      else let (semaphore_ptr, k) = xos_allocate_memory K (sizeof_XosSem K) k
           in if semaphore_ptr = NULL then (-1, old, k)
              else let (st, k) = xos_sem_create K semaphore_ptr count k
                   in if st = XOS_OK then (0, semaphore_ptr, k)
                      else (-1, old, xos_free_memory K semaphore_ptr k))"

definition xos_delete_mutex :: "'k xk \<Rightarrow> ptr \<Rightarrow> 'k \<Rightarrow> 'k" where
  "xos_delete_mutex K l k = xos_free_memory K l (xos_sem_delete K l k)"

definition xos_lock_mutex :: "'k xk \<Rightarrow> u32 \<Rightarrow> ptr \<Rightarrow> 'k \<Rightarrow> 'k option" where
  "xos_lock_mutex K icsr l k =
     (if xos_in_isr icsr = 0 then do { (st, k) \<leftarrow> xos_sem_get K l k; Some k } else Some k)"

definition xos_unlock_mutex :: "'k xk \<Rightarrow> u32 \<Rightarrow> ptr \<Rightarrow> 'k \<Rightarrow> 'k option" where
  "xos_unlock_mutex K icsr l k = (if xos_in_isr icsr = 0 then Some (xos_sem_put K l k) else Some k)"

definition xos_create_sync_lock :: "'k xk \<Rightarrow> ptr \<Rightarrow> int \<Rightarrow> 'k \<Rightarrow> int \<times> ptr \<times> 'k" where
  "xos_create_sync_lock K old state k = xos_create_mutex K old state k"

definition xos_delete_sync_lock :: "'k xk \<Rightarrow> ptr \<Rightarrow> 'k \<Rightarrow> 'k" where
  "xos_delete_sync_lock K l k = (if l \<noteq> NULL then xos_delete_mutex K l k else k)"

definition xos_sleep_msec :: "'k xk \<Rightarrow> u32 \<Rightarrow> 'k xos_env \<Rightarrow> 'k xos_env" where
  "xos_sleep_msec K num_msec e = e\<lparr>kern := xos_thread_sleep_msec K num_msec (kern e)\<rparr>"

definition xos_get_timestamp :: "'k xk \<Rightarrow> 'k xos_env \<Rightarrow> u64" where
  "xos_get_timestamp K e = xos_get_system_cycles K (kern e)"

section \<open>Initialisation and interrupts\<close>

text \<open>
  \<open>env_init\<close> in three parts, which other tasks can interleave: the part with interrupts disabled,
  which says who the caller is, the work of the first caller, and that of the others.
  \<open>core\<close> is the DSP the layer runs on.
\<close>

datatype init_caller = Init_error | Init_first | Init_other

definition xos_init_enter :: "'k xk \<Rightarrow> 'k xos_env \<Rightarrow> (init_caller \<times> 'k xos_env) option" where
  "xos_init_enter K e =
     do { let (regPrimask, k) = xos_disable_interrupts K (kern e);
          let e = e\<lparr>kern := k\<rparr>;
          rl_assert (os_init_counter e \<ge> 0);
          (if os_init_counter e < 0 then Some (Init_error, e\<lparr>kern := xos_restore_interrupts K regPrimask (kern e)\<rparr>)
           else
             let e = e\<lparr>os_init_counter := os_init_counter e + 1\<rparr>
             in if os_init_counter e = 1
                then let (st, k) = xos_sem_create K (env_sema e) 1 (kern e);
                         k = xos_event_create K (event_group e) 0xFFFFFFFF True k
                     in Some (Init_first, e\<lparr>os_isr_table := replicate HIFI_MAX_ISR_COUNT NULL,
                          kern := xos_restore_interrupts K regPrimask k\<rparr>)
                else Some (Init_other, e\<lparr>kern := xos_restore_interrupts K regPrimask (kern e)\<rparr>)) }"

definition xos_init_first :: "'k xk \<Rightarrow> hifi_core \<Rightarrow> 'k xos_env \<Rightarrow> int \<times> 'k xos_env" where
  "xos_init_first K core e =
     (let (retval, pl, k) = hifi_init False False core (\<lambda>a. xos_create_mutex K (hifi_lock (os_plat e))) (os_plat e, kern e)
      in (retval, e\<lparr>os_plat := pl, kern := xos_sem_put K (env_sema e) k\<rparr>))"

definition xos_init_other :: "'k xk \<Rightarrow> 'k xos_env \<Rightarrow> (int \<times> 'k xos_env) option" where
  "xos_init_other K e =
     do { (st, k) \<leftarrow> xos_sem_get K (env_sema e) (kern e);
          Some (0, e\<lparr>kern := if st = XOS_OK then xos_sem_put K (env_sema e) k else k\<rparr>) }"

definition xos_env_init :: "'k xk \<Rightarrow> hifi_core \<Rightarrow> 'k xos_env \<Rightarrow> (int \<times> 'k xos_env) option" where
  "xos_env_init K core e =
     do { (w, e) \<leftarrow> xos_init_enter K e;
          (case w of Init_error \<Rightarrow> Some (-1, e) | Init_first \<Rightarrow> Some (xos_init_first K core e)
           | Init_other \<Rightarrow> xos_init_other K e) }"

definition xos_env_deinit :: "'k xk \<Rightarrow> hifi_core \<Rightarrow> 'k xos_env \<Rightarrow> (int \<times> 'k xos_env) option" where
  "xos_env_deinit K core e =
     do { let (regPrimask, k) = xos_disable_interrupts K (kern e);
          let e = e\<lparr>kern := k\<rparr>;
          rl_assert (os_init_counter e > 0);
          (if os_init_counter e \<le> 0 then Some (-1, e\<lparr>kern := xos_restore_interrupts K regPrimask (kern e)\<rparr>)
           else
             let e = e\<lparr>os_init_counter := os_init_counter e - 1\<rparr>
             in if os_init_counter e \<le> 0
                then let e = e\<lparr>os_isr_table := replicate HIFI_MAX_ISR_COUNT NULL\<rparr>;
                         (retval, pl, k) = hifi_deinit core (xos_delete_mutex K) (os_plat e, kern e);
                         k = xos_event_delete K (event_group e) k;
                         k = xos_sem_delete K (env_sema e) k
                     in Some (retval, e\<lparr>os_plat := pl, kern := xos_restore_interrupts K regPrimask k\<rparr>)
                else Some (0, e\<lparr>kern := xos_restore_interrupts K regPrimask (kern e)\<rparr>)) }"

definition xos_enable_interrupt :: "u32 \<Rightarrow> 'k xos_env \<Rightarrow> 'k xos_env option" where
  "xos_enable_interrupt vector_id e =
     do { (r, pl) \<leftarrow> hifi_interrupt_enable vector_id (os_plat e); Some (e\<lparr>os_plat := pl\<rparr>) }"

definition xos_disable_interrupt :: "u32 \<Rightarrow> 'k xos_env \<Rightarrow> 'k xos_env option" where
  "xos_disable_interrupt vector_id e =
     do { (r, pl) \<leftarrow> hifi_interrupt_disable vector_id (os_plat e); Some (e\<lparr>os_plat := pl\<rparr>) }"

definition xos_register_isr :: "u32 \<Rightarrow> ptr \<Rightarrow> ptr list \<Rightarrow> ptr list option" where
  "xos_register_isr vector_id data isr_table =
     do { let t = (if unat vector_id < HIFI_MAX_ISR_COUNT then isr_table[unat vector_id := data] else isr_table);
          rl_assert (unat vector_id < HIFI_MAX_ISR_COUNT);
          Some t }"

definition xos_unregister_isr :: "u32 \<Rightarrow> ptr list \<Rightarrow> ptr list option" where
  "xos_unregister_isr vector_id isr_table =
     do { let t = (if unat vector_id < HIFI_MAX_ISR_COUNT then isr_table[unat vector_id := NULL] else isr_table);
          rl_assert (unat vector_id < HIFI_MAX_ISR_COUNT);
          Some t }"

definition xos_isr_data :: "u32 \<Rightarrow> 'k xos_env \<Rightarrow> ptr option" where
  "xos_isr_data vector e =
     (if unat vector < HIFI_MAX_ISR_COUNT then rd (os_isr_table e) (unat vector) else None)"

definition xos_notify :: "'k xk \<Rightarrow> hifi_core \<Rightarrow> u32 \<Rightarrow> 'k xos_env \<Rightarrow> 'k xos_env option" where
  "xos_notify K core vector_id e =
     do { (pl, k) \<leftarrow> hifi_notify False core (xos_lock_mutex K (os_icsr e)) (xos_unlock_mutex K (os_icsr e))
            vector_id (os_plat e, kern e);
          Some (e\<lparr>os_plat := pl, kern := k\<rparr>) }"

section \<open>Waiting for the link\<close>

text \<open>The event is created so that a wait that succeeds clears the bits it waited for.\<close>

definition xos_wait_end :: "'k xk \<Rightarrow> u32 \<Rightarrow> u32 \<Rightarrow> 'k xos_env \<Rightarrow> (u32 \<times> 'k xos_env) option" where
  "xos_wait_end K lbit timeout_ms e =
     do { (st, k) \<leftarrow> (if OS_BLOCK = timeout_ms then xos_event_wait_all K (event_group e) lbit (kern e)
                       else xos_event_wait_all_timeout K (event_group e) lbit (xos_msecs_to_cycles K timeout_ms) (kern e));
          Some (if st = XOS_OK then 1 else 0, e\<lparr>kern := k\<rparr>) }"

definition xos_wait_for_link_up ::
  "'k xk \<Rightarrow> ('k \<Rightarrow> u32) \<Rightarrow> u32 \<Rightarrow> u32 \<Rightarrow> 'k xos_env \<Rightarrow> (u32 \<times> 'k xos_env) option" where
  "xos_wait_for_link_up K link_state link_id timeout_ms e =
     (if link_state (kern e) \<noteq> 1
      then do { lbit \<leftarrow> shl1 link_id; xos_wait_end K lbit timeout_ms e }
      else Some (1, e))"

definition xos_tx_callback :: "'k xk \<Rightarrow> u32 \<Rightarrow> 'k xos_env \<Rightarrow> 'k xos_env option" where
  "xos_tx_callback K link_id e =
     do { lbit \<leftarrow> shl1 link_id; Some (e\<lparr>kern := xos_event_set K (event_group e) lbit (kern e)\<rparr>) }"

section \<open>Message queues\<close>

text \<open>The number of messages is narrowed to 16 bits.\<close>

definition xos_create_queue :: "'k xk \<Rightarrow> ptr \<Rightarrow> int \<Rightarrow> int \<Rightarrow> 'k \<Rightarrow> int \<times> ptr \<times> 'k" where
  "xos_create_queue K old len element_size k =
     (if len < 0 \<or> element_size < 0 then (-1, old, k)
      else let (queue_ptr, k) = xos_allocate_memory K (XOS_MSGQ_SIZE K len element_size) k
           in if queue_ptr \<noteq> NULL
              then let (st, k) = xos_msgq_create K queue_ptr (word_of_int len) (word_of_int element_size) k
                   in if st = XOS_OK then (0, queue_ptr, k) else (-1, old, xos_free_memory K queue_ptr k)
              else (-1, old, k))"

definition xos_delete_queue :: "'k xk \<Rightarrow> ptr \<Rightarrow> 'k xos_env \<Rightarrow> 'k xos_env" where
  "xos_delete_queue K q e = e\<lparr>kern := xos_free_memory K q (xos_msgq_delete K q (kern e))\<rparr>"

definition xos_put_queue ::
  "'k xk \<Rightarrow> ptr \<Rightarrow> rpmsg_queue_rx_cb_data \<Rightarrow> u32 \<Rightarrow> 'k xos_env \<Rightarrow> (int \<times> 'k xos_env) option" where
  "xos_put_queue K q msg timeout_ms e =
     do { (st, k) \<leftarrow> (if OS_BLOCK = timeout_ms then xos_msgq_put K q msg (kern e)
                       else xos_msgq_put_timeout K q msg (xos_msecs_to_cycles K timeout_ms) (kern e));
          Some (if st = XOS_OK then 1 else 0, e\<lparr>kern := k\<rparr>) }"

definition xos_get_queue ::
  "'k xk \<Rightarrow> ptr \<Rightarrow> rpmsg_queue_rx_cb_data \<Rightarrow> u32 \<Rightarrow> 'k xos_env
    \<Rightarrow> (int \<times> rpmsg_queue_rx_cb_data \<times> 'k xos_env) option" where
  "xos_get_queue K q msg timeout_ms e =
     do { (st, m, k) \<leftarrow> (if OS_BLOCK = timeout_ms then xos_msgq_get K q msg (kern e)
                          else xos_msgq_get_timeout K q msg (xos_msecs_to_cycles K timeout_ms) (kern e));
          Some (if st = XOS_OK then 1 else 0, m, e\<lparr>kern := k\<rparr>) }"

definition xos_get_current_queue_size :: "'k xk \<Rightarrow> ptr \<Rightarrow> 'k xos_env \<Rightarrow> int" where
  "xos_get_current_queue_size K q e = xos_msgq_empty K q (kern e)"

section \<open>The ports\<close>

definition xos_port :: "'k xk \<Rightarrow> hifi_core \<Rightarrow> 'k xos_env env_port" where
  "xos_port K core =
     \<lparr>ep_env_init = xos_env_init K core,
      ep_env_deinit = xos_env_deinit K core,
      ep_create_mutex = (\<lambda>addr count e.
        let (st, l, k) = xos_create_mutex K NULL count (kern e) in (st, l, e\<lparr>kern := k\<rparr>)),
      ep_delete_mutex = (\<lambda>l e. e\<lparr>kern := xos_delete_mutex K l (kern e)\<rparr>),
      ep_lock_mutex = (\<lambda>l e. do { k \<leftarrow> xos_lock_mutex K (os_icsr e) l (kern e); Some (e\<lparr>kern := k\<rparr>) }),
      ep_unlock_mutex = (\<lambda>l e. do { k \<leftarrow> xos_unlock_mutex K (os_icsr e) l (kern e); Some (e\<lparr>kern := k\<rparr>) }),
      ep_init_interrupt = (\<lambda>v d e. os_with_plat
        (hifi_init_interrupt core (\<lambda>v d. on_table (xos_register_isr v d))
          (\<lambda>l. on_kern (xos_lock_mutex K (os_icsr e) l)) (\<lambda>l. on_kern (xos_unlock_mutex K (os_icsr e) l)) v d) e),
      ep_deinit_interrupt = (\<lambda>v e. os_with_plat
        (hifi_deinit_interrupt core (\<lambda>v. on_table (xos_unregister_isr v))
          (\<lambda>l. on_kern (xos_lock_mutex K (os_icsr e) l)) (\<lambda>l. on_kern (xos_unlock_mutex K (os_icsr e) l)) v) e),
      ep_enable_interrupt = xos_enable_interrupt,
      ep_disable_interrupt = xos_disable_interrupt,
      ep_notify = xos_notify K core,
      ep_tx_callback = xos_tx_callback K,
      ep_isr_data = xos_isr_data,
      ep_map_vatopa = m33_vatopa,
      ep_map_patova = m33_patova\<rparr>"

definition xos_queue_port :: "'k xk \<Rightarrow> 'k xos_env queue_port" where
  "xos_queue_port K =
     \<lparr>qp_create = (\<lambda>len sz e. let (st, q, k) = xos_create_queue K NULL len sz (kern e) in Some (st, q, e\<lparr>kern := k\<rparr>)),
      qp_delete = xos_delete_queue K, qp_put = xos_put_queue K,
      qp_get = xos_get_queue K, qp_size = xos_get_current_queue_size K\<rparr>"

section \<open>The contract of the kernel\<close>

text \<open>
  The kernel as it can be observed: semaphores (count and the largest count), message queues
  (contents and length) and allocated blocks. A wait with a timeout of 0 ms ends at once.
  \<open>xos_msgq_empty\<close> is not 0 if the queue is empty, and 0 otherwise.
\<close>

locale xos_kernel =
  fixes K :: "'k xk"
    and sem :: "'k \<Rightarrow> ptr \<Rightarrow> (nat \<times> nat) option"
    and queue :: "'k \<Rightarrow> ptr \<Rightarrow> (rpmsg_queue_rx_cb_data list \<times> nat) option"
    and live :: "'k \<Rightarrow> ptr set"
  assumes sem_get: "sem k l = Some (Suc c, m) \<Longrightarrow> \<exists>k'. xos_sem_get K l k = Some (XOS_OK, k')
      \<and> sem k' = (sem k)(l \<mapsto> (c, m)) \<and> queue k' = queue k"
    and sem_block: "sem k l = Some (0, m) \<Longrightarrow> xos_sem_get K l k = None"
    and sem_put: "sem k l = Some (c, m) \<Longrightarrow> c < m \<Longrightarrow>
      sem (xos_sem_put K l k) = (sem k)(l \<mapsto> (Suc c, m)) \<and> queue (xos_sem_put K l k) = queue k"
    and sem_create: "xos_sem_create K p ct k = (st, k') \<Longrightarrow> live k' = live k \<and> queue k' = queue k
      \<and> sem k' = (if st = XOS_OK then (sem k)(p \<mapsto> (nat ct, 2 ^ 31 - 1)) else sem k)"
    and irq_mask: "xos_disable_interrupts K k = (pm, k') \<Longrightarrow> sem k' = sem k \<and> queue k' = queue k \<and> live k' = live k"
    and irq_restore: "sem (xos_restore_interrupts K pm k) = sem k \<and> queue (xos_restore_interrupts K pm k) = queue k
      \<and> live (xos_restore_interrupts K pm k) = live k"
    and event_create: "sem (xos_event_create K g bs ac k) = sem k"
    and alloc: "xos_malloc K sz k = (p, k') \<Longrightarrow> sem k' = sem k \<and> queue k' = queue k
      \<and> (if p = NULL then live k' = live k else p \<notin> live k \<and> live k' = insert p (live k))"
    and free: "live (xos_free K p k) = live k - {p} \<and> sem (xos_free K p k) = sem k
      \<and> queue (xos_free K p k) = queue k"
    and queue_create: "xos_msgq_create K q len w k = (st, k') \<Longrightarrow> live k' = live k \<and> sem k' = sem k
      \<and> queue k' = (if st = XOS_OK then (queue k)(q \<mapsto> ([], unat len)) else queue k)"
    and queue_put: "queue k q = Some (xs, n) \<Longrightarrow> length xs < n \<Longrightarrow>
      \<exists>k'. xos_msgq_put_timeout K q x t k = Some (XOS_OK, k') \<and> queue k' = (queue k)(q \<mapsto> (xs @ [x], n)) \<and> sem k' = sem k"
    and queue_full: "queue k q = Some (xs, n) \<Longrightarrow> n \<le> length xs \<Longrightarrow>
      \<exists>st. st \<noteq> XOS_OK \<and> xos_msgq_put_timeout K q x (xos_msecs_to_cycles K 0) k = Some (st, k)"
    and queue_get: "queue k q = Some (x # xs, n) \<Longrightarrow>
      \<exists>k'. xos_msgq_get_timeout K q y t k = Some (XOS_OK, x, k') \<and> queue k' = (queue k)(q \<mapsto> (xs, n)) \<and> sem k' = sem k"
    and queue_get_block: "queue k q = Some (x # xs, n) \<Longrightarrow>
      \<exists>k'. xos_msgq_get K q y k = Some (XOS_OK, x, k') \<and> queue k' = (queue k)(q \<mapsto> (xs, n)) \<and> sem k' = sem k"
    and queue_empty: "queue k q = Some ([], n) \<Longrightarrow>
      \<exists>st. st \<noteq> XOS_OK \<and> xos_msgq_get_timeout K q y (xos_msecs_to_cycles K 0) k = Some (st, y, k)"
    and queue_is_empty: "queue k q = Some (xs, n) \<Longrightarrow> xos_msgq_empty K q k \<noteq> 0 \<longleftrightarrow> xs = []"

text \<open>
  The layer provides locks and bounded queues as the library needs them; \<open>os_queue\<close>, the contract
  with the number of messages, it does not meet.
\<close>

sublocale xos_kernel \<subseteq> locks: os_port "\<lambda>i. xos_in_isr i \<noteq> 0" "xos_lock_mutex K" "xos_unlock_mutex K" sem queue
    "xos_port K core" hifi_lock "\<lambda>pl. True"
  for core
proof (unfold_locales, goal_cases)
  case (3 i k l c m)
  then show ?case using sem_get [OF 3(2)] by (auto simp: xos_lock_mutex_def)
next
  case (8 e v)
  let ?pl = "hifi_do (hifi_notify_calls False core v) (os_plat e)"
  have "hifi_lock ?pl = hifi_lock (os_plat e)" by (simp add: hifi_do_def)
  then show ?case
    by (intro disjI2 exI [of _ ?pl])
      (cases "xos_lock_mutex K (os_icsr e) (hifi_lock (os_plat e)) (kern e)";
        simp add: xos_port_def xos_notify_def hifi_notify_def Let_def Option.bind_eq_Some_conv split: bind_splits)
qed (auto simp: xos_lock_mutex_def xos_unlock_mutex_def sem_block sem_put xos_port_def
    m33_vatopa_def m33_patova_def)

sublocale xos_kernel \<subseteq> queues: os_fifo "xos_queue_port K" queue True
proof (unfold_locales, goal_cases)
  case (1 e q xs n m)
  then show ?case using queue_put [OF 1(1,2), of m "xos_msecs_to_cycles K 0"]
    by (auto simp: xos_queue_port_def xos_put_queue_def)
next
  case (2 e q xs n m)
  then show ?case using queue_full [OF 2(1,2), of m] by (auto simp: xos_queue_port_def xos_put_queue_def)
next
  case (3 e q x xs n m t)
  then show ?case
    using queue_get [OF 3(1), of m "xos_msecs_to_cycles K t"] queue_get_block [OF 3(1), of m]
    by (auto simp: xos_queue_port_def xos_get_queue_def)
next
  case (4 e q n m)
  then show ?case using queue_empty [OF 4(1), of m] by (auto simp: xos_queue_port_def xos_get_queue_def)
qed

context xos_kernel
begin

lemmas xos_os_locks = locks.os_locks_axioms

lemmas xos_env_locks = locks.os_env_locks [simplified]

lemma init_enter_first:
  assumes "os_init_counter e = 0" "xos_disable_interrupts K (kern e) = (pm, k1)"
    and "xos_sem_create K (env_sema e) 1 k1 = (XOS_OK, k2)"
  shows "\<exists>e1. xos_init_enter K e = Some (Init_first, e1) \<and> os_init_counter e1 = 1 \<and> os_plat e1 = os_plat e
    \<and> env_sema e1 = env_sema e \<and> sem (kern e1) (env_sema e1) = Some (1, 2 ^ 31 - 1)"
  using assms sem_create [OF assms(3)]
  by (auto simp: xos_init_enter_def irq_restore event_create)

lemma init_enter_other:
  assumes "os_init_counter e = 1"
  shows "\<exists>e1. xos_init_enter K e = Some (Init_other, e1) \<and> os_plat e1 = os_plat e \<and> env_sema e1 = env_sema e
    \<and> sem (kern e1) = sem (kern e)"
proof -
  obtain pm k1 where d: "xos_disable_interrupts K (kern e) = (pm, k1)" by fastforce
  then show ?thesis using assms irq_mask [OF d] by (auto simp: xos_init_enter_def irq_restore)
qed

end

text \<open>Events: \<open>events k g\<close> are the bits set in \<open>g\<close>; a wait that succeeds clears its bits.\<close>

locale xos_events = xos_kernel K sem queue live
  for K :: "'k xk" and sem :: "'k \<Rightarrow> ptr \<Rightarrow> (nat \<times> nat) option"
    and queue :: "'k \<Rightarrow> ptr \<Rightarrow> (rpmsg_queue_rx_cb_data list \<times> nat) option" and live :: "'k \<Rightarrow> ptr set" +
  fixes events :: "'k \<Rightarrow> ptr \<Rightarrow> u32"
  assumes event_set: "events (xos_event_set K g b k) = (events k)(g := events k g OR b)"
    and event_wait: "events k g AND b = b \<Longrightarrow>
      \<exists>k'. xos_event_wait_all K g b k = Some (XOS_OK, k') \<and> events k' = (events k)(g := events k g AND NOT b)"
    and event_wait_timeout: "events k g AND b = b \<Longrightarrow>
      \<exists>k'. xos_event_wait_all_timeout K g b t k = Some (XOS_OK, k') \<and> events k' = (events k)(g := events k g AND NOT b)"

section \<open>A kernel that meets the contracts\<close>

record xr =
  xr_sem :: "ptr \<Rightarrow> (nat \<times> nat) option"
  xr_queue :: "ptr \<Rightarrow> (rpmsg_queue_rx_cb_data list \<times> nat) option"
  xr_events :: "ptr \<Rightarrow> u32"
  xr_heap :: heap
  xr_mask :: u32

definition xr_live :: "xr \<Rightarrow> ptr set" where
  "xr_live k = set (hp_live (xr_heap k))"

definition xr_alloc :: "u32 \<Rightarrow> xr \<Rightarrow> ptr \<times> xr" where
  "xr_alloc n k = (let (p, h) = env_allocate_memory (xr_heap k) in (p, k\<lparr>xr_heap := h\<rparr>))"

definition xr_get_sem :: "ptr \<Rightarrow> xr \<Rightarrow> (int \<times> xr) option" where
  "xr_get_sem l k = (case xr_sem k l of
      Some (Suc c, m) \<Rightarrow> Some (XOS_OK, k\<lparr>xr_sem := (xr_sem k)(l \<mapsto> (c, m))\<rparr>)
    | Some (0, m) \<Rightarrow> None | None \<Rightarrow> Some (-1, k))"

definition xr_put_sem :: "ptr \<Rightarrow> xr \<Rightarrow> xr" where
  "xr_put_sem l k = (case xr_sem k l of
      Some (c, m) \<Rightarrow> k\<lparr>xr_sem := (xr_sem k)(l \<mapsto> (Suc c, m))\<rparr> | None \<Rightarrow> k)"

definition xr_put :: "ptr \<Rightarrow> rpmsg_queue_rx_cb_data \<Rightarrow> (int \<times> xr) option \<Rightarrow> xr \<Rightarrow> (int \<times> xr) option" where
  "xr_put q x r k = (case xr_queue k q of
      Some (xs, n) \<Rightarrow> if length xs < n then Some (XOS_OK, k\<lparr>xr_queue := (xr_queue k)(q \<mapsto> (xs @ [x], n))\<rparr>) else r
    | None \<Rightarrow> Some (-1, k))"

definition xr_get ::
  "ptr \<Rightarrow> rpmsg_queue_rx_cb_data \<Rightarrow> (int \<times> rpmsg_queue_rx_cb_data \<times> xr) option \<Rightarrow> xr
    \<Rightarrow> (int \<times> rpmsg_queue_rx_cb_data \<times> xr) option" where
  "xr_get q y r k = (case xr_queue k q of
      Some (x # xs, n) \<Rightarrow> Some (XOS_OK, x, k\<lparr>xr_queue := (xr_queue k)(q \<mapsto> (xs, n))\<rparr>)
    | Some ([], n) \<Rightarrow> r | None \<Rightarrow> Some (-1, y, k))"

definition ref_xos :: "xr xk" where
  "ref_xos =
     \<lparr>xos_disable_interrupts = (\<lambda>k. (xr_mask k, k\<lparr>xr_mask := 1\<rparr>)), xos_restore_interrupts = (\<lambda>pm k. k\<lparr>xr_mask := pm\<rparr>),
      xos_malloc = xr_alloc,
      xos_free = (\<lambda>p k. k\<lparr>xr_heap := (xr_heap k)\<lparr>hp_live := removeAll p (hp_live (xr_heap k))\<rparr>\<rparr>),
      xos_sem_create = (\<lambda>p ct k. (XOS_OK, k\<lparr>xr_sem := (xr_sem k)(p \<mapsto> (nat ct, 2 ^ 31 - 1))\<rparr>)),
      xos_sem_delete = (\<lambda>l k. k\<lparr>xr_sem := (xr_sem k)(l := None)\<rparr>),
      xos_sem_get = xr_get_sem, xos_sem_put = xr_put_sem,
      xos_event_create = (\<lambda>g bs ac k. k\<lparr>xr_events := (xr_events k)(g := 0)\<rparr>), xos_event_delete = (\<lambda>g k. k),
      xos_event_set = (\<lambda>g b k. k\<lparr>xr_events := (xr_events k)(g := xr_events k g OR b)\<rparr>),
      xos_event_wait_all = (\<lambda>g b k. if xr_events k g AND b = b
        then Some (XOS_OK, k\<lparr>xr_events := (xr_events k)(g := xr_events k g AND NOT b)\<rparr>) else None),
      xos_event_wait_all_timeout = (\<lambda>g b t k. if xr_events k g AND b = b
        then Some (XOS_OK, k\<lparr>xr_events := (xr_events k)(g := xr_events k g AND NOT b)\<rparr>) else Some (-2, k)),
      XOS_MSGQ_SIZE = (\<lambda>n sz. word_of_int (48 + n * sz)),
      xos_msgq_create = (\<lambda>q len w k. (XOS_OK, k\<lparr>xr_queue := (xr_queue k)(q \<mapsto> ([], unat len))\<rparr>)),
      xos_msgq_delete = (\<lambda>q k. k\<lparr>xr_queue := (xr_queue k)(q := None)\<rparr>),
      xos_msgq_put = (\<lambda>q x k. xr_put q x None k), xos_msgq_put_timeout = (\<lambda>q x t k. xr_put q x (Some (-2, k)) k),
      xos_msgq_get = (\<lambda>q y k. xr_get q y None k), xos_msgq_get_timeout = (\<lambda>q y t k. xr_get q y (Some (-2, y, k)) k),
      xos_msgq_empty = (\<lambda>q k. case xr_queue k q of Some (x # xs, n) \<Rightarrow> 0 | _ \<Rightarrow> 1),
      xos_thread_sleep_msec = (\<lambda>n k. k), xos_get_system_cycles = (\<lambda>k. 0),
      xos_msecs_to_cycles = (\<lambda>ms. ucast ms * 300000), sizeof_XosSem = 20\<rparr>"

lemmas xr_defs = xr_live_def xr_alloc_def xr_get_sem_def xr_put_sem_def xr_put_def xr_get_def

interpretation ref_xos: xos_kernel ref_xos xr_sem xr_queue xr_live
proof (unfold_locales, goal_cases)
  case (8 n k p k')
  then show ?case
    by (auto simp: ref_xos_def xr_defs env_allocate_memory_def Let_def split: list.splits if_splits)
qed (auto simp: ref_xos_def xr_defs split: if_splits list.splits)

interpretation ref_xos: xos_events ref_xos xr_sem xr_queue xr_live xr_events
  by unfold_locales (auto simp: ref_xos_def)

section \<open>Properties\<close>

text \<open>No wake-up is lost, and a wait that succeeded leaves no stale event behind.\<close>

context xos_events
begin

lemma xos_callback_events:
  assumes "xos_tx_callback K link_id e = Some e'"
  shows "\<exists>b. shl1 link_id = Some b \<and> event_group e' = event_group e
    \<and> events (kern e') = (events (kern e))(event_group e := events (kern e) (event_group e) OR b)"
  using assms by (auto simp: xos_tx_callback_def event_set bind_eq_Some_conv)

lemma xos_link_flag:
  assumes "shl1 link_id = Some lbit"
  shows "link_flag (xos_tx_callback K link_id) (\<lambda>e e'. \<exists>j. xos_tx_callback K j e = Some e')
    (\<lambda>e. events (kern e) (event_group e) AND lbit = lbit)"
proof
  fix e e' assume "xos_tx_callback K link_id e = Some e'"
  from xos_callback_events [OF this] assms show "events (kern e') (event_group e') AND lbit = lbit"
    by (simp add: word_ao_absorbs)
next
  fix e e' assume "\<exists>j. xos_tx_callback K j e = Some e'" and b: "events (kern e) (event_group e) AND lbit = lbit"
  then obtain j c where "events (kern e') (event_group e') = events (kern e) (event_group e) OR c"
    using xos_callback_events by fastforce
  then show "events (kern e') (event_group e') AND lbit = lbit" using or_and_keep [OF b] by simp
qed

lemma xos_wait_not_lost:
  assumes "shl1 link_id = Some lbit"
    and "(link_step Some (xos_wait_end K lbit timeout_ms) (xos_tx_callback K link_id)
      (\<lambda>e e'. \<exists>j. xos_tx_callback K j e = Some e'))\<^sup>*\<^sup>* (e0, ls0, W_begin, I_state) (e, ls, W_wait, I_done)"
  shows "\<exists>e'. xos_wait_end K lbit timeout_ms e = Some (1, e') \<and> events (kern e') (event_group e') AND lbit = 0"
proof -
  have b: "events (kern e) (event_group e) AND lbit = lbit"
    using link_flag.link_reach_inv [OF xos_link_flag [OF assms(1)] assms(2)] by simp
  have z: "(v AND NOT lbit) AND lbit = 0" for v :: u32
    by (rule bit_word_eqI) (simp add: bit_simps)
  show ?thesis
    using event_wait [OF b] event_wait_timeout [OF b, of "xos_msecs_to_cycles K timeout_ms"] z
    by (auto simp: xos_wait_end_def)
qed

end

text \<open>
  \<open>env_get_current_queue_size\<close> is the wrong way round: it passes on whether the queue is
  empty, so it is 0 exactly when there are messages. So the layer does not meet the contract for
  \<open>rpmsg_queue_get_current_size\<close>, which returns this number to the application.
\<close>

theorem xos_queue_size:
  assumes "xos_kernel K sem queue live" and "queue (kern e) q = Some (x # xs, n)" and "Suc (length xs) < 2 ^ 31"
  shows "xos_get_current_queue_size K q e = 0 \<and> \<not> os_queue (xos_queue_port K) queue True
    \<and> (queue (kern e') q' = Some ([], n') \<longrightarrow> xos_get_current_queue_size K q' e' \<noteq> 0)"
proof -
  have z: "xos_get_current_queue_size K q e = 0"
    using xos_kernel.queue_is_empty [OF assms(1,2)] by (simp add: xos_get_current_queue_size_def)
  have "\<not> os_queue (xos_queue_port K) queue True"
  proof
    assume "os_queue (xos_queue_port K) queue True"
    from os_queue.q_size [OF this assms(2)] assms(3) z show False by (simp add: xos_queue_port_def)
  qed
  with z show ?thesis
    using xos_kernel.queue_is_empty [OF assms(1), of "kern e'" q' "[]" n']
    by (simp add: xos_get_current_queue_size_def)
qed

definition xr0 :: "ptr list \<Rightarrow> xr" where
  "xr0 blocks = \<lparr>xr_sem = \<lambda>l. None, xr_queue = \<lambda>q. None, xr_events = \<lambda>g. 0,
     xr_heap = \<lparr>hp_next = blocks, hp_live = []\<rparr>, xr_mask = 0\<rparr>"

definition xos_ex :: "xr \<Rightarrow> xr xos_env" where
  "xos_ex k = \<lparr>os_init_counter = 0, os_isr_table = replicate 64 NULL, env_sema = 0x10, event_group = 0x20,
     os_plat = \<lparr>hifi_isr_counter = \<lambda>n. 0, hifi_disable_counter = 0, hifi_lock = NULL, hifi_lock_var = 0x34, hifi_log = []\<rparr>,
     os_icsr = 0, kern = k\<rparr>"

lemma xos_queue_size_witness:
  "\<exists>x. xos_get_current_queue_size ref_xos 0x40 (xos_ex ((xr0 [])\<lparr>xr_queue := [0x40 \<mapsto> ([x, x], 4)]\<rparr>)) = 0"
proof -
  let ?x = "\<lparr>q_src = 30, q_data = 0x1010, q_len = 4\<rparr>"
  have "xr_queue (kern (xos_ex ((xr0 [])\<lparr>xr_queue := [0x40 \<mapsto> ([?x, ?x], 4)]\<rparr>))) 0x40 = Some (?x # [?x], 4)"
    by (simp add: xos_ex_def)
  from xos_queue_size [OF ref_xos.xos_kernel_axioms this] show ?thesis by auto
qed

text \<open>
  C36: the semaphore that should make later callers of \<open>env_init\<close> wait until the first one has
  initialised the platform is created with count 1, so it stops nobody: if the first caller is
  preempted after its critical section, a second one runs through \<open>env_init\<close> and returns 0, with
  the platform as it was before any initialisation.
\<close>

theorem xos_init_race:
  assumes "xos_kernel K sem queue live" and "os_init_counter e = 0"
    and "xos_disable_interrupts K (kern e) = (pm, k1)" and "xos_sem_create K (env_sema e) 1 k1 = (XOS_OK, k2)"
  shows "\<exists>e1 e2. xos_init_enter K e = Some (Init_first, e1)
    \<and> xos_env_init K core e1 = Some (0, e2) \<and> os_plat e2 = os_plat e"
proof -
  obtain e1 where e1: "xos_init_enter K e = Some (Init_first, e1)" "os_init_counter e1 = 1"
    "os_plat e1 = os_plat e" "sem (kern e1) (env_sema e1) = Some (1, 2 ^ 31 - 1)"
    using xos_kernel.init_enter_first [OF assms] by blast
  obtain e2 where e2: "xos_init_enter K e1 = Some (Init_other, e2)" "os_plat e2 = os_plat e1"
    "env_sema e2 = env_sema e1" "sem (kern e2) = sem (kern e1)"
    using xos_kernel.init_enter_other [OF assms(1) e1(2)] by blast
  have "sem (kern e2) (env_sema e2) = Some (Suc 0, 2 ^ 31 - 1)" using e2(3,4) e1(4) by simp
  from xos_kernel.sem_get [OF assms(1) this] obtain k where
    "xos_sem_get K (env_sema e2) (kern e2) = Some (XOS_OK, k)" by blast
  then have "xos_env_init K core e1 = Some (0, e2\<lparr>kern := xos_sem_put K (env_sema e2) k\<rparr>)"
    using e2(1) by (simp add: xos_env_init_def xos_init_other_def)
  then show ?thesis using e1(1,3) e2(2) by auto
qed

lemma xos_init_race_witness:
  "\<exists>e1 e2. xos_init_enter ref_xos (xos_ex (xr0 [])) = Some (Init_first, e1)
    \<and> xos_env_init ref_xos HiFi4 e1 = Some (0, e2) \<and> hifi_lock (os_plat e2) = NULL"
proof -
  have "xos_disable_interrupts ref_xos (kern (xos_ex (xr0 []))) = (0, (xr0 [])\<lparr>xr_mask := 1\<rparr>)"
    by (simp add: ref_xos_def xos_ex_def xr0_def)
  moreover have "xos_sem_create ref_xos (env_sema (xos_ex (xr0 []))) 1 ((xr0 [])\<lparr>xr_mask := 1\<rparr>) =
      (XOS_OK, (xr0 [])\<lparr>xr_mask := 1, xr_sem := [0x10 \<mapsto> (1, 2 ^ 31 - 1)]\<rparr>)"
    by (simp add: ref_xos_def xos_ex_def xr0_def)
  moreover have "os_init_counter (xos_ex (xr0 [])) = 0" by (simp add: xos_ex_def)
  ultimately have "\<exists>e1 e2. xos_init_enter ref_xos (xos_ex (xr0 [])) = Some (Init_first, e1)
    \<and> xos_env_init ref_xos HiFi4 e1 = Some (0, e2) \<and> os_plat e2 = os_plat (xos_ex (xr0 []))"
    by (intro xos_init_race [OF ref_xos.xos_kernel_axioms])
  then show ?thesis by (fastforce simp: xos_ex_def)
qed

end
