(* ===== verification/Env_Qnx.thy ===== *)
theory Env_Qnx
  imports Env_Queue Env_Bm
begin

text \<open>
  The QNX environment layer (\<^verbatim>\<open>lib/rpmsg_lite/porting/environment/rpmsg_env_qnx.c\<close>) and its platform
  layer (\<^verbatim>\<open>lib/rpmsg_lite/porting/platform/qnx_aarch64/rpmsg_platform.c\<close>), which use
  \<open>RL_USE_ENVIRONMENT_CONTEXT = 1\<close>: their state is in context structures on the heap. QNX, the C
  library and the driver of the messaging unit are the argument \<open>K\<close>; what their message
  queues do is the contract \<open>qnx_mqueues\<close>.
\<close>

section \<open>State\<close>

text \<open>
  \<open>struct isr_info\<close>, \<open>env_context_t\<close>, \<open>platform_context_t\<close> and \<open>env_queue_t\<close>. A block that
  \<open>malloc\<close> returns has whatever contents it has: reading a field that was never written gives
  the value in \<open>garbage_env\<close> and \<open>garbage_plat\<close>.
\<close>

record isr_info =
  isr_data :: ptr
  isr_enabled :: u32

record env_context =
  platform_context :: ptr
  ctx_pa :: u32
  ctx_va :: ptr
  ctx_isr_table :: "isr_info list"

record platform_context =
  mu_base :: u32
  mu_irq :: u32
  mu_handle :: ptr
  pc_ready :: u32
  env_ctx :: ptr

record env_queue_t =
  q_mqd :: int
  q_msg_len :: u32

record 'k qnx =
  q_malloc :: "u32 \<Rightarrow> 'k \<Rightarrow> ptr \<times> 'k"
  q_free :: "ptr \<Rightarrow> 'k \<Rightarrow> 'k"
  garbage_env :: "'k \<Rightarrow> ptr \<Rightarrow> env_context"
  garbage_plat :: "'k \<Rightarrow> ptr \<Rightarrow> platform_context"
  ThreadCtl_io :: "'k \<Rightarrow> int"
  imx_mu_init :: "u32 \<Rightarrow> u32 \<Rightarrow> 'k \<Rightarrow> ptr \<times> 'k"
  imx_mu_deinit :: "ptr \<Rightarrow> 'k \<Rightarrow> 'k"
  imx_mu_send :: "ptr \<Rightarrow> u32 \<Rightarrow> 'k \<Rightarrow> int \<times> 'k"
  imx_mu_read :: "ptr \<Rightarrow> 'k \<Rightarrow> int \<times> u32 \<times> 'k"
  pthread_create :: "ptr \<Rightarrow> 'k \<Rightarrow> int \<times> 'k"
  pthread_cancel :: "ptr \<Rightarrow> 'k \<Rightarrow> 'k"
  pthread_mutex_init :: "ptr \<Rightarrow> 'k \<Rightarrow> int \<times> 'k"
  pthread_mutex_destroy :: "ptr \<Rightarrow> 'k \<Rightarrow> 'k"
  pthread_mutex_lock :: "ptr \<Rightarrow> 'k \<Rightarrow> 'k option"
  pthread_mutex_unlock :: "ptr \<Rightarrow> 'k \<Rightarrow> 'k"
  mq_open :: "string \<Rightarrow> int \<Rightarrow> int \<Rightarrow> 'k \<Rightarrow> int \<times> 'k"
  mq_close :: "int \<Rightarrow> 'k \<Rightarrow> 'k"
  mq_send :: "int \<Rightarrow> rpmsg_queue_rx_cb_data \<Rightarrow> 'k \<Rightarrow> (int \<times> 'k) option"
  mq_receive :: "int \<Rightarrow> rpmsg_queue_rx_cb_data \<Rightarrow> 'k \<Rightarrow> (int \<times> rpmsg_queue_rx_cb_data \<times> 'k) option"
  mq_getattr :: "int \<Rightarrow> 'k \<Rightarrow> int \<times> int"
  q_getpid :: u32
  q_delay :: "u32 \<Rightarrow> 'k \<Rightarrow> 'k"
  q_gen_mu_msg :: "u32 \<Rightarrow> u32"
  QNX_ISR_COUNT :: nat
  QNX_MAX_MUTEX_COUNT :: int
  sizeof_env_context :: u32
  sizeof_platform_context :: u32
  sizeof_env_queue :: u32
  sizeof_pthread_mutex :: u32

record 'k qnx_state =
  qs_envs :: "ptr \<Rightarrow> env_context option"
  qs_plats :: "ptr \<Rightarrow> platform_context option"
  qs_queues :: "ptr \<Rightarrow> env_queue_t option"
  qs_kern :: 'k

section \<open>Platform\<close>

text \<open>
  The start of the receive thread up to the point where it reports its status to the thread that
  created it; the result is the value of \<open>ready\<close>.
\<close>

abbreviation (input) RECV_THREAD_READY :: u32 where "RECV_THREAD_READY \<equiv> 1"
abbreviation (input) RECV_THREAD_FAIL :: u32 where "RECV_THREAD_FAIL \<equiv> 2"

definition platform_recv_start :: "'k qnx \<Rightarrow> ptr \<Rightarrow> 'k qnx_state \<Rightarrow> 'k qnx_state option" where
  "platform_recv_start K data s =
     do { ctx \<leftarrow> qs_plats s data;
          let ready_flag = (if ThreadCtl_io K (qs_kern s) \<noteq> 0 then RECV_THREAD_FAIL else RECV_THREAD_READY);
          let (ready_flag, ctx, k) =
            (if ready_flag \<noteq> RECV_THREAD_FAIL
             then let (h, k) = imx_mu_init K (mu_base ctx) (mu_irq ctx) (qs_kern s)
                  in (if h = NULL then RECV_THREAD_FAIL else ready_flag, ctx\<lparr>mu_handle := h\<rparr>, k)
             else (RECV_THREAD_FAIL, ctx, qs_kern s));
          Some (s\<lparr>qs_plats := (qs_plats s)(data \<mapsto> ctx\<lparr>pc_ready := ready_flag\<rparr>), qs_kern := k\<rparr>) }"

text \<open>\<open>init\<close> is the platform part of the user's configuration, \<open>None\<close> a NULL pointer.\<close>

definition qnx_platform_init ::
  "'k qnx \<Rightarrow> ptr \<Rightarrow> (u32 \<times> u32) option \<Rightarrow> 'k qnx_state \<Rightarrow> (int \<times> ptr \<times> 'k qnx_state) option" where
  "qnx_platform_init K env_context init s =
     (let (ctx, k) = q_malloc K (sizeof_platform_context K) (qs_kern s); s = s\<lparr>qs_kern := k\<rparr>
      in case init of
           None \<Rightarrow> Some (-1, NULL, if ctx \<noteq> NULL then s\<lparr>qs_kern := q_free K ctx (qs_kern s)\<rparr> else s)
         | Some (base, irq) \<Rightarrow>
             if ctx = NULL then Some (-1, NULL, s)
             else
               let c = (garbage_plat K (qs_kern s) ctx)\<lparr>mu_base := base, mu_irq := irq, pc_ready := 0, env_ctx := env_context\<rparr>;
                   s = s\<lparr>qs_plats := (qs_plats s)(ctx \<mapsto> c)\<rparr>;
                   (st, k) = pthread_create K ctx (qs_kern s); s = s\<lparr>qs_kern := k\<rparr>
               in if st \<noteq> 0
                  then Some (-1, NULL, s\<lparr>qs_plats := (qs_plats s)(ctx := None), qs_kern := q_free K ctx (qs_kern s)\<rparr>)
                  else do {
                    s \<leftarrow> platform_recv_start K ctx s;
                    c \<leftarrow> qs_plats s ctx;
                    (if pc_ready c \<noteq> RECV_THREAD_READY
                     then Some (-1, NULL, s\<lparr>qs_plats := (qs_plats s)(ctx := None), qs_kern := q_free K ctx (qs_kern s)\<rparr>)
                     else Some (0, ctx, s)) })"

definition qnx_platform_deinit :: "'k qnx \<Rightarrow> ptr \<Rightarrow> 'k qnx_state \<Rightarrow> 'k qnx_state option" where
  "qnx_platform_deinit K ctx s =
     do { c \<leftarrow> qs_plats s ctx;
          let k = imx_mu_deinit K (mu_handle c) (pthread_cancel K ctx (qs_kern s));
          Some (s\<lparr>qs_plats := (qs_plats s)(ctx := None), qs_kern := q_free K ctx k\<rparr>) }"

text \<open>A notification is sent again, after a pause, until the driver takes it.\<close>

partial_function (option) mu_send_loop :: "'k qnx \<Rightarrow> ptr \<Rightarrow> u32 \<Rightarrow> 'k \<Rightarrow> 'k option" where
  "mu_send_loop K h msg k =
     (let (st, k) = imx_mu_send K h msg k
      in if st \<noteq> 0 then mu_send_loop K h msg (q_delay K 1 k) else Some k)"

definition qnx_platform_notify :: "'k qnx \<Rightarrow> ptr \<Rightarrow> u32 \<Rightarrow> 'k qnx_state \<Rightarrow> 'k qnx_state option" where
  "qnx_platform_notify K ctx vector_id s =
     (let msg = q_gen_mu_msg K vector_id
      in if ctx \<noteq> NULL
         then do {
           c \<leftarrow> qs_plats s ctx;
           (if mu_handle c \<noteq> NULL
            then do { k \<leftarrow> mu_send_loop K (mu_handle c) msg (qs_kern s); Some (s\<lparr>qs_kern := k\<rparr>) }
            else Some s) }
         else Some s)"

section \<open>Interrupts\<close>

definition env_get_platform_context :: "ptr \<Rightarrow> 'k qnx_state \<Rightarrow> ptr option" where
  "env_get_platform_context env s = do { c \<leftarrow> qs_envs s env; Some (platform_context c) }"

definition isr_update ::
  "'k qnx \<Rightarrow> ptr \<Rightarrow> u32 \<Rightarrow> (isr_info \<Rightarrow> isr_info) \<Rightarrow> 'k qnx_state \<Rightarrow> 'k qnx_state option" where
  "isr_update K env vector_id f s =
     do { rl_assert (unat vector_id < QNX_ISR_COUNT K);
          c \<leftarrow> qs_envs s env;
          i \<leftarrow> rd (ctx_isr_table c) (unat vector_id);
          Some (s\<lparr>qs_envs := (qs_envs s)(env \<mapsto> c\<lparr>ctx_isr_table := (ctx_isr_table c)[unat vector_id := f i]\<rparr>)\<rparr>) }"

definition qnx_register_isr :: "'k qnx \<Rightarrow> ptr \<Rightarrow> u32 \<Rightarrow> ptr \<Rightarrow> 'k qnx_state \<Rightarrow> 'k qnx_state option" where
  "qnx_register_isr K env vector_id data = isr_update K env vector_id (\<lambda>i. i\<lparr>isr_data := data\<rparr>)"

definition qnx_unregister_isr :: "'k qnx \<Rightarrow> ptr \<Rightarrow> u32 \<Rightarrow> 'k qnx_state \<Rightarrow> 'k qnx_state option" where
  "qnx_unregister_isr K env vector_id = isr_update K env vector_id (\<lambda>i. i\<lparr>isr_data := NULL, isr_enabled := 0\<rparr>)"

definition qnx_enable_interrupt :: "'k qnx \<Rightarrow> ptr \<Rightarrow> u32 \<Rightarrow> 'k qnx_state \<Rightarrow> 'k qnx_state option" where
  "qnx_enable_interrupt K env vector_id = isr_update K env vector_id (\<lambda>i. i\<lparr>isr_enabled := 1\<rparr>)"

definition qnx_disable_interrupt :: "'k qnx \<Rightarrow> ptr \<Rightarrow> u32 \<Rightarrow> 'k qnx_state \<Rightarrow> 'k qnx_state option" where
  "qnx_disable_interrupt K env vector_id = isr_update K env vector_id (\<lambda>i. i\<lparr>isr_enabled := 0\<rparr>)"

definition qnx_init_interrupt :: "'k qnx \<Rightarrow> ptr \<Rightarrow> u32 \<Rightarrow> ptr \<Rightarrow> 'k qnx_state \<Rightarrow> (int \<times> 'k qnx_state) option" where
  "qnx_init_interrupt K env vq_id data s = do { s \<leftarrow> qnx_register_isr K env vq_id data s; Some (0, s) }"

definition qnx_deinit_interrupt :: "'k qnx \<Rightarrow> ptr \<Rightarrow> u32 \<Rightarrow> 'k qnx_state \<Rightarrow> (int \<times> 'k qnx_state) option" where
  "qnx_deinit_interrupt K env vq_id s = do { s \<leftarrow> qnx_unregister_isr K env vq_id s; Some (0, s) }"

text \<open>\<open>env_isr\<close> calls \<open>virtqueue_notification\<close> with the registered virtqueue, if it is enabled.\<close>

definition qnx_isr ::
  "'k qnx \<Rightarrow> (ptr \<Rightarrow> 'k qnx_state \<Rightarrow> 'k qnx_state option) \<Rightarrow> ptr \<Rightarrow> u32 \<Rightarrow> 'k qnx_state \<Rightarrow> 'k qnx_state option" where
  "qnx_isr K virtqueue_notification env vector s =
     do { rl_assert (unat vector < QNX_ISR_COUNT K);
          c \<leftarrow> qs_envs s env;
          i \<leftarrow> rd (ctx_isr_table c) (unat vector);
          (if isr_enabled i \<noteq> 0 then virtqueue_notification (isr_data i) s else Some s) }"

text \<open>One round of the loop of the receive thread.\<close>

definition platform_recv_step ::
  "'k qnx \<Rightarrow> (ptr \<Rightarrow> 'k qnx_state \<Rightarrow> 'k qnx_state option) \<Rightarrow> ptr \<Rightarrow> 'k qnx_state \<Rightarrow> 'k qnx_state option" where
  "platform_recv_step K virtqueue_notification ctx s =
     do { c \<leftarrow> qs_plats s ctx;
          let (st, msg, k) = imx_mu_read K (mu_handle c) (qs_kern s);
          let s = s\<lparr>qs_kern := k\<rparr>;
          (if st = 0 then qnx_isr K virtqueue_notification (env_ctx c) (drop_bit 16 msg) s else Some s) }"

section \<open>Initialisation\<close>

text \<open>\<open>rpmsg_env_init_t\<close>; \<open>platform_cfg\<close> is \<open>None\<close> when it or the user's configuration is NULL.\<close>

record rpmsg_env_init =
  ei_pa :: u32
  ei_va :: ptr
  ei_platform_cfg :: "(u32 \<times> u32) option"

definition qnx_env_init ::
  "'k qnx \<Rightarrow> ptr \<Rightarrow> rpmsg_env_init option \<Rightarrow> 'k qnx_state \<Rightarrow> (int \<times> ptr \<times> 'k qnx_state) option" where
  "qnx_env_init K old env_init_data s =
     (case env_init_data of
        None \<Rightarrow> Some (-1, old, s)
      | Some init \<Rightarrow>
          let (ctx, k) = q_malloc K (sizeof_env_context K) (qs_kern s); s = s\<lparr>qs_kern := k\<rparr>
          in if ctx = NULL then Some (-1, old, s)
             else do {
               let c = (garbage_env K (qs_kern s) ctx)\<lparr>ctx_pa := ei_pa init, ctx_va := ei_va init\<rparr>;
               let s = s\<lparr>qs_envs := (qs_envs s)(ctx \<mapsto> c)\<rparr>;
               (st, pctx, s) \<leftarrow> qnx_platform_init K ctx (ei_platform_cfg init) s;
               (if st \<noteq> 0
                then Some (-1, old, s\<lparr>qs_envs := (qs_envs s)(ctx := None), qs_kern := q_free K ctx (qs_kern s)\<rparr>)
                else do {
                  c \<leftarrow> qs_envs s ctx;
                  Some (0, ctx, s\<lparr>qs_envs := (qs_envs s)(ctx \<mapsto> c\<lparr>platform_context := pctx\<rparr>)\<rparr>) }) })"

definition qnx_env_deinit :: "'k qnx \<Rightarrow> ptr \<Rightarrow> 'k qnx_state \<Rightarrow> (int \<times> 'k qnx_state) option" where
  "qnx_env_deinit K ctx s =
     do { c \<leftarrow> qs_envs s ctx;
          s \<leftarrow> qnx_platform_deinit K (platform_context c) s;
          Some (0, s\<lparr>qs_envs := (qs_envs s)(ctx := None), qs_kern := q_free K ctx (qs_kern s)\<rparr>) }"

section \<open>Locks, delays and address translation\<close>

definition qnx_create_mutex :: "'k qnx \<Rightarrow> ptr \<Rightarrow> int \<Rightarrow> 'k \<Rightarrow> int \<times> ptr \<times> 'k" where
  "qnx_create_mutex K old count k =
     (if count > QNX_MAX_MUTEX_COUNT K then (-1, old, k)
      else let (l, k) = q_malloc K (sizeof_pthread_mutex K) k
           in if l = NULL then (-1, l, k)
              else let (st, k) = pthread_mutex_init K l k
                   in if st = 0 then (0, l, k) else (-1, l, q_free K l k))"

definition qnx_delete_mutex :: "'k qnx \<Rightarrow> ptr \<Rightarrow> 'k \<Rightarrow> 'k" where
  "qnx_delete_mutex K l k = q_free K l (pthread_mutex_destroy K l k)"

definition qnx_lock_mutex :: "'k qnx \<Rightarrow> ptr \<Rightarrow> 'k \<Rightarrow> 'k option" where
  "qnx_lock_mutex K l k = pthread_mutex_lock K l k"

definition qnx_unlock_mutex :: "'k qnx \<Rightarrow> ptr \<Rightarrow> 'k \<Rightarrow> 'k" where
  "qnx_unlock_mutex K l k = pthread_mutex_unlock K l k"

definition qnx_create_sync_lock :: "'k qnx \<Rightarrow> ptr \<Rightarrow> int \<Rightarrow> 'k \<Rightarrow> int \<times> ptr \<times> 'k" where
  "qnx_create_sync_lock K old state k = qnx_create_mutex K old state k"

definition qnx_delete_sync_lock :: "'k qnx \<Rightarrow> ptr \<Rightarrow> 'k \<Rightarrow> 'k" where
  "qnx_delete_sync_lock K l k = (if l \<noteq> NULL then qnx_delete_mutex K l k else k)"

definition qnx_sleep_msec :: "'k qnx \<Rightarrow> u32 \<Rightarrow> 'k \<Rightarrow> 'k" where
  "qnx_sleep_msec K num_msec k = q_delay K num_msec k"

definition qnx_map_vatopa :: "ptr \<Rightarrow> u32" where
  "qnx_map_vatopa address = address"

definition qnx_map_patova :: "u32 \<Rightarrow> ptr" where
  "qnx_map_patova address = address"

text \<open>The busy wait is the one of the bare-metal layer, on the kernel, with \<open>delay\<close> as the pause.\<close>

definition qnx_wait_for_link_up ::
  "'k qnx \<Rightarrow> u32 \<Rightarrow> ('k \<Rightarrow> u32 option) \<Rightarrow> u32 \<Rightarrow> u32 \<Rightarrow> 'k \<Rightarrow> (u32 \<times> 'k) option" where
  "qnx_wait_for_link_up K iv link_state link_id timeout_ms k =
     wait_for_link_up_loop link_state (qnx_sleep_msec K iv) iv timeout_ms 0 k"

section \<open>Message queues\<close>

text \<open>\<open>sprintf(name, "/%u_0x%lx_%d", getpid(), (uint64_t)q, length)\<close>, for a length that is not negative.\<close>

definition digit :: "nat \<Rightarrow> char" where
  "digit d = (if d < 10 then char_of (48 + d) else char_of (87 + d))"

fun digits :: "nat \<Rightarrow> nat \<Rightarrow> nat \<Rightarrow> string" where
  "digits 0 b n = []"
| "digits (Suc f) b n = (if n < b then [digit n] else digits f b (n div b) @ [digit (n mod b)])"

definition queue_name :: "u32 \<Rightarrow> ptr \<Rightarrow> int \<Rightarrow> string" where
  "queue_name pid q len =
     ''/'' @ digits 10 10 (unat pid) @ ''_0x'' @ digits 16 16 (unat q) @ ''_'' @ digits 10 10 (nat len)"

definition qnx_create_queue ::
  "'k qnx \<Rightarrow> ptr \<Rightarrow> int \<Rightarrow> int \<Rightarrow> 'k qnx_state \<Rightarrow> int \<times> ptr \<times> 'k qnx_state" where
  "qnx_create_queue K old len element_size s =
     (if len < 0 \<or> element_size < 0 then (-1, NULL, s)
      else let (q, k) = q_malloc K (sizeof_env_queue K) (qs_kern s); s = s\<lparr>qs_kern := k\<rparr>
           in if q = NULL then (-1, old, s)
              else let name = queue_name (q_getpid K) q len;
                       (mqd, k) = mq_open K name len element_size (qs_kern s); s = s\<lparr>qs_kern := k\<rparr>
                   in if mqd = -1 then (-1, old, s\<lparr>qs_kern := q_free K q (qs_kern s)\<rparr>)
                      else (0, q, s\<lparr>qs_queues := (qs_queues s)(q \<mapsto> \<lparr>q_mqd = mqd, q_msg_len = word_of_int element_size\<rparr>)\<rparr>))"

definition qnx_delete_queue :: "'k qnx \<Rightarrow> ptr \<Rightarrow> 'k qnx_state \<Rightarrow> 'k qnx_state option" where
  "qnx_delete_queue K q s =
     do { d \<leftarrow> qs_queues s q;
          let k = mq_close K (q_mqd d) (qs_kern s);
          Some (s\<lparr>qs_queues := (qs_queues s)(q := None), qs_kern := q_free K q k\<rparr>) }"

definition qnx_put_queue ::
  "'k qnx \<Rightarrow> ptr \<Rightarrow> rpmsg_queue_rx_cb_data \<Rightarrow> u32 \<Rightarrow> 'k qnx_state \<Rightarrow> (int \<times> 'k qnx_state) option" where
  "qnx_put_queue K q msg timeout_ms s =
     do { d \<leftarrow> qs_queues s q;
          (st, k) \<leftarrow> mq_send K (q_mqd d) msg (qs_kern s);
          Some (if st \<noteq> 0 then 0 else 1, s\<lparr>qs_kern := k\<rparr>) }"

definition qnx_get_queue ::
  "'k qnx \<Rightarrow> ptr \<Rightarrow> rpmsg_queue_rx_cb_data \<Rightarrow> u32 \<Rightarrow> 'k qnx_state
    \<Rightarrow> (int \<times> rpmsg_queue_rx_cb_data \<times> 'k qnx_state) option" where
  "qnx_get_queue K q msg timeout_ms s =
     do { d \<leftarrow> qs_queues s q;
          (st, m, k) \<leftarrow> mq_receive K (q_mqd d) msg (qs_kern s);
          Some (if st = -1 then 0 else 1, m, s\<lparr>qs_kern := k\<rparr>) }"

definition qnx_get_current_queue_size :: "'k qnx \<Rightarrow> ptr \<Rightarrow> 'k qnx_state \<Rightarrow> int option" where
  "qnx_get_current_queue_size K q s =
     do { d \<leftarrow> qs_queues s q;
          let (st, curmsgs) = mq_getattr K (q_mqd d) (qs_kern s);
          Some (if st \<noteq> -1 then curmsgs else 0) }"

text \<open>The name always fits the 100 bytes it is printed to.\<close>

lemma length_digits: "length (digits f b n) \<le> f"
proof (induction f b n rule: digits.induct)
  case (2 f b n)
  then show ?case by (cases "n < b") auto
qed simp

lemma queue_name_fits: "length (queue_name pid q len) < 100"
  using length_digits [of 10 10 "unat pid"] length_digits [of 16 16 "unat q"] length_digits [of 10 10 "nat len"]
  by (simp add: queue_name_def)

section \<open>The contract of the message queues\<close>

text \<open>
  POSIX message queues without \<open>O_NONBLOCK\<close>, opened with \<open>O_CREAT\<close> but not \<open>O_EXCL\<close>: \<open>mqs\<close> are the
  queues that exist, by their names, \<open>desc\<close> the open descriptors. Opening an existing queue leaves
  it as it is; a queue exists until it is unlinked, whoever closes it. All messages have
  the same priority.
\<close>

locale qnx_mqueues =
  fixes K :: "'k qnx"
    and mqs :: "'k \<Rightarrow> string \<Rightarrow> (rpmsg_queue_rx_cb_data list \<times> nat) option"
    and desc :: "'k \<Rightarrow> int \<Rightarrow> string option"
  assumes open_new: "mq_open K name len sz k = (d, k') \<Longrightarrow> d \<noteq> -1 \<Longrightarrow> mqs k name = None \<Longrightarrow>
      mqs k' = (mqs k)(name \<mapsto> ([], nat len)) \<and> desc k' = (desc k)(d \<mapsto> name)"
    and open_old: "mq_open K name len sz k = (d, k') \<Longrightarrow> d \<noteq> -1 \<Longrightarrow> mqs k name = Some v \<Longrightarrow>
      mqs k' = mqs k \<and> desc k' = (desc k)(d \<mapsto> name)"
    and close: "desc k d = Some name \<Longrightarrow> mqs (mq_close K d k) = mqs k \<and> desc (mq_close K d k) = (desc k)(d := None)"
    and send: "desc k d = Some name \<Longrightarrow> mqs k name = Some (xs, n) \<Longrightarrow> length xs < n \<Longrightarrow>
      \<exists>k'. mq_send K d m k = Some (0, k') \<and> mqs k' = (mqs k)(name \<mapsto> (xs @ [m], n)) \<and> desc k' = desc k"
    and send_full: "desc k d = Some name \<Longrightarrow> mqs k name = Some (xs, n) \<Longrightarrow> n \<le> length xs \<Longrightarrow> mq_send K d m k = None"
    and receive: "desc k d = Some name \<Longrightarrow> mqs k name = Some (x # xs, n) \<Longrightarrow>
      \<exists>st k'. st \<noteq> -1 \<and> mq_receive K d y k = Some (st, x, k') \<and> mqs k' = (mqs k)(name \<mapsto> (xs, n)) \<and> desc k' = desc k"
    and receive_empty: "desc k d = Some name \<Longrightarrow> mqs k name = Some ([], n) \<Longrightarrow> mq_receive K d y k = None"
    and malloc: "q_malloc K b k = (p, k') \<Longrightarrow> mqs k' = mqs k \<and> desc k' = desc k"
    and free: "mqs (q_free K p k) = mqs k \<and> desc (q_free K p k) = desc k"

text \<open>\<open>qnx_q q name s\<close>: the queue object \<open>q\<close> is open on \<open>name\<close>.\<close>

definition qnx_q :: "('k \<Rightarrow> int \<Rightarrow> string option) \<Rightarrow> ptr \<Rightarrow> string \<Rightarrow> 'k qnx_state \<Rightarrow> bool" where
  "qnx_q desc q name s \<longleftrightarrow> (\<exists>d. qs_queues s q = Some d \<and> desc (qs_kern s) (q_mqd d) = Some name)"

context qnx_mqueues
begin

lemma create_queue_ok:
  assumes "qnx_create_queue K old len sz s = (0, q, s')"
  shows "let name = queue_name (q_getpid K) q len in qnx_q desc q name s'
    \<and> mqs (qs_kern s') = (case mqs (qs_kern s) name of None \<Rightarrow> (mqs (qs_kern s))(name \<mapsto> ([], nat len)) | Some v \<Rightarrow> mqs (qs_kern s))"
proof -
  obtain p k1 where m: "q_malloc K (sizeof_env_queue K) (qs_kern s) = (p, k1)" by fastforce
  obtain d k2 where o: "mq_open K (queue_name (q_getpid K) p len) len sz k1 = (d, k2)" by fastforce
  have q: "p = q" "d \<noteq> -1" and s': "s' = s\<lparr>qs_kern := k2, qs_queues := (qs_queues s)(q \<mapsto> \<lparr>q_mqd = d, q_msg_len = word_of_int sz\<rparr>)\<rparr>"
    using assms m o by (auto simp: qnx_create_queue_def Let_def split: if_splits)
  show ?thesis
    using malloc [OF m] open_new [OF o q(2)] open_old [OF o q(2)] unfolding s' q(1)
    by (cases "mqs (qs_kern s) (queue_name (q_getpid K) q len)") (auto simp: Let_def qnx_q_def)
qed

lemma put_queue_ok:
  assumes "qnx_q desc q name s" "mqs (qs_kern s) name = Some (xs, n)" "length xs < n"
  shows "\<exists>s'. qnx_put_queue K q m t s = Some (1, s') \<and> qnx_q desc q name s'
    \<and> mqs (qs_kern s') = (mqs (qs_kern s))(name \<mapsto> (xs @ [m], n))"
proof -
  obtain d where d: "qs_queues s q = Some d" "desc (qs_kern s) (q_mqd d) = Some name"
    using assms(1) by (auto simp: qnx_q_def)
  from send [OF d(2) assms(2,3), of m] d show ?thesis by (auto simp: qnx_put_queue_def qnx_q_def)
qed

lemma get_queue_ok:
  assumes "qnx_q desc q name s" "mqs (qs_kern s) name = Some (x # xs, n)"
  shows "\<exists>s'. qnx_get_queue K q y t s = Some (1, x, s') \<and> qnx_q desc q name s'
    \<and> mqs (qs_kern s') = (mqs (qs_kern s))(name \<mapsto> (xs, n))"
proof -
  obtain d where d: "qs_queues s q = Some d" "desc (qs_kern s) (q_mqd d) = Some name"
    using assms(1) by (auto simp: qnx_q_def)
  from receive [OF d(2) assms(2), of y] d show ?thesis by (auto simp: qnx_get_queue_def qnx_q_def)
qed

lemma delete_queue_ok:
  assumes "qnx_q desc q name s"
  shows "\<exists>s'. qnx_delete_queue K q s = Some s' \<and> mqs (qs_kern s') = mqs (qs_kern s)"
  using assms by (auto simp: qnx_delete_queue_def qnx_q_def close free)

lemma put_full_blocks:
  assumes "qnx_q desc q name s" "mqs (qs_kern s) name = Some (xs, n)" "n \<le> length xs"
  shows "qnx_put_queue K q m t s = None"
  using assms send_full by (auto simp: qnx_put_queue_def qnx_q_def)

lemma get_empty_blocks:
  assumes "qnx_q desc q name s" "mqs (qs_kern s) name = Some ([], n)"
  shows "qnx_get_queue K q y t s = None"
  using assms receive_empty by (auto simp: qnx_get_queue_def qnx_q_def)

end

section \<open>A kernel that meets the contract\<close>

record qr =
  qr_mqs :: "string \<Rightarrow> (rpmsg_queue_rx_cb_data list \<times> nat) option"
  qr_desc :: "int \<Rightarrow> string option"
  qr_next :: int
  qr_heap :: heap
  qr_garbage :: env_context

definition qr_open :: "string \<Rightarrow> int \<Rightarrow> int \<Rightarrow> qr \<Rightarrow> int \<times> qr" where
  "qr_open name len sz k =
     (qr_next k, k\<lparr>qr_mqs := (case qr_mqs k name of None \<Rightarrow> (qr_mqs k)(name \<mapsto> ([], nat len)) | Some v \<Rightarrow> qr_mqs k),
        qr_desc := (qr_desc k)(qr_next k \<mapsto> name), qr_next := qr_next k + 1\<rparr>)"

definition qr_send :: "int \<Rightarrow> rpmsg_queue_rx_cb_data \<Rightarrow> qr \<Rightarrow> (int \<times> qr) option" where
  "qr_send d m k = (case qr_desc k d of None \<Rightarrow> Some (-1, k) | Some name \<Rightarrow>
      (case qr_mqs k name of None \<Rightarrow> Some (-1, k)
       | Some (xs, n) \<Rightarrow> if length xs < n then Some (0, k\<lparr>qr_mqs := (qr_mqs k)(name \<mapsto> (xs @ [m], n))\<rparr>) else None))"

definition qr_receive :: "int \<Rightarrow> rpmsg_queue_rx_cb_data \<Rightarrow> qr \<Rightarrow> (int \<times> rpmsg_queue_rx_cb_data \<times> qr) option" where
  "qr_receive d y k = (case qr_desc k d of None \<Rightarrow> Some (-1, y, k) | Some name \<Rightarrow>
      (case qr_mqs k name of
         Some (x # xs, n) \<Rightarrow> Some (12, x, k\<lparr>qr_mqs := (qr_mqs k)(name \<mapsto> (xs, n))\<rparr>)
       | Some ([], n) \<Rightarrow> None | None \<Rightarrow> Some (-1, y, k)))"

definition ref_qnx :: "qr qnx" where
  "ref_qnx =
     \<lparr>q_malloc = (\<lambda>n k. let (p, h) = env_allocate_memory (qr_heap k) in (p, k\<lparr>qr_heap := h\<rparr>)),
      q_free = (\<lambda>p k. k\<lparr>qr_heap := (qr_heap k)\<lparr>hp_live := removeAll p (hp_live (qr_heap k))\<rparr>\<rparr>),
      garbage_env = (\<lambda>k p. qr_garbage k),
      garbage_plat = (\<lambda>k p. \<lparr>mu_base = 0, mu_irq = 0, mu_handle = 0, pc_ready = 0, env_ctx = 0\<rparr>),
      ThreadCtl_io = (\<lambda>k. 0), imx_mu_init = (\<lambda>b i k. (0x80, k)), imx_mu_deinit = (\<lambda>h k. k),
      imx_mu_send = (\<lambda>h m k. (0, k)), imx_mu_read = (\<lambda>h k. (0, 0, k)),
      pthread_create = (\<lambda>p k. (0, k)), pthread_cancel = (\<lambda>p k. k),
      pthread_mutex_init = (\<lambda>p k. (0, k)), pthread_mutex_destroy = (\<lambda>p k. k),
      pthread_mutex_lock = (\<lambda>p k. Some k), pthread_mutex_unlock = (\<lambda>p k. k),
      mq_open = qr_open, mq_close = (\<lambda>d k. k\<lparr>qr_desc := (qr_desc k)(d := None)\<rparr>),
      mq_send = qr_send, mq_receive = qr_receive,
      mq_getattr = (\<lambda>d k. case qr_desc k d of None \<Rightarrow> (-1, 0) | Some name \<Rightarrow>
        (case qr_mqs k name of None \<Rightarrow> (-1, 0) | Some (xs, n) \<Rightarrow> (0, int (length xs)))),
      q_getpid = 42, q_delay = (\<lambda>n k. k), q_gen_mu_msg = (\<lambda>v. push_bit 16 v),
      QNX_ISR_COUNT = 32, QNX_MAX_MUTEX_COUNT = 10, sizeof_env_context = 268, sizeof_platform_context = 24,
      sizeof_env_queue = 8, sizeof_pthread_mutex = 8\<rparr>"

interpretation ref_qnx: qnx_mqueues ref_qnx qr_mqs qr_desc
  by unfold_locales
    (auto simp: ref_qnx_def qr_open_def qr_send_def qr_receive_def Let_def split: prod.splits)

definition qnx_ex :: "ptr list \<Rightarrow> isr_info list \<Rightarrow> qr qnx_state" where
  "qnx_ex blocks table = \<lparr>qs_envs = \<lambda>p. None, qs_plats = \<lambda>p. None, qs_queues = \<lambda>p. None,
     qs_kern = \<lparr>qr_mqs = \<lambda>n. None, qr_desc = \<lambda>d. None, qr_next = 3, qr_heap = \<lparr>hp_next = blocks, hp_live = []\<rparr>,
       qr_garbage = \<lparr>platform_context = 0, ctx_pa = 0, ctx_va = 0, ctx_isr_table = table\<rparr>\<rparr>\<rparr>"

section \<open>Properties\<close>

text \<open>
  A deleted queue comes back. \<open>env_delete_queue\<close> closes the message queue but never unlinks
  it, and the name is made of the process, the address of the queue object and the length. So if the
  allocator hands out the same block for the next queue of the same length, the new queue is the
  old one: its first \<open>env_get_queue\<close> returns a message that was put into the deleted queue, with
  the address of a receive buffer that the library may have reused since.
\<close>

theorem qnx_queue_stale:
  assumes "qnx_mqueues K mqs desc"
    and "qnx_create_queue K old len sz s = (0, q, s1)" "mqs (qs_kern s) (queue_name (q_getpid K) q len) = None" "0 < len"
    and "qnx_put_queue K q m t s1 = Some (r, s2)" "qnx_delete_queue K q s2 = Some s3"
    and "qnx_create_queue K old' len sz' s3 = (0, q, s4)"
  shows "\<exists>s5. qnx_get_queue K q y t' s4 = Some (1, m, s5)"
proof -
  let ?name = "queue_name (q_getpid K) q len"
  have c1: "qnx_q desc q ?name s1" "mqs (qs_kern s1) ?name = Some ([], nat len)"
    using qnx_mqueues.create_queue_ok [OF assms(1,2)] assms(3) by (simp_all add: Let_def)
  then have p: "qnx_q desc q ?name s2" "mqs (qs_kern s2) ?name = Some ([m], nat len)"
    using qnx_mqueues.put_queue_ok [OF assms(1) c1, of m t] assms(4,5) by auto
  have "mqs (qs_kern s3) = mqs (qs_kern s2)"
    using qnx_mqueues.delete_queue_ok [OF assms(1) p(1)] assms(6) by auto
  then have "qnx_q desc q ?name s4" "mqs (qs_kern s4) ?name = Some (m # [], nat len)"
    using qnx_mqueues.create_queue_ok [OF assms(1,7)] p(2) by (simp_all add: Let_def)
  from qnx_mqueues.get_queue_ok [OF assms(1) this] show ?thesis by blast
qed

lemma qnx_queue_stale_witness:
  "\<exists>s1 r s2 s3 s4 s5. qnx_create_queue ref_qnx 0 4 12 (qnx_ex [0x100, 0x100] []) = (0, 0x100, s1)
    \<and> qnx_put_queue ref_qnx 0x100 \<lparr>q_src = 30, q_data = 0x1010, q_len = 4\<rparr> 0 s1 = Some (r, s2)
    \<and> qnx_delete_queue ref_qnx 0x100 s2 = Some s3
    \<and> qnx_create_queue ref_qnx 0 4 12 s3 = (0, 0x100, s4)
    \<and> qnx_get_queue ref_qnx 0x100 queue_msg_zero 0 s4 = Some (1, \<lparr>q_src = 30, q_data = 0x1010, q_len = 4\<rparr>, s5)"
proof -
  let ?m = "\<lparr>q_src = 30, q_data = 0x1010, q_len = 4\<rparr>"
  define name where "name = queue_name 42 0x100 4"
  define k0 where "k0 = qs_kern (qnx_ex [0x100, 0x100] [])"
  define s0 where "s0 = qnx_ex [0x100, 0x100] []"
  define s1 where "s1 = s0\<lparr>qs_kern := k0\<lparr>qr_mqs := [name \<mapsto> ([], 4)], qr_desc := [3 \<mapsto> name], qr_next := 4,
    qr_heap := \<lparr>hp_next = [0x100], hp_live = [0x100]\<rparr>\<rparr>, qs_queues := [0x100 \<mapsto> \<lparr>q_mqd = 3, q_msg_len = 12\<rparr>]\<rparr>"
  define s2 where "s2 = s1\<lparr>qs_kern := (qs_kern s1)\<lparr>qr_mqs := [name \<mapsto> ([?m], 4)]\<rparr>\<rparr>"
  define s3 where "s3 = s0\<lparr>qs_kern := k0\<lparr>qr_mqs := [name \<mapsto> ([?m], 4)], qr_next := 4,
    qr_heap := \<lparr>hp_next = [0x100], hp_live = []\<rparr>\<rparr>\<rparr>"
  define s4 where "s4 = s3\<lparr>qs_kern := k0\<lparr>qr_mqs := [name \<mapsto> ([?m], 4)], qr_desc := [4 \<mapsto> name], qr_next := 5,
    qr_heap := \<lparr>hp_next = [], hp_live = [0x100]\<rparr>\<rparr>, qs_queues := [0x100 \<mapsto> \<lparr>q_mqd = 4, q_msg_len = 12\<rparr>]\<rparr>"
  note d = qnx_ex_def k0_def s0_def
  have a: "qnx_create_queue ref_qnx 0 4 12 s0 = (0, 0x100, s1)"
    by (simp add: qnx_create_queue_def ref_qnx_def env_allocate_memory_def qr_open_def s1_def d name_def Let_def)
  have b: "qnx_put_queue ref_qnx 0x100 ?m 0 s1 = Some (1, s2)"
    by (simp add: qnx_put_queue_def ref_qnx_def qr_send_def s1_def s2_def)
  have c: "qnx_delete_queue ref_qnx 0x100 s2 = Some s3"
    by (simp add: qnx_delete_queue_def ref_qnx_def s1_def s2_def s3_def d fun_eq_iff)
  have e: "qnx_create_queue ref_qnx 0 4 12 s3 = (0, 0x100, s4)"
    by (simp add: qnx_create_queue_def ref_qnx_def env_allocate_memory_def qr_open_def s3_def s4_def d name_def Let_def)
  have n: "qr_mqs (qs_kern s0) (queue_name (q_getpid ref_qnx) 0x100 4) = None" by (simp add: d)
  show ?thesis
    using qnx_queue_stale [OF ref_qnx.qnx_mqueues_axioms a n _ b c e, of queue_msg_zero 0] a b c e
    unfolding s0_def by fastforce
qed

text \<open>
  Timeouts are ignored. \<open>env_put_queue\<close> on a full queue and \<open>env_get_queue\<close> on an empty one
  never return by themselves, whatever the timeout, also with timeout 0, which the receive callback of
  \<^verbatim>\<open>rpmsg_queue.c\<close> passes; with room or with messages they do what the other layers do.
\<close>

theorem qnx_queue_timeouts:
  assumes "qnx_mqueues K mqs desc" and "qnx_q desc q name s" and "mqs (qs_kern s) name = Some (xs, n)"
  shows "(if length xs < n then \<exists>s'. qnx_put_queue K q m t s = Some (1, s') \<and> mqs (qs_kern s') name = Some (xs @ [m], n)
      else qnx_put_queue K q m t s = None)
    \<and> (case xs of x # ys \<Rightarrow> \<exists>s'. qnx_get_queue K q y t s = Some (1, x, s') \<and> mqs (qs_kern s') name = Some (ys, n)
       | [] \<Rightarrow> qnx_get_queue K q y t s = None)"
proof
  show "if length xs < n then \<exists>s'. qnx_put_queue K q m t s = Some (1, s') \<and> mqs (qs_kern s') name = Some (xs @ [m], n)
      else qnx_put_queue K q m t s = None"
    using qnx_mqueues.put_queue_ok [OF assms, of m t] qnx_mqueues.put_full_blocks [OF assms, of m t] by auto
  show "case xs of x # ys \<Rightarrow> \<exists>s'. qnx_get_queue K q y t s = Some (1, x, s') \<and> mqs (qs_kern s') name = Some (ys, n)
       | [] \<Rightarrow> qnx_get_queue K q y t s = None"
    using qnx_mqueues.get_queue_ok [OF assms(1,2), of _ _ n y t] qnx_mqueues.get_empty_blocks [OF assms(1,2), of n y t]
      assms(3) by (fastforce split: list.split)
qed

lemma qnx_queue_timeouts_witness:
  "\<exists>s. qnx_put_queue ref_qnx 0x100 queue_msg_zero 0 s = None"
proof -
  define s where "s = (qnx_ex [] [])\<lparr>qs_queues := [0x100 \<mapsto> \<lparr>q_mqd = 3, q_msg_len = 12\<rparr>],
    qs_kern := (qs_kern (qnx_ex [] []))\<lparr>qr_desc := [3 \<mapsto> ''/q''], qr_mqs := [''/q'' \<mapsto> ([queue_msg_zero], 1)]\<rparr>\<rparr>"
  have "qnx_q qr_desc 0x100 ''/q'' s" "qr_mqs (qs_kern s) ''/q'' = Some ([queue_msg_zero], 1)"
    by (simp_all add: s_def qnx_q_def)
  from qnx_queue_timeouts [OF ref_qnx.qnx_mqueues_axioms this, of queue_msg_zero 0 queue_msg_zero] show ?thesis
    by auto
qed

section \<open>The table of interrupt handlers\<close>

lemma recv_start_envs: "platform_recv_start K data s = Some s' \<Longrightarrow> qs_envs s' = qs_envs s"
  by (cases "qs_plats s data")
    (auto simp: platform_recv_start_def Let_def case_prod_beta split: if_splits)

lemma platform_init_envs: "qnx_platform_init K env init s = Some (st, p, s') \<Longrightarrow> qs_envs s' = qs_envs s"
  by (auto simp: qnx_platform_init_def bind_eq_Some_conv Let_def dest!: recv_start_envs
      split: prod.splits option.splits if_splits)

text \<open>
  The table of interrupt handlers is never cleared. \<open>env_init\<close> leaves the table of a new context
  as \<open>malloc\<close> returned it, and the receive thread it starts uses it at once: for a vector that nobody
  registered, \<open>env_isr\<close> calls \<open>virtqueue_notification\<close> with whatever pointer the block happens to
  contain, unless the flag next to it happens to be 0.
\<close>

theorem qnx_isr_uninitialised:
  assumes "qnx_env_init K old (Some init) s = Some (0, env, s')"
    and "q_malloc K (sizeof_env_context K) (qs_kern s) = (env, k)"
    and "rd (ctx_isr_table (garbage_env K k env)) (unat v) = Some i" "unat v < QNX_ISR_COUNT K"
  shows "qnx_isr K virtqueue_notification env v s' =
    (if isr_enabled i \<noteq> 0 then virtqueue_notification (isr_data i) s' else Some s')"
proof -
  let ?c = "(garbage_env K k env)\<lparr>ctx_pa := ei_pa init, ctx_va := ei_va init\<rparr>"
  let ?s = "s\<lparr>qs_kern := k, qs_envs := (qs_envs s)(env \<mapsto> ?c)\<rparr>"
  obtain pctx s2 c where i: "qnx_platform_init K env (ei_platform_cfg init) ?s = Some (0, pctx, s2)"
    "qs_envs s2 env = Some c" "s' = s2\<lparr>qs_envs := (qs_envs s2)(env \<mapsto> c\<lparr>platform_context := pctx\<rparr>)\<rparr>"
    using assms(1,2) by (auto simp: qnx_env_init_def bind_eq_Some_conv Let_def split: if_splits)
  have "c = ?c" using platform_init_envs [OF i(1)] i(2) by simp
  then have "\<exists>c'. qs_envs s' env = Some c' \<and> ctx_isr_table c' = ctx_isr_table (garbage_env K k env)"
    using i(3) by simp
  then show ?thesis using assms(3,4) by (auto simp: qnx_isr_def)
qed

lemma qnx_isr_uninitialised_witness:
  "\<exists>s'. qnx_env_init ref_qnx 0 (Some \<lparr>ei_pa = 0, ei_va = 0, ei_platform_cfg = Some (0x5D1C0000, 200)\<rparr>)
      (qnx_ex [0x100, 0x200] (replicate 32 \<lparr>isr_data = 0xDEADBEEF, isr_enabled = 7\<rparr>)) = Some (0, 0x100, s')
    \<and> qnx_isr ref_qnx (\<lambda>d s. if d = 0xDEADBEEF then None else Some s) 0x100 5 s' = None"
proof -
  let ?t = "replicate 32 \<lparr>isr_data = 0xDEADBEEF, isr_enabled = 7\<rparr>"
  let ?i = "\<lparr>ei_pa = 0, ei_va = 0, ei_platform_cfg = Some (0x5D1C0000, 200)\<rparr>"
  obtain s' where i: "qnx_env_init ref_qnx 0 (Some ?i) (qnx_ex [0x100, 0x200] ?t) = Some (0, 0x100, s')"
    by (simp add: qnx_env_init_def qnx_platform_init_def platform_recv_start_def ref_qnx_def qnx_ex_def
        env_allocate_memory_def Let_def)
  have m: "q_malloc ref_qnx (sizeof_env_context ref_qnx) (qs_kern (qnx_ex [0x100, 0x200] ?t)) =
      (0x100, (qs_kern (qnx_ex [0x100, 0x200] ?t))\<lparr>qr_heap := \<lparr>hp_next = [0x200], hp_live = [0x100]\<rparr>\<rparr>)"
    by (simp add: ref_qnx_def qnx_ex_def env_allocate_memory_def)
  have r: "rd (ctx_isr_table (garbage_env ref_qnx ((qs_kern (qnx_ex [0x100, 0x200] ?t))\<lparr>qr_heap :=
      \<lparr>hp_next = [0x200], hp_live = [0x100]\<rparr>\<rparr>) 0x100)) (unat (5 :: u32)) = Some \<lparr>isr_data = 0xDEADBEEF, isr_enabled = 7\<rparr>"
    by (simp add: ref_qnx_def qnx_ex_def)
  have "unat (5 :: u32) < QNX_ISR_COUNT ref_qnx" by (simp add: ref_qnx_def)
  from qnx_isr_uninitialised [OF i m r this] i show ?thesis by simp
qed

text \<open>After registration and enabling, the handler gets exactly the registered virtqueue.\<close>

lemma qnx_isr_registered:
  assumes "qnx_register_isr K env v data s = Some s1" "qnx_enable_interrupt K env v s1 = Some s2"
  shows "qnx_isr K f env v s2 = f data s2"
  using assms by (auto simp: qnx_register_isr_def qnx_enable_interrupt_def isr_update_def qnx_isr_def bind_eq_Some_conv)

text \<open>While it is disabled, a notification is dropped: it is not delivered later either.\<close>

lemma qnx_isr_disabled:
  assumes "qnx_disable_interrupt K env v s = Some s1"
  shows "qnx_isr K f env v s1 = Some s1"
  using assms by (auto simp: qnx_disable_interrupt_def isr_update_def qnx_isr_def bind_eq_Some_conv)

end
