(* ===== verification/Platform_Mu.thy ===== *)
theory Platform_Mu
  imports Platform_Imxrt700
begin

text \<open>
  The platform layers that notify with a word through a messaging unit (MU): most of the i.MX ports under
  \<^verbatim>\<open>lib/rpmsg_lite/porting/platform\<close> are this code, for other units, other interrupt lines
  and other pairs of cores, and with a few differences that matter. What differs is the record \<open>mu_port\<close>, and
  the operations below are functions of it; the theories \<open>Platform_Imx\<close>, \<open>Platform_Imx8ulp\<close> and \<open>Platform_Imx9\<close> give the
  ports, and \<open>Mu_Channel\<close> what holds of them all. Calls of the SDK are recorded with their arguments. One unit of a core connects it with one other
  core; a channel of it is a register that holds one word until the other core reads it.
\<close>

section \<open>State and configuration\<close>

text \<open>Words are sent and received on channel \<open>RPMSG_MU_CHANNEL\<close>, whose interrupt the unit switches on and off.\<close>

datatype ('u, 'i) mu_op =
    Mu_init 'u
  | Mu_deinit 'u
  | Mu_enable_rx 'u
  | Mu_disable_rx 'u
  | Mu_send 'u u32
  | Nvic_priority 'i nat
  | Nvic_enable 'i
  | Nvic_disable 'i
  | Irqsteer_enable 'u
  | Irqsteer_disable 'u
  | Dsp_enable 'i
  | Dsp_disable 'i
  | Dsp_handler 'i bool

text \<open>The counters belong to the pairs of cores; a port with one pair uses the counters of pair 0.\<close>

record ('u, 'i) mu_plat =
  mup_isr_counter :: "u32 \<Rightarrow> int"
  mup_disable_counter :: "u32 \<Rightarrow> int"
  mup_lock :: ptr
  mup_lock_var :: ptr
  mup_primask :: bool
  mup_log :: "('u, 'i) mu_op list"

text \<open>
  \<open>com_of\<close> is what the switches compare, \<open>unit_of\<close> their cases: the unit and the interrupt line of a pair of
  cores. \<open>count_first\<close> says that \<open>platform_interrupt_disable\<close> increments the counter before it
  compares it with 0, \<open>lock_checked\<close> that the registration of handlers fails without a lock.
\<close>

record ('u, 'i) mu_port =
  com_of :: "u32 \<Rightarrow> u32"
  unit_of :: "u32 \<Rightarrow> ('u \<times> 'i) option"
  msg_of :: "u32 \<Rightarrow> u32"
  first_use :: "int \<Rightarrow> bool"
  lock_checked :: bool
  count_first :: bool
  start_ops :: "('u, 'i) mu_op list"
  stop_ops :: "('u, 'i) mu_op list"

text \<open>
  Ports with one pair of cores, whose word is \<open>msg\<close>, and ports that tell pairs apart by the upper bits of the
  identifier, whose word is its vring and queue.
\<close>

definition single_mu_port ::
  "'u \<Rightarrow> 'i \<Rightarrow> (u32 \<Rightarrow> u32) \<Rightarrow> ('u, 'i) mu_op list \<Rightarrow> ('u, 'i) mu_op list \<Rightarrow> ('u, 'i) mu_port" where
  "single_mu_port u i msg start stop =
     \<lparr>com_of = (\<lambda>v. 0), unit_of = (\<lambda>com. if com = 0 then Some (u, i) else None), msg_of = msg,
      first_use = (\<lambda>n. n = 0), lock_checked = False, count_first = False, start_ops = start, stop_ops = stop\<rparr>"

definition RL_GEN_MU_MSG :: "u32 \<Rightarrow> u32" where
  "RL_GEN_MU_MSG vq_id = push_bit 16 (vq_id AND 0x7)"

definition multi_mu_port ::
  "(u32 \<Rightarrow> ('u \<times> 'i) option) \<Rightarrow> bool \<Rightarrow> bool \<Rightarrow> ('u, 'i) mu_op list \<Rightarrow> ('u, 'i) mu_op list \<Rightarrow> ('u, 'i) mu_port" where
  "multi_mu_port units checked before start stop =
     \<lparr>com_of = RL_GET_COM_ID, unit_of = units, msg_of = RL_GEN_MU_MSG,
      first_use = (\<lambda>n. n = 0), lock_checked = checked, count_first = before, start_ops = start, stop_ops = stop\<rparr>"

definition mu_ops :: "('u, 'i) mu_op list \<Rightarrow> ('u, 'i) mu_plat \<Rightarrow> ('u, 'i) mu_plat" where
  "mu_ops cs pl = pl\<lparr>mup_log := mup_log pl @ cs\<rparr>"

section \<open>Operations\<close>

definition mu_init_interrupt ::
  "('u, 'i) mu_port \<Rightarrow> (u32 \<Rightarrow> ptr \<Rightarrow> 'e \<Rightarrow> 'e option) \<Rightarrow> (ptr \<Rightarrow> 'e \<Rightarrow> 'e option) \<Rightarrow> (ptr \<Rightarrow> 'e \<Rightarrow> 'e option)
    \<Rightarrow> u32 \<Rightarrow> ptr \<Rightarrow> ('u, 'i) mu_plat \<times> 'e \<Rightarrow> (int \<times> ('u, 'i) mu_plat \<times> 'e) option" where
  "mu_init_interrupt P register_isr lock unlock vector_id isr_data s =
     (let (pl, e) = s; com = com_of P vector_id
      in if lock_checked P \<and> mup_lock pl = NULL then Some (-1, pl, e)
         else do {
           e \<leftarrow> register_isr vector_id isr_data e;
           e \<leftarrow> lock (mup_lock pl) e;
           pl \<leftarrow> (case unit_of P com of
               None \<Rightarrow> Some pl
             | Some (u, i) \<Rightarrow> do {
                 rl_assert (0 \<le> mup_isr_counter pl com);
                 let pl = (if first_use P (mup_isr_counter pl com) then mu_ops [Mu_enable_rx u] pl else pl);
                 Some (pl\<lparr>mup_isr_counter := (mup_isr_counter pl)(com := mup_isr_counter pl com + 1)\<rparr>) });
           e \<leftarrow> unlock (mup_lock pl) e;
           Some (0, pl, e) })"

definition mu_deinit_interrupt ::
  "('u, 'i) mu_port \<Rightarrow> (u32 \<Rightarrow> 'e \<Rightarrow> 'e option) \<Rightarrow> (ptr \<Rightarrow> 'e \<Rightarrow> 'e option) \<Rightarrow> (ptr \<Rightarrow> 'e \<Rightarrow> 'e option)
    \<Rightarrow> u32 \<Rightarrow> ('u, 'i) mu_plat \<times> 'e \<Rightarrow> (int \<times> ('u, 'i) mu_plat \<times> 'e) option" where
  "mu_deinit_interrupt P unregister_isr lock unlock vector_id s =
     (let (pl, e) = s; com = com_of P vector_id
      in if lock_checked P \<and> mup_lock pl = NULL then Some (-1, pl, e)
         else do {
           e \<leftarrow> lock (mup_lock pl) e;
           pl \<leftarrow> (case unit_of P com of
               None \<Rightarrow> Some pl
             | Some (u, i) \<Rightarrow> do {
                 rl_assert (0 < mup_isr_counter pl com);
                 let pl = pl\<lparr>mup_isr_counter := (mup_isr_counter pl)(com := mup_isr_counter pl com - 1)\<rparr>;
                 Some (if first_use P (mup_isr_counter pl com) then mu_ops [Mu_disable_rx u] pl else pl) });
           e \<leftarrow> unregister_isr vector_id e;
           e \<leftarrow> unlock (mup_lock pl) e;
           Some (0, pl, e) })"

definition mu_notify ::
  "('u, 'i) mu_port \<Rightarrow> (ptr \<Rightarrow> 'e \<Rightarrow> 'e option) \<Rightarrow> (ptr \<Rightarrow> 'e \<Rightarrow> 'e option)
    \<Rightarrow> u32 \<Rightarrow> ('u, 'i) mu_plat \<times> 'e \<Rightarrow> (('u, 'i) mu_plat \<times> 'e) option" where
  "mu_notify P lock unlock vector_id s =
     (let (pl, e) = s; msg = msg_of P vector_id
      in do {
        e \<leftarrow> lock (mup_lock pl) e;
        let pl = (case unit_of P (com_of P vector_id) of
            Some (u, i) \<Rightarrow> mu_ops [Mu_send u msg] pl
          | None \<Rightarrow> pl);
        e \<leftarrow> unlock (mup_lock pl) e;
        Some (pl, e) })"

text \<open>
  The interrupt handlers: \<open>rr\<close> is the receive register, \<open>None\<close> when its flag says that it is not full; a read
  empties it. The upper half of the word is the identifier, which gets the pair of cores of the unit.
\<close>

definition mu_vector :: "u32 \<Rightarrow> u32 \<Rightarrow> u32" where
  "mu_vector com msg = drop_bit 16 msg OR push_bit 3 com"

definition mu_rx_handler :: "u32 \<Rightarrow> (u32 \<Rightarrow> 's \<Rightarrow> 's option) \<Rightarrow> u32 option \<times> 's \<Rightarrow> (u32 option \<times> 's) option" where
  "mu_rx_handler com isr s =
     (case s of
        (None, e) \<Rightarrow> Some (None, e)
      | (Some channel, e) \<Rightarrow> do { e \<leftarrow> isr (mu_vector com channel) e; Some (None, e) })"

definition mu_interrupt_enable :: "('u, 'i) mu_port \<Rightarrow> u32 \<Rightarrow> ('u, 'i) mu_plat \<Rightarrow> (int \<times> ('u, 'i) mu_plat) option" where
  "mu_interrupt_enable P vector_id pl =
     do { let com = com_of P vector_id;
          let pl = pl\<lparr>mup_primask := True\<rparr>;
          pl \<leftarrow> (case unit_of P com of
              None \<Rightarrow> Some pl
            | Some (u, i) \<Rightarrow> do {
                rl_assert (0 < mup_disable_counter pl com);
                let pl = pl\<lparr>mup_disable_counter := (mup_disable_counter pl)(com := mup_disable_counter pl com - 1)\<rparr>;
                Some (if mup_disable_counter pl com = 0 then mu_ops [Nvic_enable i] pl else pl) });
          Some (0, pl\<lparr>mup_primask := False\<rparr>) }"

definition mu_interrupt_disable :: "('u, 'i) mu_port \<Rightarrow> u32 \<Rightarrow> ('u, 'i) mu_plat \<Rightarrow> (int \<times> ('u, 'i) mu_plat) option" where
  "mu_interrupt_disable P vector_id pl =
     do { let com = com_of P vector_id;
          let pl = pl\<lparr>mup_primask := True\<rparr>;
          pl \<leftarrow> (case unit_of P com of
              None \<Rightarrow> Some pl
            | Some (u, i) \<Rightarrow> do {
                rl_assert (0 \<le> mup_disable_counter pl com);
                let n = mup_disable_counter pl com;
                let pl = pl\<lparr>mup_disable_counter := (mup_disable_counter pl)(com := n + 1)\<rparr>;
                Some (if (if count_first P then n + 1 else n) = 0 then mu_ops [Nvic_disable i] pl else pl) });
          Some (0, pl\<lparr>mup_primask := False\<rparr>) }"

definition mu_init ::
  "('u, 'i) mu_port \<Rightarrow> (ptr \<Rightarrow> int \<Rightarrow> 'e \<Rightarrow> int \<times> ptr \<times> 'e) \<Rightarrow> ('u, 'i) mu_plat \<times> 'e \<Rightarrow> int \<times> ('u, 'i) mu_plat \<times> 'e" where
  "mu_init P create_mutex s =
     (let (pl, e) = s; pl = mu_ops (start_ops P) pl;
          (st, l, e) = create_mutex (mup_lock_var pl) 1 e; pl = pl\<lparr>mup_lock := l\<rparr>
      in if st \<noteq> 0 then (-1, pl, e) else (0, pl, e))"

definition mu_deinit ::
  "('u, 'i) mu_port \<Rightarrow> (ptr \<Rightarrow> 'e \<Rightarrow> 'e) \<Rightarrow> ('u, 'i) mu_plat \<times> 'e \<Rightarrow> int \<times> ('u, 'i) mu_plat \<times> 'e" where
  "mu_deinit P delete_mutex s =
     (let (pl, e) = s; pl = mu_ops (stop_ops P) pl; e = delete_mutex (mup_lock pl) e
      in (0, pl\<lparr>mup_lock := NULL\<rparr>, e))"

section \<open>The word of a notification\<close>

text \<open>The receiver gets the identifier back when it names the pair of cores as the sender does.\<close>

lemma mu_vector_gen: "mu_vector com (RL_GEN_MU_MSG v) = (v AND 0x7) OR push_bit 3 com"
proof -
  have "drop_bit 16 (push_bit 16 (v AND 7)) = v AND 7"
    by (rule bit_word_eqI) (auto simp: bit_simps bit_numeral_rec split: nat.splits)
  then show ?thesis by (simp add: mu_vector_def RL_GEN_MU_MSG_def)
qed

lemma mu_vector_same: "mu_vector (RL_GET_COM_ID v) (RL_GEN_MU_MSG v) = v"
proof -
  have "v AND 7 = take_bit 3 v" by (simp add: take_bit_eq_mask mask_eq_exp_minus_1)
  moreover have "take_bit 3 v OR push_bit 3 (drop_bit 3 v) = v"
    by (rule bit_word_eqI, case_tac "n < 3") (auto simp: bit_simps)
  ultimately show ?thesis by (simp add: mu_vector_gen RL_GET_COM_ID_def)
qed

lemma mu_vector_single: "unat v < 2 ^ 16 \<Longrightarrow> mu_vector 0 (push_bit 16 v) = v"
  by (intro bit_word_eqI) (auto simp: mu_vector_def bit_simps bit_less_exp [where k = 16, simplified])

section \<open>Registered handlers\<close>

text \<open>
  In the ports that enable and disable the interrupt of a unit when the counter of its pair is 0, the interrupt is
  enabled exactly while a handler of the pair is registered.
\<close>

definition units_differ :: "('u, 'i) mu_port \<Rightarrow> bool" where
  "units_differ P \<longleftrightarrow> (\<forall>c d u i j. unit_of P c = Some (u, i) \<longrightarrow> unit_of P d = Some (u, j) \<longrightarrow> c = d)"

definition mu_rx_inv :: "('u, 'i) mu_port \<Rightarrow> ('u \<Rightarrow> bool) \<Rightarrow> ('u, 'i) mu_plat \<Rightarrow> bool" where
  "mu_rx_inv P b pl \<longleftrightarrow> (\<forall>c u i. unit_of P c = Some (u, i) \<longrightarrow> 0 \<le> mup_isr_counter pl c
     \<and> switched (Mu_enable_rx u) (Mu_disable_rx u) (b u) (mup_log pl) = (0 < mup_isr_counter pl c))"

lemma mu_rx_count:
  assumes "units_differ P" "mu_rx_inv P b pl" "unit_of P c = Some (u, i)"
  shows "mup_isr_counter pl c = 0 \<Longrightarrow> mu_rx_inv P b (mu_ops [Mu_enable_rx u] pl\<lparr>mup_isr_counter := (mup_isr_counter pl)(c := 1)\<rparr>)"
    and "mup_isr_counter pl c = 1 \<Longrightarrow> mu_rx_inv P b (mu_ops [Mu_disable_rx u] (pl\<lparr>mup_isr_counter := (mup_isr_counter pl)(c := 0)\<rparr>))"
    and "0 < mup_isr_counter pl c \<Longrightarrow> 0 < n \<Longrightarrow> mu_rx_inv P b (pl\<lparr>mup_isr_counter := (mup_isr_counter pl)(c := n)\<rparr>)"
proof -
  have d: "unit_of P d = Some (v, j) \<Longrightarrow> d \<noteq> c \<Longrightarrow> v \<noteq> u" for d v j using assms(1,3) by (auto simp: units_differ_def)
  have u: "unit_of P c = Some (v, j) \<Longrightarrow> v = u" for v j using assms(3) by simp
  show "mup_isr_counter pl c = 0 \<Longrightarrow> mu_rx_inv P b (mu_ops [Mu_enable_rx u] pl\<lparr>mup_isr_counter := (mup_isr_counter pl)(c := 1)\<rparr>)"
    "mup_isr_counter pl c = 1 \<Longrightarrow> mu_rx_inv P b (mu_ops [Mu_disable_rx u] (pl\<lparr>mup_isr_counter := (mup_isr_counter pl)(c := 0)\<rparr>))"
    "0 < mup_isr_counter pl c \<Longrightarrow> 0 < n \<Longrightarrow> mu_rx_inv P b (pl\<lparr>mup_isr_counter := (mup_isr_counter pl)(c := n)\<rparr>)"
    using assms(2) by (auto simp: mu_rx_inv_def mu_ops_def dest: d u)
qed

lemma mu_init_interrupt_rx:
  assumes "units_differ P" "first_use P = (\<lambda>n. n = 0)" "mu_rx_inv P b pl"
    and "mu_init_interrupt P reg lock unlock v d (pl, e) = Some (r, pl', e')"
  shows "mu_rx_inv P b pl'"
proof (cases "unit_of P (com_of P v)")
  case (Some x)
  then obtain u i where u: "unit_of P (com_of P v) = Some (u, i)" by (cases x) auto
  let ?n = "mup_isr_counter pl (com_of P v)"
  have "pl' = pl \<or> 0 \<le> ?n \<and> pl' = (if ?n = 0 then mu_ops [Mu_enable_rx u] pl else pl)
      \<lparr>mup_isr_counter := (mup_isr_counter pl)(com_of P v := ?n + 1)\<rparr>"
    using u assms(2,4) by (auto simp: mu_init_interrupt_def mu_ops_def Let_def split: bind_splits if_splits)
  then show ?thesis using mu_rx_count(1,3) [OF assms(1,3) u] assms(3) by (cases "?n = 0") auto
qed (use assms in \<open>auto simp: mu_init_interrupt_def Let_def split: bind_splits if_splits\<close>)

lemma mu_deinit_interrupt_rx:
  assumes "units_differ P" "first_use P = (\<lambda>n. n = 0)" "mu_rx_inv P b pl"
    and "mu_deinit_interrupt P unreg lock unlock v (pl, e) = Some (r, pl', e')"
  shows "mu_rx_inv P b pl'"
proof (cases "unit_of P (com_of P v)")
  case (Some x)
  then obtain u i where u: "unit_of P (com_of P v) = Some (u, i)" by (cases x) auto
  let ?n = "mup_isr_counter pl (com_of P v)"
  let ?p = "pl\<lparr>mup_isr_counter := (mup_isr_counter pl)(com_of P v := ?n - 1)\<rparr>"
  have "pl' = pl \<or> 0 < ?n \<and> pl' = (if ?n = 1 then mu_ops [Mu_disable_rx u] ?p else ?p)"
    using u assms(2,4) by (auto simp: mu_deinit_interrupt_def mu_ops_def Let_def split: bind_splits if_splits)
  then show ?thesis using mu_rx_count(2,3) [OF assms(1,3) u] assms(3) by (cases "?n = 1") auto
qed (use assms in \<open>auto simp: mu_deinit_interrupt_def Let_def split: bind_splits if_splits\<close>)

section \<open>Nested disabling\<close>

text \<open>
  The counters and the interrupt lines of a port. A port that counts before it compares never
  finds the counter at 0, so it never disables the line; for the others the line of a pair of cores is
  enabled exactly while the counter of the pair is 0, if no two pairs share a line.
\<close>

definition lines_differ :: "('u, 'i) mu_port \<Rightarrow> bool" where
  "lines_differ P \<longleftrightarrow> (\<forall>c d u v i. unit_of P c = Some (u, i) \<longrightarrow> unit_of P d = Some (v, i) \<longrightarrow> c = d)"

abbreviation line_on :: "'i \<Rightarrow> bool \<Rightarrow> ('u, 'i) mu_plat \<Rightarrow> bool" where
  "line_on i b pl \<equiv> switched (Nvic_enable i) (Nvic_disable i) b (mup_log pl)"

definition mu_irq_inv :: "('u, 'i) mu_port \<Rightarrow> ('i \<Rightarrow> bool) \<Rightarrow> ('u, 'i) mu_plat \<Rightarrow> bool" where
  "mu_irq_inv P b pl \<longleftrightarrow> (\<forall>c u i. unit_of P c = Some (u, i) \<longrightarrow> 0 \<le> mup_disable_counter pl c
     \<and> line_on i (b i) pl = (count_first P \<or> mup_disable_counter pl c = 0))"

locale mu_nesting =
  fixes P :: "('u, 'i) mu_port"
  assumes lines: "lines_differ P"
begin

lemma line_eq: "unit_of P d = Some (v, i) \<Longrightarrow> unit_of P c = Some (u, i) \<Longrightarrow> c = d"
  using lines unfolding lines_differ_def by blast

end

sublocale mu_nesting \<subseteq> irq_nesting "mu_interrupt_disable P" "mu_interrupt_enable P" "com_of P"
  "\<lambda>c. unit_of P c \<noteq> None" "mu_irq_inv P b" mup_disable_counter for b
proof
  fix pl v r pl'
  assume i: "mu_irq_inv P b pl"
  show "mu_irq_inv P b pl' \<and> (\<forall>c. unit_of P c \<noteq> None \<longrightarrow>
      mup_disable_counter pl' c = mup_disable_counter pl c + (if com_of P v = c then 1 else 0))"
    if d: "mu_interrupt_disable P v pl = Some (r, pl')"
  proof (cases "unit_of P (com_of P v)")
    case None
    then show ?thesis using i d by (auto simp: mu_interrupt_disable_def mu_irq_inv_def Let_def)
  next
    case (Some x)
    then obtain u j where u: "unit_of P (com_of P v) = Some (u, j)" by (cases x) auto
    then have "0 \<le> mup_disable_counter pl (com_of P v)" using i by (simp add: mu_irq_inv_def)
    then have "mup_disable_counter pl (com_of P v) + 1 \<noteq> 0" by simp
    then show ?thesis
      using u i d
      by (auto dest: line_eq [OF u] simp: mu_interrupt_disable_def mu_irq_inv_def mu_ops_def Let_def split: bind_splits if_splits)
  qed
  show "mu_irq_inv P b pl' \<and> (\<forall>c. unit_of P c \<noteq> None \<longrightarrow>
      mup_disable_counter pl' c = mup_disable_counter pl c - (if com_of P v = c then 1 else 0))"
    if d: "mu_interrupt_enable P v pl = Some (r, pl')"
  proof (cases "unit_of P (com_of P v)")
    case None
    then show ?thesis using i d by (auto simp: mu_interrupt_enable_def mu_irq_inv_def Let_def)
  next
    case (Some x)
    then obtain u j where u: "unit_of P (com_of P v) = Some (u, j)" by (cases x) auto
    then show ?thesis
      using u i d
      by (auto dest: line_eq [OF u] simp: mu_interrupt_enable_def mu_irq_inv_def mu_ops_def Let_def split: bind_splits if_splits)
  qed
qed

context mu_nesting begin

lemma keeps_disable: "mu_irq_inv P b pl \<Longrightarrow> mu_interrupt_disable P v pl = Some (r, pl') \<Longrightarrow> mu_irq_inv P b pl'"
  using disable by blast

lemma keeps_enable: "mu_irq_inv P b pl \<Longrightarrow> mu_interrupt_enable P v pl = Some (r, pl') \<Longrightarrow> mu_irq_inv P b pl'"
  using enable by blast

lemma depth:
  assumes "mu_irq_inv P b pl" "irq_calls (mu_interrupt_disable P) (mu_interrupt_enable P) cs pl = Some pl'"
    and "unit_of P c = Some (u, i)"
  shows "mup_disable_counter pl' c = mup_disable_counter pl c + irq_depth (com_of P) c cs
    \<and> line_on i (b i) pl' = (count_first P \<or> mup_disable_counter pl' c = 0)"
  using calls_count [OF assms(1,2), of c] assms(3) by (auto simp: mu_irq_inv_def)

end

text \<open>The variables of a platform layer after the start.\<close>

abbreviation (input) mu_plat0 :: "('u, 'i) mu_plat" where
  "mu_plat0 \<equiv> \<lparr>mup_isr_counter = (\<lambda>c. 0), mup_disable_counter = (\<lambda>c. 0), mup_lock = 64, mup_lock_var = 64,
     mup_primask = False, mup_log = []\<rparr>"

end
