(* ===== verification/Platform_Imx.thy ===== *)
theory Platform_Imx
  imports Platform_Mu
begin

text \<open>
  The ports of \<open>Platform_Mu\<close> for the i.MX 6SX, 7D, 7ULP, 8M Mini, 8M Nano, 8M Plus, 8M Quad, 8DXL, 8QX and 8QM
  (the directories of these names under \<^verbatim>\<open>lib/rpmsg_lite/porting/platform\<close>). Except on the 8QM the core talks to
  one other core, mostly a Linux system.
\<close>

section \<open>Units and interrupt lines\<close>

datatype imx_mu = MUA | MUB | BOARD_MU_BASE_ADDR

datatype imx_irq = MU_M4_IRQn | MU_M7_IRQn | MU1_M7_IRQn | MU_A_IRQn | BOARD_MU_IRQ_NUM

datatype lsio_mu = LSIO_MU5_B | LSIO_MU6_B | LSIO_MU7_A | LSIO_MU7_B

datatype lsio_irq = IRQSTEER_2_IRQn | IRQSTEER_3_IRQn

section \<open>i.MX 7D and i.MX 6SX\<close>

text \<open>The word names the queue only: there is one link. The unit is initialised under the name the board gives it.\<close>

definition imx7d :: "(imx_mu, imx_irq) mu_port" where
  "imx7d = single_mu_port MUB MU_M4_IRQn (\<lambda>v. push_bit 16 (RL_GET_Q_ID v))
     [Mu_init BOARD_MU_BASE_ADDR, Nvic_priority BOARD_MU_IRQ_NUM 3, Nvic_enable BOARD_MU_IRQ_NUM] []"

definition imx7d_init_interrupt where "imx7d_init_interrupt = mu_init_interrupt imx7d"
definition imx7d_deinit_interrupt where "imx7d_deinit_interrupt = mu_deinit_interrupt imx7d"
definition imx7d_notify where "imx7d_notify = mu_notify imx7d"
definition imx7d_interrupt_enable where "imx7d_interrupt_enable = mu_interrupt_enable imx7d"
definition imx7d_interrupt_disable where "imx7d_interrupt_disable = mu_interrupt_disable imx7d"
definition imx7d_init where "imx7d_init = mu_init imx7d"
definition imx7d_deinit where "imx7d_deinit = mu_deinit imx7d"
definition imx7d_rpmsg_handler where "imx7d_rpmsg_handler = mu_rx_handler 0"

definition imx6sx :: "(imx_mu, imx_irq) mu_port" where
  "imx6sx = single_mu_port MUB MU_M4_IRQn (\<lambda>v. push_bit 16 (RL_GET_Q_ID v))
     [Mu_init BOARD_MU_BASE_ADDR, Nvic_priority BOARD_MU_IRQ_NUM 3, Nvic_enable BOARD_MU_IRQ_NUM] []"

definition imx6sx_init_interrupt where "imx6sx_init_interrupt = mu_init_interrupt imx6sx"
definition imx6sx_deinit_interrupt where "imx6sx_deinit_interrupt = mu_deinit_interrupt imx6sx"
definition imx6sx_notify where "imx6sx_notify = mu_notify imx6sx"
definition imx6sx_interrupt_enable where "imx6sx_interrupt_enable = mu_interrupt_enable imx6sx"
definition imx6sx_interrupt_disable where "imx6sx_interrupt_disable = mu_interrupt_disable imx6sx"
definition imx6sx_init where "imx6sx_init = mu_init imx6sx"
definition imx6sx_deinit where "imx6sx_deinit = mu_deinit imx6sx"
definition imx6sx_rpmsg_handler where "imx6sx_rpmsg_handler = mu_rx_handler 0"

section \<open>i.MX 7ULP and i.MX 8M\<close>

text \<open>The word is the identifier of the queue, in its upper half.\<close>

definition imx7ulp :: "(imx_mu, imx_irq) mu_port" where
  "imx7ulp = single_mu_port MUA MU_A_IRQn (\<lambda>v. push_bit 16 v)
     [Mu_init MUA, Nvic_priority MU_A_IRQn 3, Nvic_enable MU_A_IRQn] []"

definition imx7ulp_init_interrupt where "imx7ulp_init_interrupt = mu_init_interrupt imx7ulp"
definition imx7ulp_deinit_interrupt where "imx7ulp_deinit_interrupt = mu_deinit_interrupt imx7ulp"
definition imx7ulp_notify where "imx7ulp_notify = mu_notify imx7ulp"
definition imx7ulp_interrupt_enable where "imx7ulp_interrupt_enable = mu_interrupt_enable imx7ulp"
definition imx7ulp_interrupt_disable where "imx7ulp_interrupt_disable = mu_interrupt_disable imx7ulp"
definition imx7ulp_init where "imx7ulp_init = mu_init imx7ulp"
definition imx7ulp_deinit where "imx7ulp_deinit = mu_deinit imx7ulp"
definition imx7ulp_MU_A_IRQHandler where "imx7ulp_MU_A_IRQHandler = mu_rx_handler 0"

definition imx8mm :: "(imx_mu, imx_irq) mu_port" where
  "imx8mm = single_mu_port MUB MU_M4_IRQn (\<lambda>v. push_bit 16 v)
     [Mu_init MUB, Nvic_priority MU_M4_IRQn 3, Nvic_enable MU_M4_IRQn] []"

definition imx8mm_init_interrupt where "imx8mm_init_interrupt = mu_init_interrupt imx8mm"
definition imx8mm_deinit_interrupt where "imx8mm_deinit_interrupt = mu_deinit_interrupt imx8mm"
definition imx8mm_notify where "imx8mm_notify = mu_notify imx8mm"
definition imx8mm_interrupt_enable where "imx8mm_interrupt_enable = mu_interrupt_enable imx8mm"
definition imx8mm_interrupt_disable where "imx8mm_interrupt_disable = mu_interrupt_disable imx8mm"
definition imx8mm_init where "imx8mm_init = mu_init imx8mm"
definition imx8mm_deinit where "imx8mm_deinit = mu_deinit imx8mm"
definition imx8mm_MU_M4_IRQHandler where "imx8mm_MU_M4_IRQHandler = mu_rx_handler 0"

definition imx8mq :: "(imx_mu, imx_irq) mu_port" where
  "imx8mq = single_mu_port MUB MU_M4_IRQn (\<lambda>v. push_bit 16 v)
     [Mu_init MUB, Nvic_priority MU_M4_IRQn 3, Nvic_enable MU_M4_IRQn] []"

definition imx8mq_init_interrupt where "imx8mq_init_interrupt = mu_init_interrupt imx8mq"
definition imx8mq_deinit_interrupt where "imx8mq_deinit_interrupt = mu_deinit_interrupt imx8mq"
definition imx8mq_notify where "imx8mq_notify = mu_notify imx8mq"
definition imx8mq_interrupt_enable where "imx8mq_interrupt_enable = mu_interrupt_enable imx8mq"
definition imx8mq_interrupt_disable where "imx8mq_interrupt_disable = mu_interrupt_disable imx8mq"
definition imx8mq_init where "imx8mq_init = mu_init imx8mq"
definition imx8mq_deinit where "imx8mq_deinit = mu_deinit imx8mq"
definition imx8mq_MU_M4_IRQHandler where "imx8mq_MU_M4_IRQHandler = mu_rx_handler 0"

definition imx8mn :: "(imx_mu, imx_irq) mu_port" where
  "imx8mn = single_mu_port MUB MU_M7_IRQn (\<lambda>v. push_bit 16 v)
     [Mu_init MUB, Nvic_priority MU_M7_IRQn 3, Nvic_enable MU_M7_IRQn] []"

definition imx8mn_init_interrupt where "imx8mn_init_interrupt = mu_init_interrupt imx8mn"
definition imx8mn_deinit_interrupt where "imx8mn_deinit_interrupt = mu_deinit_interrupt imx8mn"
definition imx8mn_notify where "imx8mn_notify = mu_notify imx8mn"
definition imx8mn_interrupt_enable where "imx8mn_interrupt_enable = mu_interrupt_enable imx8mn"
definition imx8mn_interrupt_disable where "imx8mn_interrupt_disable = mu_interrupt_disable imx8mn"
definition imx8mn_init where "imx8mn_init = mu_init imx8mn"
definition imx8mn_deinit where "imx8mn_deinit = mu_deinit imx8mn"
definition imx8mn_MU_M7_IRQHandler where "imx8mn_MU_M7_IRQHandler = mu_rx_handler 0"

definition imx8mp :: "(imx_mu, imx_irq) mu_port" where
  "imx8mp = single_mu_port MUB MU1_M7_IRQn (\<lambda>v. push_bit 16 v)
     [Mu_init MUB, Nvic_priority MU1_M7_IRQn 3, Nvic_enable MU1_M7_IRQn] []"

definition imx8mp_init_interrupt where "imx8mp_init_interrupt = mu_init_interrupt imx8mp"
definition imx8mp_deinit_interrupt where "imx8mp_deinit_interrupt = mu_deinit_interrupt imx8mp"
definition imx8mp_notify where "imx8mp_notify = mu_notify imx8mp"
definition imx8mp_interrupt_enable where "imx8mp_interrupt_enable = mu_interrupt_enable imx8mp"
definition imx8mp_interrupt_disable where "imx8mp_interrupt_disable = mu_interrupt_disable imx8mp"
definition imx8mp_init where "imx8mp_init = mu_init imx8mp"
definition imx8mp_deinit where "imx8mp_deinit = mu_deinit imx8mp"
definition imx8mp_MU1_M7_IRQHandler where "imx8mp_MU1_M7_IRQHandler = mu_rx_handler 0"

section \<open>i.MX 8DXL, 8QX and 8QM\<close>

text \<open>The interrupts of the units reach the core through an interrupt steering module, all of them on one line.\<close>

definition imx8dxl :: "(lsio_mu, lsio_irq) mu_port" where
  "imx8dxl = single_mu_port LSIO_MU5_B IRQSTEER_2_IRQn (\<lambda>v. push_bit 16 v)
     [Mu_init LSIO_MU5_B, Nvic_priority IRQSTEER_2_IRQn 3, Irqsteer_enable LSIO_MU5_B] [Mu_deinit LSIO_MU5_B, Irqsteer_disable LSIO_MU5_B]"

definition imx8dxl_init_interrupt where "imx8dxl_init_interrupt = mu_init_interrupt imx8dxl"
definition imx8dxl_deinit_interrupt where "imx8dxl_deinit_interrupt = mu_deinit_interrupt imx8dxl"
definition imx8dxl_notify where "imx8dxl_notify = mu_notify imx8dxl"
definition imx8dxl_interrupt_enable where "imx8dxl_interrupt_enable = mu_interrupt_enable imx8dxl"
definition imx8dxl_interrupt_disable where "imx8dxl_interrupt_disable = mu_interrupt_disable imx8dxl"
definition imx8dxl_init where "imx8dxl_init = mu_init imx8dxl"
definition imx8dxl_deinit where "imx8dxl_deinit = mu_deinit imx8dxl"
definition imx8dxl_LSIO_MU5_INT_B_IRQHandler where "imx8dxl_LSIO_MU5_INT_B_IRQHandler = mu_rx_handler 0"

definition imx8qx :: "(lsio_mu, lsio_irq) mu_port" where
  "imx8qx = single_mu_port LSIO_MU5_B IRQSTEER_3_IRQn (\<lambda>v. push_bit 16 v)
     [Mu_init LSIO_MU5_B, Nvic_priority IRQSTEER_3_IRQn 3, Irqsteer_enable LSIO_MU5_B] [Mu_deinit LSIO_MU5_B, Irqsteer_disable LSIO_MU5_B]"

definition imx8qx_init_interrupt where "imx8qx_init_interrupt = mu_init_interrupt imx8qx"
definition imx8qx_deinit_interrupt where "imx8qx_deinit_interrupt = mu_deinit_interrupt imx8qx"
definition imx8qx_notify where "imx8qx_notify = mu_notify imx8qx"
definition imx8qx_interrupt_enable where "imx8qx_interrupt_enable = mu_interrupt_enable imx8qx"
definition imx8qx_interrupt_disable where "imx8qx_interrupt_disable = mu_interrupt_disable imx8qx"
definition imx8qx_init where "imx8qx_init = mu_init imx8qx"
definition imx8qx_deinit where "imx8qx_deinit = mu_deinit imx8qx"
definition imx8qx_LSIO_MU5_INT_B_IRQHandler where "imx8qx_LSIO_MU5_INT_B_IRQHandler = mu_rx_handler 0"

text \<open>The i.MX 8QM has two Cortex-M4 cores, each with a unit to the Cortex-A cores and one to the other.\<close>

datatype cm4_core = CM4_CORE0 | CM4_CORE1

abbreviation (input) IMX8QM_M4_A_COM_ID :: u32 where "IMX8QM_M4_A_COM_ID \<equiv> 0"
abbreviation (input) IMX8QM_M4_M4_COM_ID :: u32 where "IMX8QM_M4_M4_COM_ID \<equiv> 1"

definition imx8qm_a_mu :: "cm4_core \<Rightarrow> lsio_mu" where
  "imx8qm_a_mu core = (case core of CM4_CORE0 \<Rightarrow> LSIO_MU5_B | CM4_CORE1 \<Rightarrow> LSIO_MU6_B)"

definition imx8qm_m4_mu :: "cm4_core \<Rightarrow> lsio_mu" where
  "imx8qm_m4_mu core = (case core of CM4_CORE0 \<Rightarrow> LSIO_MU7_A | CM4_CORE1 \<Rightarrow> LSIO_MU7_B)"

definition imx8qm :: "cm4_core \<Rightarrow> (lsio_mu, lsio_irq) mu_port" where
  "imx8qm core = multi_mu_port
     (\<lambda>com. if com = IMX8QM_M4_A_COM_ID then Some (imx8qm_a_mu core, IRQSTEER_3_IRQn)
       else if com = IMX8QM_M4_M4_COM_ID then Some (imx8qm_m4_mu core, IRQSTEER_3_IRQn) else None) False False
     [Mu_init (imx8qm_a_mu core), Nvic_priority IRQSTEER_3_IRQn 3, Nvic_enable IRQSTEER_3_IRQn, Irqsteer_enable (imx8qm_a_mu core),
      Mu_init (imx8qm_m4_mu core), Nvic_priority IRQSTEER_3_IRQn 3, Nvic_enable IRQSTEER_3_IRQn, Irqsteer_enable (imx8qm_m4_mu core)]
     [Mu_deinit (imx8qm_a_mu core), Irqsteer_disable (imx8qm_a_mu core),
      Mu_deinit (imx8qm_m4_mu core), Irqsteer_disable (imx8qm_m4_mu core)]"

definition imx8qm_init_interrupt where "imx8qm_init_interrupt core = mu_init_interrupt (imx8qm core)"
definition imx8qm_deinit_interrupt where "imx8qm_deinit_interrupt core = mu_deinit_interrupt (imx8qm core)"
definition imx8qm_notify where "imx8qm_notify core = mu_notify (imx8qm core)"
definition imx8qm_interrupt_enable where "imx8qm_interrupt_enable core = mu_interrupt_enable (imx8qm core)"
definition imx8qm_interrupt_disable where "imx8qm_interrupt_disable core = mu_interrupt_disable (imx8qm core)"
definition imx8qm_init where "imx8qm_init core = mu_init (imx8qm core)"
definition imx8qm_deinit where "imx8qm_deinit core = mu_deinit (imx8qm core)"
definition imx8qm_LSIO_MU5_INT_B_IRQHandler where "imx8qm_LSIO_MU5_INT_B_IRQHandler = mu_rx_handler IMX8QM_M4_A_COM_ID"
definition imx8qm_LSIO_MU6_INT_B_IRQHandler where "imx8qm_LSIO_MU6_INT_B_IRQHandler = mu_rx_handler IMX8QM_M4_A_COM_ID"
definition imx8qm_LSIO_MU7_INT_A_IRQHandler where "imx8qm_LSIO_MU7_INT_A_IRQHandler = mu_rx_handler IMX8QM_M4_M4_COM_ID"
definition imx8qm_LSIO_MU7_INT_B_IRQHandler where "imx8qm_LSIO_MU7_INT_B_IRQHandler = mu_rx_handler IMX8QM_M4_M4_COM_ID"

section \<open>Nesting of the interrupt calls\<close>

lemma single_port_differ: "lines_differ (single_mu_port u i msg start stop)" "units_differ (single_mu_port u i msg start stop)"
  by (auto simp: lines_differ_def units_differ_def single_mu_port_def split: if_splits)

interpretation imx7d: mu_nesting imx7d
  by unfold_locales (simp add: imx7d_def single_port_differ)

interpretation imx6sx: mu_nesting imx6sx
  by unfold_locales (simp add: imx6sx_def single_port_differ)

interpretation imx7ulp: mu_nesting imx7ulp
  by unfold_locales (simp add: imx7ulp_def single_port_differ)

interpretation imx8mm: mu_nesting imx8mm
  by unfold_locales (simp add: imx8mm_def single_port_differ)

interpretation imx8mq: mu_nesting imx8mq
  by unfold_locales (simp add: imx8mq_def single_port_differ)

interpretation imx8mn: mu_nesting imx8mn
  by unfold_locales (simp add: imx8mn_def single_port_differ)

interpretation imx8mp: mu_nesting imx8mp
  by unfold_locales (simp add: imx8mp_def single_port_differ)

interpretation imx8dxl: mu_nesting imx8dxl
  by unfold_locales (simp add: imx8dxl_def single_port_differ)

interpretation imx8qx: mu_nesting imx8qx
  by unfold_locales (simp add: imx8qx_def single_port_differ)

text \<open>
  On the 8QM the two pairs of cores share a line, so an enable for one of them ends the other's critical
  section: here a disable for the Cortex-A cores is outstanding and the line is enabled.
\<close>

lemma imx8qm_shared_line:
  "\<exists>pl. irq_calls (imx8qm_interrupt_disable core) (imx8qm_interrupt_enable core) [(True, 0), (True, 8), (False, 8)] mu_plat0 = Some pl
    \<and> mup_disable_counter pl IMX8QM_M4_A_COM_ID = 1 \<and> line_on IRQSTEER_3_IRQn b pl"
  by (simp add: imx8qm_interrupt_disable_def imx8qm_interrupt_enable_def imx8qm_def multi_mu_port_def
      mu_interrupt_disable_def mu_interrupt_enable_def mu_ops_def RL_GET_COM_ID_def Let_def)

section \<open>Notifications\<close>

text \<open>
  The word that a core sends for the queue of an accepted link gives the identifier of the queue to the handler of a
  core that runs the same code.
\<close>

lemma imx_vectors:
  assumes "P \<in> {imx7ulp, imx8mm, imx8mq, imx8mn, imx8mp}" "link \<le> 15" "q \<le> 1"
  shows "mu_vector 0 (msg_of P (RL_GET_VQ_ID link q)) = RL_GET_VQ_ID link q"
proof -
  have "msg_of P = push_bit 16"
    using assms(1) by (auto simp: imx7ulp_def imx8mm_def imx8mq_def imx8mn_def imx8mp_def single_mu_port_def)
  moreover have "n < 16" if "bit (RL_GET_VQ_ID link q) n" for n
    using that bit_less_exp [of link 4 "n - 1"] bit_less_exp [of q 1 n] assms(2,3)
    by (auto simp: RL_GET_VQ_ID_def bit_or_iff bit_and_iff bit_push_bit_iff word_le_nat_alt simp del: push_bit_of_1 push_bit_Suc)
  then have "mu_vector 0 (push_bit 16 (RL_GET_VQ_ID link q)) = RL_GET_VQ_ID link q"
    by (intro bit_word_eqI) (auto simp: mu_vector_def bit_simps)
  ultimately show ?thesis by simp
qed

end
