(* ===== verification/Platform_Imx8ulp.thy ===== *)
theory Platform_Imx8ulp
  imports Platform_Mu Rpmsg_Lite
begin

text \<open>
  The ports of the i.MX 8ULP: \<open>imx8ulp\<close> for the Cortex-M33 (\<^verbatim>\<open>platform/imx8ulp_m33\<close>), which talks to the
  Cortex-A35, the Fusion F1 DSP and the HiFi4 DSP, and \<open>fusionf1\<close> for the Fusion F1 DSP
  (\<^verbatim>\<open>platform/imx8ulp_fusionf1\<close>), which talks to the Cortex-M33. Both have a shared memory
  configuration per link, and the DSP translates addresses.
\<close>

datatype ulp_mu = MU0_A | MU1_A | MU1_B | MU2_A

abbreviation (input) IMX8ULP_M33_A35_COM_ID :: u32 where "IMX8ULP_M33_A35_COM_ID \<equiv> 0"
abbreviation (input) IMX8ULP_M33_FUSION_DSP_COM_ID :: u32 where "IMX8ULP_M33_FUSION_DSP_COM_ID \<equiv> 1"
abbreviation (input) IMX8ULP_M33_HIFI4_COM_ID :: u32 where "IMX8ULP_M33_HIFI4_COM_ID \<equiv> 2"

section \<open>Cortex-M33\<close>

definition imx8ulp :: "(ulp_mu, ulp_mu) mu_port" where
  "imx8ulp = multi_mu_port
     (\<lambda>com. if com = IMX8ULP_M33_A35_COM_ID then Some (MU0_A, MU0_A)
       else if com = IMX8ULP_M33_FUSION_DSP_COM_ID then Some (MU1_A, MU1_A)
       else if com = IMX8ULP_M33_HIFI4_COM_ID then Some (MU2_A, MU2_A) else None) True True
     [Mu_init MU0_A, Nvic_priority MU0_A 3, Nvic_enable MU0_A, Mu_init MU1_A, Nvic_priority MU1_A 3, Nvic_enable MU1_A,
      Mu_init MU2_A, Nvic_priority MU2_A 3, Nvic_enable MU2_A]
     [Mu_deinit MU0_A, Mu_deinit MU1_A, Mu_deinit MU2_A]"

definition imx8ulp_init_interrupt where "imx8ulp_init_interrupt = mu_init_interrupt imx8ulp"
definition imx8ulp_deinit_interrupt where "imx8ulp_deinit_interrupt = mu_deinit_interrupt imx8ulp"
definition imx8ulp_notify where "imx8ulp_notify = mu_notify imx8ulp"
definition imx8ulp_interrupt_enable where "imx8ulp_interrupt_enable = mu_interrupt_enable imx8ulp"
definition imx8ulp_interrupt_disable where "imx8ulp_interrupt_disable = mu_interrupt_disable imx8ulp"
definition imx8ulp_init where "imx8ulp_init = mu_init imx8ulp"
definition imx8ulp_deinit where "imx8ulp_deinit = mu_deinit imx8ulp"
definition imx8ulp_MU0_A_IRQHandler where "imx8ulp_MU0_A_IRQHandler = mu_rx_handler IMX8ULP_M33_A35_COM_ID"
definition imx8ulp_MU1_A_IRQHandler where "imx8ulp_MU1_A_IRQHandler = mu_rx_handler IMX8ULP_M33_FUSION_DSP_COM_ID"
definition imx8ulp_MU2_A_IRQHandler where "imx8ulp_MU2_A_IRQHandler = mu_rx_handler IMX8ULP_M33_HIFI4_COM_ID"

text \<open>
  \<open>platform_get_custom_shmem_config\<close>: what \<open>cfg\<close> pointed to before is kept where the function writes nothing.
  The count is \<open>RL_PLATFORM_BUFFER_COUNT_COMMON\<close>.
\<close>

definition RL_PLATFORM_BUFFER_COUNT_COMMON :: "u32 \<Rightarrow> u16" where
  "RL_PLATFORM_BUFFER_COUNT_COMMON link = (if link = 0 \<or> link = 1 then 256 else 2)"

definition imx8ulp_shmem_config :: "shmem_config \<Rightarrow> u32 \<Rightarrow> int \<times> shmem_config" where
  "imx8ulp_shmem_config cfg link =
     (let cfg = cfg\<lparr>buffer_payload_size := 496, buffer_count := RL_PLATFORM_BUFFER_COUNT_COMMON link\<rparr>
      in (0, if link \<in> {RL_GEN_LINK_ID IMX8ULP_M33_A35_COM_ID 0, RL_GEN_LINK_ID IMX8ULP_M33_A35_COM_ID 1}
             then cfg\<lparr>cfg_vring_size := 0x8000, cfg_vring_align := 0x1000\<rparr>
             else if link \<in> {RL_GEN_LINK_ID IMX8ULP_M33_FUSION_DSP_COM_ID 0, RL_GEN_LINK_ID IMX8ULP_M33_FUSION_DSP_COM_ID 1}
             then cfg\<lparr>cfg_vring_size := 0x400, cfg_vring_align := 0x10\<rparr>
             else if link \<in> {RL_GEN_LINK_ID IMX8ULP_M33_HIFI4_COM_ID 0, RL_GEN_LINK_ID IMX8ULP_M33_HIFI4_COM_ID 1}
             then cfg\<lparr>cfg_vring_size := 0x400, cfg_vring_align := 0x10\<rparr>
             else cfg))"

section \<open>Fusion F1 DSP\<close>

text \<open>
  One pair of cores. The counter is compared with 2, and enabling or disabling the interrupt switches the line each time.
\<close>

definition fusionf1 :: "(ulp_mu, ulp_mu) mu_port" where
  "fusionf1 = \<lparr>com_of = (\<lambda>v. 0), unit_of = (\<lambda>com. if com = 0 then Some (MU1_B, MU1_B) else None), msg_of = RL_GEN_MU_MSG,
     first_use = (\<lambda>n. n < 2), lock_checked = True, count_first = False, start_ops = [Mu_init MU1_B], stop_ops = []\<rparr>"

definition fusionf1_init_interrupt where "fusionf1_init_interrupt = mu_init_interrupt fusionf1"
definition fusionf1_deinit_interrupt where "fusionf1_deinit_interrupt = mu_deinit_interrupt fusionf1"
definition fusionf1_notify where "fusionf1_notify = mu_notify fusionf1"
definition fusionf1_MU1_B_IRQHandler where "fusionf1_MU1_B_IRQHandler = mu_rx_handler IMX8ULP_M33_FUSION_DSP_COM_ID"

definition fusionf1_interrupt_enable :: "u32 \<Rightarrow> (ulp_mu, ulp_mu) mu_plat \<Rightarrow> (int \<times> (ulp_mu, ulp_mu) mu_plat) option" where
  "fusionf1_interrupt_enable vector_id pl =
     do { rl_assert (0 < mup_disable_counter pl 0);
          let pl = mu_ops [Dsp_enable MU1_B] pl;
          Some (0, pl\<lparr>mup_disable_counter := (mup_disable_counter pl)(0 := mup_disable_counter pl 0 - 1)\<rparr>) }"

definition fusionf1_interrupt_disable :: "u32 \<Rightarrow> (ulp_mu, ulp_mu) mu_plat \<Rightarrow> (int \<times> (ulp_mu, ulp_mu) mu_plat) option" where
  "fusionf1_interrupt_disable vector_id pl =
     do { rl_assert (0 \<le> mup_disable_counter pl 0);
          let pl = mu_ops [Dsp_disable MU1_B] pl;
          Some (0, pl\<lparr>mup_disable_counter := (mup_disable_counter pl)(0 := mup_disable_counter pl 0 + 1)\<rparr>) }"

definition fusionf1_init ::
  "(ptr \<Rightarrow> int \<Rightarrow> 'e \<Rightarrow> int \<times> ptr \<times> 'e) \<Rightarrow> (ulp_mu, ulp_mu) mu_plat \<times> 'e \<Rightarrow> int \<times> (ulp_mu, ulp_mu) mu_plat \<times> 'e" where
  "fusionf1_init create_mutex s =
     (let (pl, e) = s; pl = mu_ops [Mu_init MU1_B] pl;
          (st, l, e) = create_mutex (mup_lock_var pl) 1 e; pl = pl\<lparr>mup_lock := l\<rparr>
      in if st \<noteq> 0 then (-1, pl, e) else (0, mu_ops [Dsp_handler MU1_B True] pl, e))"

definition fusionf1_deinit ::
  "(ptr \<Rightarrow> 'e \<Rightarrow> 'e) \<Rightarrow> (ulp_mu, ulp_mu) mu_plat \<times> 'e \<Rightarrow> int \<times> (ulp_mu, ulp_mu) mu_plat \<times> 'e" where
  "fusionf1_deinit delete_mutex s =
     (let (pl, e) = s; pl = mu_ops [Mu_deinit MU1_B, Dsp_handler MU1_B False] pl; e = delete_mutex (mup_lock pl) e
      in (0, pl\<lparr>mup_lock := NULL\<rparr>, e))"

definition fusionf1_vatopa :: "ptr \<Rightarrow> ptr" where
  "fusionf1_vatopa tmp =
     (if tmp < 0x880000 then (tmp OR 0x20000000) - 800000
      else if tmp < 0x8C0000 then tmp - 0x800000 + 0x0FFC0000
      else tmp)"

definition fusionf1_patova :: "ptr \<Rightarrow> ptr" where
  "fusionf1_patova addr =
     (let addr = addr AND 0xEFFFFFFF
      in if addr < 0x10000000 then addr - 0x0FFC0000 + 0x880000
         else if addr < 0x20080000 then (addr AND 0x0FFFFFFF) + 0x800000
         else addr)"

definition fusionf1_shmem_config :: "shmem_config \<Rightarrow> u32 \<Rightarrow> int \<times> shmem_config" where
  "fusionf1_shmem_config cfg link =
     (let cfg = cfg\<lparr>buffer_payload_size := 496, buffer_count := RL_PLATFORM_BUFFER_COUNT_COMMON link\<rparr>
      in (0, if link \<in> {RL_GEN_LINK_ID IMX8ULP_M33_FUSION_DSP_COM_ID 0, RL_GEN_LINK_ID IMX8ULP_M33_FUSION_DSP_COM_ID 1}
             then cfg\<lparr>cfg_vring_size := 0x400, cfg_vring_align := 0x10\<rparr> else cfg))"

section \<open>Nesting of the interrupt calls\<close>

lemma imx8ulp_differ: "lines_differ imx8ulp" "units_differ imx8ulp"
  by (auto simp: imx8ulp_def multi_mu_port_def lines_differ_def units_differ_def split: if_splits)

interpretation imx8ulp: mu_nesting imx8ulp
  by unfold_locales (rule imx8ulp_differ(1))

text \<open>
  The DSP counts although it switches the line at every call: the first enable ends every critical section. Its
  other comparison, with 2, disables the unit's interrupt while one of two queues is still registered.
\<close>

lemma fusionf1_enable_ends_all:
  assumes "fusionf1_interrupt_enable v pl = Some (r, pl')"
  shows "line_on MU1_B b pl' = switched (Nvic_enable MU1_B) (Nvic_disable MU1_B) b (mup_log pl)
    \<and> switched (Dsp_enable MU1_B) (Dsp_disable MU1_B) b (mup_log pl')
    \<and> mup_disable_counter pl' 0 = mup_disable_counter pl 0 - 1"
  using assms by (auto simp: fusionf1_interrupt_enable_def mu_ops_def Let_def split: bind_splits)

lemma fusionf1_deinit_interrupt_early:
  assumes "fusionf1_deinit_interrupt unreg lock unlock v (pl, e) = Some (0, pl', e')" and "mup_isr_counter pl 0 = 2"
  shows "mup_isr_counter pl' 0 = 1 \<and> \<not> switched (Mu_enable_rx MU1_B) (Mu_disable_rx MU1_B) b (mup_log pl')"
  using assms
  by (auto simp: fusionf1_deinit_interrupt_def mu_deinit_interrupt_def fusionf1_def mu_ops_def Let_def
      split: bind_splits if_splits)

section \<open>The address translation of the DSP\<close>

lemma mask_unset_bit:
  fixes a :: "'a::len word"
  assumes "\<not> bit a n"
  shows "a AND push_bit n 1 = 0" "a AND NOT (push_bit n 1) = a" "a OR push_bit n 1 = a + push_bit n 1"
proof -
  show "a AND push_bit n 1 = 0"
    by (rule bit_word_eqI) (use assms in \<open>auto simp: bit_and_iff bit_push_bit_iff bit_1_iff simp del: push_bit_of_1\<close>)
  then show "a OR push_bit n 1 = a + push_bit n 1" using word_plus_and_or [of a "push_bit n 1"] by simp
  show "a AND NOT (push_bit n 1) = a"
    by (rule bit_word_eqI) (use assms in \<open>auto simp: bit_and_iff bit_not_iff bit_push_bit_iff bit_1_iff simp del: push_bit_of_1\<close>)
qed

lemma bit_u32_iff: "bit (a :: u32) n \<longleftrightarrow> odd (unat a div 2 ^ n)"
proof -
  have "bit a n = bit (unat a) n" using bit_imp_le_length [of a n] by (auto simp: bit_unsigned_iff)
  then show ?thesis by (simp add: bit_iff_odd)
qed

lemma or_0x20000000: "(a :: u32) < 0x880000 \<Longrightarrow> a OR 0x20000000 = a + 0x20000000"
  using mask_unset_bit(3) [of a 29] by (simp add: bit_u32_iff word_less_nat_alt)

lemma and_0xEFFFFFFF: "(a :: u32) < 0x10000000 \<or> 0x20000000 \<le> a \<and> a < 0x30000000 \<Longrightarrow> a AND 0xEFFFFFFF = a"
proof -
  assume a: "a < 0x10000000 \<or> 0x20000000 \<le> a \<and> a < 0x30000000"
  have "unat a div 0x10000000 = 0 \<or> unat a div 0x10000000 = 2"
    using a by (auto simp: word_less_nat_alt word_le_nat_alt)
  then have "\<not> bit a 28" by (auto simp: bit_u32_iff)
  moreover have "(0xEFFFFFFF :: u32) = NOT (push_bit 28 1)" by simp
  ultimately show ?thesis by (metis mask_unset_bit(2))
qed

lemma and_0xEFFFFFFF_set: "(a :: u32) < 0x10000000 \<Longrightarrow> (a + 0x10000000) AND 0xEFFFFFFF = a"
proof -
  assume a: "a < 0x10000000"
  then have n: "\<not> bit a 28" by (simp add: bit_u32_iff word_less_nat_alt)
  have e: "(0xEFFFFFFF :: u32) = NOT (push_bit 28 1)" "(0x10000000 :: u32) = push_bit 28 1" by simp_all
  have "(a OR push_bit 28 1) AND NOT (push_bit 28 1) = a"
    by (rule bit_word_eqI) (use n in \<open>auto simp: bit_and_iff bit_or_iff bit_not_iff bit_push_bit_iff bit_1_iff simp del: push_bit_of_1\<close>)
  then show ?thesis using mask_unset_bit(3) [OF n] e by metis
qed

lemma and_0x0FFFFFFF: "0x20000000 \<le> (a :: u32) \<Longrightarrow> a < 0x30000000 \<Longrightarrow> a AND 0x0FFFFFFF = a - 0x20000000"
proof -
  assume a: "0x20000000 \<le> a" "a < 0x30000000"
  have "a AND 0x0FFFFFFF = a AND mask 28" by (simp add: mask_eq_exp_minus_1)
  then have "unat (a AND 0x0FFFFFFF) = unat a mod 0x10000000"
    by (simp only: take_bit_eq_mask [symmetric] unsigned_take_bit_eq) (simp add: take_bit_eq_mod)
  moreover have "unat (a - 0x20000000) = unat a - 0x20000000" using a by (simp add: unat_sub)
  moreover have "unat a mod 0x10000000 = unat a - 0x20000000"
    using a by (intro mod_nat_eqI) (auto simp: word_less_nat_alt word_le_nat_alt)
  ultimately show ?thesis by (simp add: word_unat_eq_iff)
qed

lemma fusionf1_patova_cases:
  shows "p < 0x10000000 \<Longrightarrow> fusionf1_patova p = p - 0x0FFC0000 + 0x880000"
    and "p < 0x10000000 \<Longrightarrow> fusionf1_patova (p + 0x10000000) = p - 0x0FFC0000 + 0x880000"
    and "0x20000000 \<le> p \<Longrightarrow> p < 0x20080000 \<Longrightarrow> fusionf1_patova p = p - 0x20000000 + 0x800000"
    and "0x20080000 \<le> p \<Longrightarrow> p < 0x30000000 \<Longrightarrow> fusionf1_patova p = p"
proof -
  show "p < 0x10000000 \<Longrightarrow> fusionf1_patova p = p - 0x0FFC0000 + 0x880000"
    by (simp add: fusionf1_patova_def and_0xEFFFFFFF Let_def)
  show "p < 0x10000000 \<Longrightarrow> fusionf1_patova (p + 0x10000000) = p - 0x0FFC0000 + 0x880000"
    by (simp add: fusionf1_patova_def and_0xEFFFFFFF_set Let_def)
  show "fusionf1_patova p = p - 0x20000000 + 0x800000" if "0x20000000 \<le> p" "p < 0x20080000"
  proof -
    have "p < 0x30000000" "\<not> p < 0x10000000" using that by unat_arith+
    then show ?thesis using that and_0xEFFFFFFF [of p] and_0x0FFFFFFF [of p] by (simp add: fusionf1_patova_def Let_def)
  qed
  show "fusionf1_patova p = p" if "0x20080000 \<le> p" "p < 0x30000000"
  proof -
    have "0x20000000 \<le> p" "\<not> p < 0x10000000" "\<not> p < 0x20080000" using that by unat_arith+
    then show ?thesis using that and_0xEFFFFFFF [of p] by (simp add: fusionf1_patova_def Let_def)
  qed
qed

lemma fusionf1_vatopa_cases:
  shows "a < 0x880000 \<Longrightarrow> fusionf1_vatopa a = a + 0x1FF3CB00"
    and "0x880000 \<le> a \<Longrightarrow> a < 0x8C0000 \<Longrightarrow> fusionf1_vatopa a = (a - 0x840000) + 0x10000000"
  by (auto simp: fusionf1_vatopa_def or_0x20000000)

text \<open>
  The translations of the DSP are not inverse to each other: on the whole window
  of the shared memory, \<open>platform_patova\<close> of \<open>platform_vatopa\<close> is another address. With the two constants that
  \<open>platform_patova\<close> uses, 0x800000 (written without its prefix) and 0x880000 in place of 0x800000, it
  would be the same.
\<close>

lemma fusionf1_no_roundtrip:
  assumes "0x800000 \<le> a" and "a < 0x8C0000"
  shows "fusionf1_patova (fusionf1_vatopa a) \<noteq> a
    \<and> fusionf1_patova (if a < 0x880000 then (a OR 0x20000000) - 0x800000 else a - 0x880000 + 0x0FFC0000) = a"
proof (cases "a < 0x880000")
  case True
  have b: "0x20080000 \<le> a + 0x1FF3CB00" "a + 0x1FF3CB00 < 0x30000000"
    "0x20000000 \<le> a + 0x1F800000" "a + 0x1F800000 < 0x20080000"
    using assms(1) True by (simp_all add: word_le_nat_alt word_less_nat_alt unat_word_ariths)
  have "fusionf1_patova (a + 0x1FF3CB00) = a + 0x1FF3CB00" by (rule fusionf1_patova_cases(4) [OF b(1,2)])
  moreover have "fusionf1_patova (a + 0x1F800000) = a" using fusionf1_patova_cases(3) [OF b(3,4)] by simp
  ultimately show ?thesis using True by (simp add: fusionf1_vatopa_cases or_0x20000000) (simp add: add.commute)
next
  case False
  have b: "a - 0x840000 < 0x10000000" "a + 0xF740000 < 0x10000000" "0x880000 \<le> a"
    using assms(2) False by (simp_all add: word_le_nat_alt word_less_nat_alt unat_word_ariths unat_sub)
  have "fusionf1_patova ((a - 0x840000) + 0x10000000) = a - 0x840000 - 0x0FFC0000 + 0x880000"
    by (rule fusionf1_patova_cases(2) [OF b(1)])
  moreover have "fusionf1_patova (a + 0xF740000) = a" using fusionf1_patova_cases(1) [OF b(2)] by simp
  ultimately show ?thesis using False b(3) assms(2) by (simp add: fusionf1_vatopa_cases) (simp add: add.commute)
qed

lemma fusionf1_no_roundtrip_witness: "fusionf1_patova (fusionf1_vatopa 0x800010) \<noteq> 0x800010"
  using fusionf1_no_roundtrip [of "0x800010"] by simp

section \<open>Shared memory configurations\<close>

text \<open>
  The configurations of the i.MX 8ULP. On the links that have a name the number of buffers is a power of two and
  the area of a vring holds the ring and keeps the next one aligned; the two cores agree on the links they
  share. On the other links below the highest one, which the initialisation accepts, nothing sets the size of a vring.
\<close>

theorem imx8ulp_shmem_configs:
  assumes "link \<le> RL_GEN_LINK_ID IMX8ULP_M33_HIFI4_COM_ID 1"
  shows "if link \<in> {0, 1, 4, 5, 8, 9}
    then (case imx8ulp_shmem_config cfg link of (st, sc) \<Rightarrow>
      st = 0 \<and> is_pow2 (buffer_count sc) \<and> is_pow2 (cfg_vring_align sc)
      \<and> vring_size (ucast (buffer_count sc)) (cfg_vring_align sc) \<le> uint (cfg_vring_size sc)
      \<and> unat (cfg_vring_size sc) mod unat (cfg_vring_align sc) = 0
      \<and> (link \<in> {4, 5} \<longrightarrow> fusionf1_shmem_config cfg link = (st, sc)))
    else cfg_vring_size (snd (imx8ulp_shmem_config cfg link)) = cfg_vring_size cfg"
proof -
  have g: "RL_GEN_LINK_ID c 0 = push_bit 2 c" "RL_GEN_LINK_ID 0 1 = 1" "RL_GEN_LINK_ID 1 1 = 5" "RL_GEN_LINK_ID 2 1 = 9" for c
    by (simp_all add: RL_GEN_LINK_ID_def)
  show ?thesis
    by (simp add: imx8ulp_shmem_config_def fusionf1_shmem_config_def RL_PLATFORM_BUFFER_COUNT_COMMON_def g
        vring_size_def is_pow2_def Let_def)
qed

theorem imx8ulp_shmem_configs_witness:
  "cfg_vring_size (snd (imx8ulp_shmem_config \<lparr>buffer_payload_size = 0, buffer_count = 0, cfg_vring_size = 7, cfg_vring_align = 9\<rparr> 6)) = 7"
proof -
  have "(6 :: u32) \<le> RL_GEN_LINK_ID 2 1" by (simp add: RL_GEN_LINK_ID_def)
  then show ?thesis
    using imx8ulp_shmem_configs [of 6 "\<lparr>buffer_payload_size = 0, buffer_count = 0, cfg_vring_size = 7, cfg_vring_align = 9\<rparr>"]
    by simp
qed

end
