(* ===== verification/Platform_Imx9.thy ===== *)
theory Platform_Imx9
  imports Platform_Mu
begin

text \<open>
  The ports of \<open>Platform_Mu\<close> for the i.MX 93 (Cortex-M33), 95 (Cortex-M33 and M7), 952 (Cortex-M7), each
  with one pair of cores, and for the Cortex-M70, M71 and M33S of the i.MX 943, which talk to each other
  and to the Cortex-A55. All of them count before they compare when they disable interrupts.
\<close>

datatype imx9_mu = MU1_MUA_side | MU1_MUB_side | MU7_MUB_side
  | MUI_A11_B | MUI_A13_A | MUI_A15_A | MUI_A18_A | MUI_A18_B | MUA1_A | MUA1_B | MUA3_A | MUA3_B

abbreviation (input) MU_IRQ_PRIORITY :: nat where "MU_IRQ_PRIORITY \<equiv> 3"
abbreviation (input) A55_COM_ID :: u32 where "A55_COM_ID \<equiv> 0"

section \<open>i.MX 93, 95 and 952\<close>

definition imx93 :: "(imx9_mu, imx9_mu) mu_port" where
  "imx93 = multi_mu_port (\<lambda>com. if com = A55_COM_ID then Some (MU1_MUA_side, MU1_MUA_side) else None) False True
     [Mu_init MU1_MUA_side, Nvic_priority MU1_MUA_side MU_IRQ_PRIORITY, Nvic_enable MU1_MUA_side] [Mu_deinit MU1_MUA_side]"

definition imx93_init_interrupt where "imx93_init_interrupt = mu_init_interrupt imx93"
definition imx93_deinit_interrupt where "imx93_deinit_interrupt = mu_deinit_interrupt imx93"
definition imx93_notify where "imx93_notify = mu_notify imx93"
definition imx93_interrupt_enable where "imx93_interrupt_enable = mu_interrupt_enable imx93"
definition imx93_interrupt_disable where "imx93_interrupt_disable = mu_interrupt_disable imx93"
definition imx93_init where "imx93_init = mu_init imx93"
definition imx93_deinit where "imx93_deinit = mu_deinit imx93"
definition imx93_MU1_A_IRQHandler where "imx93_MU1_A_IRQHandler = mu_rx_handler A55_COM_ID"

definition imx95_m33 :: "(imx9_mu, imx9_mu) mu_port" where
  "imx95_m33 = multi_mu_port (\<lambda>com. if com = A55_COM_ID then Some (MU1_MUB_side, MU1_MUB_side) else None) False True
     [Mu_init MU1_MUB_side, Nvic_priority MU1_MUB_side MU_IRQ_PRIORITY, Nvic_enable MU1_MUB_side] [Mu_deinit MU1_MUB_side]"

definition imx95_m33_init_interrupt where "imx95_m33_init_interrupt = mu_init_interrupt imx95_m33"
definition imx95_m33_deinit_interrupt where "imx95_m33_deinit_interrupt = mu_deinit_interrupt imx95_m33"
definition imx95_m33_notify where "imx95_m33_notify = mu_notify imx95_m33"
definition imx95_m33_interrupt_enable where "imx95_m33_interrupt_enable = mu_interrupt_enable imx95_m33"
definition imx95_m33_interrupt_disable where "imx95_m33_interrupt_disable = mu_interrupt_disable imx95_m33"
definition imx95_m33_init where "imx95_m33_init = mu_init imx95_m33"
definition imx95_m33_deinit where "imx95_m33_deinit = mu_deinit imx95_m33"
definition imx95_m33_MU1_B_IRQHandler where "imx95_m33_MU1_B_IRQHandler = mu_rx_handler A55_COM_ID"

definition imx95_m7 :: "(imx9_mu, imx9_mu) mu_port" where
  "imx95_m7 = multi_mu_port (\<lambda>com. if com = A55_COM_ID then Some (MU7_MUB_side, MU7_MUB_side) else None) False True
     [Mu_init MU7_MUB_side, Nvic_priority MU7_MUB_side MU_IRQ_PRIORITY, Nvic_enable MU7_MUB_side] [Mu_deinit MU7_MUB_side]"

definition imx95_m7_init_interrupt where "imx95_m7_init_interrupt = mu_init_interrupt imx95_m7"
definition imx95_m7_deinit_interrupt where "imx95_m7_deinit_interrupt = mu_deinit_interrupt imx95_m7"
definition imx95_m7_notify where "imx95_m7_notify = mu_notify imx95_m7"
definition imx95_m7_interrupt_enable where "imx95_m7_interrupt_enable = mu_interrupt_enable imx95_m7"
definition imx95_m7_interrupt_disable where "imx95_m7_interrupt_disable = mu_interrupt_disable imx95_m7"
definition imx95_m7_init where "imx95_m7_init = mu_init imx95_m7"
definition imx95_m7_deinit where "imx95_m7_deinit = mu_deinit imx95_m7"
definition imx95_m7_MU7_B_IRQHandler where "imx95_m7_MU7_B_IRQHandler = mu_rx_handler A55_COM_ID"

definition imx952_m7 :: "(imx9_mu, imx9_mu) mu_port" where
  "imx952_m7 = multi_mu_port (\<lambda>com. if com = A55_COM_ID then Some (MU7_MUB_side, MU7_MUB_side) else None) False True
     [Mu_init MU7_MUB_side, Nvic_priority MU7_MUB_side MU_IRQ_PRIORITY, Nvic_enable MU7_MUB_side] [Mu_deinit MU7_MUB_side]"

definition imx952_m7_init_interrupt where "imx952_m7_init_interrupt = mu_init_interrupt imx952_m7"
definition imx952_m7_deinit_interrupt where "imx952_m7_deinit_interrupt = mu_deinit_interrupt imx952_m7"
definition imx952_m7_notify where "imx952_m7_notify = mu_notify imx952_m7"
definition imx952_m7_interrupt_enable where "imx952_m7_interrupt_enable = mu_interrupt_enable imx952_m7"
definition imx952_m7_interrupt_disable where "imx952_m7_interrupt_disable = mu_interrupt_disable imx952_m7"
definition imx952_m7_init where "imx952_m7_init = mu_init imx952_m7"
definition imx952_m7_deinit where "imx952_m7_deinit = mu_deinit imx952_m7"
definition imx952_m7_MU7_B_IRQHandler where "imx952_m7_MU7_B_IRQHandler = mu_rx_handler A55_COM_ID"

section \<open>i.MX 943\<close>

text \<open>Each core has its own names for the other two.\<close>

abbreviation (input) M70_M33S_COM_ID :: u32 where "M70_M33S_COM_ID \<equiv> 1"
abbreviation (input) M70_M71_COM_ID :: u32 where "M70_M71_COM_ID \<equiv> 2"
abbreviation (input) M71_M33S_COM_ID :: u32 where "M71_M33S_COM_ID \<equiv> 1"
abbreviation (input) M71_M70_COM_ID :: u32 where "M71_M70_COM_ID \<equiv> 2"
abbreviation (input) M33S_M70_COM_ID :: u32 where "M33S_M70_COM_ID \<equiv> 1"
abbreviation (input) M33S_M71_COM_ID :: u32 where "M33S_M71_COM_ID \<equiv> 2"

definition imx943_m70 :: "(imx9_mu, imx9_mu) mu_port" where
  "imx943_m70 = multi_mu_port
     (\<lambda>com. if com = M70_M33S_COM_ID then Some (MUA3_A, MUA3_A)
       else if com = M70_M71_COM_ID then Some (MUI_A18_B, MUI_A18_B)
       else if com = A55_COM_ID then Some (MUI_A11_B, MUI_A11_B) else None) False True
     [Mu_init MUA3_A, Nvic_priority MUA3_A MU_IRQ_PRIORITY, Nvic_enable MUA3_A,
      Mu_init MUI_A18_B, Nvic_priority MUI_A18_B MU_IRQ_PRIORITY, Nvic_enable MUI_A18_B,
      Mu_init MUI_A11_B, Nvic_priority MUI_A11_B MU_IRQ_PRIORITY, Nvic_enable MUI_A11_B]
     [Mu_deinit MUA3_A, Mu_deinit MUI_A18_B, Mu_deinit MUI_A11_B]"

definition imx943_m70_init_interrupt where "imx943_m70_init_interrupt = mu_init_interrupt imx943_m70"
definition imx943_m70_deinit_interrupt where "imx943_m70_deinit_interrupt = mu_deinit_interrupt imx943_m70"
definition imx943_m70_notify where "imx943_m70_notify = mu_notify imx943_m70"
definition imx943_m70_interrupt_enable where "imx943_m70_interrupt_enable = mu_interrupt_enable imx943_m70"
definition imx943_m70_interrupt_disable where "imx943_m70_interrupt_disable = mu_interrupt_disable imx943_m70"
definition imx943_m70_init where "imx943_m70_init = mu_init imx943_m70"
definition imx943_m70_deinit where "imx943_m70_deinit = mu_deinit imx943_m70"
definition imx943_m70_MU_E3_A_IRQHandler where "imx943_m70_MU_E3_A_IRQHandler = mu_rx_handler M70_M33S_COM_ID"
definition imx943_m70_MU18_B_IRQHandler where "imx943_m70_MU18_B_IRQHandler = mu_rx_handler M70_M71_COM_ID"
definition imx943_m70_MU11_B_IRQHandler where "imx943_m70_MU11_B_IRQHandler = mu_rx_handler A55_COM_ID"

definition imx943_m71 :: "(imx9_mu, imx9_mu) mu_port" where
  "imx943_m71 = multi_mu_port
     (\<lambda>com. if com = M71_M33S_COM_ID then Some (MUA1_A, MUA1_A)
       else if com = M71_M70_COM_ID then Some (MUI_A18_A, MUI_A18_A)
       else if com = A55_COM_ID then Some (MUI_A13_A, MUI_A13_A) else None) False True
     [Mu_init MUA1_A, Nvic_priority MUA1_A MU_IRQ_PRIORITY, Nvic_enable MUA1_A,
      Mu_init MUI_A18_A, Nvic_priority MUI_A18_A MU_IRQ_PRIORITY, Nvic_enable MUI_A18_A,
      Mu_init MUI_A13_A, Nvic_priority MUI_A13_A MU_IRQ_PRIORITY, Nvic_enable MUI_A13_A]
     [Mu_deinit MUA1_A, Mu_deinit MUI_A18_A, Mu_deinit MUI_A13_A]"

definition imx943_m71_init_interrupt where "imx943_m71_init_interrupt = mu_init_interrupt imx943_m71"
definition imx943_m71_deinit_interrupt where "imx943_m71_deinit_interrupt = mu_deinit_interrupt imx943_m71"
definition imx943_m71_notify where "imx943_m71_notify = mu_notify imx943_m71"
definition imx943_m71_interrupt_enable where "imx943_m71_interrupt_enable = mu_interrupt_enable imx943_m71"
definition imx943_m71_interrupt_disable where "imx943_m71_interrupt_disable = mu_interrupt_disable imx943_m71"
definition imx943_m71_init where "imx943_m71_init = mu_init imx943_m71"
definition imx943_m71_deinit where "imx943_m71_deinit = mu_deinit imx943_m71"
definition imx943_m71_MU_E1_A_IRQHandler where "imx943_m71_MU_E1_A_IRQHandler = mu_rx_handler M71_M33S_COM_ID"
definition imx943_m71_MU18_A_IRQHandler where "imx943_m71_MU18_A_IRQHandler = mu_rx_handler M71_M70_COM_ID"
definition imx943_m71_MU13_A_IRQHandler where "imx943_m71_MU13_A_IRQHandler = mu_rx_handler A55_COM_ID"

definition imx943_m33s :: "(imx9_mu, imx9_mu) mu_port" where
  "imx943_m33s = multi_mu_port
     (\<lambda>com. if com = M33S_M71_COM_ID then Some (MUA1_B, MUA1_B)
       else if com = M33S_M70_COM_ID then Some (MUA3_B, MUA3_B)
       else if com = A55_COM_ID then Some (MUI_A15_A, MUI_A15_A) else None) False True
     [Mu_init MUA1_B, Nvic_priority MUA1_B MU_IRQ_PRIORITY, Nvic_enable MUA1_B,
      Mu_init MUA3_B, Nvic_priority MUA3_B MU_IRQ_PRIORITY, Nvic_enable MUA3_B,
      Mu_init MUI_A15_A, Nvic_priority MUI_A15_A MU_IRQ_PRIORITY, Nvic_enable MUI_A15_A]
     [Mu_deinit MUA1_B, Mu_deinit MUA3_B, Mu_deinit MUI_A15_A]"

definition imx943_m33s_init_interrupt where "imx943_m33s_init_interrupt = mu_init_interrupt imx943_m33s"
definition imx943_m33s_deinit_interrupt where "imx943_m33s_deinit_interrupt = mu_deinit_interrupt imx943_m33s"
definition imx943_m33s_notify where "imx943_m33s_notify = mu_notify imx943_m33s"
definition imx943_m33s_interrupt_enable where "imx943_m33s_interrupt_enable = mu_interrupt_enable imx943_m33s"
definition imx943_m33s_interrupt_disable where "imx943_m33s_interrupt_disable = mu_interrupt_disable imx943_m33s"
definition imx943_m33s_init where "imx943_m33s_init = mu_init imx943_m33s"
definition imx943_m33s_deinit where "imx943_m33s_deinit = mu_deinit imx943_m33s"
definition imx943_m33s_MU_E1_B_IRQHandler where "imx943_m33s_MU_E1_B_IRQHandler = mu_rx_handler M33S_M71_COM_ID"
definition imx943_m33s_MU_E3_B_IRQHandler where "imx943_m33s_MU_E3_B_IRQHandler = mu_rx_handler M33S_M70_COM_ID"
definition imx943_m33s_MU15_A_IRQHandler where "imx943_m33s_MU15_A_IRQHandler = mu_rx_handler A55_COM_ID"

section \<open>Address translation of the i.MX 943\<close>

text \<open>
  The tightly coupled memories of the cores as each core sees them, and in them the areas shared by a
  master (named first) and a remote.
\<close>

abbreviation (input) M33S_SYS_TCM_BEGIN_FROM_M70_VIEW :: u32 where "M33S_SYS_TCM_BEGIN_FROM_M70_VIEW \<equiv> 0x20A00000"
abbreviation (input) M33S_SYS_TCM_END_FROM_M70_VIEW :: u32 where "M33S_SYS_TCM_END_FROM_M70_VIEW \<equiv> 0x20A3FFFF"
abbreviation (input) M70_DTCM_BEGIN_FROM_M70_VIEW :: u32 where "M70_DTCM_BEGIN_FROM_M70_VIEW \<equiv> 0x20000000"
abbreviation (input) M70_DTCM_END_FROM_M70_VIEW :: u32 where "M70_DTCM_END_FROM_M70_VIEW \<equiv> 0x2003FFFF"
abbreviation (input) M71_DTCM_BEGIN_FROM_M70_VIEW :: u32 where "M71_DTCM_BEGIN_FROM_M70_VIEW \<equiv> 0x20300000"
abbreviation (input) M71_DTCM_END_FROM_M70_VIEW :: u32 where "M71_DTCM_END_FROM_M70_VIEW \<equiv> 0x2033FFFF"
abbreviation (input) M33S_SYS_TCM_BEGIN_FROM_M71_VIEW :: u32 where "M33S_SYS_TCM_BEGIN_FROM_M71_VIEW \<equiv> 0x20A00000"
abbreviation (input) M33S_SYS_TCM_END_FROM_M71_VIEW :: u32 where "M33S_SYS_TCM_END_FROM_M71_VIEW \<equiv> 0x20A3FFFF"
abbreviation (input) M70_DTCM_BEGIN_FROM_M71_VIEW :: u32 where "M70_DTCM_BEGIN_FROM_M71_VIEW \<equiv> 0x20400000"
abbreviation (input) M70_DTCM_END_FROM_M71_VIEW :: u32 where "M70_DTCM_END_FROM_M71_VIEW \<equiv> 0x2043FFFF"
abbreviation (input) M71_DTCM_BEGIN_FROM_M71_VIEW :: u32 where "M71_DTCM_BEGIN_FROM_M71_VIEW \<equiv> 0x20000000"
abbreviation (input) M33S_SYS_TCM_BEGIN_FROM_M33S_VIEW :: u32 where "M33S_SYS_TCM_BEGIN_FROM_M33S_VIEW \<equiv> 0x20000000"
abbreviation (input) M70_DTCM_BEGIN_FROM_M33S_VIEW :: u32 where "M70_DTCM_BEGIN_FROM_M33S_VIEW \<equiv> 0x20400000"
abbreviation (input) M70_DTCM_END_FROM_M33S_VIEW :: u32 where "M70_DTCM_END_FROM_M33S_VIEW \<equiv> 0x2043FFFF"
abbreviation (input) M71_DTCM_BEGIN_FROM_M33S_VIEW :: u32 where "M71_DTCM_BEGIN_FROM_M33S_VIEW \<equiv> 0x20300000"
abbreviation (input) M71_DTCM_END_FROM_M33S_VIEW :: u32 where "M71_DTCM_END_FROM_M33S_VIEW \<equiv> 0x2033FFFF"
abbreviation (input) SHMEM_M33S_M70_DTCM_BEGIN_FROM_M33S_VIEW :: u32 where "SHMEM_M33S_M70_DTCM_BEGIN_FROM_M33S_VIEW \<equiv> 0x2043A800"
abbreviation (input) SHMEM_M33S_M70_DTCM_END_FROM_M33S_VIEW :: u32 where "SHMEM_M33S_M70_DTCM_END_FROM_M33S_VIEW \<equiv> 0x2043BFFF"
abbreviation (input) SHMEM_M33S_M70_DTCM_BEGIN_FROM_M70_VIEW :: u32 where "SHMEM_M33S_M70_DTCM_BEGIN_FROM_M70_VIEW \<equiv> 0x2003A800"
abbreviation (input) SHMEM_M71_M70_DTCM_BEGIN_FROM_M71_VIEW :: u32 where "SHMEM_M71_M70_DTCM_BEGIN_FROM_M71_VIEW \<equiv> 0x20439000"
abbreviation (input) SHMEM_M71_M70_DTCM_END_FROM_M71_VIEW :: u32 where "SHMEM_M71_M70_DTCM_END_FROM_M71_VIEW \<equiv> 0x2043A7FF"
abbreviation (input) SHMEM_M71_M70_DTCM_BEGIN_FROM_M70_VIEW :: u32 where "SHMEM_M71_M70_DTCM_BEGIN_FROM_M70_VIEW \<equiv> 0x20039000"
abbreviation (input) SHMEM_M70_M71_DTCM_BEGIN_FROM_M70_VIEW :: u32 where "SHMEM_M70_M71_DTCM_BEGIN_FROM_M70_VIEW \<equiv> 0x20339000"
abbreviation (input) SHMEM_M70_M71_DTCM_END_FROM_M70_VIEW :: u32 where "SHMEM_M70_M71_DTCM_END_FROM_M70_VIEW \<equiv> 0x2033A7FF"
abbreviation (input) SHMEM_M70_M71_DTCM_BEGIN_FROM_M71_VIEW :: u32 where "SHMEM_M70_M71_DTCM_BEGIN_FROM_M71_VIEW \<equiv> 0x20039000"
abbreviation (input) SHMEM_M33S_M71_DTCM_BEGIN_FROM_M33S_VIEW :: u32 where "SHMEM_M33S_M71_DTCM_BEGIN_FROM_M33S_VIEW \<equiv> 0x2033A800"
abbreviation (input) SHMEM_M33S_M71_DTCM_END_FROM_M33S_VIEW :: u32 where "SHMEM_M33S_M71_DTCM_END_FROM_M33S_VIEW \<equiv> 0x2033BFFF"
abbreviation (input) SHMEM_M33S_M71_DTCM_BEGIN_FROM_M71_VIEW :: u32 where "SHMEM_M33S_M71_DTCM_BEGIN_FROM_M71_VIEW \<equiv> 0x2003A800"
abbreviation (input) SHMEM_M70_M33S_SYS_TCM_BEGIN_FROM_M70_VIEW :: u32 where "SHMEM_M70_M33S_SYS_TCM_BEGIN_FROM_M70_VIEW \<equiv> 0x20A39000"
abbreviation (input) SHMEM_M70_M33S_SYS_TCM_END_FROM_M70_VIEW :: u32 where "SHMEM_M70_M33S_SYS_TCM_END_FROM_M70_VIEW \<equiv> 0x20A3A7FF"
abbreviation (input) SHMEM_M70_M33S_SYS_TCM_BEGIN_FROM_M33S_VIEW :: u32 where "SHMEM_M70_M33S_SYS_TCM_BEGIN_FROM_M33S_VIEW \<equiv> 0x20039000"
abbreviation (input) SHMEM_M71_M33S_SYS_TCM_BEGIN_FROM_M71_VIEW :: u32 where "SHMEM_M71_M33S_SYS_TCM_BEGIN_FROM_M71_VIEW \<equiv> 0x20A3A800"
abbreviation (input) SHMEM_M71_M33S_SYS_TCM_END_FROM_M71_VIEW :: u32 where "SHMEM_M71_M33S_SYS_TCM_END_FROM_M71_VIEW \<equiv> 0x20A3BFFF"
abbreviation (input) SHMEM_M71_M33S_SYS_TCM_BEGIN_FROM_M33S_VIEW :: u32 where "SHMEM_M71_M33S_SYS_TCM_BEGIN_FROM_M33S_VIEW \<equiv> 0x2003A800"

definition between :: "u32 \<Rightarrow> u32 \<Rightarrow> u32 \<Rightarrow> bool" where
  "between lo hi addr \<longleftrightarrow> lo \<le> addr \<and> addr \<le> hi"

text \<open>\<open>assert(false)\<close> is \<open>None\<close>.\<close>

definition imx943_m70_vatopa :: "ptr \<Rightarrow> ptr" where
  "imx943_m70_vatopa addr = addr"

definition imx943_m70_patova :: "ptr \<Rightarrow> ptr option" where
  "imx943_m70_patova addr =
     (if between M71_DTCM_BEGIN_FROM_M70_VIEW M70_DTCM_END_FROM_M70_VIEW addr then
        (if between SHMEM_M70_M71_DTCM_BEGIN_FROM_M70_VIEW SHMEM_M70_M71_DTCM_END_FROM_M70_VIEW addr then Some addr else None)
      else if between M70_DTCM_BEGIN_FROM_M33S_VIEW M70_DTCM_END_FROM_M33S_VIEW addr then
        (if between SHMEM_M33S_M70_DTCM_BEGIN_FROM_M33S_VIEW SHMEM_M33S_M70_DTCM_END_FROM_M33S_VIEW addr
         then Some (addr - (M70_DTCM_BEGIN_FROM_M33S_VIEW - M70_DTCM_BEGIN_FROM_M70_VIEW))
         else if between SHMEM_M71_M70_DTCM_BEGIN_FROM_M71_VIEW SHMEM_M71_M70_DTCM_END_FROM_M71_VIEW addr
         then Some (addr - (M70_DTCM_BEGIN_FROM_M71_VIEW - M70_DTCM_BEGIN_FROM_M70_VIEW))
         else None)
      else if between M33S_SYS_TCM_BEGIN_FROM_M70_VIEW M33S_SYS_TCM_END_FROM_M70_VIEW addr then
        (if between SHMEM_M70_M33S_SYS_TCM_BEGIN_FROM_M70_VIEW SHMEM_M70_M33S_SYS_TCM_END_FROM_M70_VIEW addr then Some addr else None)
      else Some addr)"

definition imx943_m71_vatopa :: "ptr \<Rightarrow> ptr" where
  "imx943_m71_vatopa addr = addr"

definition imx943_m71_patova :: "ptr \<Rightarrow> ptr option" where
  "imx943_m71_patova addr =
     (if between M70_DTCM_BEGIN_FROM_M71_VIEW M70_DTCM_END_FROM_M71_VIEW addr then
        (if between SHMEM_M71_M70_DTCM_BEGIN_FROM_M71_VIEW SHMEM_M71_M70_DTCM_END_FROM_M71_VIEW addr then Some addr else None)
      else if between M71_DTCM_BEGIN_FROM_M70_VIEW M71_DTCM_END_FROM_M70_VIEW addr then
        (if between SHMEM_M70_M71_DTCM_BEGIN_FROM_M70_VIEW SHMEM_M70_M71_DTCM_END_FROM_M70_VIEW addr
         then Some (addr - (M71_DTCM_BEGIN_FROM_M70_VIEW - M71_DTCM_BEGIN_FROM_M71_VIEW))
         else if between SHMEM_M33S_M71_DTCM_BEGIN_FROM_M33S_VIEW SHMEM_M33S_M71_DTCM_END_FROM_M33S_VIEW addr
         then Some (addr - (M71_DTCM_BEGIN_FROM_M33S_VIEW - M71_DTCM_BEGIN_FROM_M71_VIEW))
         else None)
      else if between M33S_SYS_TCM_BEGIN_FROM_M71_VIEW M33S_SYS_TCM_END_FROM_M71_VIEW addr then
        (if between SHMEM_M71_M33S_SYS_TCM_BEGIN_FROM_M71_VIEW SHMEM_M71_M33S_SYS_TCM_END_FROM_M71_VIEW addr then Some addr else None)
      else Some addr)"

definition imx943_m33s_vatopa :: "ptr \<Rightarrow> ptr" where
  "imx943_m33s_vatopa addr = addr"

definition imx943_m33s_patova :: "ptr \<Rightarrow> ptr option" where
  "imx943_m33s_patova addr =
     (if between M70_DTCM_BEGIN_FROM_M33S_VIEW M70_DTCM_END_FROM_M33S_VIEW addr then
        (if between SHMEM_M33S_M70_DTCM_BEGIN_FROM_M33S_VIEW SHMEM_M33S_M70_DTCM_END_FROM_M33S_VIEW addr then Some addr else None)
      else if between M71_DTCM_BEGIN_FROM_M33S_VIEW M71_DTCM_END_FROM_M33S_VIEW addr then
        (if between SHMEM_M33S_M71_DTCM_BEGIN_FROM_M33S_VIEW SHMEM_M33S_M71_DTCM_END_FROM_M33S_VIEW addr then Some addr else None)
      else if between M33S_SYS_TCM_BEGIN_FROM_M71_VIEW M33S_SYS_TCM_END_FROM_M71_VIEW addr then
        (if between SHMEM_M71_M33S_SYS_TCM_BEGIN_FROM_M71_VIEW SHMEM_M71_M33S_SYS_TCM_END_FROM_M71_VIEW addr
         then Some (addr - (M33S_SYS_TCM_BEGIN_FROM_M71_VIEW - M33S_SYS_TCM_BEGIN_FROM_M33S_VIEW))
         else if between SHMEM_M70_M33S_SYS_TCM_BEGIN_FROM_M70_VIEW SHMEM_M70_M33S_SYS_TCM_END_FROM_M70_VIEW addr
         then Some (addr - (M33S_SYS_TCM_BEGIN_FROM_M70_VIEW - M33S_SYS_TCM_BEGIN_FROM_M33S_VIEW))
         else None)
      else Some addr)"

section \<open>Nesting of the interrupt calls\<close>

lemma imx9_differ:
  assumes "P \<in> {imx93, imx95_m33, imx95_m7, imx952_m7, imx943_m70, imx943_m71, imx943_m33s}"
  shows "lines_differ P" "units_differ P" "count_first P"
  using assms
  by (auto simp: imx93_def imx95_m33_def imx95_m7_def imx952_m7_def imx943_m70_def imx943_m71_def imx943_m33s_def
      multi_mu_port_def lines_differ_def units_differ_def split: if_splits)

interpretation imx93: mu_nesting imx93
  by unfold_locales (simp add: imx9_differ)

interpretation imx95_m33: mu_nesting imx95_m33
  by unfold_locales (simp add: imx9_differ)

interpretation imx95_m7: mu_nesting imx95_m7
  by unfold_locales (simp add: imx9_differ)

interpretation imx952_m7: mu_nesting imx952_m7
  by unfold_locales (simp add: imx9_differ)

interpretation imx943_m70: mu_nesting imx943_m70
  by unfold_locales (simp add: imx9_differ)

interpretation imx943_m71: mu_nesting imx943_m71
  by unfold_locales (simp add: imx9_differ)

interpretation imx943_m33s: mu_nesting imx943_m33s
  by unfold_locales (simp add: imx9_differ)

section \<open>The shared areas of the i.MX 943\<close>

lemma between_offset:
  assumes "unat (x :: u32) \<le> 0x17FF" "unat c < 0x80000000"
  shows "between lo hi (c + x) \<longleftrightarrow> unat lo \<le> unat c + unat x \<and> unat c + unat x \<le> unat hi"
proof -
  have "unat (c + x) = unat c + unat x" using assms by (simp add: unat_word_ariths)
  then show ?thesis by (simp add: between_def word_le_nat_alt)
qed

lemma offset_diff: "(c :: u32) + x - d = (c - d) + x"
  by simp

lemma imx943_m70_window:
  assumes "unat x \<le> 0x17FF"
  shows "imx943_m70_patova (SHMEM_M33S_M70_DTCM_BEGIN_FROM_M33S_VIEW + x) = Some (SHMEM_M33S_M70_DTCM_BEGIN_FROM_M70_VIEW + x)"
    and "imx943_m70_patova (SHMEM_M71_M70_DTCM_BEGIN_FROM_M71_VIEW + x) = Some (SHMEM_M71_M70_DTCM_BEGIN_FROM_M70_VIEW + x)"
    and "imx943_m70_patova (SHMEM_M70_M71_DTCM_BEGIN_FROM_M70_VIEW + x) = Some (SHMEM_M70_M71_DTCM_BEGIN_FROM_M70_VIEW + x)"
    and "imx943_m70_patova (SHMEM_M70_M33S_SYS_TCM_BEGIN_FROM_M70_VIEW + x) = Some (SHMEM_M70_M33S_SYS_TCM_BEGIN_FROM_M70_VIEW + x)"
  using assms by (simp_all add: imx943_m70_patova_def between_offset offset_diff)

lemma imx943_m71_window:
  assumes "unat x \<le> 0x17FF"
  shows "imx943_m71_patova (SHMEM_M70_M71_DTCM_BEGIN_FROM_M70_VIEW + x) = Some (SHMEM_M70_M71_DTCM_BEGIN_FROM_M71_VIEW + x)"
    and "imx943_m71_patova (SHMEM_M33S_M71_DTCM_BEGIN_FROM_M33S_VIEW + x) = Some (SHMEM_M33S_M71_DTCM_BEGIN_FROM_M71_VIEW + x)"
    and "imx943_m71_patova (SHMEM_M71_M70_DTCM_BEGIN_FROM_M71_VIEW + x) = Some (SHMEM_M71_M70_DTCM_BEGIN_FROM_M71_VIEW + x)"
    and "imx943_m71_patova (SHMEM_M71_M33S_SYS_TCM_BEGIN_FROM_M71_VIEW + x) = Some (SHMEM_M71_M33S_SYS_TCM_BEGIN_FROM_M71_VIEW + x)"
  using assms by (simp_all add: imx943_m71_patova_def between_offset offset_diff)

lemma imx943_m33s_window:
  assumes "unat x \<le> 0x17FF"
  shows "imx943_m33s_patova (SHMEM_M70_M33S_SYS_TCM_BEGIN_FROM_M70_VIEW + x) = Some (SHMEM_M70_M33S_SYS_TCM_BEGIN_FROM_M33S_VIEW + x)"
    and "imx943_m33s_patova (SHMEM_M71_M33S_SYS_TCM_BEGIN_FROM_M71_VIEW + x) = Some (SHMEM_M71_M33S_SYS_TCM_BEGIN_FROM_M33S_VIEW + x)"
    and "imx943_m33s_patova (SHMEM_M33S_M70_DTCM_BEGIN_FROM_M33S_VIEW + x) = Some (SHMEM_M33S_M70_DTCM_BEGIN_FROM_M33S_VIEW + x)"
    and "imx943_m33s_patova (SHMEM_M33S_M71_DTCM_BEGIN_FROM_M33S_VIEW + x) = Some (SHMEM_M33S_M71_DTCM_BEGIN_FROM_M33S_VIEW + x)"
  using assms by (simp_all add: imx943_m33s_patova_def between_offset offset_diff)

text \<open>
  C29: the i.MX 943: for every pair of a master and a remote, an address in their shared area, as the master writes it
  into a descriptor, is for the remote's \<open>platform_patova\<close> the same byte of the area as the remote sees it, and
  stays as it is for the master's own.
\<close>

theorem imx943_shared_window:
  assumes "x \<le> 0x17FF"
  shows "imx943_m70_patova (imx943_m33s_vatopa (SHMEM_M33S_M70_DTCM_BEGIN_FROM_M33S_VIEW + x)) = Some (SHMEM_M33S_M70_DTCM_BEGIN_FROM_M70_VIEW + x)
    \<and> imx943_m70_patova (imx943_m71_vatopa (SHMEM_M71_M70_DTCM_BEGIN_FROM_M71_VIEW + x)) = Some (SHMEM_M71_M70_DTCM_BEGIN_FROM_M70_VIEW + x)
    \<and> imx943_m71_patova (imx943_m70_vatopa (SHMEM_M70_M71_DTCM_BEGIN_FROM_M70_VIEW + x)) = Some (SHMEM_M70_M71_DTCM_BEGIN_FROM_M71_VIEW + x)
    \<and> imx943_m71_patova (imx943_m33s_vatopa (SHMEM_M33S_M71_DTCM_BEGIN_FROM_M33S_VIEW + x)) = Some (SHMEM_M33S_M71_DTCM_BEGIN_FROM_M71_VIEW + x)
    \<and> imx943_m33s_patova (imx943_m70_vatopa (SHMEM_M70_M33S_SYS_TCM_BEGIN_FROM_M70_VIEW + x)) = Some (SHMEM_M70_M33S_SYS_TCM_BEGIN_FROM_M33S_VIEW + x)
    \<and> imx943_m33s_patova (imx943_m71_vatopa (SHMEM_M71_M33S_SYS_TCM_BEGIN_FROM_M71_VIEW + x)) = Some (SHMEM_M71_M33S_SYS_TCM_BEGIN_FROM_M33S_VIEW + x)
    \<and> imx943_m33s_patova (SHMEM_M33S_M70_DTCM_BEGIN_FROM_M33S_VIEW + x) = Some (SHMEM_M33S_M70_DTCM_BEGIN_FROM_M33S_VIEW + x)
    \<and> imx943_m33s_patova (SHMEM_M33S_M71_DTCM_BEGIN_FROM_M33S_VIEW + x) = Some (SHMEM_M33S_M71_DTCM_BEGIN_FROM_M33S_VIEW + x)
    \<and> imx943_m70_patova (SHMEM_M70_M71_DTCM_BEGIN_FROM_M70_VIEW + x) = Some (SHMEM_M70_M71_DTCM_BEGIN_FROM_M70_VIEW + x)
    \<and> imx943_m70_patova (SHMEM_M70_M33S_SYS_TCM_BEGIN_FROM_M70_VIEW + x) = Some (SHMEM_M70_M33S_SYS_TCM_BEGIN_FROM_M70_VIEW + x)
    \<and> imx943_m71_patova (SHMEM_M71_M70_DTCM_BEGIN_FROM_M71_VIEW + x) = Some (SHMEM_M71_M70_DTCM_BEGIN_FROM_M71_VIEW + x)
    \<and> imx943_m71_patova (SHMEM_M71_M33S_SYS_TCM_BEGIN_FROM_M71_VIEW + x) = Some (SHMEM_M71_M33S_SYS_TCM_BEGIN_FROM_M71_VIEW + x)"
proof -
  have x: "unat x \<le> 0x17FF" using assms by (simp add: word_le_nat_alt)
  show ?thesis
    using imx943_m70_window [OF x] imx943_m71_window [OF x] imx943_m33s_window [OF x]
    by (simp only: imx943_m70_vatopa_def imx943_m71_vatopa_def imx943_m33s_vatopa_def simp_thms)
qed

theorem imx943_shared_window_witness: "imx943_m71_patova 0x20339010 = Some 0x20039010"
  using imx943_shared_window [of "0x10"] by (simp add: imx943_m70_vatopa_def)

text \<open>
  The first test of the Cortex-M70's \<open>platform_patova\<close> never holds (it ends with the wrong constant), so addresses of the
  Cortex-M71's memory outside the shared area, which the other cores reject, pass.
\<close>

lemma imx943_m70_patova_unchecked:
  assumes "0x20300000 \<le> a" "a \<le> 0x2033FFFF"
  shows "imx943_m70_patova a = Some a"
proof -
  have "\<not> 0x20400000 \<le> a" "\<not> 0x20A00000 \<le> a" "\<not> a \<le> 0x2003FFFF"
    using assms by (simp_all add: word_le_nat_alt)
  then show ?thesis by (simp add: imx943_m70_patova_def between_def)
qed

end
