(* ===== verification/Mu_Channel.thy ===== *)
theory Mu_Channel
  imports Platform_Imx Platform_Imx8ulp Platform_Imx9
begin

text \<open>
  What holds of the ports that notify through a messaging unit: how the calls that switch interrupts off and on
  nest in each of them, and what becomes of the notifications that one core of an i.MX 943 or 8QM sends to another
  one through the modelled \<open>platform_notify\<close>, messaging unit and interrupt handler.
\<close>

section \<open>Nested disabling in the ports\<close>

text \<open>
  The counters need no more than that the calls pass their assertions. \<open>irq_nests off P\<close> says what any sequence of
  calls for arbitrary vectors does to the counter and the line of a pair of cores, the line being disabled while disables are
  outstanding only if \<open>off\<close> holds.
\<close>

interpretation mu_count: irq_nesting "mu_interrupt_disable P" "mu_interrupt_enable P" "com_of P"
  "\<lambda>c. unit_of P c \<noteq> None" "\<lambda>pl. True" mup_disable_counter for P
  by unfold_locales
    (auto simp: mu_interrupt_disable_def mu_interrupt_enable_def mu_ops_def Let_def split: bind_splits if_splits option.splits)

definition irq_nests :: "bool \<Rightarrow> ('u, 'i) mu_port \<Rightarrow> bool" where
  "irq_nests off P \<longleftrightarrow> (\<forall>b pl cs pl' c u i. mu_irq_inv P b pl \<longrightarrow> unit_of P c = Some (u, i) \<longrightarrow>
     irq_calls (mu_interrupt_disable P) (mu_interrupt_enable P) cs pl = Some pl' \<longrightarrow>
     mup_disable_counter pl' c = mup_disable_counter pl c + irq_depth (com_of P) c cs
     \<and> line_on i (b i) pl' = (off \<longrightarrow> mup_disable_counter pl c + irq_depth (com_of P) c cs = 0))"

lemma irq_nestsI: "mu_nesting P \<Longrightarrow> count_first P = (\<not> off) \<Longrightarrow> irq_nests off P"
  using mu_nesting.depth [of P] by (fastforce simp: irq_nests_def)

lemma single_port_count: "count_first (single_mu_port u i msg start stop) = False"
  by (simp add: single_mu_port_def)

lemma multi_port_count: "count_first (multi_mu_port units checked before start stop) = before"
  by (simp add: multi_mu_port_def)

lemmas imx_single_defs = imx7d_def imx6sx_def imx7ulp_def imx8mm_def imx8mq_def imx8mn_def imx8mp_def imx8dxl_def imx8qx_def

lemma imx9_count:
  "count_first imx93" "count_first imx95_m33" "count_first imx95_m7" "count_first imx952_m7"
  "count_first imx943_m70" "count_first imx943_m71" "count_first imx943_m33s"
  by (simp_all add: imx93_def imx95_m33_def imx95_m7_def imx952_m7_def imx943_m70_def imx943_m71_def imx943_m33s_def multi_port_count)



section \<open>Notifications between two cores\<close>

text \<open>
  A sending core with port \<open>PS\<close> and a receiving one with port \<open>PR\<close>: the vectors that the messaging layer of the sender
  still has to pass to \<open>platform_notify\<close>, the variables of its platform layer, the receive registers of the units, the
  identifiers \<open>env_isr\<close> of the receiver got, and the variables of the receiver's platform layer. \<open>side u\<close> is the unit at the
  other end of \<open>u\<close>, \<open>handler w\<close> the interrupt handler of unit \<open>w\<close>. What \<open>platform_notify\<close> writes goes to
  the register at the other side, once this is empty: \<open>MU_SendMsg\<close> waits for that. A notification that
  writes nothing is dropped. The handler of a unit of the receiver runs when the register is full and its line enabled; other cores read the
  registers of their own units; and the receiver disables and enables interrupts for arbitrary vectors.
\<close>

type_synonym ('u, 'i) mu_link = "u32 list \<times> ('u, 'i) mu_plat \<times> ('u \<Rightarrow> u32 option) \<times> u32 list \<times> ('u, 'i) mu_plat"

type_synonym mu_handler = "(u32 \<Rightarrow> u32 list \<Rightarrow> u32 list option) \<Rightarrow> u32 option \<times> u32 list \<Rightarrow> (u32 option \<times> u32 list) option"

abbreviation (input) note_isr :: "u32 \<Rightarrow> u32 list \<Rightarrow> u32 list option" where
  "note_isr \<equiv> \<lambda>w ws. Some (ws @ [w])"

abbreviation (input) run_notify :: "('u, 'i) mu_port \<Rightarrow> u32 \<Rightarrow> ('u, 'i) mu_plat \<Rightarrow> ('u, 'i) mu_plat \<Rightarrow> bool" where
  "run_notify P v pl pl' \<equiv> mu_notify P (\<lambda>l. Some) (\<lambda>l. Some) v (pl, ()) = Some (pl', ())"

inductive mu_link_step ::
  "('u \<Rightarrow> 'u option) \<Rightarrow> ('u \<Rightarrow> mu_handler) \<Rightarrow> ('u, 'i) mu_port \<Rightarrow> ('u, 'i) mu_port \<Rightarrow> ('u, 'i) mu_link \<Rightarrow> ('u, 'i) mu_link \<Rightarrow> bool"
  for side handler PS PR where
  link_send: "run_notify PS v ps ps' \<Longrightarrow> mup_log ps' = mup_log ps @ [Mu_send u m] \<Longrightarrow>
    (case side u of None \<Rightarrow> regs' = regs | Some w \<Rightarrow> regs w = None \<and> regs' = regs(w \<mapsto> m)) \<Longrightarrow>
    mu_link_step side handler PS PR (v # todo, ps, regs, calls, pr) (todo, ps', regs', calls, pr)"
| link_skip: "run_notify PS v ps ps' \<Longrightarrow> mup_log ps' = mup_log ps \<Longrightarrow>
    mu_link_step side handler PS PR (v # todo, ps, regs, calls, pr) (todo, ps', regs, calls, pr)"
| link_isr: "unit_of PR c = Some (w, i) \<Longrightarrow> line_on i True pr \<Longrightarrow> regs w = Some m \<Longrightarrow>
    handler w note_isr (regs w, calls) = Some (rr, calls') \<Longrightarrow>
    mu_link_step side handler PS PR (todo, ps, regs, calls, pr) (todo, ps, regs(w := rr), calls', pr)"
| link_read: "(\<And>c i. unit_of PR c \<noteq> Some (w, i)) \<Longrightarrow>
    mu_link_step side handler PS PR (todo, ps, regs, calls, pr) (todo, ps, regs(w := None), calls, pr)"
| link_disable: "mu_interrupt_disable PR v pr = Some (r, pr') \<Longrightarrow>
    mu_link_step side handler PS PR (todo, ps, regs, calls, pr) (todo, ps, regs, calls, pr')"
| link_enable: "mu_interrupt_enable PR v pr = Some (r, pr') \<Longrightarrow>
    mu_link_step side handler PS PR (todo, ps, regs, calls, pr) (todo, ps, regs, calls, pr')"

lemma run_notify_eq:
  "run_notify P v pl pl' \<longleftrightarrow>
    pl' = (case unit_of P (com_of P v) of Some (u, i) \<Rightarrow> mu_ops [Mu_send u (msg_of P v)] pl | None \<Rightarrow> pl)"
  by (auto simp: mu_notify_def Let_def)

text \<open>
  The pair \<open>cs\<close> of the sender is the pair \<open>cr\<close> of the receiver: its unit at the sender ends in the receiver's unit
  \<open>w\<close>, and no other unit of the sender ends in the receiver.
\<close>

locale mu_linked =
  fixes side :: "'u \<Rightarrow> 'u option" and handler :: "'u \<Rightarrow> mu_handler"
    and PS PR :: "('u, 'i) mu_port" and cs cr :: u32 and u w :: 'u and j i :: 'i
  assumes names: "com_of PS = RL_GET_COM_ID" "msg_of PS = RL_GEN_MU_MSG"
    and sender: "unit_of PS cs = Some (u, j)" "side u = Some w"
    and other: "unit_of PS c = Some (u', j') \<Longrightarrow> c \<noteq> cs \<Longrightarrow> side u' = Some w' \<Longrightarrow> unit_of PR d \<noteq> Some (w', k)"
    and receiver: "unit_of PR cr = Some (w, i)" "handler w = mu_rx_handler cr"
begin

definition name :: "u32 \<Rightarrow> u32" where
  "name v = (v AND 7) OR push_bit 3 cr"

definition chan :: "('u, 'i) mu_link \<Rightarrow> u32 list" where
  "chan s = (case s of (todo, ps, regs, calls, pr) \<Rightarrow>
     calls @ (case regs w of None \<Rightarrow> [] | Some m \<Rightarrow> [mu_vector cr m]) @ map name (filter (\<lambda>v. RL_GET_COM_ID v = cs) todo))"

definition others_empty :: "('u, 'i) mu_link \<Rightarrow> bool" where
  "others_empty s = (case s of (todo, ps, regs, calls, pr) \<Rightarrow> \<forall>c x k. unit_of PR c = Some (x, k) \<longrightarrow> x \<noteq> w \<longrightarrow> regs x = None)"

lemma mu_vector_name: "mu_vector cr (msg_of PS v) = name v"
  by (simp add: names name_def mu_vector_gen)

lemma step_chan:
  assumes "mu_link_step side handler PS PR s s'" "others_empty s"
  shows "chan s' = chan s \<and> others_empty s'"
  using assms
proof (induction rule: mu_link_step.induct)
  case (link_send v ps ps' x m regs' regs todo calls pr)
  obtain k where x: "unit_of PS (RL_GET_COM_ID v) = Some (x, k)" "m = msg_of PS v"
    using link_send(1,2) unfolding run_notify_eq by (auto simp: names(1) mu_ops_def split: option.splits)
  show ?case
  proof (cases "RL_GET_COM_ID v = cs")
    case True
    then have "regs w = None" "regs' = regs(w \<mapsto> m)" using x(1) sender link_send(3) by simp_all
    then show ?thesis using True link_send(4) by (simp add: chan_def others_empty_def x(2) mu_vector_name)
  next
    case False
    then show ?thesis
      using link_send(3,4) other [OF x(1) False] receiver(1)
      by (cases "side x") (auto simp: chan_def others_empty_def)
  qed
next
  case (link_skip v ps ps' todo regs calls pr)
  have "RL_GET_COM_ID v \<noteq> cs" using link_skip(1,2) sender(1) unfolding run_notify_eq by (auto simp: names(1) mu_ops_def)
  then show ?case using link_skip(3) by (simp add: chan_def others_empty_def)
next
  case (link_isr c x k pr regs m calls rr calls' todo ps)
  have "\<forall>c x k. unit_of PR c = Some (x, k) \<longrightarrow> x \<noteq> w \<longrightarrow> regs x = None" using link_isr(5) by (simp add: others_empty_def)
  with link_isr(1) have "x \<noteq> w \<longrightarrow> regs x = None" by blast
  with link_isr(3) have "x = w" by auto
  then show ?case using link_isr receiver(2) by (auto simp: chan_def others_empty_def mu_rx_handler_def)
next
  case (link_read x todo ps regs calls pr)
  have "x \<noteq> w" using link_read(1) receiver(1) by blast
  then show ?case using link_read(2) by (auto simp: chan_def others_empty_def)
qed (simp_all add: chan_def others_empty_def)

lemma reach_chan:
  assumes "(mu_link_step side handler PS PR)\<^sup>*\<^sup>* s s'" "others_empty s"
  shows "chan s' = chan s \<and> others_empty s'"
  using assms by (induction rule: rtranclp_induct) (simp_all add: step_chan)

lemma in_order:
  assumes "(mu_link_step side handler PS PR)\<^sup>*\<^sup>* (vs, ps, \<lambda>x. None, [], pr) (todo, ps', regs, calls, pr')"
  shows "calls @ (case regs w of None \<Rightarrow> [] | Some m \<Rightarrow> [drop_bit 16 m OR push_bit 3 cr])
      @ map (\<lambda>v. (v AND 7) OR push_bit 3 cr) (filter (\<lambda>v. RL_GET_COM_ID v = cs) todo)
    = map (\<lambda>v. (v AND 7) OR push_bit 3 cr) (filter (\<lambda>v. RL_GET_COM_ID v = cs) vs)"
proof -
  have e: "others_empty (vs, ps, \<lambda>x. None, [], pr)" by (simp add: others_empty_def)
  have n: "name = (\<lambda>v. (v AND 7) OR push_bit 3 cr)" by (rule ext) (rule name_def)
  show ?thesis using reach_chan [OF assms e] unfolding chan_def n by (simp add: mu_vector_def cong: option.case_cong)
qed

lemma can_send:
  assumes "RL_GET_COM_ID v = cs" "regs w = None"
  shows "\<exists>ps'. mu_link_step side handler PS PR (v # todo, ps, regs, calls, pr) (todo, ps', regs(w \<mapsto> RL_GEN_MU_MSG v), calls, pr)"
proof
  show "mu_link_step side handler PS PR (v # todo, ps, regs, calls, pr)
      (todo, mu_ops [Mu_send u (RL_GEN_MU_MSG v)] ps, regs(w \<mapsto> RL_GEN_MU_MSG v), calls, pr)"
    by (rule link_send [of PS v ps _ u "RL_GEN_MU_MSG v"]) (simp_all add: run_notify_eq names assms sender mu_ops_def)
qed

lemma can_handle:
  assumes "regs w = Some m" "line_on i True pr"
  shows "mu_link_step side handler PS PR (todo, ps, regs, calls, pr)
      (todo, ps, regs(w := None), calls @ [drop_bit 16 m OR push_bit 3 cr], pr)"
  using link_isr [of PR cr w i pr regs m handler calls None "calls @ [drop_bit 16 m OR push_bit 3 cr]" side PS todo ps] assms receiver
  by (simp add: mu_rx_handler_def mu_vector_def)

end

lemma link_step_receiver:
  assumes "mu_link_step side handler PS PR (todo, ps, regs, calls, pr) (todo', ps', regs', calls', pr')"
  shows "pr' = pr \<or> (\<exists>v r. mu_interrupt_disable PR v pr = Some (r, pr') \<or> mu_interrupt_enable PR v pr = Some (r, pr'))"
  using assms by (cases rule: mu_link_step.cases) blast+

text \<open>The line of the receiver stays on when its port counts before it compares.\<close>

lemma mu_link_line:
  assumes "(mu_link_step side handler PS PR)\<^sup>*\<^sup>* (vs, ps, regs, calls, pr) (vs', ps', regs', calls', pr')"
    and "mu_nesting PR" "count_first PR" "mu_irq_inv PR (\<lambda>i. True) pr" "unit_of PR c = Some (w, i)"
  shows "line_on i True pr'"
proof -
  have "case s of (vs', ps', regs', calls', pr') \<Rightarrow> mu_irq_inv PR (\<lambda>i. True) pr'"
    if "(mu_link_step side handler PS PR)\<^sup>*\<^sup>* (vs, ps, regs, calls, pr) s" for s
    using that
  proof (induction rule: rtranclp_induct)
    case base
    then show ?case using assms(4) by simp
  next
    case (step s s')
    obtain a b c d e a' b' c' d' e' where s: "s = (a, b, c, d, e)" "s' = (a', b', c', d', e')" by (cases s, cases s')
    show ?case
      using link_step_receiver [OF step.hyps(2) [unfolded s]] step.IH
        mu_nesting.keeps_disable [OF assms(2)] mu_nesting.keeps_enable [OF assms(2)]
      unfolding s prod.case by blast
  qed
  from this [OF assms(1)] have "mu_irq_inv PR (\<lambda>i. True) pr'" by simp
  then show ?thesis using assms(3,5) by (auto simp: mu_irq_inv_def)
qed

section \<open>i.MX 943 and i.MX 8QM\<close>

text \<open>The units that connect two cores which run this library; the other ends of the remaining ones are at the Cortex-A55.\<close>

fun imx943_side :: "imx9_mu \<Rightarrow> imx9_mu option" where
  "imx943_side MUA3_A = Some MUA3_B"
| "imx943_side MUA3_B = Some MUA3_A"
| "imx943_side MUA1_A = Some MUA1_B"
| "imx943_side MUA1_B = Some MUA1_A"
| "imx943_side MUI_A18_A = Some MUI_A18_B"
| "imx943_side MUI_A18_B = Some MUI_A18_A"
| "imx943_side u = None"

fun imx943_handler :: "imx9_mu \<Rightarrow> mu_handler" where
  "imx943_handler MUA3_A = imx943_m70_MU_E3_A_IRQHandler"
| "imx943_handler MUI_A18_B = imx943_m70_MU18_B_IRQHandler"
| "imx943_handler MUI_A11_B = imx943_m70_MU11_B_IRQHandler"
| "imx943_handler MUA1_A = imx943_m71_MU_E1_A_IRQHandler"
| "imx943_handler MUI_A18_A = imx943_m71_MU18_A_IRQHandler"
| "imx943_handler MUI_A13_A = imx943_m71_MU13_A_IRQHandler"
| "imx943_handler MUA1_B = imx943_m33s_MU_E1_B_IRQHandler"
| "imx943_handler MUA3_B = imx943_m33s_MU_E3_B_IRQHandler"
| "imx943_handler MUI_A15_A = imx943_m33s_MU15_A_IRQHandler"
| "imx943_handler u = (\<lambda>isr. Some)"

lemmas imx943_ports = imx943_m70_def imx943_m71_def imx943_m33s_def multi_mu_port_def

lemmas imx943_handlers = imx943_m70_MU_E3_A_IRQHandler_def imx943_m70_MU18_B_IRQHandler_def
  imx943_m71_MU_E1_A_IRQHandler_def imx943_m71_MU18_A_IRQHandler_def
  imx943_m33s_MU_E1_B_IRQHandler_def imx943_m33s_MU_E3_B_IRQHandler_def

interpretation m70_m33s: mu_linked imx943_side imx943_handler imx943_m70 imx943_m33s M70_M33S_COM_ID M33S_M70_COM_ID MUA3_A MUA3_B MUA3_A MUA3_B
  by unfold_locales (auto simp: imx943_ports imx943_handlers split: if_splits)

interpretation m33s_m70: mu_linked imx943_side imx943_handler imx943_m33s imx943_m70 M33S_M70_COM_ID M70_M33S_COM_ID MUA3_B MUA3_A MUA3_B MUA3_A
  by unfold_locales (auto simp: imx943_ports imx943_handlers split: if_splits)

interpretation m71_m33s: mu_linked imx943_side imx943_handler imx943_m71 imx943_m33s M71_M33S_COM_ID M33S_M71_COM_ID MUA1_A MUA1_B MUA1_A MUA1_B
  by unfold_locales (auto simp: imx943_ports imx943_handlers split: if_splits)

interpretation m33s_m71: mu_linked imx943_side imx943_handler imx943_m33s imx943_m71 M33S_M71_COM_ID M71_M33S_COM_ID MUA1_B MUA1_A MUA1_B MUA1_A
  by unfold_locales (auto simp: imx943_ports imx943_handlers split: if_splits)

interpretation m70_m71: mu_linked imx943_side imx943_handler imx943_m70 imx943_m71 M70_M71_COM_ID M71_M70_COM_ID MUI_A18_B MUI_A18_A MUI_A18_B MUI_A18_A
  by unfold_locales (auto simp: imx943_ports imx943_handlers split: if_splits)

interpretation m71_m70: mu_linked imx943_side imx943_handler imx943_m71 imx943_m70 M71_M70_COM_ID M70_M71_COM_ID MUI_A18_A MUI_A18_B MUI_A18_A MUI_A18_B
  by unfold_locales (auto simp: imx943_ports imx943_handlers split: if_splits)

text \<open>The six directions: a sender, its name of the pair, the receiver, and the receiver's name of the pair.\<close>

definition imx943_links :: "((imx9_mu, imx9_mu) mu_port \<times> u32 \<times> (imx9_mu, imx9_mu) mu_port \<times> u32) list" where
  "imx943_links =
     [(imx943_m70, M70_M33S_COM_ID, imx943_m33s, M33S_M70_COM_ID), (imx943_m33s, M33S_M70_COM_ID, imx943_m70, M70_M33S_COM_ID),
      (imx943_m71, M71_M33S_COM_ID, imx943_m33s, M33S_M71_COM_ID), (imx943_m33s, M33S_M71_COM_ID, imx943_m71, M71_M33S_COM_ID),
      (imx943_m70, M70_M71_COM_ID, imx943_m71, M71_M70_COM_ID), (imx943_m71, M71_M70_COM_ID, imx943_m70, M70_M71_COM_ID)]"

lemma imx943_linked:
  assumes "(PS, cs, PR, cr) \<in> set imx943_links"
  obtains u w where "mu_linked imx943_side imx943_handler PS PR cs cr u w u w" "mu_nesting PR" "count_first PR"
proof -
  have "\<exists>u w. mu_linked imx943_side imx943_handler PS PR cs cr u w u w \<and> mu_nesting PR \<and> count_first PR"
    using assms m70_m33s.mu_linked_axioms m33s_m70.mu_linked_axioms m71_m33s.mu_linked_axioms m33s_m71.mu_linked_axioms
      m70_m71.mu_linked_axioms m71_m70.mu_linked_axioms
      imx943_m70.mu_nesting_axioms imx943_m71.mu_nesting_axioms imx943_m33s.mu_nesting_axioms imx9_count(5-7)
    unfolding imx943_links_def by (auto)
  then show thesis using that by blast
qed



text \<open>
  The two Cortex-M4 cores of the i.MX 8QM; here the line can be off, and what comes meanwhile waits.
\<close>

fun imx8qm_side :: "lsio_mu \<Rightarrow> lsio_mu option" where
  "imx8qm_side LSIO_MU7_A = Some LSIO_MU7_B"
| "imx8qm_side LSIO_MU7_B = Some LSIO_MU7_A"
| "imx8qm_side u = None"

fun imx8qm_handler :: "lsio_mu \<Rightarrow> mu_handler" where
  "imx8qm_handler LSIO_MU5_B = imx8qm_LSIO_MU5_INT_B_IRQHandler"
| "imx8qm_handler LSIO_MU6_B = imx8qm_LSIO_MU6_INT_B_IRQHandler"
| "imx8qm_handler LSIO_MU7_A = imx8qm_LSIO_MU7_INT_A_IRQHandler"
| "imx8qm_handler LSIO_MU7_B = imx8qm_LSIO_MU7_INT_B_IRQHandler"

interpretation cm4_0_1: mu_linked imx8qm_side imx8qm_handler "imx8qm CM4_CORE0" "imx8qm CM4_CORE1"
    IMX8QM_M4_M4_COM_ID IMX8QM_M4_M4_COM_ID LSIO_MU7_A LSIO_MU7_B IRQSTEER_3_IRQn IRQSTEER_3_IRQn
  by unfold_locales (auto simp: imx8qm_def imx8qm_a_mu_def imx8qm_m4_mu_def multi_mu_port_def imx8qm_LSIO_MU7_INT_B_IRQHandler_def split: if_splits)

interpretation cm4_1_0: mu_linked imx8qm_side imx8qm_handler "imx8qm CM4_CORE1" "imx8qm CM4_CORE0"
    IMX8QM_M4_M4_COM_ID IMX8QM_M4_M4_COM_ID LSIO_MU7_B LSIO_MU7_A IRQSTEER_3_IRQn IRQSTEER_3_IRQn
  by unfold_locales (auto simp: imx8qm_def imx8qm_a_mu_def imx8qm_m4_mu_def multi_mu_port_def imx8qm_LSIO_MU7_INT_A_IRQHandler_def split: if_splits)

lemmas imx8qm_in_order = cm4_0_1.in_order cm4_1_0.in_order

end
