(* ===== verification/Event_Flags.thy ===== *)
theory Event_Flags
  imports Prelude
begin

text \<open>
  Notifications through event flags: the sender sets one of two bits of a register, the interrupt handler of
  the other core reads the register, and for each bit it found clears it and calls \<open>env_isr\<close>. A bit that is set
  twice before the handler clears it is one event, so calls of \<open>env_isr\<close> are fewer than notifications; what counts is
  that a call starts after every notification. The mailbox ports and the ports that use the
  general interrupts of a messaging unit have this handler.
\<close>

section \<open>The handler\<close>

text \<open>The handler on the value it read from the register: \<open>clear\<close> clears bits, \<open>isr\<close> is \<open>env_isr\<close>.\<close>

definition flags_isr ::
  "(u32 \<Rightarrow> 'h \<Rightarrow> 'h) \<Rightarrow> u32 \<Rightarrow> u32 \<Rightarrow> (u32 \<Rightarrow> 'h \<times> 's \<Rightarrow> ('h \<times> 's) option) \<Rightarrow> u32 \<Rightarrow> 'h \<times> 's \<Rightarrow> ('h \<times> 's) option" where
  "flags_isr clear g0 g1 isr flags s =
     do { s \<leftarrow> (if g0 AND flags \<noteq> 0 then isr 0 (clear g0 (fst s), snd s) else Some s);
          (if g1 AND flags \<noteq> 0 then isr 1 (clear g1 (fst s), snd s) else Some s) }"

text \<open>The register, given by the operations of the SDK on it.\<close>

record 'h flag_reg =
  flags_get :: "'h \<Rightarrow> u32"
  flags_set :: "u32 \<Rightarrow> 'h \<Rightarrow> 'h"
  flags_clear :: "u32 \<Rightarrow> 'h \<Rightarrow> 'h"

definition flag_reg_ok :: "'h flag_reg \<Rightarrow> bool" where
  "flag_reg_ok H \<longleftrightarrow> (\<forall>m h. flags_get H (flags_set H m h) = flags_get H h OR m)
     \<and> (\<forall>m h. flags_get H (flags_clear H m h) = flags_get H h AND NOT m)"

section \<open>Its accesses, one by one\<close>

text \<open>
  Between any two of its accesses the other core can set bits. \<open>Test0\<close> and the others hold the value read; \<open>Call0\<close>
  is the moment between clearing the bit and \<open>env_isr\<close>.
\<close>

datatype isr_pc = Isr_Idle | Test0 u32 | Call0 u32 | Test1 u32 | Call1

datatype flag_event = Notified bool | Isr_called bool

abbreviation queue_mask :: "u32 \<Rightarrow> u32 \<Rightarrow> bool \<Rightarrow> u32" where
  "queue_mask g0 g1 q \<equiv> if q then g1 else g0"

fun isr_step :: "'h flag_reg \<Rightarrow> u32 \<Rightarrow> u32 \<Rightarrow> isr_pc \<times> 'h \<times> flag_event list \<Rightarrow> isr_pc \<times> 'h \<times> flag_event list" where
  "isr_step H g0 g1 (Isr_Idle, h, evs) = (Test0 (flags_get H h), h, evs)"
| "isr_step H g0 g1 (Test0 v, h, evs) = (if g0 AND v \<noteq> 0 then (Call0 v, flags_clear H g0 h, evs) else (Test1 v, h, evs))"
| "isr_step H g0 g1 (Call0 v, h, evs) = (Test1 v, h, evs @ [Isr_called False])"
| "isr_step H g0 g1 (Test1 v, h, evs) = (if g1 AND v \<noteq> 0 then (Call1, flags_clear H g1 h, evs) else (Isr_Idle, h, evs))"
| "isr_step H g0 g1 (Call1, h, evs) = (Isr_Idle, h, evs @ [Isr_called True])"

inductive flag_step ::
  "'h flag_reg \<Rightarrow> u32 \<Rightarrow> u32 \<Rightarrow> isr_pc \<times> 'h \<times> flag_event list \<Rightarrow> isr_pc \<times> 'h \<times> flag_event list \<Rightarrow> bool"
  for H g0 g1 where
  flag_notify: "flag_step H g0 g1 (pc, h, evs) (pc, flags_set H (queue_mask g0 g1 q) h, evs @ [Notified q])"
| flag_isr: "flag_step H g0 g1 s (isr_step H g0 g1 s)"

text \<open>Without the other core the steps are the handler.\<close>

lemma flags_isr_steps:
  "\<exists>k\<le>5. flags_isr (flags_clear H) g0 g1 (\<lambda>q (h, evs). Some (h, evs @ [Isr_called (q = 1)])) (flags_get H h) (h, evs)
    = Some (snd ((isr_step H g0 g1 ^^ k) (Isr_Idle, h, evs)))
  \<and> fst ((isr_step H g0 g1 ^^ k) (Isr_Idle, h, evs)) = Isr_Idle"
proof -
  let ?k = "3 + (if g0 AND flags_get H h \<noteq> 0 then 1 else 0) + (if g1 AND flags_get H h \<noteq> 0 then 1 else (0 :: nat))"
  show ?thesis by (intro exI [of _ ?k]) (simp add: flags_isr_def eval_nat_numeral)
qed

section \<open>No notification is lost\<close>

text \<open>\<open>owed q\<close>: there was a notification of the queue since \<open>env_isr\<close> was last called for it.\<close>

fun owed :: "bool \<Rightarrow> flag_event list \<Rightarrow> bool \<Rightarrow> bool" where
  "owed q [] b = b"
| "owed q (Notified p # evs) b = owed q evs (p = q \<or> b)"
| "owed q (Isr_called p # evs) b = owed q evs (p \<noteq> q \<and> b)"

lemma owed_append [simp]: "owed q (evs @ evs') b = owed q evs' (owed q evs b)"
  by (induction q evs b rule: owed.induct) auto

lemma Cons_last_notified:
  "(\<exists>as bs. e # evs = as @ Notified q # bs \<and> Isr_called q \<notin> set bs)
   \<longleftrightarrow> e = Notified q \<and> Isr_called q \<notin> set evs \<or> (\<exists>as bs. evs = as @ Notified q # bs \<and> Isr_called q \<notin> set bs)"
  by (auto simp: Cons_eq_append_conv)

lemma owed_iff:
  "owed q evs b \<longleftrightarrow> b \<and> Isr_called q \<notin> set evs \<or> (\<exists>as bs. evs = as @ Notified q # bs \<and> Isr_called q \<notin> set bs)"
proof (induction q evs b rule: owed.induct)
  case (2 q p evs b)
  then show ?case unfolding Cons_last_notified by auto
next
  case (3 q p evs b)
  then show ?case unfolding Cons_last_notified by auto
qed simp

definition calls_of :: "bool \<Rightarrow> flag_event list \<Rightarrow> nat" where
  "calls_of q evs = length (filter ((=) (Isr_called q)) evs)"

definition notified_of :: "bool \<Rightarrow> flag_event list \<Rightarrow> nat" where
  "notified_of q evs = length (filter ((=) (Notified q)) evs)"

fun calling :: "bool \<Rightarrow> isr_pc \<Rightarrow> bool" where
  "calling q (Call0 v) = (\<not> q)"
| "calling q Call1 = q"
| "calling q pc = False"

text \<open>What the handler read and has not yet cleared is still set: only the handler clears.\<close>

fun seen :: "bool \<Rightarrow> u32 \<Rightarrow> isr_pc \<Rightarrow> bool" where
  "seen q m (Test0 v) = (m AND v \<noteq> 0)"
| "seen q m (Call0 v) = (q \<and> m AND v \<noteq> 0)"
| "seen q m (Test1 v) = (q \<and> m AND v \<noteq> 0)"
| "seen q m pc = False"

definition flag_inv :: "'h flag_reg \<Rightarrow> u32 \<Rightarrow> bool \<Rightarrow> isr_pc \<times> 'h \<times> flag_event list \<Rightarrow> bool" where
  "flag_inv H m q s = (case s of (pc, h, evs) \<Rightarrow>
     (owed q evs False \<longrightarrow> m AND flags_get H h \<noteq> 0 \<or> calling q pc)
     \<and> calls_of q evs + (if m AND flags_get H h \<noteq> 0 then 1 else 0) + (if calling q pc then 1 else 0) \<le> notified_of q evs
     \<and> (seen q m pc \<longrightarrow> m AND flags_get H h \<noteq> 0))"

lemma clear_other: "m AND g = 0 \<Longrightarrow> m AND (x AND NOT g) = m AND (x :: u32)"
proof -
  assume m: "m AND g = 0"
  have "\<not> (bit m n \<and> bit g n)" for n using m by (metis bit_and_iff bit_0_eq bot_fun_def bot_bool_def)
  then show ?thesis by (intro bit_word_eqI) (auto simp: bit_and_iff bit_not_iff)
qed

lemma clear_self: "m AND (x AND NOT m) = (0 :: u32)"
  by (rule bit_word_eqI) (simp add: bit_and_iff bit_not_iff)

lemma set_mask: "m AND (x OR m) = (m :: u32)"
  by (rule bit_word_eqI) (auto simp: bit_and_iff bit_or_iff)

lemma set_other: "m AND g = 0 \<Longrightarrow> m AND (x OR g) = m AND (x :: u32)"
  by (simp add: bit.conj_disj_distrib)

lemma events_count [simp]:
  "calls_of q (evs @ [Isr_called p]) = calls_of q evs + (if p = q then 1 else 0)"
  "calls_of q (evs @ [Notified p]) = calls_of q evs"
  "notified_of q (evs @ [Isr_called p]) = notified_of q evs"
  "notified_of q (evs @ [Notified p]) = notified_of q evs + (if p = q then 1 else 0)"
  by (auto simp: calls_of_def notified_of_def)

definition masks_ok :: "u32 \<Rightarrow> u32 \<Rightarrow> bool" where
  "masks_ok g0 g1 \<longleftrightarrow> g0 \<noteq> 0 \<and> g1 \<noteq> 0 \<and> g0 AND g1 = 0"

lemma flag_simps:
  assumes "flag_reg_ok H" "masks_ok g0 g1"
  shows "flags_get H (flags_set H m h) = flags_get H h OR m" "flags_get H (flags_clear H m h) = flags_get H h AND NOT m"
    and "g0 \<noteq> 0" "g1 \<noteq> 0" "g0 AND (x AND NOT g1) = g0 AND x" "g1 AND (x AND NOT g0) = g1 AND x"
    and "g0 AND (x OR g1) = g0 AND x" "g1 AND (x OR g0) = g1 AND x"
  using assms clear_other [of g0 g1 x] clear_other [of g1 g0 x] set_other [of g0 g1 x] set_other [of g1 g0 x] and.commute [of g0 g1]
  by (simp_all add: flag_reg_ok_def masks_ok_def)

lemma isr_step_inv:
  assumes "flag_reg_ok H" "masks_ok g0 g1"
  shows "flag_inv H (queue_mask g0 g1 q) q s \<Longrightarrow> flag_inv H (queue_mask g0 g1 q) q (isr_step H g0 g1 s)"
  by (cases "(H, g0, g1, s)" rule: isr_step.cases)
    (auto simp: flag_inv_def flag_simps [OF assms] clear_self split: if_splits)

lemma flag_step_inv:
  assumes "flag_reg_ok H" "masks_ok g0 g1" "flag_step H g0 g1 s s'" "flag_inv H (queue_mask g0 g1 q) q s"
  shows "flag_inv H (queue_mask g0 g1 q) q s'"
  using assms(3,4)
proof (induction rule: flag_step.induct)
  case (flag_notify pc h evs p)
  then show ?case by (auto simp: flag_inv_def flag_simps [OF assms(1,2)] set_mask)
qed (rule isr_step_inv [OF assms(1,2)])

lemma flag_steps_inv:
  assumes "flag_reg_ok H" "masks_ok g0 g1" "(flag_step H g0 g1)\<^sup>*\<^sup>* (Isr_Idle, h, []) s" "flags_get H h = 0"
  shows "flag_inv H (queue_mask g0 g1 q) q s"
  using assms(3)
proof (induction rule: rtranclp_induct)
  case (step s s')
  then show ?case by (metis flag_step_inv [OF assms(1,2)])
qed (simp add: flag_inv_def calls_of_def assms(4))

text \<open>A run of the handler from its start answers for every set bit; a handler that runs comes to its end.\<close>

lemma isr_finishes: "\<exists>k\<le>4. fst ((isr_step H g0 g1 ^^ k) s) = Isr_Idle"
proof -
  obtain pc h evs where s: "s = (pc, h, evs)" by (cases s)
  show ?thesis
  proof (cases pc)
    case (Test0 v)
    let ?k = "2 + (if g0 AND v \<noteq> 0 then 1 else 0) + (if g1 AND v \<noteq> 0 then 1 else (0 :: nat))"
    show ?thesis by (intro exI [of _ ?k]) (simp add: s Test0 eval_nat_numeral)
  next
    case (Call0 v)
    let ?k = "2 + (if g1 AND v \<noteq> 0 then 1 else (0 :: nat))"
    show ?thesis by (intro exI [of _ ?k]) (simp add: s Call0 eval_nat_numeral)
  next
    case (Test1 v)
    let ?k = "1 + (if g1 AND v \<noteq> 0 then 1 else (0 :: nat))"
    show ?thesis by (intro exI [of _ ?k]) (simp add: s Test1 eval_nat_numeral)
  qed (auto simp: s intro: exI [of _ 0] exI [of _ 1])
qed

lemma isr_drains:
  assumes "flag_reg_ok H" "masks_ok g0 g1"
  shows "\<exists>k\<le>5. \<exists>h' evs'. (isr_step H g0 g1 ^^ k) (Isr_Idle, h, evs) = (Isr_Idle, h', evs')
    \<and> g0 AND flags_get H h' = 0 \<and> g1 AND flags_get H h' = 0"
proof -
  let ?k = "3 + (if g0 AND flags_get H h \<noteq> 0 then 1 else 0) + (if g1 AND flags_get H h \<noteq> 0 then 1 else (0 :: nat))"
  show ?thesis
    by (intro exI [of _ ?k]) (auto simp: eval_nat_numeral flag_simps [OF assms] clear_self)
qed

text \<open>
  No notification is lost: whenever a queue has been notified since \<open>env_isr\<close> was last called for it, its bit is set,
  so that the interrupt is pending, or the handler is just about to call. There are never more calls than
  notifications. And if the handler keeps running, at most nine of its steps later every notification has
  been followed by a call.
\<close>

lemma flags_not_lost:
  assumes "flag_reg_ok H" and "masks_ok g0 g1" and "flags_get H h0 = 0"
    and "(flag_step H g0 g1)\<^sup>*\<^sup>* (Isr_Idle, h0, []) (pc, h, evs)"
  shows "evs = as @ Notified q # bs \<Longrightarrow> Isr_called q \<notin> set bs \<Longrightarrow> queue_mask g0 g1 q AND flags_get H h \<noteq> 0 \<or> calling q pc"
    and "calls_of q evs \<le> notified_of q evs"
    and "\<exists>k\<le>9. case (isr_step H g0 g1 ^^ k) (pc, h, evs) of (pc', h', evs') \<Rightarrow>
      pc' = Isr_Idle \<and> (\<forall>q as bs. evs' = as @ Notified q # bs \<longrightarrow> Isr_called q \<in> set bs)"
proof -
  have i: "flag_inv H (queue_mask g0 g1 q) q (pc, h, evs)" for q using flag_steps_inv [OF assms(1,2,4,3)] .
  show "calls_of q evs \<le> notified_of q evs" using i [of q] by (simp add: flag_inv_def)
  show "queue_mask g0 g1 q AND flags_get H h \<noteq> 0 \<or> calling q pc" if "evs = as @ Notified q # bs" "Isr_called q \<notin> set bs"
  proof -
    have "owed q evs False" unfolding owed_iff using that by blast
    then show ?thesis using i [of q] by (simp add: flag_inv_def)
  qed
  have run: "flag_inv H (queue_mask g0 g1 q) q ((isr_step H g0 g1 ^^ n) (pc, h, evs))" for q n
    by (induction n) (simp_all add: i isr_step_inv [OF assms(1,2)])
  obtain k where k: "k \<le> 4" "fst ((isr_step H g0 g1 ^^ k) (pc, h, evs)) = Isr_Idle" using isr_finishes by blast
  then obtain h1 evs1 where h1: "(isr_step H g0 g1 ^^ k) (pc, h, evs) = (Isr_Idle, h1, evs1)" by (metis prod.collapse)
  obtain l h2 evs2 where l: "l \<le> 5" "(isr_step H g0 g1 ^^ l) (Isr_Idle, h1, evs1) = (Isr_Idle, h2, evs2)"
    "g0 AND flags_get H h2 = 0" "g1 AND flags_get H h2 = 0"
    using isr_drains [OF assms(1,2)] by blast
  have e: "(isr_step H g0 g1 ^^ (l + k)) (pc, h, evs) = (Isr_Idle, h2, evs2)" by (simp add: funpow_add h1 l(2))
  have "\<not> owed q evs2 False" for q using run [of q "l + k"] l(3,4) by (cases q) (auto simp: e flag_inv_def)
  then have "\<forall>q as bs. evs2 = as @ Notified q # bs \<longrightarrow> Isr_called q \<in> set bs" unfolding owed_iff by blast
  then show "\<exists>k\<le>9. case (isr_step H g0 g1 ^^ k) (pc, h, evs) of (pc', h', evs') \<Rightarrow>
      pc' = Isr_Idle \<and> (\<forall>q as bs. evs' = as @ Notified q # bs \<longrightarrow> Isr_called q \<in> set bs)"
    using e k(1) l(1) by (intro exI [of _ "l + k"]) simp
qed

end
