(* ===== verification/Shmem_Crc.thy ===== *)
theory Shmem_Crc
  imports Rpmsg_Lite
begin

text \<open>
  The shared memory configuration that one core stores for the other, protected by an identifier and a checksum: the
  same code in the ports for KW45B41, KW47B42, KW43B43, K32W1, MCXW70, MCXW71x and MCXW72x
  (\<^verbatim>\<open>rpmsg_platform.c\<close> in the directories of these names under \<^verbatim>\<open>lib/rpmsg_lite/porting/platform\<close>), with
  \<open>RL_ALLOW_CUSTOM_SHMEM_CONFIG = 1\<close>.
\<close>

section \<open>Checksum\<close>

abbreviation (input) POLGEN :: u16 where "POLGEN \<equiv> 0x1021"

definition crc_bit :: "u16 \<Rightarrow> u16" where
  "crc_bit computedCRC = (if computedCRC AND 0x8000 \<noteq> 0 then push_bit 1 computedCRC XOR POLGEN else push_bit 1 computedCRC)"

fun crc_bits :: "nat \<Rightarrow> u16 \<Rightarrow> u16" where
  "crc_bits 0 computedCRC = computedCRC"
| "crc_bits (Suc crcA) computedCRC = crc_bits crcA (crc_bit computedCRC)"

fun crc_loop :: "u8 list \<Rightarrow> u16 \<Rightarrow> u16" where
  "crc_loop [] computedCRC = computedCRC"
| "crc_loop (byte # bs) computedCRC = crc_loop bs (crc_bits 8 (computedCRC XOR push_bit 8 (ucast byte)))"

section \<open>Storing and reading the configuration\<close>

text \<open>
  The structure \<open>rpmsg_platform_shmem_config_protected_t\<close> takes 32 bytes: the identifier (12), the configuration (16, with
  two bytes of padding after \<open>buffer_count\<close>), the checksum (2) and padding (2). The checksum is computed over
  the bytes from the configuration up to the checksum.
\<close>

definition ShmemConfigIdentifier :: "u8 list" where
  "ShmemConfigIdentifier = [83, 77, 69, 77, 95, 67, 79, 78, 70, 73, 71, 58]"

definition config_bytes :: "u8 list \<Rightarrow> shmem_config \<Rightarrow> u8 list" where
  "config_bytes pad config = u32_bytes (buffer_payload_size config) @ u16_bytes (buffer_count config) @ pad
     @ u32_bytes (cfg_vring_size config) @ u32_bytes (cfg_vring_align config)"

definition platform_compute_crc_over_shmem_struct :: "u8 list \<Rightarrow> u16" where
  "platform_compute_crc_over_shmem_struct protec_shmem_struct = crc_loop (take 16 (drop 12 protec_shmem_struct)) 0"

text \<open>
  \<open>sh\<close> is \<open>rpmsg_sh_mem_start\<close>, \<open>config\<close> the values of the four macros, \<open>pad1\<close> and \<open>pad2\<close> what the padding of the
  local variable happens to contain. The bytes of the checksum do not enter the checksum.
\<close>

definition platform_set_static_shmem_config ::
  "ptr \<Rightarrow> shmem_config \<Rightarrow> u8 list \<Rightarrow> u8 list \<Rightarrow> memory \<Rightarrow> memory" where
  "platform_set_static_shmem_config sh config pad1 pad2 m =
     (let crc = platform_compute_crc_over_shmem_struct (ShmemConfigIdentifier @ config_bytes pad1 config)
      in mem_write m sh (ShmemConfigIdentifier @ config_bytes pad1 config @ u16_bytes crc @ pad2))"

text \<open>The two static variables: \<open>first_time\<close> and \<open>shmem_config\<close>.\<close>

record shmem_cache =
  first_time :: bool
  cached_config :: shmem_config

definition default_shmem_config :: shmem_config where
  "default_shmem_config = \<lparr>buffer_payload_size = 496, buffer_count = 4, cfg_vring_size = 0x80, cfg_vring_align = 0x10\<rparr>"

definition platform_get_custom_shmem_config ::
  "ptr \<Rightarrow> u32 \<Rightarrow> memory \<Rightarrow> shmem_cache \<Rightarrow> int \<times> shmem_config \<times> shmem_cache" where
  "platform_get_custom_shmem_config sh lnk m s =
     (let s = (if \<not> first_time s then s
       else let p = mem_read m sh 32; s = \<lparr>first_time = False, cached_config = default_shmem_config\<rparr>
         in if take 12 p \<noteq> ShmemConfigIdentifier then s
            else if platform_compute_crc_over_shmem_struct p \<noteq> load_u16 m (sh + 28) then s
            else s\<lparr>cached_config := \<lparr>buffer_payload_size = load_u32 m (sh + 12), buffer_count = load_u16 m (sh + 16),
                   cfg_vring_size = load_u32 m (sh + 20), cfg_vring_align = load_u32 m (sh + 24)\<rparr>\<rparr>)
      in (0, cached_config s, s))"

section \<open>What the checksum detects\<close>

text \<open>Every step of the checksum can be inverted, so a change of one byte changes the checksum.\<close>

lemma xor_cancel: "c XOR x = d XOR x \<longleftrightarrow> c = (d :: u16)" "x XOR c = x XOR d \<longleftrightarrow> c = d"
  by (metis xor.assoc xor_self_eq xor.right_neutral, metis xor.assoc xor_self_eq xor.left_neutral)

lemma crc_bit_inj: "crc_bit c = crc_bit d \<Longrightarrow> c = d"
proof -
  assume e: "crc_bit c = crc_bit d"
  have b: "(x AND 0x8000 \<noteq> 0) = bit x 15" for x :: u16
    using and_exp_eq_0_iff_not_bit [of x 15] by simp
  have "bit (crc_bit x) 0 = bit x 15" for x
    by (simp add: crc_bit_def b bit_xor_iff bit_push_bit_iff del: push_bit_Suc)
  then have m: "bit c 15 = bit d 15" using e by metis
  then have "push_bit 1 c = push_bit 1 d" using e by (auto simp: crc_bit_def b xor_cancel split: if_splits)
  then have "bit c n = bit d n" if "n < 15" for n
    using that arg_cong [of "push_bit 1 c" "push_bit 1 d" "\<lambda>x. bit x (Suc n)", unfolded bit_push_bit_iff]
    by simp
  moreover have "n < 15 \<or> n = 15" if "n < LENGTH(16)" for n using that by auto
  ultimately show ?thesis using m by (intro bit_word_eqI) blast
qed

lemma crc_bits_inj: "crc_bits n c = crc_bits n d \<Longrightarrow> c = d"
  by (induction n arbitrary: c d) (auto dest: crc_bit_inj)

lemma crc_byte_inj: "push_bit 8 (ucast (a :: u8)) = (push_bit 8 (ucast b) :: u16) \<Longrightarrow> a = b"
proof -
  assume e: "push_bit 8 (ucast a) = (push_bit 8 (ucast b) :: u16)"
  have "bit a n = bit b n" if "n < 8" for n
    using that arg_cong [OF e, of "\<lambda>x. bit x (n + 8)"] by (simp add: bit_push_bit_iff bit_ucast_iff)
  then show ?thesis by (intro bit_word_eqI) simp
qed

lemma crc_loop_inj: "crc_loop bs c = crc_loop bs d \<Longrightarrow> c = d"
proof (induction bs arbitrary: c d)
  case (Cons b bs)
  then show ?case by (auto dest!: Cons.IH crc_bits_inj simp: xor_cancel)
qed simp

lemma crc_loop_change: "i < length bs \<Longrightarrow> x \<noteq> bs ! i \<Longrightarrow> crc_loop (bs[i := x]) c \<noteq> crc_loop bs c"
proof (induction bs arbitrary: c i)
  case (Cons b bs)
  then show ?case by (cases i) (auto dest!: crc_loop_inj crc_bits_inj crc_byte_inj simp: xor_cancel)
qed simp

section \<open>What the reader gets\<close>

lemma mem_read_write_part:
  assumes "length bs \<le> 2 ^ 31" "k + n \<le> length bs"
  shows "mem_read (mem_write m a bs) (a + of_nat k) n = take n (drop k bs)"
proof (rule nth_equalityI)
  fix i assume "i < length (mem_read (mem_write m a bs) (a + of_nat k) n)"
  then have i: "i < n" by simp
  then have "unat (of_nat k + of_nat i :: u32) = k + i" using assms by (simp add: unat_of_nat flip: of_nat_add)
  then show "mem_read (mem_write m a bs) (a + of_nat k) n ! i = take n (drop k bs) ! i"
    using i assms by (simp add: mem_write_apply)
qed (use assms in simp)

lemma config_bytes_length [simp]: "length pad = 2 \<Longrightarrow> length (config_bytes pad config) = 16"
  by (simp add: config_bytes_def)

lemma identifier_length [simp]: "length ShmemConfigIdentifier = 12"
  by (simp add: ShmemConfigIdentifier_def)

text \<open>The stored structure, as its reader finds it.\<close>

definition stored_config :: "shmem_config \<Rightarrow> u8 list \<Rightarrow> u8 list \<Rightarrow> u8 list" where
  "stored_config config pad1 pad2 = ShmemConfigIdentifier @ config_bytes pad1 config
     @ u16_bytes (crc_loop (config_bytes pad1 config) 0) @ pad2"

lemma set_stored:
  "length pad1 = 2 \<Longrightarrow> platform_set_static_shmem_config sh config pad1 pad2 m = mem_write m sh (stored_config config pad1 pad2)"
  by (simp add: platform_set_static_shmem_config_def stored_config_def platform_compute_crc_over_shmem_struct_def Let_def)

lemma stored_read:
  assumes "length pad1 = 2" "length pad2 = 2"
  shows "mem_read (mem_write m sh (stored_config config pad1 pad2)) sh 32 = stored_config config pad1 pad2"
    and "load_u32 (mem_write m sh (stored_config config pad1 pad2)) (sh + 12) = buffer_payload_size config"
    and "load_u16 (mem_write m sh (stored_config config pad1 pad2)) (sh + 16) = buffer_count config"
    and "load_u32 (mem_write m sh (stored_config config pad1 pad2)) (sh + 20) = cfg_vring_size config"
    and "load_u32 (mem_write m sh (stored_config config pad1 pad2)) (sh + 24) = cfg_vring_align config"
    and "load_u16 (mem_write m sh (stored_config config pad1 pad2)) (sh + 28) = crc_loop (config_bytes pad1 config) 0"
proof -
  let ?s = "stored_config config pad1 pad2"
  have l: "length ?s = 32" using assms by (simp add: stored_config_def)
  note r = mem_read_write_part [of ?s _ _ m sh]
  show "mem_read (mem_write m sh ?s) sh 32 = ?s" using r [of 0 32] l by simp
  show "load_u32 (mem_write m sh ?s) (sh + 12) = buffer_payload_size config"
    using r [of 12 4] l by (intro load_u32_bytes) (simp add: stored_config_def config_bytes_def)
  show "load_u16 (mem_write m sh ?s) (sh + 16) = buffer_count config"
    using r [of 16 2] l by (intro load_u16_bytes) (simp add: stored_config_def config_bytes_def)
  show "load_u32 (mem_write m sh ?s) (sh + 20) = cfg_vring_size config"
    using r [of 20 4] l assms by (intro load_u32_bytes) (simp add: stored_config_def config_bytes_def)
  show "load_u32 (mem_write m sh ?s) (sh + 24) = cfg_vring_align config"
    using r [of 24 4] l assms by (intro load_u32_bytes) (simp add: stored_config_def config_bytes_def)
  show "load_u16 (mem_write m sh ?s) (sh + 28) = crc_loop (config_bytes pad1 config) 0"
    using r [of 28 2] l assms by (intro load_u16_bytes) (simp add: stored_config_def)
qed

text \<open>
  C34: the configuration that one core stores is what the other reads, whatever the padding holds; later calls
  return the same without reading the memory again.
\<close>

theorem shmem_config_roundtrip:
  assumes "length pad1 = 2" and "length pad2 = 2" and "first_time s"
  shows "platform_get_custom_shmem_config sh link1 (platform_set_static_shmem_config sh config pad1 pad2 m) s
      = (0, config, \<lparr>first_time = False, cached_config = config\<rparr>)
    \<and> platform_get_custom_shmem_config sh link2 m' \<lparr>first_time = False, cached_config = config\<rparr>
      = (0, config, \<lparr>first_time = False, cached_config = config\<rparr>)"
  using assms stored_read [OF assms(1,2), of m sh config]
  by (simp add: platform_get_custom_shmem_config_def set_stored platform_compute_crc_over_shmem_struct_def Let_def)
    (simp add: stored_config_def)

theorem shmem_config_roundtrip_witness:
  "fst (snd (platform_get_custom_shmem_config 0x1000 0 (platform_set_static_shmem_config 0x1000
     \<lparr>buffer_payload_size = 112, buffer_count = 8, cfg_vring_size = 0x100, cfg_vring_align = 0x10\<rparr> [7, 9] [1, 2] (\<lambda>a. 0))
     \<lparr>first_time = True, cached_config = default_shmem_config\<rparr>))
   = \<lparr>buffer_payload_size = 112, buffer_count = 8, cfg_vring_size = 0x100, cfg_vring_align = 0x10\<rparr>"
  using shmem_config_roundtrip [of "[7, 9]" "[1, 2]" "\<lparr>first_time = True, cached_config = default_shmem_config\<rparr>"] by simp

lemma mem_read_update:
  assumes "i < n" "n \<le> 2 ^ 31"
  shows "mem_read (m(a + of_nat i := x)) a n = (mem_read m a n)[i := x]"
proof (rule nth_equalityI)
  fix j assume "j < length (mem_read (m(a + of_nat i := x)) a n)"
  then have j: "j < n" by simp
  have "(of_nat j :: u32) = of_nat i \<longleftrightarrow> j = i"
    proof -
    have "unat (of_nat k :: u32) = k" if "k < n" for k using that assms by (simp add: unat_of_nat)
    then show ?thesis using j assms(1) by metis
  qed
  then show "mem_read (m(a + of_nat i := x)) a n ! j = (mem_read m a n)[i := x] ! j"
    using j by (simp add: nth_list_update)
qed simp

lemma load_u16_inj: "ucast a OR push_bit 8 (ucast b) = (ucast c OR push_bit 8 (ucast d) :: u16) \<Longrightarrow> a = (c :: u8) \<and> b = (d :: u8)"
proof -
  assume e: "ucast a OR push_bit 8 (ucast b) = (ucast c OR push_bit 8 (ucast d) :: u16)"
  have "bit a n = bit c n" "bit b n = bit d n" if "n < 8" for n
    using that arg_cong [OF e, of "\<lambda>x. bit x n"] arg_cong [OF e, of "\<lambda>x. bit x (n + 8)"] bit_imp_le_length [of a "n + 8"]
      bit_imp_le_length [of c "n + 8"]
    by (auto simp: bit_or_iff bit_push_bit_iff bit_ucast_iff)
  then show ?thesis by (auto intro: bit_word_eqI)
qed

lemma load_u16_of_read: "30 \<le> n \<Longrightarrow> load_u16 m (a + 28) = ucast (mem_read m a n ! 28) OR push_bit 8 (ucast (mem_read m a n ! 29))"
  by (simp add: load_u16_def add.assoc)

text \<open>Reading succeeds only for bytes with the identifier and the checksum of the rest.\<close>

lemma get_fails:
  assumes "first_time s" and "take 12 (mem_read m sh 32) \<noteq> ShmemConfigIdentifier
    \<or> crc_loop (take 16 (drop 12 (mem_read m sh 32))) 0 \<noteq> load_u16 m (sh + 28)"
  shows "fst (snd (platform_get_custom_shmem_config sh lnk m s)) = default_shmem_config"
  using assms by (auto simp: platform_get_custom_shmem_config_def platform_compute_crc_over_shmem_struct_def Let_def)

text \<open>
  C35: a stored configuration in which any one byte was changed is not used: the reader takes the default
  configuration, whose number of buffers is a power of two and whose vring area holds a vring.
\<close>

theorem shmem_config_corrupted:
  assumes "length pad1 = 2" and "length pad2 = 2" and "first_time s" and "i < 30"
    and "m' = platform_set_static_shmem_config sh config pad1 pad2 m" and "x \<noteq> m' (sh + of_nat i)"
  shows "fst (snd (platform_get_custom_shmem_config sh lnk (m'(sh + of_nat i := x)) s)) = default_shmem_config
    \<and> is_pow2 (buffer_count default_shmem_config)
    \<and> vring_size (ucast (buffer_count default_shmem_config)) (cfg_vring_align default_shmem_config)
        \<le> uint (cfg_vring_size default_shmem_config)"
proof -
  let ?S = "stored_config config pad1 pad2" and ?a = "sh + of_nat i" and ?c = "config_bytes pad1 config"
  have l: "length ?S = 32" using assms(1,2) by (simp add: stored_config_def)
  have m': "m' = mem_write m sh ?S" using assms(1,5) by (simp add: set_stored)
  have S: "mem_read m' sh 32 = ?S" using stored_read(1) [OF assms(1,2)] by (simp add: m')
  have p: "mem_read (m'(?a := x)) sh 32 = ?S[i := x]" using mem_read_update [of i 32 m' sh x] assms(4) S by simp
  have x: "x \<noteq> ?S ! i" using assms(4,6) nth_mem_read [of i 32 m' sh] S by simp
  have u: "load_u16 (m'(?a := x)) (sh + 28) = ucast (?S[i := x] ! 28) OR push_bit 8 (ucast (?S[i := x] ! 29))"
    using load_u16_of_read [of 32 "m'(?a := x)" sh, unfolded p] by simp
  have v: "crc_loop ?c 0 = ucast (?S ! 28) OR push_bit 8 (ucast (?S ! 29))"
    using load_u16_of_read [of 32 m' sh, unfolded S] stored_read(6) [OF assms(1,2), of m sh config] by (simp add: m')
  have d: "take 16 (drop 12 ?S) = ?c" using assms(1) by (simp add: stored_config_def)
  consider "i < 12" | "12 \<le> i" "i < 28" | "28 \<le> i" by linarith
  then have "take 12 (?S[i := x]) \<noteq> ShmemConfigIdentifier
      \<or> crc_loop (take 16 (drop 12 (?S[i := x]))) 0 \<noteq> load_u16 (m'(?a := x)) (sh + 28)"
  proof cases
    case 1
    have "take 12 (?S[i := x]) ! i = x" "?S ! i = ShmemConfigIdentifier ! i"
      using 1 l by (simp_all add: stored_config_def nth_append)
    then show ?thesis using x by metis
  next
    case 2
    have "take 16 (drop 12 (?S[i := x])) = ?c[i - 12 := x]"
      using 2 d by (simp add: drop_update_swap take_update_swap)
    moreover have "?c ! (i - 12) = ?S ! i" using 2 l by (simp flip: d)
    then have "crc_loop (?c[i - 12 := x]) 0 \<noteq> crc_loop ?c 0"
      using crc_loop_change [of "i - 12" ?c x] x 2 assms(1) by simp
    ultimately show ?thesis using u v 2 by simp
  next
    case 3
    then have "take 16 (drop 12 (?S[i := x])) = ?c" using d by (simp add: drop_update_swap)
    moreover have "i = 28 \<or> i = 29" using 3 assms(4) by linarith
    then have "load_u16 (m'(?a := x)) (sh + 28) \<noteq> crc_loop ?c 0"
      using u v x l by (auto dest!: load_u16_inj)
    ultimately show ?thesis by simp
  qed
  then have "fst (snd (platform_get_custom_shmem_config sh lnk (m'(?a := x)) s)) = default_shmem_config"
    by (intro get_fails assms(3)) (simp add: p)
  then show ?thesis by (simp add: default_shmem_config_def is_pow2_def vring_size_def)
qed

theorem shmem_config_corrupted_witness:
  "fst (snd (platform_get_custom_shmem_config 0x1000 0 ((platform_set_static_shmem_config 0x1000
     \<lparr>buffer_payload_size = 112, buffer_count = 8, cfg_vring_size = 0x100, cfg_vring_align = 0x10\<rparr> [7, 9] [1, 2] (\<lambda>a. 0))(0x100C := 113))
     \<lparr>first_time = True, cached_config = default_shmem_config\<rparr>)) = default_shmem_config"
proof -
  let ?c = "\<lparr>buffer_payload_size = 112, buffer_count = 8, cfg_vring_size = 0x100, cfg_vring_align = 0x10\<rparr>"
  let ?m = "platform_set_static_shmem_config 0x1000 ?c [7, 9] [1, 2] (\<lambda>a. 0)"
  have "?m 0x100C = mem_read ?m 0x1000 32 ! 12" by simp
  also have "\<dots> = 112" using stored_read(1) [of "[7, 9]" "[1, 2]" "\<lambda>a. 0" "0x1000" ?c]
    by (simp add: set_stored stored_config_def nth_append config_bytes_def u32_bytes_def)
  finally show ?thesis
    using shmem_config_corrupted [of "[7, 9]" "[1, 2]" "\<lparr>first_time = True, cached_config = default_shmem_config\<rparr>" 12 ?m "0x1000" ?c
        "\<lambda>a. 0" 113 0]
    by simp
qed

end
