(* ===== verification/Platform_Gi.thy ===== *)
theory Platform_Gi
  imports Platform_Imxrt1170 Event_Flags Shmem_Crc
begin

text \<open>
  The ports that notify with the general interrupts of a messaging unit, like that of the i.MX RT1170: i.MX
  RT1160 and K32L3A6, which are the same code, and i.MX RT1180, MCXL20, KW43B43 and MCXW70, which compute the
  masks with the SDK's macro \<open>MU_GI_INTR\<close> (a parameter here). State and recorded calls are those of
  \<open>Platform_Imxrt1170\<close>; the configuration is \<open>RL_USE_MCMGR_IPC_ISR_HANDLER = 0\<close>.
\<close>

section \<open>Operations\<close>

text \<open>The masks of the interrupt of a vector and of the request for a queue.\<close>

record gi_port =
  gi_vector_mask :: "u32 \<Rightarrow> u32 option"
  gi_queue_mask :: "u32 \<Rightarrow> u32 option"

definition gi_init_interrupt ::
  "gi_port \<Rightarrow> (u32 \<Rightarrow> ptr \<Rightarrow> 'e \<Rightarrow> 'e option) \<Rightarrow> (ptr \<Rightarrow> 'e \<Rightarrow> 'e option) \<Rightarrow> (ptr \<Rightarrow> 'e \<Rightarrow> 'e option)
    \<Rightarrow> u32 \<Rightarrow> ptr \<Rightarrow> plat \<times> 'e \<Rightarrow> (int \<times> plat \<times> 'e) option" where
  "gi_init_interrupt P register_isr lock unlock vector_id isr_data s =
     (let (pl, e) = s
      in if platform_lock pl \<noteq> NULL
         then do {
           e \<leftarrow> register_isr vector_id isr_data e;
           e \<leftarrow> lock (platform_lock pl) e;
           rl_assert (0 \<le> isr_counter pl);
           pl \<leftarrow> (if isr_counter pl < 2
                  then do { m \<leftarrow> gi_vector_mask P vector_id; Some (mu_do (MU_EnableInterrupts m) pl) }
                  else Some pl);
           let pl = pl\<lparr>isr_counter := isr_counter pl + 1\<rparr>;
           e \<leftarrow> unlock (platform_lock pl) e;
           Some (0, pl, e) }
         else Some (-1, pl, e))"

definition gi_deinit_interrupt ::
  "gi_port \<Rightarrow> (u32 \<Rightarrow> 'e \<Rightarrow> 'e option) \<Rightarrow> (ptr \<Rightarrow> 'e \<Rightarrow> 'e option) \<Rightarrow> (ptr \<Rightarrow> 'e \<Rightarrow> 'e option)
    \<Rightarrow> u32 \<Rightarrow> plat \<times> 'e \<Rightarrow> (int \<times> plat \<times> 'e) option" where
  "gi_deinit_interrupt P unregister_isr lock unlock vector_id s =
     (let (pl, e) = s
      in if platform_lock pl \<noteq> NULL
         then do {
           e \<leftarrow> lock (platform_lock pl) e;
           rl_assert (0 < isr_counter pl);
           let pl = pl\<lparr>isr_counter := isr_counter pl - 1\<rparr>;
           pl \<leftarrow> (if isr_counter pl < 2
                  then do { m \<leftarrow> gi_vector_mask P vector_id; Some (mu_do (MU_DisableInterrupts m) pl) }
                  else Some pl);
           e \<leftarrow> unregister_isr vector_id e;
           e \<leftarrow> unlock (platform_lock pl) e;
           Some (0, pl, e) }
         else Some (-1, pl, e))"

definition gi_notify ::
  "gi_port \<Rightarrow> (ptr \<Rightarrow> 'e \<Rightarrow> 'e option) \<Rightarrow> (ptr \<Rightarrow> 'e \<Rightarrow> 'e option) \<Rightarrow> u32 \<Rightarrow> plat \<times> 'e \<Rightarrow> (plat \<times> 'e) option" where
  "gi_notify P lock unlock vector_id s =
     (let (pl, e) = s
      in do {
        e \<leftarrow> lock (platform_lock pl) e;
        m \<leftarrow> gi_queue_mask P vector_id;
        let pl = mu_do (MU_TriggerInterrupts m) pl;
        e \<leftarrow> unlock (platform_lock pl) e;
        Some (pl, e) })"

definition rt1170_gi_port :: gi_port where
  "rt1170_gi_port = \<lparr>gi_vector_mask = (\<lambda>v. shl1 (31 - v)), gi_queue_mask = (\<lambda>v. shl1 (19 - RL_GET_Q_ID v))\<rparr>"

definition mu_gi_port :: "(u32 \<Rightarrow> u32) \<Rightarrow> gi_port" where
  "mu_gi_port MU_GI_INTR =
     \<lparr>gi_vector_mask = (\<lambda>v. map_option MU_GI_INTR (shl1 v)), gi_queue_mask = (\<lambda>v. map_option MU_GI_INTR (shl1 (RL_GET_Q_ID v)))\<rparr>"

section \<open>i.MX RT500 and RT600\<close>

text \<open>
  The Cortex-M33 cores can use the multicore manager (\<open>mcmgr\<close> is \<open>RL_USE_MCMGR_IPC_ISR_HANDLER\<close>, \<open>registered\<close> whether
  \<open>MCMGR_RegisterEvent\<close> succeeds); the DSPs use the interrupt functions of XTOS or XOS and switch the line at every call.
\<close>

definition rt500_mcmgr_handler :: "(u32 \<Rightarrow> 's \<Rightarrow> 's option) \<Rightarrow> u16 \<Rightarrow> 's \<Rightarrow> 's option" where
  "rt500_mcmgr_handler isr vring_idx s = isr (ucast vring_idx) s"

definition rt500_notify ::
  "bool \<Rightarrow> (ptr \<Rightarrow> 'e \<Rightarrow> 'e option) \<Rightarrow> (ptr \<Rightarrow> 'e \<Rightarrow> 'e option) \<Rightarrow> u32 \<Rightarrow> plat \<times> 'e \<Rightarrow> (plat \<times> 'e) option" where
  "rt500_notify mcmgr lock unlock vector_id s =
     (let (pl, e) = s
      in do {
        e \<leftarrow> lock (platform_lock pl) e;
        (pl, e) \<leftarrow> (if mcmgr
            then do { let pl = mu_do (Gi_TriggerEvent (RL_GET_Q_ID vector_id)) pl;
                      e \<leftarrow> unlock (platform_lock pl) e;
                      Some (pl, e) }
            else do { m \<leftarrow> shl1 (19 - RL_GET_Q_ID vector_id); Some (mu_do (MU_TriggerInterrupts m) pl, e) });
        e \<leftarrow> unlock (platform_lock pl) e;
        Some (pl, e) })"

definition rt500_init ::
  "bool \<Rightarrow> bool \<Rightarrow> (ptr \<Rightarrow> int \<Rightarrow> 'e \<Rightarrow> int \<times> ptr \<times> 'e) \<Rightarrow> plat \<times> 'e \<Rightarrow> int \<times> plat \<times> 'e" where
  "rt500_init mcmgr registered create_mutex s =
     (let (pl, e) = s;
          pl = (if mcmgr then mu_do Gi_RegisterEvent pl
                else mu_do NVIC_EnableIRQ (mu_do (NVIC_SetPriority 3) (mu_do Gi_MU_Init pl)))
      in if mcmgr \<and> \<not> registered then (-1, pl, e)
         else let (st, l, e) = create_mutex (lock_var pl) 1 e; pl = pl\<lparr>platform_lock := l\<rparr>
              in if st \<noteq> 0 then (-1, pl, e) else (0, pl, e))"

definition rt500_deinit :: "(ptr \<Rightarrow> 'e \<Rightarrow> 'e) \<Rightarrow> plat \<times> 'e \<Rightarrow> int \<times> plat \<times> 'e" where
  "rt500_deinit delete_mutex s =
     (let (pl, e) = s; pl = mu_do Gi_MU_Deinit pl; e = delete_mutex (platform_lock pl) e
      in (0, pl\<lparr>platform_lock := NULL\<rparr>, e))"

definition rt500_vatopa :: "ptr \<Rightarrow> u32" where
  "rt500_vatopa addr = (addr AND 0x0FFFFFFF) + 0x800000"

definition rt500_patova :: "u32 \<Rightarrow> ptr" where
  "rt500_patova addr = (addr - 0x00800000) OR 0x20000000"

definition xt_interrupt_enable :: "u32 \<Rightarrow> plat \<Rightarrow> (int \<times> plat) option" where
  "xt_interrupt_enable vector_id pl =
     do { rl_assert (0 < disable_counter pl);
          let pl = mu_do Xt_EnableIRQ pl;
          Some (0, pl\<lparr>disable_counter := disable_counter pl - 1\<rparr>) }"

definition xt_interrupt_disable :: "u32 \<Rightarrow> plat \<Rightarrow> (int \<times> plat) option" where
  "xt_interrupt_disable vector_id pl =
     do { rl_assert (0 \<le> disable_counter pl);
          let pl = mu_do Xt_DisableIRQ pl;
          Some (0, pl\<lparr>disable_counter := disable_counter pl + 1\<rparr>) }"

definition xt_init ::
  "(ptr \<Rightarrow> int \<Rightarrow> 'e \<Rightarrow> int \<times> ptr \<times> 'e) \<Rightarrow> plat \<times> 'e \<Rightarrow> int \<times> plat \<times> 'e" where
  "xt_init create_mutex s =
     (let (pl, e) = s; (st, l, e) = create_mutex (lock_var pl) 1 e; pl = pl\<lparr>platform_lock := l\<rparr>
      in if st \<noteq> 0 then (-1, pl, e) else (0, mu_do (Xt_SetHandler True) pl, e))"

definition xt_deinit :: "(ptr \<Rightarrow> 'e \<Rightarrow> 'e) \<Rightarrow> plat \<times> 'e \<Rightarrow> int \<times> plat \<times> 'e" where
  "xt_deinit delete_mutex s =
     (let (pl, e) = s; pl = mu_do (Xt_SetHandler False) pl; e = delete_mutex (platform_lock pl) e
      in (0, pl\<lparr>platform_lock := NULL\<rparr>, e))"

definition xt_time_delay :: "u32 \<Rightarrow> u32 \<Rightarrow> nat" where
  "xt_time_delay SystemCoreClock num_msec = delay_loop (SystemCoreClock div 6 div 1000 * num_msec)"

definition xt_in_isr :: "u32 \<Rightarrow> u32 \<Rightarrow> int" where
  "xt_in_isr interrupt intenable = sint (interrupt AND intenable)"

section \<open>The ports\<close>

definition imxrt1160_init_interrupt where "imxrt1160_init_interrupt = Platform_Imxrt1170.platform_init_interrupt"
definition imxrt1160_deinit_interrupt where "imxrt1160_deinit_interrupt = Platform_Imxrt1170.platform_deinit_interrupt"
definition imxrt1160_notify where "imxrt1160_notify = Platform_Imxrt1170.platform_notify"
definition imxrt1160_interrupt_enable where "imxrt1160_interrupt_enable = Platform_Imxrt1170.platform_interrupt_enable"
definition imxrt1160_interrupt_disable where "imxrt1160_interrupt_disable = Platform_Imxrt1170.platform_interrupt_disable"
definition imxrt1160_init where "imxrt1160_init = Platform_Imxrt1170.platform_init"
definition imxrt1160_deinit where "imxrt1160_deinit = Platform_Imxrt1170.platform_deinit"
definition imxrt1160_time_delay where "imxrt1160_time_delay = Platform_Imxrt1170.platform_time_delay"
definition imxrt1160_in_isr where "imxrt1160_in_isr = Platform_Imxrt1170.platform_in_isr"
definition imxrt1160_mu_isr where "imxrt1160_mu_isr = Platform_Imxrt1170.mu_isr"
definition imxrt1160_vatopa where "imxrt1160_vatopa = Platform_Imxrt1170.platform_vatopa"
definition imxrt1160_patova where "imxrt1160_patova = Platform_Imxrt1170.platform_patova"

definition k32l3a6_init_interrupt where "k32l3a6_init_interrupt = Platform_Imxrt1170.platform_init_interrupt"
definition k32l3a6_deinit_interrupt where "k32l3a6_deinit_interrupt = Platform_Imxrt1170.platform_deinit_interrupt"
definition k32l3a6_notify where "k32l3a6_notify = Platform_Imxrt1170.platform_notify"
definition k32l3a6_interrupt_enable where "k32l3a6_interrupt_enable = Platform_Imxrt1170.platform_interrupt_enable"
definition k32l3a6_interrupt_disable where "k32l3a6_interrupt_disable = Platform_Imxrt1170.platform_interrupt_disable"
definition k32l3a6_init where "k32l3a6_init = Platform_Imxrt1170.platform_init"
definition k32l3a6_deinit where "k32l3a6_deinit = Platform_Imxrt1170.platform_deinit"
definition k32l3a6_time_delay where "k32l3a6_time_delay = Platform_Imxrt1170.platform_time_delay"
definition k32l3a6_in_isr where "k32l3a6_in_isr = Platform_Imxrt1170.platform_in_isr"
definition k32l3a6_mu_isr where "k32l3a6_mu_isr = Platform_Imxrt1170.mu_isr"
definition k32l3a6_vatopa where "k32l3a6_vatopa = Platform_Imxrt1170.platform_vatopa"
definition k32l3a6_patova where "k32l3a6_patova = Platform_Imxrt1170.platform_patova"

definition imxrt1180_init_interrupt where "imxrt1180_init_interrupt = (\<lambda>MU_GI_INTR. gi_init_interrupt (mu_gi_port MU_GI_INTR))"
definition imxrt1180_deinit_interrupt where "imxrt1180_deinit_interrupt = (\<lambda>MU_GI_INTR. gi_deinit_interrupt (mu_gi_port MU_GI_INTR))"
definition imxrt1180_notify where "imxrt1180_notify = (\<lambda>MU_GI_INTR. gi_notify (mu_gi_port MU_GI_INTR))"
definition imxrt1180_interrupt_enable where "imxrt1180_interrupt_enable = Platform_Imxrt1170.platform_interrupt_enable"
definition imxrt1180_interrupt_disable where "imxrt1180_interrupt_disable = Platform_Imxrt1170.platform_interrupt_disable"
definition imxrt1180_init where "imxrt1180_init = Platform_Imxrt1170.platform_init"
definition imxrt1180_deinit where "imxrt1180_deinit = Platform_Imxrt1170.platform_deinit"
definition imxrt1180_time_delay where "imxrt1180_time_delay = Platform_Imxrt1170.platform_time_delay"
definition imxrt1180_in_isr where "imxrt1180_in_isr = Platform_Imxrt1170.platform_in_isr"
definition imxrt1180_mu_isr where "imxrt1180_mu_isr = Platform_Imxrt1170.mu_isr"
definition imxrt1180_vatopa where "imxrt1180_vatopa = Platform_Imxrt1170.platform_vatopa"
definition imxrt1180_patova where "imxrt1180_patova = Platform_Imxrt1170.platform_patova"

definition mcxl20_init_interrupt where "mcxl20_init_interrupt = (\<lambda>MU_GI_INTR. gi_init_interrupt (mu_gi_port MU_GI_INTR))"
definition mcxl20_deinit_interrupt where "mcxl20_deinit_interrupt = (\<lambda>MU_GI_INTR. gi_deinit_interrupt (mu_gi_port MU_GI_INTR))"
definition mcxl20_notify where "mcxl20_notify = (\<lambda>MU_GI_INTR. gi_notify (mu_gi_port MU_GI_INTR))"
definition mcxl20_interrupt_enable where "mcxl20_interrupt_enable = Platform_Imxrt1170.platform_interrupt_enable"
definition mcxl20_interrupt_disable where "mcxl20_interrupt_disable = Platform_Imxrt1170.platform_interrupt_disable"
definition mcxl20_init where "mcxl20_init = Platform_Imxrt1170.platform_init"
definition mcxl20_deinit where "mcxl20_deinit = Platform_Imxrt1170.platform_deinit"
definition mcxl20_time_delay where "mcxl20_time_delay = Platform_Imxrt1170.platform_time_delay"
definition mcxl20_in_isr where "mcxl20_in_isr = Platform_Imxrt1170.platform_in_isr"
definition mcxl20_mu_isr where "mcxl20_mu_isr = Platform_Imxrt1170.mu_isr"

definition kw43b43_init_interrupt where "kw43b43_init_interrupt = (\<lambda>MU_GI_INTR. gi_init_interrupt (mu_gi_port MU_GI_INTR))"
definition kw43b43_deinit_interrupt where "kw43b43_deinit_interrupt = (\<lambda>MU_GI_INTR. gi_deinit_interrupt (mu_gi_port MU_GI_INTR))"
definition kw43b43_notify where "kw43b43_notify = (\<lambda>MU_GI_INTR. gi_notify (mu_gi_port MU_GI_INTR))"
definition kw43b43_interrupt_enable where "kw43b43_interrupt_enable = Platform_Imxrt1170.platform_interrupt_enable"
definition kw43b43_interrupt_disable where "kw43b43_interrupt_disable = Platform_Imxrt1170.platform_interrupt_disable"
definition kw43b43_init where "kw43b43_init = Platform_Imxrt1170.platform_init"
definition kw43b43_deinit where "kw43b43_deinit = Platform_Imxrt1170.platform_deinit"
definition kw43b43_time_delay where "kw43b43_time_delay = Platform_Imxrt1170.platform_time_delay"
definition kw43b43_in_isr where "kw43b43_in_isr = Platform_Imxrt1170.platform_in_isr"
definition kw43b43_mu_isr where "kw43b43_mu_isr = Platform_Imxrt1170.mu_isr"
definition kw43b43_vatopa where "kw43b43_vatopa = Platform_Imxrt1170.platform_vatopa"
definition kw43b43_patova where "kw43b43_patova = Platform_Imxrt1170.platform_patova"
definition kw43b43_set_static_shmem_config where "kw43b43_set_static_shmem_config = platform_set_static_shmem_config"
definition kw43b43_get_custom_shmem_config where "kw43b43_get_custom_shmem_config = platform_get_custom_shmem_config"
definition kw43b43_compute_crc_over_shmem_struct where "kw43b43_compute_crc_over_shmem_struct = platform_compute_crc_over_shmem_struct"

definition mcxw70_init_interrupt where "mcxw70_init_interrupt = (\<lambda>MU_GI_INTR. gi_init_interrupt (mu_gi_port MU_GI_INTR))"
definition mcxw70_deinit_interrupt where "mcxw70_deinit_interrupt = (\<lambda>MU_GI_INTR. gi_deinit_interrupt (mu_gi_port MU_GI_INTR))"
definition mcxw70_notify where "mcxw70_notify = (\<lambda>MU_GI_INTR. gi_notify (mu_gi_port MU_GI_INTR))"
definition mcxw70_interrupt_enable where "mcxw70_interrupt_enable = Platform_Imxrt1170.platform_interrupt_enable"
definition mcxw70_interrupt_disable where "mcxw70_interrupt_disable = Platform_Imxrt1170.platform_interrupt_disable"
definition mcxw70_init where "mcxw70_init = Platform_Imxrt1170.platform_init"
definition mcxw70_deinit where "mcxw70_deinit = Platform_Imxrt1170.platform_deinit"
definition mcxw70_time_delay where "mcxw70_time_delay = Platform_Imxrt1170.platform_time_delay"
definition mcxw70_in_isr where "mcxw70_in_isr = Platform_Imxrt1170.platform_in_isr"
definition mcxw70_mu_isr where "mcxw70_mu_isr = Platform_Imxrt1170.mu_isr"
definition mcxw70_vatopa where "mcxw70_vatopa = Platform_Imxrt1170.platform_vatopa"
definition mcxw70_patova where "mcxw70_patova = Platform_Imxrt1170.platform_patova"
definition mcxw70_set_static_shmem_config where "mcxw70_set_static_shmem_config = platform_set_static_shmem_config"
definition mcxw70_get_custom_shmem_config where "mcxw70_get_custom_shmem_config = platform_get_custom_shmem_config"
definition mcxw70_compute_crc_over_shmem_struct where "mcxw70_compute_crc_over_shmem_struct = platform_compute_crc_over_shmem_struct"

definition imxrt500_m33_init_interrupt where "imxrt500_m33_init_interrupt = Platform_Imxrt1170.platform_init_interrupt"
definition imxrt500_m33_deinit_interrupt where "imxrt500_m33_deinit_interrupt = Platform_Imxrt1170.platform_deinit_interrupt"
definition imxrt500_m33_notify where "imxrt500_m33_notify = rt500_notify"
definition imxrt500_m33_interrupt_enable where "imxrt500_m33_interrupt_enable = Platform_Imxrt1170.platform_interrupt_enable"
definition imxrt500_m33_interrupt_disable where "imxrt500_m33_interrupt_disable = Platform_Imxrt1170.platform_interrupt_disable False"
definition imxrt500_m33_init where "imxrt500_m33_init = rt500_init"
definition imxrt500_m33_deinit where "imxrt500_m33_deinit = rt500_deinit"
definition imxrt500_m33_time_delay where "imxrt500_m33_time_delay = Platform_Imxrt1170.platform_time_delay"
definition imxrt500_m33_in_isr where "imxrt500_m33_in_isr = Platform_Imxrt1170.platform_in_isr"
definition imxrt500_m33_mcmgr_event_handler where "imxrt500_m33_mcmgr_event_handler = rt500_mcmgr_handler"
definition imxrt500_m33_MU_A_IRQHandler where "imxrt500_m33_MU_A_IRQHandler = Platform_Imxrt1170.mu_isr"
definition imxrt500_m33_vatopa where "imxrt500_m33_vatopa = rt500_vatopa"
definition imxrt500_m33_patova where "imxrt500_m33_patova = rt500_patova"

definition imxrt600_m33_init_interrupt where "imxrt600_m33_init_interrupt = Platform_Imxrt1170.platform_init_interrupt"
definition imxrt600_m33_deinit_interrupt where "imxrt600_m33_deinit_interrupt = Platform_Imxrt1170.platform_deinit_interrupt"
definition imxrt600_m33_notify where "imxrt600_m33_notify = rt500_notify"
definition imxrt600_m33_interrupt_enable where "imxrt600_m33_interrupt_enable = Platform_Imxrt1170.platform_interrupt_enable"
definition imxrt600_m33_interrupt_disable where "imxrt600_m33_interrupt_disable = Platform_Imxrt1170.platform_interrupt_disable False"
definition imxrt600_m33_init where "imxrt600_m33_init = rt500_init"
definition imxrt600_m33_deinit where "imxrt600_m33_deinit = rt500_deinit"
definition imxrt600_m33_time_delay where "imxrt600_m33_time_delay = Platform_Imxrt1170.platform_time_delay"
definition imxrt600_m33_in_isr where "imxrt600_m33_in_isr = Platform_Imxrt1170.platform_in_isr"
definition imxrt600_m33_mcmgr_event_handler where "imxrt600_m33_mcmgr_event_handler = rt500_mcmgr_handler"
definition imxrt600_m33_MU_A_IRQHandler where "imxrt600_m33_MU_A_IRQHandler = Platform_Imxrt1170.mu_isr"
definition imxrt600_m33_vatopa where "imxrt600_m33_vatopa = Platform_Imxrt1170.platform_vatopa"
definition imxrt600_m33_patova where "imxrt600_m33_patova = Platform_Imxrt1170.platform_patova"

definition imxrt500_fusionf1_init_interrupt where "imxrt500_fusionf1_init_interrupt = Platform_Imxrt1170.platform_init_interrupt"
definition imxrt500_fusionf1_deinit_interrupt where "imxrt500_fusionf1_deinit_interrupt = Platform_Imxrt1170.platform_deinit_interrupt"
definition imxrt500_fusionf1_notify where "imxrt500_fusionf1_notify = Platform_Imxrt1170.platform_notify"
definition imxrt500_fusionf1_interrupt_enable where "imxrt500_fusionf1_interrupt_enable = xt_interrupt_enable"
definition imxrt500_fusionf1_interrupt_disable where "imxrt500_fusionf1_interrupt_disable = xt_interrupt_disable"
definition imxrt500_fusionf1_init where "imxrt500_fusionf1_init = xt_init"
definition imxrt500_fusionf1_deinit where "imxrt500_fusionf1_deinit = xt_deinit"
definition imxrt500_fusionf1_time_delay where "imxrt500_fusionf1_time_delay = xt_time_delay"
definition imxrt500_fusionf1_in_isr where "imxrt500_fusionf1_in_isr = xt_in_isr"
definition imxrt500_fusionf1_MU_B_IRQHandler where "imxrt500_fusionf1_MU_B_IRQHandler = Platform_Imxrt1170.mu_isr"
definition imxrt500_fusionf1_vatopa where "imxrt500_fusionf1_vatopa = Platform_Imxrt1170.platform_vatopa"
definition imxrt500_fusionf1_patova where "imxrt500_fusionf1_patova = Platform_Imxrt1170.platform_patova"

definition imxrt600_hifi4_init_interrupt where "imxrt600_hifi4_init_interrupt = Platform_Imxrt1170.platform_init_interrupt"
definition imxrt600_hifi4_deinit_interrupt where "imxrt600_hifi4_deinit_interrupt = Platform_Imxrt1170.platform_deinit_interrupt"
definition imxrt600_hifi4_notify where "imxrt600_hifi4_notify = Platform_Imxrt1170.platform_notify"
definition imxrt600_hifi4_interrupt_enable where "imxrt600_hifi4_interrupt_enable = xt_interrupt_enable"
definition imxrt600_hifi4_interrupt_disable where "imxrt600_hifi4_interrupt_disable = xt_interrupt_disable"
definition imxrt600_hifi4_init where "imxrt600_hifi4_init = xt_init"
definition imxrt600_hifi4_deinit where "imxrt600_hifi4_deinit = xt_deinit"
definition imxrt600_hifi4_time_delay where "imxrt600_hifi4_time_delay = xt_time_delay"
definition imxrt600_hifi4_in_isr where "imxrt600_hifi4_in_isr = xt_in_isr"
definition imxrt600_hifi4_MU_B_IRQHandler where "imxrt600_hifi4_MU_B_IRQHandler = Platform_Imxrt1170.mu_isr"
definition imxrt600_hifi4_vatopa where "imxrt600_hifi4_vatopa = Platform_Imxrt1170.platform_vatopa"
definition imxrt600_hifi4_patova where "imxrt600_hifi4_patova = Platform_Imxrt1170.platform_patova"

text \<open>The MCXL20's Cortex-M0+ sees the memory of the Cortex-M33 at other addresses.\<close>

definition mcxl20_cm33_vatopa :: "ptr \<Rightarrow> ptr" where
  "mcxl20_cm33_vatopa addr = addr"

definition mcxl20_cm33_patova :: "ptr \<Rightarrow> ptr" where
  "mcxl20_cm33_patova addr = addr"

definition mcxl20_cm0plus_vatopa :: "ptr \<Rightarrow> ptr" where
  "mcxl20_cm0plus_vatopa addr = addr AND 0x00FFFFFF"

definition mcxl20_cm0plus_patova :: "ptr \<Rightarrow> ptr" where
  "mcxl20_cm0plus_patova addr = addr AND 0x00FFFFFF"

section \<open>Facts\<close>

text \<open>The operations of \<open>Platform_Imxrt1170\<close> are these, with its masks.\<close>

lemma rt1170_is_gi:
  "platform_init_interrupt = gi_init_interrupt rt1170_gi_port"
  "platform_deinit_interrupt = gi_deinit_interrupt rt1170_gi_port"
  "platform_notify = gi_notify rt1170_gi_port"
  by (auto simp: fun_eq_iff platform_init_interrupt_def gi_init_interrupt_def platform_deinit_interrupt_def gi_deinit_interrupt_def
      platform_notify_def gi_notify_def rt1170_gi_port_def Let_def)

text \<open>
  The handler is that of \<open>Event_Flags\<close>, so notifications are not lost, wherever the flags of the unit behave as a
  register (\<open>flags_not_lost\<close>).
\<close>

lemma mu_isr_flags: "mu_isr g0 g1 isr flags s = flags_isr (\<lambda>m. mu_do (MU_ClearStatusFlags m)) g0 g1 isr flags s"
  by (simp add: mu_isr_def flags_isr_def)

text \<open>
  The interrupt of a vector is enabled exactly by its registration as long as at most two handlers are registered: each
  vector has a mask of its own, so that removing one handler leaves the other's interrupt enabled.
\<close>

lemma gi_deinit_keeps_other:
  assumes "gi_deinit_interrupt P unreg lock unlock v (pl, e) = Some (0, pl', e')"
    and "gi_vector_mask P w = Some m" "gi_vector_mask P v \<noteq> Some m"
  shows "switched (MU_EnableInterrupts m) (MU_DisableInterrupts m) b (mu_log pl')
    = switched (MU_EnableInterrupts m) (MU_DisableInterrupts m) b (mu_log pl)"
  using assms by (auto simp: gi_deinit_interrupt_def mu_do_def Let_def split: bind_splits if_splits)

lemma mcxl20_roundtrip: "mcxl20_cm0plus_patova (mcxl20_cm33_vatopa a) = a \<longleftrightarrow> unat a < 2 ^ 24"
proof -
  have "a AND 0x00FFFFFF = take_bit 24 a" by (simp add: take_bit_eq_mask mask_eq_exp_minus_1)
  then show ?thesis
    by (simp add: mcxl20_cm0plus_patova_def mcxl20_cm33_vatopa_def word_unat_eq_iff unsigned_take_bit_eq take_bit_nat_eq_self_iff)
qed

text \<open>
  With the multicore manager the notification of the i.MX RT500 and RT600 releases the lock twice: where the lock is a
  semaphore that counts, two tasks get through it afterwards.
\<close>

lemma rt500_notify_unlocks_twice:
  "\<exists>pl'. rt500_notify True (\<lambda>l n. if 0 < n then Some (n - 1) else None) (\<lambda>l n. Some (n + 1)) v (pl, 1 :: nat) = Some (pl', 2)"
  by (simp add: rt500_notify_def mu_do_def)

text \<open>The address translations of the RT500 are inverse to each other on its memory.\<close>

lemma rt500_roundtrip:
  assumes "0x20000000 \<le> a" "a < 0x20800000"
  shows "rt500_patova (rt500_vatopa a) = a"
proof -
  have b: "bit a n \<longrightarrow> n < 30" for n using bit_less_exp [of a 30 n] assms(2) by (simp add: word_less_nat_alt)
  have l: "0x20000000 \<le> unat a" "unat a < 0x20800000" using assms by (simp_all add: word_le_nat_alt word_less_nat_alt)
  have o: "unat a div 2 ^ 28 = 2" "unat a div 2 ^ 29 = 1" using l by simp_all
  have u: "bit a n = odd (unat a div 2 ^ n)" for n
    using bit_imp_le_length [of a n] by (auto simp: bit_unsigned_iff bit_iff_odd [of "unat a", symmetric])
  have "(a AND 0x0FFFFFFF) OR 0x20000000 = a"
  proof (rule bit_word_eqI)
    fix n
    have e: "(0x0FFFFFFF :: u32) = mask 28" "(0x20000000 :: u32) = push_bit 29 1" by (simp_all add: mask_eq_exp_minus_1)
    have "n < 28 \<or> n = 28 \<or> n = 29 \<or> \<not> bit a n \<and> n \<noteq> 29" using b [of n] by linarith
    then show "n < LENGTH(32) \<Longrightarrow> bit ((a AND 0x0FFFFFFF) OR 0x20000000) n = bit a n"
      using u [of 28] u [of 29] o by (auto simp: e bit_or_iff bit_and_iff bit_mask_iff bit_push_bit_iff bit_1_iff simp del: push_bit_of_1)
  qed
  then show ?thesis by (simp add: rt500_patova_def rt500_vatopa_def)
qed

end
