(* ===== verification/Platform_Mu_Delays.thy ===== *)
theory Platform_Mu_Delays
  imports Platform_Gi
begin

text \<open>
  What the ports of \<open>Platform_Imx\<close>, \<open>Platform_Imx8ulp\<close> and \<open>Platform_Imx9\<close> have besides their messaging unit: the busy
  delay, the test for an interrupt in progress and, where there is nothing to translate, the address translation.
\<close>

section \<open>The ports\<close>

definition imx6sx_time_delay where "imx6sx_time_delay = Platform_Imxrt1170.platform_time_delay"
definition imx6sx_in_isr where "imx6sx_in_isr = Platform_Imxrt1170.platform_in_isr"
definition imx6sx_vatopa where "imx6sx_vatopa = Platform_Imxrt1170.platform_vatopa"
definition imx6sx_patova where "imx6sx_patova = Platform_Imxrt1170.platform_patova"

definition imx7d_time_delay where "imx7d_time_delay = Platform_Imxrt1170.platform_time_delay"
definition imx7d_in_isr where "imx7d_in_isr = Platform_Imxrt1170.platform_in_isr"
definition imx7d_vatopa where "imx7d_vatopa = Platform_Imxrt1170.platform_vatopa"
definition imx7d_patova where "imx7d_patova = Platform_Imxrt1170.platform_patova"

definition imx7ulp_time_delay where "imx7ulp_time_delay = Platform_Imxrt1170.platform_time_delay"
definition imx7ulp_in_isr where "imx7ulp_in_isr = Platform_Imxrt1170.platform_in_isr"
definition imx7ulp_vatopa where "imx7ulp_vatopa = Platform_Imxrt1170.platform_vatopa"
definition imx7ulp_patova where "imx7ulp_patova = Platform_Imxrt1170.platform_patova"

definition imx8dxl_time_delay where "imx8dxl_time_delay = Platform_Imxrt1170.platform_time_delay"
definition imx8dxl_in_isr where "imx8dxl_in_isr = Platform_Imxrt1170.platform_in_isr"
definition imx8dxl_vatopa where "imx8dxl_vatopa = Platform_Imxrt1170.platform_vatopa"
definition imx8dxl_patova where "imx8dxl_patova = Platform_Imxrt1170.platform_patova"

definition imx8mm_time_delay where "imx8mm_time_delay = Platform_Imxrt1170.platform_time_delay"
definition imx8mm_in_isr where "imx8mm_in_isr = Platform_Imxrt1170.platform_in_isr"
definition imx8mm_vatopa where "imx8mm_vatopa = Platform_Imxrt1170.platform_vatopa"
definition imx8mm_patova where "imx8mm_patova = Platform_Imxrt1170.platform_patova"

definition imx8mn_time_delay where "imx8mn_time_delay = Platform_Imxrt1170.platform_time_delay"
definition imx8mn_in_isr where "imx8mn_in_isr = Platform_Imxrt1170.platform_in_isr"
definition imx8mn_vatopa where "imx8mn_vatopa = Platform_Imxrt1170.platform_vatopa"
definition imx8mn_patova where "imx8mn_patova = Platform_Imxrt1170.platform_patova"

definition imx8mp_time_delay where "imx8mp_time_delay = Platform_Imxrt1170.platform_time_delay"
definition imx8mp_in_isr where "imx8mp_in_isr = Platform_Imxrt1170.platform_in_isr"
definition imx8mp_vatopa where "imx8mp_vatopa = Platform_Imxrt1170.platform_vatopa"
definition imx8mp_patova where "imx8mp_patova = Platform_Imxrt1170.platform_patova"

definition imx8mq_time_delay where "imx8mq_time_delay = Platform_Imxrt1170.platform_time_delay"
definition imx8mq_in_isr where "imx8mq_in_isr = Platform_Imxrt1170.platform_in_isr"
definition imx8mq_vatopa where "imx8mq_vatopa = Platform_Imxrt1170.platform_vatopa"
definition imx8mq_patova where "imx8mq_patova = Platform_Imxrt1170.platform_patova"

definition imx8qm_time_delay where "imx8qm_time_delay = Platform_Imxrt1170.platform_time_delay"
definition imx8qm_in_isr where "imx8qm_in_isr = Platform_Imxrt1170.platform_in_isr"
definition imx8qm_vatopa where "imx8qm_vatopa = Platform_Imxrt1170.platform_vatopa"
definition imx8qm_patova where "imx8qm_patova = Platform_Imxrt1170.platform_patova"

definition imx8qx_time_delay where "imx8qx_time_delay = Platform_Imxrt1170.platform_time_delay"
definition imx8qx_in_isr where "imx8qx_in_isr = Platform_Imxrt1170.platform_in_isr"
definition imx8qx_vatopa where "imx8qx_vatopa = Platform_Imxrt1170.platform_vatopa"
definition imx8qx_patova where "imx8qx_patova = Platform_Imxrt1170.platform_patova"

definition imx8ulp_time_delay where "imx8ulp_time_delay = Platform_Imxrt1170.platform_time_delay"
definition imx8ulp_in_isr where "imx8ulp_in_isr = Platform_Imxrt1170.platform_in_isr"
definition imx8ulp_vatopa where "imx8ulp_vatopa = Platform_Imxrt1170.platform_vatopa"
definition imx8ulp_patova where "imx8ulp_patova = Platform_Imxrt1170.platform_patova"

definition imx93_time_delay where "imx93_time_delay = Platform_Imxrt1170.platform_time_delay"
definition imx93_in_isr where "imx93_in_isr = Platform_Imxrt1170.platform_in_isr"
definition imx93_vatopa where "imx93_vatopa = Platform_Imxrt1170.platform_vatopa"
definition imx93_patova where "imx93_patova = Platform_Imxrt1170.platform_patova"

definition imx943_m33s_time_delay where "imx943_m33s_time_delay = Platform_Imxrt1170.platform_time_delay"
definition imx943_m33s_in_isr where "imx943_m33s_in_isr = Platform_Imxrt1170.platform_in_isr"

definition imx943_m70_time_delay where "imx943_m70_time_delay = Platform_Imxrt1170.platform_time_delay"
definition imx943_m70_in_isr where "imx943_m70_in_isr = Platform_Imxrt1170.platform_in_isr"

definition imx943_m71_time_delay where "imx943_m71_time_delay = Platform_Imxrt1170.platform_time_delay"
definition imx943_m71_in_isr where "imx943_m71_in_isr = Platform_Imxrt1170.platform_in_isr"

definition imx952_m7_time_delay where "imx952_m7_time_delay = Platform_Imxrt1170.platform_time_delay"
definition imx952_m7_in_isr where "imx952_m7_in_isr = Platform_Imxrt1170.platform_in_isr"
definition imx952_m7_patova where "imx952_m7_patova = Platform_Imxrt1170.platform_patova"
definition imx952_m7_vatopa where "imx952_m7_vatopa = Platform_Imxrt1170.platform_vatopa"

definition imx95_m33_time_delay where "imx95_m33_time_delay = Platform_Imxrt1170.platform_time_delay"
definition imx95_m33_in_isr where "imx95_m33_in_isr = Platform_Imxrt1170.platform_in_isr"
definition imx95_m33_patova where "imx95_m33_patova = Platform_Imxrt1170.platform_patova"
definition imx95_m33_vatopa where "imx95_m33_vatopa = Platform_Imxrt1170.platform_vatopa"

definition imx95_m7_time_delay where "imx95_m7_time_delay = Platform_Imxrt1170.platform_time_delay"
definition imx95_m7_in_isr where "imx95_m7_in_isr = Platform_Imxrt1170.platform_in_isr"
definition imx95_m7_patova where "imx95_m7_patova = Platform_Imxrt1170.platform_patova"
definition imx95_m7_vatopa where "imx95_m7_vatopa = Platform_Imxrt1170.platform_vatopa"

definition fusionf1_time_delay where "fusionf1_time_delay = Platform_Gi.xt_time_delay"
definition fusionf1_in_isr where "fusionf1_in_isr = Platform_Gi.xt_in_isr"

section \<open>Delays\<close>

text \<open>The delay loops end; the DSP counts on six cycles for each round, so it makes about half the rounds of the others.\<close>

lemma fusionf1_delay_rounds:
  "fusionf1_time_delay clk ms = unat clk div 6000 * unat ms mod 2 ^ 32"
proof -
  have "unat (clk div 6 div 1000) = unat clk div 6000" by (simp add: unat_div div_mult2_eq)
  then show ?thesis
    by (simp add: fusionf1_time_delay_def Platform_Gi.xt_time_delay_def delay_loop_eq unat_word_ariths)
qed

lemma delays_compared:
  assumes "unat clk div 3000 * unat ms < 2 ^ 32"
  shows "2 * fusionf1_time_delay clk ms \<le> imx8ulp_time_delay clk ms"
proof -
  have "2 * (unat clk div 6000) \<le> unat clk div 3000" by linarith
  then have "2 * (unat clk div 6000) * unat ms \<le> unat clk div 3000 * unat ms" by (rule mult_le_mono1)
  moreover have "unat clk div 6000 * unat ms mod 2 ^ 32 \<le> unat clk div 6000 * unat ms" by (rule mod_less_eq_dividend)
  ultimately have "2 * (unat clk div 6000 * unat ms mod 2 ^ 32) \<le> unat clk div 3000 * unat ms" by linarith
  then show ?thesis
    using assms platform_time_delay_loops [of clk ms] by (simp only: fusionf1_delay_rounds imx8ulp_time_delay_def mod_less [OF assms])
qed

end
