(* ===== verification/Platform_Mailbox.thy ===== *)
theory Platform_Mailbox
  imports Platform_Imxrt1170 Event_Flags
begin

text \<open>
  The ports for devices with a mailbox: LPC5410x, LPC5411x, LPC55S69 and MCXNx4x (\<^verbatim>\<open>rpmsg_platform.c\<close> in the
  directories of these names under \<^verbatim>\<open>lib/rpmsg_lite/porting/platform\<close>). The two cores share a register for
  each direction, whose bits 0 and 1 are the queues. The operations of the mailbox driver are parameters, the
  calls of the interrupt controller and of the multicore manager are recorded.
\<close>

section \<open>State\<close>

text \<open>Registers are named by the core that reads them, \<open>True\<close> for the side A.\<close>

record 'h mailbox =
  MAILBOX_GetValue :: "bool \<Rightarrow> 'h \<Rightarrow> u32"
  MAILBOX_SetValueBits :: "bool \<Rightarrow> u32 \<Rightarrow> 'h \<Rightarrow> 'h"
  MAILBOX_ClearValueBits :: "bool \<Rightarrow> u32 \<Rightarrow> 'h \<Rightarrow> 'h"

datatype mb_call =
    Mailbox_Init
  | Mailbox_Deinit
  | Mailbox_Priority nat
  | Mailbox_EnableIRQ
  | Mailbox_DisableIRQ
  | Mcmgr_Register
  | Mcmgr_Trigger nat u16

record mb_plat =
  mb_isr_counter :: int
  mb_disable_counter :: int
  mb_lock :: ptr
  mb_lock_var :: ptr
  mb_primask :: bool
  mb_log :: "mb_call list"

definition mb_do :: "mb_call \<Rightarrow> mb_plat \<Rightarrow> mb_plat" where
  "mb_do c pl = pl\<lparr>mb_log := mb_log pl @ [c]\<rparr>"

text \<open>
  What differs between the ports: whether handlers are refused before \<open>platform_init\<close> has created the lock, the
  priority of the interrupt on either side, and the link that \<open>platform_notify\<close> accepts.
\<close>

record mb_port =
  mbp_lock_checked :: bool
  mbp_priority :: "bool \<Rightarrow> nat"
  mbp_link :: u32

section \<open>Operations\<close>

text \<open>\<open>mcmgr_event_handler\<close>, used with \<open>RL_USE_MCMGR_IPC_ISR_HANDLER\<close>, and \<open>MAILBOX_IRQHandler\<close>, used without.\<close>

definition mcmgr_vring_handler :: "(u32 \<Rightarrow> 's \<Rightarrow> 's option) \<Rightarrow> u16 \<Rightarrow> 's \<Rightarrow> 's option" where
  "mcmgr_vring_handler isr vring_idx s = isr (ucast vring_idx) s"

definition mailbox_isr ::
  "'h mailbox \<Rightarrow> bool \<Rightarrow> (u32 \<Rightarrow> 'h \<times> 's \<Rightarrow> ('h \<times> 's) option) \<Rightarrow> 'h \<times> 's \<Rightarrow> ('h \<times> 's) option" where
  "mailbox_isr H side_a isr s =
     (let val = MAILBOX_GetValue H side_a (fst s)
      in do {
        s \<leftarrow> (if val AND 0x01 \<noteq> 0 then isr 0 (MAILBOX_ClearValueBits H side_a 0x01 (fst s), snd s) else Some s);
        (if val AND 0x02 \<noteq> 0 then isr 1 (MAILBOX_ClearValueBits H side_a 0x02 (fst s), snd s) else Some s) })"

definition mb_init_interrupt ::
  "mb_port \<Rightarrow> bool \<Rightarrow> (u32 \<Rightarrow> ptr \<Rightarrow> 'e \<Rightarrow> 'e option) \<Rightarrow> (ptr \<Rightarrow> 'e \<Rightarrow> 'e option) \<Rightarrow> (ptr \<Rightarrow> 'e \<Rightarrow> 'e option)
    \<Rightarrow> u32 \<Rightarrow> ptr \<Rightarrow> mb_plat \<times> 'e \<Rightarrow> (int \<times> mb_plat \<times> 'e) option" where
  "mb_init_interrupt P side_a register_isr lock unlock vector_id isr_data s =
     (let (pl, e) = s
      in if mbp_lock_checked P \<and> mb_lock pl = NULL then Some (-1, pl, e)
         else do {
           e \<leftarrow> register_isr vector_id isr_data e;
           e \<leftarrow> lock (mb_lock pl) e;
           rl_assert (0 \<le> mb_isr_counter pl);
           let pl = (if mb_isr_counter pl = 0 then mb_do (Mailbox_Priority (mbp_priority P side_a)) pl else pl);
           let pl = pl\<lparr>mb_isr_counter := mb_isr_counter pl + 1\<rparr>;
           e \<leftarrow> unlock (mb_lock pl) e;
           Some (0, pl, e) })"

definition mb_deinit_interrupt ::
  "mb_port \<Rightarrow> (u32 \<Rightarrow> 'e \<Rightarrow> 'e option) \<Rightarrow> (ptr \<Rightarrow> 'e \<Rightarrow> 'e option) \<Rightarrow> (ptr \<Rightarrow> 'e \<Rightarrow> 'e option)
    \<Rightarrow> u32 \<Rightarrow> mb_plat \<times> 'e \<Rightarrow> (int \<times> mb_plat \<times> 'e) option" where
  "mb_deinit_interrupt P unregister_isr lock unlock vector_id s =
     (let (pl, e) = s
      in if mbp_lock_checked P \<and> mb_lock pl = NULL then Some (-1, pl, e)
         else do {
           e \<leftarrow> lock (mb_lock pl) e;
           rl_assert (0 < mb_isr_counter pl);
           let pl = pl\<lparr>mb_isr_counter := mb_isr_counter pl - 1\<rparr>;
           let pl = (if mb_isr_counter pl = 0 then mb_do Mailbox_DisableIRQ pl else pl);
           e \<leftarrow> unregister_isr vector_id e;
           e \<leftarrow> unlock (mb_lock pl) e;
           Some (0, pl, e) })"

text \<open>The manager's cores are numbered 0 (side A) and 1.\<close>

definition mb_notify ::
  "mb_port \<Rightarrow> bool \<Rightarrow> 'h mailbox \<Rightarrow> bool \<Rightarrow> (ptr \<Rightarrow> 'e \<Rightarrow> 'e option) \<Rightarrow> (ptr \<Rightarrow> 'e \<Rightarrow> 'e option)
    \<Rightarrow> u32 \<Rightarrow> mb_plat \<times> 'h \<times> 'e \<Rightarrow> (mb_plat \<times> 'h \<times> 'e) option" where
  "mb_notify P mcmgr H side_a lock unlock vector_id s =
     (let (pl, h, e) = s
      in if mcmgr then do {
           e \<leftarrow> lock (mb_lock pl) e;
           let pl = mb_do (Mcmgr_Trigger (if side_a then 1 else 0) (ucast (RL_GET_Q_ID vector_id))) pl;
           e \<leftarrow> unlock (mb_lock pl) e;
           Some (pl, h, e) }
         else if RL_GET_LINK_ID vector_id = mbp_link P then do {
           e \<leftarrow> lock (mb_lock pl) e;
           m \<leftarrow> shl1 (RL_GET_Q_ID vector_id);
           let h = MAILBOX_SetValueBits H (\<not> side_a) m h;
           e \<leftarrow> unlock (mb_lock pl) e;
           Some (pl, h, e) }
         else Some (pl, h, e))"

definition mb_interrupt_enable :: "u32 \<Rightarrow> mb_plat \<Rightarrow> (int \<times> mb_plat) option" where
  "mb_interrupt_enable vector_id pl =
     do { rl_assert (0 < mb_disable_counter pl);
          let pl = pl\<lparr>mb_primask := True\<rparr>;
          let pl = pl\<lparr>mb_disable_counter := mb_disable_counter pl - 1\<rparr>;
          let pl = (if mb_disable_counter pl = 0 then mb_do Mailbox_EnableIRQ pl else pl);
          Some (0, pl\<lparr>mb_primask := False\<rparr>) }"

definition mb_interrupt_disable :: "u32 \<Rightarrow> mb_plat \<Rightarrow> (int \<times> mb_plat) option" where
  "mb_interrupt_disable vector_id pl =
     do { rl_assert (0 \<le> mb_disable_counter pl);
          let pl = pl\<lparr>mb_primask := True\<rparr>;
          let pl = (if mb_disable_counter pl = 0 then mb_do Mailbox_DisableIRQ pl else pl);
          let pl = pl\<lparr>mb_disable_counter := mb_disable_counter pl + 1\<rparr>;
          Some (0, pl\<lparr>mb_primask := False\<rparr>) }"

text \<open>\<open>registered\<close> is whether \<open>MCMGR_RegisterEvent\<close> succeeds.\<close>

definition mb_init ::
  "bool \<Rightarrow> bool \<Rightarrow> (ptr \<Rightarrow> int \<Rightarrow> 'e \<Rightarrow> int \<times> ptr \<times> 'e) \<Rightarrow> mb_plat \<times> 'e \<Rightarrow> int \<times> mb_plat \<times> 'e" where
  "mb_init mcmgr registered create_mutex s =
     (let (pl, e) = s; pl = mb_do (if mcmgr then Mcmgr_Register else Mailbox_Init) pl
      in if mcmgr \<and> \<not> registered then (-1, pl, e)
         else let (st, l, e) = create_mutex (mb_lock_var pl) 1 e; pl = pl\<lparr>mb_lock := l\<rparr>
              in if st \<noteq> 0 then (-1, pl, e) else (0, pl, e))"

text \<open>
  \<open>platform_deinit\<close> reads the other core's register until it is 0. Here \<open>peer n\<close> is the state of the mailbox at the \<open>n\<close>-th
  of these reads; the result is \<open>None\<close> if the loop does not end.
\<close>

partial_function (option) mb_wait_clear :: "'h mailbox \<Rightarrow> bool \<Rightarrow> (nat \<Rightarrow> 'h) \<Rightarrow> nat \<Rightarrow> nat option" where
  "mb_wait_clear H side_a peer n =
     (if 0 \<noteq> MAILBOX_GetValue H (\<not> side_a) (peer n) then mb_wait_clear H side_a peer (Suc n) else Some n)"

definition mb_deinit ::
  "'h mailbox \<Rightarrow> bool \<Rightarrow> (nat \<Rightarrow> 'h) \<Rightarrow> (ptr \<Rightarrow> 'e \<Rightarrow> 'e) \<Rightarrow> mb_plat \<times> 'e \<Rightarrow> (int \<times> mb_plat \<times> 'e) option" where
  "mb_deinit H side_a peer delete_mutex s =
     do { let (pl, e) = s;
          n \<leftarrow> mb_wait_clear H side_a peer 0;
          let pl = mb_do Mailbox_Deinit pl;
          let e = delete_mutex (mb_lock pl) e;
          Some (0, pl\<lparr>mb_lock := NULL\<rparr>, e) }"

section \<open>The ports\<close>

definition lpc5410x_port :: mb_port where
  "lpc5410x_port = \<lparr>mbp_lock_checked = False, mbp_priority = (\<lambda>side_a. if side_a then 5 else 2), mbp_link = 0\<rparr>"

definition lpc5410x_init_interrupt where "lpc5410x_init_interrupt = mb_init_interrupt lpc5410x_port"
definition lpc5410x_deinit_interrupt where "lpc5410x_deinit_interrupt = mb_deinit_interrupt lpc5410x_port"
definition lpc5410x_notify where "lpc5410x_notify = mb_notify lpc5410x_port"
definition lpc5410x_interrupt_enable where "lpc5410x_interrupt_enable = mb_interrupt_enable"
definition lpc5410x_interrupt_disable where "lpc5410x_interrupt_disable = mb_interrupt_disable"
definition lpc5410x_init where "lpc5410x_init = mb_init"
definition lpc5410x_deinit where "lpc5410x_deinit = mb_deinit"
definition lpc5410x_time_delay where "lpc5410x_time_delay = Platform_Imxrt1170.platform_time_delay"
definition lpc5410x_in_isr where "lpc5410x_in_isr = Platform_Imxrt1170.platform_in_isr"
definition lpc5410x_MAILBOX_IRQHandler where "lpc5410x_MAILBOX_IRQHandler = mailbox_isr"
definition lpc5410x_mcmgr_event_handler where "lpc5410x_mcmgr_event_handler = mcmgr_vring_handler"

definition lpc5411x_port :: mb_port where
  "lpc5411x_port = \<lparr>mbp_lock_checked = False, mbp_priority = (\<lambda>side_a. if side_a then 5 else 2), mbp_link = 0\<rparr>"

definition lpc5411x_init_interrupt where "lpc5411x_init_interrupt = mb_init_interrupt lpc5411x_port"
definition lpc5411x_deinit_interrupt where "lpc5411x_deinit_interrupt = mb_deinit_interrupt lpc5411x_port"
definition lpc5411x_notify where "lpc5411x_notify = mb_notify lpc5411x_port"
definition lpc5411x_interrupt_enable where "lpc5411x_interrupt_enable = mb_interrupt_enable"
definition lpc5411x_interrupt_disable where "lpc5411x_interrupt_disable = mb_interrupt_disable"
definition lpc5411x_init where "lpc5411x_init = mb_init"
definition lpc5411x_deinit where "lpc5411x_deinit = mb_deinit"
definition lpc5411x_time_delay where "lpc5411x_time_delay = Platform_Imxrt1170.platform_time_delay"
definition lpc5411x_in_isr where "lpc5411x_in_isr = Platform_Imxrt1170.platform_in_isr"
definition lpc5411x_MAILBOX_IRQHandler where "lpc5411x_MAILBOX_IRQHandler = mailbox_isr"
definition lpc5411x_mcmgr_event_handler where "lpc5411x_mcmgr_event_handler = mcmgr_vring_handler"

definition lpc55s69_port :: mb_port where
  "lpc55s69_port = \<lparr>mbp_lock_checked = True, mbp_priority = (\<lambda>side_a. 5), mbp_link = 0\<rparr>"

definition lpc55s69_init_interrupt where "lpc55s69_init_interrupt = mb_init_interrupt lpc55s69_port"
definition lpc55s69_deinit_interrupt where "lpc55s69_deinit_interrupt = mb_deinit_interrupt lpc55s69_port"
definition lpc55s69_notify where "lpc55s69_notify = mb_notify lpc55s69_port"
definition lpc55s69_interrupt_enable where "lpc55s69_interrupt_enable = mb_interrupt_enable"
definition lpc55s69_interrupt_disable where "lpc55s69_interrupt_disable = mb_interrupt_disable"
definition lpc55s69_init where "lpc55s69_init = mb_init"
definition lpc55s69_deinit where "lpc55s69_deinit = mb_deinit"
definition lpc55s69_time_delay where "lpc55s69_time_delay = Platform_Imxrt1170.platform_time_delay"
definition lpc55s69_in_isr where "lpc55s69_in_isr = Platform_Imxrt1170.platform_in_isr"
definition lpc55s69_MAILBOX_IRQHandler where "lpc55s69_MAILBOX_IRQHandler = mailbox_isr"
definition lpc55s69_mcmgr_event_handler where "lpc55s69_mcmgr_event_handler = mcmgr_vring_handler"

definition mcxnx4x_port :: mb_port where
  "mcxnx4x_port = \<lparr>mbp_lock_checked = True, mbp_priority = (\<lambda>side_a. 5), mbp_link = 0\<rparr>"

definition mcxnx4x_init_interrupt where "mcxnx4x_init_interrupt = mb_init_interrupt mcxnx4x_port"
definition mcxnx4x_deinit_interrupt where "mcxnx4x_deinit_interrupt = mb_deinit_interrupt mcxnx4x_port"
definition mcxnx4x_notify where "mcxnx4x_notify = mb_notify mcxnx4x_port"
definition mcxnx4x_interrupt_enable where "mcxnx4x_interrupt_enable = mb_interrupt_enable"
definition mcxnx4x_interrupt_disable where "mcxnx4x_interrupt_disable = mb_interrupt_disable"
definition mcxnx4x_init where "mcxnx4x_init = mb_init"
definition mcxnx4x_deinit where "mcxnx4x_deinit = mb_deinit"
definition mcxnx4x_time_delay where "mcxnx4x_time_delay = Platform_Imxrt1170.platform_time_delay"
definition mcxnx4x_in_isr where "mcxnx4x_in_isr = Platform_Imxrt1170.platform_in_isr"
definition mcxnx4x_MAILBOX_IRQHandler where "mcxnx4x_MAILBOX_IRQHandler = mailbox_isr"
definition mcxnx4x_mcmgr_event_handler where "mcxnx4x_mcmgr_event_handler = mcmgr_vring_handler"

section \<open>Nesting of the interrupt calls\<close>

definition mb_irq_inv :: "bool \<Rightarrow> mb_plat \<Rightarrow> bool" where
  "mb_irq_inv b pl \<longleftrightarrow> 0 \<le> mb_disable_counter pl
     \<and> switched Mailbox_EnableIRQ Mailbox_DisableIRQ b (mb_log pl) = (mb_disable_counter pl = 0)"

interpretation mailbox: irq_nesting mb_interrupt_disable mb_interrupt_enable "\<lambda>v. ()" "\<lambda>c. True" "mb_irq_inv b"
  "\<lambda>pl c. mb_disable_counter pl" for b
  by unfold_locales
    (auto simp: mb_interrupt_disable_def mb_interrupt_enable_def mb_irq_inv_def mb_do_def Let_def split: bind_splits if_splits)

text \<open>For any vectors: the interrupt is on exactly while as many enables as disables were called.\<close>

lemma mb_irq_depth: "irq_depth (\<lambda>v. ()) () cs = int (length (filter fst cs)) - int (length (filter (\<lambda>c. \<not> fst c) cs))"
  by (induction cs) auto

lemma mb_interrupt_nesting:
  assumes "mb_irq_inv b pl" "irq_calls mb_interrupt_disable mb_interrupt_enable cs pl = Some pl'"
  shows "switched Mailbox_EnableIRQ Mailbox_DisableIRQ b (mb_log pl') \<longleftrightarrow>
    mb_disable_counter pl + int (length (filter fst cs)) = int (length (filter (\<lambda>c. \<not> fst c) cs))"
  using mailbox.calls_count [OF assms, of "()"] by (auto simp: mb_irq_inv_def mb_irq_depth)

section \<open>Deinitialisation\<close>

text \<open>\<open>platform_deinit\<close> returns exactly if the other core empties its register at some time.\<close>

lemma mb_wait_clear_ends: "n \<le> m \<Longrightarrow> MAILBOX_GetValue H (\<not> a) (peer m) = 0 \<Longrightarrow> \<exists>k. mb_wait_clear H a peer n = Some k"
proof (induction "m - n" arbitrary: n)
  case 0
  then have "m = n" by simp
  then show ?case using 0 by (subst mb_wait_clear.simps) simp
next
  case (Suc d)
  have "\<exists>k. mb_wait_clear H a peer (Suc n) = Some k" using Suc.hyps(2) Suc.prems by (intro Suc.hyps(1)) auto
  then show ?case by (subst mb_wait_clear.simps) simp
qed

lemma mb_wait_clear_zero: "mb_wait_clear H a peer n = Some k \<Longrightarrow> n \<le> k \<and> MAILBOX_GetValue H (\<not> a) (peer k) = 0"
  by (erule mb_wait_clear.raw_induct [where P = "\<lambda>H a peer n k. n \<le> k \<and> MAILBOX_GetValue H (\<not> a) (peer k) = 0", rotated])
    (fastforce split: if_splits)

lemma mb_deinit_returns:
  "mb_deinit H a peer delete_mutex s \<noteq> None \<longleftrightarrow> (\<exists>m. MAILBOX_GetValue H (\<not> a) (peer m) = 0)"
proof -
  have "mb_deinit H a peer delete_mutex s \<noteq> None \<longleftrightarrow> mb_wait_clear H a peer 0 \<noteq> None"
    by (cases s) (auto simp: mb_deinit_def Let_def split: bind_splits)
  then show ?thesis using mb_wait_clear_ends [of 0 _ H a peer] mb_wait_clear_zero [of H a peer 0] by auto
qed

section \<open>Notifications\<close>

text \<open>What the ports rely on: setting and clearing bits of one register is that, and leaves the other alone.\<close>

definition mailbox_reg :: "'h mailbox \<Rightarrow> bool \<Rightarrow> 'h flag_reg" where
  "mailbox_reg H a = \<lparr>flags_get = MAILBOX_GetValue H a, flags_set = MAILBOX_SetValueBits H a, flags_clear = MAILBOX_ClearValueBits H a\<rparr>"

definition mailbox_ok :: "'h mailbox \<Rightarrow> bool" where
  "mailbox_ok H \<longleftrightarrow> (\<forall>a. flag_reg_ok (mailbox_reg H a))
     \<and> (\<forall>a m h. MAILBOX_GetValue H a (MAILBOX_SetValueBits H (\<not> a) m h) = MAILBOX_GetValue H a h)
     \<and> (\<forall>a m h. MAILBOX_GetValue H a (MAILBOX_ClearValueBits H (\<not> a) m h) = MAILBOX_GetValue H a h)"

lemma mailbox_isr_flags:
  "mailbox_isr H a isr s = flags_isr (MAILBOX_ClearValueBits H a) 1 2 isr (MAILBOX_GetValue H a (fst s)) s"
  by (simp add: mailbox_isr_def flags_isr_def Let_def and.commute)

text \<open>
  The side \<open>a\<close> and its peer: the peer calls \<open>platform_notify\<close> for queues of the link, the handler of this
  side runs access by access, and its \<open>env_isr\<close> may notify the peer.
\<close>

inductive mb_step :: "mb_port \<Rightarrow> 'h mailbox \<Rightarrow> bool \<Rightarrow> isr_pc \<times> 'h \<times> flag_event list \<Rightarrow> isr_pc \<times> 'h \<times> flag_event list \<Rightarrow> bool"
  for P H a where
  mb_peer_notifies: "RL_GET_LINK_ID v = mbp_link P \<Longrightarrow>
    mb_notify P False H (\<not> a) (\<lambda>l e. Some e) (\<lambda>l e. Some e) v (pl, h, ()) = Some (pl', h', ()) \<Longrightarrow>
    mb_step P H a (pc, h, evs) (pc, h', evs @ [Notified (RL_GET_Q_ID v = 1)])"
| mb_handler: "mb_step P H a s (isr_step (mailbox_reg H a) 1 2 s)"

lemma mb_notify_sets:
  "RL_GET_LINK_ID v = mbp_link P \<Longrightarrow>
   mb_notify P False H (\<not> a) (\<lambda>l e. Some e) (\<lambda>l e. Some e) v (pl, h, e)
     = Some (pl, flags_set (mailbox_reg H a) (queue_mask 1 2 (RL_GET_Q_ID v = 1)) h, e)"
  using q_id_cases [of v] by (auto simp: mb_notify_def shl1_def mailbox_reg_def Let_def)

lemma mb_step_flag_step: "mb_step P H a s s' \<Longrightarrow> flag_step (mailbox_reg H a) 1 2 s s'"
proof (induction rule: mb_step.induct)
  case (mb_peer_notifies v pl h pl' h' pc evs)
  then show ?case using mb_notify_sets [of v P H a pl h "()"] flag_notify [of "mailbox_reg H a" 1 2 pc h evs "RL_GET_Q_ID v = 1"]
    by simp
qed (rule flag_isr)

text \<open>
  C32: no notification through the mailbox is lost, although a bit that is set twice is one event: whenever the
  peer has called \<open>platform_notify\<close> for a queue since \<open>env_isr\<close> was last called for it, the bit of the queue is set or
  the handler is between clearing it and calling \<open>env_isr\<close>; there are never more calls than notifications;
  and when the handler is let run, at most nine of its accesses later every notification has been followed by a call.
\<close>

theorem mailbox_not_lost:
  assumes "mailbox_ok H" and "MAILBOX_GetValue H a h0 = 0"
    and "(mb_step P H a)\<^sup>*\<^sup>* (Isr_Idle, h0, []) (pc, h, evs)"
  shows "(\<forall>q as bs. evs = as @ Notified q # bs \<longrightarrow> Isr_called q \<notin> set bs \<longrightarrow>
      (if q then 2 else 1) AND MAILBOX_GetValue H a h \<noteq> 0 \<or> calling q pc)
    \<and> (\<forall>q. calls_of q evs \<le> notified_of q evs)
    \<and> (\<exists>k\<le>9. case (isr_step (mailbox_reg H a) 1 2 ^^ k) (pc, h, evs) of (pc', h', evs') \<Rightarrow>
      pc' = Isr_Idle \<and> (\<forall>q as bs. evs' = as @ Notified q # bs \<longrightarrow> Isr_called q \<in> set bs))"
proof -
  let ?H = "mailbox_reg H a"
  have m: "masks_ok 1 2" by (simp add: masks_ok_def)
  have h: "flag_reg_ok ?H" "flags_get ?H = MAILBOX_GetValue H a" using assms(1) by (auto simp: mailbox_ok_def mailbox_reg_def)
  have r: "(flag_step ?H 1 2)\<^sup>*\<^sup>* (Isr_Idle, h0, []) (pc, h, evs)"
    using assms(3) by (rule rtranclp_mono [THEN predicate2D, rotated]) (auto intro: mb_step_flag_step)
  note n = flags_not_lost [OF h(1) m _ r, unfolded h(2), OF assms(2)]
  show ?thesis using n by blast
qed

text \<open>A mailbox of two words.\<close>

definition ref_mailbox :: "(bool \<Rightarrow> u32) mailbox" where
  "ref_mailbox = \<lparr>MAILBOX_GetValue = (\<lambda>a h. h a), MAILBOX_SetValueBits = (\<lambda>a m h. h(a := h a OR m)),
     MAILBOX_ClearValueBits = (\<lambda>a m h. h(a := h a AND NOT m))\<rparr>"

lemma ref_mailbox_ok: "mailbox_ok ref_mailbox"
  by (simp add: mailbox_ok_def flag_reg_ok_def mailbox_reg_def ref_mailbox_def)

theorem mailbox_not_lost_witness:
  "\<exists>k\<le>9. case (isr_step (mailbox_reg ref_mailbox True) 1 2 ^^ k) (Isr_Idle, (\<lambda>a. 0)(True := 2), [Notified True]) of
     (pc', h', evs') \<Rightarrow> pc' = Isr_Idle \<and> (\<forall>q as bs. evs' = as @ Notified q # bs \<longrightarrow> Isr_called q \<in> set bs)"
proof -
  have "mb_step lpc55s69_port ref_mailbox True (Isr_Idle, \<lambda>a. 0, []) (Isr_Idle, (\<lambda>a. 0)(True := 2), [] @ [Notified (RL_GET_Q_ID 1 = 1)])"
    by (rule mb_peer_notifies [where pl = pl and pl' = pl for pl])
      (simp_all add: mb_notify_def lpc55s69_port_def RL_GET_LINK_ID_def RL_GET_Q_ID_def ref_mailbox_def shl1_def Let_def)
  then have "(mb_step lpc55s69_port ref_mailbox True)\<^sup>*\<^sup>* (Isr_Idle, \<lambda>a. 0, []) (Isr_Idle, (\<lambda>a. 0)(True := 2), [Notified True])"
    by (simp add: RL_GET_Q_ID_def r_into_rtranclp)
  from mailbox_not_lost [OF ref_mailbox_ok _ this] show ?thesis by (simp add: ref_mailbox_def)
qed

end
