(* ===== verification/Platform_Imu.thy ===== *)
theory Platform_Imu
  imports Platform_Imxrt1170 Platform_Mailbox Shmem_Crc
begin

text \<open>
  The ports for KW45B41, KW47B42, K32W1, MCXW71x and MCXW72x (\<^verbatim>\<open>rpmsg_platform.c\<close> in the directories of these
  names under \<^verbatim>\<open>lib/rpmsg_lite/porting/platform\<close>): notifications go through the multicore manager, the rest
  through an inter-processor unit (IMU). Calls of the SDK and of the manager are recorded.
\<close>

datatype imu_call =
    IMU_Init
  | IMU_Deinit
  | IMU_ClearPendingInterrupts
  | Imu_SetPriority nat
  | Imu_Nvic_EnableIRQ
  | Imu_Nvic_DisableIRQ
  | Imu_EnableIRQ
  | Imu_DisableIRQ
  | Imu_RegisterEvent
  | MCMGR_TriggerEvent nat u16

record imu_plat =
  imu_isr_counter :: int
  imu_disable_counter :: int
  imu_lock :: ptr
  imu_lock_var :: ptr
  imu_primask :: bool
  imu_log :: "imu_call list"

definition imu_do :: "imu_call list \<Rightarrow> imu_plat \<Rightarrow> imu_plat" where
  "imu_do cs pl = pl\<lparr>imu_log := imu_log pl @ cs\<rparr>"

text \<open>The interrupt handler without the manager. It clears the interrupt after it has called \<open>env_isr\<close>.\<close>

definition imu_rx_isr :: "(u32 \<Rightarrow> imu_plat \<times> 's \<Rightarrow> (imu_plat \<times> 's) option) \<Rightarrow> imu_plat \<times> 's \<Rightarrow> (imu_plat \<times> 's) option" where
  "imu_rx_isr isr s = do { (pl, e) \<leftarrow> isr 0 s; Some (imu_do [IMU_ClearPendingInterrupts] pl, e) }"

definition imu_init_interrupt ::
  "(u32 \<Rightarrow> ptr \<Rightarrow> 'e \<Rightarrow> 'e option) \<Rightarrow> (ptr \<Rightarrow> 'e \<Rightarrow> 'e option) \<Rightarrow> (ptr \<Rightarrow> 'e \<Rightarrow> 'e option)
    \<Rightarrow> u32 \<Rightarrow> ptr \<Rightarrow> imu_plat \<times> 'e \<Rightarrow> (int \<times> imu_plat \<times> 'e) option" where
  "imu_init_interrupt register_isr lock unlock vector_id isr_data s =
     (let (pl, e) = s
      in if imu_lock pl \<noteq> NULL
         then do {
           e \<leftarrow> register_isr vector_id isr_data e;
           e \<leftarrow> lock (imu_lock pl) e;
           rl_assert (0 \<le> imu_isr_counter pl);
           let pl = (if imu_isr_counter pl < 2 then imu_do [Imu_EnableIRQ] pl else pl);
           let pl = pl\<lparr>imu_isr_counter := imu_isr_counter pl + 1\<rparr>;
           e \<leftarrow> unlock (imu_lock pl) e;
           Some (0, pl, e) }
         else Some (-1, pl, e))"

definition imu_deinit_interrupt ::
  "(u32 \<Rightarrow> 'e \<Rightarrow> 'e option) \<Rightarrow> (ptr \<Rightarrow> 'e \<Rightarrow> 'e option) \<Rightarrow> (ptr \<Rightarrow> 'e \<Rightarrow> 'e option)
    \<Rightarrow> u32 \<Rightarrow> imu_plat \<times> 'e \<Rightarrow> (int \<times> imu_plat \<times> 'e) option" where
  "imu_deinit_interrupt unregister_isr lock unlock vector_id s =
     (let (pl, e) = s
      in if imu_lock pl \<noteq> NULL
         then do {
           e \<leftarrow> lock (imu_lock pl) e;
           rl_assert (0 < imu_isr_counter pl);
           let pl = pl\<lparr>imu_isr_counter := imu_isr_counter pl - 1\<rparr>;
           let pl = (if imu_isr_counter pl < 2 then imu_do [Imu_DisableIRQ] pl else pl);
           e \<leftarrow> unregister_isr vector_id e;
           e \<leftarrow> unlock (imu_lock pl) e;
           Some (0, pl, e) }
         else Some (-1, pl, e))"

text \<open>Without the manager the notification is not supported and does nothing. \<open>core0\<close> is \<open>RPMSG_BUILD_FOR_CORE_0\<close>.\<close>

definition imu_notify ::
  "bool \<Rightarrow> bool \<Rightarrow> (ptr \<Rightarrow> 'e \<Rightarrow> 'e option) \<Rightarrow> (ptr \<Rightarrow> 'e \<Rightarrow> 'e option) \<Rightarrow> u32 \<Rightarrow> imu_plat \<times> 'e \<Rightarrow> (imu_plat \<times> 'e) option" where
  "imu_notify mcmgr core0 lock unlock vector_id s =
     (let (pl, e) = s
      in do {
        e \<leftarrow> lock (imu_lock pl) e;
        let pl = (if mcmgr then imu_do [MCMGR_TriggerEvent (if core0 then 1 else 0) (ucast (RL_GET_Q_ID vector_id))] pl else pl);
        e \<leftarrow> unlock (imu_lock pl) e;
        Some (pl, e) })"

definition imu_interrupt_enable :: "u32 \<Rightarrow> imu_plat \<Rightarrow> (int \<times> imu_plat) option" where
  "imu_interrupt_enable vector_id pl =
     do { rl_assert (0 < imu_disable_counter pl);
          let pl = pl\<lparr>imu_primask := True\<rparr>;
          let pl = pl\<lparr>imu_disable_counter := imu_disable_counter pl - 1\<rparr>;
          let pl = (if imu_disable_counter pl = 0 then imu_do [Imu_Nvic_EnableIRQ] pl else pl);
          Some (0, pl\<lparr>imu_primask := False\<rparr>) }"

definition imu_interrupt_disable :: "u32 \<Rightarrow> imu_plat \<Rightarrow> (int \<times> imu_plat) option" where
  "imu_interrupt_disable vector_id pl =
     do { rl_assert (0 \<le> imu_disable_counter pl);
          let pl = pl\<lparr>imu_primask := True\<rparr>;
          let pl = (if imu_disable_counter pl = 0 then imu_do [Imu_Nvic_DisableIRQ] pl else pl);
          let pl = pl\<lparr>imu_disable_counter := imu_disable_counter pl + 1\<rparr>;
          Some (0, pl\<lparr>imu_primask := False\<rparr>) }"

definition imu_init ::
  "bool \<Rightarrow> bool \<Rightarrow> (ptr \<Rightarrow> int \<Rightarrow> 'e \<Rightarrow> int \<times> ptr \<times> 'e) \<Rightarrow> imu_plat \<times> 'e \<Rightarrow> int \<times> imu_plat \<times> 'e" where
  "imu_init mcmgr registered create_mutex s =
     (let (pl, e) = s;
          pl = imu_do (if mcmgr then [Imu_RegisterEvent] else [IMU_Init, Imu_SetPriority 3, Imu_Nvic_EnableIRQ]) pl
      in if mcmgr \<and> \<not> registered then (-1, pl, e)
         else let (st, l, e) = create_mutex (imu_lock_var pl) 1 e; pl = pl\<lparr>imu_lock := l\<rparr>
              in if st \<noteq> 0 then (-1, pl, e) else (0, pl, e))"

definition imu_deinit :: "(ptr \<Rightarrow> 'e \<Rightarrow> 'e) \<Rightarrow> imu_plat \<times> 'e \<Rightarrow> int \<times> imu_plat \<times> 'e" where
  "imu_deinit delete_mutex s =
     (let (pl, e) = s; pl = imu_do [IMU_Deinit] pl; e = delete_mutex (imu_lock pl) e
      in (0, pl\<lparr>imu_lock := NULL\<rparr>, e))"

text \<open>
  \<^verbatim>\<open>rpmsg_platform_ext.c\<close>: the two cores see the shared memory at different addresses; the second one translates.
\<close>

definition imu_cpu1_vatopa :: "ptr \<Rightarrow> u32" where "imu_cpu1_vatopa addr = addr"
definition imu_cpu1_patova :: "u32 \<Rightarrow> ptr" where "imu_cpu1_patova addr = addr"
definition imu_cpu2_vatopa :: "ptr \<Rightarrow> u32" where "imu_cpu2_vatopa addr = (addr AND 0x0000FFFF) + 0x489C0000"
definition imu_cpu2_patova :: "u32 \<Rightarrow> ptr" where "imu_cpu2_patova addr = (addr AND 0x0000FFFF) + 0xB0000000"

section \<open>The ports\<close>

definition kw45b41_init_interrupt where "kw45b41_init_interrupt = imu_init_interrupt"
definition kw45b41_deinit_interrupt where "kw45b41_deinit_interrupt = imu_deinit_interrupt"
definition kw45b41_notify where "kw45b41_notify = imu_notify"
definition kw45b41_interrupt_enable where "kw45b41_interrupt_enable = imu_interrupt_enable"
definition kw45b41_interrupt_disable where "kw45b41_interrupt_disable = imu_interrupt_disable"
definition kw45b41_init where "kw45b41_init = imu_init"
definition kw45b41_deinit where "kw45b41_deinit = imu_deinit"
definition kw45b41_imu_rx_isr where "kw45b41_imu_rx_isr = imu_rx_isr"
definition kw45b41_mcmgr_event_handler where "kw45b41_mcmgr_event_handler = mcmgr_vring_handler"
definition kw45b41_time_delay where "kw45b41_time_delay = Platform_Imxrt1170.platform_time_delay"
definition kw45b41_in_isr where "kw45b41_in_isr = Platform_Imxrt1170.platform_in_isr"
definition kw45b41_set_static_shmem_config where "kw45b41_set_static_shmem_config = platform_set_static_shmem_config"
definition kw45b41_get_custom_shmem_config where "kw45b41_get_custom_shmem_config = platform_get_custom_shmem_config"
definition kw45b41_compute_crc_over_shmem_struct where "kw45b41_compute_crc_over_shmem_struct = platform_compute_crc_over_shmem_struct"

definition kw47b42_init_interrupt where "kw47b42_init_interrupt = imu_init_interrupt"
definition kw47b42_deinit_interrupt where "kw47b42_deinit_interrupt = imu_deinit_interrupt"
definition kw47b42_notify where "kw47b42_notify = imu_notify"
definition kw47b42_interrupt_enable where "kw47b42_interrupt_enable = imu_interrupt_enable"
definition kw47b42_interrupt_disable where "kw47b42_interrupt_disable = imu_interrupt_disable"
definition kw47b42_init where "kw47b42_init = imu_init"
definition kw47b42_deinit where "kw47b42_deinit = imu_deinit"
definition kw47b42_imu_rx_isr where "kw47b42_imu_rx_isr = imu_rx_isr"
definition kw47b42_mcmgr_event_handler where "kw47b42_mcmgr_event_handler = mcmgr_vring_handler"
definition kw47b42_time_delay where "kw47b42_time_delay = Platform_Imxrt1170.platform_time_delay"
definition kw47b42_in_isr where "kw47b42_in_isr = Platform_Imxrt1170.platform_in_isr"
definition kw47b42_set_static_shmem_config where "kw47b42_set_static_shmem_config = platform_set_static_shmem_config"
definition kw47b42_get_custom_shmem_config where "kw47b42_get_custom_shmem_config = platform_get_custom_shmem_config"
definition kw47b42_compute_crc_over_shmem_struct where "kw47b42_compute_crc_over_shmem_struct = platform_compute_crc_over_shmem_struct"

definition k32w1_init_interrupt where "k32w1_init_interrupt = imu_init_interrupt"
definition k32w1_deinit_interrupt where "k32w1_deinit_interrupt = imu_deinit_interrupt"
definition k32w1_notify where "k32w1_notify = imu_notify"
definition k32w1_interrupt_enable where "k32w1_interrupt_enable = imu_interrupt_enable"
definition k32w1_interrupt_disable where "k32w1_interrupt_disable = imu_interrupt_disable"
definition k32w1_init where "k32w1_init = imu_init"
definition k32w1_deinit where "k32w1_deinit = imu_deinit"
definition k32w1_imu_rx_isr where "k32w1_imu_rx_isr = imu_rx_isr"
definition k32w1_mcmgr_event_handler where "k32w1_mcmgr_event_handler = mcmgr_vring_handler"
definition k32w1_time_delay where "k32w1_time_delay = Platform_Imxrt1170.platform_time_delay"
definition k32w1_in_isr where "k32w1_in_isr = Platform_Imxrt1170.platform_in_isr"
definition k32w1_set_static_shmem_config where "k32w1_set_static_shmem_config = platform_set_static_shmem_config"
definition k32w1_get_custom_shmem_config where "k32w1_get_custom_shmem_config = platform_get_custom_shmem_config"
definition k32w1_compute_crc_over_shmem_struct where "k32w1_compute_crc_over_shmem_struct = platform_compute_crc_over_shmem_struct"

definition mcxw71x_init_interrupt where "mcxw71x_init_interrupt = imu_init_interrupt"
definition mcxw71x_deinit_interrupt where "mcxw71x_deinit_interrupt = imu_deinit_interrupt"
definition mcxw71x_notify where "mcxw71x_notify = imu_notify"
definition mcxw71x_interrupt_enable where "mcxw71x_interrupt_enable = imu_interrupt_enable"
definition mcxw71x_interrupt_disable where "mcxw71x_interrupt_disable = imu_interrupt_disable"
definition mcxw71x_init where "mcxw71x_init = imu_init"
definition mcxw71x_deinit where "mcxw71x_deinit = imu_deinit"
definition mcxw71x_imu_rx_isr where "mcxw71x_imu_rx_isr = imu_rx_isr"
definition mcxw71x_mcmgr_event_handler where "mcxw71x_mcmgr_event_handler = mcmgr_vring_handler"
definition mcxw71x_time_delay where "mcxw71x_time_delay = Platform_Imxrt1170.platform_time_delay"
definition mcxw71x_in_isr where "mcxw71x_in_isr = Platform_Imxrt1170.platform_in_isr"
definition mcxw71x_set_static_shmem_config where "mcxw71x_set_static_shmem_config = platform_set_static_shmem_config"
definition mcxw71x_get_custom_shmem_config where "mcxw71x_get_custom_shmem_config = platform_get_custom_shmem_config"
definition mcxw71x_compute_crc_over_shmem_struct where "mcxw71x_compute_crc_over_shmem_struct = platform_compute_crc_over_shmem_struct"

definition mcxw72x_init_interrupt where "mcxw72x_init_interrupt = imu_init_interrupt"
definition mcxw72x_deinit_interrupt where "mcxw72x_deinit_interrupt = imu_deinit_interrupt"
definition mcxw72x_notify where "mcxw72x_notify = imu_notify"
definition mcxw72x_interrupt_enable where "mcxw72x_interrupt_enable = imu_interrupt_enable"
definition mcxw72x_interrupt_disable where "mcxw72x_interrupt_disable = imu_interrupt_disable"
definition mcxw72x_init where "mcxw72x_init = imu_init"
definition mcxw72x_deinit where "mcxw72x_deinit = imu_deinit"
definition mcxw72x_imu_rx_isr where "mcxw72x_imu_rx_isr = imu_rx_isr"
definition mcxw72x_mcmgr_event_handler where "mcxw72x_mcmgr_event_handler = mcmgr_vring_handler"
definition mcxw72x_time_delay where "mcxw72x_time_delay = Platform_Imxrt1170.platform_time_delay"
definition mcxw72x_in_isr where "mcxw72x_in_isr = Platform_Imxrt1170.platform_in_isr"
definition mcxw72x_set_static_shmem_config where "mcxw72x_set_static_shmem_config = platform_set_static_shmem_config"
definition mcxw72x_get_custom_shmem_config where "mcxw72x_get_custom_shmem_config = platform_get_custom_shmem_config"
definition mcxw72x_compute_crc_over_shmem_struct where "mcxw72x_compute_crc_over_shmem_struct = platform_compute_crc_over_shmem_struct"

definition kw45b41_cpu1_vatopa where "kw45b41_cpu1_vatopa = imu_cpu1_vatopa"
definition kw45b41_cpu1_patova where "kw45b41_cpu1_patova = imu_cpu1_patova"
definition kw45b41_cpu2_vatopa where "kw45b41_cpu2_vatopa = imu_cpu2_vatopa"
definition kw45b41_cpu2_patova where "kw45b41_cpu2_patova = imu_cpu2_patova"

definition kw47b42_cpu1_vatopa where "kw47b42_cpu1_vatopa = imu_cpu1_vatopa"
definition kw47b42_cpu1_patova where "kw47b42_cpu1_patova = imu_cpu1_patova"
definition kw47b42_cpu2_vatopa where "kw47b42_cpu2_vatopa = imu_cpu2_vatopa"
definition kw47b42_cpu2_patova where "kw47b42_cpu2_patova = imu_cpu2_patova"

definition k32w1_cpu1_vatopa where "k32w1_cpu1_vatopa = imu_cpu1_vatopa"
definition k32w1_cpu1_patova where "k32w1_cpu1_patova = imu_cpu1_patova"
definition k32w1_cpu2_vatopa where "k32w1_cpu2_vatopa = imu_cpu2_vatopa"
definition k32w1_cpu2_patova where "k32w1_cpu2_patova = imu_cpu2_patova"

definition mcxw71x_cpu1_vatopa where "mcxw71x_cpu1_vatopa = imu_cpu1_vatopa"
definition mcxw71x_cpu1_patova where "mcxw71x_cpu1_patova = imu_cpu1_patova"
definition mcxw71x_cpu2_vatopa where "mcxw71x_cpu2_vatopa = imu_cpu2_vatopa"
definition mcxw71x_cpu2_patova where "mcxw71x_cpu2_patova = imu_cpu2_patova"

definition mcxw72x_cpu1_vatopa where "mcxw72x_cpu1_vatopa = imu_cpu1_vatopa"
definition mcxw72x_cpu1_patova where "mcxw72x_cpu1_patova = imu_cpu1_patova"
definition mcxw72x_cpu2_vatopa where "mcxw72x_cpu2_vatopa = imu_cpu2_vatopa"
definition mcxw72x_cpu2_patova where "mcxw72x_cpu2_patova = imu_cpu2_patova"

section \<open>Facts\<close>

text \<open>Both translations of the second core are inverse to each other on the 64 KiB of the shared memory.\<close>

lemma imu_cpu2_roundtrip:
  "imu_cpu2_patova (imu_cpu2_vatopa (0xB0000000 + a)) = 0xB0000000 + a \<longleftrightarrow> unat a < 2 ^ 16"
  "imu_cpu2_vatopa (imu_cpu2_patova (0x489C0000 + a)) = 0x489C0000 + a \<longleftrightarrow> unat a < 2 ^ 16"
proof -
  have m: "x AND 0x0000FFFF = take_bit 16 x" for x :: u32 by (simp add: take_bit_eq_mask mask_eq_exp_minus_1)
  have z: "take_bit 16 (c + x) = take_bit 16 x" if "take_bit 16 c = 0" for c x :: u32
  proof -
    have "unat c mod 65536 = 0"
      using arg_cong [OF that, of unat] by (simp add: unsigned_take_bit_eq take_bit_eq_mod unat_mod)
    then have "(unat c + unat x) mod 65536 = unat x mod 65536"
      using mod_add_left_eq [of "unat c" 65536 "unat x"] by simp
    moreover have "(unat c + unat x) mod 4294967296 mod 65536 = (unat c + unat x) mod 65536"
      by (rule mod_mod_cancel) simp
    ultimately have "(unat c + unat x) mod 4294967296 mod 65536 = unat x mod 65536" by simp
    then show ?thesis
      by (simp only: word_unat_eq_iff unsigned_take_bit_eq take_bit_eq_mod unat_word_ariths) simp
  qed
  have e: "take_bit 16 (0xB0000000 + a) = take_bit 16 a" "take_bit 16 (0x489C0000 + a) = take_bit 16 a"
    "take_bit 16 (take_bit 16 a + 0x489C0000) = take_bit 16 a" "take_bit 16 (take_bit 16 a + 0xB0000000) = take_bit 16 a"
    using z [of "0xB0000000" a] z [of "0x489C0000" a] z [of "0x489C0000" "take_bit 16 a"] z [of "0xB0000000" "take_bit 16 a"]
    by (simp_all add: add.commute)
  have k: "take_bit 16 a + c = c + a \<longleftrightarrow> unat a < 2 ^ 16" for c
    by (simp add: add.commute [of c] word_unat_eq_iff [of "take_bit 16 a"] unsigned_take_bit_eq take_bit_nat_eq_self_iff)
  show "imu_cpu2_patova (imu_cpu2_vatopa (0xB0000000 + a)) = 0xB0000000 + a \<longleftrightarrow> unat a < 2 ^ 16"
    unfolding imu_cpu2_patova_def imu_cpu2_vatopa_def m e by (rule k)
  show "imu_cpu2_vatopa (imu_cpu2_patova (0x489C0000 + a)) = 0x489C0000 + a \<longleftrightarrow> unat a < 2 ^ 16"
    unfolding imu_cpu2_patova_def imu_cpu2_vatopa_def m e by (rule k)
qed


definition imu_irq_inv :: "bool \<Rightarrow> imu_plat \<Rightarrow> bool" where
  "imu_irq_inv b pl \<longleftrightarrow> 0 \<le> imu_disable_counter pl
     \<and> switched Imu_Nvic_EnableIRQ Imu_Nvic_DisableIRQ b (imu_log pl) = (imu_disable_counter pl = 0)"

interpretation imu: irq_nesting imu_interrupt_disable imu_interrupt_enable "\<lambda>v. ()" "\<lambda>c. True" "imu_irq_inv b"
  "\<lambda>pl c. imu_disable_counter pl" for b
  by unfold_locales
    (auto simp: imu_interrupt_disable_def imu_interrupt_enable_def imu_irq_inv_def imu_do_def Let_def split: bind_splits if_splits)

lemma imu_interrupt_nesting:
  assumes "imu_irq_inv b pl" "irq_calls imu_interrupt_disable imu_interrupt_enable cs pl = Some pl'"
  shows "switched Imu_Nvic_EnableIRQ Imu_Nvic_DisableIRQ b (imu_log pl')
    = (imu_disable_counter pl + irq_depth (\<lambda>v. ()) () cs = 0)"
  using imu.calls_count [OF assms, of "()"] by (simp add: imu_irq_inv_def)

text \<open>
  There is one interrupt line for both queues, and it is switched off when the first of the two handlers is removed, while
  the other is still registered.
\<close>

lemma imu_deinit_interrupt_early:
  assumes "imu_deinit_interrupt unreg lock unlock v (pl, e) = Some (0, pl', e')" and "imu_isr_counter pl = 2"
  shows "imu_isr_counter pl' = 1 \<and> \<not> switched Imu_EnableIRQ Imu_DisableIRQ b (imu_log pl')"
  using assms by (auto simp: imu_deinit_interrupt_def imu_do_def Let_def split: bind_splits if_splits)

end
