(* ===== verification/Platform_Ipm_Ports.thy ===== *)
theory Platform_Ipm_Ports
  imports Platform_Ipm
begin

text \<open>
  The other ports for Zephyr (\<^verbatim>\<open>rpmsg_platform_zephyr_ipm.c\<close> in the directories \<^verbatim>\<open>imxrt1160\<close>, \<^verbatim>\<open>lpc55s69\<close>, \<^verbatim>\<open>lpc5411x\<close>,
  \<^verbatim>\<open>imxrt600_m33\<close>, \<^verbatim>\<open>imxrt600_hifi4\<close>, \<^verbatim>\<open>imxrt700_m33\<close>, \<^verbatim>\<open>imxrt700_hifi4\<close>, \<^verbatim>\<open>imx6sx_m4\<close> and \<^verbatim>\<open>imx7d_m4\<close> under
  \<^verbatim>\<open>lib/rpmsg_lite/porting/platform\<close>), over the definitions of \<open>Platform_Ipm\<close>. The i.MX RT600 and RT700 notify
  for every link and keep the state of the interrupts with \<open>irq_lock\<close>; the i.MX 6SX and 7D send the word of their ports
  without Zephyr on a channel of a messaging unit.
\<close>

section \<open>i.MX RT600 and RT700\<close>

definition ipm_notify_any ::
  "(ptr \<Rightarrow> 'e \<Rightarrow> 'e option) \<Rightarrow> (ptr \<Rightarrow> 'e \<Rightarrow> 'e option) \<Rightarrow> u32 \<Rightarrow> ipm_plat \<times> 'e \<Rightarrow> (ipm_plat \<times> 'e) option" where
  "ipm_notify_any lock unlock vector_id s =
     (let (pl, e) = s
      in do {
        e \<leftarrow> lock (ip_platform_lock pl) e;
        let data = push_bit (unat (RL_GET_Q_ID vector_id)) 1;
        rl_assert (ipm_handle pl \<noteq> NULL);
        let pl = ipm_do (ipm_send data) pl;
        e \<leftarrow> unlock (ip_platform_lock pl) e;
        Some (pl, e) })"

text \<open>\<open>irq_lock\<close> returns whether interrupts were disabled before, and \<open>irq_unlock\<close> restores that.\<close>

definition ipm_key_interrupt_enable :: "u32 \<Rightarrow> ipm_plat \<Rightarrow> (int \<times> ipm_plat) option" where
  "ipm_key_interrupt_enable vector_id pl =
     do { rl_assert (0 < ip_disable_counter pl);
          let irq_key = ip_primask pl;
          let pl = pl\<lparr>ip_primask := True\<rparr>;
          let pl = pl\<lparr>ip_disable_counter := ip_disable_counter pl - 1\<rparr>;
          let pl = (if ip_disable_counter pl = 0 \<and> ipm_handle pl \<noteq> NULL then ipm_do (ipm_set_enabled True) pl else pl);
          Some (0, pl\<lparr>ip_primask := irq_key\<rparr>) }"

definition ipm_key_interrupt_disable :: "u32 \<Rightarrow> ipm_plat \<Rightarrow> (int \<times> ipm_plat) option" where
  "ipm_key_interrupt_disable vector_id pl =
     do { rl_assert (0 \<le> ip_disable_counter pl);
          let irq_key = ip_primask pl;
          let pl = pl\<lparr>ip_primask := True\<rparr>;
          let pl = (if ip_disable_counter pl = 0 \<and> ipm_handle pl \<noteq> NULL then ipm_do (ipm_set_enabled False) pl else pl);
          let pl = pl\<lparr>ip_disable_counter := ip_disable_counter pl + 1\<rparr>;
          Some (0, pl\<lparr>ip_primask := irq_key\<rparr>) }"

section \<open>i.MX 6SX and 7D\<close>

abbreviation (input) RPMSG_MU_CHANNEL :: u32 where "RPMSG_MU_CHANNEL \<equiv> 1"
abbreviation (input) EBUSY :: int where "EBUSY \<equiv> 16"

definition ipm_mu_callback :: "(u32 \<Rightarrow> 's \<Rightarrow> 's option) \<Rightarrow> u32 \<Rightarrow> u32 \<Rightarrow> 's \<Rightarrow> 's option" where
  "ipm_mu_callback isr i data s =
     (if i \<noteq> RPMSG_MU_CHANNEL then Some s
      else do { s \<leftarrow> (if data = 0 then isr 0 s else Some s);
                (if data = 0x10000 then isr 1 s else Some s) })"

text \<open>
  The loop sends until the driver's status is not \<open>EBUSY\<close>; \<open>status n\<close> is what the \<open>n\<close>-th call returns. The result is
  the number of calls, \<open>None\<close> if the loop does not end.
\<close>

partial_function (option) ipm_send_loop :: "(nat \<Rightarrow> int) \<Rightarrow> nat \<Rightarrow> nat option" where
  "ipm_send_loop status n = (if status n = EBUSY then ipm_send_loop status (Suc n) else Some (Suc n))"

definition ipm_mu_notify ::
  "(nat \<Rightarrow> int) \<Rightarrow> (ptr \<Rightarrow> 'e \<Rightarrow> 'e option) \<Rightarrow> (ptr \<Rightarrow> 'e \<Rightarrow> 'e option) \<Rightarrow> u32 \<Rightarrow> ipm_plat \<times> 'e \<Rightarrow> (ipm_plat \<times> 'e) option" where
  "ipm_mu_notify status lock unlock vector_id s =
     (let (pl, e) = s
      in if RL_GET_LINK_ID vector_id = 0
         then do {
           e \<leftarrow> lock (ip_platform_lock pl) e;
           let data = push_bit 16 (RL_GET_Q_ID vector_id);
           rl_assert (ipm_handle pl \<noteq> NULL);
           n \<leftarrow> ipm_send_loop status 0;
           let pl = pl\<lparr>ipm_log := ipm_log pl @ replicate n (ipm_send_on RPMSG_MU_CHANNEL data)\<rparr>;
           e \<leftarrow> unlock (ip_platform_lock pl) e;
           Some (pl, e) }
         else Some (pl, e))"

text \<open>\<open>binding\<close> is what \<open>device_get_binding\<close> returns.\<close>

definition ipm_mu_init ::
  "ptr \<Rightarrow> (ptr \<Rightarrow> int \<Rightarrow> 'e \<Rightarrow> int \<times> ptr \<times> 'e) \<Rightarrow> ipm_plat \<times> 'e \<Rightarrow> int \<times> ipm_plat \<times> 'e" where
  "ipm_mu_init binding create_mutex s = (let (pl, e) = s in ipm_init create_mutex (pl\<lparr>ipm_handle := binding\<rparr>, e))"

section \<open>The ports\<close>

definition imxrt1160_ipm_callback where "imxrt1160_ipm_callback = platform_ipm_callback"
definition imxrt1160_ipm_init_interrupt where "imxrt1160_ipm_init_interrupt = ipm_init_interrupt"
definition imxrt1160_ipm_deinit_interrupt where "imxrt1160_ipm_deinit_interrupt = ipm_deinit_interrupt"
definition imxrt1160_ipm_notify where "imxrt1160_ipm_notify = ipm_notify"
definition imxrt1160_ipm_in_isr where "imxrt1160_ipm_in_isr = ipm_in_isr"
definition imxrt1160_ipm_interrupt_enable where "imxrt1160_ipm_interrupt_enable = ipm_interrupt_enable"
definition imxrt1160_ipm_interrupt_disable where "imxrt1160_ipm_interrupt_disable = ipm_interrupt_disable"
definition imxrt1160_ipm_vatopa where "imxrt1160_ipm_vatopa = ipm_vatopa"
definition imxrt1160_ipm_patova where "imxrt1160_ipm_patova = ipm_patova"
definition imxrt1160_ipm_init where "imxrt1160_ipm_init = ipm_init"
definition imxrt1160_ipm_deinit where "imxrt1160_ipm_deinit = ipm_deinit"

definition lpc55s69_ipm_callback where "lpc55s69_ipm_callback = platform_ipm_callback"
definition lpc55s69_ipm_init_interrupt where "lpc55s69_ipm_init_interrupt = ipm_init_interrupt"
definition lpc55s69_ipm_deinit_interrupt where "lpc55s69_ipm_deinit_interrupt = ipm_deinit_interrupt"
definition lpc55s69_ipm_notify where "lpc55s69_ipm_notify = ipm_notify"
definition lpc55s69_ipm_in_isr where "lpc55s69_ipm_in_isr = ipm_in_isr"
definition lpc55s69_ipm_interrupt_enable where "lpc55s69_ipm_interrupt_enable = ipm_interrupt_enable"
definition lpc55s69_ipm_interrupt_disable where "lpc55s69_ipm_interrupt_disable = ipm_interrupt_disable"
definition lpc55s69_ipm_vatopa where "lpc55s69_ipm_vatopa = ipm_vatopa"
definition lpc55s69_ipm_patova where "lpc55s69_ipm_patova = ipm_patova"
definition lpc55s69_ipm_init where "lpc55s69_ipm_init = ipm_init"
definition lpc55s69_ipm_deinit where "lpc55s69_ipm_deinit = ipm_deinit"

definition lpc5411x_ipm_callback where "lpc5411x_ipm_callback = platform_ipm_callback"
definition lpc5411x_ipm_init_interrupt where "lpc5411x_ipm_init_interrupt = ipm_init_interrupt"
definition lpc5411x_ipm_deinit_interrupt where "lpc5411x_ipm_deinit_interrupt = ipm_deinit_interrupt"
definition lpc5411x_ipm_notify where "lpc5411x_ipm_notify = ipm_notify"
definition lpc5411x_ipm_in_isr where "lpc5411x_ipm_in_isr = ipm_in_isr"
definition lpc5411x_ipm_interrupt_enable where "lpc5411x_ipm_interrupt_enable = ipm_interrupt_enable"
definition lpc5411x_ipm_interrupt_disable where "lpc5411x_ipm_interrupt_disable = ipm_interrupt_disable"
definition lpc5411x_ipm_vatopa where "lpc5411x_ipm_vatopa = ipm_vatopa"
definition lpc5411x_ipm_patova where "lpc5411x_ipm_patova = ipm_patova"
definition lpc5411x_ipm_init where "lpc5411x_ipm_init = ipm_init"
definition lpc5411x_ipm_deinit where "lpc5411x_ipm_deinit = ipm_deinit"

definition imxrt600_m33_ipm_callback where "imxrt600_m33_ipm_callback = platform_ipm_callback"
definition imxrt600_m33_ipm_init_interrupt where "imxrt600_m33_ipm_init_interrupt = ipm_init_interrupt"
definition imxrt600_m33_ipm_deinit_interrupt where "imxrt600_m33_ipm_deinit_interrupt = ipm_deinit_interrupt"
definition imxrt600_m33_ipm_notify where "imxrt600_m33_ipm_notify = ipm_notify_any"
definition imxrt600_m33_ipm_in_isr where "imxrt600_m33_ipm_in_isr = ipm_in_isr"
definition imxrt600_m33_ipm_interrupt_enable where "imxrt600_m33_ipm_interrupt_enable = ipm_key_interrupt_enable"
definition imxrt600_m33_ipm_interrupt_disable where "imxrt600_m33_ipm_interrupt_disable = ipm_key_interrupt_disable"
definition imxrt600_m33_ipm_vatopa where "imxrt600_m33_ipm_vatopa = ipm_vatopa"
definition imxrt600_m33_ipm_patova where "imxrt600_m33_ipm_patova = ipm_patova"
definition imxrt600_m33_ipm_init where "imxrt600_m33_ipm_init = ipm_init"
definition imxrt600_m33_ipm_deinit where "imxrt600_m33_ipm_deinit = ipm_deinit"

definition imxrt600_hifi4_ipm_callback where "imxrt600_hifi4_ipm_callback = platform_ipm_callback"
definition imxrt600_hifi4_ipm_init_interrupt where "imxrt600_hifi4_ipm_init_interrupt = ipm_init_interrupt"
definition imxrt600_hifi4_ipm_deinit_interrupt where "imxrt600_hifi4_ipm_deinit_interrupt = ipm_deinit_interrupt"
definition imxrt600_hifi4_ipm_notify where "imxrt600_hifi4_ipm_notify = ipm_notify_any"
definition imxrt600_hifi4_ipm_in_isr where "imxrt600_hifi4_ipm_in_isr = ipm_in_isr"
definition imxrt600_hifi4_ipm_interrupt_enable where "imxrt600_hifi4_ipm_interrupt_enable = ipm_key_interrupt_enable"
definition imxrt600_hifi4_ipm_interrupt_disable where "imxrt600_hifi4_ipm_interrupt_disable = ipm_key_interrupt_disable"
definition imxrt600_hifi4_ipm_vatopa where "imxrt600_hifi4_ipm_vatopa = ipm_vatopa"
definition imxrt600_hifi4_ipm_patova where "imxrt600_hifi4_ipm_patova = ipm_patova"
definition imxrt600_hifi4_ipm_init where "imxrt600_hifi4_ipm_init = ipm_init"
definition imxrt600_hifi4_ipm_deinit where "imxrt600_hifi4_ipm_deinit = ipm_deinit"

definition imxrt700_m33_ipm_callback where "imxrt700_m33_ipm_callback = platform_ipm_callback"
definition imxrt700_m33_ipm_init_interrupt where "imxrt700_m33_ipm_init_interrupt = ipm_init_interrupt"
definition imxrt700_m33_ipm_deinit_interrupt where "imxrt700_m33_ipm_deinit_interrupt = ipm_deinit_interrupt"
definition imxrt700_m33_ipm_notify where "imxrt700_m33_ipm_notify = ipm_notify_any"
definition imxrt700_m33_ipm_in_isr where "imxrt700_m33_ipm_in_isr = ipm_in_isr"
definition imxrt700_m33_ipm_interrupt_enable where "imxrt700_m33_ipm_interrupt_enable = ipm_key_interrupt_enable"
definition imxrt700_m33_ipm_interrupt_disable where "imxrt700_m33_ipm_interrupt_disable = ipm_key_interrupt_disable"
definition imxrt700_m33_ipm_vatopa where "imxrt700_m33_ipm_vatopa = ipm_vatopa"
definition imxrt700_m33_ipm_patova where "imxrt700_m33_ipm_patova = ipm_patova"
definition imxrt700_m33_ipm_init where "imxrt700_m33_ipm_init = ipm_init"
definition imxrt700_m33_ipm_deinit where "imxrt700_m33_ipm_deinit = ipm_deinit"

definition imxrt700_hifi4_ipm_callback where "imxrt700_hifi4_ipm_callback = platform_ipm_callback"
definition imxrt700_hifi4_ipm_init_interrupt where "imxrt700_hifi4_ipm_init_interrupt = ipm_init_interrupt"
definition imxrt700_hifi4_ipm_deinit_interrupt where "imxrt700_hifi4_ipm_deinit_interrupt = ipm_deinit_interrupt"
definition imxrt700_hifi4_ipm_notify where "imxrt700_hifi4_ipm_notify = ipm_notify_any"
definition imxrt700_hifi4_ipm_in_isr where "imxrt700_hifi4_ipm_in_isr = ipm_in_isr"
definition imxrt700_hifi4_ipm_interrupt_enable where "imxrt700_hifi4_ipm_interrupt_enable = ipm_key_interrupt_enable"
definition imxrt700_hifi4_ipm_interrupt_disable where "imxrt700_hifi4_ipm_interrupt_disable = ipm_key_interrupt_disable"
definition imxrt700_hifi4_ipm_vatopa where "imxrt700_hifi4_ipm_vatopa = ipm_vatopa"
definition imxrt700_hifi4_ipm_patova where "imxrt700_hifi4_ipm_patova = ipm_patova"
definition imxrt700_hifi4_ipm_init where "imxrt700_hifi4_ipm_init = ipm_init"
definition imxrt700_hifi4_ipm_deinit where "imxrt700_hifi4_ipm_deinit = ipm_deinit"

definition imx6sx_ipm_callback where "imx6sx_ipm_callback = ipm_mu_callback"
definition imx6sx_ipm_init_interrupt where "imx6sx_ipm_init_interrupt = ipm_init_interrupt"
definition imx6sx_ipm_deinit_interrupt where "imx6sx_ipm_deinit_interrupt = ipm_deinit_interrupt"
definition imx6sx_ipm_notify where "imx6sx_ipm_notify = ipm_mu_notify"
definition imx6sx_ipm_in_isr where "imx6sx_ipm_in_isr = ipm_in_isr"
definition imx6sx_ipm_interrupt_enable where "imx6sx_ipm_interrupt_enable = ipm_interrupt_enable"
definition imx6sx_ipm_interrupt_disable where "imx6sx_ipm_interrupt_disable = ipm_interrupt_disable"
definition imx6sx_ipm_vatopa where "imx6sx_ipm_vatopa = ipm_vatopa"
definition imx6sx_ipm_patova where "imx6sx_ipm_patova = ipm_patova"
definition imx6sx_ipm_init where "imx6sx_ipm_init = ipm_mu_init"
definition imx6sx_ipm_deinit where "imx6sx_ipm_deinit = ipm_deinit"

definition imx7d_ipm_callback where "imx7d_ipm_callback = ipm_mu_callback"
definition imx7d_ipm_init_interrupt where "imx7d_ipm_init_interrupt = ipm_init_interrupt"
definition imx7d_ipm_deinit_interrupt where "imx7d_ipm_deinit_interrupt = ipm_deinit_interrupt"
definition imx7d_ipm_notify where "imx7d_ipm_notify = ipm_mu_notify"
definition imx7d_ipm_in_isr where "imx7d_ipm_in_isr = ipm_in_isr"
definition imx7d_ipm_interrupt_enable where "imx7d_ipm_interrupt_enable = ipm_interrupt_enable"
definition imx7d_ipm_interrupt_disable where "imx7d_ipm_interrupt_disable = ipm_interrupt_disable"
definition imx7d_ipm_vatopa where "imx7d_ipm_vatopa = ipm_vatopa"
definition imx7d_ipm_patova where "imx7d_ipm_patova = ipm_patova"
definition imx7d_ipm_init where "imx7d_ipm_init = ipm_mu_init"
definition imx7d_ipm_deinit where "imx7d_ipm_deinit = ipm_deinit"

section \<open>Facts\<close>

lemma ipm_key_nesting_inv:
  assumes "ipm_irq_inv b pl"
  shows "ipm_key_interrupt_disable v pl = Some (r, pl') \<Longrightarrow> ipm_irq_inv b pl' \<and> ip_primask pl' = ip_primask pl
      \<and> ip_disable_counter pl' = ip_disable_counter pl + 1"
    and "ipm_key_interrupt_enable v pl = Some (r, pl') \<Longrightarrow> ipm_irq_inv b pl' \<and> ip_primask pl' = ip_primask pl
      \<and> ip_disable_counter pl' = ip_disable_counter pl - 1"
  using assms
  by (auto simp: ipm_irq_inv_def ipm_key_interrupt_disable_def ipm_key_interrupt_enable_def ipm_do_def Let_def
      split: bind_splits if_splits)

interpretation ipm_key: irq_nesting ipm_key_interrupt_disable ipm_key_interrupt_enable "\<lambda>v. ()" "\<lambda>c. True" "ipm_irq_inv b"
  "\<lambda>pl c. ip_disable_counter pl" for b
  by unfold_locales (auto dest: ipm_key_nesting_inv)

text \<open>
  The word of a queue runs the handler of this queue. Drivers of Zephyr report a busy channel as \<open>- EBUSY\<close>, which the loop
  does not wait for: then the word is offered once and dropped.
\<close>

lemma ipm_mu_routed: "ipm_mu_callback isr RPMSG_MU_CHANNEL (push_bit 16 (RL_GET_Q_ID v)) s = isr (RL_GET_Q_ID v) s"
  using q_id_cases [of v] by (auto simp: ipm_mu_callback_def)

lemma ipm_send_loop_ends: "n \<le> m \<Longrightarrow> status m \<noteq> EBUSY \<Longrightarrow> \<exists>k. ipm_send_loop status n = Some k"
proof (induction "m - n" arbitrary: n)
  case 0
  then have "m = n" by simp
  then show ?case using 0 by (subst ipm_send_loop.simps) simp
next
  case (Suc d)
  have "\<exists>k. ipm_send_loop status (Suc n) = Some k" using Suc.hyps(2) Suc.prems by (intro Suc.hyps(1)) auto
  then show ?case by (subst ipm_send_loop.simps) simp
qed

lemma ipm_busy_dropped:
  assumes "RL_GET_LINK_ID v = 0" "ipm_handle pl \<noteq> NULL" "status 0 = - EBUSY"
  shows "ipm_mu_notify status (\<lambda>l e. Some e) (\<lambda>l e. Some e) v (pl, e)
    = Some (ipm_do (ipm_send_on RPMSG_MU_CHANNEL (push_bit 16 (RL_GET_Q_ID v))) pl, e)"
  using assms by (simp add: ipm_mu_notify_def ipm_send_loop.simps [of status 0] ipm_do_def)

end
