(* ===== verification/Platform_Swmbox.thy ===== *)
theory Platform_Swmbox
  imports Platform_Imxrt1170
begin

text \<open>
  The port for Cortex-A cores with a mailbox in shared memory (\<^verbatim>\<open>lib/rpmsg_lite/porting/platform/aarch64/rpmsg_platform.c\<close>):
  for each direction a status word and a word of data. The calls of the interrupt controller are recorded.
\<close>

section \<open>State\<close>

datatype sw_status = S_READY | S_BUSY | S_DONE

text \<open>The fields of \<open>gen_sw_mbox\<close> at \<open>RPMSG_MBOX_CHANNEL\<close>, the only channel in use.\<close>

record gen_sw_mbox =
  rx_status :: sw_status
  tx_status :: sw_status
  rx_ch :: u32
  tx_ch :: u32

datatype gic_call = GIC_SetPendingIRQ_remote | GIC_EnableIRQ | GIC_DisableIRQ

record sw_plat =
  sw_disable_counter :: int
  sw_lock :: ptr
  sw_lock_var :: ptr
  sw_daif :: bool
  sw_log :: "gic_call list"

definition sw_do :: "gic_call \<Rightarrow> sw_plat \<Rightarrow> sw_plat" where
  "sw_do c pl = pl\<lparr>sw_log := sw_log pl @ [c]\<rparr>"

section \<open>Operations\<close>

definition gen_sw_mbox_handler ::
  "(u32 \<Rightarrow> sw_plat \<times> gen_sw_mbox \<times> 's \<Rightarrow> (sw_plat \<times> gen_sw_mbox \<times> 's) option)
    \<Rightarrow> sw_plat \<times> gen_sw_mbox \<times> 's \<Rightarrow> (sw_plat \<times> gen_sw_mbox \<times> 's) option" where
  "gen_sw_mbox_handler isr s =
     (let (pl, base, e) = s;
          base = (if tx_status base = S_DONE then base\<lparr>tx_status := S_READY\<rparr> else base)
      in if rx_status base \<noteq> S_BUSY then Some (pl, base, e)
         else let vector_id = rx_ch base; base = base\<lparr>rx_status := S_DONE\<rparr>; pl = sw_do GIC_SetPendingIRQ_remote pl
              in isr (drop_bit 16 vector_id) (pl, base, e))"

definition gen_sw_mailbox_init :: "gen_sw_mbox \<Rightarrow> gen_sw_mbox" where
  "gen_sw_mailbox_init base = base\<lparr>rx_status := S_READY, tx_status := S_READY\<rparr>"

text \<open>
  The wait of \<open>gen_sw_mbox_sendmsg\<close>: \<open>status n\<close> is the status at the \<open>n\<close>-th read, \<open>old\<close> the word of the channel, which
  only the sender writes. The result says whether the message is to be sent, \<open>None\<close> that the loop does not end.
\<close>

partial_function (option) sw_wait :: "(nat \<Rightarrow> sw_status) \<Rightarrow> u32 \<Rightarrow> u32 \<Rightarrow> nat \<Rightarrow> bool option" where
  "sw_wait status old msg n =
     (if status n \<noteq> S_READY then if msg = old then Some False else sw_wait status old msg (Suc n)
      else Some True)"

definition gen_sw_mbox_sendmsg ::
  "(nat \<Rightarrow> sw_status) \<Rightarrow> u32 \<Rightarrow> sw_plat \<times> gen_sw_mbox \<Rightarrow> (sw_plat \<times> gen_sw_mbox) option" where
  "gen_sw_mbox_sendmsg status msg s =
     (let (pl, base) = s
      in do { sent \<leftarrow> sw_wait status (tx_ch base) msg 0;
              Some (if sent then (sw_do GIC_SetPendingIRQ_remote pl, base\<lparr>tx_ch := msg, tx_status := S_BUSY\<rparr>)
                    else (pl, base)) })"

definition sw_init_interrupt ::
  "(u32 \<Rightarrow> ptr \<Rightarrow> 'e \<Rightarrow> 'e option) \<Rightarrow> (ptr \<Rightarrow> 'e \<Rightarrow> 'e option) \<Rightarrow> (ptr \<Rightarrow> 'e \<Rightarrow> 'e option)
    \<Rightarrow> u32 \<Rightarrow> ptr \<Rightarrow> sw_plat \<times> 'e \<Rightarrow> (int \<times> sw_plat \<times> 'e) option" where
  "sw_init_interrupt register_isr lock unlock vector_id isr_data s =
     (let (pl, e) = s
      in do { e \<leftarrow> lock (sw_lock pl) e;
              e \<leftarrow> register_isr vector_id isr_data e;
              e \<leftarrow> unlock (sw_lock pl) e;
              Some (0, pl, e) })"

definition sw_deinit_interrupt ::
  "(u32 \<Rightarrow> 'e \<Rightarrow> 'e option) \<Rightarrow> (ptr \<Rightarrow> 'e \<Rightarrow> 'e option) \<Rightarrow> (ptr \<Rightarrow> 'e \<Rightarrow> 'e option)
    \<Rightarrow> u32 \<Rightarrow> sw_plat \<times> 'e \<Rightarrow> (int \<times> sw_plat \<times> 'e) option" where
  "sw_deinit_interrupt unregister_isr lock unlock vector_id s =
     (let (pl, e) = s
      in do { e \<leftarrow> lock (sw_lock pl) e;
              e \<leftarrow> unregister_isr vector_id e;
              e \<leftarrow> unlock (sw_lock pl) e;
              Some (0, pl, e) })"

definition sw_notify ::
  "(nat \<Rightarrow> sw_status) \<Rightarrow> (ptr \<Rightarrow> 'e \<Rightarrow> 'e option) \<Rightarrow> (ptr \<Rightarrow> 'e \<Rightarrow> 'e option) \<Rightarrow> u32
    \<Rightarrow> sw_plat \<times> gen_sw_mbox \<times> 'e \<Rightarrow> (sw_plat \<times> gen_sw_mbox \<times> 'e) option" where
  "sw_notify status lock unlock vector_id s =
     (let (pl, base, e) = s; msg = push_bit 16 vector_id
      in do { e \<leftarrow> lock (sw_lock pl) e;
              (pl, base) \<leftarrow> gen_sw_mbox_sendmsg status msg (pl, base);
              e \<leftarrow> unlock (sw_lock pl) e;
              Some (pl, base, e) })"

definition sw_interrupt_enable :: "u32 \<Rightarrow> sw_plat \<Rightarrow> (int \<times> sw_plat) option" where
  "sw_interrupt_enable vector_id pl =
     do { rl_assert (0 < sw_disable_counter pl);
          let pl = pl\<lparr>sw_daif := True\<rparr>;
          let pl = pl\<lparr>sw_disable_counter := sw_disable_counter pl - 1\<rparr>;
          let pl = (if sw_disable_counter pl = 0 then sw_do GIC_EnableIRQ pl else pl);
          Some (0, pl\<lparr>sw_daif := False\<rparr>) }"

definition sw_interrupt_disable :: "u32 \<Rightarrow> sw_plat \<Rightarrow> (int \<times> sw_plat) option" where
  "sw_interrupt_disable vector_id pl =
     do { rl_assert (0 \<le> sw_disable_counter pl);
          let pl = pl\<lparr>sw_daif := True\<rparr>;
          let pl = (if sw_disable_counter pl = 0 then sw_do GIC_DisableIRQ pl else pl);
          let pl = pl\<lparr>sw_disable_counter := sw_disable_counter pl + 1\<rparr>;
          Some (0, pl\<lparr>sw_daif := False\<rparr>) }"

definition sw_init ::
  "(ptr \<Rightarrow> int \<Rightarrow> 'e \<Rightarrow> int \<times> ptr \<times> 'e) \<Rightarrow> sw_plat \<times> gen_sw_mbox \<times> 'e \<Rightarrow> int \<times> sw_plat \<times> gen_sw_mbox \<times> 'e" where
  "sw_init create_mutex s =
     (let (pl, base, e) = s; base = gen_sw_mailbox_init base;
          (st, l, e) = create_mutex (sw_lock_var pl) 1 e; pl = pl\<lparr>sw_lock := l\<rparr>
      in if st \<noteq> 0 then (-1, pl, base, e) else (0, pl, base, e))"

definition sw_deinit :: "(ptr \<Rightarrow> 'e \<Rightarrow> 'e) \<Rightarrow> sw_plat \<times> 'e \<Rightarrow> int \<times> sw_plat \<times> 'e" where
  "sw_deinit delete_mutex s =
     (let (pl, e) = s; e = delete_mutex (sw_lock pl) e in (0, pl\<lparr>sw_lock := NULL\<rparr>, e))"

definition sw_time_delay :: "u32 \<Rightarrow> u32 \<Rightarrow> nat" where
  "sw_time_delay = Platform_Imxrt1170.platform_time_delay"

text \<open>Addresses have 64 bits on these cores.\<close>

definition sw_vatopa :: "64 word \<Rightarrow> 64 word" where "sw_vatopa addr = addr"
definition sw_patova :: "64 word \<Rightarrow> 64 word" where "sw_patova addr = addr"

section \<open>Nesting of the interrupt calls\<close>

definition sw_irq_inv :: "bool \<Rightarrow> sw_plat \<Rightarrow> bool" where
  "sw_irq_inv b pl \<longleftrightarrow> 0 \<le> sw_disable_counter pl
     \<and> switched GIC_EnableIRQ GIC_DisableIRQ b (sw_log pl) = (sw_disable_counter pl = 0)"

interpretation swmbox: irq_nesting sw_interrupt_disable sw_interrupt_enable "\<lambda>v. ()" "\<lambda>c. True" "sw_irq_inv b"
  "\<lambda>pl c. sw_disable_counter pl" for b
  by unfold_locales
    (auto simp: sw_interrupt_disable_def sw_interrupt_enable_def sw_irq_inv_def sw_do_def Let_def split: bind_splits if_splits)

lemma sw_interrupt_nesting:
  assumes "sw_irq_inv b pl" "irq_calls sw_interrupt_disable sw_interrupt_enable cs pl = Some pl'"
  shows "switched GIC_EnableIRQ GIC_DisableIRQ b (sw_log pl') = (sw_disable_counter pl + irq_depth (\<lambda>v. ()) () cs = 0)"
  using swmbox.calls_count [OF assms, of "()"] by (simp add: sw_irq_inv_def)

section \<open>One direction of the mailbox\<close>

text \<open>
  The sender's \<open>tx_status\<close> and \<open>tx_ch\<close> are the receiver's \<open>rx_status\<close> and \<open>rx_ch\<close>. A state holds them as the sender
  has them, what the receiver has taken and not yet handled, and the notifications and calls of \<open>env_isr\<close> so far. A
  notification is a step when \<open>gen_sw_mbox_sendmsg\<close> returns at its first read (otherwise it waits); the receiver's handler
  takes the word and sets the status, and then calls \<open>env_isr\<close>; the sender's own handler makes the channel ready again.
\<close>

datatype sw_event = Sw_notified u32 | Sw_called u32

type_synonym sw_dir = "gen_sw_mbox \<times> u32 option \<times> sw_event list"

definition sw_dir_notify :: "sw_plat \<Rightarrow> u32 \<Rightarrow> sw_dir \<Rightarrow> sw_dir option" where
  "sw_dir_notify pl v s =
     (let (base, taken, evs) = s
      in if tx_status base \<noteq> S_READY \<and> push_bit 16 v \<noteq> tx_ch base then None
         else do { (pl, base, e) \<leftarrow> sw_notify (\<lambda>n. tx_status base) (\<lambda>l e. Some e) (\<lambda>l e. Some e) v (pl, base, ());
                   Some (base, taken, evs @ [Sw_notified v]) })"

inductive sw_step :: "sw_plat \<Rightarrow> sw_dir \<Rightarrow> sw_dir \<Rightarrow> bool" for pl where
  sw_notifies: "sw_dir_notify pl v s = Some s' \<Longrightarrow> sw_step pl s s'"
| sw_takes: "tx_status base = S_BUSY \<Longrightarrow>
    sw_step pl (base, None, evs) (base\<lparr>tx_status := S_DONE\<rparr>, Some (drop_bit 16 (tx_ch base)), evs)"
| sw_calls: "sw_step pl (base, Some v, evs) (base, None, evs @ [Sw_called v])"
| sw_ready: "tx_status base = S_DONE \<Longrightarrow> sw_step pl (base, taken, evs) (base\<lparr>tx_status := S_READY\<rparr>, taken, evs)"

text \<open>The receiver's steps are its handler.\<close>

lemma sw_handler_takes:
  assumes "rx_status base = S_BUSY" "tx_status base \<noteq> S_DONE"
  shows "gen_sw_mbox_handler (\<lambda>v (pl, base, evs). Some (pl, base, evs @ [Sw_called v])) (pl, base, evs)
    = Some (sw_do GIC_SetPendingIRQ_remote pl, base\<lparr>rx_status := S_DONE\<rparr>, evs @ [Sw_called (drop_bit 16 (rx_ch base))])"
  using assms by (simp add: gen_sw_mbox_handler_def)

definition sw_owed :: "u32 \<Rightarrow> sw_event list \<Rightarrow> bool" where
  "sw_owed v evs \<longleftrightarrow> (\<exists>as bs. evs = as @ Sw_notified v # bs \<and> Sw_called v \<notin> set bs)"

lemma sw_owed_simps [simp]:
  "\<not> sw_owed v []"
  "sw_owed v (evs @ [Sw_notified w]) \<longleftrightarrow> w = v \<or> sw_owed v evs"
  "sw_owed v (evs @ [Sw_called w]) \<longleftrightarrow> w \<noteq> v \<and> sw_owed v evs"
proof -
  have s: "sw_owed v (evs @ [e]) \<longleftrightarrow> e = Sw_notified v \<or> e \<noteq> Sw_called v \<and> sw_owed v evs" for e
  proof
    assume "sw_owed v (evs @ [e])"
    then obtain as bs where ab: "evs @ [e] = as @ Sw_notified v # bs" "Sw_called v \<notin> set bs" by (auto simp: sw_owed_def)
    then show "e = Sw_notified v \<or> e \<noteq> Sw_called v \<and> sw_owed v evs"
      by (cases bs rule: rev_exhaust) (auto simp: sw_owed_def)
  next
    assume e: "e = Sw_notified v \<or> e \<noteq> Sw_called v \<and> sw_owed v evs"
    show "sw_owed v (evs @ [e])"
    proof (cases "e = Sw_notified v")
      case True
      then show ?thesis unfolding sw_owed_def by (intro exI [of _ evs] exI [of _ "[]"]) simp
    next
      case False
      then obtain as bs where "evs = as @ Sw_notified v # bs" "Sw_called v \<notin> set (bs @ [e])"
        using e by (auto simp: sw_owed_def)
      then show ?thesis unfolding sw_owed_def by (intro exI [of _ as] exI [of _ "bs @ [e]"]) simp
    qed
  qed
  show "sw_owed v (evs @ [Sw_notified w]) \<longleftrightarrow> w = v \<or> sw_owed v evs" "sw_owed v (evs @ [Sw_called w]) \<longleftrightarrow> w \<noteq> v \<and> sw_owed v evs"
    by (auto simp: s)
qed (simp add: sw_owed_def)

text \<open>What a notification does: nothing if the channel is not ready and still holds its word.\<close>

lemma sw_dir_notify_iff:
  "sw_dir_notify pl v (base, taken, evs) = Some s' \<longleftrightarrow>
    (tx_status base = S_READY \<and> s' = (base\<lparr>tx_ch := push_bit 16 v, tx_status := S_BUSY\<rparr>, taken, evs @ [Sw_notified v])
     \<or> tx_status base \<noteq> S_READY \<and> push_bit 16 v = tx_ch base \<and> s' = (base, taken, evs @ [Sw_notified v]))"
  by (auto simp: sw_dir_notify_def sw_notify_def gen_sw_mbox_sendmsg_def sw_wait.simps [of "\<lambda>n. tx_status base"] Let_def)

definition notified_in :: "sw_dir \<Rightarrow> sw_dir \<Rightarrow> bool" where
  "notified_in s s' \<longleftrightarrow> (\<exists>v. snd (snd s') = snd (snd s) @ [Sw_notified v])"

lemma sw_vector: "unat v < 2 ^ 16 \<Longrightarrow> drop_bit 16 (push_bit 16 v) = (v :: u32)"
  by (rule bit_word_eqI) (auto simp: bit_simps dest: bit_less_exp [where k = 16, simplified])

definition sw_held :: "u32 \<Rightarrow> sw_dir \<Rightarrow> bool" where
  "sw_held v s \<longleftrightarrow> (case s of (base, taken, evs) \<Rightarrow>
     sw_owed v evs \<longrightarrow> tx_status base = S_BUSY \<and> tx_ch base = push_bit 16 v \<or> taken = Some v)"

lemma sw_step_held:
  assumes "sw_step pl s s'" "\<not> (notified_in s s' \<and> tx_status (fst s) = S_DONE)" "sw_held v s" "unat v < 2 ^ 16"
  shows "sw_held v s'"
  using assms(1-3)
proof (induction rule: sw_step.induct)
  case (sw_notifies w s s')
  obtain base taken evs where s: "s = (base, taken, evs)" by (cases s)
  show ?case using sw_notifies unfolding s sw_dir_notify_iff
    by (cases "tx_status base") (auto simp: sw_held_def notified_in_def)
qed (auto simp: sw_held_def sw_vector [OF assms(4)])

text \<open>
  C33: the mailbox in shared memory. As long as no notification falls between the receiver's \<open>S_DONE\<close> and the
  sender's \<open>S_READY\<close>, none is lost: one that \<open>env_isr\<close> was not yet called for is in the channel or taken by the
  receiver. But \<open>gen_sw_mbox_sendmsg\<close> also skips a message that repeats the last one when the status is \<open>S_DONE\<close>, although
  the receiver may have handled that one already: for every vector there is a run after which a
  notification is never followed by a call, whatever steps other than notifications come next.
\<close>

theorem sw_mbox_notifications:
  assumes "tx_status base0 = S_READY" and "unat v < 2 ^ 16"
  shows "((\<lambda>s s'. sw_step pl s s' \<and> \<not> (notified_in s s' \<and> tx_status (fst s) = S_DONE))\<^sup>*\<^sup>* (base0, None, []) (base, taken, evs)
      \<and> sw_owed v evs \<longrightarrow> tx_status base = S_BUSY \<and> tx_ch base = push_bit 16 v \<or> taken = Some v)
    \<and> (\<exists>s. (sw_step pl)\<^sup>*\<^sup>* (base0, None, []) s
        \<and> (\<forall>s'. (\<lambda>s s'. sw_step pl s s' \<and> \<not> notified_in s s')\<^sup>*\<^sup>* s s' \<longrightarrow> sw_owed v (snd (snd s'))))"
proof -
  let ?ok = "\<lambda>s s'. sw_step pl s s' \<and> \<not> (notified_in s s' \<and> tx_status (fst s) = S_DONE)"
  let ?quiet = "\<lambda>s s'. sw_step pl s s' \<and> \<not> notified_in s s'"
  have "sw_held v s" if "?ok\<^sup>*\<^sup>* (base0, None, []) s" for s
    using that
  proof (induction rule: rtranclp_induct)
    case (step s s')
    then show ?case using sw_step_held [OF _ _ _ assms(2)] by blast
  qed (simp add: sw_held_def)
  then have 1: "?ok\<^sup>*\<^sup>* (base0, None, []) (base, taken, evs) \<and> sw_owed v evs
      \<longrightarrow> tx_status base = S_BUSY \<and> tx_ch base = push_bit 16 v \<or> taken = Some v"
    by (fastforce simp: sw_held_def)
  let ?b = "base0\<lparr>tx_ch := push_bit 16 v, tx_status := S_BUSY\<rparr>" and ?d = "base0\<lparr>tx_ch := push_bit 16 v, tx_status := S_DONE\<rparr>"
  let ?evs = "[Sw_notified v, Sw_called v, Sw_notified v]"
  have "sw_step pl (base0, None, []) (?b, None, [Sw_notified v])"
    by (rule sw_notifies [of pl v]) (simp add: sw_dir_notify_iff assms(1))
  moreover have "sw_step pl (?b, None, [Sw_notified v]) (?d, Some v, [Sw_notified v])"
    using sw_takes [of ?b pl "[Sw_notified v]"] by (simp add: sw_vector [OF assms(2)])
  moreover have "sw_step pl (?d, Some v, [Sw_notified v]) (?d, None, [Sw_notified v, Sw_called v])"
    using sw_calls [of pl ?d v "[Sw_notified v]"] by simp
  moreover have "sw_step pl (?d, None, [Sw_notified v, Sw_called v]) (?d, None, ?evs)"
    by (rule sw_notifies [of pl v]) (simp add: sw_dir_notify_iff)
  ultimately have r: "(sw_step pl)\<^sup>*\<^sup>* (base0, None, []) (?d, None, ?evs)"
    by (meson converse_rtranclp_into_rtranclp rtranclp.rtrancl_refl)
  have "tx_status (fst s') \<noteq> S_BUSY \<and> fst (snd s') = None \<and> snd (snd s') = ?evs" if "?quiet\<^sup>*\<^sup>* (?d, None, ?evs) s'" for s'
    using that
  proof (induction rule: rtranclp_induct)
    case (step s s')
    from step.hyps(2) step.IH show ?case
      by (auto elim!: sw_step.cases simp: notified_in_def sw_dir_notify_iff)
  qed simp
  then have "\<forall>s'. ?quiet\<^sup>*\<^sup>* (?d, None, ?evs) s' \<longrightarrow> sw_owed v (snd (snd s'))"
    using sw_owed_simps(2) [of v "[Sw_notified v, Sw_called v]" v] by auto
  then show ?thesis using 1 r by blast
qed

theorem sw_mbox_notifications_witness:
  "let pl = \<lparr>sw_disable_counter = 0, sw_lock = 8, sw_lock_var = 4, sw_daif = False, sw_log = []\<rparr>;
       base = \<lparr>rx_status = S_READY, tx_status = S_READY, rx_ch = 0, tx_ch = 0\<rparr>
   in (\<exists>s. (sw_step pl)\<^sup>*\<^sup>* (base, None, []) s \<and> sw_owed 3 (snd (snd s)))
     \<and> (tx_status (base\<lparr>tx_ch := 0x30000, tx_status := S_BUSY\<rparr>) = S_BUSY)"
proof -
  let ?pl = "\<lparr>sw_disable_counter = 0, sw_lock = 8, sw_lock_var = 4, sw_daif = False, sw_log = []\<rparr>"
  let ?base = "\<lparr>rx_status = S_READY, tx_status = S_READY, rx_ch = 0, tx_ch = 0\<rparr>"
  from sw_mbox_notifications [of ?base 3 ?pl "?base\<lparr>tx_ch := 0x30000, tx_status := S_BUSY\<rparr>" None "[Sw_notified 3]"]
  obtain s where r: "(sw_step ?pl)\<^sup>*\<^sup>* (?base, None, []) s"
    and q: "\<And>s'. (\<lambda>s s'. sw_step ?pl s s' \<and> \<not> notified_in s s')\<^sup>*\<^sup>* s s' \<Longrightarrow> sw_owed 3 (snd (snd s'))"
    by auto
  have "sw_owed 3 (snd (snd s))" by (rule q) (rule rtranclp.rtrancl_refl)
  then show ?thesis unfolding Let_def using r by (intro conjI exI [of _ s]) simp_all
qed

end
