(* ===== verification/Platform_Ezhv.thy ===== *)
theory Platform_Ezhv
  imports Platform_Imxrt700
begin

text \<open>
  The port for the EZH-V, the RISC-V core of the i.MX RT700
  (\<^verbatim>\<open>lib/rpmsg_lite/porting/platform/imxrt700_ezhv/rpmsg_platform.c\<close>), the other end of the pair
  \<open>M33_0_EZHV_COM_ID\<close> of \<open>Platform_Imxrt700\<close>. The calls of the SDK are recorded.
\<close>

section \<open>State\<close>

datatype ez_call =
    Ez_EnableMsie
  | Ez_EnableMeie
  | Ez_DisableMsie
  | Ez_DisableMeie
  | Ez_EnableGlobalIRQ
  | Ez_DisableGlobalIRQ
  | XZMSG_IndIntChan u32
  | Ez_MCMGR_RegisterEvent
  | Ez_MCMGR_TriggerEventForce u32

record ez_plat =
  ez_isr_counter0 :: int
  ez_disable_counter0 :: int
  ez_lock :: ptr
  ez_lock_var :: ptr
  ez_log :: "ez_call list"

definition ez_do :: "ez_call list \<Rightarrow> ez_plat \<Rightarrow> ez_plat" where
  "ez_do cs pl = pl\<lparr>ez_log := ez_log pl @ cs\<rparr>"

section \<open>Operations\<close>

text \<open>The interrupt handlers; \<open>isr\<close> is \<open>env_isr\<close>.\<close>

definition ez_mcmgr_event_handler :: "(u32 \<Rightarrow> 's \<Rightarrow> 's option) \<Rightarrow> u16 \<Rightarrow> 's \<Rightarrow> 's option" where
  "ez_mcmgr_event_handler isr vring_idx s = isr (ucast vring_idx) s"

definition MachineSoftInt_Handler :: "(u32 \<Rightarrow> 's \<Rightarrow> 's option) \<Rightarrow> 's \<Rightarrow> 's option" where
  "MachineSoftInt_Handler isr s = isr (push_bit 3 M33_0_EZHV_COM_ID) s"

definition MachineExtInt_Handler :: "(u32 \<Rightarrow> 's \<Rightarrow> 's option) \<Rightarrow> 's \<Rightarrow> 's option" where
  "MachineExtInt_Handler isr s = isr (0x01 OR push_bit 3 M33_0_EZHV_COM_ID) s"

definition ez_global_isr_disable :: "ez_plat \<Rightarrow> ez_plat" where
  "ez_global_isr_disable = ez_do [Ez_DisableGlobalIRQ]"

definition ez_global_isr_enable :: "ez_plat \<Rightarrow> ez_plat" where
  "ez_global_isr_enable = ez_do [Ez_EnableGlobalIRQ]"

definition ez_init_interrupt ::
  "(u32 \<Rightarrow> ptr \<Rightarrow> 'e \<Rightarrow> 'e option) \<Rightarrow> (ptr \<Rightarrow> 'e \<Rightarrow> 'e option) \<Rightarrow> (ptr \<Rightarrow> 'e \<Rightarrow> 'e option)
    \<Rightarrow> u32 \<Rightarrow> ptr \<Rightarrow> ez_plat \<times> 'e \<Rightarrow> (int \<times> ez_plat \<times> 'e) option" where
  "ez_init_interrupt register_isr lock unlock vector_id isr_data s =
     (let (pl, e) = s
      in if ez_lock pl \<noteq> NULL
         then do {
           e \<leftarrow> register_isr vector_id isr_data e;
           e \<leftarrow> lock (ez_lock pl) e;
           pl \<leftarrow> (if RL_GET_COM_ID vector_id = M33_0_EZHV_COM_ID
                  then do {
                    rl_assert (0 \<le> ez_isr_counter0 pl);
                    let pl = (if ez_isr_counter0 pl < 2 then ez_do [Ez_EnableMsie, Ez_EnableMeie] pl else pl);
                    Some (pl\<lparr>ez_isr_counter0 := ez_isr_counter0 pl + 1\<rparr>) }
                  else Some pl);
           e \<leftarrow> unlock (ez_lock pl) e;
           Some (0, pl, e) }
         else Some (-1, pl, e))"

definition ez_deinit_interrupt ::
  "(u32 \<Rightarrow> 'e \<Rightarrow> 'e option) \<Rightarrow> (ptr \<Rightarrow> 'e \<Rightarrow> 'e option) \<Rightarrow> (ptr \<Rightarrow> 'e \<Rightarrow> 'e option)
    \<Rightarrow> u32 \<Rightarrow> ez_plat \<times> 'e \<Rightarrow> (int \<times> ez_plat \<times> 'e) option" where
  "ez_deinit_interrupt unregister_isr lock unlock vector_id s =
     (let (pl, e) = s
      in if ez_lock pl \<noteq> NULL
         then do {
           e \<leftarrow> lock (ez_lock pl) e;
           pl \<leftarrow> (if RL_GET_COM_ID vector_id = M33_0_EZHV_COM_ID
                  then do {
                    rl_assert (0 \<le> ez_isr_counter0 pl);
                    let pl = (if ez_isr_counter0 pl < 2 then ez_do [Ez_DisableMsie, Ez_DisableMeie] pl else pl);
                    Some (pl\<lparr>ez_isr_counter0 := ez_isr_counter0 pl + 1\<rparr>) }
                  else Some pl);
           e \<leftarrow> unregister_isr vector_id e;
           e \<leftarrow> unlock (ez_lock pl) e;
           Some (0, pl, e) }
         else Some (-1, pl, e))"

text \<open>\<open>mcmgr\<close> is \<open>RL_USE_MCMGR_IPC_ISR_HANDLER\<close>, \<open>registered\<close> whether \<open>MCMGR_RegisterEvent\<close> succeeds.\<close>

definition ez_notify ::
  "bool \<Rightarrow> (ptr \<Rightarrow> 'e \<Rightarrow> 'e option) \<Rightarrow> (ptr \<Rightarrow> 'e \<Rightarrow> 'e option) \<Rightarrow> u32 \<Rightarrow> ez_plat \<times> 'e \<Rightarrow> (ez_plat \<times> 'e) option" where
  "ez_notify mcmgr lock unlock vector_id s =
     (let (pl, e) = s
      in do {
        e \<leftarrow> lock (ez_lock pl) e;
        let pl = ez_do (if mcmgr then [Ez_MCMGR_TriggerEventForce (RL_GET_Q_ID vector_id)]
                        else if RL_GET_COM_ID vector_id = M33_0_EZHV_COM_ID then [XZMSG_IndIntChan (gi_mask vector_id)]
                        else []) pl;
        e \<leftarrow> unlock (ez_lock pl) e;
        Some (pl, e) })"

definition ez_interrupt_enable :: "u32 \<Rightarrow> ez_plat \<Rightarrow> (int \<times> ez_plat) option" where
  "ez_interrupt_enable vector_id pl =
     do { let pl = ez_global_isr_disable pl;
          pl \<leftarrow> (if RL_GET_COM_ID vector_id = M33_0_EZHV_COM_ID
                 then do {
                   rl_assert (0 < ez_disable_counter0 pl);
                   let pl = pl\<lparr>ez_disable_counter0 := ez_disable_counter0 pl - 1\<rparr>;
                   Some (if ez_disable_counter0 pl = 0 then ez_do [Ez_EnableGlobalIRQ] pl else pl) }
                 else Some pl);
          Some (0, ez_global_isr_enable pl) }"

definition ez_interrupt_disable :: "u32 \<Rightarrow> ez_plat \<Rightarrow> (int \<times> ez_plat) option" where
  "ez_interrupt_disable vector_id pl =
     do { let pl = ez_global_isr_disable pl;
          pl \<leftarrow> (if RL_GET_COM_ID vector_id = M33_0_EZHV_COM_ID
                 then do {
                   rl_assert (0 \<le> ez_disable_counter0 pl);
                   let pl = (if ez_disable_counter0 pl = 0 then ez_do [Ez_DisableGlobalIRQ] pl else pl);
                   Some (pl\<lparr>ez_disable_counter0 := ez_disable_counter0 pl + 1\<rparr>) }
                 else Some pl);
          Some (0, ez_global_isr_enable pl) }"

definition ez_init ::
  "bool \<Rightarrow> bool \<Rightarrow> (ptr \<Rightarrow> int \<Rightarrow> 'e \<Rightarrow> int \<times> ptr \<times> 'e) \<Rightarrow> ez_plat \<times> 'e \<Rightarrow> int \<times> ez_plat \<times> 'e" where
  "ez_init mcmgr registered create_mutex s =
     (let (pl, e) = s;
          pl = ez_do (if mcmgr then [Ez_MCMGR_RegisterEvent] else [Ez_EnableGlobalIRQ]) pl
      in if mcmgr \<and> \<not> registered then (-1, pl, e)
         else let (st, l, e) = create_mutex (ez_lock_var pl) 1 e; pl = pl\<lparr>ez_lock := l\<rparr>
              in if st \<noteq> 0 then (-1, pl, e) else (0, pl, e))"

definition ez_deinit :: "(ptr \<Rightarrow> 'e \<Rightarrow> 'e) \<Rightarrow> ez_plat \<times> 'e \<Rightarrow> int \<times> ez_plat \<times> 'e" where
  "ez_deinit delete_mutex s =
     (let (pl, e) = s; e = delete_mutex (ez_lock pl) e in (0, pl\<lparr>ez_lock := NULL\<rparr>, e))"

definition ez_time_delay :: "u32 \<Rightarrow> u32 \<Rightarrow> nat" where
  "ez_time_delay = m33_time_delay"

definition ez_in_isr :: "u32 \<Rightarrow> u32 \<Rightarrow> int" where
  "ez_in_isr = m33_in_isr"

definition ez_vatopa :: "ptr \<Rightarrow> u32" where "ez_vatopa addr = addr"
definition ez_patova :: "u32 \<Rightarrow> ptr" where "ez_patova addr = addr"

section \<open>Interrupts are never masked\<close>

text \<open>Every call of the pair leaves the global interrupts on, also \<open>ez_interrupt_disable\<close>: its last call is \<open>Ez_EnableGlobalIRQ\<close>.\<close>

definition ez_irq_inv :: "bool \<Rightarrow> ez_plat \<Rightarrow> bool" where
  "ez_irq_inv b pl \<longleftrightarrow> switched Ez_EnableGlobalIRQ Ez_DisableGlobalIRQ b (ez_log pl)"

interpretation ezhv: irq_nesting ez_interrupt_disable ez_interrupt_enable RL_GET_COM_ID "\<lambda>c. c = M33_0_EZHV_COM_ID"
  "ez_irq_inv b" "\<lambda>pl c. ez_disable_counter0 pl" for b
  by unfold_locales
    (auto simp: ez_interrupt_disable_def ez_interrupt_enable_def ez_global_isr_disable_def ez_global_isr_enable_def
      ez_irq_inv_def ez_do_def Let_def split: bind_splits if_splits)

text \<open>
  The EZH-V port. \<open>platform_interrupt_disable\<close> counts as on the other ports, but it does not mask anything:
  \<open>platform_global_isr_enable\<close> at its end undoes the \<open>DisableGlobalIRQ\<close> it made. After any sequence of disable and
  enable calls that passes its assertions the global interrupts are on, also while the counter says that they are
  disabled. (Ports that switch a line of the interrupt controller instead keep it off exactly then.)
\<close>

theorem ezhv_interrupts_never_masked:
  assumes "irq_calls ez_interrupt_disable ez_interrupt_enable cs pl = Some pl'"
    and "switched Ez_EnableGlobalIRQ Ez_DisableGlobalIRQ b (ez_log pl)"
  shows "ez_disable_counter0 pl' = ez_disable_counter0 pl + irq_depth RL_GET_COM_ID 3 cs
    \<and> switched Ez_EnableGlobalIRQ Ez_DisableGlobalIRQ b (ez_log pl')"
  using ezhv.calls_count [OF _ assms(1), of b 3] assms(2) by (simp add: ez_irq_inv_def)

theorem ezhv_interrupts_never_masked_witness:
  "let pl = \<lparr>ez_isr_counter0 = 0, ez_disable_counter0 = 0, ez_lock = 8, ez_lock_var = 4, ez_log = [Ez_EnableGlobalIRQ]\<rparr>
   in \<exists>pl'. irq_calls ez_interrupt_disable ez_interrupt_enable [(True, 0x18)] pl = Some pl'
     \<and> ez_disable_counter0 pl' = 1 \<and> switched Ez_EnableGlobalIRQ Ez_DisableGlobalIRQ False (ez_log pl')"
proof -
  let ?pl = "\<lparr>ez_isr_counter0 = 0, ez_disable_counter0 = 0, ez_lock = 8, ez_lock_var = 4, ez_log = [Ez_EnableGlobalIRQ]\<rparr>"
  let ?pl' = "\<lparr>ez_isr_counter0 = 0, ez_disable_counter0 = 1, ez_lock = 8, ez_lock_var = 4,
    ez_log = [Ez_EnableGlobalIRQ, Ez_DisableGlobalIRQ, Ez_DisableGlobalIRQ, Ez_EnableGlobalIRQ]\<rparr>"
  have c: "irq_calls ez_interrupt_disable ez_interrupt_enable [(True, 0x18)] ?pl = Some ?pl'"
    by (simp add: ez_interrupt_disable_def ez_global_isr_disable_def ez_global_isr_enable_def ez_do_def RL_GET_COM_ID_def Let_def)
  show ?thesis
    using ezhv_interrupts_never_masked [OF c, of False] c by (simp add: Let_def RL_GET_COM_ID_def)
qed

section \<open>Handlers\<close>

text \<open>The counter only grows: once it is 2, \<open>ez_deinit_interrupt\<close> records nothing any more.\<close>

lemma ez_deinit_never_disables:
  assumes "2 \<le> ez_isr_counter0 pl" "ez_deinit_interrupt unregister_isr lock unlock v (pl, e) = Some (r, pl', e')"
  shows "ez_log pl' = ez_log pl \<and> ez_isr_counter0 pl \<le> ez_isr_counter0 pl'"
  using assms by (auto simp: ez_deinit_interrupt_def Let_def split: bind_splits if_splits)

text \<open>
  The notifications of the Cortex-M33 arrive: for a vector of this pair (of the first vring) the interrupt that
  \<open>m33_notify_calls\<close> raises calls \<open>env_isr\<close> with that vector.
\<close>

definition ez_taken :: "rt700_call \<Rightarrow> (u32 \<Rightarrow> 's \<Rightarrow> 's option) \<Rightarrow> 's \<Rightarrow> 's option" where
  "ez_taken c isr s =
     (if c = EZHV_EnableArm2EzhvInt_MSI then MachineSoftInt_Handler isr s
      else if c = EZHV_EnableArm2EzhvInt_MEI then MachineExtInt_Handler isr s else Some s)"

lemma ez_notified:
  assumes "v = 0x18 \<or> v = 0x19"
  shows "\<exists>c. m33_notify_calls False CM33_0 v = [c] \<and> ez_taken c isr s = isr v s"
  using assms
  by (auto simp: m33_notify_calls_def m33_mu_def RL_GET_COM_ID_def RL_GET_Q_ID_def ez_taken_def Let_def
      MachineSoftInt_Handler_def MachineExtInt_Handler_def)

end
